(* ===== verification/Prelude.thy ===== *)
theory Prelude
  imports Complex_Main "HOL-Library.Word" "HOL-Library.Signed_Division"
begin

text \<open>
  What the components share: the parts of the Go language and of its standard library that the
  sources use (64-bit integers, \<open>time.Time\<close> and \<open>time.Duration\<close>, byte strings, error values),
  the generic lemmas on lists and maps, and the collections of simplification rules.

  Conventions.
  \<^item> A \<open>time.Time\<close> is the number of nanoseconds since Go's zero time (1 January of year 1, UTC),
    so \<open>IsZero\<close> is \<open>t = 0\<close>. Monotonic clock readings and time zones are not modelled.
  \<^item> A \<open>time.Duration\<close> is its \<open>int64\<close> number of nanoseconds, written as an \<open>int\<close>;
    \<open>Time.Sub\<close> saturates as the library does, and products of durations wrap (\<open>wrap64\<close>).
  \<^item> An \<open>int64\<close> read from Oracle is a \<open>64 word\<close>: \<open>+\<close> and \<open>-\<close> wrap, comparisons go
    through \<open>sint\<close>.
  \<^item> A Go string is a list of bytes (\<open>char list\<close>). \<open>ToLower\<close>, \<open>ToUpper\<close> and \<open>TrimSpace\<close>
    are modelled on ASCII, which is all the identifiers and markers of the sources use.
  \<^item> A \<open>float64\<close> that the code only passes on (a value of a query) is its IEEE 754 bit
    pattern, a \<open>64 word\<close>. A \<open>float64\<close> that the code computes is a number of seconds: it is
    the exact rational, rounding is not modelled and no property depends on it.
  \<^item> A nil-able pointer is an \<open>option\<close>, a Go map is a partial function \<open>'k \<rightharpoonup> 'v\<close>, and an
    iteration over a Go map takes the list of its entries in the order the runtime chose.
\<close>

named_theorems go_defs \<open>definitions of Go library functions, to be unfolded\<close>
named_theorems go_arith \<open>facts on saturating and wrapping 64-bit arithmetic\<close>

section \<open>Integers, times and durations\<close>

type_synonym int64 = "64 word"
type_synonym float64 = "64 word"
type_synonym time = int
type_synonym duration = int

definition max_int64 :: int where "max_int64 = 9223372036854775807"
definition min_int64 :: int where "min_int64 = - 9223372036854775808"

definition sat64 :: "int \<Rightarrow> int" where
  "sat64 x = (if x > max_int64 then max_int64 else if x < min_int64 then min_int64 else x)"

definition wrap64 :: "int \<Rightarrow> int" where
  "wrap64 x = (x + 9223372036854775808) mod 18446744073709551616 - 9223372036854775808"

definition in_int64 :: "int \<Rightarrow> bool" where
  "in_int64 x \<longleftrightarrow> min_int64 \<le> x \<and> x \<le> max_int64"

lemmas int64_bounds_defs = max_int64_def min_int64_def in_int64_def
declare int64_bounds_defs [go_defs]

lemma in_int64_sat64 [go_arith, simp]: "in_int64 (sat64 x)"
  by (simp add: sat64_def int64_bounds_defs)

lemma sat64_id [go_arith]: "in_int64 x \<Longrightarrow> sat64 x = x"
  by (simp add: sat64_def int64_bounds_defs)

lemma sat64_mono: "x \<le> y \<Longrightarrow> sat64 x \<le> sat64 y"
  by (simp add: sat64_def int64_bounds_defs)

lemma sat64_nonneg_iff [go_arith, simp]: "0 \<le> sat64 x \<longleftrightarrow> 0 \<le> x"
  by (simp add: sat64_def int64_bounds_defs)

lemma sat64_pos_iff [go_arith, simp]: "0 < sat64 x \<longleftrightarrow> 0 < x"
  by (simp add: sat64_def int64_bounds_defs)

lemma sat64_le: "0 \<le> x \<Longrightarrow> sat64 x \<le> x"
  by (simp add: sat64_def int64_bounds_defs)

lemma in_int64_wrap64 [go_arith, simp]: "in_int64 (wrap64 x)"
  using pos_mod_bound [of 18446744073709551616 "x + 9223372036854775808"]
    pos_mod_sign [of 18446744073709551616 "x + 9223372036854775808"]
  by (auto simp add: wrap64_def int64_bounds_defs)

lemma wrap64_id [go_arith]: "in_int64 x \<Longrightarrow> wrap64 x = x"
  by (simp add: wrap64_def int64_bounds_defs)

text \<open>Constants of package \<open>time\<close>.\<close>

abbreviation millisecond :: duration where "millisecond \<equiv> 1000000"
abbreviation second :: duration where "second \<equiv> 1000000000"
abbreviation minute :: duration where "minute \<equiv> 60000000000"
abbreviation hour :: duration where "hour \<equiv> 3600000000000"

definition time_sub :: "time \<Rightarrow> time \<Rightarrow> duration" where
  "time_sub t u = sat64 (t - u)"

definition time_add :: "time \<Rightarrow> duration \<Rightarrow> time" where
  "time_add t d = t + d"

definition is_zero_time :: "time \<Rightarrow> bool" where
  "is_zero_time t \<longleftrightarrow> t = 0"

definition time_after :: "time \<Rightarrow> time \<Rightarrow> bool" where
  "time_after t u \<longleftrightarrow> t > u"

definition time_before :: "time \<Rightarrow> time \<Rightarrow> bool" where
  "time_before t u \<longleftrightarrow> t < u"

lemmas time_defs = time_sub_def time_add_def is_zero_time_def time_after_def time_before_def
declare time_defs [go_defs]

text \<open>\<open>Duration.Seconds\<close> and \<open>Duration.Microseconds\<close>; Go's integer division truncates.\<close>

definition duration_seconds :: "duration \<Rightarrow> rat" where
  "duration_seconds d = of_int d / 1000000000"

definition duration_microseconds :: "duration \<Rightarrow> int" where
  "duration_microseconds d = d sdiv 1000"

lemma duration_seconds_nonneg [simp]: "0 \<le> duration_seconds d \<longleftrightarrow> 0 \<le> d"
  by (simp add: duration_seconds_def zero_le_divide_iff)

lemma duration_seconds_less_0 [simp]: "duration_seconds d < 0 \<longleftrightarrow> d < 0"
  by (simp add: duration_seconds_def divide_less_0_iff)

lemma sdiv_nonneg [go_arith]: "0 \<le> (a::int) \<Longrightarrow> 0 < b \<Longrightarrow> a sdiv b = a div b"
  by (cases "a = 0") (simp_all add: signed_divide_int_def)

text \<open>Signed reading of an \<open>int64\<close> word: a subtraction without overflow.\<close>

lemma sint_range64: "- 9223372036854775808 \<le> sint (w :: int64) \<and> sint w \<le> 9223372036854775807"
  using sint_greater_eq [of w] sint_lt [of w] by simp

lemma wrap64_word: "wrap64 x = sint (word_of_int x :: int64)"
  by (simp add: wrap64_def sint_sbintrunc' signed_take_bit_eq_take_bit_shift take_bit_eq_mod)

lemma sint_minus64: "sint (a - b :: int64) = wrap64 (sint a - sint b)"
  by (simp add: wrap64_word)

lemma sint_plus64: "sint (a + b :: int64) = wrap64 (sint a + sint b)"
  by (simp add: wrap64_word)

lemma sint_minus64_exact:
  assumes "0 \<le> sint (b :: int64)" and "sint b \<le> sint a"
  shows "sint (a - b) = sint a - sint b"
  using assms sint_range64 [of a] by (simp add: sint_minus64 wrap64_id int64_bounds_defs)

section \<open>Byte strings\<close>

definition byte_of :: "char \<Rightarrow> nat" where "byte_of c = of_char c"

definition lower_char :: "char \<Rightarrow> char" where
  "lower_char c = (if 65 \<le> byte_of c \<and> byte_of c \<le> 90 then char_of (byte_of c + 32) else c)"

definition upper_char :: "char \<Rightarrow> char" where
  "upper_char c = (if 97 \<le> byte_of c \<and> byte_of c \<le> 122 then char_of (byte_of c - 32) else c)"

definition to_lower :: "string \<Rightarrow> string" where "to_lower s = map lower_char s"
definition to_upper :: "string \<Rightarrow> string" where "to_upper s = map upper_char s"

lemma byte_of_lower: "byte_of (lower_char c) =
    (if 65 \<le> byte_of c \<and> byte_of c \<le> 90 then byte_of c + 32 else byte_of c)"
  by (simp add: lower_char_def byte_of_def)

lemma lower_char_idem [simp]: "lower_char (lower_char c) = lower_char c"
proof -
  have "\<not> (65 \<le> byte_of (lower_char c) \<and> byte_of (lower_char c) \<le> 90)"
    by (auto simp: byte_of_lower)
  then show ?thesis using lower_char_def [of "lower_char c"] by presburger
qed

lemma to_lower_idem [simp]: "to_lower (to_lower s) = to_lower s"
  by (simp add: to_lower_def comp_def)

lemma to_lower_Nil [simp]: "to_lower [] = []"
  by (simp add: to_lower_def)

lemma to_lower_eq_Nil [simp]: "to_lower s = [] \<longleftrightarrow> s = []"
  by (simp add: to_lower_def)

lemma length_to_lower [simp]: "length (to_lower s) = length s"
  by (simp add: to_lower_def)

definition is_space :: "char \<Rightarrow> bool" where
  "is_space c \<longleftrightarrow> (9 \<le> byte_of c \<and> byte_of c \<le> 13) \<or> byte_of c = 32"

definition trim_left :: "string \<Rightarrow> string" where "trim_left s = dropWhile is_space s"
definition trim_space :: "string \<Rightarrow> string" where
  "trim_space s = rev (dropWhile is_space (rev (dropWhile is_space s)))"

text \<open>\<open>strings.TrimRight(s, "\r\n")\<close>.\<close>

definition trim_right_crlf :: "string \<Rightarrow> string" where
  "trim_right_crlf s = rev (dropWhile (\<lambda>c. byte_of c = 13 \<or> byte_of c = 10) (rev s))"

lemma trim_space_Nil [simp]: "trim_space [] = []"
  by (simp add: trim_space_def)

definition has_prefix :: "string \<Rightarrow> string \<Rightarrow> bool" where
  "has_prefix p s \<longleftrightarrow> take (length p) s = p"

definition has_suffix :: "string \<Rightarrow> string \<Rightarrow> bool" where
  "has_suffix p s \<longleftrightarrow> has_prefix (rev p) (rev s)"

fun str_contains :: "string \<Rightarrow> string \<Rightarrow> bool" where
  "str_contains [] sub = (sub = [])"
| "str_contains (c # cs) sub = (has_prefix sub (c # cs) \<or> str_contains cs sub)"

lemma has_prefix_append [simp]: "has_prefix p (p @ s)"
  by (simp add: has_prefix_def)

lemma has_prefix_iff: "has_prefix p s \<longleftrightarrow> (\<exists>r. s = p @ r)"
  by (metis append_eq_conv_conj append_take_drop_id has_prefix_def)

lemma str_contains_iff: "str_contains s sub \<longleftrightarrow> (\<exists>u v. s = u @ sub @ v)"
proof (induction s)
  case Nil
  then show ?case by auto
next
  case (Cons c cs)
  show ?case
  proof
    assume "str_contains (c # cs) sub"
    then consider "has_prefix sub (c # cs)" | "str_contains cs sub" by auto
    then show "\<exists>u v. c # cs = u @ sub @ v"
    proof cases
      case 1
      then obtain r where "c # cs = [] @ sub @ r" by (auto simp: has_prefix_iff)
      then show ?thesis by blast
    next
      case 2
      then obtain u v where "c # cs = (c # u) @ sub @ v" using Cons.IH by auto
      then show ?thesis by blast
    qed
  next
    assume "\<exists>u v. c # cs = u @ sub @ v"
    then obtain u v where uv: "c # cs = u @ sub @ v" by blast
    show "str_contains (c # cs) sub"
    proof (cases u)
      case Nil
      with uv have "has_prefix sub (c # cs)" by (simp add: has_prefix_iff)
      then show ?thesis by simp
    next
      case (Cons a u')
      with uv Cons.IH show ?thesis by auto
    qed
  qed
qed

text \<open>\<open>strings.Split\<close> on one byte, and \<open>strings.Join\<close>.\<close>

fun split_on :: "char \<Rightarrow> string \<Rightarrow> string list" where
  "split_on c [] = [[]]"
| "split_on c (x # xs) =
    (if x = c then [] # split_on c xs
     else case split_on c xs of [] \<Rightarrow> [[x]] | p # ps \<Rightarrow> (x # p) # ps)"

fun join_with :: "string \<Rightarrow> string list \<Rightarrow> string" where
  "join_with sep [] = []"
| "join_with sep [s] = s"
| "join_with sep (s # t # ss) = s @ sep @ join_with sep (t # ss)"

lemma split_on_nonempty [simp]: "split_on c s \<noteq> []"
  by (induction s) (auto split: list.splits)

lemma join_split: "join_with [c] (split_on c s) = s"
proof (induction s)
  case Nil
  then show ?case by simp
next
  case (Cons x xs)
  then show ?case by (cases "split_on c xs"; cases "tl (split_on c xs)") (auto split: list.splits)
qed

lemma split_on_no_sep: "p \<in> set (split_on c s) \<Longrightarrow> c \<notin> set p"
  by (induction s arbitrary: p) (auto split: if_splits list.splits)

lemma split_on_append: "c \<notin> set p \<Longrightarrow> split_on c (p @ c # s) = p # split_on c s"
  by (induction p) auto

lemma split_on_single: "c \<notin> set p \<Longrightarrow> split_on c p = [p]"
  by (induction p) auto

text \<open>Decimal notation, as \<open>%d\<close> prints a non-negative number.\<close>

fun dec_of_nat :: "nat \<Rightarrow> string" where
  "dec_of_nat n = (if n < 10 then [char_of (n + 48)]
                   else dec_of_nat (n div 10) @ [char_of (n mod 10 + 48)])"

declare dec_of_nat.simps [simp del]

lemma dec_of_nat_nonempty [simp]: "dec_of_nat n \<noteq> []"
  by (subst dec_of_nat.simps) simp

section \<open>Errors\<close>

text \<open>
  A Go \<open>error\<close> is a \<open>go_error option\<close>, with nil as \<open>None\<close>. A value is a tree: \<open>ErrWrap\<close> is
  \<open>fmt.Errorf("prefix: %w", err)\<close> and \<open>ErrJoin\<close> is \<open>errors.Join\<close>. The leaves are the library's
  sentinel values, a network error, a plain text, and the pointers \<open>newZeroResultError\<close> returns,
  each with the identity of its allocation.
\<close>

datatype go_error =
    ErrText string
  | ErrWrap string go_error
  | ErrJoin "go_error list"
  | ErrDeadlineExceeded
  | ErrCanceled
  | ErrBadConn
  | ErrConnDone
  | ErrSessionNotInit
  | ErrNet string
  | ErrZeroResult nat

type_synonym 'a result = "go_error + 'a"

fun err_message :: "go_error \<Rightarrow> string" where
  "err_message (ErrText s) = s"
| "err_message (ErrWrap p e) = p @ '': '' @ err_message e"
| "err_message (ErrJoin es) = join_with [CHR 0x0A] (map err_message es)"
| "err_message ErrDeadlineExceeded = ''context deadline exceeded''"
| "err_message ErrCanceled = ''context canceled''"
| "err_message ErrBadConn = ''driver: bad connection''"
| "err_message ErrConnDone = ''sql: connection is already closed''"
| "err_message ErrSessionNotInit = ''database session is not initialized''"
| "err_message (ErrNet s) = s"
| "err_message (ErrZeroResult n) = ''no metrics found while parsing, query returned no rows''"

text \<open>\<open>errors.Is\<close>: equality with some node of the tree.\<close>

fun err_is :: "go_error \<Rightarrow> go_error \<Rightarrow> bool" where
  "err_is (ErrWrap p e) target = (ErrWrap p e = target \<or> err_is e target)"
| "err_is (ErrJoin es) target = (ErrJoin es = target \<or> (\<exists>e \<in> set es. err_is e target))"
| "err_is e target = (e = target)"

text \<open>\<open>errors.As\<close> with a \<open>net.Error\<close> target: \<open>context.DeadlineExceeded\<close> implements it too.\<close>

fun err_as_net :: "go_error \<Rightarrow> bool" where
  "err_as_net (ErrWrap p e) = err_as_net e"
| "err_as_net (ErrJoin es) = (\<exists>e \<in> set es. err_as_net e)"
| "err_as_net (ErrNet s) = True"
| "err_as_net ErrDeadlineExceeded = True"
| "err_as_net e = False"

text \<open>\<open>errors.Join\<close>: nil when every argument is nil.\<close>

definition errors_join :: "go_error option list \<Rightarrow> go_error option" where
  "errors_join es = (let errs = List.map_filter id es in if errs = [] then None else Some (ErrJoin errs))"

lemma errors_join_None [simp]: "errors_join es = None \<longleftrightarrow> (\<forall>e \<in> set es. e = None)"
  by (auto simp: errors_join_def Let_def map_filter_def filter_empty_conv)

lemma errors_join_Nil [simp]: "errors_join [] = None"
  by simp

section \<open>Lists and maps\<close>

text \<open>The entries of a Go map in some iteration order.\<close>

definition enumerates :: "('k \<times> 'v) list \<Rightarrow> ('k \<rightharpoonup> 'v) \<Rightarrow> bool" where
  "enumerates kvs m \<longleftrightarrow> distinct (map fst kvs) \<and> map_of kvs = m"

lemma enumerates_mem: "enumerates kvs m \<Longrightarrow> (k, v) \<in> set kvs \<longleftrightarrow> m k = Some v"
  by (auto simp: enumerates_def)

lemma enumerates_set: "enumerates kvs m \<Longrightarrow> enumerates kvs' m \<Longrightarrow> set kvs = set kvs'"
  by (auto simp: enumerates_mem)

lemma enumerates_distinct: "enumerates kvs m \<Longrightarrow> distinct kvs"
  by (auto simp: enumerates_def distinct_map)

lemma list_all_filter_map: "list_all P (map f xs) \<longleftrightarrow> (\<forall>x \<in> set xs. P (f x))"
  by (auto simp: list_all_iff)

lemma sum_list_map_length_concat: "length (concat xss) = sum_list (map length xss)"
  by (simp add: length_concat)

text \<open>Appending struct by struct adds up the counts.\<close>

lemma foldl_count_gen:
  assumes "\<And>p d. c (f p d) = c p + (c d :: nat)"
  shows "c (foldl f z xs) = c z + sum_list (map c xs)"
  by (induction xs arbitrary: z) (simp_all add: assms)

section \<open>Decimal digits\<close>

definition is_digit :: "char \<Rightarrow> bool" where
  "is_digit c \<longleftrightarrow> 48 \<le> byte_of c \<and> byte_of c \<le> 57"

definition digit_value :: "char \<Rightarrow> nat" where
  "digit_value c = byte_of c - 48"

definition digits_value :: "string \<Rightarrow> nat" where
  "digits_value s = foldl (\<lambda>a c. 10 * a + digit_value c) 0 s"

lemma byte_of_digit: "(k :: nat) < 10 \<Longrightarrow> byte_of (char_of (k + 48)) = k + 48"
  by (simp add: byte_of_def)

lemma is_digit_char [simp]: "(k :: nat) < 10 \<Longrightarrow> is_digit (char_of (k + 48))"
  by (simp add: is_digit_def byte_of_digit)

lemma digit_value_char [simp]: "(k :: nat) < 10 \<Longrightarrow> digit_value (char_of (k + 48)) = k"
  by (simp add: digit_value_def byte_of_digit)

lemma dec_of_nat_digits: "list_all is_digit (dec_of_nat n) \<and> digits_value (dec_of_nat n) = n"
proof (induction n rule: dec_of_nat.induct)
  case (1 n)
  show ?case
  proof (cases "n < 10")
    case True
    then show ?thesis by (subst (1 2) dec_of_nat.simps) (simp add: digits_value_def)
  next
    case False
    then show ?thesis using 1 by (subst (1 2) dec_of_nat.simps) (simp add: digits_value_def)
  qed
qed

end
