(* ===== verification/Vaults.thy ===== *)
theory Vaults
  imports Prelude
begin

text \<open>
  The three vault clients: \<open>ocivault/ocivault.go\<close>, \<open>azvault/azvault.go\<close> and
  \<open>hashivault/hashivault.go\<close>. The cloud SDKs and the HashiCorp client are not part of the
  repository: every call to them is an argument of the definitions here. What the code does around
  those calls is translated: the choice of an authentication mode, the choice of a mount, the
  copying and trimming of the secret, the required keys, and every error return.
\<close>


text \<open>\<open>fmt\<close>'s \<open>%q\<close>, without its escapes: it is used for error texts only.\<close>

definition go_quote :: "string \<Rightarrow> string" where
  "go_quote s = [CHR 0x22] @ s @ [CHR 0x22]"

section \<open>OCI Vault\<close>

datatype AuthProvider = DefaultConfig | InstancePrincipal | ResourcePrincipal | WorkloadIdentity

definition AuthModeConfigFile :: string where "AuthModeConfigFile = ''config_file''"
definition AuthModeInstancePrincipal :: string where
  "AuthModeInstancePrincipal = ''instance_principal''"
definition AuthModeResourcePrincipal :: string where
  "AuthModeResourcePrincipal = ''resource_principal''"
definition AuthModeWorkloadIdentity :: string where
  "AuthModeWorkloadIdentity = ''workload_identity''"

lemmas auth_mode_defs = AuthModeConfigFile_def AuthModeInstancePrincipal_def
  AuthModeResourcePrincipal_def AuthModeWorkloadIdentity_def

definition AcceptedAuthModes :: "string list" where
  "AcceptedAuthModes = [AuthModeConfigFile, AuthModeInstancePrincipal,
     AuthModeResourcePrincipal, AuthModeWorkloadIdentity]"

definition normalizeAuthMode :: "string \<Rightarrow> string" where
  "normalizeAuthMode authMode =
     (let mode = to_lower (trim_space authMode)
      in if mode = [] then AuthModeConfigFile else mode)"

definition ValidateAuthMode :: "string \<Rightarrow> go_error option" where
  "ValidateAuthMode authMode =
     (if normalizeAuthMode authMode \<in> {AuthModeConfigFile, AuthModeInstancePrincipal,
           AuthModeResourcePrincipal, AuthModeWorkloadIdentity}
      then None
      else Some (ErrText (''unsupported OCI Vault auth mode '' @ go_quote authMode @
             ''; accepted values are: '' @ join_with '', '' AcceptedAuthModes)))"

definition configurationProviderForAuthMode :: "string \<Rightarrow> AuthProvider" where
  "configurationProviderForAuthMode authMode =
     (let mode = normalizeAuthMode authMode in
      if mode = AuthModeConfigFile then DefaultConfig
      else if mode = AuthModeInstancePrincipal then InstancePrincipal
      else if mode = AuthModeResourcePrincipal then ResourcePrincipal
      else if mode = AuthModeWorkloadIdentity then WorkloadIdentity
      else DefaultConfig)"

text \<open>The content of a secret bundle as the SDK types it: base64 content that may be nil, or other.\<close>

datatype SecretBundleContent = Base64Content "string option" | OtherContent string

definition getSecretFromBase64 ::
    "(string \<Rightarrow> string result) \<Rightarrow> SecretBundleContent \<Rightarrow> string result" where
  "getSecretFromBase64 decodeString content =
     (case content of
        OtherContent t \<Rightarrow>
          Inl (ErrText (''unsupported OCI Vault secret bundle content type '' @ t))
      | Base64Content None \<Rightarrow> Inl (ErrText ''OCI Vault secret bundle content is empty'')
      | Base64Content (Some c) \<Rightarrow>
          (case decodeString c of
             Inl err \<Rightarrow> Inl (ErrWrap ''decode OCI Vault secret content'' err)
           | Inr secretBytes \<Rightarrow> Inr secretBytes))"

text \<open>
  \<open>GetVaultSecret\<close>: \<open>provide\<close> runs the constructor of a configuration provider, \<open>newClient\<close>
  the SDK's client constructor and \<open>fetch\<close> its request by name.
\<close>

definition OCI_GetVaultSecret ::
    "(AuthProvider \<Rightarrow> 'p result) \<Rightarrow> ('p \<Rightarrow> 'c result) \<Rightarrow>
     ('c \<Rightarrow> string \<Rightarrow> string \<Rightarrow> SecretBundleContent result) \<Rightarrow> (string \<Rightarrow> string result) \<Rightarrow>
     string \<Rightarrow> string \<Rightarrow> string \<Rightarrow> string result" where
  "OCI_GetVaultSecret provide newClient fetch decodeString vaultId secretName authMode =
     (case provide (configurationProviderForAuthMode authMode) of
        Inl err \<Rightarrow> Inl err
      | Inr configProvider \<Rightarrow>
     (case newClient configProvider of
        Inl err \<Rightarrow> Inl (ErrWrap ''create OCI Vault client'' err)
      | Inr client \<Rightarrow>
     (case fetch client secretName vaultId of
        Inl err \<Rightarrow> Inl (ErrWrap (''fetch OCI Vault secret '' @ go_quote secretName @
                     '' from vault '' @ go_quote vaultId) err)
      | Inr resp \<Rightarrow>
     (case getSecretFromBase64 decodeString resp of
        Inl err \<Rightarrow> Inl err
      | Inr rawSecret \<Rightarrow> Inr (trim_right_crlf rawSecret)))))"

section \<open>Azure Key Vault\<close>

definition AZ_GetVaultSecret ::
    "'r result \<Rightarrow> (string \<Rightarrow> 'r \<Rightarrow> 'c result) \<Rightarrow> ('c \<Rightarrow> string \<Rightarrow> string \<Rightarrow> string option result) \<Rightarrow>
     string \<Rightarrow> string \<Rightarrow> string result" where
  "AZ_GetVaultSecret credential newClient getSecret vaultId secretName =
     (let vaultURI = ''https://'' @ vaultId @ ''.vault.azure.net/'' in
     case credential of
        Inl err \<Rightarrow> Inl (ErrWrap ''obtain Azure credential'' err)
      | Inr cred \<Rightarrow>
     (case newClient vaultURI cred of
        Inl err \<Rightarrow> Inl (ErrWrap (''create Azure Secrets client for vault '' @ go_quote vaultId) err)
      | Inr client \<Rightarrow>
     (case getSecret client secretName [] of
        Inl err \<Rightarrow> Inl (ErrWrap (''fetch Azure Vault secret '' @ go_quote secretName @
                     '' from vault '' @ go_quote vaultId) err)
      | Inr None \<Rightarrow> Inl (ErrText (''Azure Vault secret '' @ go_quote secretName @
                     '' from vault '' @ go_quote vaultId @ '' has no value''))
      | Inr (Some v) \<Rightarrow> Inr (trim_right_crlf v))))"

section \<open>HashiCorp Vault\<close>

definition MountTypeKVv1 :: string where "MountTypeKVv1 = ''kvv1''"
definition MountTypeKVv2 :: string where "MountTypeKVv2 = ''kvv2''"
definition MountTypeDatabase :: string where "MountTypeDatabase = ''database''"
definition MountTypeLogical :: string where "MountTypeLogical = ''logical''"

lemmas mount_type_defs = MountTypeKVv1_def MountTypeKVv2_def MountTypeDatabase_def
  MountTypeLogical_def

definition UnsupportedMountType :: go_error where
  "UnsupportedMountType = ErrText ''Unsupported HashiCorp Vault mount type''"
definition RequiredKeyMissing :: go_error where
  "RequiredKeyMissing = ErrText ''Required key missing from HashiCorp Vault secret''"
definition SecretNotFound :: go_error where
  "SecretNotFound = ErrText ''HashiCorp Vault secret not found''"

text \<open>A value of a secret: a Go string or a value of another dynamic type, which is skipped.\<close>

datatype VaultValue = VString string | VOther

type_synonym secret_data = "(string \<times> VaultValue) list"

fun copyStringSecretData ::
    "(string \<rightharpoonup> string) \<Rightarrow> secret_data \<Rightarrow> (string \<rightharpoonup> string)" where
  "copyStringSecretData result [] = result"
| "copyStringSecretData result ((key, VString s) # rest) =
     copyStringSecretData (result(key \<mapsto> trim_right_crlf s)) rest"
| "copyStringSecretData result ((key, VOther) # rest) = copyStringSecretData result rest"

text \<open>
  The reads of the client: \<open>kvv1\<close> and \<open>kvv2\<close> take mount and path, \<open>logical\<close> takes the whole
  path. Each returns an error, no secret (nil), or the data of the secret.
\<close>

record vault_client =
  vcKVv1 :: "string \<Rightarrow> string \<Rightarrow> secret_data option result"
  vcKVv2 :: "string \<Rightarrow> string \<Rightarrow> secret_data option result"
  vcLogical :: "string \<Rightarrow> secret_data option result"

text \<open>
  The settings of the client for a Unix socket; without a socket the client takes those of its environment
  (\<open>None\<close>). \<open>new_client\<close> is the client library.
\<close>

record vault_settings =
  vsSocket :: string
  vsAddress :: string
  vsTimeout :: duration
  vsMinRetryWait :: duration
  vsMaxRetryWait :: duration
  vsMaxRetries :: nat

definition newUnixSocketVaultClient :: "(vault_settings option \<Rightarrow> vault_client result) \<Rightarrow> string \<Rightarrow> vault_client result" where
  "newUnixSocketVaultClient new_client socketPath =
     new_client (Some \<lparr>vsSocket = socketPath, vsAddress = ''http://unix'', vsTimeout = 10 * second,
       vsMinRetryWait = 1000 * millisecond, vsMaxRetryWait = 1500 * millisecond, vsMaxRetries = 2\<rparr>)"

definition newDefaultVaultClient :: "(vault_settings option \<Rightarrow> vault_client result) \<Rightarrow> vault_client result" where
  "newDefaultVaultClient new_client = new_client None"

definition createVaultClient :: "(vault_settings option \<Rightarrow> vault_client result) \<Rightarrow> string \<Rightarrow> vault_client result" where
  "createVaultClient new_client socketPath =
     (if socketPath = [] then newDefaultVaultClient new_client
      else newUnixSocketVaultClient new_client socketPath)"

definition not_found :: "string \<Rightarrow> go_error" where
  "not_found location = ErrText (err_message SecretNotFound @ '': '' @ location)"

definition read_secret ::
    "vault_client \<Rightarrow> string \<Rightarrow> string \<Rightarrow> string \<Rightarrow> secret_data result" where
  "read_secret c mountType mount path =
     (if mountType = MountTypeKVv1 \<or> mountType = MountTypeKVv2 then
        (case (if mountType = MountTypeKVv2 then vcKVv2 c mount path else vcKVv1 c mount path) of
           Inl err \<Rightarrow> Inl err
         | Inr None \<Rightarrow> Inl (not_found (mount @ ''/'' @ path))
         | Inr (Some secretData) \<Rightarrow> Inr secretData)
      else if mountType = MountTypeDatabase \<or> mountType = MountTypeLogical then
        (let secretPath = (if mountType = MountTypeDatabase then mount @ ''/creds/'' @ path
                           else mount @ ''/'' @ path)
         in case vcLogical c secretPath of
           Inl err \<Rightarrow> Inl err
         | Inr None \<Rightarrow> Inl (not_found secretPath)
         | Inr (Some secretData) \<Rightarrow> Inr secretData)
      else Inl UnsupportedMountType)"

definition key_present :: "(string \<rightharpoonup> string) \<Rightarrow> string \<Rightarrow> bool" where
  "key_present result key \<longleftrightarrow> (case result key of None \<Rightarrow> False | Some val \<Rightarrow> val \<noteq> [])"

definition Hashi_GetVaultSecret ::
    "vault_client \<Rightarrow> string \<Rightarrow> string \<Rightarrow> string \<Rightarrow> string list \<Rightarrow> (string \<rightharpoonup> string) result" where
  "Hashi_GetVaultSecret c mountType mount path requiredKeys =
     (case read_secret c mountType mount path of
        Inl err \<Rightarrow> Inl err
      | Inr secretData \<Rightarrow>
          (let result = copyStringSecretData Map.empty secretData in
           if list_all (key_present result) requiredKeys then Inr result
           else Inl RequiredKeyMissing))"

section \<open>Properties\<close>

lemma ValidateAuthMode_None_iff:
  "ValidateAuthMode m = None \<longleftrightarrow> normalizeAuthMode m \<in> set AcceptedAuthModes"
  by (auto simp: ValidateAuthMode_def AcceptedAuthModes_def)

text \<open>An accepted mode selects the provider of its name: the fallback is never taken.\<close>

lemma accepted_mode_provider:
  assumes "ValidateAuthMode m = None"
  shows "configurationProviderForAuthMode m =
    the (map_of [(AuthModeConfigFile, DefaultConfig), (AuthModeInstancePrincipal, InstancePrincipal),
      (AuthModeResourcePrincipal, ResourcePrincipal), (AuthModeWorkloadIdentity, WorkloadIdentity)]
      (normalizeAuthMode m))"
  using assms by (auto simp: ValidateAuthMode_def configurationProviderForAuthMode_def Let_def
      split: if_splits)

definition ends_with_newline :: "string \<Rightarrow> bool" where
  "ends_with_newline s \<longleftrightarrow> s \<noteq> [] \<and> (byte_of (last s) = 13 \<or> byte_of (last s) = 10)"

lemma trim_right_crlf_clean: "\<not> ends_with_newline (trim_right_crlf s)"
proof -
  let ?p = "\<lambda>c. byte_of c = 13 \<or> byte_of c = 10"
  have "dropWhile ?p (rev s) \<noteq> [] \<Longrightarrow> \<not> ?p (hd (dropWhile ?p (rev s)))"
    by (rule hd_dropWhile) (auto simp: dropWhile_eq_Nil_conv)
  then show ?thesis by (auto simp: ends_with_newline_def trim_right_crlf_def last_rev)
qed

definition clean_values :: "(string \<rightharpoonup> string) \<Rightarrow> bool" where
  "clean_values m \<longleftrightarrow> (\<forall>k v. m k = Some v \<longrightarrow> \<not> ends_with_newline v)"

lemma clean_values_upd: "clean_values m \<Longrightarrow> clean_values (m(k \<mapsto> trim_right_crlf s))"
  by (auto simp: clean_values_def trim_right_crlf_clean)

lemma copyStringSecretData_clean: "clean_values m \<Longrightarrow> clean_values (copyStringSecretData m xs)"
  by (induction m xs rule: copyStringSecretData.induct) (simp_all add: clean_values_upd)

text \<open>
  A successful \<open>GetVaultSecret\<close> of the HashiCorp client returns a map in which every required
  key has a non-empty value, and no value ends in a carriage return or a newline; an unknown mount
  type is rejected whatever the server would answer.
\<close>
theorem hashicorp_secret_complete:
  "(\<forall>result. Hashi_GetVaultSecret c mountType mount path requiredKeys = Inr result \<longrightarrow>
      (\<forall>k \<in> set requiredKeys. \<exists>v. result k = Some v \<and> v \<noteq> []) \<and>
      (\<forall>k v. result k = Some v \<longrightarrow> \<not> ends_with_newline v)) \<and>
   (mountType \<notin> {MountTypeKVv1, MountTypeKVv2, MountTypeDatabase, MountTypeLogical} \<longrightarrow>
      Hashi_GetVaultSecret c mountType mount path requiredKeys = Inl UnsupportedMountType)"
proof (intro conjI allI impI ballI)
  fix result k
  assume ok: "Hashi_GetVaultSecret c mountType mount path requiredKeys = Inr result"
  then obtain d where d: "result = copyStringSecretData Map.empty d"
    and all: "list_all (key_present result) requiredKeys"
    by (auto simp: Hashi_GetVaultSecret_def Let_def split: sum.splits if_splits)
  show "k \<in> set requiredKeys \<Longrightarrow> \<exists>v. result k = Some v \<and> v \<noteq> []"
    using all by (auto simp: list_all_iff key_present_def split: option.splits)
  fix v
  assume "result k = Some v"
  then show "\<not> ends_with_newline v"
    using d copyStringSecretData_clean [of Map.empty d] by (simp add: clean_values_def)
next
  assume "mountType \<notin> {MountTypeKVv1, MountTypeKVv2, MountTypeDatabase, MountTypeLogical}"
  then show "Hashi_GetVaultSecret c mountType mount path requiredKeys = Inl UnsupportedMountType"
    by (simp add: Hashi_GetVaultSecret_def read_secret_def)
qed

definition sample_vault :: vault_client where
  "sample_vault = \<lparr>vcKVv1 = (\<lambda>_ _. Inr None),
     vcKVv2 = (\<lambda>mount path. Inr (Some [(''username'', VString (''scott'' @ [CHR 0x0A])),
                 (''ttl'', VOther), (''password'', VString ''tiger'')])),
     vcLogical = (\<lambda>_. Inl ErrCanceled)\<rparr>"

lemma hashicorp_secret_complete_witness:
  "(\<exists>result. Hashi_GetVaultSecret sample_vault ''kvv2'' ''secret'' ''oracle'' [''username'', ''password'']
      = Inr result \<and> result ''username'' = Some ''scott'' \<and>
      (\<forall>k \<in> set [''username'', ''password'']. \<exists>v. result k = Some v \<and> v \<noteq> [])) \<and>
   Hashi_GetVaultSecret sample_vault ''kvv3'' ''secret'' ''oracle'' [] = Inl UnsupportedMountType"
proof -
  obtain result where r: "Hashi_GetVaultSecret sample_vault ''kvv2'' ''secret'' ''oracle''
      [''username'', ''password''] = Inr result" and u: "result ''username'' = Some ''scott''"
    by (simp add: Hashi_GetVaultSecret_def read_secret_def mount_type_defs sample_vault_def
        trim_right_crlf_def byte_of_def key_present_def)
  then show ?thesis
    using hashicorp_secret_complete [of sample_vault "''kvv2''" "''secret''" "''oracle''"
        "[''username'', ''password'']"]
      hashicorp_secret_complete [of sample_vault "''kvv3''" "''secret''" "''oracle''" "[]"]
    by (auto simp: mount_type_defs)
qed

end
