(* ===== verification/Config.thy ===== *)
theory Config
  imports Vaults
begin

text \<open>
  The configuration of \<open>collector/config.go\<close>: its structs, the getters with their defaults, the
  merge of defaults, the validation with every error text, and the resolution of database
  credentials through the password file and the vaults. A configuration pointer is an \<open>option\<close>.
  Reading a file, expanding \<open>$\<close> references and decoding YAML are arguments of
  \<open>LoadMetricsConfiguration\<close>; the vault reads are arguments of the credential getters, as they are
  package variables in the source.
\<close>

section \<open>Types\<close>

record HighAvailabilityConfig =
  haEnabled :: "bool option"
  haScope :: string
  haRetryInterval :: "duration option"
  haValidationInterval :: "duration option"

record WebConfig =
  webListenAddresses :: "string list option"
  webReadHeaderTimeout :: "duration option"
  webReadTimeout :: "duration option"
  webIdleTimeout :: "duration option"

record ConnectConfig =
  ccRole :: string
  ccTNSAdmin :: string
  ccExternalAuth :: bool
  ccConnMaxLifetime :: "duration option"
  ccConnMaxIdleTime :: "duration option"
  ccMaxOpenConns :: "int option"
  ccMaxIdleConns :: "int option"
  ccPoolIncrement :: "int option"
  ccPoolMaxConnections :: "int option"
  ccPoolMinConnections :: "int option"
  ccQueryTimeout :: "int option"

record OCIVault =
  ociID :: string
  ociAuth :: string
  ociUsernameSecret :: string
  ociPasswordSecret :: string

record AZVault =
  azID :: string
  azUsernameSecret :: string
  azPasswordSecret :: string

record HashiCorpVault =
  hvSocket :: string
  hvMountType :: string
  hvMountName :: string
  hvSecretPath :: string
  hvUsernameAttr :: string
  hvPasswordAttr :: string
  hvAsProxy :: string
  hvFetchedSecret :: "string \<rightharpoonup> string"

record VaultConfig =
  vaultOCI :: "OCIVault option"
  vaultAzure :: "AZVault option"
  vaultHashiCorp :: "HashiCorpVault option"

record DatabaseConfig =
  dcUsername :: string
  dcPassword :: string
  dcPasswordFile :: string
  dcURL :: string
  dcConnect :: ConnectConfig
  dcVault :: "VaultConfig option"
  dcLabels :: "(string \<times> string) list"

record DeadConnectionDetectionConfig =
  dcdEnabled :: "bool option"
  dcdInterval :: "duration option"
  dcdProbeTimeout :: "duration option"

record MetricsConfig =
  mcDatabaseLabel :: string
  mcDefinitions :: "string list"
  mcScrapeInterval :: "duration option"
  mcDeadConnectionDetection :: DeadConnectionDetectionConfig

record ActivityConfig =
  actSource :: string
  actInterval :: "duration option"
  actQueryTimeout :: "duration option"

record SQLPlanConfig =
  planEnabled :: "bool option"
  planInterval :: "duration option"
  planTopN :: "int option"
  planQueryTimeout :: "duration option"

record PerformanceConfig =
  perfActivity :: ActivityConfig
  perfSQLPlans :: SQLPlanConfig

record OperationalConfig =
  operEnabled :: "bool option"
  operInterval :: "duration option"
  operQueryTimeout :: "duration option"

record LoggingConfig =
  logDisableF :: "int option"
  logIntervalF :: "duration option"
  logDestinationF :: string
  logPerDatabaseFilesF :: "bool option"
  logLevel :: string
  logFormat :: string

record PostgreSQLConfig =
  pgURL :: string
  pgMaxConns :: "int option"
  pgMinConns :: "int option"
  pgConnMaxLifetime :: "duration option"
  pgRetention :: "duration option"
  pgAutoMigrate :: "bool option"
  pgSamplesTable :: string
  pgSQLSamplesTable :: string
  pgSessionSamplesTable :: string
  pgBlockingSessionsTable :: string
  pgDatabaseActivityTable :: string

record MetricsConfiguration =
  cfgListenAddress :: string
  cfgDatabases :: "(string \<times> DatabaseConfig) list"
  cfgMetrics :: MetricsConfig
  cfgOperational :: OperationalConfig
  cfgPerformance :: PerformanceConfig
  cfgHighAvailability :: HighAvailabilityConfig
  cfgPostgreSQL :: PostgreSQLConfig
  cfgLogging :: LoggingConfig
  cfgWeb :: WebConfig

text \<open>
  A Go map read from the file (\<open>Databases\<close>, \<open>Labels\<close>) is the list of its entries in the order an
  iteration visits them; the keys are distinct.
\<close>

section \<open>Getters\<close>

definition or_default :: "'a \<Rightarrow> 'a option \<Rightarrow> 'a" where
  "or_default d x = (case x of None \<Rightarrow> d | Some v \<Rightarrow> v)"

lemma or_default_simps [simp]: "or_default d None = d" "or_default d (Some v) = v"
  by (simp_all add: or_default_def)

definition HA_GetEnabled :: "HighAvailabilityConfig \<Rightarrow> bool" where
  "HA_GetEnabled c = or_default True (haEnabled c)"
definition HA_GetScope :: "HighAvailabilityConfig \<Rightarrow> string" where
  "HA_GetScope c = (if haScope c = [] then ''default'' else haScope c)"
definition HA_GetRetryInterval :: "HighAvailabilityConfig \<Rightarrow> duration" where
  "HA_GetRetryInterval c = or_default (5 * second) (haRetryInterval c)"
definition HA_GetValidationInterval :: "HighAvailabilityConfig \<Rightarrow> duration" where
  "HA_GetValidationInterval c = or_default (2 * second) (haValidationInterval c)"

definition DCD_GetEnabled :: "DeadConnectionDetectionConfig \<Rightarrow> bool" where
  "DCD_GetEnabled c = or_default True (dcdEnabled c)"
definition DCD_GetInterval :: "DeadConnectionDetectionConfig \<Rightarrow> duration" where
  "DCD_GetInterval c = or_default (5 * minute) (dcdInterval c)"
definition DCD_GetProbeTimeout :: "DeadConnectionDetectionConfig \<Rightarrow> duration" where
  "DCD_GetProbeTimeout c = or_default (5 * second) (dcdProbeTimeout c)"

definition Operational_GetEnabled :: "OperationalConfig \<Rightarrow> bool" where
  "Operational_GetEnabled c = or_default True (operEnabled c)"
definition Operational_GetInterval :: "OperationalConfig \<Rightarrow> duration" where
  "Operational_GetInterval c = or_default minute (operInterval c)"
definition Operational_GetQueryTimeout :: "OperationalConfig \<Rightarrow> duration" where
  "Operational_GetQueryTimeout c = or_default (10 * second) (operQueryTimeout c)"

definition Activity_GetSource :: "ActivityConfig \<Rightarrow> string" where
  "Activity_GetSource c = (if trim_space (actSource c) = [] then ''session'' else to_lower (actSource c))"
definition Activity_GetInterval :: "ActivityConfig \<Rightarrow> duration" where
  "Activity_GetInterval c = or_default (2 * second) (actInterval c)"
definition Activity_GetQueryTimeout :: "ActivityConfig \<Rightarrow> duration" where
  "Activity_GetQueryTimeout c = or_default (2 * second) (actQueryTimeout c)"

text \<open>The bound of \<open>topN\<close> (a constant of \<open>collector/performance.go\<close>).\<close>

definition topSQLLimit :: nat where "topSQLLimit = 100"

definition Plans_GetEnabled :: "SQLPlanConfig \<Rightarrow> bool" where
  "Plans_GetEnabled c = or_default True (planEnabled c)"
definition Plans_GetInterval :: "SQLPlanConfig \<Rightarrow> duration" where
  "Plans_GetInterval c = or_default (2 * minute) (planInterval c)"
definition Plans_GetTopN :: "SQLPlanConfig \<Rightarrow> int" where
  "Plans_GetTopN c = or_default 20 (planTopN c)"
definition Plans_GetQueryTimeout :: "SQLPlanConfig \<Rightarrow> duration" where
  "Plans_GetQueryTimeout c = or_default (10 * second) (planQueryTimeout c)"

definition PG_GetMaxConns :: "PostgreSQLConfig \<Rightarrow> int" where
  "PG_GetMaxConns p = or_default 4 (pgMaxConns p)"
definition PG_GetMinConns :: "PostgreSQLConfig \<Rightarrow> int" where
  "PG_GetMinConns p = or_default 0 (pgMinConns p)"
definition PG_GetConnMaxLifetime :: "PostgreSQLConfig \<Rightarrow> duration" where
  "PG_GetConnMaxLifetime p = or_default hour (pgConnMaxLifetime p)"
definition PG_GetRetention :: "PostgreSQLConfig \<Rightarrow> duration" where
  "PG_GetRetention p = or_default 0 (pgRetention p)"
definition PG_GetAutoMigrate :: "PostgreSQLConfig \<Rightarrow> bool" where
  "PG_GetAutoMigrate p = or_default True (pgAutoMigrate p)"

definition DatabaseLabel :: "MetricsConfiguration \<Rightarrow> string" where
  "DatabaseLabel m = (if mcDatabaseLabel (cfgMetrics m) = [] then ''database''
                      else mcDatabaseLabel (cfgMetrics m))"

text \<open>These four getters dereference a pointer: \<open>None\<close> is the nil dereference, a panic.\<close>

definition LogInterval :: "MetricsConfiguration \<Rightarrow> duration option" where
  "LogInterval m = logIntervalF (cfgLogging m)"
definition LogDisable :: "MetricsConfiguration \<Rightarrow> int option" where
  "LogDisable m = logDisableF (cfgLogging m)"
definition LogPerDatabaseFiles :: "MetricsConfiguration \<Rightarrow> bool" where
  "LogPerDatabaseFiles m = or_default False (logPerDatabaseFilesF (cfgLogging m))"
definition ScrapeInterval :: "MetricsConfiguration \<Rightarrow> duration option" where
  "ScrapeInterval m = mcScrapeInterval (cfgMetrics m)"
definition LogDestination :: "MetricsConfiguration \<Rightarrow> string" where
  "LogDestination m = logDestinationF (cfgLogging m)"

definition Web_GetReadHeaderTimeout :: "WebConfig \<Rightarrow> duration" where
  "Web_GetReadHeaderTimeout c = or_default (10 * second) (webReadHeaderTimeout c)"
definition Web_GetReadTimeout :: "WebConfig \<Rightarrow> duration" where
  "Web_GetReadTimeout c = or_default (30 * second) (webReadTimeout c)"
definition Web_GetIdleTimeout :: "WebConfig \<Rightarrow> duration" where
  "Web_GetIdleTimeout c = or_default (120 * second) (webIdleTimeout c)"

definition MetricDefinitionFiles :: "MetricsConfiguration \<Rightarrow> string list" where
  "MetricDefinitionFiles m = mcDefinitions (cfgMetrics m)"

definition GetMaxOpenConns :: "ConnectConfig \<Rightarrow> int" where
  "GetMaxOpenConns c = or_default 10 (ccMaxOpenConns c)"
definition GetMaxIdleConns :: "ConnectConfig \<Rightarrow> int" where
  "GetMaxIdleConns c = or_default 10 (ccMaxIdleConns c)"
definition GetConnMaxLifetime :: "ConnectConfig \<Rightarrow> duration" where
  "GetConnMaxLifetime c = or_default (30 * minute) (ccConnMaxLifetime c)"
definition GetConnMaxIdleTime :: "ConnectConfig \<Rightarrow> duration" where
  "GetConnMaxIdleTime c = or_default (5 * minute) (ccConnMaxIdleTime c)"
definition GetPoolMaxConnections :: "ConnectConfig \<Rightarrow> int" where
  "GetPoolMaxConnections c = or_default (-1) (ccPoolMaxConnections c)"
definition GetPoolMinConnections :: "ConnectConfig \<Rightarrow> int" where
  "GetPoolMinConnections c = or_default (-1) (ccPoolMinConnections c)"
definition GetPoolIncrement :: "ConnectConfig \<Rightarrow> int" where
  "GetPoolIncrement c = or_default (-1) (ccPoolIncrement c)"
definition GetQueryTimeout :: "ConnectConfig \<Rightarrow> int" where
  "GetQueryTimeout c = or_default 5 (ccQueryTimeout c)"

definition GetUsernameAttr :: "HashiCorpVault \<Rightarrow> string" where
  "GetUsernameAttr h = (if hvUsernameAttr h = [] \<or> hvMountType h = MountTypeDatabase
                        then ''username'' else hvUsernameAttr h)"
definition GetPasswordAttr :: "HashiCorpVault \<Rightarrow> string" where
  "GetPasswordAttr h = (if hvPasswordAttr h = [] \<or> hvMountType h = MountTypeDatabase
                        then ''password'' else hvPasswordAttr h)"

end
