(* ===== verification/ConfigValidation.thy ===== *)
theory ConfigValidation
  imports Config
begin

text \<open>
  Loading a configuration (\<open>collector/config.go\<close>): \<open>merge\<close> fills in the defaults the getters
  dereference, \<open>validate\<close> rejects the rest with the source's error texts. The theorems: merging is
  idempotent and leaves no nil pointer behind for the getters; an accepted configuration has
  positive intervals and timeouts wherever \<open>validate\<close> checks them; the scope check is exactly the
  pattern its error text names; and the two ticker intervals that no check covers.
\<close>

section \<open>Merge\<close>


definition mergeWebConfig :: "MetricsConfiguration \<Rightarrow> MetricsConfiguration" where
  "mergeWebConfig m = (if webListenAddresses (cfgWeb m) = None
     then m\<lparr>cfgWeb := (cfgWeb m)\<lparr>webListenAddresses := Some ['':9161'']\<rparr>\<rparr> else m)"

definition default_text :: "string \<Rightarrow> string \<Rightarrow> string" where
  "default_text d s = (if s = [] then d else s)"

definition mergeLoggingConfig :: "MetricsConfiguration \<Rightarrow> MetricsConfiguration" where
  "mergeLoggingConfig m = (let l = cfgLogging m in m\<lparr>cfgLogging := l\<lparr>
     logDisableF := Some (or_default 0 (logDisableF l)),
     logIntervalF := Some (or_default (15 * second) (logIntervalF l)),
     logPerDatabaseFilesF := Some (or_default False (logPerDatabaseFilesF l)),
     logDestinationF := default_text ''/log/alert.log'' (logDestinationF l),
     logLevel := default_text ''info'' (logLevel l),
     logFormat := default_text ''logfmt'' (logFormat l)\<rparr>\<rparr>)"

definition mergeOutputConfig :: "MetricsConfiguration \<Rightarrow> MetricsConfiguration" where
  "mergeOutputConfig m = (let p = cfgPostgreSQL m in m\<lparr>cfgPostgreSQL := p\<lparr>
     pgSamplesTable := default_text ''oracle_metric_samples'' (pgSamplesTable p),
     pgSQLSamplesTable := default_text ''oracle_sql_samples'' (pgSQLSamplesTable p),
     pgSessionSamplesTable := default_text ''oracle_session_samples'' (pgSessionSamplesTable p),
     pgBlockingSessionsTable :=
       default_text ''oracle_blocking_session_samples'' (pgBlockingSessionsTable p),
     pgDatabaseActivityTable :=
       default_text ''oracle_database_activity_samples'' (pgDatabaseActivityTable p)\<rparr>\<rparr>)"

definition merge :: "MetricsConfiguration \<Rightarrow> MetricsConfiguration" where
  "merge m = (let m' = mergeOutputConfig (mergeLoggingConfig (mergeWebConfig m))
     in m'\<lparr>cfgMetrics := (cfgMetrics m')\<lparr>
          mcScrapeInterval := Some (or_default 0 (mcScrapeInterval (cfgMetrics m')))\<rparr>\<rparr>)"

section \<open>Validation\<close>

definition validateDeadConnectionDetectionConfig :: "MetricsConfiguration \<Rightarrow> go_error option" where
  "validateDeadConnectionDetectionConfig m =
     (let c = mcDeadConnectionDetection (cfgMetrics m) in
      if \<not> DCD_GetEnabled c then None
      else if DCD_GetInterval c \<le> 0 then
        Some (ErrText ''metrics.deadConnectionDetection.interval must be greater than zero'')
      else if DCD_GetProbeTimeout c \<le> 0 then
        Some (ErrText ''metrics.deadConnectionDetection.probeTimeout must be greater than zero'')
      else None)"

definition alpha_numeric :: "char \<Rightarrow> bool" where
  "alpha_numeric r \<longleftrightarrow> (97 \<le> byte_of r \<and> byte_of r \<le> 122) \<or> (48 \<le> byte_of r \<and> byte_of r \<le> 57)"

definition scope_separator :: "char \<Rightarrow> bool" where
  "scope_separator r \<longleftrightarrow> r = CHR ''.'' \<or> r = CHR ''_'' \<or> r = CHR ''-''"

text \<open>The range loop over the scope: \<open>i\<close> is the byte index.\<close>

fun scope_characters :: "nat \<Rightarrow> string \<Rightarrow> bool" where
  "scope_characters i [] = True"
| "scope_characters i (r # rs) =
     (if alpha_numeric r \<or> (i > 0 \<and> scope_separator r) then scope_characters (Suc i) rs else False)"

definition validateHighAvailabilityConfig :: "MetricsConfiguration \<Rightarrow> go_error option" where
  "validateHighAvailabilityConfig m =
     (let c = cfgHighAvailability m; scope = HA_GetScope c in
      if \<not> HA_GetEnabled c then None
      else if length scope > 63 then
        Some (ErrText ''highAvailability.scope must not exceed 63 characters'')
      else if \<not> scope_characters 0 scope then
        Some (ErrText ''highAvailability.scope must match [a-z0-9][a-z0-9._-]{0,62}'')
      else if HA_GetRetryInterval c \<le> 0 then
        Some (ErrText ''highAvailability.retryInterval must be greater than zero'')
      else if HA_GetValidationInterval c \<le> 0 then
        Some (ErrText ''highAvailability.validationInterval must be greater than zero'')
      else None)"

definition validateOperationalConfig :: "MetricsConfiguration \<Rightarrow> go_error option" where
  "validateOperationalConfig m =
     (let c = cfgOperational m in
      if \<not> Operational_GetEnabled c then None
      else if Operational_GetInterval c \<le> 0 then
        Some (ErrText ''operational.interval must be greater than zero'')
      else if Operational_GetQueryTimeout c \<le> 0 then
        Some (ErrText ''operational.queryTimeout must be greater than zero'')
      else None)"

definition validatePerformanceConfig :: "MetricsConfiguration \<Rightarrow> go_error option" where
  "validatePerformanceConfig m =
     (let a = perfActivity (cfgPerformance m); p = perfSQLPlans (cfgPerformance m) in
      if Activity_GetSource a \<noteq> ''session'' \<and> Activity_GetSource a \<noteq> ''ash'' then
        Some (ErrText ''performance.activity.source must be session or ash'')
      else if Activity_GetInterval a \<le> 0 then
        Some (ErrText ''performance.activity.interval must be greater than zero'')
      else if Activity_GetQueryTimeout a \<le> 0 then
        Some (ErrText ''performance.activity.queryTimeout must be greater than zero'')
      else if \<not> Plans_GetEnabled p then None
      else if Plans_GetInterval p \<le> 0 then
        Some (ErrText ''performance.sqlPlans.interval must be greater than zero'')
      else if Plans_GetTopN p \<le> 0 \<or> Plans_GetTopN p > int topSQLLimit then
        Some (ErrText (''performance.sqlPlans.topN must be between 1 and '' @
                       dec_of_nat topSQLLimit))
      else if Plans_GetQueryTimeout p \<le> 0 then
        Some (ErrText ''performance.sqlPlans.queryTimeout must be greater than zero'')
      else None)"

text \<open>The loop over the databases, in the order the map iteration visits them.\<close>

fun validate_oci_auth :: "(string \<times> DatabaseConfig) list \<Rightarrow> go_error option" where
  "validate_oci_auth [] = None"
| "validate_oci_auth ((name, cfg) # rest) =
     (case dcVault cfg of
        None \<Rightarrow> validate_oci_auth rest
      | Some v \<Rightarrow>
          (case vaultOCI v of
             None \<Rightarrow> validate_oci_auth rest
           | Some oci \<Rightarrow>
               (case ValidateAuthMode (ociAuth oci) of
                  Some err \<Rightarrow> Some (ErrWrap (''database '' @ go_quote name) err)
                | None \<Rightarrow> validate_oci_auth rest)))"

definition validateOCIVaultAuth :: "MetricsConfiguration \<Rightarrow> go_error option" where
  "validateOCIVaultAuth m = validate_oci_auth (cfgDatabases m)"

definition validateLoggingConfig :: "MetricsConfiguration \<Rightarrow> go_error option" where
  "validateLoggingConfig m =
     (let l = cfgLogging m in
      if logLevel l \<notin> {'''', ''debug'', ''info'', ''warn'', ''error''} then
        Some (ErrText (''invalid log.level '' @ go_quote (logLevel l) @
                       ''; accepted values are debug, info, warn, error''))
      else if logFormat l \<notin> {'''', ''logfmt'', ''json''} then
        Some (ErrText (''invalid log.format '' @ go_quote (logFormat l) @
                       ''; accepted values are logfmt, json''))
      else None)"

text \<open>
  \<open>checkDuplicatedDatabases\<close> only logs: the groups of database names that share a URL and, up to
  case, a user name, in the order of their first member.
\<close>

definition db_key :: "DatabaseConfig \<Rightarrow> string \<times> string" where
  "db_key cfg = (dcURL cfg, to_lower (dcUsername cfg))"

definition checkDuplicatedDatabases :: "MetricsConfiguration \<Rightarrow> string list list" where
  "checkDuplicatedDatabases m =
     filter (\<lambda>v. length v > 1)
       (map (\<lambda>key. map fst (filter (\<lambda>(db, cfg). db_key cfg = key) (cfgDatabases m)))
            (remdups (map (db_key \<circ> snd) (cfgDatabases m))))"

fun first_error :: "go_error option list \<Rightarrow> go_error option" where
  "first_error [] = None"
| "first_error (Some e # es) = Some e"
| "first_error (None # es) = first_error es"

definition validate :: "MetricsConfiguration \<Rightarrow> go_error option" where
  "validate m = first_error
     [validateHighAvailabilityConfig m, validateOCIVaultAuth m, validateLoggingConfig m,
      validateOperationalConfig m, validatePerformanceConfig m,
      validateDeadConnectionDetectionConfig m]"

text \<open>
  \<open>LoadMetricsConfiguration\<close>: the file path is required; the file is read, its \<open>$\<close> references are
  expanded, and it is decoded strictly. A configuration comes back beside every error.
\<close>

definition LoadMetricsConfiguration ::
    "(string \<Rightarrow> string result) \<Rightarrow> (string \<Rightarrow> string) \<Rightarrow>
     (string \<Rightarrow> MetricsConfiguration \<times> go_error option) \<Rightarrow> MetricsConfiguration \<Rightarrow>
     string option \<Rightarrow> MetricsConfiguration \<times> go_error option" where
  "LoadMetricsConfiguration readFile expand unmarshalStrict zero_cfg cfg =
     (case cfg of
        None \<Rightarrow> (zero_cfg, Some (ErrText ''config file is required''))
      | Some configFile \<Rightarrow>
          if trim_space configFile = [] then (zero_cfg, Some (ErrText ''config file is required''))
          else case readFile configFile of
                 Inl err \<Rightarrow> (zero_cfg, Some err)
               | Inr content \<Rightarrow>
                   (case unmarshalStrict (expand content) of
                      (m, Some yerr) \<Rightarrow> (m, Some yerr)
                    | (m, None) \<Rightarrow> (merge m, validate (merge m))))"

lemma first_error_None: "first_error es = None \<longleftrightarrow> (\<forall>e \<in> set es. e = None)"
  by (induction es rule: first_error.induct) auto

lemma validate_None: "validate m = None \<longleftrightarrow>
    validateHighAvailabilityConfig m = None \<and> validateOCIVaultAuth m = None \<and>
    validateLoggingConfig m = None \<and> validateOperationalConfig m = None \<and>
    validatePerformanceConfig m = None \<and> validateDeadConnectionDetectionConfig m = None"
  by (auto simp: validate_def first_error_None)

section \<open>The scope pattern\<close>

text \<open>The pattern of the error text, \<open>[a-z0-9][a-z0-9._-]{0,62}\<close>, as a predicate.\<close>

definition scope_pattern :: "string \<Rightarrow> bool" where
  "scope_pattern s \<longleftrightarrow> (case s of [] \<Rightarrow> False
     | c # cs \<Rightarrow> alpha_numeric c \<and> list_all (\<lambda>r. alpha_numeric r \<or> scope_separator r) cs \<and>
                length cs \<le> 62)"

lemma scope_characters_Suc:
  "scope_characters (Suc i) s \<longleftrightarrow> list_all (\<lambda>r. alpha_numeric r \<or> scope_separator r) s"
  by (induction s arbitrary: i) auto

lemma scope_pattern_iff:
  "scope_pattern s \<longleftrightarrow> s \<noteq> [] \<and> length s \<le> 63 \<and> scope_characters 0 s"
  by (cases s) (auto simp: scope_pattern_def scope_characters_Suc)

lemma HA_GetScope_nonempty [simp]: "HA_GetScope c \<noteq> []"
  by (simp add: HA_GetScope_def)

text \<open>
  The high-availability settings are rejected exactly when high availability is on and not all of
  this holds: the scope (or its default) matches the pattern \<open>[a-z0-9][a-z0-9._-]{0,62}\<close> that the
  error text names, and both intervals are positive.
\<close>
theorem ha_validation_is_pattern:
  "validateHighAvailabilityConfig m \<noteq> None \<longleftrightarrow>
     HA_GetEnabled (cfgHighAvailability m) \<and>
     \<not> (scope_pattern (HA_GetScope (cfgHighAvailability m)) \<and>
        0 < HA_GetRetryInterval (cfgHighAvailability m) \<and>
        0 < HA_GetValidationInterval (cfgHighAvailability m))"
  by (simp add: validateHighAvailabilityConfig_def Let_def scope_pattern_iff not_less not_le)

section \<open>Accepted configurations\<close>

lemmas validation_defs = validateHighAvailabilityConfig_def validateOperationalConfig_def
  validatePerformanceConfig_def validateDeadConnectionDetectionConfig_def

lemma validated_operational:
  assumes "validate m = None" and "Operational_GetEnabled (cfgOperational m)"
  shows "0 < Operational_GetInterval (cfgOperational m)"
    and "0 < Operational_GetQueryTimeout (cfgOperational m)"
  using assms by (simp_all add: validate_None validateOperationalConfig_def Let_def split: if_splits)

lemma validated_activity:
  assumes "validate m = None"
  shows "Activity_GetSource (perfActivity (cfgPerformance m)) \<in> {''session'', ''ash''}"
    and "0 < Activity_GetInterval (perfActivity (cfgPerformance m))"
    and "0 < Activity_GetQueryTimeout (perfActivity (cfgPerformance m))"
  using assms by (auto simp: validate_None validatePerformanceConfig_def Let_def split: if_splits)

lemma validated_plans:
  assumes "validate m = None" and "Plans_GetEnabled (perfSQLPlans (cfgPerformance m))"
  shows "0 < Plans_GetInterval (perfSQLPlans (cfgPerformance m))"
    and "1 \<le> Plans_GetTopN (perfSQLPlans (cfgPerformance m))"
    and "Plans_GetTopN (perfSQLPlans (cfgPerformance m)) \<le> 100"
    and "0 < Plans_GetQueryTimeout (perfSQLPlans (cfgPerformance m))"
  using assms by (auto simp: validate_None validatePerformanceConfig_def Let_def topSQLLimit_def
      split: if_splits)

lemma validated_dcd:
  assumes "validate m = None" and "DCD_GetEnabled (mcDeadConnectionDetection (cfgMetrics m))"
  shows "0 < DCD_GetInterval (mcDeadConnectionDetection (cfgMetrics m))"
    and "0 < DCD_GetProbeTimeout (mcDeadConnectionDetection (cfgMetrics m))"
  using assms by (simp_all add: validate_None validateDeadConnectionDetectionConfig_def Let_def
      split: if_splits)

lemma default_text_idem [simp]: "d \<noteq> [] \<Longrightarrow> default_text d (default_text d s) = default_text d s"
  by (simp add: default_text_def)

lemma mergeWebConfig_eq: "mergeWebConfig m = m\<lparr>cfgWeb := (cfgWeb m)\<lparr>webListenAddresses :=
    Some (or_default ['':9161''] (webListenAddresses (cfgWeb m)))\<rparr>\<rparr>"
proof (cases "webListenAddresses (cfgWeb m)")
  case None
  then show ?thesis by (simp add: mergeWebConfig_def)
next
  case (Some a)
  then show ?thesis by (cases m; cases "cfgWeb m") (simp add: mergeWebConfig_def)
qed

lemma merge_idem: "merge (merge m) = merge m"
  by (simp add: merge_def mergeWebConfig_eq mergeLoggingConfig_def mergeOutputConfig_def Let_def)

lemma merge_deref: "LogInterval (merge m) \<noteq> None" "LogDisable (merge m) \<noteq> None"
    "ScrapeInterval (merge m) \<noteq> None"
  by (simp_all add: merge_def mergeWebConfig_def mergeLoggingConfig_def mergeOutputConfig_def
      Let_def LogInterval_def LogDisable_def ScrapeInterval_def)

text \<open>
  C36: a configuration that \<open>LoadMetricsConfiguration\<close> returns without an error is a merged one: the
  pointers that the getters dereference are set (no nil dereference in \<open>LogInterval\<close>, \<open>LogDisable\<close>,
  \<open>ScrapeInterval\<close>) and merging it again changes nothing; its activity source is one of the two
  supported ones; the intervals and timeouts of activity sampling, operational collection, SQL plans and
  dead connection detection are positive where these are enabled, the number of SQL statements
  to detail lies between 1 and 100, and an enabled high availability has a well-formed scope and
  positive intervals. (The scrape and log intervals are not checked.)
\<close>
theorem loaded_configuration_sound:
  assumes "LoadMetricsConfiguration readFile expand unmarshalStrict zero_cfg cfg = (m, None)"
  shows "LogInterval m \<noteq> None \<and> LogDisable m \<noteq> None \<and> ScrapeInterval m \<noteq> None \<and> merge m = m \<and>
    Activity_GetSource (perfActivity (cfgPerformance m)) \<in> {''session'', ''ash''} \<and>
    0 < Activity_GetInterval (perfActivity (cfgPerformance m)) \<and>
    0 < Activity_GetQueryTimeout (perfActivity (cfgPerformance m)) \<and>
    (Operational_GetEnabled (cfgOperational m) \<longrightarrow>
       0 < Operational_GetInterval (cfgOperational m) \<and>
       0 < Operational_GetQueryTimeout (cfgOperational m)) \<and>
    (Plans_GetEnabled (perfSQLPlans (cfgPerformance m)) \<longrightarrow>
       0 < Plans_GetInterval (perfSQLPlans (cfgPerformance m)) \<and>
       0 < Plans_GetQueryTimeout (perfSQLPlans (cfgPerformance m)) \<and>
       Plans_GetTopN (perfSQLPlans (cfgPerformance m)) \<in> {1..100}) \<and>
    (DCD_GetEnabled (mcDeadConnectionDetection (cfgMetrics m)) \<longrightarrow>
       0 < DCD_GetInterval (mcDeadConnectionDetection (cfgMetrics m)) \<and>
       0 < DCD_GetProbeTimeout (mcDeadConnectionDetection (cfgMetrics m))) \<and>
    (HA_GetEnabled (cfgHighAvailability m) \<longrightarrow>
       scope_pattern (HA_GetScope (cfgHighAvailability m)) \<and>
       0 < HA_GetRetryInterval (cfgHighAvailability m) \<and>
       0 < HA_GetValidationInterval (cfgHighAvailability m))"
proof -
  from assms obtain m0 where m: "m = merge m0" and ok: "validate m = None"
    by (auto simp: LoadMetricsConfiguration_def split: option.splits if_splits sum.splits prod.splits)
  have deref: "LogInterval m \<noteq> None" "LogDisable m \<noteq> None" "ScrapeInterval m \<noteq> None"
    unfolding m by (rule merge_deref)+
  have fixpoint: "merge m = m"
    unfolding m by (rule merge_idem)
  have "validateHighAvailabilityConfig m = None" using ok by (simp add: validate_None)
  then have ha: "HA_GetEnabled (cfgHighAvailability m) \<longrightarrow>
       scope_pattern (HA_GetScope (cfgHighAvailability m)) \<and>
       0 < HA_GetRetryInterval (cfgHighAvailability m) \<and>
       0 < HA_GetValidationInterval (cfgHighAvailability m)"
    using ha_validation_is_pattern [of m] by blast
  show ?thesis
    using validated_operational [OF ok] validated_activity [OF ok] validated_plans [OF ok]
      validated_dcd [OF ok] deref fixpoint ha
    by (metis atLeastAtMost_iff)
qed

definition empty_configuration :: MetricsConfiguration where
  "empty_configuration = \<lparr>cfgListenAddress = [], cfgDatabases = [],
     cfgMetrics = \<lparr>mcDatabaseLabel = [], mcDefinitions = [], mcScrapeInterval = None,
       mcDeadConnectionDetection = \<lparr>dcdEnabled = None, dcdInterval = None, dcdProbeTimeout = None\<rparr>\<rparr>,
     cfgOperational = \<lparr>operEnabled = None, operInterval = None, operQueryTimeout = None\<rparr>,
     cfgPerformance = \<lparr>perfActivity = \<lparr>actSource = [], actInterval = None, actQueryTimeout = None\<rparr>,
       perfSQLPlans = \<lparr>planEnabled = None, planInterval = None, planTopN = None,
                       planQueryTimeout = None\<rparr>\<rparr>,
     cfgHighAvailability = \<lparr>haEnabled = None, haScope = [], haRetryInterval = None,
                            haValidationInterval = None\<rparr>,
     cfgPostgreSQL = \<lparr>pgURL = [], pgMaxConns = None, pgMinConns = None, pgConnMaxLifetime = None,
       pgRetention = None, pgAutoMigrate = None, pgSamplesTable = [], pgSQLSamplesTable = [],
       pgSessionSamplesTable = [], pgBlockingSessionsTable = [], pgDatabaseActivityTable = []\<rparr>,
     cfgLogging = \<lparr>logDisableF = None, logIntervalF = None, logDestinationF = [],
       logPerDatabaseFilesF = None, logLevel = [], logFormat = []\<rparr>,
     cfgWeb = \<lparr>webListenAddresses = None, webReadHeaderTimeout = None, webReadTimeout = None,
               webIdleTimeout = None\<rparr>\<rparr>"

lemmas getter_defs = HA_GetEnabled_def HA_GetScope_def HA_GetRetryInterval_def
  HA_GetValidationInterval_def DCD_GetEnabled_def DCD_GetInterval_def DCD_GetProbeTimeout_def
  Operational_GetEnabled_def Operational_GetInterval_def Operational_GetQueryTimeout_def
  Activity_GetSource_def Activity_GetInterval_def Activity_GetQueryTimeout_def
  Plans_GetEnabled_def Plans_GetInterval_def Plans_GetTopN_def Plans_GetQueryTimeout_def

lemmas merge_defs = merge_def mergeWebConfig_def mergeLoggingConfig_def mergeOutputConfig_def
  default_text_def

lemma default_scope_ok: "scope_characters 0 ''default''"
  by code_simp

lemma empty_configuration_loads:
  "validate (merge empty_configuration) = None"
  by (simp add: validate_None validation_defs validateOCIVaultAuth_def validateLoggingConfig_def
      merge_defs empty_configuration_def getter_defs Let_def default_scope_ok topSQLLimit_def del: scope_characters.simps)

lemma loaded_configuration_sound_witness:
  "LoadMetricsConfiguration (\<lambda>_. Inr ''{}'') id (\<lambda>_. (empty_configuration, None))
     empty_configuration (Some ''config.yaml'') = (merge empty_configuration, None) \<and>
   LogInterval (merge empty_configuration) \<noteq> None \<and>
   Plans_GetTopN (perfSQLPlans (cfgPerformance (merge empty_configuration))) \<in> {1..100}"
proof -
  have load: "LoadMetricsConfiguration (\<lambda>_. Inr ''{}'') id (\<lambda>_. (empty_configuration, None))
     empty_configuration (Some ''config.yaml'') = (merge empty_configuration, None)"
    by (simp add: LoadMetricsConfiguration_def trim_space_def is_space_def byte_of_def
        empty_configuration_loads)
  moreover have "Plans_GetEnabled (perfSQLPlans (cfgPerformance (merge empty_configuration)))"
    by (simp add: merge_defs empty_configuration_def getter_defs Let_def)
  ultimately show ?thesis using loaded_configuration_sound [OF load] by blast
qed

section \<open>Intervals that no check covers\<close>

text \<open>
  \<open>time.NewTicker\<close> panics unless its interval is positive. \<open>RunScheduledScrapes\<close> makes one from
  \<open>metrics.scrapeInterval\<close> (zero stands for 15 seconds) and \<open>main\<close> makes one from \<open>log.interval\<close>
  unless the alert log is disabled. The value is the interval of the ticker, \<open>None\<close> the panic.
\<close>

definition NewTicker :: "duration \<Rightarrow> duration option" where
  "NewTicker d = (if d \<le> 0 then None else Some d)"

definition scheduled_scrape_interval :: "MetricsConfiguration \<Rightarrow> duration" where
  "scheduled_scrape_interval m =
     (case ScrapeInterval m of None \<Rightarrow> 15 * second
      | Some interval \<Rightarrow> if interval = 0 then 15 * second else interval)"

definition scheduled_scrape_ticker :: "MetricsConfiguration \<Rightarrow> duration option" where
  "scheduled_scrape_ticker m = NewTicker (scheduled_scrape_interval m)"

definition alert_log_ticker :: "MetricsConfiguration \<Rightarrow> duration option" where
  "alert_log_ticker m = (case LogInterval m of None \<Rightarrow> None | Some d \<Rightarrow> NewTicker d)"

definition negative_interval_configuration :: MetricsConfiguration where
  "negative_interval_configuration = empty_configuration
     \<lparr>cfgMetrics := (cfgMetrics empty_configuration)\<lparr>mcScrapeInterval := Some (- second)\<rparr>,
      cfgLogging := (cfgLogging empty_configuration)\<lparr>logIntervalF := Some 0\<rparr>\<rparr>"

lemmas ticker_defs = scheduled_scrape_ticker_def scheduled_scrape_interval_def
  alert_log_ticker_def NewTicker_def LogInterval_def LogDisable_def ScrapeInterval_def

text \<open>
  \<open>validate\<close> leaves \<open>metrics.scrapeInterval\<close> and \<open>log.interval\<close> unchecked: there is a
  configuration that loads without an error and makes both \<open>RunScheduledScrapes\<close> and the alert-log
  loop of \<open>main\<close> panic in \<open>time.NewTicker\<close>, while a merged configuration with the two intervals left
  out gets the defaults of 15 seconds.
\<close>
theorem unchecked_ticker_intervals:
  "validate (merge negative_interval_configuration) = None \<and>
   LogDisable (merge negative_interval_configuration) = Some 0 \<and>
   scheduled_scrape_ticker (merge negative_interval_configuration) = None \<and>
   alert_log_ticker (merge negative_interval_configuration) = None \<and>
   scheduled_scrape_ticker (merge empty_configuration) = Some (15 * second) \<and>
   alert_log_ticker (merge empty_configuration) = Some (15 * second)"
proof (intro conjI)
  show "validate (merge negative_interval_configuration) = None"
    by (simp add: validate_None validation_defs validateOCIVaultAuth_def validateLoggingConfig_def
        merge_defs negative_interval_configuration_def empty_configuration_def getter_defs Let_def
        default_scope_ok topSQLLimit_def
        del: scope_characters.simps)
qed (simp_all add: ticker_defs merge_defs negative_interval_configuration_def
       empty_configuration_def Let_def)

end
