(* ===== verification/Machines.thy ===== *)
theory Machines
  imports Prelude
begin

text \<open>
  The interfaces that several components share, as locales: a state machine with an invariant, a
  component that counts what it did and never loses anything, a throttle that admits one collection
  per interval, and a table that keeps the newest row of every key. Each is interpreted on the
  definitions of the components that provide it.
\<close>

section \<open>State machines\<close>

text \<open>What a scheduler may rely on: every state that any interleaving of steps reaches is \<open>inv\<close>.\<close>

locale invariant_machine =
  fixes initial :: "'s \<Rightarrow> bool"
    and step :: "'s \<Rightarrow> 's \<Rightarrow> bool"
    and inv :: "'s \<Rightarrow> bool"
  assumes initial_inv: "initial s \<Longrightarrow> inv s"
    and step_inv: "step s s' \<Longrightarrow> inv s \<Longrightarrow> inv s'"
begin

lemma steps_inv: "step\<^sup>*\<^sup>* s s' \<Longrightarrow> inv s \<Longrightarrow> inv s'"
  by (induction rule: rtranclp_induct) (auto intro: step_inv)

lemma reachable_inv: "initial s0 \<Longrightarrow> step\<^sup>*\<^sup>* s0 s \<Longrightarrow> inv s"
  by (rule steps_inv) (auto intro: initial_inv)

end

section \<open>Throttles\<close>

text \<open>The instants at which a throttle admits a sequence of requests.\<close>

fun admissions ::
    "('k \<Rightarrow> time \<Rightarrow> duration \<Rightarrow> 's \<Rightarrow> bool \<times> 's) \<Rightarrow> 'k \<Rightarrow> duration \<Rightarrow> time list \<Rightarrow> 's \<Rightarrow> time list" where
  "admissions ask k i [] s = []"
| "admissions ask k i (t # ts) s =
     (if fst (ask k t i s) then t # admissions ask k i ts (snd (ask k t i s))
      else admissions ask k i ts s)"

text \<open>
  \<open>ask key now interval s\<close> answers whether a collection is due for \<open>key\<close> and remembers it;
  \<open>last_of\<close> reads what it remembers.
\<close>

locale throttle =
  fixes ask :: "'k \<Rightarrow> time \<Rightarrow> duration \<Rightarrow> 's \<Rightarrow> bool \<times> 's"
    and last_of :: "'s \<Rightarrow> 'k \<Rightarrow> time option"
  assumes ask_due: "fst (ask k now i s) \<longleftrightarrow>
            (case last_of s k of None \<Rightarrow> True | Some t \<Rightarrow> t + i \<le> now)"
    and ask_admit: "fst (ask k now i s) \<Longrightarrow> last_of (snd (ask k now i s)) = (last_of s)(k \<mapsto> now)"
    and ask_refuse: "\<not> fst (ask k now i s) \<Longrightarrow> snd (ask k now i s) = s"
begin

lemma first_admitted: "last_of s k = None \<Longrightarrow> fst (ask k now i s)"
  by (simp add: ask_due)

text \<open>Successive admissions are at least an interval apart.\<close>

lemma admissions_after_last:
  assumes "last_of s k = Some t0" and "0 \<le> i"
  shows "sorted_wrt (\<lambda>a b. a + i \<le> b) (t0 # admissions ask k i ts s)"
  using assms(1)
proof (induction ts arbitrary: s t0)
  case (Cons t ts)
  show ?case
  proof (cases "fst (ask k t i s)")
    case True
    then have "t0 + i \<le> t" using Cons.prems by (simp add: ask_due)
    moreover have "last_of (snd (ask k t i s)) k = Some t" using True by (simp add: ask_admit)
    ultimately show ?thesis using True Cons.IH [of "snd (ask k t i s)" t] assms(2) by fastforce
  next
    case False
    then show ?thesis using Cons by simp
  qed
qed simp

lemma admissions_spaced:
  assumes "0 \<le> i"
  shows "sorted_wrt (\<lambda>a b. a + i \<le> b) (admissions ask k i ts s)"
proof (induction ts arbitrary: s)
  case (Cons t ts)
  show ?case
  proof (cases "fst (ask k t i s)")
    case True
    then have "last_of (snd (ask k t i s)) k = Some t" by (simp add: ask_admit)
    from admissions_after_last [OF this assms] True show ?thesis by simp
  next
    case False
    then show ?thesis using Cons by simp
  qed
qed simp

text \<open>A request that comes an interval after the last admission, or the first one, is admitted.\<close>

lemma overdue_admitted: "last_of s k = Some t \<Longrightarrow> t + i \<le> now \<Longrightarrow> fst (ask k now i s)"
  by (simp add: ask_due)

lemma other_keys: "k' \<noteq> k \<Longrightarrow> last_of (snd (ask k now i s)) k' = last_of s k'"
  by (cases "fst (ask k now i s)") (simp_all add: ask_admit ask_refuse)

end

section \<open>Latest-wins tables\<close>

text \<open>
  A table with one row per key, written by an upsert whose conflict clause keeps the row with the
  larger version.
\<close>

locale latest_wins =
  fixes upsert :: "'r \<Rightarrow> ('k \<rightharpoonup> 'r) \<Rightarrow> ('k \<rightharpoonup> 'r)"
    and key_of :: "'r \<Rightarrow> 'k"
    and version :: "'r \<Rightarrow> int"
  assumes upsert_key: "upsert r t (key_of r) =
            (case t (key_of r) of
               None \<Rightarrow> Some r
             | Some old \<Rightarrow> if version old \<le> version r then Some r else Some old)"
    and upsert_other: "k \<noteq> key_of r \<Longrightarrow> upsert r t k = t k"
begin

lemma dom_fold: "dom (fold upsert rs t) = dom t \<union> key_of ` set rs"
proof (induction rs arbitrary: t)
  case (Cons r rs)
  have "dom (upsert r t) = insert (key_of r) (dom t)"
  proof (intro set_eqI)
    fix k show "k \<in> dom (upsert r t) \<longleftrightarrow> k \<in> insert (key_of r) (dom t)"
      by (cases "k = key_of r") (auto simp: upsert_key upsert_other dom_def split: option.splits)
  qed
  with Cons show ?case by simp
qed simp

text \<open>The row of a key is never older than any row that was written for it.\<close>

lemma fold_newest:
  "\<lbrakk>fold upsert rs t k = Some row; r \<in> set rs; key_of r = k\<rbrakk> \<Longrightarrow> version r \<le> version row"
proof (induction rs arbitrary: t)
  case (Cons a rs)
  have mono: "t k = Some x \<Longrightarrow> fold upsert rs t k = Some y \<Longrightarrow> version x \<le> version y" for t x y
  proof (induction rs arbitrary: t x)
    case (Cons b bs)
    show ?case
    proof (cases "key_of b = k")
      case True
      then obtain z where "upsert b t k = Some z" "version x \<le> version z"
        using Cons.prems(1) upsert_key [of b t] by (auto split: if_splits)
      then show ?thesis using Cons.IH [of "upsert b t" z] Cons.prems(2) by auto
    next
      case False
      then show ?thesis using Cons upsert_other [of k b t] by auto
    qed
  qed simp
  show ?case
  proof (cases "r = a")
    case True
    then obtain z where "upsert a t k = Some z" "version r \<le> version z"
      using Cons.prems(3) upsert_key [of a t] by (auto split: option.splits if_splits)
    then show ?thesis using mono [of "upsert a t" z row] Cons.prems(1) by auto
  next
    case False
    then show ?thesis using Cons by auto
  qed
qed simp

lemma fold_source:
  "fold upsert rs t k = Some row \<Longrightarrow> t k = Some row \<or> (row \<in> set rs \<and> key_of row = k)"
proof (induction rs arbitrary: t)
  case (Cons a rs)
  then have "upsert a t k = Some row \<or> (row \<in> set rs \<and> key_of row = k)" by simp
  moreover have "upsert a t k = Some row \<Longrightarrow> t k = Some row \<or> (row = a \<and> key_of row = k)"
    using upsert_key [of a t] upsert_other [of k a t]
    by (cases "k = key_of a") (auto split: option.splits if_splits)
  ultimately show ?case by auto
qed simp

end

end
