(* ===== verification/SamplesPerf.thy ===== *)
theory SamplesPerf
  imports Prelude
begin

text \<open>
  The SQL, session and activity sample types of \<open>collector/samples.go\<close>, field by field, their
  count, and the append of one database's samples to those of the others (\<open>collector/collector.go\<close>).
  A field keeps its Go name behind the initials of its struct; a pointer is an \<open>option\<close>, a slice
  a list. \<open>SQLPlanKey\<close> is embedded in \<open>SQLPlanOperation\<close> as in the source.
\<close>

record SQLSample =
  sqCollectedAt :: time
  sqDatabase :: string
  sqInstID :: int64
  sqSQLID :: string
  sqChildNumber :: "int64 option"
  sqPlanHashValue :: "int64 option"
  sqParsingSchemaName :: "string option"
  sqModule :: "string option"
  sqExecutions :: "int64 option"
  sqElapsedTimeMicro :: "int64 option"
  sqCPUTimeMicro :: "int64 option"
  sqUserIOWaitMicro :: "int64 option"
  sqApplicationWaitMicro :: "int64 option"
  sqConcurrencyWaitMicro :: "int64 option"
  sqClusterWaitMicro :: "int64 option"
  sqBufferGets :: "int64 option"
  sqDiskReads :: "int64 option"
  sqDirectWrites :: "int64 option"
  sqRowsProcessed :: "int64 option"
  sqFetches :: "int64 option"
  sqLoads :: "int64 option"
  sqInvalidations :: "int64 option"
  sqParseCalls :: "int64 option"
  sqLastActiveTime :: "time option"
  sqSQLFullText :: "string option"

record SQLTextSample =
  sxCollectedAt :: time
  sxDatabase :: string
  sxSQLID :: string
  sxSQLFullText :: string

record SQLPlanKey =
  pkInstID :: int64
  pkSQLID :: string
  pkChildNumber :: int64
  pkPlanHashValue :: int64

record SQLPlanOperation =
  plCollectedAt :: time
  plDatabase :: string
  plSQLPlanKey :: SQLPlanKey
  plPlanLineID :: int64
  plParentID :: "int64 option"
  plDepth :: "int64 option"
  plPosition :: "int64 option"
  plOperation :: string
  plOptions :: "string option"
  plObjectOwner :: "string option"
  plObjectName :: "string option"
  plObjectType :: "string option"
  plOptimizer :: "string option"
  plCost :: "int64 option"
  plCardinality :: "int64 option"
  plBytes :: "int64 option"
  plCPUCost :: "int64 option"
  plIOCost :: "int64 option"
  plTempSpace :: "int64 option"
  plPartitionStart :: "string option"
  plPartitionStop :: "string option"
  plAccessPredicates :: "string option"
  plFilterPredicates :: "string option"

record SessionSample =
  seCollectedAt :: time
  seDatabase :: string
  seInstID :: int64
  seSID :: int64
  seSerialNumber :: "int64 option"
  seUsername :: "string option"
  seStatus :: "string option"
  seSQLID :: "string option"
  seSQLChildNumber :: "int64 option"
  sePrevSQLID :: "string option"
  seEvent :: "string option"
  seWaitClass :: "string option"
  seState :: "string option"
  seSecondsInWait :: "int64 option"
  seBlockingInstance :: "int64 option"
  seBlockingSession :: "int64 option"
  seMachine :: "string option"
  seProgram :: "string option"
  seModule :: "string option"
  seAction :: "string option"
  seServiceName :: "string option"
  seLogonTime :: "time option"

record BlockingSessionSample =
  bsCollectedAt :: time
  bsDatabase :: string
  bsInstID :: int64
  bsSID :: int64
  bsSerialNumber :: "int64 option"
  bsUsername :: "string option"
  bsSQLID :: "string option"
  bsEvent :: "string option"
  bsWaitClass :: "string option"
  bsBlockingInstance :: "int64 option"
  bsBlockingSession :: "int64 option"
  bsBlockingUsername :: "string option"
  bsBlockingSQLID :: "string option"
  bsBlockingEvent :: "string option"

record DatabaseActivitySample =
  daCollectedAt :: time
  daDatabase :: string
  daSampleID :: int64
  daSampleTime :: time
  daInstID :: int64
  daSessionID :: int64
  daSessionSerialNumber :: "int64 option"
  daSessionType :: "string option"
  daUserID :: "int64 option"
  daSQLID :: "string option"
  daSQLChildNumber :: "int64 option"
  daSQLExecID :: "int64 option"
  daSQLExecStart :: "time option"
  daTopLevelSQLID :: "string option"
  daSessionState :: "string option"
  daEvent :: "string option"
  daWaitClass :: "string option"
  daWaitTimeMicro :: "int64 option"
  daTimeWaitedMicro :: "int64 option"
  daBlockingSession :: "int64 option"
  daBlockingSessionSerial :: "int64 option"
  daBlockingInstID :: "int64 option"
  daCurrentObjectID :: "int64 option"
  daCurrentFileNumber :: "int64 option"
  daCurrentBlockNumber :: "int64 option"
  daProgram :: "string option"
  daModule :: "string option"
  daAction :: "string option"
  daMachine :: "string option"
  daPGAAllocated :: "int64 option"
  daTempSpaceAllocated :: "int64 option"
  daConID :: "int64 option"
  daSampleSource :: string
  daSampleDurationMicro :: int64
  daSQLPlanHashValue :: "int64 option"
  daSQLFullPlanHashValue :: "int64 option"
  daSQLPlanLineID :: "int64 option"
  daServiceHash :: "int64 option"
  daServiceName :: "string option"
  daClientIdentifier :: "string option"

record PerformanceSamples =
  pfSQL :: "SQLSample list"
  pfSQLDetails :: "SQLSample list"
  pfSQLTexts :: "SQLTextSample list"
  pfSQLPlans :: "SQLPlanOperation list"
  pfSessions :: "SessionSample list"
  pfBlockingSessions :: "BlockingSessionSample list"
  pfDatabaseActivity :: "DatabaseActivitySample list"

definition PerformanceSamples_Count :: "PerformanceSamples \<Rightarrow> nat" where
  "PerformanceSamples_Count p =
     length (pfSQL p) + length (pfSQLDetails p) + length (pfSQLTexts p) + length (pfSQLPlans p) +
     length (pfSessions p) + length (pfBlockingSessions p) + length (pfDatabaseActivity p)"

text \<open>The zero value of the struct.\<close>

definition no_performance :: PerformanceSamples where
  "no_performance = \<lparr>pfSQL = [], pfSQLDetails = [], pfSQLTexts = [], pfSQLPlans = [],
     pfSessions = [], pfBlockingSessions = [], pfDatabaseActivity = []\<rparr>"

definition appendPerformanceSamples ::
    "PerformanceSamples \<Rightarrow> PerformanceSamples \<Rightarrow> PerformanceSamples" where
  "appendPerformanceSamples p d = p\<lparr>
     pfSQL := pfSQL p @ pfSQL d,
     pfSQLDetails := pfSQLDetails p @ pfSQLDetails d,
     pfSQLTexts := pfSQLTexts p @ pfSQLTexts d,
     pfSQLPlans := pfSQLPlans p @ pfSQLPlans d,
     pfSessions := pfSessions p @ pfSessions d,
     pfBlockingSessions := pfBlockingSessions p @ pfBlockingSessions d,
     pfDatabaseActivity := pfDatabaseActivity p @ pfDatabaseActivity d\<rparr>"

lemma PerformanceSamples_Count_append [simp]:
  "PerformanceSamples_Count (appendPerformanceSamples p d) =
   PerformanceSamples_Count p + PerformanceSamples_Count d"
  by (simp add: PerformanceSamples_Count_def appendPerformanceSamples_def)

lemma PerformanceSamples_Count_none [simp]: "PerformanceSamples_Count no_performance = 0"
  by (simp add: PerformanceSamples_Count_def no_performance_def)

text \<open>The range loop over the channel: one append per received value.\<close>

definition collect_performance :: "PerformanceSamples list \<Rightarrow> PerformanceSamples" where
  "collect_performance ps = foldl appendPerformanceSamples no_performance ps"

lemma collect_performance_Count:
  "PerformanceSamples_Count (collect_performance ps) = sum_list (map PerformanceSamples_Count ps)"
  by (simp add: collect_performance_def foldl_count_gen)

end
