(* ===== verification/SamplesOper.thy ===== *)
theory SamplesOper
  imports Prelude
begin

text \<open>
  The operational sample types of \<open>collector/samples.go\<close>, field by field, their count, and the
  append of one database's samples to those of the others (\<open>collector/collector.go\<close>).
  A field keeps its Go name behind the initials of its struct; a pointer is an \<open>option\<close>, a slice
  a list.
\<close>

record DatabaseStatusSample =
  dsCollectedAt :: time
  dsDatabase :: string
  dsInstID :: int64
  dsInstanceName :: string
  dsInstanceStatus :: string
  dsDatabaseStatus :: string
  dsStartupTime :: time
  dsOpenMode :: string
  dsDatabaseRole :: string
  dsCDB :: string
  dsConID :: int64
  dsConName :: string
  dsPlatformName :: string
  dsDBID :: "int64 option"
  dsDBUniqueName :: "string option"
  dsDatabaseProduct :: "string option"
  dsDatabaseEdition :: "string option"
  dsDatabaseVersion :: "string option"
  dsDatabaseVersionFull :: "string option"
  dsProtectionMode :: "string option"
  dsProtectionLevel :: "string option"

record InstanceSample =
  isCollectedAt :: time
  isDatabase :: string
  isInstID :: int64
  isUserSessions :: int64
  isActiveUserSessions :: int64
  isBackgroundSessions :: int64
  isProcessCount :: int64
  isCPUCount :: "int64 option"
  isSGAMaxBytes :: "int64 option"
  isPGAAggregateLimit :: "int64 option"
  isSGAAllocatedBytes :: "int64 option"
  isPGAAllocatedBytes :: "int64 option"
  isPGAMaxAllocatedBytes :: "int64 option"

record ResourceLimitSample =
  rlCollectedAt :: time
  rlDatabase :: string
  rlInstID :: int64
  rlResourceName :: string
  rlCurrentValue :: int64
  rlMaxValue :: int64
  rlInitialLimit :: "int64 option"
  rlLimitValue :: "int64 option"
  rlLimitUnlimited :: bool

record TablespaceSample =
  tsCollectedAt :: time
  tsDatabase :: string
  tsTablespace :: string
  tsContents :: string
  tsUsedBytes :: int64
  tsFreeBytes :: int64
  tsMaxBytes :: int64
  tsUsedPercent :: float64
  tsAllocatedBytes :: "int64 option"

record ASMDiskgroupSample =
  asmCollectedAt :: time
  asmDatabase :: string
  asmInstID :: int64
  asmName :: string
  asmTotalBytes :: int64
  asmFreeBytes :: int64
  asmUsableBytes :: "int64 option"

record SystemCounterSample =
  scCollectedAt :: time
  scDatabase :: string
  scInstID :: int64
  scConID :: int64
  scStatName :: string
  scCumulativeValue :: int64
  scDeltaValue :: "int64 option"
  scIntervalSeconds :: "rat option"
  scCounterReset :: bool

record WaitClassSample =
  wcCollectedAt :: time
  wcDatabase :: string
  wcInstID :: int64
  wcConID :: int64
  wcWaitClass :: string
  wcCumulativeWaitMicro :: int64
  wcDeltaWaitMicro :: "int64 option"
  wcIntervalSeconds :: "rat option"
  wcCounterReset :: bool

record SystemMetricSample =
  smCollectedAt :: time
  smDatabase :: string
  smInstID :: int64
  smConID :: int64
  smMetricName :: string
  smValue :: float64
  smUnit :: "string option"

record DataGuardDestinationSample =
  dgdCollectedAt :: time
  dgdDatabase :: string
  dgdInstID :: int64
  dgdDestID :: int64
  dgdDestinationName :: "string option"
  dgdTarget :: "string option"
  dgdDestination :: "string option"
  dgdStatus :: "string option"
  dgdTransmitMode :: "string option"
  dgdAffirm :: "string option"
  dgdValidNow :: "string option"
  dgdDBUniqueName :: "string option"
  dgdDestinationType :: "string option"
  dgdDatabaseMode :: "string option"
  dgdRecoveryMode :: "string option"
  dgdProtectionMode :: "string option"
  dgdSynchronized :: "string option"
  dgdSynchronizationStatus :: "string option"
  dgdGapStatus :: "string option"
  dgdArchivedThread :: "int64 option"
  dgdArchivedSequence :: "int64 option"
  dgdAppliedThread :: "int64 option"
  dgdAppliedSequence :: "int64 option"
  dgdAppliedSCN :: "int64 option"
  dgdError :: "string option"

record DataGuardLagSample =
  dglCollectedAt :: time
  dglDatabase :: string
  dglDatabaseRole :: string
  dglTransportLagSeconds :: "rat option"
  dglApplyLagSeconds :: "rat option"
  dglApplyFinishTimeSeconds :: "rat option"
  dglEstimatedStartupSeconds :: "rat option"
  dglTimeComputed :: "string option"
  dglDatumTime :: "string option"
  dglDatumAgeSeconds :: "rat option"

record DataGuardProcessSample =
  dgpCollectedAt :: time
  dgpDatabase :: string
  dgpInstID :: int64
  dgpDatabaseRole :: string
  dgpApplyProcesses :: int64
  dgpTransportProcesses :: int64
  dgpApplyStatus :: "string option"
  dgpThreadNumber :: "int64 option"
  dgpSequenceNumber :: "int64 option"

record OperationalSamples =
  opDatabaseStatus :: "DatabaseStatusSample list"
  opInstances :: "InstanceSample list"
  opResourceLimits :: "ResourceLimitSample list"
  opTablespaces :: "TablespaceSample list"
  opASMDiskgroups :: "ASMDiskgroupSample list"
  opSystemCounters :: "SystemCounterSample list"
  opWaitClasses :: "WaitClassSample list"
  opSystemMetrics :: "SystemMetricSample list"
  opDataGuardDestinations :: "DataGuardDestinationSample list"
  opDataGuardLag :: "DataGuardLagSample list"
  opDataGuardProcesses :: "DataGuardProcessSample list"

definition OperationalSamples_Count :: "OperationalSamples \<Rightarrow> nat" where
  "OperationalSamples_Count p =
     length (opDatabaseStatus p) + length (opInstances p) + length (opResourceLimits p) +
     length (opTablespaces p) + length (opASMDiskgroups p) + length (opSystemCounters p) +
     length (opWaitClasses p) + length (opSystemMetrics p) + length (opDataGuardDestinations p) +
     length (opDataGuardLag p) + length (opDataGuardProcesses p)"

text \<open>The zero value of the struct.\<close>

definition no_operational :: OperationalSamples where
  "no_operational = \<lparr>opDatabaseStatus = [], opInstances = [], opResourceLimits = [],
     opTablespaces = [], opASMDiskgroups = [], opSystemCounters = [], opWaitClasses = [],
     opSystemMetrics = [], opDataGuardDestinations = [], opDataGuardLag = [],
     opDataGuardProcesses = []\<rparr>"

definition appendOperationalSamples ::
    "OperationalSamples \<Rightarrow> OperationalSamples \<Rightarrow> OperationalSamples" where
  "appendOperationalSamples p d = p\<lparr>
     opDatabaseStatus := opDatabaseStatus p @ opDatabaseStatus d,
     opInstances := opInstances p @ opInstances d,
     opResourceLimits := opResourceLimits p @ opResourceLimits d,
     opTablespaces := opTablespaces p @ opTablespaces d,
     opASMDiskgroups := opASMDiskgroups p @ opASMDiskgroups d,
     opSystemCounters := opSystemCounters p @ opSystemCounters d,
     opWaitClasses := opWaitClasses p @ opWaitClasses d,
     opSystemMetrics := opSystemMetrics p @ opSystemMetrics d,
     opDataGuardDestinations := opDataGuardDestinations p @ opDataGuardDestinations d,
     opDataGuardLag := opDataGuardLag p @ opDataGuardLag d,
     opDataGuardProcesses := opDataGuardProcesses p @ opDataGuardProcesses d\<rparr>"

lemma OperationalSamples_Count_append [simp]:
  "OperationalSamples_Count (appendOperationalSamples p d) =
   OperationalSamples_Count p + OperationalSamples_Count d"
  by (simp add: OperationalSamples_Count_def appendOperationalSamples_def)

lemma OperationalSamples_Count_none [simp]: "OperationalSamples_Count no_operational = 0"
  by (simp add: OperationalSamples_Count_def no_operational_def)

text \<open>The range loop over the channel: one append per received value.\<close>

definition collect_operational :: "OperationalSamples list \<Rightarrow> OperationalSamples" where
  "collect_operational ps = foldl appendOperationalSamples no_operational ps"

lemma collect_operational_Count:
  "OperationalSamples_Count (collect_operational ps) = sum_list (map OperationalSamples_Count ps)"
  by (simp add: collect_operational_def foldl_count_gen)

end
