(* ===== verification/Samples.thy ===== *)
theory Samples
  imports SamplesPerf SamplesOper
begin

text \<open>
  The remaining types of \<open>collector/samples.go\<close>: metric samples, statuses, connection states, the
  runtime sample of a scheduler cycle, and the batch a cycle hands to the sink.
  A field keeps its Go name behind the initials of its struct; a pointer is an \<open>option\<close>, a slice
  a list.
\<close>

record MetricSample =
  msCollectedAt :: time
  msDatabase :: string
  msContext :: string
  msName :: string
  msHelp :: string
  msType :: string
  msValue :: float64
  msLabels :: "string \<rightharpoonup> string"

record ScrapeSummary =
  ssStartedAt :: time
  ssFinishedAt :: time
  ssDurationSeconds :: rat
  ssTotalErrors :: nat
  ssSampleCount :: nat

record RuntimeSample =
  rtObservedAt :: time
  rtScheduler :: string
  rtTrigger :: string
  rtScraperInstance :: string
  rtHAScope :: string
  rtScheduledAt :: time
  rtStartedAt :: time
  rtCollectionFinishedAt :: time
  rtFinishedAt :: time
  rtConfiguredIntervalSeconds :: rat
  rtConfiguredQueryTimeoutSeconds :: "rat option"
  rtSchedulingLagSeconds :: rat
  rtCollectionDurationSeconds :: rat
  rtPostgreSQLWriteDurationSeconds :: rat
  rtTotalDurationSeconds :: rat
  rtMissedIntervals :: int
  rtDatabasesAttempted :: nat
  rtDatabasesSucceeded :: nat
  rtSampleCount :: nat
  rtErrorCount :: nat
  rtPostgreSQLWriteSuccess :: bool
  rtPostgreSQLErrorMessage :: "string option"

record ScrapeStatusSample =
  stCollectedAt :: time
  stDatabase :: string
  stCollector :: string
  stSuccess :: bool
  stDurationSeconds :: rat
  stSampleCount :: nat
  stErrorMessage :: "string option"

record DatabaseConnectionStateSample =
  csObservedAt :: time
  csDatabase :: string
  csState :: string
  csQueuedAt :: "time option"
  csLastFailureAt :: "time option"
  csLastFailure :: "string option"
  csLastProbeAt :: "time option"
  csLastProbeDurationSeconds :: "rat option"
  csLastProbeError :: "string option"
  csProbeAttempts :: int
  csRecoveredAt :: "time option"
  csScraperInstance :: string

record SampleBatch =
  sbAdditionalMetrics :: "MetricSample list"
  sbPerformance :: PerformanceSamples
  sbOperational :: OperationalSamples
  sbScrapeStatuses :: "ScrapeStatusSample list"
  sbConnectionStates :: "DatabaseConnectionStateSample list"
  sbConnectionStatesComplete :: bool
  sbRuntime :: "RuntimeSample option"

definition SampleBatch_Count :: "SampleBatch \<Rightarrow> nat" where
  "SampleBatch_Count b =
     length (sbAdditionalMetrics b) + PerformanceSamples_Count (sbPerformance b) +
     OperationalSamples_Count (sbOperational b) +
     length (sbScrapeStatuses b) + length (sbConnectionStates b)"

lemmas count_defs =
  OperationalSamples_Count_def PerformanceSamples_Count_def SampleBatch_Count_def

end
