(* ===== verification/Queries.thy ===== *)
theory Queries
  imports Vaults
begin

text \<open>
  What a query of an Oracle database answers. The database is not part of the repository, so an
  answer is an argument of every collector: whether the context's deadline had passed, the error of
  \<open>QueryContext\<close>, the outcome of each \<open>rows.Scan\<close> in order, and the final \<open>rows.Err()\<close>.
  The loops over the rows that the collectors share are translated here, once.
\<close>

record 'r query =
  qDeadline :: bool
  qError :: "go_error option"
  qRows :: "'r result list"
  qRowsErr :: "go_error option"

section \<open>Loops that collect one sample per row\<close>

text \<open>
  \<open>for rows.Next() { if err := rows.Scan(..); err != nil { return nil, err }; samples = append(..) }
  return samples, rows.Err()\<close>
\<close>

fun scan_samples :: "('r \<Rightarrow> 's) \<Rightarrow> 's list \<Rightarrow> 'r result list \<Rightarrow> go_error + 's list" where
  "scan_samples f acc [] = Inr acc"
| "scan_samples f acc (Inl err # rest) = Inl err"
| "scan_samples f acc (Inr r # rest) = scan_samples f (acc @ [f r]) rest"

definition query_timed_out :: go_error where
  "query_timed_out = ErrText ''Oracle query timed out''"

text \<open>
  The read lock of the database's session: \<open>QueryContext\<close> takes it, releases it when the query fails and
  otherwise leaves it to the caller. A collector is its result with the lock operations it makes,
  a deferred \<open>unlock\<close> at its return.
\<close>

datatype lock_op = RLock | RUnlock

definition query_locks :: "'r query \<Rightarrow> lock_op list" where
  "query_locks q = (case qError q of Some err \<Rightarrow> [RLock, RUnlock] | None \<Rightarrow> [RLock])"

text \<open>The collectors of \<open>performance.go\<close>, which test the deadline before the error.\<close>

definition collect_rows_run :: "('r \<Rightarrow> 's) \<Rightarrow> 'r query \<Rightarrow> ('s list \<times> go_error option) \<times> lock_op list" where
  "collect_rows_run f q =
     (if qDeadline q then (([], Some query_timed_out), query_locks q)
      else case qError q of
             Some err \<Rightarrow> (([], Some err), query_locks q)
           | None \<Rightarrow>
               (case scan_samples f [] (qRows q) of
                  Inl err \<Rightarrow> (([], Some err), query_locks q @ [RUnlock])
                | Inr samples \<Rightarrow> ((samples, qRowsErr q), query_locks q @ [RUnlock])))"

definition collect_rows :: "('r \<Rightarrow> 's) \<Rightarrow> 'r query \<Rightarrow> 's list \<times> go_error option" where
  "collect_rows f q = fst (collect_rows_run f q)"

lemma collect_rows_eq:
  "collect_rows f q =
     (if qDeadline q then ([], Some query_timed_out)
      else case qError q of
             Some err \<Rightarrow> ([], Some err)
           | None \<Rightarrow>
               (case scan_samples f [] (qRows q) of
                  Inl err \<Rightarrow> ([], Some err)
                | Inr samples \<Rightarrow> (samples, qRowsErr q)))"
  by (simp add: collect_rows_def collect_rows_run_def split: option.split sum.split)

text \<open>\<open>scrapeSQLDetails\<close> looks at the deadline only when the query failed.\<close>

definition collect_rows_on_error_run :: "('r \<Rightarrow> 's) \<Rightarrow> 'r query \<Rightarrow> ('s list \<times> go_error option) \<times> lock_op list" where
  "collect_rows_on_error_run f q =
     (case qError q of
        Some err \<Rightarrow> (([], Some (if qDeadline q then query_timed_out else err)), query_locks q)
      | None \<Rightarrow>
          (case scan_samples f [] (qRows q) of
             Inl err \<Rightarrow> (([], Some err), query_locks q @ [RUnlock])
           | Inr samples \<Rightarrow> ((samples, qRowsErr q), query_locks q @ [RUnlock])))"

definition collect_rows_on_error :: "('r \<Rightarrow> 's) \<Rightarrow> 'r query \<Rightarrow> 's list \<times> go_error option" where
  "collect_rows_on_error f q = fst (collect_rows_on_error_run f q)"

lemma scan_samples_Inr:
  "scan_samples f acc rs = Inr out \<longleftrightarrow>
     (\<exists>xs. rs = map Inr xs \<and> out = acc @ map f xs)"
proof (induction f acc rs rule: scan_samples.induct)
  case (3 f acc r rest)
  show ?case
  proof
    assume "scan_samples f acc (Inr r # rest) = Inr out"
    then obtain xs where "rest = map Inr xs" "out = (acc @ [f r]) @ map f xs" using 3 by auto
    then have "Inr r # rest = map Inr (r # xs) \<and> out = acc @ map f (r # xs)" by simp
    then show "\<exists>xs. Inr r # rest = map Inr xs \<and> out = acc @ map f xs" 
      by (rule exI [of _ "r # xs"])
  next
    assume "\<exists>xs. Inr r # rest = map Inr xs \<and> out = acc @ map f xs"
    then show "scan_samples f acc (Inr r # rest) = Inr out" using 3 by (auto simp: Cons_eq_map_conv)
  qed
qed auto

text \<open>A collector that reports no error has one sample per row, in row order.\<close>

lemma collect_rows_ok:
  assumes "collect_rows f q = (samples, None)"
  shows "\<not> qDeadline q" and "qError q = None" and "qRowsErr q = None"
    and "\<exists>xs. qRows q = map Inr xs \<and> samples = map f xs"
proof -
  from assms show "\<not> qDeadline q" and "qError q = None" and "qRowsErr q = None"
    by (auto simp: collect_rows_eq split: if_splits option.splits sum.splits)
  from assms show "\<exists>xs. qRows q = map Inr xs \<and> samples = map f xs"
    by (auto simp: collect_rows_eq scan_samples_Inr split: if_splits option.splits sum.splits)
qed

lemma collect_rows_plain:
  "\<not> qDeadline q \<Longrightarrow> qError q = None \<Longrightarrow> qRows q = map Inr xs \<Longrightarrow>
   collect_rows f q = (map f xs, qRowsErr q)"
  using scan_samples_Inr [of f "[]" "qRows q" "map f xs"] by (auto simp: collect_rows_eq)

section \<open>The loop with a callback\<close>

text \<open>
  \<open>queryOperationalRows\<close> (\<open>operational.go\<close>): the callback updates the collector's state and may fail;
  a scan error is the callback's. The state reached so far is kept when the loop stops early.
\<close>

fun scan_with :: "('r \<Rightarrow> 's \<Rightarrow> 's \<times> go_error option) \<Rightarrow> 'r result list \<Rightarrow> 's \<Rightarrow> 's \<times> go_error option" where
  "scan_with f [] s = (s, None)"
| "scan_with f (Inl err # rest) s = (s, Some err)"
| "scan_with f (Inr r # rest) s =
     (case f r s of (s', Some err) \<Rightarrow> (s', Some err) | (s', None) \<Rightarrow> scan_with f rest s')"

definition queryOperationalRows ::
    "'r query \<Rightarrow> ('r \<Rightarrow> 's \<Rightarrow> 's \<times> go_error option) \<Rightarrow> 's \<Rightarrow> 's \<times> go_error option" where
  "queryOperationalRows q scan s =
     (case qError q of
        Some err \<Rightarrow> (s, Some (if qDeadline q then ErrWrap ''Oracle query timed out'' ErrDeadlineExceeded
                             else err))
      | None \<Rightarrow>
          (case scan_with scan (qRows q) s of
             (s', Some err) \<Rightarrow> (s', Some err)
           | (s', None) \<Rightarrow> (s', qRowsErr q)))"

text \<open>A callback that never fails folds over the rows up to the first scan error.\<close>

fun scanned_prefix :: "'r result list \<Rightarrow> 'r list" where
  "scanned_prefix [] = []"
| "scanned_prefix (Inl err # rest) = []"
| "scanned_prefix (Inr r # rest) = r # scanned_prefix rest"

lemma scan_with_total:
  "fst (scan_with (\<lambda>r s. (g r s, None)) rs s) = fold g (scanned_prefix rs) s"
  by (induction rs arbitrary: s rule: scanned_prefix.induct) auto

lemma queryOperationalRows_total:
  "fst (queryOperationalRows q (\<lambda>r s. (g r s, None)) s) =
     (if qError q = None then fold g (scanned_prefix (qRows q)) s else s)"
  using scan_with_total [of g "qRows q" s]
  by (auto simp: queryOperationalRows_def split: option.splits prod.splits)

section \<open>The read lock of a database\<close>

text \<open>
  \<open>sync.RWMutex\<close>: how many readers hold the lock, and whether a writer waits in \<open>Lock\<close>. A waiting writer
  keeps new readers out (\<open>None\<close>: the goroutine blocks) and enters when the last reader has left.
\<close>

record rw_mutex =
  rwReaders :: nat
  rwWaiting :: bool

fun lock_step :: "lock_op \<Rightarrow> rw_mutex \<Rightarrow> rw_mutex option" where
  "lock_step RLock m = (if rwWaiting m then None else Some (m\<lparr>rwReaders := rwReaders m + 1\<rparr>))"
| "lock_step RUnlock m = Some (m\<lparr>rwReaders := rwReaders m - 1\<rparr>)"

fun lock_steps :: "lock_op list \<Rightarrow> rw_mutex \<Rightarrow> rw_mutex option" where
  "lock_steps [] m = Some m"
| "lock_steps (a # as) m = (case lock_step a m of None \<Rightarrow> None | Some m \<Rightarrow> lock_steps as m)"

definition writer_enters :: "rw_mutex \<Rightarrow> bool" where
  "writer_enters m \<longleftrightarrow> rwReaders m = 0"

definition late_deadline :: "'r query \<Rightarrow> bool" where
  "late_deadline q \<longleftrightarrow> qDeadline q \<and> qError q = None"

lemma lock_steps_append:
  "lock_steps (xs @ ys) m = (case lock_steps xs m of None \<Rightarrow> None | Some m \<Rightarrow> lock_steps ys m)"
  by (induction xs m rule: lock_steps.induct) (auto split: option.splits)

lemma collect_rows_locks:
  "snd (collect_rows_run f q) = (if late_deadline q then [RLock] else [RLock, RUnlock])"
  by (simp add: collect_rows_run_def query_locks_def late_deadline_def split: option.split sum.split)

lemma collect_rows_on_error_locks: "snd (collect_rows_on_error_run f q) = [RLock, RUnlock]"
  by (simp add: collect_rows_on_error_run_def query_locks_def split: option.split sum.split)

lemma collectors_leak:
  "lock_steps (concat (map (\<lambda>q. snd (collect_rows_run f q)) qs)) \<lparr>rwReaders = n, rwWaiting = False\<rparr> =
     Some \<lparr>rwReaders = n + length (filter late_deadline qs), rwWaiting = False\<rparr>"
  by (induction qs arbitrary: n) (simp_all add: lock_steps_append collect_rows_locks)

text \<open>
  C39: the collectors of \<open>performance.go\<close> that test the deadline before the error leak the read lock of the
  session. One whose deadline has passed when its query has succeeded reports a time-out and never
  unlocks. After any sequence of such collectors the lock has exactly one reader more for every query of
  this kind; from the first one on no writer (\<open>setUp\<close>, quarantine, probe, reconnect) ever gets the lock, whatever
  queries follow, and once one waits for it the next collector of the database blocks too.
  \<open>scrapeSQLDetails\<close>, which tests the error first, releases the lock in every case.
\<close>
theorem deadline_after_success_leaks_lock:
  assumes "q \<in> set qs" and "qDeadline q" and "qError q = None"
    and m_def: "m = \<lparr>rwReaders = n + length (filter (\<lambda>q. qDeadline q \<and> qError q = None) (qs @ later)), rwWaiting = False\<rparr>"
  shows "collect_rows f q = ([], Some query_timed_out) \<and>
    lock_steps (concat (map (\<lambda>q. snd (collect_rows_run f q)) (qs @ later))) \<lparr>rwReaders = n, rwWaiting = False\<rparr> = Some m \<and>
    \<not> writer_enters m \<and> lock_steps (snd (collect_rows_run f q')) (m\<lparr>rwWaiting := True\<rparr>) = None \<and>
    lock_steps (snd (collect_rows_on_error_run f q')) m = Some m"
proof -
  have l: "late_deadline = (\<lambda>q. qDeadline q \<and> qError q = None)" by (simp add: fun_eq_iff late_deadline_def)
  have "q \<in> set (filter (\<lambda>q. qDeadline q \<and> qError q = None) (qs @ later))" using assms(1-3) by simp
  then have "0 < rwReaders m" unfolding m_def rw_mutex.simps by (metis add_gr_0 length_pos_if_in_set)
  then have "\<not> writer_enters m" by (simp add: writer_enters_def)
  moreover have "lock_steps (snd (collect_rows_run f q')) (m\<lparr>rwWaiting := True\<rparr>) = None"
    by (simp add: collect_rows_locks)
  moreover have "lock_steps (snd (collect_rows_on_error_run f q')) m = Some m"
    by (simp add: collect_rows_on_error_locks m_def)
  moreover have "lock_steps (concat (map (\<lambda>q. snd (collect_rows_run f q)) (qs @ later))) \<lparr>rwReaders = n, rwWaiting = False\<rparr> = Some m"
    unfolding collectors_leak m_def l ..
  ultimately show ?thesis using assms(2) by (simp add: collect_rows_eq)
qed

lemma deadline_after_success_leaks_lock_witness:
  "let late = \<lparr>qDeadline = True, qError = None, qRows = [Inr ()], qRowsErr = None\<rparr>;
       quick = \<lparr>qDeadline = False, qError = None, qRows = [Inr ()], qRowsErr = None\<rparr>
   in lock_steps (concat (map (\<lambda>q. snd (collect_rows_run id q)) [quick, late, quick])) \<lparr>rwReaders = 0, rwWaiting = False\<rparr> =
        Some \<lparr>rwReaders = 1, rwWaiting = False\<rparr> \<and>
      lock_steps (snd (collect_rows_run id quick)) \<lparr>rwReaders = 1, rwWaiting = True\<rparr> = None"
  using deadline_after_success_leaks_lock
    [of "\<lparr>qDeadline = True, qError = None, qRows = [Inr ()], qRowsErr = None\<rparr>"
        "[\<lparr>qDeadline = False, qError = None, qRows = [Inr ()], qRowsErr = None\<rparr>,
          \<lparr>qDeadline = True, qError = None, qRows = [Inr ()], qRowsErr = None\<rparr>]"
        "\<lparr>rwReaders = 1, rwWaiting = False\<rparr>" 0
        "[\<lparr>qDeadline = False, qError = None, qRows = [Inr ()], qRowsErr = None\<rparr>]" id
        "\<lparr>qDeadline = False, qError = None, qRows = [Inr ()], qRowsErr = None\<rparr>"]
  by (simp add: Let_def)

end
