(* ===== verification/Metrics.thy ===== *)
theory Metrics
  imports Queries "HOL-Library.Multiset" "HOL-Library.List_Lexorder" "HOL-Library.Char_ord"
begin

text \<open>
  User-defined metrics: the types \<open>Metric\<close> and \<open>MetricsCache\<close> (\<open>collector/types.go\<close>, \<open>cache.go\<close>),
  the normalization of identifiers and the metric keys (\<open>metrics.go\<close>), the error of an empty result
  (\<open>errors.go\<close>), and the loading and reloading of definition files (\<open>data_loader.go\<close>,
  \<open>collector.go\<close>). A Go map of a metric is the list of its entries in iteration order.

  The cache is keyed by the metric's pointer in the source. The map of metrics to scrape holds one
  pointer per identifier and the cache is rebuilt from that map, so the model keys it by identifier.
\<close>

section \<open>Types\<close>

record Metric =
  mID :: string
  mContext :: string
  mLabels :: "string list"
  mMetricsDesc :: "(string \<times> string) list"
  mMetricsType :: "(string \<times> string) list"
  mMetricsBuckets :: "(string \<times> (string \<times> string) list) list"
  mFieldToAppend :: string
  mRequest :: string
  mIgnoreZeroResult :: bool
  mQueryTimeout :: string
  mScrapeInterval :: string
  mDatabases :: "string list option"

type_synonym metric_map = "string \<rightharpoonup> Metric"

text \<open>\<open>MetricsCache\<close>: the tick of the last scrape of each metric, nil before the first.\<close>

type_synonym MetricsCache = "string \<rightharpoonup> time option"

definition NewMetricsCache :: "metric_map \<Rightarrow> MetricsCache" where
  "NewMetricsCache metrics = (\<lambda>i. case metrics i of None \<Rightarrow> None | Some m \<Rightarrow> Some None)"

text \<open>Both accesses dereference the record of the metric: \<open>None\<close> is the nil dereference.\<close>

definition GetLastScraped :: "MetricsCache \<Rightarrow> Metric \<Rightarrow> time option option" where
  "GetLastScraped c m = c (mID m)"

definition SetLastScraped :: "MetricsCache \<Rightarrow> Metric \<Rightarrow> time option \<Rightarrow> MetricsCache option" where
  "SetLastScraped c m tick = (case c (mID m) of None \<Rightarrow> None | Some r \<Rightarrow> Some (c(mID m \<mapsto> tick)))"

lemma dom_NewMetricsCache [simp]: "dom (NewMetricsCache ms) = dom ms"
  by (auto simp: NewMetricsCache_def split: option.splits)

lemma SetLastScraped_dom: "SetLastScraped c m t = Some c' \<Longrightarrow> dom c' = dom c"
  by (auto simp: SetLastScraped_def split: option.splits if_splits)

section \<open>Identifiers\<close>

text \<open>Writing a key of a map that is kept as its entry list.\<close>

fun put :: "'k \<Rightarrow> 'v \<Rightarrow> ('k \<times> 'v) list \<Rightarrow> ('k \<times> 'v) list" where
  "put k v [] = [(k, v)]"
| "put k v ((k', v') # rest) = (if k = k' then (k, v) # rest else (k', v') # put k v rest)"

definition normalize_keys :: "('v \<Rightarrow> 'w) \<Rightarrow> (string \<times> 'v) list \<Rightarrow> (string \<times> 'w) list" where
  "normalize_keys f entries = foldl (\<lambda>acc (name, v). put (to_lower name) (f v) acc) [] entries"

definition createMetricID :: "Metric \<Rightarrow> string" where
  "createMetricID m =
     mContext m @ concat (map (\<lambda>key. ''_'' @ key) (sort (map fst (mMetricsDesc m))))"

definition normalizeIdentifiers :: "Metric \<Rightarrow> Metric" where
  "normalizeIdentifiers m =
     (let m' = m\<lparr>mMetricsDesc := normalize_keys id (mMetricsDesc m),
                 mMetricsType := normalize_keys id (mMetricsType m),
                 mMetricsBuckets := normalize_keys (normalize_keys id) (mMetricsBuckets m),
                 mLabels := map to_lower (mLabels m),
                 mFieldToAppend := to_lower (mFieldToAppend m)\<rparr>
      in m'\<lparr>mID := createMetricID m'\<rparr>)"

definition GetLabels :: "Metric \<Rightarrow> string list" where
  "GetLabels m = (if mFieldToAppend m = [] then mLabels m
                  else filter (\<lambda>label. label \<noteq> mFieldToAppend m) (mLabels m))"

definition IsEnabledForDatabase :: "Metric \<Rightarrow> string \<Rightarrow> bool" where
  "IsEnabledForDatabase m database =
     (case mDatabases m of None \<Rightarrow> True | Some dbs \<Rightarrow> database \<in> set dbs)"

fun mergeMetrics :: "metric_map \<Rightarrow> Metric list \<Rightarrow> metric_map" where
  "mergeMetrics dst [] = dst"
| "mergeMetrics dst (m # ms) = mergeMetrics (dst(mID m \<mapsto> m)) ms"

definition toMap :: "Metric list \<Rightarrow> metric_map" where
  "toMap ms = mergeMetrics Map.empty ms"

subsection \<open>Normal forms\<close>

lemma map_of_put: "map_of (put k v xs) = (map_of xs)(k \<mapsto> v)"
  by (induction k v xs rule: put.induct) auto

lemma keys_put: "fst ` set (put k v xs) = insert k (fst ` set xs)"
  by (induction k v xs rule: put.induct) auto

lemma distinct_put: "distinct (map fst xs) \<Longrightarrow> distinct (map fst (put k v xs))"
proof (induction k v xs rule: put.induct)
  case (2 k v k' v' rest)
  then show ?case using keys_put [of k v rest] by auto
qed simp

lemma put_fresh: "k \<notin> fst ` set xs \<Longrightarrow> put k v xs = xs @ [(k, v)]"
  by (induction k v xs rule: put.induct) auto

lemma set_put: "set (put k v xs) \<subseteq> insert (k, v) (set xs)"
  by (induction k v xs rule: put.induct) auto

definition normal_keys :: "(string \<times> 'v) list \<Rightarrow> bool" where
  "normal_keys xs \<longleftrightarrow> distinct (map fst xs) \<and> (\<forall>k \<in> fst ` set xs. to_lower k = k)"

lemma normalize_keys_gen:
  assumes "normal_keys acc"
  shows "normal_keys (foldl (\<lambda>acc (name, v). put (to_lower name) (f v) acc) acc xs)"
  using assms
proof (induction xs arbitrary: acc)
  case (Cons x xs)
  obtain name v where x: "x = (name, v)" by (cases x)
  have "normal_keys (put (to_lower name) (f v) acc)"
    using Cons.prems by (auto simp: normal_keys_def distinct_put keys_put)
  then show ?case using Cons.IH x by simp
qed simp

lemma normal_normalize_keys [simp]: "normal_keys (normalize_keys f xs)"
  unfolding normalize_keys_def by (rule normalize_keys_gen) (simp add: normal_keys_def)

lemma normalize_normal_gen:
  assumes "normal_keys (acc @ xs)" and "\<forall>(k, v) \<in> set xs. f v = v"
  shows "foldl (\<lambda>acc (name, v). put (to_lower name) (f v) acc) acc xs = acc @ xs"
  using assms
proof (induction xs arbitrary: acc)
  case (Cons x xs)
  obtain k v where x: "x = (k, v)" by (cases x)
  have "put (to_lower k) (f v) acc = acc @ [x]"
    using Cons.prems x by (subst put_fresh) (auto simp: normal_keys_def)
  then show ?case using Cons.IH [of "acc @ [x]"] Cons.prems x by simp
qed simp

lemma normalize_normal: "normal_keys xs \<Longrightarrow> \<forall>(k, v) \<in> set xs. f v = v \<Longrightarrow> normalize_keys f xs = xs"
  unfolding normalize_keys_def using normalize_normal_gen [of "[]" xs f] by simp

lemma normalize_values: "(k, w) \<in> set (normalize_keys f xs) \<Longrightarrow> \<exists>v. w = f v"
proof -
  have "(k, w) \<in> set (foldl (\<lambda>acc (name, v). put (to_lower name) (f v) acc) acc xs) \<Longrightarrow>
      (k, w) \<in> set acc \<or> (\<exists>v. w = f v)" for acc
  proof (induction xs arbitrary: acc)
    case (Cons x xs)
    obtain name v where x: "x = (name, v)" by (cases x)
    from Cons.IH Cons.prems x have "(k, w) \<in> set (put (to_lower name) (f v) acc) \<or> (\<exists>v. w = f v)"
      by simp
    then show ?case using set_put [of "to_lower name" "f v" acc] by auto
  qed simp
  then show "(k, w) \<in> set (normalize_keys f xs) \<Longrightarrow> \<exists>v. w = f v"
    by (fastforce simp: normalize_keys_def)
qed

lemma normalize_keys_id_idem: "normalize_keys id (normalize_keys id xs) = normalize_keys id xs"
  by (rule normalize_normal) auto

lemma normalize_buckets_idem:
  "normalize_keys (normalize_keys id) (normalize_keys (normalize_keys id) xs) =
   normalize_keys (normalize_keys id) xs"
proof (rule normalize_normal)
  show "\<forall>(k, v) \<in> set (normalize_keys (normalize_keys id) xs). normalize_keys id v = v"
  proof clarify
    fix k v
    assume "(k, v) \<in> set (normalize_keys (normalize_keys id) xs)"
    then obtain w where "v = normalize_keys id w"
      using normalize_values by meson
    then show "normalize_keys id v = v" by (simp add: normalize_keys_id_idem)
  qed
qed simp

text \<open>
  The methods of \<open>Metrics\<close>, the list of the metrics of a file. A decoded list holds pointers, and a null
  entry of the file is a nil pointer in it: normalizing its identifiers dereferences it, which is the
  result \<open>None\<close>. So no list that is merged later holds a nil pointer.
\<close>

definition Metrics_normalizeIdentifiers :: "Metric option list \<Rightarrow> Metric list option" where
  "Metrics_normalizeIdentifiers metrics = those (map (map_option normalizeIdentifiers) metrics)"

lemma Metrics_normalizeIdentifiers_None: "Metrics_normalizeIdentifiers metrics = None \<longleftrightarrow> None \<in> set metrics"
  unfolding Metrics_normalizeIdentifiers_def by (induction metrics) (auto split: option.splits)

lemma Metrics_normalizeIdentifiers_member:
  "Metrics_normalizeIdentifiers metrics = Some ms \<Longrightarrow> m \<in> set ms \<Longrightarrow> m \<in> range normalizeIdentifiers"
proof (induction metrics arbitrary: ms)
  case (Cons x metrics)
  then show ?case by (auto simp: Metrics_normalizeIdentifiers_def split: option.splits)
qed (simp add: Metrics_normalizeIdentifiers_def)

lemma normalizeIdentifiers_idem: "normalizeIdentifiers (normalizeIdentifiers m) = normalizeIdentifiers m"
  by (simp add: normalizeIdentifiers_def Let_def normalize_keys_id_idem normalize_buckets_idem
      createMetricID_def comp_def)

lemma keys_normalize: "fst ` set (normalize_keys f xs) = to_lower ` fst ` set xs"
proof -
  have "fst ` set (foldl (\<lambda>acc (name, v). put (to_lower name) (f v) acc) acc xs) =
      fst ` set acc \<union> to_lower ` fst ` set xs" for acc
  proof (induction xs arbitrary: acc)
    case (Cons x xs)
    then show ?case by (cases x) (simp add: keys_put Un_insert_left)
  qed simp
  from this [of "[]"] show ?thesis by (simp add: normalize_keys_def)
qed

text \<open>
  Normalizing a metric definition is idempotent, and the identifier it computes is a function of
  the context and the set of lower-cased value columns alone: it does not depend on the order in
  which the runtime iterates over the description map, nor on the case of its keys.
\<close>
theorem metric_identifier_canonical:
  "normalizeIdentifiers (normalizeIdentifiers m) = normalizeIdentifiers m \<and>
   (\<forall>m'. mContext m' = mContext m \<and>
         to_lower ` fst ` set (mMetricsDesc m') = to_lower ` fst ` set (mMetricsDesc m) \<longrightarrow>
         mID (normalizeIdentifiers m') = mID (normalizeIdentifiers m))"
proof (intro conjI allI impI)
  show "normalizeIdentifiers (normalizeIdentifiers m) = normalizeIdentifiers m"
    by (rule normalizeIdentifiers_idem)
next
  fix m' :: Metric
  assume eq: "mContext m' = mContext m \<and>
     to_lower ` fst ` set (mMetricsDesc m') = to_lower ` fst ` set (mMetricsDesc m)"
  let ?k = "\<lambda>m. map fst (normalize_keys id (mMetricsDesc m))"
  have d: "distinct (?k x)" for x :: Metric
    using normal_normalize_keys [of id "mMetricsDesc x"] by (simp add: normal_keys_def)
  have "set (?k m') = set (?k m)"
    using eq by (simp add: keys_normalize)
  then have "mset (?k m') = mset (?k m)"
    by (rule iffD1 [OF set_eq_iff_mset_eq_distinct [OF d d]])
  then have "sort (?k m') = sort (?k m)"
    by (metis mset_sort properties_for_sort sorted_sort)
  then show "mID (normalizeIdentifiers m') = mID (normalizeIdentifiers m)"
    using eq by (simp add: normalizeIdentifiers_def Let_def createMetricID_def)
qed

definition example_metric :: "(string \<times> string) list \<Rightarrow> Metric" where
  "example_metric desc =
     \<lparr>mID = [], mContext = ''sessions'', mLabels = [], mMetricsDesc = desc, mMetricsType = [],
      mMetricsBuckets = [], mFieldToAppend = [], mRequest = ''select 1'',
      mIgnoreZeroResult = False, mQueryTimeout = [], mScrapeInterval = [], mDatabases = None\<rparr>"

lemma metric_identifier_canonical_witness:
  "mID (normalizeIdentifiers (example_metric [(''VALUE'', ''v''), (''limit'', ''l'')])) =
   mID (normalizeIdentifiers (example_metric [(''LIMIT'', ''x''), (''Value'', ''y'')]))"
proof -
  have "to_lower ''VALUE'' = ''value''" "to_lower ''limit'' = ''limit''"
       "to_lower ''LIMIT'' = ''limit''" "to_lower ''Value'' = ''value''"
    by (simp_all add: to_lower_def lower_char_def byte_of_def char_of_def bit_Suc_0_iff)
  then have "to_lower ` fst ` set (mMetricsDesc (example_metric [(''VALUE'', ''v''), (''limit'', ''l'')])) =
        to_lower ` fst ` set (mMetricsDesc (example_metric [(''LIMIT'', ''x''), (''Value'', ''y'')]))"
    by (simp add: example_metric_def insert_commute)
  moreover have "mContext (example_metric d) = ''sessions''" for d
    by (simp add: example_metric_def)
  ultimately show ?thesis
    by (intro mp [OF spec [OF conjunct2 [OF metric_identifier_canonical]]]) metis
qed

end
