(* ===== verification/MetricLoading.thy ===== *)
theory MetricLoading
  imports Metrics Config
begin

text \<open>
  Loading and reloading the definition files of user-defined metrics (\<open>collector/data_loader.go\<close>,
  \<open>checkIfMetricsChanged\<close> and \<open>refreshMetricDefinitionHashes\<close> of \<open>collector.go\<close>), and the error
  of an empty result (\<open>errors.go\<close>).

  What the files hold is an argument: the outcome of reading a file, of the TOML and of the YAML
  decoder (third-party packages), and of hashing a file.
\<close>

record definition_files =
  dfToml :: "string \<Rightarrow> Metric option list result"
  dfRead :: "string \<Rightarrow> string result"
  dfYaml :: "string \<Rightarrow> Metric option list result"
  dfHash :: "string \<Rightarrow> string result"

section \<open>Loading\<close>

definition loadYamlMetricsConfig :: "definition_files \<Rightarrow> string \<Rightarrow> Metric option list result" where
  "loadYamlMetricsConfig fs definitionFile =
     (case dfRead fs definitionFile of
        Inl err \<Rightarrow> Inl (ErrWrap (''cannot read the metrics config '' @ definitionFile) err)
      | Inr yamlBytes \<Rightarrow>
          (case dfYaml fs yamlBytes of
             Inl err \<Rightarrow> Inl (ErrWrap (''cannot unmarshal the metrics config '' @ definitionFile) err)
           | Inr metrics \<Rightarrow> Inr metrics))"

definition loadTomlMetricsConfig :: "definition_files \<Rightarrow> string \<Rightarrow> Metric option list result" where
  "loadTomlMetricsConfig fs definitionFile =
     (case dfToml fs definitionFile of
        Inl err \<Rightarrow> Inl (ErrWrap (''cannot read the metrics config '' @ definitionFile) err)
      | Inr metrics \<Rightarrow> Inr metrics)"

text \<open>From here on \<open>None\<close> is the panic of a nil dereference.\<close>

definition loadMetricsConfig :: "definition_files \<Rightarrow> string \<Rightarrow> Metric list result option" where
  "loadMetricsConfig fs definitionFile =
     (if has_suffix ''toml'' definitionFile
      then case loadTomlMetricsConfig fs definitionFile of
             Inl err \<Rightarrow> Some (Inl (ErrWrap ''cannot load toml based metrics'' err))
           | Inr metrics \<Rightarrow> map_option Inr (Metrics_normalizeIdentifiers metrics)
      else case loadYamlMetricsConfig fs definitionFile of
             Inl err \<Rightarrow> Some (Inl (ErrWrap ''cannot load yaml based metrics'' err))
           | Inr metrics \<Rightarrow> map_option Inr (Metrics_normalizeIdentifiers metrics))"

fun load_files :: "definition_files \<Rightarrow> string list \<Rightarrow> metric_map \<Rightarrow> metric_map result option" where
  "load_files fs [] dst = Some (Inr dst)"
| "load_files fs (definitionFile # rest) dst =
     (if trim_space definitionFile = [] then load_files fs rest dst
      else case loadMetricsConfig fs definitionFile of
             None \<Rightarrow> None
           | Some (Inl err) \<Rightarrow> Some (Inl (ErrWrap (''failed to load metric definitions '' @ definitionFile) err))
           | Some (Inr metrics) \<Rightarrow> load_files fs rest (mergeMetrics dst metrics))"

definition loadMetricsToScrape :: "definition_files \<Rightarrow> string list \<Rightarrow> metric_map result option" where
  "loadMetricsToScrape fs files = (if files = [] then Some (Inr Map.empty) else load_files fs files Map.empty)"

text \<open>What a reader expects: the normalized metrics of every non-blank file, in order; the last one
  with an identifier wins.\<close>

definition file_metrics :: "definition_files \<Rightarrow> string \<Rightarrow> Metric list" where
  "file_metrics fs f = (case loadMetricsConfig fs f of Some (Inr ms) \<Rightarrow> ms | _ \<Rightarrow> [])"

definition all_file_metrics :: "definition_files \<Rightarrow> string list \<Rightarrow> Metric list" where
  "all_file_metrics fs files = concat (map (file_metrics fs) (filter (\<lambda>f. trim_space f \<noteq> []) files))"

text \<open>A file whose decoded list holds a null entry, which is what makes a load panic.\<close>

definition null_entry :: "definition_files \<Rightarrow> string \<Rightarrow> bool" where
  "null_entry fs f = (case if has_suffix ''toml'' f then loadTomlMetricsConfig fs f else loadYamlMetricsConfig fs f of
     Inl _ \<Rightarrow> False | Inr metrics \<Rightarrow> None \<in> set metrics)"

lemma loadMetricsConfig_None: "loadMetricsConfig fs f = None \<longleftrightarrow> null_entry fs f"
  by (simp add: loadMetricsConfig_def null_entry_def Metrics_normalizeIdentifiers_None split: sum.split)

lemma load_files_None:
  "load_files fs files dst = None \<Longrightarrow> \<exists>f \<in> set files. trim_space f \<noteq> [] \<and> null_entry fs f"
proof (induction files arbitrary: dst)
  case (Cons f rest)
  then show ?case
    by (fastforce simp: loadMetricsConfig_None split: if_splits option.splits sum.splits)
qed simp

lemma loadMetricsToScrape_None:
  "loadMetricsToScrape fs files = None \<Longrightarrow> \<exists>f \<in> set files. trim_space f \<noteq> [] \<and> null_entry fs f"
  by (auto simp: loadMetricsToScrape_def dest: load_files_None split: if_splits)

lemma mergeMetrics_append: "mergeMetrics dst (xs @ ys) = mergeMetrics (mergeMetrics dst xs) ys"
  by (induction xs arbitrary: dst) auto

lemma mergeMetrics_map_of: "mergeMetrics dst ms = dst ++ map_of (rev (map (\<lambda>m. (mID m, m)) ms))"
  by (induction ms arbitrary: dst) (auto simp: map_add_def fun_eq_iff split: option.splits)

lemma load_files_ok:
  "load_files fs files dst = Some (Inr ms) \<Longrightarrow> ms = mergeMetrics dst (all_file_metrics fs files)"
proof (induction files arbitrary: dst)
  case (Cons f rest)
  then show ?case
    by (auto simp: all_file_metrics_def file_metrics_def mergeMetrics_append
        split: if_splits option.splits sum.splits)
qed (simp add: all_file_metrics_def)

lemma loadMetricsToScrape_ok:
  "loadMetricsToScrape fs files = Some (Inr ms) \<Longrightarrow> ms = toMap (all_file_metrics fs files)"
  by (auto simp: loadMetricsToScrape_def toMap_def all_file_metrics_def dest: load_files_ok
      split: if_splits)

lemma loadMetricsConfig_normal:
  "loadMetricsConfig fs f = Some (Inr ms) \<Longrightarrow> m \<in> set ms \<Longrightarrow> normalizeIdentifiers m = m"
  by (auto simp: loadMetricsConfig_def normalizeIdentifiers_idem dest!: Metrics_normalizeIdentifiers_member
      split: if_splits sum.splits)

lemma file_metrics_normal: "m \<in> set (all_file_metrics fs files) \<Longrightarrow> normalizeIdentifiers m = m"
  by (auto simp: all_file_metrics_def file_metrics_def dest: loadMetricsConfig_normal [OF sym] split: option.splits sum.splits)

lemma mID_normalizeIdentifiers: "mID (normalizeIdentifiers m) = createMetricID (normalizeIdentifiers m)"
  by (simp add: normalizeIdentifiers_def Let_def createMetricID_def)

lemma toMap_lookup:
  "toMap ms i = Some m \<longleftrightarrow> map_of (rev (map (\<lambda>m. (mID m, m)) ms)) i = Some m"
  by (simp add: toMap_def mergeMetrics_map_of)

lemma toMap_member: "toMap ms i = Some m \<Longrightarrow> m \<in> set ms \<and> mID m = i"
  by (auto simp: toMap_lookup dest!: map_of_SomeD)

lemma toMap_dom: "dom (toMap ms) = mID ` set ms"
  by (auto simp: toMap_def mergeMetrics_map_of dom_map_of_conv_image_fst image_iff)

section \<open>Detecting a change and reloading\<close>

text \<open>\<open>filepath.Clean\<close> on Unix.\<close>

fun clean_elements :: "bool \<Rightarrow> string list \<Rightarrow> string list \<Rightarrow> string list" where
  "clean_elements rooted out [] = out"
| "clean_elements rooted out (e # es) =
     (if e = [] \<or> e = ''.'' then clean_elements rooted out es
      else if e = ''..'' then
        (if out \<noteq> [] \<and> last out \<noteq> ''..'' then clean_elements rooted (butlast out) es
         else if rooted then clean_elements rooted out es
         else clean_elements rooted (out @ [''..'']) es)
      else clean_elements rooted (out @ [e]) es)"

definition filepath_clean :: "string \<Rightarrow> string" where
  "filepath_clean path =
     (let rooted = has_prefix ''/'' path;
          body = join_with ''/'' (clean_elements rooted [] (split_on CHR 0x2F path))
      in if rooted then CHR 0x2F # body else if body = [] then ''.'' else body)"

text \<open>The fields of \<open>Scraper\<close> and of its databases that hold the definitions.\<close>

record metric_state =
  metricsToScrape :: metric_map
  metricDefinitionHashes :: "string \<rightharpoonup> string"
  metricCaches :: "(string \<times> MetricsCache) list"

fun checkIfMetricsChanged :: "definition_files \<Rightarrow> (string \<rightharpoonup> string) \<Rightarrow> string list \<Rightarrow> bool" where
  "checkIfMetricsChanged fs hashes [] = False"
| "checkIfMetricsChanged fs hashes (definitionFile # rest) =
     (if definitionFile = [] then checkIfMetricsChanged fs hashes rest
      else case dfHash fs (filepath_clean definitionFile) of
             Inl err \<Rightarrow> True
           | Inr digest \<Rightarrow>
               if (case hashes (filepath_clean definitionFile) of None \<Rightarrow> [] | Some h \<Rightarrow> h) \<noteq> digest then True
               else checkIfMetricsChanged fs hashes rest)"

fun refresh_hashes :: "definition_files \<Rightarrow> string list \<Rightarrow> (string \<rightharpoonup> string) \<Rightarrow> (string \<rightharpoonup> string)" where
  "refresh_hashes fs [] hashes = hashes"
| "refresh_hashes fs (definitionFile # rest) hashes =
     (if definitionFile = [] then refresh_hashes fs rest hashes
      else case dfHash fs (filepath_clean definitionFile) of
             Inl err \<Rightarrow> refresh_hashes fs rest hashes
           | Inr digest \<Rightarrow> refresh_hashes fs rest (hashes(filepath_clean definitionFile \<mapsto> digest)))"

definition refreshMetricDefinitionHashes ::
    "definition_files \<Rightarrow> string list \<Rightarrow> metric_state \<Rightarrow> metric_state" where
  "refreshMetricDefinitionHashes fs files s =
     s\<lparr>metricDefinitionHashes := refresh_hashes fs files Map.empty\<rparr>"

definition initCache :: "metric_state \<Rightarrow> metric_state" where
  "initCache s =
     s\<lparr>metricCaches := map (\<lambda>(d, c). (d, NewMetricsCache (metricsToScrape s))) (metricCaches s)\<rparr>"

text \<open>The Boolean is the result of \<open>reloadMetrics\<close>; a failed load keeps the last good definitions.\<close>

definition reloadMetrics ::
    "definition_files \<Rightarrow> string list \<Rightarrow> metric_state \<Rightarrow> (metric_state \<times> bool) option" where
  "reloadMetrics fs files s =
     (case loadMetricsToScrape fs files of
        None \<Rightarrow> None
      | Some (Inl err) \<Rightarrow> Some (s, False)
      | Some (Inr ms) \<Rightarrow>
          Some (initCache (refreshMetricDefinitionHashes fs files (s\<lparr>metricsToScrape := ms\<rparr>)), True))"

text \<open>What \<open>NewScraper\<close> does with the definitions, and the first statements of \<open>scrapeSamples\<close>.\<close>

definition initial_metric_state :: "definition_files \<Rightarrow> string list \<Rightarrow> string list \<Rightarrow> metric_state option" where
  "initial_metric_state fs files dbs =
     (case loadMetricsToScrape fs files of
        None \<Rightarrow> None
      | Some loaded \<Rightarrow>
          Some (initCache
            \<lparr>metricsToScrape = (case loaded of Inl err \<Rightarrow> Map.empty | Inr ms \<Rightarrow> ms),
             metricDefinitionHashes = Map.empty,
             metricCaches = map (\<lambda>d. (d, Map.empty)) dbs\<rparr>))"

definition refresh_definitions :: "definition_files \<Rightarrow> string list \<Rightarrow> metric_state \<Rightarrow> metric_state option" where
  "refresh_definitions fs files s =
     (if checkIfMetricsChanged fs (metricDefinitionHashes s) files
      then map_option fst (reloadMetrics fs files s) else Some s)"

subsection \<open>Lemmas\<close>

lemma refresh_hashes_lookup:
  "refresh_hashes fs files hashes p =
     (if \<exists>f \<in> set files. f \<noteq> [] \<and> filepath_clean f = p
      then case dfHash fs p of Inl _ \<Rightarrow> hashes p | Inr h \<Rightarrow> Some h
      else hashes p)"
proof (induction files arbitrary: hashes)
  case (Cons f rest)
  show ?case
    by (cases "f = []"; cases "dfHash fs (filepath_clean f)") (auto simp: Cons.IH split: sum.splits)
qed simp

lemma checkIfMetricsChanged_iff:
  "checkIfMetricsChanged fs hashes files \<longleftrightarrow>
     (\<exists>f \<in> set files. f \<noteq> [] \<and>
        (case dfHash fs (filepath_clean f) of
           Inl _ \<Rightarrow> True
         | Inr h \<Rightarrow> (case hashes (filepath_clean f) of None \<Rightarrow> [] | Some x \<Rightarrow> x) \<noteq> h))"
  by (induction files) (auto split: sum.splits)

lemma checkIfMetricsChanged_refreshed:
  "checkIfMetricsChanged fs (refresh_hashes fs files Map.empty) files \<longleftrightarrow>
     (\<exists>f \<in> set files. f \<noteq> [] \<and> isl (dfHash fs (filepath_clean f)))"
proof -
  have "(case dfHash fs (filepath_clean f) of
           Inl _ \<Rightarrow> True
         | Inr h \<Rightarrow> (case refresh_hashes fs files Map.empty (filepath_clean f) of
                      None \<Rightarrow> [] | Some x \<Rightarrow> x) \<noteq> h) = isl (dfHash fs (filepath_clean f))"
    if "f \<in> set files" "f \<noteq> []" for f
    using that by (cases "dfHash fs (filepath_clean f)") (auto simp: refresh_hashes_lookup)
  then show ?thesis by (auto simp: checkIfMetricsChanged_iff)
qed

lemma metricsToScrape_initCache [simp]: "metricsToScrape (initCache s) = metricsToScrape s"
  and metricDefinitionHashes_initCache [simp]: "metricDefinitionHashes (initCache s) = metricDefinitionHashes s"
  and databases_initCache [simp]: "map fst (metricCaches (initCache s)) = map fst (metricCaches s)"
  by (auto simp: initCache_def comp_def case_prod_beta)

text \<open>Every cache has a record for exactly the metrics to scrape, so that neither access of
  \<open>MetricsCache\<close> dereferences nil.\<close>

definition caches_cover :: "metric_state \<Rightarrow> bool" where
  "caches_cover s \<longleftrightarrow> (\<forall>(d, c) \<in> set (metricCaches s). dom c = dom (metricsToScrape s))"

definition keyed_by_id :: "metric_map \<Rightarrow> bool" where
  "keyed_by_id ms \<longleftrightarrow> (\<forall>i m. ms i = Some m \<longrightarrow> mID m = i)"

lemma caches_cover_initCache [simp]: "caches_cover (initCache s)"
proof -
  have "dom c = dom (metricsToScrape s)" if "(d, c) \<in> set (metricCaches (initCache s))" for d c
  proof -
    from that have "c = NewMetricsCache (metricsToScrape s)" by (auto simp: initCache_def)
    then show ?thesis by (simp only: dom_NewMetricsCache)
  qed
  then show ?thesis unfolding caches_cover_def metricsToScrape_initCache by fast
qed

lemma keyed_by_id_load: "loadMetricsToScrape fs files = Some (Inr ms) \<Longrightarrow> keyed_by_id ms"
  by (auto simp: keyed_by_id_def dest!: loadMetricsToScrape_ok toMap_member)

lemma keyed_by_id_empty [simp]: "keyed_by_id Map.empty"
  by (simp add: keyed_by_id_def)

definition definitions_ok :: "metric_state \<Rightarrow> bool" where
  "definitions_ok s \<longleftrightarrow> caches_cover s \<and> keyed_by_id (metricsToScrape s)"

lemma initial_definitions_ok: "initial_metric_state fs files dbs = Some s \<Longrightarrow> definitions_ok s"
  by (auto simp: definitions_ok_def initial_metric_state_def dest: keyed_by_id_load split: option.splits sum.splits)

lemma reloadMetrics_definitions_ok:
  "reloadMetrics fs files s = Some (s', ok) \<Longrightarrow> definitions_ok s \<Longrightarrow> definitions_ok s'"
  by (auto simp: definitions_ok_def reloadMetrics_def refreshMetricDefinitionHashes_def
      dest: keyed_by_id_load split: option.splits sum.splits)

lemma refresh_definitions_ok: "refresh_definitions fs files s = Some s' \<Longrightarrow> definitions_ok s \<Longrightarrow> definitions_ok s'"
  by (auto simp: refresh_definitions_def reloadMetrics_definitions_ok split: if_splits)

lemma refresh_definitions_None:
  "refresh_definitions fs files s = None \<longleftrightarrow>
     checkIfMetricsChanged fs (metricDefinitionHashes s) files \<and> loadMetricsToScrape fs files = None"
  by (auto simp: refresh_definitions_def reloadMetrics_def split: option.splits sum.splits)

lemma refresh_definitions_names:
  "refresh_definitions fs files s = Some s' \<Longrightarrow> map fst (metricCaches s') = map fst (metricCaches s)"
  by (auto simp: refresh_definitions_def reloadMetrics_def refreshMetricDefinitionHashes_def
      split: if_splits option.splits sum.splits)

lemma definitions_ok_lookup:
  assumes "definitions_ok s" and "(d, c) \<in> set (metricCaches s)" and "metricsToScrape s i = Some m"
  shows "GetLastScraped c m \<noteq> None" and "SetLastScraped c m t \<noteq> None"
proof -
  have "mID m \<in> dom c" using assms by (force simp: definitions_ok_def caches_cover_def keyed_by_id_def)
  then show "GetLastScraped c m \<noteq> None" and "SetLastScraped c m t \<noteq> None"
    by (auto simp: GetLastScraped_def SetLastScraped_def)
qed

text \<open>
  C35: a reload is all or nothing. When some definition file fails to load the definitions, hashes and
  caches of the last good load stay exactly as they were. When it succeeds, the metrics are those of
  every non-blank file in order (a later metric replaces an earlier one with the same identifier),
  each under its own identifier, every cache starts empty, and the next check with unchanged files
  reports a change only if some non-empty entry cannot be hashed. The third case, a panic, needs a
  file with a null entry.
\<close>
theorem reload_all_or_nothing:
  "(case loadMetricsToScrape fs files of
      None \<Rightarrow> reloadMetrics fs files s = None \<and> (\<exists>f \<in> set files. trim_space f \<noteq> [] \<and> null_entry fs f)
    | Some (Inl err) \<Rightarrow> reloadMetrics fs files s = Some (s, False)
    | Some (Inr ms) \<Rightarrow>
        (\<exists>s'. reloadMetrics fs files s = Some (s', True) \<and>
           metricsToScrape s' = toMap (all_file_metrics fs files) \<and>
           keyed_by_id (metricsToScrape s') \<and>
           metricCaches s' = map (\<lambda>(d, c). (d, NewMetricsCache (metricsToScrape s'))) (metricCaches s) \<and>
           checkIfMetricsChanged fs (metricDefinitionHashes s') files =
             (\<exists>f \<in> set files. f \<noteq> [] \<and> isl (dfHash fs (filepath_clean f)))))"
proof -
  consider "loadMetricsToScrape fs files = None" | err where "loadMetricsToScrape fs files = Some (Inl err)"
    | ms where "loadMetricsToScrape fs files = Some (Inr ms)"
    by (metis option.exhaust sum.exhaust)
  then show ?thesis
  proof cases
    case 1
    then show ?thesis using loadMetricsToScrape_None by (simp add: reloadMetrics_def)
  next
    case 3
    then have "ms = toMap (all_file_metrics fs files)" and "keyed_by_id ms"
      by (auto dest: loadMetricsToScrape_ok keyed_by_id_load)
    with 3 show ?thesis
      by (simp add: reloadMetrics_def refreshMetricDefinitionHashes_def checkIfMetricsChanged_refreshed)
        (simp add: initCache_def)
  qed (simp add: reloadMetrics_def)
qed

definition example_files :: definition_files where
  "example_files =
     \<lparr>dfToml = (\<lambda>f. Inl (ErrText ''toml: expected key'')),
      dfRead = (\<lambda>f. if f = ''gone.yaml'' then Inl (ErrText ''no such file'')
                    else if f = ''null.yaml'' then Inr ''metrics: [null]'' else Inr ''metrics: [...]''),
      dfYaml = (\<lambda>b. if b = ''metrics: [null]'' then Inr [None]
                    else Inr [Some (example_metric [(''value'', ''a value'')])]),
      dfHash = (\<lambda>f. if f = ''   '' then Inl (ErrText ''no such file'') else Inr ''hash'')\<rparr>"

lemmas load_defs = loadMetricsToScrape_def loadMetricsConfig_def loadYamlMetricsConfig_def example_files_def
  Metrics_normalizeIdentifiers_def has_suffix_def has_prefix_def trim_space_def is_space_def byte_of_def

lemma example_files_load:
  "loadMetricsToScrape example_files [''a.yaml''] =
     Some (Inr (toMap [normalizeIdentifiers (example_metric [(''value'', ''a value'')])]))"
  "loadMetricsToScrape example_files [''gone.yaml''] =
     Some (Inl (ErrWrap ''failed to load metric definitions gone.yaml''
       (ErrWrap ''cannot load yaml based metrics''
         (ErrWrap ''cannot read the metrics config gone.yaml'' (ErrText ''no such file'')))))"
  "loadMetricsToScrape example_files [''null.yaml''] = None"
  by (simp_all add: load_defs toMap_def)

lemma reload_all_or_nothing_witness:
  "\<forall>s. reloadMetrics example_files [''gone.yaml''] s = Some (s, False) \<and>
     reloadMetrics example_files [''null.yaml''] s = None \<and>
     (\<exists>s'. reloadMetrics example_files [''a.yaml''] s = Some (s', True) \<and>
        metricsToScrape s' = toMap (all_file_metrics example_files [''a.yaml'']))"
proof
  fix s
  show "reloadMetrics example_files [''gone.yaml''] s = Some (s, False) \<and>
     reloadMetrics example_files [''null.yaml''] s = None \<and>
     (\<exists>s'. reloadMetrics example_files [''a.yaml''] s = Some (s', True) \<and>
        metricsToScrape s' = toMap (all_file_metrics example_files [''a.yaml'']))"
    using reload_all_or_nothing [of example_files "[''gone.yaml'']" s]
      reload_all_or_nothing [of example_files "[''null.yaml'']" s]
      reload_all_or_nothing [of example_files "[''a.yaml'']" s]
    by (auto simp only: example_files_load option.case sum.case)
qed

section \<open>Deviations from the documentation\<close>

text \<open>
  With a non-empty entry that cannot be hashed (an entry of white space, which the loader skips),
  every scrape in which the other files load starts from caches with no last scrape at all. The entry
  is skipped by the loader and not by the check, which finds no such file: the definitions are reloaded
  before every scrape and with them the time of the last scrape of every metric is forgotten, so that
  no custom scrape interval has an effect.
\<close>
theorem blank_entry_resets_caches:
  assumes "f \<in> set files" and "f \<noteq> []" and "isl (dfHash fs (filepath_clean f))"
    and "loadMetricsToScrape fs files = Some (Inr ms)"
    and "refresh_definitions fs files s = Some s'" and "(d, c) \<in> set (metricCaches s')"
  shows "ran c \<subseteq> {None}"
proof -
  have "checkIfMetricsChanged fs (metricDefinitionHashes s) files"
    using assms(1-3) by (auto simp: checkIfMetricsChanged_iff split: sum.splits)
  with assms(4-6) show ?thesis
    by (auto simp: refresh_definitions_def reloadMetrics_def initCache_def NewMetricsCache_def ran_def
        split: option.splits)
qed

lemma blank_entry_resets_caches_witness:
  "\<forall>s s' c. refresh_definitions example_files [''a.yaml'', ''   ''] s = Some s' \<and> (''db'', c) \<in> set (metricCaches s') \<longrightarrow>
     ran c \<subseteq> {None}"
proof (intro allI impI, elim conjE)
  fix s s' c
  have clean: "filepath_clean ''   '' = ''   ''"
    by (simp add: filepath_clean_def has_prefix_def)
  obtain ms where load: "loadMetricsToScrape example_files [''a.yaml'', ''   ''] = Some (Inr ms)"
    by (simp add: load_defs)
  assume run: "refresh_definitions example_files [''a.yaml'', ''   ''] s = Some s'" "(''db'', c) \<in> set (metricCaches s')"
  have "isl (dfHash example_files (filepath_clean ''   ''))" unfolding clean by (simp add: example_files_def)
  then show "ran c \<subseteq> {None}"
    using blank_entry_resets_caches [OF _ _ _ load run, of "''   ''"] by simp
qed

text \<open>
  The error of an empty result: \<open>newZeroResultError\<close> returns a fresh pointer, here the next allocation
  number, and \<open>errors.Is\<close> compares pointers.
\<close>

definition newZeroResultError :: "nat \<Rightarrow> go_error \<times> nat" where
  "newZeroResultError n = (ErrZeroResult n, Suc n)"

definition shouldLogScrapeError :: "nat \<Rightarrow> go_error \<Rightarrow> bool \<Rightarrow> bool" where
  "shouldLogScrapeError n err isIgnoreZeroResult =
     (\<not> isIgnoreZeroResult \<or> \<not> err_is err (fst (newZeroResultError n)))"

fun allocated_before :: "nat \<Rightarrow> go_error \<Rightarrow> bool" where
  "allocated_before n (ErrZeroResult k) = (k < n)"
| "allocated_before n (ErrWrap p e) = allocated_before n e"
| "allocated_before n (ErrJoin es) = (\<forall>e \<in> set es. allocated_before n e)"
| "allocated_before n e = True"

lemma err_is_fresh: "allocated_before n e \<Longrightarrow> \<not> err_is e (ErrZeroResult n)"
  by (induction n e rule: allocated_before.induct) auto

text \<open>
  The comment of \<open>shouldLogScrapeError\<close> promises False for a zero-result error that is ignored;
  the function compares with a pointer it has just allocated, so it answers True for every error.
\<close>
theorem zero_result_always_logged:
  assumes "allocated_before n err"
  shows "shouldLogScrapeError n err ignore"
  using err_is_fresh [OF assms] by (simp add: shouldLogScrapeError_def newZeroResultError_def)

lemma zero_result_always_logged_witness:
  "shouldLogScrapeError 1 (fst (newZeroResultError 0)) True"
  by (rule zero_result_always_logged) (simp add: newZeroResultError_def)

end
