(* ===== verification/Credentials.thy ===== *)
theory Credentials
  imports Config
begin

text \<open>
  The credential getters of \<open>DatabaseConfig\<close> (\<open>collector/config.go\<close>): the precedence of the password
  file, the OCI, Azure and HashiCorp vaults and the plain values, and the cache of the HashiCorp
  secret. The configuration of a database points to its HashiCorp settings, so a fetch by one
  getter is seen by the other: each getter returns the configuration it leaves.
\<close>

record vault_access =
  vaOCI :: "string \<Rightarrow> string \<Rightarrow> string \<Rightarrow> string result"
  vaAzure :: "string \<Rightarrow> string \<Rightarrow> string result"
  vaHashiClient :: "vault_settings option \<Rightarrow> vault_client result"
  vaReadFile :: "string \<Rightarrow> string result"

text \<open>The package variable \<open>getHashiCorpVaultSecret\<close>: a client for the socket, then one read.\<close>

definition getHashiCorpVaultSecret ::
    "vault_access \<Rightarrow> HashiCorpVault \<Rightarrow> string list \<Rightarrow> (string \<rightharpoonup> string) result" where
  "getHashiCorpVaultSecret va cfg requiredKeys =
     (case createVaultClient (vaHashiClient va) (hvSocket cfg) of
        Inl err \<Rightarrow> Inl err
      | Inr client \<Rightarrow> Hashi_GetVaultSecret client (hvMountType cfg) (hvMountName cfg)
                         (hvSecretPath cfg) requiredKeys)"

definition fetchHashiCorpVaultSecret ::
    "vault_access \<Rightarrow> HashiCorpVault \<Rightarrow> HashiCorpVault \<times> go_error option" where
  "fetchHashiCorpVaultSecret va h =
     (if hvFetchedSecret h \<noteq> Map.empty then (h, None)
      else case getHashiCorpVaultSecret va h [GetUsernameAttr h, GetPasswordAttr h] of
             Inl err \<Rightarrow> (h, Some err)
           | Inr secret \<Rightarrow> (h\<lparr>hvFetchedSecret := secret\<rparr>, None))"

text \<open>Indexing a Go map: the zero value where the key is missing.\<close>

definition map_index :: "(string \<rightharpoonup> string) \<Rightarrow> string \<Rightarrow> string" where
  "map_index m k = (case m k of None \<Rightarrow> [] | Some v \<Rightarrow> v)"

definition oci_vault :: "DatabaseConfig \<Rightarrow> OCIVault option" where
  "oci_vault d = (case dcVault d of None \<Rightarrow> None | Some v \<Rightarrow> vaultOCI v)"
definition azure_vault :: "DatabaseConfig \<Rightarrow> AZVault option" where
  "azure_vault d = (case dcVault d of None \<Rightarrow> None | Some v \<Rightarrow> vaultAzure v)"
definition hashi_vault :: "DatabaseConfig \<Rightarrow> HashiCorpVault option" where
  "hashi_vault d = (case dcVault d of None \<Rightarrow> None | Some v \<Rightarrow> vaultHashiCorp v)"

definition set_hashi_vault :: "DatabaseConfig \<Rightarrow> HashiCorpVault \<Rightarrow> DatabaseConfig" where
  "set_hashi_vault d h = d\<lparr>dcVault := map_option (\<lambda>v. v\<lparr>vaultHashiCorp := Some h\<rparr>) (dcVault d)\<rparr>"

text \<open>The three fields a HashiCorp vault needs before it is used.\<close>

definition hashi_configured :: "HashiCorpVault \<Rightarrow> bool" where
  "hashi_configured h \<longleftrightarrow> hvMountType h \<noteq> [] \<and> hvMountName h \<noteq> [] \<and> hvSecretPath h \<noteq> []"

definition usable_hashi :: "DatabaseConfig \<Rightarrow> HashiCorpVault option" where
  "usable_hashi d = (case hashi_vault d of None \<Rightarrow> None
                     | Some h \<Rightarrow> if hashi_configured h then Some h else None)"

definition usable_oci :: "(OCIVault \<Rightarrow> string) \<Rightarrow> DatabaseConfig \<Rightarrow> OCIVault option" where
  "usable_oci secret d = (case oci_vault d of None \<Rightarrow> None
                          | Some v \<Rightarrow> if secret v \<noteq> [] then Some v else None)"

definition usable_azure :: "(AZVault \<Rightarrow> string) \<Rightarrow> DatabaseConfig \<Rightarrow> AZVault option" where
  "usable_azure secret d = (case azure_vault d of None \<Rightarrow> None
                            | Some v \<Rightarrow> if secret v \<noteq> [] then Some v else None)"

definition GetUsername :: "vault_access \<Rightarrow> DatabaseConfig \<Rightarrow> DatabaseConfig \<times> string result" where
  "GetUsername va d =
     (case usable_oci ociUsernameSecret d of
        Some v \<Rightarrow> (d, vaOCI va (ociID v) (ociUsernameSecret v) (ociAuth v))
      | None \<Rightarrow>
     (case usable_azure azUsernameSecret d of
        Some v \<Rightarrow> (d, vaAzure va (azID v) (azUsernameSecret v))
      | None \<Rightarrow>
     (case usable_hashi d of
        Some h \<Rightarrow>
          (case fetchHashiCorpVaultSecret va h of
             (h', Some err) \<Rightarrow> (set_hashi_vault d h', Inl err)
           | (h', None) \<Rightarrow>
               (let userName = map_index (hvFetchedSecret h') (GetUsernameAttr h')
                in (set_hashi_vault d h',
                    Inr (if hvAsProxy h' = [] then userName
                         else userName @ ''['' @ hvAsProxy h' @ '']''))))
      | None \<Rightarrow> (d, Inr (dcUsername d)))))"

definition GetPassword :: "vault_access \<Rightarrow> DatabaseConfig \<Rightarrow> DatabaseConfig \<times> string result" where
  "GetPassword va d =
     (if dcPasswordFile d \<noteq> [] then
        (d, case vaReadFile va (dcPasswordFile d) of
              Inl err \<Rightarrow> Inl (ErrWrap (''failed to read password file '' @ go_quote (dcPasswordFile d)) err)
            | Inr bytes \<Rightarrow> Inr bytes)
      else
     (case usable_oci ociPasswordSecret d of
        Some v \<Rightarrow> (d, vaOCI va (ociID v) (ociPasswordSecret v) (ociAuth v))
      | None \<Rightarrow>
     (case usable_azure azPasswordSecret d of
        Some v \<Rightarrow> (d, vaAzure va (azID v) (azPasswordSecret v))
      | None \<Rightarrow>
     (case usable_hashi d of
        Some h \<Rightarrow>
          (case fetchHashiCorpVaultSecret va h of
             (h', Some err) \<Rightarrow> (set_hashi_vault d h', Inl err)
           | (h', None) \<Rightarrow> (set_hashi_vault d h',
                             Inr (map_index (hvFetchedSecret h') (GetPasswordAttr h'))))
      | None \<Rightarrow> (d, Inr (dcPassword d))))))"

text \<open>
  How \<open>connect\<close> uses them (\<open>connect_godror.go\<close>, \<open>connect_goora.go\<close>): the password first, then the
  username; an empty password selects external authentication.
\<close>

record credentials =
  crUsername :: string
  crPassword :: string
  crExternalAuth :: bool

definition connect_credentials ::
    "vault_access \<Rightarrow> DatabaseConfig \<Rightarrow> DatabaseConfig \<times> credentials result" where
  "connect_credentials va d =
     (case GetPassword va d of
        (d1, Inl err) \<Rightarrow> (d1, Inl err)
      | (d1, Inr password) \<Rightarrow>
          (case GetUsername va d1 of
             (d2, Inl err) \<Rightarrow> (d2, Inl err)
           | (d2, Inr username) \<Rightarrow>
               (d2, Inr \<lparr>crUsername = username, crPassword = password,
                         crExternalAuth = (password = [])\<rparr>)))"

section \<open>Properties\<close>

lemmas usable_defs = usable_oci_def usable_azure_def usable_hashi_def oci_vault_def
  azure_vault_def hashi_vault_def

lemma set_hashi_vault_other [simp]:
  "usable_oci f (set_hashi_vault d h) = usable_oci f d"
  "usable_azure g (set_hashi_vault d h) = usable_azure g d"
  "dcPasswordFile (set_hashi_vault d h) = dcPasswordFile d"
  by (auto simp: usable_defs set_hashi_vault_def split: option.splits)

lemma usable_hashi_set:
  "usable_hashi d = Some h \<Longrightarrow> hashi_configured h' \<Longrightarrow> usable_hashi (set_hashi_vault d h') = Some h'"
  by (auto simp: usable_defs set_hashi_vault_def split: option.splits if_splits)

lemma set_hashi_vault_idem: "set_hashi_vault (set_hashi_vault d h) h' = set_hashi_vault d h'"
  by (cases "dcVault d") (simp_all add: set_hashi_vault_def)

lemma attrs_fetched [simp]:
  "GetUsernameAttr (h\<lparr>hvFetchedSecret := s\<rparr>) = GetUsernameAttr h"
  "GetPasswordAttr (h\<lparr>hvFetchedSecret := s\<rparr>) = GetPasswordAttr h"
  "hashi_configured (h\<lparr>hvFetchedSecret := s\<rparr>) = hashi_configured h"
  by (simp_all add: GetUsernameAttr_def GetPasswordAttr_def hashi_configured_def)

lemma usable_hashi_configured: "usable_hashi d = Some h \<Longrightarrow> hashi_configured h"
  by (auto simp: usable_hashi_def split: option.splits if_splits)

text \<open>A successful read has both required keys, so the cache is filled and is not read again.\<close>

lemma getHashiCorpVaultSecret_keys:
  assumes "getHashiCorpVaultSecret va h [GetUsernameAttr h, GetPasswordAttr h] = Inr secret"
  shows "secret \<noteq> Map.empty"
    and "map_index secret (GetUsernameAttr h) \<noteq> []" and "map_index secret (GetPasswordAttr h) \<noteq> []"
proof -
  from assms have "key_present secret (GetUsernameAttr h) \<and> key_present secret (GetPasswordAttr h)"
    by (auto simp: getHashiCorpVaultSecret_def createVaultClient_def newDefaultVaultClient_def Hashi_GetVaultSecret_def Let_def
        split: sum.splits if_splits)
  then show "secret \<noteq> Map.empty"
    and "map_index secret (GetUsernameAttr h) \<noteq> []" and "map_index secret (GetPasswordAttr h) \<noteq> []"
    by (auto simp: key_present_def map_index_def split: option.splits)
qed

lemma fetch_cached:
  "hvFetchedSecret h \<noteq> Map.empty \<Longrightarrow> fetchHashiCorpVaultSecret va h = (h, None)"
  by (simp add: fetchHashiCorpVaultSecret_def)

lemma fetch_fresh:
  assumes "hvFetchedSecret h = Map.empty"
    and "getHashiCorpVaultSecret va h [GetUsernameAttr h, GetPasswordAttr h] = Inr secret"
  shows "fetchHashiCorpVaultSecret va h = (h\<lparr>hvFetchedSecret := secret\<rparr>, None)"
  using assms by (simp add: fetchHashiCorpVaultSecret_def)

text \<open>
  Where the credentials come from a HashiCorp vault that answers, \<open>connect\<close> reads the vault once:
  the user name and the password it uses are the two attributes of one and the same secret, both
  non-empty, and every later call of either getter, whatever the vault would answer by then, is
  served from the cached secret and leaves the configuration unchanged.
\<close>
theorem hashicorp_credentials_one_read:
  assumes plain: "dcPasswordFile d = []" "usable_oci ociUsernameSecret d = None"
      "usable_oci ociPasswordSecret d = None" "usable_azure azUsernameSecret d = None"
      "usable_azure azPasswordSecret d = None"
    and h: "usable_hashi d = Some h" "hvFetchedSecret h = Map.empty" "hvAsProxy h = []"
    and answer: "getHashiCorpVaultSecret va h [GetUsernameAttr h, GetPasswordAttr h] = Inr secret"
  shows "\<exists>d' c. connect_credentials va d = (d', Inr c) \<and>
     crUsername c = map_index secret (GetUsernameAttr h) \<and> crUsername c \<noteq> [] \<and>
     crPassword c = map_index secret (GetPasswordAttr h) \<and> \<not> crExternalAuth c \<and>
     (\<forall>va'. GetUsername va' d' = (d', Inr (crUsername c)) \<and>
            GetPassword va' d' = (d', Inr (crPassword c)))"
proof -
  let ?h = "h\<lparr>hvFetchedSecret := secret\<rparr>" and ?d = "set_hashi_vault d (h\<lparr>hvFetchedSecret := secret\<rparr>)"
  note keys = getHashiCorpVaultSecret_keys [OF answer]
  have conf: "usable_hashi ?d = Some ?h"
    by (rule usable_hashi_set [OF h(1)]) (simp add: usable_hashi_configured [OF h(1)])
  have user: "GetUsername va' ?d = (?d, Inr (map_index secret (GetUsernameAttr h)))" for va'
    using plain h conf keys by (simp add: GetUsername_def fetch_cached set_hashi_vault_idem)
  have pass: "GetPassword va' ?d = (?d, Inr (map_index secret (GetPasswordAttr h)))" for va'
    using plain conf keys by (simp add: GetPassword_def fetch_cached set_hashi_vault_idem)
  have "GetPassword va d = (?d, Inr (map_index secret (GetPasswordAttr h)))"
    using plain h fetch_fresh [OF h(2) answer] by (simp add: GetPassword_def)
  then show ?thesis
    using user pass keys by (simp add: connect_credentials_def)
qed

definition sample_hashi :: HashiCorpVault where
  "sample_hashi = \<lparr>hvSocket = [], hvMountType = ''database'', hvMountName = ''db'',
     hvSecretPath = ''monitor'', hvUsernameAttr = [], hvPasswordAttr = [], hvAsProxy = [],
     hvFetchedSecret = Map.empty\<rparr>"

definition sample_connect_config :: ConnectConfig where
  "sample_connect_config = \<lparr>ccRole = [], ccTNSAdmin = [], ccExternalAuth = False,
     ccConnMaxLifetime = None, ccConnMaxIdleTime = None, ccMaxOpenConns = None,
     ccMaxIdleConns = None, ccPoolIncrement = None, ccPoolMaxConnections = None,
     ccPoolMinConnections = None, ccQueryTimeout = None\<rparr>"

definition sample_db_config :: DatabaseConfig where
  "sample_db_config = \<lparr>dcUsername = ''ignored'', dcPassword = [], dcPasswordFile = [],
     dcURL = ''host/service'', dcConnect = sample_connect_config,
     dcVault = Some \<lparr>vaultOCI = None, vaultAzure = None, vaultHashiCorp = Some sample_hashi\<rparr>,
     dcLabels = []\<rparr>"

definition sample_access :: vault_access where
  "sample_access = \<lparr>vaOCI = (\<lambda>_ _ _. Inl ErrCanceled), vaAzure = (\<lambda>_ _. Inl ErrCanceled),
     vaHashiClient = (\<lambda>_. Inr \<lparr>vcKVv1 = (\<lambda>_ _. Inr None), vcKVv2 = (\<lambda>_ _. Inr None),
        vcLogical = (\<lambda>path. if path = ''db/creds/monitor''
           then Inr (Some [(''username'', VString ''u1''), (''password'', VString ''p1'')])
           else Inr None)\<rparr>),
     vaReadFile = (\<lambda>_. Inl ErrCanceled)\<rparr>"

lemma hashicorp_credentials_one_read_witness:
  "\<exists>d' c. connect_credentials sample_access sample_db_config = (d', Inr c) \<and>
     crUsername c = ''u1'' \<and> crPassword c = ''p1'' \<and>
     (\<forall>va'. GetUsername va' d' = (d', Inr ''u1'') \<and> GetPassword va' d' = (d', Inr ''p1''))"
proof -
  let ?s = "Map.empty(''username'' \<mapsto> ''u1'', ''password'' \<mapsto> ''p1'')"
  have attr: "GetUsernameAttr sample_hashi = ''username''" "GetPasswordAttr sample_hashi = ''password''"
    by (simp_all add: GetUsernameAttr_def GetPasswordAttr_def sample_hashi_def)
  have ans: "getHashiCorpVaultSecret sample_access sample_hashi
      [GetUsernameAttr sample_hashi, GetPasswordAttr sample_hashi] = Inr ?s"
    unfolding attr by (simp add: getHashiCorpVaultSecret_def createVaultClient_def newDefaultVaultClient_def sample_access_def sample_hashi_def
        Hashi_GetVaultSecret_def read_secret_def mount_type_defs trim_right_crlf_def byte_of_def
        key_present_def)
  have cfg: "usable_hashi sample_db_config = Some sample_hashi"
    "usable_oci f sample_db_config = None" "usable_azure g sample_db_config = None"
    "dcPasswordFile sample_db_config = []" for f g
    by (simp_all add: usable_defs sample_db_config_def sample_hashi_def hashi_configured_def)
  have h: "hvFetchedSecret sample_hashi = Map.empty" "hvAsProxy sample_hashi = []"
    by (simp_all add: sample_hashi_def)
  from hashicorp_credentials_one_read [OF cfg(4) cfg(2) cfg(2) cfg(3) cfg(3) cfg(1) h ans]
  show ?thesis by (auto simp: attr map_index_def)
qed

end
