(* ===== verification/Database.thy ===== *)
theory Database
  imports Machines Samples MetricLoading Credentials
begin

text \<open>
  A monitored database (\<open>Database\<close> and \<open>DatabaseConnectionStatus\<close> of \<open>collector/types.go\<close>) and the
  life cycle of its connection (\<open>collector/database.go\<close>): startup warm-up, pings, quarantine, the
  probes of dead connection detection, and reconstruction of the session pool.

  The source guards the state by three locks and each method takes them one after the other. A
  method is modelled twice, and the two are proved equal: as the source composes it, and as the
  sequence of its critical sections (\<open>db_action\<close>), which is the granularity at which the methods of
  concurrent goroutines interleave. The step relation \<open>db_step\<close> takes one critical section at a
  time, with any reading of the clock (a goroutine may read the clock before it gets the lock), so
  its reachable states include those of every interleaving.

  The answers of the Oracle driver (\<open>connect\<close>, \<open>PingContext\<close>, \<open>Conn\<close>) and the readings of the clock
  are arguments. A session pool is the number of its allocation.
\<close>

section \<open>State\<close>

datatype DatabaseConnectionState = Starting | Active | Quarantined | Probing

fun state_name :: "DatabaseConnectionState \<Rightarrow> string" where
  "state_name Starting = ''STARTING''"
| "state_name Active = ''ACTIVE''"
| "state_name Quarantined = ''QUARANTINED''"
| "state_name Probing = ''PROBING''"

record DatabaseConnectionStatus =
  connState :: DatabaseConnectionState
  connQueuedAt :: "time option"
  connLastFailureAt :: "time option"
  connLastFailure :: string
  connLastProbeAt :: "time option"
  connLastProbeDuration :: "duration option"
  connLastProbeError :: string
  connProbeAttempts :: int
  connRecoveredAt :: "time option"

record Database =
  dName :: string
  dUp :: int
  dSession :: "nat option"
  dConfig :: DatabaseConfig
  dConnectErr :: "go_error option"
  dMetricsCache :: MetricsCache
  dDatabaseLabel :: string
  dStartupReady :: bool
  dActivityError :: string
  dConnection :: DatabaseConnectionStatus

text \<open>\<open>connect\<close> answers a session pool or an error.\<close>

definition NewDatabase :: "string \<Rightarrow> string \<Rightarrow> DatabaseConfig \<Rightarrow> nat result \<Rightarrow> Database" where
  "NewDatabase dblabel dbname dbconfig opened =
     \<lparr>dName = dbname, dUp = 0,
      dSession = (case opened of Inl _ \<Rightarrow> None | Inr s \<Rightarrow> Some s),
      dConfig = dbconfig,
      dConnectErr = (case opened of Inl err \<Rightarrow> Some err | Inr _ \<Rightarrow> None),
      dMetricsCache = Map.empty, dDatabaseLabel = dblabel, dStartupReady = False,
      dActivityError = [],
      dConnection = \<lparr>connState = Starting, connQueuedAt = None, connLastFailureAt = None,
        connLastFailure = [], connLastProbeAt = None, connLastProbeDuration = None,
        connLastProbeError = [], connProbeAttempts = 0, connRecoveredAt = None\<rparr>\<rparr>"

definition StartupReady :: "Database \<Rightarrow> bool" where
  "StartupReady d = dStartupReady d"

definition connectionState :: "Database \<Rightarrow> DatabaseConnectionState" where
  "connectionState d = connState (dConnection d)"

definition isActive :: "Database \<Rightarrow> bool" where
  "isActive d \<longleftrightarrow> connectionState d = Active"

definition IsActive :: "Database \<Rightarrow> bool" where
  "IsActive d = isActive d"

definition getUp :: "Database \<Rightarrow> int" where
  "getUp d = dUp d"

definition setUp :: "int \<Rightarrow> Database \<Rightarrow> Database" where
  "setUp up d = d\<lparr>dUp := up\<rparr>"

definition Database_initCache :: "metric_map \<Rightarrow> Database \<Rightarrow> Database" where
  "Database_initCache metrics d = d\<lparr>dMetricsCache := NewMetricsCache metrics\<rparr>"

text \<open>The labels of every metric of the database; \<open>labels\<close> is the map of blank labels.\<close>

definition Database_constLabels :: "Database \<Rightarrow> (string \<rightharpoonup> string) \<Rightarrow> (string \<rightharpoonup> string)" where
  "Database_constLabels d labels =
     foldl (\<lambda>m (label, value). m(label \<mapsto> value)) (labels(dDatabaseLabel d \<mapsto> dName d))
       (dcLabels (dConfig d))"

section \<open>Quarantine and probes\<close>

definition unavailable_text :: string where
  "unavailable_text = ''database connection is unavailable''"

definition quarantineLocked ::
    "go_error option \<Rightarrow> time \<Rightarrow> DatabaseConnectionStatus \<Rightarrow> DatabaseConnectionStatus" where
  "quarantineLocked err now c =
     (let c = (if connQueuedAt c = None \<or>
                  (connState c \<noteq> Quarantined \<and> connState c \<noteq> Probing)
               then c\<lparr>connQueuedAt := Some now\<rparr> else c);
          c = c\<lparr>connState := Quarantined, connLastFailureAt := Some now\<rparr>
      in case err of
           None \<Rightarrow> c\<lparr>connLastFailure := unavailable_text\<rparr>
         | Some e \<Rightarrow> c\<lparr>connLastFailure := err_message e\<rparr>)"

definition quarantine :: "go_error option \<Rightarrow> time \<Rightarrow> Database \<Rightarrow> Database" where
  "quarantine err now d = d\<lparr>dConnection := quarantineLocked err now (dConnection d)\<rparr>"

definition activate :: "time \<Rightarrow> Database \<Rightarrow> Database" where
  "activate now d = d\<lparr>dConnection := (dConnection d)\<lparr>connState := Active, connQueuedAt := None,
                                        connLastProbeError := []\<rparr>\<rparr>"

definition beginProbe :: "time \<Rightarrow> Database \<Rightarrow> bool \<times> Database" where
  "beginProbe now d =
     (let c = dConnection d in
      if connState c \<noteq> Quarantined then (False, d)
      else (True, d\<lparr>dConnection := c\<lparr>connState := Probing, connLastProbeAt := Some now,
                      connLastProbeDuration := None, connLastProbeError := [],
                      connProbeAttempts := wrap64 (connProbeAttempts c + 1)\<rparr>\<rparr>))"

definition finishProbe :: "time \<Rightarrow> go_error option \<Rightarrow> time \<Rightarrow> Database \<Rightarrow> Database" where
  "finishProbe started err now d =
     (let c = (dConnection d)\<lparr>connLastProbeDuration := Some (time_sub now started)\<rparr> in
      case err of
        Some e \<Rightarrow> d\<lparr>dConnection := quarantineLocked err now (c\<lparr>connLastProbeError := err_message e\<rparr>)\<rparr>
      | None \<Rightarrow> d\<lparr>dConnection := c\<lparr>connState := Active, connQueuedAt := None,
                    connLastProbeError := [], connRecoveredAt := Some now\<rparr>\<rparr>)"

definition suspendActivity :: "go_error option \<Rightarrow> Database \<Rightarrow> Database" where
  "suspendActivity err d =
     (case err of None \<Rightarrow> d\<lparr>dActivityError := unavailable_text\<rparr>
                | Some e \<Rightarrow> d\<lparr>dActivityError := err_message e\<rparr>)"

definition resumeActivity :: "Database \<Rightarrow> Database" where
  "resumeActivity d = d\<lparr>dActivityError := []\<rparr>"

definition activityUnavailable :: "Database \<Rightarrow> go_error option" where
  "activityUnavailable d =
     (if dActivityError d = [] then None
      else Some (ErrText (''activity collection suspended until connectivity recovers: '' @
                          dActivityError d)))"

subsection \<open>Which errors are connection failures\<close>

definition connection_markers :: "string list" where
  "connection_markers =
    [''ORA-01033'', ''ORA-01034'', ''ORA-01089'',
     ''ORA-03113'', ''ORA-03114'', ''ORA-03135'',
     ''ORA-12154'', ''ORA-12170'', ''ORA-125'',
     ''DPI-1010'', ''DPI-1080'',
     ''BROKEN PIPE'', ''CONNECTION REFUSED'', ''CONNECTION RESET'',
     ''DATABASE IS CLOSED'', ''NETWORK IS UNREACHABLE'', ''NO ROUTE TO HOST'']"

fun isConnectionFailure :: "go_error option \<Rightarrow> bool" where
  "isConnectionFailure None = False"
| "isConnectionFailure (Some err) =
     (if err_is err ErrBadConn \<or> err_is err ErrConnDone \<or> err_is err ErrSessionNotInit then True
      else if err_as_net err \<and> \<not> err_is err ErrDeadlineExceeded then True
      else list_ex (str_contains (to_upper (err_message err))) connection_markers)"

definition quarantineConnectionFailure ::
    "go_error option \<Rightarrow> time \<Rightarrow> Database \<Rightarrow> bool \<times> Database" where
  "quarantineConnectionFailure err now d =
     (if \<not> isConnectionFailure err then (False, d)
      else (True, suspendActivity err (quarantine err now (setUp 0 d))))"

section \<open>Sessions\<close>

text \<open>The driver's answers to a warm-up: the ping, and each \<open>session.Conn\<close> in order.\<close>

record warmup_answers =
  waPing :: "go_error option"
  waConn :: "nat \<Rightarrow> go_error option"

definition warmup_pool_size :: "ConnectConfig \<Rightarrow> int" where
  "warmup_pool_size c =
     (let poolSize = GetMaxOpenConns c;
          poolSize = (if poolSize < 1 then GetPoolMaxConnections c else poolSize)
      in if poolSize > 100 then 100 else poolSize)"

text \<open>The loop that acquires connection \<open>i\<close> and the next ones, \<open>n\<close> in all: the error that stopped
  it and the number of connections held.\<close>

fun acquire_connections :: "warmup_answers \<Rightarrow> nat \<Rightarrow> nat \<Rightarrow> nat \<Rightarrow> go_error option \<times> nat" where
  "acquire_connections w i 0 held = (None, held)"
| "acquire_connections w i (Suc n) held =
     (case waConn w i of
        Some err \<Rightarrow> (Some err, held)
      | None \<Rightarrow> acquire_connections w (Suc i) n (Suc held))"

text \<open>The error, the connections acquired and the connections handed back to the pool.\<close>

definition warmupSession ::
    "ConnectConfig \<Rightarrow> warmup_answers \<Rightarrow> nat option \<Rightarrow> go_error option \<times> nat \<times> nat" where
  "warmupSession c w session =
     (if session = None then (Some ErrSessionNotInit, 0, 0)
      else case waPing w of
             Some err \<Rightarrow> (Some err, 0, 0)
           | None \<Rightarrow>
               (case acquire_connections w 0 (nat (warmup_pool_size c)) 0 of
                  (Some err, held) \<Rightarrow> (Some err, held, 0)
                | (None, held) \<Rightarrow> (None, held, held)))"

definition warmup_error :: "ConnectConfig \<Rightarrow> warmup_answers \<Rightarrow> nat option \<Rightarrow> go_error option" where
  "warmup_error c w session = fst (warmupSession c w session)"

definition WarmupConnectionPool :: "warmup_answers \<Rightarrow> time \<Rightarrow> Database \<Rightarrow> go_error option \<times> Database" where
  "WarmupConnectionPool w now d =
     (let session = dSession d; connectErr = dConnectErr d;
          ready = (\<lambda>d. d\<lparr>dStartupReady := True\<rparr>)
      in if session = None
         then (if connectErr \<noteq> None then connectErr else Some ErrSessionNotInit,
               ready (suspendActivity connectErr (quarantine connectErr now (setUp 0 d))))
         else case warmup_error (dcConnect (dConfig d)) w session of
                Some err \<Rightarrow>
                  (Some err, ready (suspendActivity (Some err) (quarantine (Some err) now (setUp 0 d))))
              | None \<Rightarrow> (None, ready (resumeActivity (activate now (setUp 1 d)))))"

definition reconnect :: "nat result \<Rightarrow> warmup_answers \<Rightarrow> Database \<Rightarrow> go_error option \<times> Database" where
  "reconnect opened w d =
     (case opened of
        Inl err \<Rightarrow> (Some err, suspendActivity (Some err) (d\<lparr>dConnectErr := Some err, dUp := 0\<rparr>))
      | Inr session \<Rightarrow>
          (case warmup_error (dcConnect (dConfig d)) w (Some session) of
             Some err \<Rightarrow> (Some err, suspendActivity (Some err) (d\<lparr>dConnectErr := Some err, dUp := 0\<rparr>))
           | None \<Rightarrow> (None, resumeActivity (d\<lparr>dSession := Some session, dConnectErr := None, dUp := 1\<rparr>))))"

definition PingContext :: "go_error option \<Rightarrow> Database \<Rightarrow> go_error option" where
  "PingContext answer d = (if dSession d = None then Some ErrSessionNotInit else answer)"

definition ping :: "go_error option \<Rightarrow> time \<Rightarrow> Database \<Rightarrow> go_error option \<times> Database" where
  "ping answer now d =
     (case PingContext answer d of
        Some err \<Rightarrow> (Some err, suspendActivity (Some err) (quarantine (Some err) now (setUp 0 d)))
      | None \<Rightarrow> (None, resumeActivity (setUp 1 d)))"

text \<open>\<open>Query\<close> and \<open>QueryContext\<close>: the guard before the driver's answer.\<close>

definition Query :: "Database \<Rightarrow> 'r query \<Rightarrow> 'r query" where
  "Query d q =
     (if dSession d = None
      then q\<lparr>qError := Some (case dConnectErr d of Some err \<Rightarrow> err | None \<Rightarrow> ErrSessionNotInit)\<rparr>
      else q)"

definition QueryContext :: "Database \<Rightarrow> 'r query \<Rightarrow> 'r query" where
  "QueryContext d q =
     (if dSession d = None
      then q\<lparr>qError := Some (case dConnectErr d of Some err \<Rightarrow> err | None \<Rightarrow> ErrSessionNotInit)\<rparr>
      else q)"

definition connectionStateSample :: "time \<Rightarrow> string \<Rightarrow> Database \<Rightarrow> DatabaseConnectionStateSample" where
  "connectionStateSample observedAt scraperInstance d =
     (let s = dConnection d in
      \<lparr>csObservedAt = observedAt, csDatabase = dName d, csState = state_name (connState s),
       csQueuedAt = connQueuedAt s, csLastFailureAt = connLastFailureAt s,
       csLastFailure = (if connLastFailure s \<noteq> [] then Some (connLastFailure s) else None),
       csLastProbeAt = connLastProbeAt s,
       csLastProbeDurationSeconds = map_option duration_seconds (connLastProbeDuration s),
       csLastProbeError = (if connLastProbeError s \<noteq> [] then Some (connLastProbeError s) else None),
       csProbeAttempts = connProbeAttempts s, csRecoveredAt = connRecoveredAt s,
       csScraperInstance = scraperInstance\<rparr>)"

definition connectionStateSamples ::
    "time \<Rightarrow> string \<Rightarrow> Database list \<Rightarrow> DatabaseConnectionStateSample list" where
  "connectionStateSamples observedAt scraperInstance databases =
     map (connectionStateSample observedAt scraperInstance) databases"

section \<open>Critical sections\<close>

datatype db_action =
    DoSetUp int
  | DoQuarantine "go_error option"
  | DoActivate
  | DoSuspend "go_error option"
  | DoResume
  | DoBeginProbe
  | DoFinishProbe time "go_error option"
  | DoStoreFailure go_error
  | DoSwapSession nat
  | DoReady

fun do_action :: "time \<Rightarrow> db_action \<Rightarrow> Database \<Rightarrow> Database" where
  "do_action now (DoSetUp up) d = setUp up d"
| "do_action now (DoQuarantine err) d = quarantine err now d"
| "do_action now DoActivate d = activate now d"
| "do_action now (DoSuspend err) d = suspendActivity err d"
| "do_action now DoResume d = resumeActivity d"
| "do_action now DoBeginProbe d = snd (beginProbe now d)"
| "do_action now (DoFinishProbe started err) d = finishProbe started err now d"
| "do_action now (DoStoreFailure err) d = d\<lparr>dConnectErr := Some err, dUp := 0\<rparr>"
| "do_action now (DoSwapSession s) d = d\<lparr>dSession := Some s, dConnectErr := None, dUp := 1\<rparr>"
| "do_action now DoReady d = d\<lparr>dStartupReady := True\<rparr>"

text \<open>A method as the sequence of its critical sections.\<close>

definition do_actions :: "time \<Rightarrow> db_action list \<Rightarrow> Database \<Rightarrow> Database" where
  "do_actions now as d = foldl (\<lambda>d a. do_action now a d) d as"

text \<open>The critical sections that other goroutines run while one waits for the driver.\<close>

definition run_others :: "(time \<times> db_action) list \<Rightarrow> Database \<Rightarrow> Database" where
  "run_others tas d = fold (\<lambda>(t, a). do_action t a) tas d"

definition fail_actions :: "go_error option \<Rightarrow> db_action list" where
  "fail_actions err = [DoSetUp 0, DoQuarantine err, DoSuspend err]"

lemma ping_actions:
  "snd (ping answer now d) =
     do_actions now (case PingContext answer d of
                       Some err \<Rightarrow> fail_actions (Some err) | None \<Rightarrow> [DoSetUp 1, DoResume]) d"
  by (simp add: ping_def do_actions_def fail_actions_def split: option.splits)

lemma quarantineConnectionFailure_actions:
  "snd (quarantineConnectionFailure err now d) =
     do_actions now (if isConnectionFailure err then fail_actions err else []) d"
  by (simp add: quarantineConnectionFailure_def do_actions_def fail_actions_def)

lemma WarmupConnectionPool_actions:
  "snd (WarmupConnectionPool w now d) =
     do_actions now
       ((if dSession d = None then fail_actions (dConnectErr d)
         else case warmup_error (dcConnect (dConfig d)) w (dSession d) of
                Some err \<Rightarrow> fail_actions (Some err)
              | None \<Rightarrow> [DoSetUp 1, DoActivate, DoResume]) @ [DoReady]) d"
  by (simp add: WarmupConnectionPool_def do_actions_def fail_actions_def Let_def split: option.splits)

lemma reconnect_actions:
  "snd (reconnect opened w d) =
     do_actions now
       (case fst (reconnect opened w d) of
          Some err \<Rightarrow> [DoStoreFailure err, DoSuspend (Some err)]
        | None \<Rightarrow> (case opened of Inr s \<Rightarrow> [DoSwapSession s, DoResume] | Inl _ \<Rightarrow> [])) d"
  by (auto simp: reconnect_def do_actions_def split: option.splits sum.splits)

text \<open>One critical section of some goroutine.\<close>

inductive db_step :: "Database \<Rightarrow> Database \<Rightarrow> bool" where
  db_act: "db_step d (do_action t a d)"

inductive_cases db_step_cases: "db_step d d'"

inductive db_initial :: "Database \<Rightarrow> bool" where
  "db_initial (NewDatabase label name cfg opened)"

inductive_cases db_initial_cases: "db_initial d"

lemma do_actions_steps: "db_step\<^sup>*\<^sup>* d (do_actions now as d)"
proof (induction as rule: rev_induct)
  case (snoc a as)
  have "db_step (do_actions now as d) (do_action now a (do_actions now as d))" by (rule db_act)
  with snoc show ?case by (simp add: do_actions_def)
qed (simp add: do_actions_def)

text \<open>Every method is a sequence of steps.\<close>

lemma methods_steps:
  "db_step\<^sup>*\<^sup>* d (snd (ping answer now d))"
  "db_step\<^sup>*\<^sup>* d (snd (quarantineConnectionFailure err now d))"
  "db_step\<^sup>*\<^sup>* d (snd (WarmupConnectionPool w now d))"
  "db_step\<^sup>*\<^sup>* d (snd (reconnect opened w d))"
  unfolding ping_actions quarantineConnectionFailure_actions WarmupConnectionPool_actions
    reconnect_actions [where now = now]
  by (rule do_actions_steps)+

lemma probe_steps:
  "db_step\<^sup>*\<^sup>* d (snd (beginProbe now d))" "db_step\<^sup>*\<^sup>* d (finishProbe started err now d)"
  using db_act [of d now DoBeginProbe] db_act [of d now "DoFinishProbe started err"] by auto

section \<open>Invariant\<close>

text \<open>
  The queue of dead connection detection is the set of databases with a \<open>QueuedAt\<close>. A database is
  queued exactly while it is quarantined or being probed, and then a failure is on record; a database
  under probe has the start of the probe on record and no result yet.
\<close>

definition queued :: "DatabaseConnectionStatus \<Rightarrow> bool" where
  "queued c \<longleftrightarrow> connState c = Quarantined \<or> connState c = Probing"

definition connection_ok :: "DatabaseConnectionStatus \<Rightarrow> bool" where
  "connection_ok c \<longleftrightarrow>
     (connQueuedAt c \<noteq> None \<longleftrightarrow> queued c) \<and>
     (queued c \<longrightarrow> connLastFailureAt c \<noteq> None) \<and>
     (connState c = Probing \<longrightarrow>
        connLastProbeAt c \<noteq> None \<and> connLastProbeDuration c = None \<and> connLastProbeError c = []) \<and>
     (connState c = Active \<longrightarrow> connLastProbeError c = []) \<and>
     (connState c = Starting \<longrightarrow> connLastFailureAt c = None)"

definition db_ok :: "Database \<Rightarrow> bool" where
  "db_ok d \<longleftrightarrow> connection_ok (dConnection d)"

lemma queued_quarantineLocked [simp]: "queued (quarantineLocked err now c)"
  by (simp add: queued_def quarantineLocked_def Let_def split: option.splits)

lemma connection_ok_quarantineLocked:
  "connQueuedAt c \<noteq> None \<longrightarrow> queued c \<Longrightarrow> connection_ok (quarantineLocked err t c)"
  by (cases "connQueuedAt c")
    (auto simp: connection_ok_def quarantineLocked_def Let_def queued_def split: option.splits)

lemma dConnection_actions [simp]:
  "dConnection (setUp up d) = dConnection d"
  "dConnection (suspendActivity err d) = dConnection d"
  "dConnection (resumeActivity d) = dConnection d"
  "dConnection (quarantine err now d) = quarantineLocked err now (dConnection d)"
  by (auto simp: setUp_def suspendActivity_def resumeActivity_def quarantine_def split: option.splits)

lemma connection_ok_do_action:
  "connection_ok (dConnection d) \<Longrightarrow> connection_ok (dConnection (do_action t a d))"
proof (cases a)
  case (DoFinishProbe started err)
  assume "connection_ok (dConnection d)"
  with DoFinishProbe show ?thesis
    by (cases err) (auto simp: finishProbe_def Let_def intro!: connection_ok_quarantineLocked,
        auto simp: connection_ok_def queued_def)
next
  case (DoQuarantine err)
  assume "connection_ok (dConnection d)"
  then have "connQueuedAt (dConnection d) \<noteq> None \<longrightarrow> queued (dConnection d)"
    by (simp add: connection_ok_def)
  then show ?thesis using DoQuarantine by (simp add: connection_ok_quarantineLocked)
next
  case DoBeginProbe
  assume "connection_ok (dConnection d)"
  with DoBeginProbe show ?thesis by (auto simp: beginProbe_def Let_def connection_ok_def queued_def)
next
  case DoActivate
  assume "connection_ok (dConnection d)"
  with DoActivate show ?thesis by (simp add: activate_def connection_ok_def queued_def)
qed simp_all

interpretation db: invariant_machine db_initial db_step db_ok
proof unfold_locales
  show "db_initial d \<Longrightarrow> db_ok d" for d
    by (auto elim!: db_initial_cases simp: db_ok_def NewDatabase_def connection_ok_def queued_def)
  show "db_step d d' \<Longrightarrow> db_ok d \<Longrightarrow> db_ok d'" for d d'
    by (auto elim!: db_step_cases simp: db_ok_def intro: connection_ok_do_action)
qed

section \<open>Properties\<close>

text \<open>
  C2: whatever the interleaving of start-up, scrapes, activity sampling and dead connection
  detection, the connection state written to the sink is consistent: \<open>queued_at\<close> is set exactly for
  a quarantined or probed database, a queued database has a last failure, and a database under probe
  has a probe time, no probe duration and no probe error.
\<close>
theorem connection_state_consistent:
  assumes "db_initial d0" and "db_step\<^sup>*\<^sup>* d0 d"
  shows "let s = connectionStateSample now instance_name d in
    (csQueuedAt s \<noteq> None \<longleftrightarrow> csState s = ''QUARANTINED'' \<or> csState s = ''PROBING'') \<and>
    (csQueuedAt s \<noteq> None \<longrightarrow> csLastFailureAt s \<noteq> None) \<and>
    (csState s = ''PROBING'' \<longrightarrow>
       csLastProbeAt s \<noteq> None \<and> csLastProbeDurationSeconds s = None \<and> csLastProbeError s = None) \<and>
    (csState s = ''ACTIVE'' \<longrightarrow> csLastProbeError s = None)"
proof -
  have "connection_ok (dConnection d)" using db.reachable_inv [OF assms] by (simp add: db_ok_def)
  then show ?thesis
    by (cases "connState (dConnection d)")
      (auto simp: connectionStateSample_def Let_def connection_ok_def queued_def)
qed

definition example_database :: Database where
  "example_database = NewDatabase ''database'' ''orcl'' sample_db_config (Inr 1)"

lemma example_database_initial: "db_initial example_database"
  unfolding example_database_def by (rule db_initial.intros)

lemma connection_state_consistent_witness:
  "csQueuedAt (connectionStateSample 9 ''host:1''
     (snd (ping (Some ErrBadConn) 7 example_database))) = Some 7 \<and>
   csLastFailureAt (connectionStateSample 9 ''host:1''
     (snd (ping (Some ErrBadConn) 7 example_database))) \<noteq> None"
proof -
  let ?s = "connectionStateSample 9 ''host:1'' (snd (ping (Some ErrBadConn) 7 example_database))"
  have "csQueuedAt ?s = Some 7"
    by (simp add: ping_def PingContext_def example_database_def NewDatabase_def quarantineLocked_def
        connectionStateSample_def Let_def)
  moreover have "csQueuedAt ?s \<noteq> None \<longrightarrow> csLastFailureAt ?s \<noteq> None"
    using connection_state_consistent [OF example_database_initial methods_steps(1),
        of 9 "''host:1''" "Some ErrBadConn" 7] by (simp add: Let_def)
  ultimately show ?thesis by simp
qed

text \<open>The two actions that may return a database to active collection.\<close>

fun recovers :: "db_action \<Rightarrow> bool" where
  "recovers DoActivate = True"
| "recovers (DoFinishProbe started err) = (err = None)"
| "recovers a = False"

lemma queue_kept_action:
  assumes "connection_ok (dConnection d)" and "queued (dConnection d)" and "\<not> recovers a"
  shows "queued (dConnection (do_action t a d)) \<and>
    connQueuedAt (dConnection (do_action t a d)) = connQueuedAt (dConnection d)"
  using assms
  by (cases a)
    (auto simp: beginProbe_def finishProbe_def Let_def queued_def connection_ok_def
      quarantineLocked_def split: option.splits)

text \<open>
  C24: a queued database keeps its place in the queue. From a consistent state (every reachable one is), whatever
  failures, pings, reconnection attempts and probes follow, in any order and at any times, a database that is
  quarantined or probed stays so and keeps its \<open>queued_at\<close>, until a probe succeeds or the warm-up
  activates it.
\<close>
theorem queue_place_kept:
  assumes "connection_ok (dConnection d)" and "queued (dConnection d)"
    and "\<forall>(t, a) \<in> set tas. \<not> recovers a"
  shows "let d' = fold (\<lambda>(t, a). do_action t a) tas d in
    connState (dConnection d') \<in> {Quarantined, Probing} \<and> \<not> isActive d' \<and>
    connQueuedAt (dConnection d') = connQueuedAt (dConnection d)"
proof -
  have "queued (dConnection (fold (\<lambda>(t, a). do_action t a) tas d)) \<and>
    connQueuedAt (dConnection (fold (\<lambda>(t, a). do_action t a) tas d)) = connQueuedAt (dConnection d)"
    using assms
  proof (induction tas arbitrary: d)
    case (Cons ta tas)
    obtain t a where ta: "ta = (t, a)" by (cases ta)
    from Cons.prems ta have "\<not> recovers a" by simp
    note kept = queue_kept_action [OF Cons.prems(1,2) this, of t]
    show ?case
      using Cons.IH [of "do_action t a d"] Cons.prems kept ta connection_ok_do_action [of d t a] by simp
  qed simp
  then show ?thesis by (auto simp: isActive_def connectionState_def queued_def Let_def)
qed

lemma queue_place_kept_witness:
  "let d' = do_action 90 (DoQuarantine (Some ErrConnDone)) (do_action 50 DoBeginProbe
              (snd (ping (Some ErrBadConn) 7 example_database)))
   in \<not> isActive d' \<and> connQueuedAt (dConnection d') = Some 7"
proof -
  let ?d = "snd (ping (Some ErrBadConn) 7 example_database)"
  have q: "connQueuedAt (dConnection ?d) = Some 7"
    by (simp add: ping_def PingContext_def example_database_def NewDatabase_def quarantineLocked_def
        Let_def)
  have ok: "connection_ok (dConnection ?d)"
    using db.reachable_inv [OF example_database_initial methods_steps(1)] by (simp add: db_ok_def)
  with q have "queued (dConnection ?d)" by (simp add: connection_ok_def)
  from queue_place_kept [OF ok this, of "[(50, DoBeginProbe), (90, DoQuarantine (Some ErrConnDone))]"]
  show ?thesis using q by (simp add: Let_def)
qed

end
