(* ===== verification/MetricScrape.thy ===== *)
theory MetricScrape
  imports Database
begin

text \<open>
  Scraping user-defined metrics: which metrics are due (\<open>collector/metrics.go\<close>), the labels of their
  samples (\<open>database.go\<close>, \<open>collector.go\<close>), and the conversion of a query result to samples
  (\<open>ScrapeMetricSamples\<close>, \<open>scanRows\<close>). \<open>time.ParseDuration\<close> and \<open>strconv.ParseFloat\<close> are
  arguments; a row of the result is the list of its columns with the value as \<open>%v\<close> prints it.
\<close>

section \<open>Which metrics are due\<close>

definition getScrapeInterval :: "(string \<Rightarrow> duration result) \<Rightarrow> string \<Rightarrow> duration option" where
  "getScrapeInterval parse_duration scrapeInterval =
     (if scrapeInterval \<noteq> []
      then (case parse_duration scrapeInterval of Inl err \<Rightarrow> None | Inr si \<Rightarrow> Some si)
      else None)"

text \<open>\<open>None\<close> is the nil dereference of a metric that the cache does not know.\<close>

definition isScrapeMetric ::
    "(string \<Rightarrow> duration result) \<Rightarrow> time option \<Rightarrow> Metric \<Rightarrow> Database \<Rightarrow> bool option" where
  "isScrapeMetric parse_duration tick metric d =
     (if \<not> IsEnabledForDatabase metric (dName d) then Some False
      else case tick of
             None \<Rightarrow> Some True
           | Some now \<Rightarrow>
               (case getScrapeInterval parse_duration (mScrapeInterval metric) of
                  None \<Rightarrow> Some True
                | Some interval \<Rightarrow>
                    (case GetLastScraped (dMetricsCache d) metric of
                       None \<Rightarrow> None
                     | Some None \<Rightarrow> Some True
                     | Some (Some lastScraped) \<Rightarrow> Some (interval < time_sub now lastScraped))))"

definition getQueryTimeout :: "(string \<Rightarrow> duration result) \<Rightarrow> Metric \<Rightarrow> Database \<Rightarrow> duration" where
  "getQueryTimeout parse_duration metric d =
     (let fallback = wrap64 (GetQueryTimeout (dcConnect (dConfig d)) * second) in
      if mQueryTimeout metric \<noteq> []
      then (case parse_duration (mQueryTimeout metric) of Inl err \<Rightarrow> fallback | Inr qt \<Rightarrow> qt)
      else fallback)"

section \<open>Values and names\<close>

type_synonym metric_row = "string \<rightharpoonup> string"

definition row_at :: "metric_row \<Rightarrow> string \<Rightarrow> string" where
  "row_at row k = (case row k of None \<Rightarrow> [] | Some v \<Rightarrow> v)"

text \<open>The bit patterns of 0.0 and -1.0.\<close>

definition float_zero :: float64 where "float_zero = 0"
definition float_minus_one :: float64 where "float_minus_one = 0xBFF0000000000000"

definition parseFloat :: "(string \<Rightarrow> float64 result) \<Rightarrow> string \<Rightarrow> metric_row \<Rightarrow> float64 \<times> bool" where
  "parseFloat parse_float metric row =
     (case row metric of
        None \<Rightarrow> (float_zero, False)
      | Some v \<Rightarrow>
          if v = ''<nil>'' then (float_zero, True)
          else case parse_float (trim_space v) of
                 Inl err \<Rightarrow> (float_minus_one, False)
               | Inr f \<Rightarrow> (f, True))"

text \<open>\<open>strings.Replace\<close> of one character by a string, everywhere.\<close>

definition replace_char :: "char \<Rightarrow> string \<Rightarrow> string \<Rightarrow> string" where
  "replace_char c new s = concat (map (\<lambda>x. if x = c then new else [x]) s)"

definition cleanName :: "string \<Rightarrow> string" where
  "cleanName s =
     (let s = replace_char CHR '' '' ''_'' s;
          s = replace_char CHR ''('' [] s;
          s = replace_char CHR '')'' [] s;
          s = replace_char CHR ''/'' [] s;
          s = replace_char CHR ''*'' [] s
      in to_lower s)"

definition metricNameSuffix :: "metric_row \<Rightarrow> string \<Rightarrow> string \<Rightarrow> string" where
  "metricNameSuffix row metric fieldToAppend =
     (if fieldToAppend = [] then metric else cleanName (row_at row fieldToAppend))"

section \<open>Labels\<close>

text \<open>\<open>allConstLabels\<close> of \<open>NewScraper\<close>: the label names of all databases, without repetition.\<close>

fun add_labels :: "string list \<Rightarrow> (string \<times> string) list \<Rightarrow> string list" where
  "add_labels acc [] = acc"
| "add_labels acc ((label, v) # rest) =
     (if label \<in> set acc then add_labels acc rest else add_labels (acc @ [label]) rest)"

definition allConstLabels :: "(string \<times> DatabaseConfig) list \<Rightarrow> string list" where
  "allConstLabels dbs = foldl (\<lambda>acc (name, cfg). add_labels acc (dcLabels cfg)) [] dbs"

definition Scraper_constLabels :: "string list \<Rightarrow> (string \<rightharpoonup> string)" where
  "Scraper_constLabels labels = foldl (\<lambda>m label. m(label \<mapsto> [])) Map.empty labels"

definition duplicatedLabels :: "(string \<rightharpoonup> string) \<Rightarrow> string list \<Rightarrow> bool" where
  "duplicatedLabels constLabels labels = list_ex (\<lambda>label. constLabels label \<noteq> None) labels"

definition copyStringMap :: "(string \<rightharpoonup> string) \<Rightarrow> (string \<rightharpoonup> string)" where
  "copyStringMap src = (\<lambda>k. src k)"

section \<open>Scraping\<close>

text \<open>The answer to a metric's query: the error of \<open>rows.Columns\<close>, and the rows.\<close>

record metric_answer =
  maQuery :: "(string \<times> string) list query"
  maColumnsError :: "go_error option"

definition row_map :: "(string \<times> string) list \<Rightarrow> metric_row" where
  "row_map cols = foldl (\<lambda>m (col, v). m(to_lower col \<mapsto> v)) Map.empty cols"

definition scanRows ::
    "Database \<Rightarrow> (metric_row \<Rightarrow> 's \<Rightarrow> 's \<times> go_error option) \<Rightarrow> metric_answer \<Rightarrow> 's \<Rightarrow> 's \<times> go_error option" where
  "scanRows d parse a s =
     (let q = QueryContext d (maQuery a) in
      if qDeadline q then (s, Some query_timed_out)
      else case qError q of
             Some err \<Rightarrow> (s, Some err)
           | None \<Rightarrow>
               (case maColumnsError a of
                  Some err \<Rightarrow> (s, Some err)
                | None \<Rightarrow>
                    (case scan_with (\<lambda>cols s. parse (row_map cols) s) (qRows q) s of
                       (s', Some err) \<Rightarrow> (s', Some err)
                     | (s', None) \<Rightarrow> (s', qRowsErr q))))"

text \<open>The map of labels of a row, and the samples of a row: one per value column that parses.\<close>

definition row_labels :: "(string \<rightharpoonup> string) \<Rightarrow> string list \<Rightarrow> metric_row \<Rightarrow> (string \<rightharpoonup> string)" where
  "row_labels constLabels labels row =
     foldl (\<lambda>m label. m(label \<mapsto> row_at row label)) constLabels labels"

definition metric_type :: "Metric \<Rightarrow> string \<Rightarrow> string" where
  "metric_type m metric =
     (let t = to_lower (case map_of (mMetricsType m) metric of None \<Rightarrow> [] | Some t \<Rightarrow> t)
      in if t = [] then ''gauge'' else t)"

definition row_samples ::
    "(string \<Rightarrow> float64 result) \<Rightarrow> Database \<Rightarrow> Metric \<Rightarrow> (string \<rightharpoonup> string) \<Rightarrow> time \<Rightarrow> metric_row \<Rightarrow>
     MetricSample list" where
  "row_samples parse_float d m constLabels collectedAt row =
     List.map_filter
       (\<lambda>(metric, metricHelp).
          let (v, ok) = parseFloat parse_float metric row in
          if \<not> ok then None
          else Some \<lparr>msCollectedAt = collectedAt, msDatabase = dName d, msContext = mContext m,
                    msName = metricNameSuffix row metric (mFieldToAppend m), msHelp = metricHelp,
                    msType = metric_type m metric, msValue = v,
                    msLabels = copyStringMap (row_labels constLabels (GetLabels m) row)\<rparr>)
       (mMetricsDesc m)"

text \<open>\<open>fresh\<close> numbers the allocation of the error of an empty result.\<close>

definition ScrapeMetricSamples ::
    "(string \<Rightarrow> float64 result) \<Rightarrow> string list \<Rightarrow> nat \<Rightarrow> Database \<Rightarrow> Metric \<Rightarrow> time \<Rightarrow> metric_answer \<Rightarrow>
     MetricSample list result" where
  "ScrapeMetricSamples parse_float labels fresh d m collectedAt a =
     (if mRequest m = [] then Inl (ErrText ''scrape request not found'')
      else if mMetricsDesc m = [] then Inl (ErrText ''metricsdesc not found'')
      else let constLabels = Database_constLabels d (Scraper_constLabels labels) in
           if duplicatedLabels constLabels (GetLabels m) then Inr []
           else case scanRows d
                       (\<lambda>row samples. (samples @ row_samples parse_float d m constLabels collectedAt row, None))
                       a [] of
                  (samples, Some err) \<Rightarrow> Inl err
                | (samples, None) \<Rightarrow>
                    if \<not> mIgnoreZeroResult m \<and> samples = []
                    then Inl (fst (newZeroResultError fresh)) else Inr samples)"

section \<open>Lemmas\<close>

lemma set_add_labels: "set (add_labels acc ls) = set acc \<union> fst ` set ls"
  by (induction acc ls rule: add_labels.induct) auto

lemma set_allConstLabels: "set (allConstLabels dbs) = (\<Union>(n, cfg) \<in> set dbs. fst ` set (dcLabels cfg))"
proof -
  have "set (foldl (\<lambda>acc (name, cfg). add_labels acc (dcLabels cfg)) acc dbs) =
      set acc \<union> (\<Union>(n, cfg) \<in> set dbs. fst ` set (dcLabels cfg))" for acc
    by (induction dbs arbitrary: acc) (auto simp: set_add_labels split: prod.splits)
  then show ?thesis by (simp add: allConstLabels_def)
qed

lemma dom_foldl_upd: "dom (foldl (\<lambda>m (k, v). m(k \<mapsto> v)) m xs) = dom m \<union> fst ` set xs"
  by (induction xs arbitrary: m) (auto split: prod.splits)

lemma dom_foldl_key: "dom (foldl (\<lambda>m k. m(k \<mapsto> f k)) m ks) = dom m \<union> set ks"
  by (induction ks arbitrary: m) auto

lemma dom_Scraper_constLabels: "dom (Scraper_constLabels ls) = set ls"
  by (simp add: Scraper_constLabels_def dom_foldl_key)

lemma dom_Database_constLabels:
  "dom (Database_constLabels d labels) = dom labels \<union> {dDatabaseLabel d} \<union> fst ` set (dcLabels (dConfig d))"
  by (auto simp: Database_constLabels_def dom_foldl_upd)

lemma dom_row_labels: "dom (row_labels c ls row) = dom c \<union> set ls"
  by (simp add: row_labels_def dom_foldl_key)

lemma row_samples_labels:
  assumes "s \<in> set (row_samples pf d m c t row)"
  shows "dom (msLabels s) = dom c \<union> set (GetLabels m)"
proof -
  have "msLabels s = row_labels c (GetLabels m) row"
    using assms by (auto simp: row_samples_def List.map_filter_def copyStringMap_def
        split: prod.splits if_splits)
  then show ?thesis by (simp only: dom_row_labels)
qed

lemma scan_append:
  "fst (scan_with (\<lambda>r acc. (acc @ g r, None)) rs acc) = acc @ concat (map g (scanned_prefix rs))"
  by (induction rs arbitrary: acc rule: scanned_prefix.induct) auto

lemma scan_append_ok:
  "snd (scan_with (\<lambda>r acc. (acc @ g r, None)) rs acc) = None \<longleftrightarrow> (\<exists>xs. rs = map Inr xs)"
proof (induction rs arbitrary: acc rule: scanned_prefix.induct)
  case (3 r rest)
  then show ?case by (auto simp: Cons_eq_map_conv)
qed auto

lemma scanned_prefix_all: "scanned_prefix (map Inr xs) = xs"
  by (induction xs) auto

lemma ScrapeMetricSamples_rows:
  assumes "ScrapeMetricSamples pf labels n d m t a = Inr samples"
    and "\<not> duplicatedLabels (Database_constLabels d (Scraper_constLabels labels)) (GetLabels m)"
  shows "\<exists>rows. qRows (maQuery a) = map Inr rows \<and>
    samples = concat (map (\<lambda>r. row_samples pf d m
      (Database_constLabels d (Scraper_constLabels labels)) t (row_map r)) rows)"
proof -
  let ?g = "\<lambda>r. row_samples pf d m (Database_constLabels d (Scraper_constLabels labels)) t (row_map r)"
  let ?q = "QueryContext d (maQuery a)"
  have same: "qError ?q = None \<Longrightarrow> qRows ?q = qRows (maQuery a)"
    by (auto simp: QueryContext_def split: if_splits)
  from assms have q: "qError ?q = None"
    and scan: "\<exists>s'. scan_with (\<lambda>cols s. (s @ ?g cols, None)) (qRows ?q) [] = (s', None) \<and> s' = samples"
    by (auto simp: ScrapeMetricSamples_def scanRows_def Let_def split: if_splits option.splits prod.splits)
  then have fst_scan: "fst (scan_with (\<lambda>cols s. (s @ ?g cols, None)) (qRows ?q) []) = samples"
    and snd_scan: "snd (scan_with (\<lambda>cols s. (s @ ?g cols, None)) (qRows ?q) []) = None" by auto
  from snd_scan obtain xs where xs: "qRows ?q = map Inr xs" by (auto simp: scan_append_ok)
  show ?thesis
    using fst_scan xs same [OF q] by (intro exI [of _ xs]) (simp add: scan_append scanned_prefix_all)
qed

section \<open>Properties\<close>

text \<open>
  All samples of a metric carry the same set of labels, whichever database they come from and
  whatever the query returned: the labels configured for any database (blank where a database has
  none), the database label, and the labels of the metric. This is the promise that the comment of
  \<open>constLabels\<close> makes.
\<close>
theorem metric_labels_uniform:
  assumes "(dName d, dConfig d) \<in> set dbs" and "(dName d', dConfig d') \<in> set dbs"
    and "dDatabaseLabel d = dDatabaseLabel d'"
    and "ScrapeMetricSamples pf (allConstLabels dbs) n d m t a = Inr samples" and "s \<in> set samples"
    and "ScrapeMetricSamples pf (allConstLabels dbs) n' d' m t' a' = Inr samples'" and "s' \<in> set samples'"
  shows "dom (msLabels s) = dom (msLabels s') \<and>
    dom (msLabels s) = set (allConstLabels dbs) \<union> {dDatabaseLabel d} \<union> set (GetLabels m)"
proof -
  have labels: "dom (msLabels s) = set (allConstLabels dbs) \<union> {dDatabaseLabel d} \<union> set (GetLabels m)"
    if "(dName d, dConfig d) \<in> set dbs"
      "ScrapeMetricSamples pf (allConstLabels dbs) n d m t a = Inr samples" "s \<in> set samples"
    for d n t a samples s
  proof -
    have "\<not> duplicatedLabels (Database_constLabels d (Scraper_constLabels (allConstLabels dbs))) (GetLabels m)"
      using that by (auto simp: ScrapeMetricSamples_def Let_def split: if_splits)
    from ScrapeMetricSamples_rows [OF that(2) this] that(3)
    obtain r where "s \<in> set (row_samples pf d m
        (Database_constLabels d (Scraper_constLabels (allConstLabels dbs))) t (row_map r))" by auto
    moreover have "fst ` set (dcLabels (dConfig d)) \<subseteq> set (allConstLabels dbs)"
      using that(1) by (auto simp: set_allConstLabels intro!: bexI [of _ "(dName d, dConfig d)"])
    ultimately show ?thesis
      by (auto simp: row_samples_labels dom_Database_constLabels dom_Scraper_constLabels)
  qed
  show ?thesis using labels [OF assms(1,4,5)] labels [OF assms(2,6,7)] assms(3) by simp
qed

definition labelled_database :: "string \<Rightarrow> (string \<times> string) list \<Rightarrow> Database" where
  "labelled_database name labels =
     NewDatabase ''database'' name (sample_db_config\<lparr>dcLabels := labels\<rparr>) (Inr 1)"

definition one_row :: metric_answer where
  "one_row = \<lparr>maQuery = \<lparr>qDeadline = False, qError = None, qRows = [Inr [(''value'', ''1'')]],
     qRowsErr = None\<rparr>, maColumnsError = None\<rparr>"

lemma metric_labels_uniform_witness:
  "\<exists>s s'. ScrapeMetricSamples (\<lambda>_. Inr 0) [''env''] 0 (labelled_database ''a'' [(''env'', ''prod'')])
       (example_metric [(''value'', ''v'')]) 0 one_row = Inr [s] \<and>
     ScrapeMetricSamples (\<lambda>_. Inr 0) [''env''] 0 (labelled_database ''b'' [])
       (example_metric [(''value'', ''v'')]) 0 one_row = Inr [s'] \<and>
     dom (msLabels s) = dom (msLabels s')"
proof -
  let ?a = "labelled_database ''a'' [(''env'', ''prod'')]" and ?b = "labelled_database ''b'' []"
  let ?m = "example_metric [(''value'', ''v'')]"
  let ?dbs = "[(dName ?a, dConfig ?a), (dName ?b, dConfig ?b)]"
  have low: "to_lower ''value'' = ''value''"
    by (simp add: to_lower_def lower_char_def byte_of_def)
  have dl: "dcLabels (dConfig ?a) = [(''env'', ''prod'')]" "dcLabels (dConfig ?b) = []"
    "dDatabaseLabel ?a = ''database''" "dDatabaseLabel ?b = ''database''"
    "dSession ?a \<noteq> None" "dSession ?b \<noteq> None"
    by (simp_all add: labelled_database_def NewDatabase_def)
  have lab: "allConstLabels ?dbs = [''env'']" by (simp add: allConstLabels_def dl)
  have run: "\<exists>s. ScrapeMetricSamples (\<lambda>_. Inr 0) [''env''] 0 d ?m 0 one_row = Inr [s]"
    if "dSession d \<noteq> None" for d
    using that low
    by (simp add: ScrapeMetricSamples_def example_metric_def GetLabels_def duplicatedLabels_def
        scanRows_def QueryContext_def one_row_def row_samples_def List.map_filter_def parseFloat_def
        row_map_def Let_def)
  from run [OF dl(5)] obtain s where s: "ScrapeMetricSamples (\<lambda>_. Inr 0) [''env''] 0 ?a ?m 0 one_row = Inr [s]"
    by blast
  from run [OF dl(6)] obtain s' where s': "ScrapeMetricSamples (\<lambda>_. Inr 0) [''env''] 0 ?b ?m 0 one_row = Inr [s']"
    by blast
  have "dom (msLabels s) = dom (msLabels s')"
    using metric_labels_uniform [of ?a ?dbs ?b "\<lambda>_. Inr 0" 0 ?m 0 one_row "[s]" s 0 0 one_row "[s']" s']
      s s' lab dl by simp
  with s s' show ?thesis by blast
qed

text \<open>
  A metric with a custom scrape interval. With a cache that covers the metric the test never
  dereferences nil, and once the metric has been scraped at a tick it is not scraped again on any later
  tick that is within the interval, and is scraped on every tick beyond it.
\<close>
theorem custom_interval_respected:
  assumes "mID m \<in> dom (dMetricsCache d)" and "IsEnabledForDatabase m (dName d)"
    and "mScrapeInterval m \<noteq> []" and "pd (mScrapeInterval m) = Inr interval"
    and "SetLastScraped (dMetricsCache d) m (Some t) = Some c'"
    and "in_int64 (now - t)"
  shows "isScrapeMetric pd (Some now) m d \<noteq> None \<and>
    isScrapeMetric pd (Some now) m (d\<lparr>dMetricsCache := c'\<rparr>) = Some (now > t + interval)"
  using assms
  by (auto simp: isScrapeMetric_def getScrapeInterval_def GetLastScraped_def SetLastScraped_def
      time_sub_def sat64_id split: option.splits)

lemma custom_interval_respected_witness:
  "let m = (example_metric [(''value'', ''v'')])\<lparr>mScrapeInterval := ''1m''\<rparr>;
       d = labelled_database ''a'' []
   in isScrapeMetric (\<lambda>_. Inr minute) (Some (90 * second)) m
        (d\<lparr>dMetricsCache := [mID m \<mapsto> Some 0]\<rparr>) = Some True"
proof -
  let ?m = "(example_metric [(''value'', ''v'')])\<lparr>mScrapeInterval := ''1m''\<rparr>"
  let ?d = "(labelled_database ''a'' [])\<lparr>dMetricsCache := [mID ?m \<mapsto> None]\<rparr>"
  have "isScrapeMetric (\<lambda>_. Inr minute) (Some (90 * second)) ?m
      (?d\<lparr>dMetricsCache := [mID ?m \<mapsto> Some 0]\<rparr>) = Some (90 * second > 0 + minute)"
    using custom_interval_respected [of ?m ?d "\<lambda>_. Inr minute" minute 0 "[mID ?m \<mapsto> Some 0]" "90 * second"]
    by (simp add: IsEnabledForDatabase_def example_metric_def SetLastScraped_def int64_bounds_defs)
  then show ?thesis by (simp add: Let_def)
qed

end
