(* ===== verification/SqlNull.thy ===== *)
theory SqlNull
  imports Prelude
begin

text \<open>
  The nullable columns of \<open>database/sql\<close> (\<open>NullInt64\<close>, \<open>NullString\<close>, \<open>NullTime\<close>: the flag
  \<open>Valid\<close> and a value that is the zero value when the flag is off) and the pointers the collectors
  make of them (\<open>int64Ptr\<close>, \<open>stringPtr\<close>, \<open>timePtr\<close> of \<open>collector/performance.go\<close>,
  \<open>nullableDuration\<close> of \<open>collector/activity.go\<close>).
\<close>

type_synonym 'a sql_null = "bool \<times> 'a"

definition int64Ptr :: "int64 sql_null \<Rightarrow> int64 option" where
  "int64Ptr v = (if \<not> fst v then None else Some (snd v))"

definition stringPtr :: "string sql_null \<Rightarrow> string option" where
  "stringPtr v = (if \<not> fst v then None else Some (snd v))"

definition timePtr :: "time sql_null \<Rightarrow> time option" where
  "timePtr v = (if \<not> fst v then None else Some (snd v))"

text \<open>Reading the value field itself: the zero value when the column is null.\<close>

definition null_value :: "'a sql_null \<Rightarrow> 'a \<Rightarrow> 'a" where
  "null_value v zero = (if fst v then snd v else zero)"

definition nullableDuration :: "int64 sql_null \<Rightarrow> duration \<Rightarrow> int64" where
  "nullableDuration v fallback =
     (if fst v \<and> sint (snd v) > 0 then snd v else word_of_int (duration_microseconds fallback))"

lemma nullableDuration_pos:
  assumes "in_int64 fallback" and "1000 \<le> fallback"
  shows "0 < sint (nullableDuration v fallback)"
proof (cases "fst v \<and> sint (snd v) > 0")
  case False
  have "sint (word_of_int (fallback div 1000) :: int64) = fallback div 1000"
    unfolding wrap64_word [symmetric] using assms
    by (intro wrap64_id) (auto simp: int64_bounds_defs)
  then show ?thesis
    using assms False by (simp add: nullableDuration_def duration_microseconds_def sdiv_nonneg)
qed (simp add: nullableDuration_def)

end
