(* ===== verification/RowsPerf.thy ===== *)
theory RowsPerf
  imports SamplesPerf SqlNull
begin

text \<open>
  The rows of the queries of \<open>collector/performance.go\<close> and their conversion to samples: a row record
  has the targets of \<open>rows.Scan\<close> in order, a conversion the assignments of the loop body.
\<close>

record SQLRow =
  rsqInstID :: int64
  rsqSQLID :: string
  rsqChildNumber :: "int64 sql_null"
  rsqPlanHashValue :: "int64 sql_null"
  rsqParsingSchema :: "string sql_null"
  rsqModule :: "string sql_null"
  rsqExecutions :: "int64 sql_null"
  rsqElapsedTime :: "int64 sql_null"
  rsqCpuTime :: "int64 sql_null"
  rsqUserIOWait :: "int64 sql_null"
  rsqApplicationWait :: "int64 sql_null"
  rsqConcurrencyWait :: "int64 sql_null"
  rsqClusterWait :: "int64 sql_null"
  rsqBufferGets :: "int64 sql_null"
  rsqDiskReads :: "int64 sql_null"
  rsqDirectWrites :: "int64 sql_null"
  rsqRowsProcessed :: "int64 sql_null"
  rsqFetches :: "int64 sql_null"
  rsqLoads :: "int64 sql_null"
  rsqInvalidations :: "int64 sql_null"
  rsqParseCalls :: "int64 sql_null"
  rsqLastActiveTime :: "time sql_null"

definition sql_sample :: "time \<Rightarrow> string \<Rightarrow> SQLRow \<Rightarrow> SQLSample" where
  "sql_sample collectedAt database r =
     \<lparr>sqCollectedAt = collectedAt, sqDatabase = database, sqInstID = rsqInstID r,
      sqSQLID = rsqSQLID r, sqChildNumber = int64Ptr (rsqChildNumber r),
      sqPlanHashValue = int64Ptr (rsqPlanHashValue r),
      sqParsingSchemaName = stringPtr (rsqParsingSchema r),
      sqModule = stringPtr (rsqModule r), sqExecutions = int64Ptr (rsqExecutions r),
      sqElapsedTimeMicro = int64Ptr (rsqElapsedTime r),
      sqCPUTimeMicro = int64Ptr (rsqCpuTime r),
      sqUserIOWaitMicro = int64Ptr (rsqUserIOWait r),
      sqApplicationWaitMicro = int64Ptr (rsqApplicationWait r),
      sqConcurrencyWaitMicro = int64Ptr (rsqConcurrencyWait r),
      sqClusterWaitMicro = int64Ptr (rsqClusterWait r),
      sqBufferGets = int64Ptr (rsqBufferGets r), sqDiskReads = int64Ptr (rsqDiskReads r),
      sqDirectWrites = int64Ptr (rsqDirectWrites r),
      sqRowsProcessed = int64Ptr (rsqRowsProcessed r), sqFetches = int64Ptr (rsqFetches r),
      sqLoads = int64Ptr (rsqLoads r), sqInvalidations = int64Ptr (rsqInvalidations r),
      sqParseCalls = int64Ptr (rsqParseCalls r),
      sqLastActiveTime = timePtr (rsqLastActiveTime r), sqSQLFullText = None\<rparr>"

record SQLDetailRow =
  rsdInstID :: int64
  rsdSQLID :: string
  rsdChildNumber :: "int64 sql_null"
  rsdPlanHashValue :: "int64 sql_null"
  rsdParsingSchema :: "string sql_null"
  rsdModule :: "string sql_null"
  rsdSqlFullText :: "string sql_null"

definition sql_detail_sample :: "time \<Rightarrow> string \<Rightarrow> SQLDetailRow \<Rightarrow> SQLSample" where
  "sql_detail_sample collectedAt database r =
     \<lparr>sqCollectedAt = collectedAt, sqDatabase = database, sqInstID = rsdInstID r,
      sqSQLID = rsdSQLID r, sqChildNumber = int64Ptr (rsdChildNumber r),
      sqPlanHashValue = int64Ptr (rsdPlanHashValue r),
      sqParsingSchemaName = stringPtr (rsdParsingSchema r),
      sqModule = stringPtr (rsdModule r), sqExecutions = None, sqElapsedTimeMicro = None,
      sqCPUTimeMicro = None, sqUserIOWaitMicro = None, sqApplicationWaitMicro = None,
      sqConcurrencyWaitMicro = None, sqClusterWaitMicro = None, sqBufferGets = None,
      sqDiskReads = None, sqDirectWrites = None, sqRowsProcessed = None, sqFetches = None,
      sqLoads = None, sqInvalidations = None, sqParseCalls = None, sqLastActiveTime = None,
      sqSQLFullText = stringPtr (rsdSqlFullText r)\<rparr>"

record SQLPlanRow =
  rplInstID :: int64
  rplSQLID :: string
  rplChildNumber :: int64
  rplPlanHashValue :: int64
  rplPlanLineID :: int64
  rplParentID :: "int64 sql_null"
  rplDepth :: "int64 sql_null"
  rplPosition :: "int64 sql_null"
  rplOperation :: "string sql_null"
  rplOptions :: "string sql_null"
  rplObjectOwner :: "string sql_null"
  rplObjectName :: "string sql_null"
  rplObjectType :: "string sql_null"
  rplOptimizer :: "string sql_null"
  rplCost :: "int64 sql_null"
  rplCardinality :: "int64 sql_null"
  rplBytesValue :: "int64 sql_null"
  rplCpuCost :: "int64 sql_null"
  rplIoCost :: "int64 sql_null"
  rplTempSpace :: "int64 sql_null"
  rplPartitionStart :: "string sql_null"
  rplPartitionStop :: "string sql_null"
  rplAccessPredicates :: "string sql_null"
  rplFilterPredicates :: "string sql_null"

definition sql_plan_operation :: "time \<Rightarrow> string \<Rightarrow> SQLPlanRow \<Rightarrow> SQLPlanOperation" where
  "sql_plan_operation collectedAt database r =
     \<lparr>plCollectedAt = collectedAt, plDatabase = database,
      plSQLPlanKey = \<lparr>pkInstID = rplInstID r, pkSQLID = rplSQLID r, pkChildNumber = rplChildNumber r, pkPlanHashValue = rplPlanHashValue r\<rparr>,
      plPlanLineID = rplPlanLineID r, plParentID = int64Ptr (rplParentID r),
      plDepth = int64Ptr (rplDepth r), plPosition = int64Ptr (rplPosition r),
      plOperation = null_value (rplOperation r) [], plOptions = stringPtr (rplOptions r),
      plObjectOwner = stringPtr (rplObjectOwner r),
      plObjectName = stringPtr (rplObjectName r), plObjectType = stringPtr (rplObjectType r),
      plOptimizer = stringPtr (rplOptimizer r), plCost = int64Ptr (rplCost r),
      plCardinality = int64Ptr (rplCardinality r), plBytes = int64Ptr (rplBytesValue r),
      plCPUCost = int64Ptr (rplCpuCost r), plIOCost = int64Ptr (rplIoCost r),
      plTempSpace = int64Ptr (rplTempSpace r),
      plPartitionStart = stringPtr (rplPartitionStart r),
      plPartitionStop = stringPtr (rplPartitionStop r),
      plAccessPredicates = stringPtr (rplAccessPredicates r),
      plFilterPredicates = stringPtr (rplFilterPredicates r)\<rparr>"

record SessionRow =
  rseInstID :: int64
  rseSID :: int64
  rseSerialNumber :: "int64 sql_null"
  rseUsername :: "string sql_null"
  rseStatus :: "string sql_null"
  rseSqlID :: "string sql_null"
  rseSqlChildNumber :: "int64 sql_null"
  rsePrevSQLID :: "string sql_null"
  rseEvent :: "string sql_null"
  rseWaitClass :: "string sql_null"
  rseState :: "string sql_null"
  rseSecondsInWait :: "int64 sql_null"
  rseBlockingInstance :: "int64 sql_null"
  rseBlockingSession :: "int64 sql_null"
  rseMachine :: "string sql_null"
  rseProgram :: "string sql_null"
  rseModule :: "string sql_null"
  rseAction :: "string sql_null"
  rseServiceName :: "string sql_null"
  rseLogonTime :: "time sql_null"

definition session_sample :: "time \<Rightarrow> string \<Rightarrow> SessionRow \<Rightarrow> SessionSample" where
  "session_sample collectedAt database r =
     \<lparr>seCollectedAt = collectedAt, seDatabase = database, seInstID = rseInstID r,
      seSID = rseSID r, seSerialNumber = int64Ptr (rseSerialNumber r),
      seUsername = stringPtr (rseUsername r), seStatus = stringPtr (rseStatus r),
      seSQLID = stringPtr (rseSqlID r), seSQLChildNumber = int64Ptr (rseSqlChildNumber r),
      sePrevSQLID = stringPtr (rsePrevSQLID r), seEvent = stringPtr (rseEvent r),
      seWaitClass = stringPtr (rseWaitClass r), seState = stringPtr (rseState r),
      seSecondsInWait = int64Ptr (rseSecondsInWait r),
      seBlockingInstance = int64Ptr (rseBlockingInstance r),
      seBlockingSession = int64Ptr (rseBlockingSession r),
      seMachine = stringPtr (rseMachine r), seProgram = stringPtr (rseProgram r),
      seModule = stringPtr (rseModule r), seAction = stringPtr (rseAction r),
      seServiceName = stringPtr (rseServiceName r), seLogonTime = timePtr (rseLogonTime r)\<rparr>"

record BlockingSessionRow =
  rbsInstID :: int64
  rbsSID :: int64
  rbsSerialNumber :: "int64 sql_null"
  rbsUsername :: "string sql_null"
  rbsSqlID :: "string sql_null"
  rbsEvent :: "string sql_null"
  rbsWaitClass :: "string sql_null"
  rbsBlockingInstance :: "int64 sql_null"
  rbsBlockingSession :: "int64 sql_null"
  rbsBlockingUsername :: "string sql_null"
  rbsBlockingSQLID :: "string sql_null"
  rbsBlockingEvent :: "string sql_null"

definition blocking_session_sample :: "time \<Rightarrow> string \<Rightarrow> BlockingSessionRow \<Rightarrow> BlockingSessionSample" where
  "blocking_session_sample collectedAt database r =
     \<lparr>bsCollectedAt = collectedAt, bsDatabase = database, bsInstID = rbsInstID r,
      bsSID = rbsSID r, bsSerialNumber = int64Ptr (rbsSerialNumber r),
      bsUsername = stringPtr (rbsUsername r), bsSQLID = stringPtr (rbsSqlID r),
      bsEvent = stringPtr (rbsEvent r), bsWaitClass = stringPtr (rbsWaitClass r),
      bsBlockingInstance = int64Ptr (rbsBlockingInstance r),
      bsBlockingSession = int64Ptr (rbsBlockingSession r),
      bsBlockingUsername = stringPtr (rbsBlockingUsername r),
      bsBlockingSQLID = stringPtr (rbsBlockingSQLID r),
      bsBlockingEvent = stringPtr (rbsBlockingEvent r)\<rparr>"

end
