(* ===== verification/SqlStats.thy ===== *)
theory SqlStats
  imports RowsPerf Machines Database "HOL-Library.Product_Lexorder"
begin

text \<open>
  SQL performance collection (\<open>collector/performance.go\<close>): the counter deltas per SQL statement, the
  ranking of the top consumers, the cache of collected execution plans, the throttle of the detail
  collection, the query builders, and the collectors composed in \<open>ScrapePerformanceSamples\<close>.
\<close>

section \<open>Counters\<close>

record sqlCounterKey =
  ckInstID :: int64
  ckSQLID :: string
  ckPlanHashValue :: int64

record sqlCounterValues =
  cvElapsedTimeMicro :: int64
  cvCPUTimeMicro :: int64
  cvUserIOWaitMicro :: int64
  cvApplicationWaitMicro :: int64
  cvConcurrencyWaitMicro :: int64
  cvClusterWaitMicro :: int64
  cvExecutions :: int64
  cvBufferGets :: int64
  cvDiskReads :: int64

definition zero_values :: sqlCounterValues where
  "zero_values = \<lparr>cvElapsedTimeMicro = 0, cvCPUTimeMicro = 0, cvUserIOWaitMicro = 0,
     cvApplicationWaitMicro = 0, cvConcurrencyWaitMicro = 0, cvClusterWaitMicro = 0,
     cvExecutions = 0, cvBufferGets = 0, cvDiskReads = 0\<rparr>"

definition int64Value :: "int64 option \<Rightarrow> int64" where
  "int64Value v = (case v of None \<Rightarrow> 0 | Some x \<Rightarrow> x)"

definition sqlCounterValuesFromSample :: "SQLSample \<Rightarrow> sqlCounterValues" where
  "sqlCounterValuesFromSample s =
     \<lparr>cvElapsedTimeMicro = int64Value (sqElapsedTimeMicro s),
      cvCPUTimeMicro = int64Value (sqCPUTimeMicro s),
      cvUserIOWaitMicro = int64Value (sqUserIOWaitMicro s),
      cvApplicationWaitMicro = int64Value (sqApplicationWaitMicro s),
      cvConcurrencyWaitMicro = int64Value (sqConcurrencyWaitMicro s),
      cvClusterWaitMicro = int64Value (sqClusterWaitMicro s),
      cvExecutions = int64Value (sqExecutions s),
      cvBufferGets = int64Value (sqBufferGets s),
      cvDiskReads = int64Value (sqDiskReads s)\<rparr>"

definition monotonicDelta :: "int64 \<Rightarrow> int64 \<Rightarrow> int64" where
  "monotonicDelta current previous = (if sint current \<ge> sint previous then current - previous else 0)"

definition sqlCounterDelta :: "sqlCounterValues \<Rightarrow> sqlCounterValues \<Rightarrow> bool \<Rightarrow> sqlCounterValues" where
  "sqlCounterDelta current previous hadPrevious =
     (if \<not> hadPrevious then current
      else \<lparr>cvElapsedTimeMicro = monotonicDelta (cvElapsedTimeMicro current) (cvElapsedTimeMicro previous),
            cvCPUTimeMicro = monotonicDelta (cvCPUTimeMicro current) (cvCPUTimeMicro previous),
            cvUserIOWaitMicro = monotonicDelta (cvUserIOWaitMicro current) (cvUserIOWaitMicro previous),
            cvApplicationWaitMicro =
              monotonicDelta (cvApplicationWaitMicro current) (cvApplicationWaitMicro previous),
            cvConcurrencyWaitMicro =
              monotonicDelta (cvConcurrencyWaitMicro current) (cvConcurrencyWaitMicro previous),
            cvClusterWaitMicro = monotonicDelta (cvClusterWaitMicro current) (cvClusterWaitMicro previous),
            cvExecutions = monotonicDelta (cvExecutions current) (cvExecutions previous),
            cvBufferGets = monotonicDelta (cvBufferGets current) (cvBufferGets previous),
            cvDiskReads = monotonicDelta (cvDiskReads current) (cvDiskReads previous)\<rparr>)"

definition values_add :: "sqlCounterValues \<Rightarrow> sqlCounterValues \<Rightarrow> sqlCounterValues" where
  "values_add v other =
     \<lparr>cvElapsedTimeMicro = cvElapsedTimeMicro v + cvElapsedTimeMicro other,
      cvCPUTimeMicro = cvCPUTimeMicro v + cvCPUTimeMicro other,
      cvUserIOWaitMicro = cvUserIOWaitMicro v + cvUserIOWaitMicro other,
      cvApplicationWaitMicro = cvApplicationWaitMicro v + cvApplicationWaitMicro other,
      cvConcurrencyWaitMicro = cvConcurrencyWaitMicro v + cvConcurrencyWaitMicro other,
      cvClusterWaitMicro = cvClusterWaitMicro v + cvClusterWaitMicro other,
      cvExecutions = cvExecutions v + cvExecutions other,
      cvBufferGets = cvBufferGets v + cvBufferGets other,
      cvDiskReads = cvDiskReads v + cvDiskReads other\<rparr>"

text \<open>The fields of \<open>Scraper\<close> that performance collection keeps; every map is keyed by database.\<close>

record sql_state =
  lastSQLDetailCollection :: "string \<rightharpoonup> time"
  knownPlans :: "string \<rightharpoonup> SQLPlanKey set"
  sqlCounterSnapshots :: "string \<rightharpoonup> (sqlCounterKey \<rightharpoonup> sqlCounterValues)"
  sqlConsumerDeltas :: "string \<rightharpoonup> (string \<rightharpoonup> sqlCounterValues)"

definition initial_sql_state :: sql_state where
  "initial_sql_state = \<lparr>lastSQLDetailCollection = Map.empty, knownPlans = Map.empty,
     sqlCounterSnapshots = Map.empty, sqlConsumerDeltas = Map.empty\<rparr>"

text \<open>Reading a Go map gives the zero value for a missing key (and for a nil map).\<close>

definition values_at :: "('k \<rightharpoonup> sqlCounterValues) \<Rightarrow> 'k \<Rightarrow> sqlCounterValues" where
  "values_at m k = (case m k of None \<Rightarrow> zero_values | Some v \<Rightarrow> v)"

definition counter_key :: "SQLSample \<Rightarrow> sqlCounterKey" where
  "counter_key s = \<lparr>ckInstID = sqInstID s, ckSQLID = sqSQLID s,
     ckPlanHashValue = (case sqPlanHashValue s of None \<Rightarrow> 0 | Some h \<Rightarrow> h)\<rparr>"

text \<open>The loop of \<open>recordSQLConsumerDeltas\<close> over (current, deltas of the database).\<close>

fun record_loop ::
    "(sqlCounterKey \<rightharpoonup> sqlCounterValues) option \<Rightarrow> SQLSample list \<Rightarrow>
     (sqlCounterKey \<rightharpoonup> sqlCounterValues) \<times> (string \<rightharpoonup> sqlCounterValues) \<Rightarrow>
     (sqlCounterKey \<rightharpoonup> sqlCounterValues) \<times> (string \<rightharpoonup> sqlCounterValues)" where
  "record_loop previous [] (current, deltas) = (current, deltas)"
| "record_loop previous (s # rest) (current, deltas) =
     (if sqSQLID s = [] then record_loop previous rest (current, deltas)
      else let key = counter_key s;
               vals = sqlCounterValuesFromSample s;
               current = current(key \<mapsto> vals)
           in case previous of
                None \<Rightarrow> record_loop previous rest (current, deltas)
              | Some p \<Rightarrow>
                  let delta = sqlCounterDelta vals (values_at p key) (p key \<noteq> None);
                      accumulated = values_add (values_at deltas (sqSQLID s)) delta
                  in record_loop previous rest (current, deltas(sqSQLID s \<mapsto> accumulated)))"

definition recordSQLConsumerDeltas :: "string \<Rightarrow> SQLSample list \<Rightarrow> sql_state \<Rightarrow> sql_state" where
  "recordSQLConsumerDeltas database samples s =
     (let previous = sqlCounterSnapshots s database;
          deltas = (case sqlConsumerDeltas s database of None \<Rightarrow> Map.empty | Some m \<Rightarrow> m);
          (current, deltas) = record_loop previous samples (Map.empty, deltas)
      in s\<lparr>sqlCounterSnapshots := (sqlCounterSnapshots s)(database \<mapsto> current),
           sqlConsumerDeltas := (sqlConsumerDeltas s)(database \<mapsto> deltas)\<rparr>)"

section \<open>Ranking\<close>

definition compareInt64 :: "int64 \<Rightarrow> int64 \<Rightarrow> int" where
  "compareInt64 a b = (if sint a < sint b then -1 else if sint a > sint b then 1 else 0)"

text \<open>\<open>strings.Compare\<close>: bytewise lexicographic.\<close>

definition compare_strings :: "string \<Rightarrow> string \<Rightarrow> int" where
  "compare_strings a b = (if a = b then 0 else if a < b then -1 else 1)"

type_synonym ranked_sql = "string \<times> sqlCounterValues"

definition rank_compare :: "ranked_sql \<Rightarrow> ranked_sql \<Rightarrow> int" where
  "rank_compare a b =
     (if cvElapsedTimeMicro (snd a) \<noteq> cvElapsedTimeMicro (snd b)
      then - compareInt64 (cvElapsedTimeMicro (snd a)) (cvElapsedTimeMicro (snd b))
      else if cvCPUTimeMicro (snd a) \<noteq> cvCPUTimeMicro (snd b)
      then - compareInt64 (cvCPUTimeMicro (snd a)) (cvCPUTimeMicro (snd b))
      else if cvUserIOWaitMicro (snd a) \<noteq> cvUserIOWaitMicro (snd b)
      then - compareInt64 (cvUserIOWaitMicro (snd a)) (cvUserIOWaitMicro (snd b))
      else compare_strings (fst a) (fst b))"

text \<open>\<open>slices.SortFunc\<close>: an insertion sort; the comparison is a total order on distinct statements,
  so every sorting algorithm gives this list (lemma \<open>sort_func_unique\<close>).\<close>

fun insert_by :: "('a \<Rightarrow> 'a \<Rightarrow> int) \<Rightarrow> 'a \<Rightarrow> 'a list \<Rightarrow> 'a list" where
  "insert_by cmp x [] = [x]"
| "insert_by cmp x (y # ys) = (if cmp x y \<le> 0 then x # y # ys else y # insert_by cmp x ys)"

definition sort_func :: "('a \<Rightarrow> 'a \<Rightarrow> int) \<Rightarrow> 'a list \<Rightarrow> 'a list" where
  "sort_func cmp xs = foldr (insert_by cmp) xs []"

text \<open>
  \<open>takeTopSQLConsumers\<close>; \<open>entries\<close> is the iteration over the deltas of the database. \<open>None\<close> is the
  panic of \<open>make\<close> with a negative length.
\<close>

definition takeTopSQLConsumers ::
    "string \<Rightarrow> int \<Rightarrow> ranked_sql list \<Rightarrow> sql_state \<Rightarrow> (string list \<times> sql_state) option" where
  "takeTopSQLConsumers database limit entries s =
     (let ranked = filter (\<lambda>e. \<not> sint (cvElapsedTimeMicro (snd e)) \<le> 0) entries;
          ranked = sort_func rank_compare ranked;
          limit = (if limit > int (length ranked) then int (length ranked) else limit)
      in if limit < 0 then None
         else Some (map fst (take (nat limit) ranked),
                    s\<lparr>sqlConsumerDeltas := (sqlConsumerDeltas s)(database := None)\<rparr>))"

section \<open>Plan cache and throttle\<close>

fun plan_candidates :: "nat \<Rightarrow> SQLSample list \<Rightarrow> SQLPlanKey list \<Rightarrow> SQLPlanKey list" where
  "plan_candidates limit [] acc = acc"
| "plan_candidates limit (s # rest) acc =
     (if length acc \<ge> limit then acc
      else case (sqChildNumber s, sqPlanHashValue s) of
             (Some child, Some h) \<Rightarrow>
               if sint h \<le> 0 then plan_candidates limit rest acc
               else let key = \<lparr>pkInstID = sqInstID s, pkSQLID = sqSQLID s, pkChildNumber = child,
                               pkPlanHashValue = h\<rparr>
                    in if key \<in> set acc then plan_candidates limit rest acc
                       else plan_candidates limit rest (acc @ [key])
           | _ \<Rightarrow> plan_candidates limit rest acc)"

definition uncachedSQLPlanCandidates ::
    "string \<Rightarrow> SQLSample list \<Rightarrow> nat \<Rightarrow> sql_state \<Rightarrow> SQLPlanKey list \<times> sql_state" where
  "uncachedSQLPlanCandidates database samples limit s =
     (let allCandidates = plan_candidates limit samples [];
          known = (case knownPlans s database of None \<Rightarrow> {} | Some k \<Rightarrow> k)
      in (filter (\<lambda>c. c \<notin> known) allCandidates,
          s\<lparr>knownPlans := (knownPlans s)(database \<mapsto> {c \<in> set allCandidates. c \<in> known})\<rparr>))"

definition markSQLPlansCollected :: "string \<Rightarrow> SQLPlanOperation list \<Rightarrow> sql_state \<Rightarrow> sql_state" where
  "markSQLPlansCollected database plans s =
     (let known = (case knownPlans s database of None \<Rightarrow> {} | Some k \<Rightarrow> k)
      in s\<lparr>knownPlans := (knownPlans s)(database \<mapsto> known \<union> plSQLPlanKey ` set plans)\<rparr>)"

definition shouldCollectSQLDetails ::
    "bool \<Rightarrow> string \<Rightarrow> time \<Rightarrow> duration \<Rightarrow> sql_state \<Rightarrow> bool \<times> sql_state" where
  "shouldCollectSQLDetails enabled database collectedAt interval s =
     (if \<not> enabled then (False, s)
      else case lastSQLDetailCollection s database of
             Some last_time \<Rightarrow>
               if time_before collectedAt (time_add last_time interval) then (False, s)
               else (True, s\<lparr>lastSQLDetailCollection := (lastSQLDetailCollection s)(database \<mapsto> collectedAt)\<rparr>)
           | None \<Rightarrow>
               (True, s\<lparr>lastSQLDetailCollection := (lastSQLDetailCollection s)(database \<mapsto> collectedAt)\<rparr>))"

interpretation sql_details: throttle "shouldCollectSQLDetails True" lastSQLDetailCollection
  by unfold_locales
    (auto simp: shouldCollectSQLDetails_def time_before_def time_add_def split: option.splits if_splits)

section \<open>Lemmas on the ranking\<close>

definition rank_key :: "ranked_sql \<Rightarrow> int \<times> int \<times> int \<times> string" where
  "rank_key e = (- sint (cvElapsedTimeMicro (snd e)), - sint (cvCPUTimeMicro (snd e)),
                 - sint (cvUserIOWaitMicro (snd e)), fst e)"

lemma sint_eq_iff64: "sint (a :: int64) = sint b \<longleftrightarrow> a = b"
  by (auto intro: signed_word_eqI)

lemma rank_compare_key: "rank_compare a b \<le> 0 \<longleftrightarrow> rank_key a \<le> rank_key b"
  by (auto simp: rank_compare_def rank_key_def compareInt64_def compare_strings_def less_eq_prod_def
      sint_eq_iff64 order.strict_iff_order split: if_splits)

lemma insert_by_insort:
  "(\<And>x y. cmp x y \<le> 0 \<longleftrightarrow> f x \<le> (f y :: 'b :: linorder)) \<Longrightarrow> insert_by cmp x ys = insort_key f x ys"
  by (induction ys) auto

lemma sort_func_sort_key:
  assumes "\<And>x y. cmp x y \<le> 0 \<longleftrightarrow> f x \<le> (f y :: 'b :: linorder)"
  shows "sort_func cmp xs = sort_key f xs"
proof -
  have "insert_by cmp = insort_key f" using insert_by_insort [of cmp f] assms by blast
  then show ?thesis by (simp add: sort_func_def sort_key_def)
qed

lemmas sort_ranked = sort_func_sort_key [of rank_compare rank_key, OF rank_compare_key]

lemma inj_rank_key: "distinct (map fst es) \<Longrightarrow> inj_on rank_key (set es)"
  by (auto simp: inj_on_def rank_key_def distinct_map)

text \<open>Any sorted permutation of the entries is the list that the model computes.\<close>

lemma sort_func_unique:
  assumes "distinct (map fst es)" and "mset ys = mset es"
    and "sorted_wrt (\<lambda>a b. rank_compare a b \<le> 0) ys"
  shows "sort_func rank_compare es = ys"
proof -
  have "sorted (map rank_key ys)"
    using assms(3) by (simp add: rank_compare_key sorted_wrt_map)
  moreover have "inj_on rank_key (set es)" using inj_rank_key [OF assms(1)] .
  ultimately show ?thesis
    using sort_key_inj_key_eq [of es ys rank_key] assms(2) by (simp add: sort_ranked)
qed

lemma takeTop_order_independent:
  assumes "enumerates es m" and "enumerates es' m"
  shows "takeTopSQLConsumers db n es s = takeTopSQLConsumers db n es' s"
proof -
  let ?P = "\<lambda>e. \<not> sint (cvElapsedTimeMicro (snd e)) \<le> (0 :: int)"
  let ?f = "\<lambda>es. filter ?P (es :: ranked_sql list)"
  have d: "distinct es" "distinct es'" and eq: "set es = set es'"
    using assms enumerates_distinct enumerates_set by blast+
  then have "mset es = mset es'" by (simp add: set_eq_iff_mset_eq_distinct)
  then have m: "mset (?f es) = mset (?f es')" by simp
  have "distinct (map fst (?f es))"
    using assms(1) by (simp add: enumerates_def distinct_map_filter)
  then have inj: "inj_on rank_key (set (?f es))" by (rule inj_rank_key)
  have "sort_key rank_key (?f es) = sort_key rank_key (?f es')"
    by (rule sort_key_inj_key_eq [OF _ inj]) (use m in simp_all)
  then show ?thesis unfolding takeTopSQLConsumers_def sort_ranked Let_def by (simp only:)
qed

lemma takeTop_result:
  assumes "takeTopSQLConsumers db n es s = Some (ids, s')"
  shows "\<exists>top. ids = map fst top \<and> top = take (nat n) (sort_key rank_key
           (filter (\<lambda>e. \<not> sint (cvElapsedTimeMicro (snd e)) \<le> 0) es))"
    and "sqlConsumerDeltas s' db = None"
proof -
  let ?r = "sort_key rank_key (filter (\<lambda>e. \<not> sint (cvElapsedTimeMicro (snd e)) \<le> 0) es)"
  have "take (nat (if n > int (length ?r) then int (length ?r) else n)) ?r = take (nat n) ?r" by simp
  then show "\<exists>top. ids = map fst top \<and> top = take (nat n) ?r"
    using assms by (auto simp: takeTopSQLConsumers_def sort_ranked Let_def split: if_splits)
  show "sqlConsumerDeltas s' db = None"
    using assms by (auto simp: takeTopSQLConsumers_def Let_def split: if_splits)
qed

lemma take_sorted_dominates:
  assumes "sorted (map f xs)" and "x \<in> set (take n xs)" and "y \<in> set (drop n xs)"
  shows "f x \<le> f y"
proof -
  have "sorted (map f (take n xs @ drop n xs))" using assms(1) by simp
  then show ?thesis using assms(2,3) by (auto simp only: map_append sorted_append set_map)
qed

section \<open>Properties of the ranking\<close>

text \<open>
  C18: \<open>takeTopSQLConsumers\<close> returns the statements that consumed most: it does not depend on the order
  in which the runtime iterates over the map of deltas; every statement it returns has consumed
  elapsed time since the last call, none of the others that has consumed some has consumed more, at
  most \<open>limit\<close> are returned and fewer only when no other consumed any; the deltas start afresh.
\<close>
theorem top_consumers_exact:
  assumes "enumerates es m" and "0 \<le> n"
  shows "\<exists>ids s'. takeTopSQLConsumers db n es s = Some (ids, s') \<and>
    (\<forall>es'. enumerates es' m \<longrightarrow> takeTopSQLConsumers db n es' s = Some (ids, s')) \<and>
    distinct ids \<and>
    length ids = min (nat n) (card {i. \<exists>v. m i = Some v \<and> 0 < sint (cvElapsedTimeMicro v)}) \<and>
    (\<forall>i \<in> set ids. \<exists>v. m i = Some v \<and> 0 < sint (cvElapsedTimeMicro v) \<and>
       (\<forall>j w. m j = Some w \<and> j \<notin> set ids \<longrightarrow>
          sint (cvElapsedTimeMicro w) \<le> sint (cvElapsedTimeMicro v))) \<and>
    sqlConsumerDeltas s' db = None"
proof -
  let ?P = "\<lambda>e :: ranked_sql. \<not> sint (cvElapsedTimeMicro (snd e)) \<le> 0"
  define r where "r = sort_key rank_key (filter ?P es)"
  have "\<exists>ids s'. takeTopSQLConsumers db n es s = Some (ids, s')"
    using assms(2) by (simp add: takeTopSQLConsumers_def Let_def)
  then obtain ids s' where take: "takeTopSQLConsumers db n es s = Some (ids, s')" by blast
  from takeTop_result(1) [OF take] have ids: "ids = map fst (take (nat n) r)" by (simp add: r_def)
  have set_r: "set r = {e \<in> set es. ?P e}" by (simp add: r_def)
  have mem: "(i, v) \<in> set r \<longleftrightarrow> m i = Some v \<and> 0 < sint (cvElapsedTimeMicro v)" for i v
    using enumerates_mem [OF assms(1), of i v] by (auto simp: set_r)
  have dr: "distinct (map fst r)"
  proof -
    have "distinct (map fst (filter ?P es))"
      using assms(1) by (simp add: enumerates_def distinct_map_filter)
    then have "distinct (filter ?P es)" "inj_on fst (set (filter ?P es))" by (auto simp: distinct_map)
    then show ?thesis by (simp add: r_def distinct_map)
  qed
  then have dist: "distinct ids" by (simp add: ids take_map [symmetric])
  have len: "length ids = min (nat n) (card {i. \<exists>v. m i = Some v \<and> 0 < sint (cvElapsedTimeMicro v)})"
  proof -
    have "{i. \<exists>v. m i = Some v \<and> 0 < sint (cvElapsedTimeMicro v)} = fst ` set r"
      using mem by force
    then show ?thesis using distinct_card [OF dr] by (simp add: ids min.commute)
  qed
  have best: "\<exists>v. m i = Some v \<and> 0 < sint (cvElapsedTimeMicro v) \<and>
       (\<forall>j w. m j = Some w \<and> j \<notin> set ids \<longrightarrow>
          sint (cvElapsedTimeMicro w) \<le> sint (cvElapsedTimeMicro v))" if "i \<in> set ids" for i
  proof -
    from that obtain v where v: "(i, v) \<in> set (take (nat n) r)" by (auto simp: ids)
    then have iv: "m i = Some v" "0 < sint (cvElapsedTimeMicro v)" using mem set_take_subset by fast+
    have "sint (cvElapsedTimeMicro w) \<le> sint (cvElapsedTimeMicro v)"
      if "m j = Some w" "j \<notin> set ids" for j w
    proof (cases "0 < sint (cvElapsedTimeMicro w)")
      case True
      then have "(j, w) \<in> set r" using mem that(1) by simp
      moreover have "(j, w) \<notin> set (take (nat n) r)" using that(2) ids by force
      ultimately have "(j, w) \<in> set (drop (nat n) r)"
        by (metis Un_iff append_take_drop_id set_append)
      then have "rank_key (i, v) \<le> rank_key (j, w)"
        using take_sorted_dominates [OF _ v, of rank_key] by (simp add: r_def)
      then show ?thesis by (auto simp: rank_key_def less_eq_prod_def)
    qed (use iv in simp)
    with iv show ?thesis by blast
  qed
  have order: "\<forall>es'. enumerates es' m \<longrightarrow> takeTopSQLConsumers db n es' s = Some (ids, s')"
    using take takeTop_order_independent [OF _ assms(1), of _ db n s] by simp
  show ?thesis
    by (rule exI [of _ ids], rule exI [of _ s'], intro conjI ballI)
      (rule take order dist len best takeTop_result(2) [OF take] | assumption)+
qed

definition busy :: "int64 \<Rightarrow> sqlCounterValues" where
  "busy t = zero_values\<lparr>cvElapsedTimeMicro := t\<rparr>"

lemma top_consumers_exact_witness:
  "\<exists>ids s'. takeTopSQLConsumers ''db'' 1 [(''a'', busy 5), (''b'', busy 0), (''c'', busy 9)]
     initial_sql_state = Some (ids, s') \<and> length ids = 1 \<and> sqlConsumerDeltas s' ''db'' = None"
proof -
  let ?es = "[(''a'', busy 5), (''b'', busy 0), (''c'', busy 9)]"
  have e: "enumerates ?es (map_of ?es)" by (simp add: enumerates_def)
  have "{i. \<exists>v. map_of ?es i = Some v \<and> 0 < sint (cvElapsedTimeMicro v)} = {''a'', ''c''}"
    by (auto simp: busy_def split: if_splits)
  then have two: "card {i. \<exists>v. map_of ?es i = Some v \<and> 0 < sint (cvElapsedTimeMicro v)} = 2" by simp
  from top_consumers_exact [OF e zero_le_one, of "''db''" initial_sql_state]
  obtain ids s' where "takeTopSQLConsumers ''db'' 1 ?es initial_sql_state = Some (ids, s')"
    and "length ids = min (nat 1) (card {i. \<exists>v. map_of ?es i = Some v \<and> 0 < sint (cvElapsedTimeMicro v)})"
    and "sqlConsumerDeltas s' ''db'' = None"
    by (elim exE conjE) (rule that)
  then show ?thesis unfolding two by simp
qed

section \<open>Properties of the counters\<close>

lemma values_at_upd [simp]: "values_at (m(k \<mapsto> v)) k' = (if k' = k then v else values_at m k')"
  by (simp add: values_at_def)

lemma counter_key_id [simp]: "ckSQLID (counter_key s) = sqSQLID s"
  by (simp add: counter_key_def)

definition snapshot_sample ::
    "SQLSample \<Rightarrow> (sqlCounterKey \<rightharpoonup> sqlCounterValues) \<Rightarrow> (sqlCounterKey \<rightharpoonup> sqlCounterValues)" where
  "snapshot_sample s m =
     (if sqSQLID s = [] then m else m(counter_key s \<mapsto> sqlCounterValuesFromSample s))"

lemma record_loop_current:
  "fst (record_loop previous samples (current, deltas)) = fold snapshot_sample samples current"
  by (induction samples arbitrary: current deltas)
    (auto simp: snapshot_sample_def Let_def split: option.splits)

lemma fold_snapshot_sample:
  "fold snapshot_sample samples m k =
     (case rev (filter (\<lambda>s. sqSQLID s \<noteq> [] \<and> counter_key s = k) samples) of
        [] \<Rightarrow> m k | s # _ \<Rightarrow> Some (sqlCounterValuesFromSample s))"
  by (induction samples rule: rev_induct) (auto simp: snapshot_sample_def)

lemmas record_loop_snapshot = fun_cong [OF record_loop_current, unfolded fold_snapshot_sample]

lemma record_loop_uninitialized: "snd (record_loop None samples (current, deltas)) = deltas"
  by (induction samples arbitrary: current) (simp_all add: Let_def)

definition add_delta ::
    "(sqlCounterKey \<rightharpoonup> sqlCounterValues) \<Rightarrow> SQLSample \<Rightarrow> sqlCounterValues \<Rightarrow> sqlCounterValues" where
  "add_delta p s acc = values_add acc
     (sqlCounterDelta (sqlCounterValuesFromSample s) (values_at p (counter_key s))
        (p (counter_key s) \<noteq> None))"

lemma record_loop_deltas:
  "i \<noteq> [] \<Longrightarrow>
   values_at (snd (record_loop (Some p) samples (current, deltas))) i =
     fold (add_delta p) (filter (\<lambda>s. sqSQLID s = i) samples) (values_at deltas i)"
  by (induction samples arbitrary: current deltas) (auto simp: Let_def add_delta_def)

lemma monotonicDelta_sint:
  "0 \<le> sint p \<Longrightarrow> sint (monotonicDelta c p) = max 0 (sint c - sint p)"
  by (auto simp: monotonicDelta_def sint_minus64_exact)

definition elapsed :: "SQLSample \<Rightarrow> int64" where
  "elapsed s = cvElapsedTimeMicro (sqlCounterValuesFromSample s)"

text \<open>The elapsed time that the state holds for a statement of a database.\<close>

definition elapsed_of :: "sql_state \<Rightarrow> string \<Rightarrow> string \<Rightarrow> int64" where
  "elapsed_of s db i =
     cvElapsedTimeMicro (values_at (case sqlConsumerDeltas s db of None \<Rightarrow> Map.empty | Some m \<Rightarrow> m) i)"

definition sole_sample :: "string \<Rightarrow> sqlCounterKey \<Rightarrow> SQLSample list \<Rightarrow> SQLSample \<Rightarrow> bool" where
  "sole_sample i k samples x \<longleftrightarrow> filter (\<lambda>s. sqSQLID s = i) samples = [x] \<and> counter_key x = k"

lemma sole_sample_key:
  assumes "sole_sample i k samples x" and "i \<noteq> []"
  shows "filter (\<lambda>s. sqSQLID s \<noteq> [] \<and> counter_key s = k) samples = [x]"
proof -
  have x: "sqSQLID x = i" "counter_key x = k"
    using assms(1) by (auto simp: sole_sample_def dest!: filter_eq_ConsD)
  have "filter (\<lambda>s. sqSQLID s \<noteq> [] \<and> counter_key s = k) samples =
      filter (\<lambda>s. counter_key s = k) (filter (\<lambda>s. sqSQLID s = i) samples)"
    unfolding filter_filter using x assms(2) by (intro filter_cong) (auto simp flip: counter_key_id)
  also have "filter (\<lambda>s. sqSQLID s = i) samples = [x]" using assms(1) by (simp add: sole_sample_def)
  finally show ?thesis using x by simp
qed

lemma record_first:
  assumes "sole_sample i k samples x" and "i \<noteq> []" and "sqlCounterSnapshots s db = None"
  shows "elapsed_of (recordSQLConsumerDeltas db samples s) db i = elapsed_of s db i"
    and "\<exists>p. sqlCounterSnapshots (recordSQLConsumerDeltas db samples s) db = Some p \<and>
             p k = Some (sqlCounterValuesFromSample x)"
proof -
  let ?d = "case sqlConsumerDeltas s db of None \<Rightarrow> Map.empty | Some m \<Rightarrow> m"
  obtain c d where r: "record_loop None samples (Map.empty, ?d) = (c, d)" by fastforce
  have "c k = Some (sqlCounterValuesFromSample x)"
    using record_loop_snapshot [of None samples Map.empty ?d k] r sole_sample_key [OF assms(1,2)]
    by simp
  then show "\<exists>p. sqlCounterSnapshots (recordSQLConsumerDeltas db samples s) db = Some p \<and>
             p k = Some (sqlCounterValuesFromSample x)"
    using r assms(3) by (simp add: recordSQLConsumerDeltas_def Let_def)
  have "d = ?d" using record_loop_uninitialized [of samples Map.empty ?d] r by simp
  then show "elapsed_of (recordSQLConsumerDeltas db samples s) db i = elapsed_of s db i"
    using r assms(3) by (simp add: recordSQLConsumerDeltas_def Let_def elapsed_of_def)
qed

lemma record_next:
  assumes "sole_sample i k samples x" and "i \<noteq> []" and "sqlCounterSnapshots s db = Some p"
    and "p k = Some v"
  shows "elapsed_of (recordSQLConsumerDeltas db samples s) db i =
           elapsed_of s db i + monotonicDelta (elapsed x) (cvElapsedTimeMicro v)"
    and "\<exists>p. sqlCounterSnapshots (recordSQLConsumerDeltas db samples s) db = Some p \<and>
             p k = Some (sqlCounterValuesFromSample x)"
proof -
  let ?d = "case sqlConsumerDeltas s db of None \<Rightarrow> Map.empty | Some m \<Rightarrow> m"
  obtain c d where r: "record_loop (Some p) samples (Map.empty, ?d) = (c, d)" by fastforce
  have "c k = Some (sqlCounterValuesFromSample x)"
    using record_loop_snapshot [of "Some p" samples Map.empty ?d k] r sole_sample_key [OF assms(1,2)]
    by simp
  then show "\<exists>p. sqlCounterSnapshots (recordSQLConsumerDeltas db samples s) db = Some p \<and>
             p k = Some (sqlCounterValuesFromSample x)"
    using r assms(3) by (simp add: recordSQLConsumerDeltas_def Let_def)
  have "values_at d i = add_delta p x (values_at ?d i)"
    using record_loop_deltas [OF assms(2), of p samples Map.empty ?d] r assms(1)
    by (simp add: sole_sample_def)
  then show "elapsed_of (recordSQLConsumerDeltas db samples s) db i =
           elapsed_of s db i + monotonicDelta (elapsed x) (cvElapsedTimeMicro v)"
    using r assms by (simp add: recordSQLConsumerDeltas_def Let_def elapsed_of_def add_delta_def
        values_add_def sqlCounterDelta_def values_at_def elapsed_def sole_sample_def)
qed

lemma record_telescopes:
  assumes "list_all2 (sole_sample i k) passes xs" and "i \<noteq> []"
    and "sqlCounterSnapshots s db = Some p" and "p k = Some v"
    and "sorted_wrt (\<lambda>a b. sint a \<le> sint b) (cvElapsedTimeMicro v # map elapsed xs)"
  shows "elapsed_of (foldl (\<lambda>s samples. recordSQLConsumerDeltas db samples s) s passes) db i =
    elapsed_of s db i + (last (cvElapsedTimeMicro v # map elapsed xs) - cvElapsedTimeMicro v)"
  using assms
proof (induction passes xs arbitrary: s p v rule: list_all2_induct)
  case (Cons samples passes x xs)
  note next_step = record_next [OF Cons.hyps(1) Cons.prems(1,2,3)]
  from next_step(2) obtain p' where p': "sqlCounterSnapshots (recordSQLConsumerDeltas db samples s) db = Some p'"
    "p' k = Some (sqlCounterValuesFromSample x)" by blast
  have "monotonicDelta (elapsed x) (cvElapsedTimeMicro v) = elapsed x - cvElapsedTimeMicro v"
    using Cons.prems(4) by (simp add: monotonicDelta_def)
  then show ?case
    using Cons.IH [OF Cons.prems(1) p'] Cons.prems(4) next_step(1) by (simp add: elapsed_def)
qed simp

text \<open>
  C33: the elapsed time that a statement accumulates between two rankings telescopes. If a statement
  shows in every scrape as one plan on one instance with a counter that does not go down, then after
  any number of scrapes its delta is the last counter minus the first one: nothing is counted twice,
  nothing is lost, and the first scrape, which has no baseline, counts for nothing.
\<close>
theorem consumer_delta_telescopes:
  assumes "list_all2 (sole_sample i k) (samples # passes) (x # xs)" and "i \<noteq> []"
    and "sqlCounterSnapshots s db = None" and "sqlConsumerDeltas s db = None"
    and "sorted_wrt (\<lambda>a b. sint a \<le> sint b) (map elapsed (x # xs))"
  shows "elapsed_of (foldl (\<lambda>s samples. recordSQLConsumerDeltas db samples s) s (samples # passes)) db i =
    elapsed (last (x # xs)) - elapsed x"
proof -
  have sole: "sole_sample i k samples x" and rest: "list_all2 (sole_sample i k) passes xs"
    using assms(1) by auto
  note first = record_first [OF sole assms(2,3)]
  from first(2) obtain p where "sqlCounterSnapshots (recordSQLConsumerDeltas db samples s) db = Some p"
    "p k = Some (sqlCounterValuesFromSample x)" by blast
  note tele = record_telescopes [OF rest assms(2) this]
  have "elapsed_of s db i = 0" using assms(4) by (simp add: elapsed_of_def values_at_def zero_values_def)
  moreover have "last (elapsed x # map elapsed xs) = elapsed (last (x # xs))" by (simp add: last_map)
  ultimately show ?thesis
    using tele assms(5) first(1) by (simp add: elapsed_def [symmetric])
qed

definition example_sql_sample :: "string \<Rightarrow> int64 \<Rightarrow> SQLSample" where
  "example_sql_sample i e =
     \<lparr>sqCollectedAt = 0, sqDatabase = ''db'', sqInstID = 1, sqSQLID = i, sqChildNumber = Some 0,
      sqPlanHashValue = Some 77, sqParsingSchemaName = None, sqModule = None, sqExecutions = None,
      sqElapsedTimeMicro = Some e, sqCPUTimeMicro = None, sqUserIOWaitMicro = None,
      sqApplicationWaitMicro = None, sqConcurrencyWaitMicro = None, sqClusterWaitMicro = None,
      sqBufferGets = None, sqDiskReads = None, sqDirectWrites = None, sqRowsProcessed = None,
      sqFetches = None, sqLoads = None, sqInvalidations = None, sqParseCalls = None,
      sqLastActiveTime = None, sqSQLFullText = None\<rparr>"

lemma consumer_delta_telescopes_witness:
  "elapsed_of (foldl (\<lambda>s samples. recordSQLConsumerDeltas ''db'' samples s) initial_sql_state
     [[example_sql_sample ''a'' 10], [example_sql_sample ''b'' 1, example_sql_sample ''a'' 25],
      [example_sql_sample ''a'' 40]]) ''db'' ''a'' = 30"
  using consumer_delta_telescopes [of "''a''" "\<lparr>ckInstID = 1, ckSQLID = ''a'', ckPlanHashValue = 77\<rparr>"
      "[example_sql_sample ''a'' 10]"
      "[[example_sql_sample ''b'' 1, example_sql_sample ''a'' 25], [example_sql_sample ''a'' 40]]"
      "example_sql_sample ''a'' 10" "[example_sql_sample ''a'' 25, example_sql_sample ''a'' 40]"
      initial_sql_state "''db''"]
  by (simp add: sole_sample_def counter_key_def example_sql_sample_def initial_sql_state_def
      elapsed_def sqlCounterValuesFromSample_def int64Value_def)

end
