(* ===== verification/SqlPerformance.thy ===== *)
theory SqlPerformance
  imports SqlStats
begin

text \<open>
  The SQL queries that \<open>collector/performance.go\<close> builds, its collectors, and their composition
  \<open>ScrapePerformanceSamples\<close>; the properties of the plan cache, of the throttle of the detail
  collection and of the composition.
\<close>

section \<open>Query builders\<close>

definition nl :: string where "nl = [CHR 0x0A]"
definition tab :: string where "tab = [CHR 0x09]"

definition sqlDetailQueryPrefix :: string where
  "sqlDetailQueryPrefix =
     nl @
     ''select inst_id, sql_id, child_number, plan_hash_value, parsing_schema_name, module, sql_fulltext'' @
     nl @ ''from ('' @ nl @ tab @
     ''select q.inst_id, q.sql_id, q.child_number, q.plan_hash_value,'' @ nl @ tab @ tab @
     ''q.parsing_schema_name, q.module, q.sql_fulltext,'' @ nl @ tab @ tab @
     ''row_number() over ('' @ nl @ tab @ tab @ tab @
     ''partition by q.inst_id, q.sql_id, q.plan_hash_value'' @ nl @ tab @ tab @ tab @
     ''order by q.elapsed_time desc, q.child_number'' @ nl @ tab @ tab @
     '') as child_rank'' @ nl @ tab @ ''from gv$sql q'' @ nl @ tab @ ''where q.sql_id in (''"

definition sqlPlanQueryPrefix :: string where
  "sqlPlanQueryPrefix =
     nl @ ''select'' @ nl @ tab @ ''p.inst_id,'' @ nl @ tab @ ''p.sql_id,'' @ nl @ tab @
     ''p.child_number,'' @ nl @ tab @ ''p.plan_hash_value,'' @ nl @ tab @ ''p.id,'' @ nl @
     tab @ ''p.parent_id,'' @ nl @ tab @ ''p.depth,'' @ nl @ tab @ ''p.position,'' @ nl @
     tab @ ''p.operation,'' @ nl @ tab @ ''p.options,'' @ nl @ tab @ ''p.object_owner,'' @
     nl @ tab @ ''p.object_name,'' @ nl @ tab @ ''p.object_type,'' @ nl @ tab @
     ''p.optimizer,'' @ nl @ tab @ ''p.cost,'' @ nl @ tab @ ''p.cardinality,'' @ nl @ tab @
     ''p.bytes,'' @ nl @ tab @ ''p.cpu_cost,'' @ nl @ tab @ ''p.io_cost,'' @ nl @ tab @
     ''p.temp_space,'' @ nl @ tab @ ''p.partition_start,'' @ nl @ tab @
     ''p.partition_stop,'' @ nl @ tab @ ''p.access_predicates,'' @ nl @ tab @
     ''p.filter_predicates'' @ nl @ ''from gv$sql_plan p'' @ nl @ ''where ''"

datatype bind_value = BindInt int64 | BindString string

definition bind_name :: "nat \<Rightarrow> string" where
  "bind_name n = CHR 0x3A # dec_of_nat n"

definition plan_condition :: "nat \<Rightarrow> string" where
  "plan_condition bind =
     ''(p.inst_id = '' @ bind_name bind @ '' and p.sql_id = '' @ bind_name (bind + 1) @
     '' and p.child_number = '' @ bind_name (bind + 2) @
     '' and p.plan_hash_value = '' @ bind_name (bind + 3) @ '')''"

definition plan_args :: "SQLPlanKey \<Rightarrow> bind_value list" where
  "plan_args c = [BindInt (pkInstID c), BindString (pkSQLID c), BindInt (pkChildNumber c),
                  BindInt (pkPlanHashValue c)]"

definition buildSQLPlanQuery :: "SQLPlanKey list \<Rightarrow> string \<times> bind_value list" where
  "buildSQLPlanQuery candidates =
     (sqlPlanQueryPrefix @
      join_with '' or '' (map (\<lambda>i. plan_condition (i * 4 + 1)) [0..<length candidates]) @
      '' order by p.inst_id, p.sql_id, p.child_number, p.plan_hash_value, p.id'',
      concat (map plan_args candidates))"

definition buildSQLDetailQuery :: "string list \<Rightarrow> string \<times> bind_value list" where
  "buildSQLDetailQuery sqlIDs =
     (sqlDetailQueryPrefix @
      join_with '', '' (map (\<lambda>i. bind_name (i + 1)) [0..<length sqlIDs]) @
      '')'' @ nl @ '')'' @ nl @ ''where child_rank = 1'' @ nl @
     ''order by sql_id, inst_id, plan_hash_value, child_number'',
      map BindString sqlIDs)"

section \<open>Collectors\<close>

text \<open>The answers of the database to the five queries, as functions of their bind values.\<close>

record performance_answers =
  paSQL :: "rat \<Rightarrow> SQLRow query"
  paSessions :: "SessionRow query"
  paBlocking :: "BlockingSessionRow query"
  paDetails :: "string \<times> bind_value list \<Rightarrow> SQLDetailRow query"
  paPlans :: "string \<times> bind_value list \<Rightarrow> SQLPlanRow query"

definition sql_lookback :: "duration \<Rightarrow> duration" where
  "sql_lookback scrapeInterval =
     (let lookback = wrap64 (2 * scrapeInterval) in if lookback < minute then minute else lookback)"

definition scrapeSQLSamples ::
    "duration \<Rightarrow> performance_answers \<Rightarrow> Database \<Rightarrow> time \<Rightarrow> SQLSample list \<times> go_error option" where
  "scrapeSQLSamples scrapeInterval a d collectedAt =
     collect_rows (sql_sample collectedAt (dName d))
       (QueryContext d (paSQL a (duration_seconds (sql_lookback scrapeInterval))))"

definition scrapeSessionSamples ::
    "performance_answers \<Rightarrow> Database \<Rightarrow> time \<Rightarrow> SessionSample list \<times> go_error option" where
  "scrapeSessionSamples a d collectedAt =
     collect_rows (session_sample collectedAt (dName d)) (QueryContext d (paSessions a))"

definition scrapeBlockingSessionSamples ::
    "performance_answers \<Rightarrow> Database \<Rightarrow> time \<Rightarrow> BlockingSessionSample list \<times> go_error option" where
  "scrapeBlockingSessionSamples a d collectedAt =
     collect_rows (blocking_session_sample collectedAt (dName d)) (QueryContext d (paBlocking a))"

definition scrapeSQLDetails ::
    "performance_answers \<Rightarrow> Database \<Rightarrow> time \<Rightarrow> string list \<Rightarrow> SQLSample list \<times> go_error option" where
  "scrapeSQLDetails a d collectedAt sqlIDs =
     (if sqlIDs = [] then ([], None)
      else collect_rows_on_error (sql_detail_sample collectedAt (dName d))
             (QueryContext d (paDetails a (buildSQLDetailQuery sqlIDs))))"

definition scrapeSQLPlans ::
    "performance_answers \<Rightarrow> Database \<Rightarrow> time \<Rightarrow> SQLPlanKey list \<Rightarrow> SQLPlanOperation list \<times> go_error option" where
  "scrapeSQLPlans a d collectedAt candidates =
     (if candidates = [] then ([], None)
      else collect_rows (sql_plan_operation collectedAt (dName d))
             (QueryContext d (paPlans a (buildSQLPlanQuery candidates))))"

text \<open>The texts of the details that have one.\<close>

definition sql_texts :: "SQLSample list \<Rightarrow> SQLTextSample list" where
  "sql_texts details = List.map_filter
     (\<lambda>detail. case sqSQLFullText detail of
        None \<Rightarrow> None
      | Some text \<Rightarrow>
          if trim_space text \<noteq> []
          then Some \<lparr>sxCollectedAt = sqCollectedAt detail, sxDatabase = sqDatabase detail,
                     sxSQLID = sqSQLID detail, sxSQLFullText = text\<rparr>
          else None) details"

definition wrap_error :: "string \<Rightarrow> go_error option \<Rightarrow> go_error option" where
  "wrap_error p err = map_option (ErrWrap p) err"

text \<open>
  The detail collection: details, texts, plans, error and the state. \<open>iterate\<close> is the runtime's
  iteration over a map; \<open>None\<close> is the panic of \<open>takeTopSQLConsumers\<close>.
\<close>

definition scrape_details ::
    "SQLPlanConfig \<Rightarrow> ((string \<rightharpoonup> sqlCounterValues) \<Rightarrow> ranked_sql list) \<Rightarrow> performance_answers \<Rightarrow>
     Database \<Rightarrow> time \<Rightarrow> sql_state \<Rightarrow>
     ((SQLSample list \<times> SQLTextSample list \<times> SQLPlanOperation list \<times> go_error option) \<times> sql_state) option" where
  "scrape_details cfg iterate a d collectedAt s =
     (let deltas = (case sqlConsumerDeltas s (dName d) of None \<Rightarrow> Map.empty | Some m \<Rightarrow> m) in
      case takeTopSQLConsumers (dName d) (Plans_GetTopN cfg) (iterate deltas) s of
        None \<Rightarrow> None
      | Some (consumerSQLIDs, s) \<Rightarrow>
          (let (details, detailErr) = scrapeSQLDetails a d collectedAt consumerSQLIDs;
               sqlPlanErr = wrap_error ''scrape SQL text and plan candidates'' detailErr;
               texts = sql_texts details;
               (candidates, s) = uncachedSQLPlanCandidates (dName d) details topSQLLimit s
           in if candidates = [] then Some ((details, texts, [], sqlPlanErr), s)
              else let (plans, planErr) = scrapeSQLPlans a d collectedAt candidates in
                   if planErr \<noteq> None
                   then Some ((details, texts, plans,
                          errors_join [sqlPlanErr, wrap_error ''scrape SQL execution plans'' planErr]), s)
                   else Some ((details, texts, plans, sqlPlanErr),
                          markSQLPlansCollected (dName d) plans s)))"

definition ScrapePerformanceSamples ::
    "duration \<Rightarrow> SQLPlanConfig \<Rightarrow> ((string \<rightharpoonup> sqlCounterValues) \<Rightarrow> ranked_sql list) \<Rightarrow>
     performance_answers \<Rightarrow> Database \<Rightarrow> time \<Rightarrow> sql_state \<Rightarrow>
     ((PerformanceSamples \<times> go_error option) \<times> sql_state) option" where
  "ScrapePerformanceSamples scrapeInterval cfg iterate a d collectedAt s =
     (let (sqlSamples, sqlErr) = scrapeSQLSamples scrapeInterval a d collectedAt;
          err = wrap_error ''scrape sql performance'' sqlErr;
          s = (if sqlErr = None then recordSQLConsumerDeltas (dName d) sqlSamples s else s);
          (sessions, e2) = scrapeSessionSamples a d collectedAt;
          sessionErr = wrap_error ''scrape session performance'' e2;
          (blocking, e3) = scrapeBlockingSessionSamples a d collectedAt;
          blockingErr = wrap_error ''scrape blocking sessions'' e3;
          (due, s) = shouldCollectSQLDetails (Plans_GetEnabled cfg) (dName d) collectedAt
                       (Plans_GetInterval cfg) s
      in case (if due then scrape_details cfg iterate a d collectedAt s
               else Some (([], [], [], None), s)) of
           None \<Rightarrow> None
         | Some ((details, texts, plans, sqlPlanErr), s) \<Rightarrow>
             Some ((\<lparr>pfSQL = sqlSamples, pfSQLDetails = details, pfSQLTexts = texts,
                     pfSQLPlans = plans, pfSessions = sessions, pfBlockingSessions = blocking,
                     pfDatabaseActivity = []\<rparr>,
                    errors_join [err, sqlPlanErr, sessionErr, blockingErr]), s))"

section \<open>Placeholders\<close>

lemma dec_of_nat_no_colon: "CHR 0x3A \<notin> set (dec_of_nat n)"
proof (induction n rule: dec_of_nat.induct)
  case (1 n)
  have digit: "char_of (k + 48) \<noteq> CHR 0x3A" if "k < 10" for k :: nat
  proof
    assume "char_of (k + 48) = CHR 0x3A"
    then have "of_char (char_of (k + 48) :: char) = (58 :: nat)" by simp
    then show False using that by simp
  qed
  show ?case
    using 1 digit [of n] digit [of "n mod 10"] by (subst dec_of_nat.simps) auto
qed

abbreviation colons :: "string \<Rightarrow> nat" where
  "colons s \<equiv> count_list s CHR 0x3A"

lemma colons_bind_name [simp]: "colons (bind_name n) = 1"
  using dec_of_nat_no_colon [of n] by (simp add: bind_name_def count_list_0_iff)

lemma colons_plan_condition [simp]: "colons (plan_condition b) = 4"
  by (simp add: plan_condition_def)

lemma colons_join:
  "colons sep = 0 \<Longrightarrow> colons (join_with sep ss) = sum_list (map colons ss)"
  by (induction sep ss rule: join_with.induct) simp_all

lemma colons_prefixes: "colons sqlPlanQueryPrefix = 0" "colons sqlDetailQueryPrefix = 0"
  by (simp_all add: sqlPlanQueryPrefix_def sqlDetailQueryPrefix_def nl_def tab_def)

lemma length_plan_args: "length (concat (map plan_args cs)) = 4 * length cs"
  by (induction cs) (simp_all add: plan_args_def)

lemma nth_plan_args:
  "i < length cs \<Longrightarrow> j < 4 \<Longrightarrow> concat (map plan_args cs) ! (i * 4 + j) = plan_args (cs ! i) ! j"
proof (induction cs arbitrary: i)
  case (Cons c cs)
  have len: "length (plan_args c) = 4" by (simp add: plan_args_def)
  show ?case
  proof (cases i)
    case 0
    then show ?thesis using Cons.prems len by (simp add: nth_append)
  next
    case (Suc k)
    then show ?thesis using Cons len by (simp add: nth_append)
  qed
qed simp

text \<open>
  Every query that the collectors build has exactly as many placeholders as bind values, whatever
  the number of candidates, and the placeholders numbered for candidate \<open>i\<close> (\<open>4 * i + 1\<close> and on, from
  1) are bound to the instance, statement, child and plan hash of that candidate.
\<close>
theorem query_binds_match:
  "colons (fst (buildSQLPlanQuery cs)) = length (snd (buildSQLPlanQuery cs)) \<and>
   colons (fst (buildSQLDetailQuery ids)) = length (snd (buildSQLDetailQuery ids)) \<and>
   (\<forall>i < length cs. \<forall>j < 4.
      snd (buildSQLPlanQuery cs) ! ((4 * i + 1 + j) - 1) =
      [BindInt (pkInstID (cs ! i)), BindString (pkSQLID (cs ! i)), BindInt (pkChildNumber (cs ! i)),
       BindInt (pkPlanHashValue (cs ! i))] ! j)"
proof (intro conjI allI impI)
  show "colons (fst (buildSQLPlanQuery cs)) = length (snd (buildSQLPlanQuery cs))"
    by (simp add: buildSQLPlanQuery_def colons_join colons_prefixes length_plan_args comp_def
        sum_list_triv)
  show "colons (fst (buildSQLDetailQuery ids)) = length (snd (buildSQLDetailQuery ids))"
    by (simp add: buildSQLDetailQuery_def colons_join colons_prefixes comp_def sum_list_triv nl_def)
  fix i j :: nat
  assume "i < length cs" "j < 4"
  then show "snd (buildSQLPlanQuery cs) ! ((4 * i + 1 + j) - 1) =
      [BindInt (pkInstID (cs ! i)), BindString (pkSQLID (cs ! i)), BindInt (pkChildNumber (cs ! i)),
       BindInt (pkPlanHashValue (cs ! i))] ! j"
    using nth_plan_args [of i cs j] by (simp add: buildSQLPlanQuery_def plan_args_def mult.commute)
qed

lemma query_binds_match_witness:
  "snd (buildSQLPlanQuery [\<lparr>pkInstID = 1, pkSQLID = ''a'', pkChildNumber = 0, pkPlanHashValue = 7\<rparr>,
      \<lparr>pkInstID = 2, pkSQLID = ''b'', pkChildNumber = 1, pkPlanHashValue = 9\<rparr>]) ! 5 = BindString ''b''"
proof -
  let ?cs = "[\<lparr>pkInstID = 1, pkSQLID = ''a'', pkChildNumber = 0, pkPlanHashValue = 7\<rparr>,
      \<lparr>pkInstID = 2, pkSQLID = ''b'', pkChildNumber = 1, pkPlanHashValue = 9\<rparr>]"
  have "\<forall>i < length ?cs. \<forall>j < 4.
      snd (buildSQLPlanQuery ?cs) ! ((4 * i + 1 + j) - 1) =
      [BindInt (pkInstID (?cs ! i)), BindString (pkSQLID (?cs ! i)), BindInt (pkChildNumber (?cs ! i)),
       BindInt (pkPlanHashValue (?cs ! i))] ! j"
    using query_binds_match [of ?cs "[]"] by blast
  from this [rule_format, of 1 1] show ?thesis by simp
qed

section \<open>The plan cache\<close>

lemma plan_candidates_inv:
  assumes "distinct acc" and "length acc \<le> limit" and "\<forall>k \<in> set acc. 0 < sint (pkPlanHashValue k)"
  shows "distinct (plan_candidates limit samples acc) \<and> length (plan_candidates limit samples acc) \<le> limit \<and>
    (\<forall>k \<in> set (plan_candidates limit samples acc). 0 < sint (pkPlanHashValue k))"
  using assms
  by (induction limit samples acc rule: plan_candidates.induct)
    (auto simp: Let_def split: option.splits)

text \<open>
  The plan cache asks for each plan once. The candidates of a collection are distinct, at most
  \<open>limit\<close>, and have a positive plan hash; when the plans that come back cover them, the next collection
  of the same details asks for none; when the plan query fails, nothing is marked and the same
  candidates are asked for again.
\<close>
theorem plans_requested_once:
  assumes "uncachedSQLPlanCandidates db samples limit s = (candidates, s1)"
    and "set candidates \<subseteq> plSQLPlanKey ` set plans"
  shows "distinct candidates \<and> length candidates \<le> limit \<and>
    (\<forall>k \<in> set candidates. 0 < sint (pkPlanHashValue k)) \<and>
    fst (uncachedSQLPlanCandidates db samples limit (markSQLPlansCollected db plans s1)) = [] \<and>
    fst (uncachedSQLPlanCandidates db samples limit s1) = candidates"
  using assms plan_candidates_inv [of "[]" limit samples]
  by (auto simp: uncachedSQLPlanCandidates_def markSQLPlansCollected_def Let_def filter_empty_conv
      distinct_filter intro: order_trans [OF length_filter_le] filter_cong)

definition example_plan :: "SQLPlanKey \<Rightarrow> SQLPlanOperation" where
  "example_plan k =
     \<lparr>plCollectedAt = 0, plDatabase = ''db'', plSQLPlanKey = k, plPlanLineID = 0, plParentID = None,
      plDepth = None, plPosition = None, plOperation = ''SELECT STATEMENT'', plOptions = None,
      plObjectOwner = None, plObjectName = None, plObjectType = None, plOptimizer = None,
      plCost = None, plCardinality = None, plBytes = None, plCPUCost = None, plIOCost = None,
      plTempSpace = None, plPartitionStart = None, plPartitionStop = None,
      plAccessPredicates = None, plFilterPredicates = None\<rparr>"

lemma plans_requested_once_witness:
  "let k = \<lparr>pkInstID = 1, pkSQLID = ''a'', pkChildNumber = 0, pkPlanHashValue = 77\<rparr>;
       s1 = snd (uncachedSQLPlanCandidates ''db'' [example_sql_sample ''a'' 5] 100 initial_sql_state)
   in fst (uncachedSQLPlanCandidates ''db'' [example_sql_sample ''a'' 5] 100
            (markSQLPlansCollected ''db'' [example_plan k] s1)) = []"
proof -
  let ?k = "\<lparr>pkInstID = 1, pkSQLID = ''a'', pkChildNumber = 0, pkPlanHashValue = 77\<rparr>"
  obtain s1 where u: "uncachedSQLPlanCandidates ''db'' [example_sql_sample ''a'' 5] 100 initial_sql_state
     = ([?k], s1)"
    by (simp add: uncachedSQLPlanCandidates_def initial_sql_state_def example_sql_sample_def Let_def)
  have "plSQLPlanKey (example_plan ?k) = ?k" by (simp add: example_plan_def)
  then have "set [?k] \<subseteq> plSQLPlanKey ` set [example_plan ?k]" by simp
  from plans_requested_once [OF u this] show ?thesis by (simp only: Let_def u snd_conv)
qed

section \<open>The throttle of the detail collection\<close>

text \<open>
  Detail collections of a database are at least the configured interval apart, whatever the ticks
  at which the scheduler asks, and a request that comes an interval after the last one is admitted.
\<close>
theorem sql_detail_collections_spaced:
  assumes "0 \<le> interval"
  shows "sorted_wrt (\<lambda>a b. a + interval \<le> b)
           (admissions (shouldCollectSQLDetails True) db interval ticks s) \<and>
    (\<forall>t. lastSQLDetailCollection s db = Some t \<longrightarrow> t + interval \<le> now \<longrightarrow>
         fst (shouldCollectSQLDetails True db now interval s))"
  using sql_details.admissions_spaced [OF assms] sql_details.overdue_admitted by blast

lemma sql_detail_collections_spaced_witness:
  "sorted_wrt (\<lambda>a b. a + 2 * minute \<le> b)
     (admissions (shouldCollectSQLDetails True) ''db'' (2 * minute)
        [0, minute, 2 * minute, 3 * minute, 5 * minute] initial_sql_state)"
  using sql_detail_collections_spaced [of "2 * minute" "''db''"
      "[0, minute, 2 * minute, 3 * minute, 5 * minute]" initial_sql_state 0] by simp

section \<open>The composition\<close>

lemma ScrapePerformanceSamples_cases:
  assumes "ScrapePerformanceSamples iv cfg iterate a d t s = Some ((p, err), s')"
  shows "pfSQL p = fst (scrapeSQLSamples iv a d t)"
    and "pfSessions p = fst (scrapeSessionSamples a d t)"
    and "pfBlockingSessions p = fst (scrapeBlockingSessionSamples a d t)"
    and "pfDatabaseActivity p = []"
    and "err = None \<Longrightarrow> snd (scrapeSQLSamples iv a d t) = None \<and> snd (scrapeSessionSamples a d t) = None \<and>
           snd (scrapeBlockingSessionSamples a d t) = None"
  using assms
  by (auto simp: ScrapePerformanceSamples_def wrap_error_def Let_def split: prod.splits option.splits if_splits)

text \<open>
  The collectors of a scrape fail independently. Whatever happens to the others, the SQL, session
  and blocking-session samples are those of their own query; and when the scrape reports no error,
  each of these queries ran to its end and gave one sample per row, in row order.
\<close>
theorem performance_collectors_independent:
  assumes "ScrapePerformanceSamples iv cfg iterate a d t s = Some ((p, err), s')"
  shows "pfSQL p = fst (scrapeSQLSamples iv a d t) \<and>
    pfSessions p = fst (scrapeSessionSamples a d t) \<and>
    pfBlockingSessions p = fst (scrapeBlockingSessionSamples a d t) \<and>
    (err = None \<longrightarrow>
      (\<exists>rs. qRows (paSessions a) = map Inr rs \<and> pfSessions p = map (session_sample t (dName d)) rs) \<and>
      (\<exists>rs. qRows (paBlocking a) = map Inr rs \<and>
            pfBlockingSessions p = map (blocking_session_sample t (dName d)) rs) \<and>
      (\<exists>rs. qRows (paSQL a (duration_seconds (sql_lookback iv))) = map Inr rs \<and>
            pfSQL p = map (sql_sample t (dName d)) rs))"
proof -
  note c = ScrapePerformanceSamples_cases [OF assms]
  have rows: "\<exists>rs. qRows q = map Inr rs \<and> xs = map f rs"
    if "collect_rows f (QueryContext d q) = (xs, None)" for f :: "'r \<Rightarrow> 's" and q xs
    using collect_rows_ok(2,4) [OF that] by (auto simp: QueryContext_def split: if_splits)
  have "(\<exists>rs. qRows (paSessions a) = map Inr rs \<and> pfSessions p = map (session_sample t (dName d)) rs) \<and>
      (\<exists>rs. qRows (paBlocking a) = map Inr rs \<and>
            pfBlockingSessions p = map (blocking_session_sample t (dName d)) rs) \<and>
      (\<exists>rs. qRows (paSQL a (duration_seconds (sql_lookback iv))) = map Inr rs \<and>
            pfSQL p = map (sql_sample t (dName d)) rs)" if "err = None"
    using c(5) [OF that] c(1-3)
    by (metis rows prod.collapse scrapeSQLSamples_def scrapeSessionSamples_def
        scrapeBlockingSessionSamples_def)
  with c show ?thesis by blast
qed

definition no_rows :: "'r query" where
  "no_rows = \<lparr>qDeadline = False, qError = None, qRows = [], qRowsErr = None\<rparr>"

definition quiet_database :: performance_answers where
  "quiet_database = \<lparr>paSQL = (\<lambda>_. no_rows), paSessions = no_rows\<lparr>qError := Some ErrBadConn\<rparr>,
     paBlocking = no_rows, paDetails = (\<lambda>_. no_rows), paPlans = (\<lambda>_. no_rows)\<rparr>"

definition example_plan_config :: SQLPlanConfig where
  "example_plan_config = \<lparr>planEnabled = Some False, planInterval = None, planTopN = None,
     planQueryTimeout = None\<rparr>"

lemma quiet_database_scrapes:
  "scrapeSQLSamples iv quiet_database example_database t = ([], None)"
  "scrapeSessionSamples quiet_database example_database t = ([], Some ErrBadConn)"
  "scrapeBlockingSessionSamples quiet_database example_database t = ([], None)"
  by (simp_all add: scrapeSQLSamples_def scrapeSessionSamples_def scrapeBlockingSessionSamples_def
      quiet_database_def QueryContext_def example_database_def NewDatabase_def collect_rows_eq
      no_rows_def)

lemma performance_collectors_independent_witness:
  "\<exists>p err s'. ScrapePerformanceSamples minute example_plan_config (\<lambda>_. []) quiet_database
     example_database 5 initial_sql_state = Some ((p, err), s') \<and>
     err \<noteq> None \<and> pfBlockingSessions p = fst (scrapeBlockingSessionSamples quiet_database example_database 5)"
proof -
  have "\<exists>p err s'. ScrapePerformanceSamples minute example_plan_config (\<lambda>_. []) quiet_database
     example_database 5 initial_sql_state = Some ((p, err), s') \<and> err \<noteq> None"
    by (simp add: ScrapePerformanceSamples_def quiet_database_scrapes shouldCollectSQLDetails_def
        example_plan_config_def Plans_GetEnabled_def wrap_error_def Let_def errors_join_def
        List.map_filter_def)
  then obtain p err s' where r: "ScrapePerformanceSamples minute example_plan_config (\<lambda>_. []) quiet_database
     example_database 5 initial_sql_state = Some ((p, err), s')" "err \<noteq> None" by blast
  from performance_collectors_independent [OF r(1)] r show ?thesis by blast
qed

end
