(* ===== verification/RowsOper.thy ===== *)
theory RowsOper
  imports SamplesOper SqlNull
begin

text \<open>
  The rows of the operational queries (\<open>collector/operational.go\<close>, \<open>dataguard.go\<close>) that become
  samples one to one, and their conversion.
\<close>

record DatabaseStatusRow =
  rdsInstID :: int64
  rdsInstanceName :: string
  rdsInstanceStatus :: string
  rdsDatabaseStatus :: string
  rdsStartupTime :: time
  rdsOpenMode :: string
  rdsDatabaseRole :: string
  rdsCDB :: string
  rdsConID :: int64
  rdsConName :: string
  rdsPlatformName :: string

definition database_status_sample :: "time \<Rightarrow> string \<Rightarrow> DatabaseStatusRow \<Rightarrow> DatabaseStatusSample" where
  "database_status_sample collectedAt database r =
     \<lparr>dsCollectedAt = collectedAt, dsDatabase = database, dsInstID = rdsInstID r,
      dsInstanceName = rdsInstanceName r, dsInstanceStatus = rdsInstanceStatus r,
      dsDatabaseStatus = rdsDatabaseStatus r, dsStartupTime = rdsStartupTime r,
      dsOpenMode = rdsOpenMode r, dsDatabaseRole = rdsDatabaseRole r, dsCDB = rdsCDB r,
      dsConID = rdsConID r, dsConName = rdsConName r, dsPlatformName = rdsPlatformName r,
      dsDBID = None, dsDBUniqueName = None, dsDatabaseProduct = None,
      dsDatabaseEdition = None, dsDatabaseVersion = None, dsDatabaseVersionFull = None,
      dsProtectionMode = None, dsProtectionLevel = None\<rparr>"

record InstanceRow =
  risInstID :: int64
  risUserSessions :: int64
  risActiveUserSessions :: int64
  risBackgroundSessions :: int64
  risProcessCount :: int64
  risCpu :: "int64 sql_null"
  risSga :: "int64 sql_null"
  risPga :: "int64 sql_null"

definition instance_sample :: "time \<Rightarrow> string \<Rightarrow> InstanceRow \<Rightarrow> InstanceSample" where
  "instance_sample collectedAt database r =
     \<lparr>isCollectedAt = collectedAt, isDatabase = database, isInstID = risInstID r,
      isUserSessions = risUserSessions r, isActiveUserSessions = risActiveUserSessions r,
      isBackgroundSessions = risBackgroundSessions r, isProcessCount = risProcessCount r,
      isCPUCount = int64Ptr (risCpu r), isSGAMaxBytes = int64Ptr (risSga r),
      isPGAAggregateLimit = int64Ptr (risPga r), isSGAAllocatedBytes = None,
      isPGAAllocatedBytes = None, isPGAMaxAllocatedBytes = None\<rparr>"

record ResourceLimitRow =
  rrlInstID :: int64
  rrlResourceName :: string
  rrlCurrentValue :: int64
  rrlMaxValue :: int64
  rrlInitial :: "int64 sql_null"
  rrlLimit :: "int64 sql_null"
  rrlUnlimited :: int64

definition resource_limit_sample :: "time \<Rightarrow> string \<Rightarrow> ResourceLimitRow \<Rightarrow> ResourceLimitSample" where
  "resource_limit_sample collectedAt database r =
     \<lparr>rlCollectedAt = collectedAt, rlDatabase = database, rlInstID = rrlInstID r,
      rlResourceName = rrlResourceName r, rlCurrentValue = rrlCurrentValue r,
      rlMaxValue = rrlMaxValue r, rlInitialLimit = int64Ptr (rrlInitial r),
      rlLimitValue = int64Ptr (rrlLimit r), rlLimitUnlimited = (rrlUnlimited r = 1)\<rparr>"

record TablespaceRow =
  rtsTablespace :: string
  rtsContents :: string
  rtsUsedBytes :: int64
  rtsFreeBytes :: int64
  rtsMaxBytes :: int64
  rtsUsedPercent :: float64

definition tablespace_sample :: "time \<Rightarrow> string \<Rightarrow> TablespaceRow \<Rightarrow> TablespaceSample" where
  "tablespace_sample collectedAt database r =
     \<lparr>tsCollectedAt = collectedAt, tsDatabase = database, tsTablespace = rtsTablespace r,
      tsContents = rtsContents r, tsUsedBytes = rtsUsedBytes r, tsFreeBytes = rtsFreeBytes r,
      tsMaxBytes = rtsMaxBytes r, tsUsedPercent = rtsUsedPercent r, tsAllocatedBytes = None\<rparr>"

record ASMDiskgroupRow =
  rasmInstID :: int64
  rasmName :: string
  rasmTotalBytes :: int64
  rasmFreeBytes :: int64
  rasmUsable :: "int64 sql_null"

definition asm_diskgroup_sample :: "time \<Rightarrow> string \<Rightarrow> ASMDiskgroupRow \<Rightarrow> ASMDiskgroupSample" where
  "asm_diskgroup_sample collectedAt database r =
     \<lparr>asmCollectedAt = collectedAt, asmDatabase = database, asmInstID = rasmInstID r,
      asmName = rasmName r, asmTotalBytes = rasmTotalBytes r, asmFreeBytes = rasmFreeBytes r,
      asmUsableBytes = int64Ptr (rasmUsable r)\<rparr>"

record SystemMetricRow =
  rsmInstID :: int64
  rsmConID :: int64
  rsmMetricName :: string
  rsmValue :: float64
  rsmUnit :: "string sql_null"

definition system_metric_sample :: "time \<Rightarrow> string \<Rightarrow> SystemMetricRow \<Rightarrow> SystemMetricSample" where
  "system_metric_sample collectedAt database r =
     \<lparr>smCollectedAt = collectedAt, smDatabase = database, smInstID = rsmInstID r,
      smConID = rsmConID r, smMetricName = rsmMetricName r, smValue = rsmValue r,
      smUnit = stringPtr (rsmUnit r)\<rparr>"

record DataGuardDestinationRow =
  rddInstID :: int64
  rddDestID :: int64
  rddDestinationName :: "string sql_null"
  rddTarget :: "string sql_null"
  rddDestination :: "string sql_null"
  rddStatus :: "string sql_null"
  rddTransmitMode :: "string sql_null"
  rddAffirm :: "string sql_null"
  rddValidNow :: "string sql_null"
  rddUniqueName :: "string sql_null"
  rddDestinationType :: "string sql_null"
  rddDatabaseMode :: "string sql_null"
  rddRecoveryMode :: "string sql_null"
  rddProtectionMode :: "string sql_null"
  rddSynchronized :: "string sql_null"
  rddSynchronizationStatus :: "string sql_null"
  rddGapStatus :: "string sql_null"
  rddArchivedThread :: "int64 sql_null"
  rddArchivedSequence :: "int64 sql_null"
  rddAppliedThread :: "int64 sql_null"
  rddAppliedSequence :: "int64 sql_null"
  rddAppliedSCN :: "int64 sql_null"
  rddDestinationError :: "string sql_null"

definition data_guard_destination_sample :: "time \<Rightarrow> string \<Rightarrow> DataGuardDestinationRow \<Rightarrow> DataGuardDestinationSample" where
  "data_guard_destination_sample collectedAt database r =
     \<lparr>dgdCollectedAt = collectedAt, dgdDatabase = database, dgdInstID = rddInstID r,
      dgdDestID = rddDestID r, dgdDestinationName = stringPtr (rddDestinationName r),
      dgdTarget = stringPtr (rddTarget r), dgdDestination = stringPtr (rddDestination r),
      dgdStatus = stringPtr (rddStatus r), dgdTransmitMode = stringPtr (rddTransmitMode r),
      dgdAffirm = stringPtr (rddAffirm r), dgdValidNow = stringPtr (rddValidNow r),
      dgdDBUniqueName = stringPtr (rddUniqueName r),
      dgdDestinationType = stringPtr (rddDestinationType r),
      dgdDatabaseMode = stringPtr (rddDatabaseMode r),
      dgdRecoveryMode = stringPtr (rddRecoveryMode r),
      dgdProtectionMode = stringPtr (rddProtectionMode r),
      dgdSynchronized = stringPtr (rddSynchronized r),
      dgdSynchronizationStatus = stringPtr (rddSynchronizationStatus r),
      dgdGapStatus = stringPtr (rddGapStatus r),
      dgdArchivedThread = int64Ptr (rddArchivedThread r),
      dgdArchivedSequence = int64Ptr (rddArchivedSequence r),
      dgdAppliedThread = int64Ptr (rddAppliedThread r),
      dgdAppliedSequence = int64Ptr (rddAppliedSequence r),
      dgdAppliedSCN = int64Ptr (rddAppliedSCN r), dgdError = stringPtr (rddDestinationError r)\<rparr>"

record DataGuardProcessRow =
  rdpInstID :: int64
  rdpApplyProcesses :: int64
  rdpTransportProcesses :: int64
  rdpApplyStatus :: "string sql_null"
  rdpThread :: "int64 sql_null"
  rdpSequence :: "int64 sql_null"

definition data_guard_process_sample :: "time \<Rightarrow> string \<Rightarrow> string \<Rightarrow> DataGuardProcessRow \<Rightarrow> DataGuardProcessSample" where
  "data_guard_process_sample collectedAt database role r =
     \<lparr>dgpCollectedAt = collectedAt, dgpDatabase = database, dgpInstID = rdpInstID r,
      dgpDatabaseRole = role, dgpApplyProcesses = rdpApplyProcesses r,
      dgpTransportProcesses = rdpTransportProcesses r,
      dgpApplyStatus = stringPtr (rdpApplyStatus r),
      dgpThreadNumber = int64Ptr (rdpThread r), dgpSequenceNumber = int64Ptr (rdpSequence r)\<rparr>"

end
