(* ===== verification/DataGuard.thy ===== *)
theory DataGuard
  imports RowsOper Database
begin

text \<open>
  Data Guard collection (\<open>collector/dataguard.go\<close>): the parser of Oracle's interval literals, with its
  round trip, and the three collectors behind the discovery query. \<open>strconv.ParseFloat\<close> and
  \<open>time.ParseInLocation\<close>, reached for values that are not intervals and for timestamps, are
  arguments (\<open>parse_float\<close>, \<open>parse_time\<close>).
\<close>

section \<open>Interval literals\<close>

text \<open>The submatches of \<open>^([+-]?)([0-9]+) ([0-9]{2}):([0-9]{2}):([0-9]{2}(?:\.[0-9]+)?)$\<close>: the sign, the
  days, the hours, the minutes, the seconds, and the digits after the point.\<close>

definition split_sign :: "string \<Rightarrow> string \<times> string" where
  "split_sign s = (case s of c # cs \<Rightarrow> if c = CHR ''+'' \<or> c = CHR ''-'' then ([c], cs) else ([], s)
                           | [] \<Rightarrow> ([], []))"

definition fraction_digits :: "string \<Rightarrow> string option" where
  "fraction_digits s =
     (case s of
        [] \<Rightarrow> Some []
      | c # ds \<Rightarrow> if c = CHR ''.'' \<and> ds \<noteq> [] \<and> list_all is_digit ds then Some ds else None)"

definition interval_match :: "string \<Rightarrow> (string \<times> string \<times> string \<times> string \<times> string \<times> string) option" where
  "interval_match s =
     (let (sign, r) = split_sign s; days = takeWhile is_digit r in
      if days = [] then None
      else case dropWhile is_digit r of
             sp # h1 # h2 # c1 # m1 # m2 # c2 # s1 # s2 # rest \<Rightarrow>
               if sp = CHR '' '' \<and> c1 = CHR '':'' \<and> c2 = CHR '':'' \<and>
                  list_all is_digit [h1, h2, m1, m2, s1, s2]
               then (case fraction_digits rest of
                       None \<Rightarrow> None
                     | Some decimals \<Rightarrow> Some (sign, days, [h1, h2], [m1, m2], [s1, s2], decimals))
               else None
           | _ \<Rightarrow> None)"

text \<open>\<open>ParseFloat\<close> on digits with an optional fraction.\<close>

definition decimal_value :: "string \<Rightarrow> string \<Rightarrow> rat" where
  "decimal_value ds decimals = of_nat (digits_value ds) + of_nat (digits_value decimals) / 10 ^ length decimals"

definition parseDataGuardInterval :: "(string \<Rightarrow> rat result) \<Rightarrow> string \<Rightarrow> rat option result" where
  "parseDataGuardInterval parse_float s =
     (let v = trim_space s in
      if v = [] \<or> to_lower v = to_lower ''UNKNOWN'' then Inr None
      else case interval_match v of
             None \<Rightarrow>
               (case parse_float v of
                  Inl err \<Rightarrow> Inl (ErrWrap (''parse Data Guard interval '' @ go_quote v) err)
                | Inr seconds \<Rightarrow> Inr (Some seconds))
           | Some (sign, days, hours, minutes, seconds, decimals) \<Rightarrow>
               (let total = decimal_value days [] * 86400 + decimal_value hours [] * 3600 +
                            decimal_value minutes [] * 60 + decimal_value seconds decimals
                in Inr (Some (if sign = ''-'' then - total else total))))"

section \<open>Collectors\<close>

record DiscoveryRow =
  rdiRole :: string
  rdiEnabled :: int64

record DataGuardLagRow =
  rlgName :: string
  rlgValue :: "string sql_null"
  rlgTimeComputed :: "string sql_null"
  rlgDatumTime :: "string sql_null"

record dataguard_answers =
  dgDiscovery :: "DiscoveryRow query"
  dgDestinations :: "DataGuardDestinationRow query"
  dgLag :: "DataGuardLagRow query"
  dgProcesses :: "DataGuardProcessRow query"

record dataguard_library =
  dgParseFloat :: "string \<Rightarrow> rat result"
  dgParseTime :: "string \<Rightarrow> string \<Rightarrow> time option"

definition parseDataGuardTimestamp :: "dataguard_library \<Rightarrow> string \<Rightarrow> time option" where
  "parseDataGuardTimestamp lib s =
     (let v = trim_space s in
      case dgParseTime lib ''01/02/2006 15:04:05'' v of
        Some t \<Rightarrow> Some t
      | None \<Rightarrow> (case dgParseTime lib ''2006-01-02 15:04:05'' v of Some t \<Rightarrow> Some t | None \<Rightarrow> None))"

definition add_dataguard_destination ::
    "time \<Rightarrow> string \<Rightarrow> DataGuardDestinationRow \<Rightarrow> OperationalSamples \<Rightarrow> OperationalSamples" where
  "add_dataguard_destination t db r out =
     out\<lparr>opDataGuardDestinations := opDataGuardDestinations out @ [data_guard_destination_sample t db r]\<rparr>"

definition scrapeDataGuardDestinations ::
    "dataguard_answers \<Rightarrow> Database \<Rightarrow> time \<Rightarrow> OperationalSamples \<Rightarrow> OperationalSamples \<times> go_error option" where
  "scrapeDataGuardDestinations a d t out =
     queryOperationalRows (QueryContext d (dgDestinations a))
       (\<lambda>r out. (add_dataguard_destination t (dName d) r out, None)) out"

text \<open>The callback of \<open>scrapeDataGuardLag\<close> over (sample, rowsSeen).\<close>

definition set_lag :: "string \<Rightarrow> rat option \<Rightarrow> DataGuardLagSample \<Rightarrow> DataGuardLagSample" where
  "set_lag name seconds sample =
     (if to_lower name = ''transport lag'' then sample\<lparr>dglTransportLagSeconds := seconds\<rparr>
      else if to_lower name = ''apply lag'' then sample\<lparr>dglApplyLagSeconds := seconds\<rparr>
      else if to_lower name = ''apply finish time'' then sample\<lparr>dglApplyFinishTimeSeconds := seconds\<rparr>
      else if to_lower name = ''estimated startup time'' then sample\<lparr>dglEstimatedStartupSeconds := seconds\<rparr>
      else sample)"

definition set_age :: "time option \<Rightarrow> time option \<Rightarrow> DataGuardLagSample \<Rightarrow> DataGuardLagSample" where
  "set_age c dt sample =
     (case (c, dt) of
        (Some computed, Some datum) \<Rightarrow>
          (let age = duration_seconds (time_sub computed datum) in
           case dglDatumAgeSeconds sample of
             None \<Rightarrow> sample\<lparr>dglDatumAgeSeconds := Some age\<rparr>
           | Some old \<Rightarrow> if age > old then sample\<lparr>dglDatumAgeSeconds := Some age\<rparr> else sample)
      | _ \<Rightarrow> sample)"

definition lag_row ::
    "dataguard_library \<Rightarrow> DataGuardLagRow \<Rightarrow> DataGuardLagSample \<times> nat \<Rightarrow>
     (DataGuardLagSample \<times> nat) \<times> go_error option" where
  "lag_row lib r st =
     (case parseDataGuardInterval (dgParseFloat lib) (null_value (rlgValue r) []) of
        Inl err \<Rightarrow> (st, Some err)
      | Inr seconds \<Rightarrow>
          (let sample = set_lag (rlgName r) seconds (fst st);
               sample = (if fst (rlgTimeComputed r)
                         then sample\<lparr>dglTimeComputed := stringPtr (rlgTimeComputed r)\<rparr> else sample);
               sample = (if fst (rlgDatumTime r)
                         then sample\<lparr>dglDatumTime := stringPtr (rlgDatumTime r)\<rparr> else sample);
               sample = set_age (parseDataGuardTimestamp lib (null_value (rlgTimeComputed r) []))
                          (parseDataGuardTimestamp lib (null_value (rlgDatumTime r) [])) sample
           in ((sample, snd st + 1), None)))"

definition scrapeDataGuardLag ::
    "dataguard_library \<Rightarrow> dataguard_answers \<Rightarrow> Database \<Rightarrow> time \<Rightarrow> string \<Rightarrow> OperationalSamples \<Rightarrow>
     OperationalSamples \<times> go_error option" where
  "scrapeDataGuardLag lib a d t role out =
     (let sample = \<lparr>dglCollectedAt = t, dglDatabase = dName d, dglDatabaseRole = role,
            dglTransportLagSeconds = None, dglApplyLagSeconds = None,
            dglApplyFinishTimeSeconds = None, dglEstimatedStartupSeconds = None,
            dglTimeComputed = None, dglDatumTime = None, dglDatumAgeSeconds = None\<rparr>;
          ((sample, rowsSeen), err) =
            queryOperationalRows (QueryContext d (dgLag a)) (lag_row lib) (sample, 0)
      in (if err = None \<and> rowsSeen > 0 then out\<lparr>opDataGuardLag := opDataGuardLag out @ [sample]\<rparr>
          else out, err))"

definition add_dataguard_process ::
    "time \<Rightarrow> string \<Rightarrow> string \<Rightarrow> DataGuardProcessRow \<Rightarrow> OperationalSamples \<Rightarrow> OperationalSamples" where
  "add_dataguard_process t db role r out =
     out\<lparr>opDataGuardProcesses := opDataGuardProcesses out @ [data_guard_process_sample t db role r]\<rparr>"

definition scrapeDataGuardProcesses ::
    "dataguard_answers \<Rightarrow> Database \<Rightarrow> time \<Rightarrow> string \<Rightarrow> OperationalSamples \<Rightarrow>
     OperationalSamples \<times> go_error option" where
  "scrapeDataGuardProcesses a d t role out =
     queryOperationalRows (QueryContext d (dgProcesses a))
       (\<lambda>r out. (add_dataguard_process t (dName d) role r out, None)) out"

definition join_error :: "go_error option \<Rightarrow> string \<Rightarrow> go_error option \<Rightarrow> go_error option" where
  "join_error joined name err =
     (case err of None \<Rightarrow> joined | Some e \<Rightarrow> errors_join [joined, Some (ErrWrap name e)])"

text \<open>The callback of the discovery query keeps the last row.\<close>

definition scrapeDataGuard ::
    "dataguard_library \<Rightarrow> dataguard_answers \<Rightarrow> Database \<Rightarrow> time \<Rightarrow> OperationalSamples \<Rightarrow>
     (int \<times> go_error option) \<times> OperationalSamples" where
  "scrapeDataGuard lib a d t out =
     (let ((role, detected), err) =
            queryOperationalRows (QueryContext d (dgDiscovery a))
              (\<lambda>r st. ((rdiRole r, rdiEnabled r = 1), None)) ([], False)
      in if err \<noteq> None \<or> \<not> detected then ((0, err), out)
         else
           let before = OperationalSamples_Count out;
               (out, e1) = scrapeDataGuardDestinations a d t out;
               joined = join_error None ''destinations'' e1;
               (out, e2) = (if to_lower role \<noteq> to_lower ''PRIMARY''
                            then scrapeDataGuardLag lib a d t role out else (out, None));
               joined = join_error joined ''lag'' e2;
               (out, e3) = (if to_lower role = to_lower ''PHYSICAL STANDBY''
                            then scrapeDataGuardProcesses a d t role out else (out, None));
               joined = join_error joined ''processes'' e3
           in ((int (OperationalSamples_Count out) - int before, joined), out))"

section \<open>Round trip of the interval literals\<close>

definition two_digits :: "nat \<Rightarrow> string" where
  "two_digits n = [char_of (n div 10 + 48), char_of (n mod 10 + 48)]"

definition print_interval :: "bool \<Rightarrow> nat \<Rightarrow> nat \<Rightarrow> nat \<Rightarrow> nat \<Rightarrow> string" where
  "print_interval negative days hours minutes seconds =
     (if negative then ''-'' else ''+'') @ dec_of_nat days @ '' '' @ two_digits hours @ '':'' @
     two_digits minutes @ '':'' @ two_digits seconds"

lemma two_digits_value: "n < 100 \<Longrightarrow> digits_value (two_digits n) = n"
  by (simp add: two_digits_def digits_value_def)

lemma takeWhile_digits:
  assumes "list_all is_digit ds" and "\<not> is_digit c"
  shows "takeWhile is_digit (ds @ c # r) = ds" and "dropWhile is_digit (ds @ c # r) = c # r"
  using assms by (simp_all add: takeWhile_append list_all_iff dropWhile_append)

lemma space_not_digit: "\<not> is_digit CHR '' ''"
  by (simp add: is_digit_def byte_of_def)

lemma interval_match_print:
  assumes "h < 100" and "m < 100" and "s < 100"
  shows "interval_match (print_interval neg d h m s) =
    Some (if neg then ''-'' else ''+'', dec_of_nat d, two_digits h, two_digits m, two_digits s, [])"
proof -
  let ?rest = "two_digits h @ '':'' @ two_digits m @ '':'' @ two_digits s"
  have "split_sign (print_interval neg d h m s) =
      (if neg then ''-'' else ''+'', dec_of_nat d @ CHR '' '' # ?rest)"
    by (simp add: print_interval_def split_sign_def)
  moreover note takeWhile_digits [OF conjunct1 [OF dec_of_nat_digits] space_not_digit, of d ?rest]
  ultimately show ?thesis
    using assms by (simp add: interval_match_def two_digits_def fraction_digits_def)
qed

lemma trim_space_id:
  "s \<noteq> [] \<Longrightarrow> \<not> is_space (hd s) \<Longrightarrow> \<not> is_space (last s) \<Longrightarrow> trim_space s = s"
proof -
  assume s: "s \<noteq> []" "\<not> is_space (hd s)" "\<not> is_space (last s)"
  have drop: "dropWhile is_space xs = xs" if "xs \<noteq> []" "\<not> is_space (hd xs)" for xs
    using that by (cases xs) auto
  from s show ?thesis by (simp add: trim_space_def drop hd_rev)
qed

lemma print_interval_trim:
  assumes "s < 100"
  shows "trim_space (print_interval neg d h m s) = print_interval neg d h m s"
proof (rule trim_space_id)
  have "s mod 10 < 10" by simp
  from byte_of_digit [OF this] show "\<not> is_space (last (print_interval neg d h m s))"
    by (simp add: print_interval_def two_digits_def is_space_def)
qed (simp_all add: print_interval_def is_space_def byte_of_def)

text \<open>
  The parser of Data Guard lags reads back every interval that Oracle prints, with its sign: the
  value in seconds is exact for any number of days.
\<close>
theorem interval_round_trip:
  assumes "h < 100" and "m < 100" and "s < 100"
  shows "parseDataGuardInterval pf (print_interval neg d h m s) =
    Inr (Some ((if neg then -1 else 1) * of_nat (d * 86400 + h * 3600 + m * 60 + s)))"
proof -
  let ?p = "print_interval neg d h m s"
  have "hd (to_lower ?p) \<noteq> hd (to_lower ''UNKNOWN'')"
    by (simp add: print_interval_def to_lower_def lower_char_def byte_of_def char_of_def bit_Suc_0_iff)
  then have "\<not> (?p = [] \<or> to_lower ?p = to_lower ''UNKNOWN'')"
    by (auto simp: print_interval_def)
  moreover have "digits_value (dec_of_nat d) = d" using dec_of_nat_digits by blast
  ultimately show ?thesis
    using assms by (simp add: parseDataGuardInterval_def print_interval_trim interval_match_print
        Let_def decimal_value_def two_digits_value digits_value_def [of "[]"])
qed

lemma interval_round_trip_witness:
  "parseDataGuardInterval (\<lambda>_. Inl ErrCanceled) (print_interval True 1 2 3 4) = Inr (Some (- 93784))"
  using interval_round_trip [of 2 3 4 "\<lambda>_. Inl ErrCanceled" True 1] by simp

end
