(* ===== verification/Runtime.thy ===== *)
theory Runtime
  imports Samples Config
begin

text \<open>
  The records a scheduler writes about itself: the status of a collector (\<open>newScrapeStatus\<close> in
  \<open>collector/operational.go\<close>), the missed intervals and the runtime sample of a cycle
  (\<open>collector/runtime.go\<close>). Elapsed times (\<open>time.Since\<close>) are arguments.
\<close>

section \<open>Statuses\<close>

definition max_error_length :: nat where "max_error_length = 2048"

definition newScrapeStatusWithDuration ::
    "time \<Rightarrow> string \<Rightarrow> string \<Rightarrow> duration \<Rightarrow> nat \<Rightarrow> go_error option \<Rightarrow> ScrapeStatusSample" where
  "newScrapeStatusWithDuration collectedAt database collector elapsed n err =
     \<lparr>stCollectedAt = collectedAt, stDatabase = database, stCollector = collector,
      stSuccess = (err = None), stDurationSeconds = duration_seconds elapsed, stSampleCount = n,
      stErrorMessage =
        (case err of
           None \<Rightarrow> None
         | Some e \<Rightarrow>
             (let message = err_message e in
              Some (if length message > max_error_length then take max_error_length message
                    else message)))\<rparr>"

definition newScrapeStatus ::
    "time \<Rightarrow> string \<Rightarrow> string \<Rightarrow> duration \<Rightarrow> nat \<Rightarrow> go_error option \<Rightarrow> ScrapeStatusSample" where
  "newScrapeStatus collectedAt database collector since n err =
     newScrapeStatusWithDuration collectedAt database collector since n err"

lemma newScrapeStatus_simps [simp]:
  "stSuccess (newScrapeStatus t db c s n err) \<longleftrightarrow> err = None"
  "stCollector (newScrapeStatus t db c s n err) = c"
  "stDatabase (newScrapeStatus t db c s n err) = db"
  "stSampleCount (newScrapeStatus t db c s n err) = n"
  "stCollectedAt (newScrapeStatus t db c s n err) = t"
  by (simp_all add: newScrapeStatus_def newScrapeStatusWithDuration_def)

lemma newScrapeStatus_message:
  "stErrorMessage (newScrapeStatus t db c s n err) =
     map_option (\<lambda>e. take max_error_length (err_message e)) err"
  by (simp add: newScrapeStatus_def newScrapeStatusWithDuration_def Let_def split: option.splits)

text \<open>Well-formed UTF-8, up to the lead byte's length (no check for surrogates and overlong forms).\<close>

fun continuation :: "nat \<Rightarrow> bool" where
  "continuation b = (128 \<le> b \<and> b < 192)"

fun utf8_tail :: "nat \<Rightarrow> nat list \<Rightarrow> nat list option" where
  "utf8_tail 0 bs = Some bs"
| "utf8_tail (Suc n) [] = None"
| "utf8_tail (Suc n) (b # bs) = (if continuation b then utf8_tail n bs else None)"

definition utf8_width :: "nat \<Rightarrow> nat option" where
  "utf8_width b =
     (if b < 128 then Some 0 else if b < 192 then None else if b < 224 then Some 1
      else if b < 240 then Some 2 else if b < 248 then Some 3 else None)"

lemma utf8_tail_length: "utf8_tail n bs = Some rest \<Longrightarrow> length rest \<le> length bs"
  by (induction n bs rule: utf8_tail.induct) (auto split: if_splits)

function utf8_valid :: "nat list \<Rightarrow> bool" where
  "utf8_valid [] = True"
| "utf8_valid (b # bs) =
     (case utf8_width b of
        None \<Rightarrow> False
      | Some n \<Rightarrow> (case utf8_tail n bs of None \<Rightarrow> False | Some rest \<Rightarrow> utf8_valid rest))"
  by pat_completeness auto
termination
  by (relation "measure length") (auto dest!: utf8_tail_length)

lemma utf8_valid_ascii: "b < 128 \<Longrightarrow> utf8_valid (b # bs) = utf8_valid bs"
  by (simp add: utf8_width_def)

lemma utf8_valid_replicate: "b < 128 \<Longrightarrow> utf8_valid (replicate n b @ bs) = utf8_valid bs"
  by (induction n) (simp_all add: utf8_valid_ascii del: utf8_valid.simps(2))

text \<open>An error text of 2047 letters and one e-acute: valid UTF-8, 2049 bytes.\<close>

definition accented_error :: string where
  "accented_error = replicate 2047 CHR ''a'' @ [char_of (195::nat), char_of (169::nat)]"

text \<open>
  The status of a collector cuts an error message after 2048 bytes, not after a whole character:
  a well-formed message becomes one that is not well-formed UTF-8 (which PostgreSQL refuses).
\<close>
theorem status_truncation_splits_character:
  "utf8_valid (map byte_of accented_error) \<and>
   (\<exists>message. stErrorMessage (newScrapeStatus t db c s n (Some (ErrText accented_error))) = Some message \<and>
              \<not> utf8_valid (map byte_of message))"
proof -
  have a: "byte_of CHR ''a'' = 97" by (simp add: byte_of_def)
  have bytes: "map byte_of accented_error = replicate 2047 97 @ [195, 169]"
    by (simp add: accented_error_def a) (simp add: byte_of_def)
  have "map byte_of (take max_error_length accented_error) = replicate 2047 97 @ [195]"
    unfolding take_map [symmetric] bytes by (simp add: max_error_length_def)
  then have "\<not> utf8_valid (map byte_of (take max_error_length accented_error))"
    by (simp only: utf8_valid_replicate) (simp add: utf8_width_def)
  moreover have "utf8_valid (map byte_of accented_error)"
    unfolding bytes by (simp only: utf8_valid_replicate) (simp add: utf8_width_def)
  ultimately show ?thesis by (simp add: newScrapeStatus_message)
qed

section \<open>Missed intervals\<close>

definition missedScheduledIntervals :: "time \<Rightarrow> time \<Rightarrow> duration \<Rightarrow> int" where
  "missedScheduledIntervals previous current interval =
     (if is_zero_time previous \<or> interval \<le> 0 \<or> \<not> time_after current previous then 0
      else let periods = time_sub current previous sdiv interval
           in if periods \<le> 1 then 0 else periods - 1)"

definition nonNegativeDuration :: "duration \<Rightarrow> duration" where
  "nonNegativeDuration d = (if d < 0 then 0 else d)"

text \<open>The scheduled instants after \<open>previous\<close> and up to \<open>current\<close>.\<close>

definition due_instants :: "time \<Rightarrow> time \<Rightarrow> duration \<Rightarrow> nat set" where
  "due_instants previous current interval =
     {k. 0 < k \<and> previous + int k * interval \<le> current}"

lemma card_due_instants:
  assumes "0 < interval"
  shows "card (due_instants previous current interval) = nat ((current - previous) div interval)"
proof -
  have "due_instants previous current interval = {1..nat ((current - previous) div interval)}"
  proof (intro set_eqI iffI)
    fix k
    assume "k \<in> due_instants previous current interval"
    then have k: "0 < k" "int k * interval \<le> current - previous" by (auto simp: due_instants_def)
    then have "int k \<le> (current - previous) div interval"
      using assms zdiv_mono1 [of "int k * interval" "current - previous" interval] by simp
    then show "k \<in> {1..nat ((current - previous) div interval)}" using k(1) by auto
  next
    fix k
    assume "k \<in> {1..nat ((current - previous) div interval)}"
    then have "0 < k" "int k \<le> (current - previous) div interval" by auto
    moreover have "(current - previous) div interval * interval \<le> current - previous"
      using assms by (simp add: minus_mod_eq_div_mult [symmetric])
    ultimately have "int k * interval \<le> current - previous"
      using assms by (meson mult_right_mono order_less_imp_le order_trans)
    with \<open>0 < k\<close> show "k \<in> due_instants previous current interval"
      by (auto simp: due_instants_def)
  qed
  then show ?thesis by simp
qed

text \<open>
  Between two ticks the scheduler counts as missed exactly the scheduled instants in between
  without the one it serves now; it never reports a negative number.
\<close>
theorem missed_intervals_exact:
  assumes "previous \<noteq> 0" and "0 < interval" and "previous \<le> current"
    and "current - previous \<le> max_int64"
  shows "missedScheduledIntervals previous current interval =
           int (card (due_instants previous current interval) - 1)"
proof (cases "previous = current")
  case True
  then show ?thesis using assms
    by (simp add: missedScheduledIntervals_def card_due_instants time_after_def)
next
  case False
  have "time_sub current previous = current - previous"
    using assms by (simp add: time_sub_def sat64_id int64_bounds_defs)
  then have "time_sub current previous sdiv interval = (current - previous) div interval"
    using assms by (simp add: sdiv_nonneg)
  then show ?thesis
    using assms False
    by (auto simp: missedScheduledIntervals_def card_due_instants time_after_def is_zero_time_def Let_def)
qed

lemma missed_intervals_exact_witness:
  "missedScheduledIntervals (100 * second) (146 * second) (15 * second) = 2 \<and>
   card (due_instants (100 * second) (146 * second) (15 * second)) - 1 = 2"
  using missed_intervals_exact [of "100 * second" "15 * second" "146 * second"]
  by (simp add: card_due_instants max_int64_def)

section \<open>Runtime samples\<close>

text \<open>\<open>n\<close> is the number of databases. The fields the sink fills in later are Go's zero values.\<close>

definition newRuntimeSample ::
    "string \<Rightarrow> HighAvailabilityConfig \<Rightarrow> nat \<Rightarrow> string \<Rightarrow> string \<Rightarrow> time \<Rightarrow> time \<Rightarrow> time \<Rightarrow> duration \<Rightarrow>
     duration option \<Rightarrow> int \<Rightarrow> ScrapeStatusSample list \<Rightarrow> string \<Rightarrow> nat \<Rightarrow> nat \<Rightarrow> RuntimeSample" where
  "newRuntimeSample instanceName ha n scheduler trigger scheduledAt startedAt collectionFinishedAt
       interval queryTimeout missed statuses completionCollector sampleCount errorCount =
     (let lag = time_sub startedAt scheduledAt;
          lag = (if lag < 0 then 0 else lag);
          missed = (if interval > 0 \<and> lag sdiv interval > missed then lag sdiv interval else missed);
          succeeded = foldl (\<lambda>k status. if stCollector status = completionCollector \<and> stSuccess status
                                       then k + 1 else k) 0 statuses;
          unsuccessful = int n - int succeeded;
          errorCount = (if unsuccessful > int errorCount then nat unsuccessful else errorCount)
      in \<lparr>rtObservedAt = 0, rtScheduler = scheduler, rtTrigger = trigger,
          rtScraperInstance = instanceName, rtHAScope = HA_GetScope ha,
          rtScheduledAt = scheduledAt, rtStartedAt = startedAt,
          rtCollectionFinishedAt = collectionFinishedAt, rtFinishedAt = 0,
          rtConfiguredIntervalSeconds = duration_seconds interval,
          rtConfiguredQueryTimeoutSeconds = map_option duration_seconds queryTimeout,
          rtSchedulingLagSeconds = duration_seconds lag,
          rtCollectionDurationSeconds = duration_seconds (time_sub collectionFinishedAt startedAt),
          rtPostgreSQLWriteDurationSeconds = 0, rtTotalDurationSeconds = 0,
          rtMissedIntervals = missed, rtDatabasesAttempted = n, rtDatabasesSucceeded = succeeded,
          rtSampleCount = sampleCount, rtErrorCount = errorCount,
          rtPostgreSQLWriteSuccess = False, rtPostgreSQLErrorMessage = None\<rparr>)"

definition completed_ok :: "string \<Rightarrow> ScrapeStatusSample \<Rightarrow> bool" where
  "completed_ok collector st \<longleftrightarrow> stCollector st = collector \<and> stSuccess st"

lemma foldl_count_filter:
  "foldl (\<lambda>k x. if P x then k + 1 else k) (n::nat) xs = n + length (filter P xs)"
  by (induction xs arbitrary: n) auto

lemma newRuntimeSample_succeeded:
  "rtDatabasesSucceeded (newRuntimeSample inst ha n sched trig s st fin iv qt missed statuses cc sc ec) =
     length (filter (completed_ok cc) statuses)"
  unfolding newRuntimeSample_def Let_def completed_ok_def
  by (simp only: RuntimeSample.simps foldl_count_filter add_0)

text \<open>
  The runtime sample of a cycle accounts for every database: those that did not succeed are at
  most the reported errors, the successes are the successful statuses of the completing collector,
  the scheduling lag is never negative, and no interval that the caller counted as missed is lost.
\<close>
theorem runtime_sample_accounts:
  "let r = newRuntimeSample inst ha n sched trig s st fin iv qt missed statuses cc sc ec in
     rtDatabasesAttempted r = n \<and>
     rtDatabasesSucceeded r = length (filter (completed_ok cc) statuses) \<and>
     rtDatabasesAttempted r \<le> rtDatabasesSucceeded r + rtErrorCount r \<and>
     ec \<le> rtErrorCount r \<and>
     0 \<le> rtSchedulingLagSeconds r \<and> missed \<le> rtMissedIntervals r"
proof -
  have "rtDatabasesAttempted r \<le> rtDatabasesSucceeded r + rtErrorCount r" and "ec \<le> rtErrorCount r"
    and "0 \<le> rtSchedulingLagSeconds r" and "missed \<le> rtMissedIntervals r"
    and "rtDatabasesAttempted r = n"
    if "r = newRuntimeSample inst ha n sched trig s st fin iv qt missed statuses cc sc ec" for r
    by (simp_all add: that newRuntimeSample_def Let_def) linarith+
  then show ?thesis by (simp add: newRuntimeSample_succeeded Let_def)
qed

end
