(* ===== verification/Operational.thy ===== *)
theory Operational
  imports DataGuard Runtime Machines
begin

text \<open>
  Operational collection (\<open>collector/operational.go\<close>): the throttle, the counter deltas, the joins of
  secondary queries into collected samples, the thirteen collectors, and their composition
  \<open>ScrapeOperationalSamples\<close>. A collector takes the samples and counters so far to the number it
  reports, its error, and the new samples and counters.
\<close>

section \<open>State\<close>

record operationalCounterKey =
  okDatabase :: string
  okKind :: string
  okInstID :: int64
  okConID :: int64
  okName :: string

record operationalCounterSnapshot =
  osCollectedAt :: time
  osValue :: int64

record operationalCounterRow =
  orInstID :: int64
  orConID :: int64
  orName :: string
  orValue :: int64

type_synonym counters = "operationalCounterKey \<rightharpoonup> operationalCounterSnapshot"

definition shouldCollectOperational ::
    "bool \<Rightarrow> string \<Rightarrow> time \<Rightarrow> duration \<Rightarrow> (string \<rightharpoonup> time) \<Rightarrow> bool \<times> (string \<rightharpoonup> time)" where
  "shouldCollectOperational enabled database collectedAt interval lastOperationalScrape =
     (if \<not> enabled then (False, lastOperationalScrape)
      else case lastOperationalScrape database of
             Some last_time \<Rightarrow>
               if time_before collectedAt (time_add last_time interval)
               then (False, lastOperationalScrape)
               else (True, lastOperationalScrape(database \<mapsto> collectedAt))
           | None \<Rightarrow> (True, lastOperationalScrape(database \<mapsto> collectedAt)))"

interpretation operational: throttle "shouldCollectOperational True" "\<lambda>s. s"
  by unfold_locales
    (auto simp: shouldCollectOperational_def time_before_def time_add_def split: option.splits if_splits)

text \<open>The delta, the interval in seconds, and whether the counter was reset.\<close>

definition operationalDelta ::
    "operationalCounterKey \<Rightarrow> time \<Rightarrow> int64 \<Rightarrow> counters \<Rightarrow>
     (int64 option \<times> rat option \<times> bool) \<times> counters" where
  "operationalDelta key collectedAt v counters =
     (let counters' = counters(key \<mapsto> \<lparr>osCollectedAt = collectedAt, osValue = v\<rparr>) in
      case counters key of
        None \<Rightarrow> ((None, None, False), counters')
      | Some previous \<Rightarrow>
          if \<not> time_after collectedAt (osCollectedAt previous) then ((None, None, False), counters')
          else let interval = duration_seconds (time_sub collectedAt (osCollectedAt previous)) in
               if sint v < sint (osValue previous) then ((None, Some interval, True), counters')
               else ((Some (v - osValue previous), Some interval, False), counters'))"

section \<open>Rows\<close>

record databaseIdentityRow =
  idInstID :: int64
  idDbid :: "int64 sql_null"
  idUniqueName :: "string sql_null"
  idProduct :: "string sql_null"
  idEdition :: "string sql_null"
  idVersion :: "string sql_null"
  idVersionFull :: "string sql_null"
  idProtectionMode :: "string sql_null"
  idProtectionLevel :: "string sql_null"

record instanceMemoryRow =
  imInstID :: int64
  imSga :: "int64 sql_null"
  imPga :: "int64 sql_null"
  imPgaMax :: "int64 sql_null"

record tablespaceAllocationRow =
  taTablespace :: string
  taAllocated :: "int64 sql_null"

record operational_answers =
  oaDatabaseStatus :: "DatabaseStatusRow query"
  oaDatabaseIdentity :: "databaseIdentityRow query"
  oaInstances :: "InstanceRow query"
  oaInstanceMemory :: "instanceMemoryRow query"
  oaResourceLimits :: "ResourceLimitRow query"
  oaTablespaces :: "TablespaceRow query"
  oaTablespaceAllocation :: "tablespaceAllocationRow query"
  oaASMDiskgroups :: "ASMDiskgroupRow query"
  oaSystemCounters :: "operationalCounterRow query"
  oaCPUAndIOCounters :: "operationalCounterRow query"
  oaWaitClasses :: "operationalCounterRow query"
  oaSystemMetrics :: "SystemMetricRow query"
  oaDataGuard :: dataguard_answers

type_synonym oper_state = "OperationalSamples \<times> counters"
type_synonym collector = "oper_state \<Rightarrow> (int \<times> go_error option) \<times> oper_state"

section \<open>Joins of secondary queries\<close>

text \<open>The maps the joins build, the last row of an instance winning.\<close>

definition by_key :: "('r \<Rightarrow> 'k) \<Rightarrow> 'r list \<Rightarrow> ('k \<rightharpoonup> 'r)" where
  "by_key key rows = foldl (\<lambda>m r. m(key r \<mapsto> r)) Map.empty rows"

text \<open>The loop \<open>for i := range samples\<close>: the samples and the number updated.\<close>

fun update_loop :: "('s \<Rightarrow> 'r option) \<Rightarrow> ('r \<Rightarrow> 's \<Rightarrow> 's) \<Rightarrow> 's list \<Rightarrow> 's list \<times> nat" where
  "update_loop look upd [] = ([], 0)"
| "update_loop look upd (s # rest) =
     (let (rest', n) = update_loop look upd rest in
      case look s of None \<Rightarrow> (s # rest', n) | Some r \<Rightarrow> (upd r s # rest', n + 1))"

definition set_identity :: "databaseIdentityRow \<Rightarrow> DatabaseStatusSample \<Rightarrow> DatabaseStatusSample" where
  "set_identity r s = s\<lparr>dsDBID := int64Ptr (idDbid r), dsDBUniqueName := stringPtr (idUniqueName r),
     dsDatabaseProduct := stringPtr (idProduct r), dsDatabaseEdition := stringPtr (idEdition r),
     dsDatabaseVersion := stringPtr (idVersion r), dsDatabaseVersionFull := stringPtr (idVersionFull r),
     dsProtectionMode := stringPtr (idProtectionMode r),
     dsProtectionLevel := stringPtr (idProtectionLevel r)\<rparr>"

definition applyDatabaseIdentity ::
    "DatabaseStatusSample list \<Rightarrow> databaseIdentityRow list \<Rightarrow> DatabaseStatusSample list \<times> nat" where
  "applyDatabaseIdentity samples identities =
     update_loop (\<lambda>s. by_key idInstID identities (dsInstID s)) set_identity samples"

definition set_memory :: "instanceMemoryRow \<Rightarrow> InstanceSample \<Rightarrow> InstanceSample" where
  "set_memory r s = s\<lparr>isSGAAllocatedBytes := int64Ptr (imSga r), isPGAAllocatedBytes := int64Ptr (imPga r),
     isPGAMaxAllocatedBytes := int64Ptr (imPgaMax r)\<rparr>"

definition applyInstanceMemory ::
    "InstanceSample list \<Rightarrow> instanceMemoryRow list \<Rightarrow> InstanceSample list \<times> nat" where
  "applyInstanceMemory samples memory =
     update_loop (\<lambda>s. by_key imInstID memory (isInstID s)) set_memory samples"

definition set_allocation :: "tablespaceAllocationRow \<Rightarrow> TablespaceSample \<Rightarrow> TablespaceSample" where
  "set_allocation r s = s\<lparr>tsAllocatedBytes := int64Ptr (taAllocated r)\<rparr>"

definition applyTablespaceAllocation ::
    "TablespaceSample list \<Rightarrow> tablespaceAllocationRow list \<Rightarrow> TablespaceSample list \<times> nat" where
  "applyTablespaceAllocation samples allocations =
     update_loop (\<lambda>s. by_key taTablespace allocations (tsTablespace s)) set_allocation samples"

section \<open>Collectors\<close>

text \<open>A collector that appends one sample per row to one list and reports how many it appended.\<close>

definition append_collector ::
    "'r query \<Rightarrow> (OperationalSamples \<Rightarrow> nat) \<Rightarrow> ('r \<Rightarrow> OperationalSamples \<Rightarrow> OperationalSamples) \<Rightarrow> collector" where
  "append_collector q size_of add st =
     (let before = size_of (fst st);
          (out, err) = queryOperationalRows q (\<lambda>r out. (add r out, None)) (fst st)
      in ((int (size_of out) - int before, err), (out, snd st)))"

text \<open>A collector that reads all its rows and joins them, or nothing after an error.\<close>

definition join_collector ::
    "'r query \<Rightarrow> ('r list \<Rightarrow> OperationalSamples \<Rightarrow> OperationalSamples \<times> nat) \<Rightarrow> collector" where
  "join_collector q join st =
     (let (rows, err) = queryOperationalRows q (\<lambda>r rows. (rows @ [r], None)) [] in
      if err \<noteq> None then ((0, err), st)
      else let (out, n) = join rows (fst st) in ((int n, None), (out, snd st)))"

definition scrapeDatabaseStatus :: "operational_answers \<Rightarrow> Database \<Rightarrow> time \<Rightarrow> collector" where
  "scrapeDatabaseStatus a d t =
     append_collector (QueryContext d (oaDatabaseStatus a)) (\<lambda>out. length (opDatabaseStatus out))
       (\<lambda>r out. out\<lparr>opDatabaseStatus := opDatabaseStatus out @ [database_status_sample t (dName d) r]\<rparr>)"

definition scrapeDatabaseIdentity :: "operational_answers \<Rightarrow> Database \<Rightarrow> collector" where
  "scrapeDatabaseIdentity a d =
     join_collector (QueryContext d (oaDatabaseIdentity a))
       (\<lambda>rows out. let (samples, n) = applyDatabaseIdentity (opDatabaseStatus out) rows
                   in (out\<lparr>opDatabaseStatus := samples\<rparr>, n))"

definition scrapeInstances :: "operational_answers \<Rightarrow> Database \<Rightarrow> time \<Rightarrow> collector" where
  "scrapeInstances a d t =
     append_collector (QueryContext d (oaInstances a)) (\<lambda>out. length (opInstances out))
       (\<lambda>r out. out\<lparr>opInstances := opInstances out @ [instance_sample t (dName d) r]\<rparr>)"

definition scrapeInstanceMemory :: "operational_answers \<Rightarrow> Database \<Rightarrow> collector" where
  "scrapeInstanceMemory a d =
     join_collector (QueryContext d (oaInstanceMemory a))
       (\<lambda>rows out. let (samples, n) = applyInstanceMemory (opInstances out) rows
                   in (out\<lparr>opInstances := samples\<rparr>, n))"

definition scrapeResourceLimits :: "operational_answers \<Rightarrow> Database \<Rightarrow> time \<Rightarrow> collector" where
  "scrapeResourceLimits a d t =
     append_collector (QueryContext d (oaResourceLimits a)) (\<lambda>out. length (opResourceLimits out))
       (\<lambda>r out. out\<lparr>opResourceLimits := opResourceLimits out @ [resource_limit_sample t (dName d) r]\<rparr>)"

definition scrapeTablespaces :: "operational_answers \<Rightarrow> Database \<Rightarrow> time \<Rightarrow> collector" where
  "scrapeTablespaces a d t =
     append_collector (QueryContext d (oaTablespaces a)) (\<lambda>out. length (opTablespaces out))
       (\<lambda>r out. out\<lparr>opTablespaces := opTablespaces out @ [tablespace_sample t (dName d) r]\<rparr>)"

definition scrapeTablespaceAllocation :: "operational_answers \<Rightarrow> Database \<Rightarrow> collector" where
  "scrapeTablespaceAllocation a d =
     join_collector (QueryContext d (oaTablespaceAllocation a))
       (\<lambda>rows out. let (samples, n) = applyTablespaceAllocation (opTablespaces out) rows
                   in (out\<lparr>opTablespaces := samples\<rparr>, n))"

definition scrapeASMDiskgroups :: "operational_answers \<Rightarrow> Database \<Rightarrow> time \<Rightarrow> collector" where
  "scrapeASMDiskgroups a d t =
     append_collector (QueryContext d (oaASMDiskgroups a)) (\<lambda>out. length (opASMDiskgroups out))
       (\<lambda>r out. out\<lparr>opASMDiskgroups := opASMDiskgroups out @ [asm_diskgroup_sample t (dName d) r]\<rparr>)"

definition scrapeSystemMetrics :: "operational_answers \<Rightarrow> Database \<Rightarrow> time \<Rightarrow> collector" where
  "scrapeSystemMetrics a d t =
     append_collector (QueryContext d (oaSystemMetrics a)) (\<lambda>out. length (opSystemMetrics out))
       (\<lambda>r out. out\<lparr>opSystemMetrics := opSystemMetrics out @ [system_metric_sample t (dName d) r]\<rparr>)"

text \<open>The counter collectors: each row goes through \<open>operationalDelta\<close>; the number reported is that of
  the rows scanned.\<close>

definition counter_row ::
    "string \<Rightarrow> string \<Rightarrow> time \<Rightarrow>
     (operationalCounterRow \<Rightarrow> int64 option \<Rightarrow> rat option \<Rightarrow> bool \<Rightarrow> OperationalSamples \<Rightarrow> OperationalSamples) \<Rightarrow>
     operationalCounterRow \<Rightarrow> nat \<times> oper_state \<Rightarrow> nat \<times> oper_state" where
  "counter_row database kind t appendSample row = (\<lambda>(n, out, counters).
     (let key = \<lparr>okDatabase = database, okKind = kind, okInstID = orInstID row,
                 okConID = orConID row, okName = orName row\<rparr>;
          ((delta, interval, reset), counters) = operationalDelta key t (orValue row) counters
      in (n + 1, appendSample row delta interval reset out, counters)))"

definition scrapeOperationalCounterRows ::
    "operationalCounterRow query \<Rightarrow> string \<Rightarrow> string \<Rightarrow> time \<Rightarrow>
     (operationalCounterRow \<Rightarrow> int64 option \<Rightarrow> rat option \<Rightarrow> bool \<Rightarrow> OperationalSamples \<Rightarrow> OperationalSamples) \<Rightarrow>
     collector" where
  "scrapeOperationalCounterRows q database kind t appendSample st =
     (let ((n, st), err) =
            queryOperationalRows q (\<lambda>row s. (counter_row database kind t appendSample row s, None)) (0, st)
      in ((int n, err), st))"

definition append_system_counter ::
    "time \<Rightarrow> string \<Rightarrow> operationalCounterRow \<Rightarrow> int64 option \<Rightarrow> rat option \<Rightarrow> bool \<Rightarrow>
     OperationalSamples \<Rightarrow> OperationalSamples" where
  "append_system_counter t database row delta interval reset out =
     out\<lparr>opSystemCounters := opSystemCounters out @
       [\<lparr>scCollectedAt = t, scDatabase = database, scInstID = orInstID row, scConID = orConID row,
         scStatName = orName row, scCumulativeValue = orValue row, scDeltaValue = delta,
         scIntervalSeconds = interval, scCounterReset = reset\<rparr>]\<rparr>"

definition append_wait_class ::
    "time \<Rightarrow> string \<Rightarrow> operationalCounterRow \<Rightarrow> int64 option \<Rightarrow> rat option \<Rightarrow> bool \<Rightarrow>
     OperationalSamples \<Rightarrow> OperationalSamples" where
  "append_wait_class t database row delta interval reset out =
     out\<lparr>opWaitClasses := opWaitClasses out @
       [\<lparr>wcCollectedAt = t, wcDatabase = database, wcInstID = orInstID row, wcConID = orConID row,
         wcWaitClass = orName row, wcCumulativeWaitMicro = orValue row, wcDeltaWaitMicro = delta,
         wcIntervalSeconds = interval, wcCounterReset = reset\<rparr>]\<rparr>"

definition scrapeSystemCounters :: "operational_answers \<Rightarrow> Database \<Rightarrow> time \<Rightarrow> collector" where
  "scrapeSystemCounters a d t =
     scrapeOperationalCounterRows (QueryContext d (oaSystemCounters a)) (dName d) ''system'' t
       (append_system_counter t (dName d))"

definition scrapeCPUAndIOCounters :: "operational_answers \<Rightarrow> Database \<Rightarrow> time \<Rightarrow> collector" where
  "scrapeCPUAndIOCounters a d t =
     scrapeOperationalCounterRows (QueryContext d (oaCPUAndIOCounters a)) (dName d) ''system'' t
       (append_system_counter t (dName d))"

definition scrapeWaitClasses :: "operational_answers \<Rightarrow> Database \<Rightarrow> time \<Rightarrow> collector" where
  "scrapeWaitClasses a d t =
     scrapeOperationalCounterRows (QueryContext d (oaWaitClasses a)) (dName d) ''wait'' t
       (append_wait_class t (dName d))"

definition scrapeDataGuard_collector ::
    "dataguard_library \<Rightarrow> operational_answers \<Rightarrow> Database \<Rightarrow> time \<Rightarrow> collector" where
  "scrapeDataGuard_collector lib a d t st =
     (let (res, out) = scrapeDataGuard lib (oaDataGuard a) d t (fst st) in (res, (out, snd st)))"

section \<open>The composition\<close>

definition collections ::
    "dataguard_library \<Rightarrow> operational_answers \<Rightarrow> Database \<Rightarrow> time \<Rightarrow> (string \<times> collector) list" where
  "collections lib a d t =
     [(''database_status'', scrapeDatabaseStatus a d t),
      (''database_identity'', scrapeDatabaseIdentity a d),
      (''instance'', scrapeInstances a d t),
      (''instance_memory'', scrapeInstanceMemory a d),
      (''resource_limits'', scrapeResourceLimits a d t),
      (''tablespaces'', scrapeTablespaces a d t),
      (''tablespace_allocation'', scrapeTablespaceAllocation a d),
      (''asm_diskgroups'', scrapeASMDiskgroups a d t),
      (''system_counters'', scrapeSystemCounters a d t),
      (''cpu_io_counters'', scrapeCPUAndIOCounters a d t),
      (''wait_classes'', scrapeWaitClasses a d t),
      (''system_metrics'', scrapeSystemMetrics a d t),
      (''dataguard'', scrapeDataGuard_collector lib a d t)]"

text \<open>The loop over the collections; \<open>since name\<close> is the time a collection took.\<close>

fun run_collections ::
    "(string \<Rightarrow> duration) \<Rightarrow> time \<Rightarrow> string \<Rightarrow> (string \<times> collector) list \<Rightarrow>
     ScrapeStatusSample list \<times> go_error option \<times> oper_state \<Rightarrow>
     ScrapeStatusSample list \<times> go_error option \<times> oper_state" where
  "run_collections since t db [] acc = acc"
| "run_collections since t db ((name, collect) # rest) (statuses, joined, st) =
     (let ((n, err), st) = collect st in
      run_collections since t db rest
        (statuses @ [newScrapeStatus t db (''operational.'' @ name) (since name) (nat n) err],
         (case err of None \<Rightarrow> joined | Some e \<Rightarrow> errors_join [joined, Some (ErrWrap name e)]),
         st))"

definition ScrapeOperationalSamples ::
    "(string \<Rightarrow> duration) \<Rightarrow> dataguard_library \<Rightarrow> operational_answers \<Rightarrow> Database \<Rightarrow> time \<Rightarrow> counters \<Rightarrow>
     (OperationalSamples \<times> ScrapeStatusSample list \<times> go_error option) \<times> counters" where
  "ScrapeOperationalSamples since lib a d collectedAt counters =
     (let (statuses, joined, samples, counters) =
            run_collections since collectedAt (dName d) (collections lib a d collectedAt)
              ([], None, no_operational, counters);
          statuses = statuses @ [newScrapeStatus collectedAt (dName d) ''operational''
                       (since ''operational'') (OperationalSamples_Count samples) joined]
      in ((samples, statuses, joined), counters))"

section \<open>Lemmas\<close>

lemma by_key_map_of: "by_key key rows = map_of (rev (map (\<lambda>r. (key r, r)) rows))"
proof -
  have "foldl (\<lambda>m r. m(key r \<mapsto> r)) m rows = m ++ map_of (rev (map (\<lambda>r. (key r, r)) rows))" for m
    by (induction rows arbitrary: m) (auto simp: map_add_def fun_eq_iff split: option.splits)
  then show ?thesis by (simp add: by_key_def)
qed

lemma by_key_Some: "by_key key rows k = Some r \<Longrightarrow> r \<in> set rows \<and> key r = k"
  by (auto simp: by_key_map_of dest!: map_of_SomeD)

lemma by_key_distinct:
  assumes "distinct (map key rows)"
  shows "by_key key rows k = Some r \<longleftrightarrow> r \<in> set rows \<and> key r = k"
proof -
  have "distinct (map fst (rev (map (\<lambda>r. (key r, r)) rows)))"
    using assms by (simp add: rev_map [symmetric] comp_def)
  then show ?thesis by (auto simp: by_key_map_of map_of_eq_Some_iff)
qed

lemma by_key_mset:
  assumes "distinct (map key rows)" and "mset rows = mset rows'"
  shows "by_key key rows = by_key key rows'"
proof
  fix k
  have "distinct (map key rows')" and "set rows = set rows'"
    using assms by (metis mset_map mset_eq_imp_distinct_iff) (metis assms(2) set_mset_mset)
  then show "by_key key rows k = by_key key rows' k"
    using by_key_distinct [OF assms(1)] by_key_distinct [of key rows']
    by (metis not_Some_eq)
qed

lemma update_loop_map:
  "update_loop look upd ss =
     (map (\<lambda>s. case look s of None \<Rightarrow> s | Some r \<Rightarrow> upd r s) ss, length (filter (\<lambda>s. look s \<noteq> None) ss))"
  by (induction ss) (auto split: option.splits)

lemma run_collections_result:
  assumes "run_collections since t db cs (statuses, joined, st) = (statuses', joined', st')"
  shows "\<exists>new. statuses' = statuses @ new \<and>
      map stCollector new = map (\<lambda>(name, _). ''operational.'' @ name) cs \<and>
      (joined' = None \<longleftrightarrow> joined = None \<and> (\<forall>x \<in> set new. stSuccess x)) \<and>
      (\<forall>x \<in> set new. stCollectedAt x = t \<and> stDatabase x = db)"
  using assms
proof (induction cs arbitrary: statuses joined st)
  case (Cons c cs)
  obtain name collect where c: "c = (name, collect)" by (cases c)
  obtain n err st1 where r: "collect st = ((n, err), st1)" by (metis prod.collapse)
  define x where "x = newScrapeStatus t db (''operational.'' @ name) (since name) (nat n) err"
  define j where "j = (case err of None \<Rightarrow> joined | Some e \<Rightarrow> errors_join [joined, Some (ErrWrap name e)])"
  have "run_collections since t db cs (statuses @ [x], j, st1) = (statuses', joined', st')"
    using Cons.prems c r by (simp add: x_def j_def)
  from Cons.IH [OF this] obtain new where new: "statuses' = (statuses @ [x]) @ new"
      "map stCollector new = map (\<lambda>(name, _). ''operational.'' @ name) cs"
      "joined' = None \<longleftrightarrow> j = None \<and> (\<forall>x \<in> set new. stSuccess x)"
      "\<forall>x \<in> set new. stCollectedAt x = t \<and> stDatabase x = db" by blast
  have "j = None \<longleftrightarrow> joined = None \<and> stSuccess x" by (auto simp: j_def x_def split: option.splits)
  with new c show ?case by (intro exI [of _ "x # new"]) (auto simp: x_def)
qed simp

lemma ScrapeOperationalSamples_statuses:
  assumes "ScrapeOperationalSamples since lib a d t counters = ((samples, statuses, err), counters')"
  shows "(\<forall>y \<in> set statuses. take 11 (stCollector y) = ''operational'')"
    and "err = None \<longleftrightarrow> (\<forall>y \<in> set statuses. stSuccess y)"
proof -
  obtain ss joined sm c' where r:
    "run_collections since t (dName d) (collections lib a d t) ([], None, no_operational, counters) =
       (ss, joined, sm, c')" by (metis prod_cases4)
  define x where "x = newScrapeStatus t (dName d) ''operational'' (since ''operational'')
    (OperationalSamples_Count sm) joined"
  have st: "statuses = ss @ [x]" "err = joined"
    using assms by (auto simp: ScrapeOperationalSamples_def r x_def)
  from run_collections_result [OF r] have
    names: "map stCollector ss = map (\<lambda>(name, _). ''operational.'' @ name) (collections lib a d t)"
    and ok: "joined = None \<longleftrightarrow> (\<forall>y \<in> set ss. stSuccess y)" by auto
  have "\<forall>c \<in> set (map stCollector ss). take 11 c = ''operational''" unfolding names by auto
  then show "(\<forall>y \<in> set statuses. take 11 (stCollector y) = ''operational'')"
    by (auto simp: st x_def)
  show "err = None \<longleftrightarrow> (\<forall>y \<in> set statuses. stSuccess y)" using ok by (auto simp: st x_def)
qed

lemma ScrapeOperationalSamples_marked:
  assumes "ScrapeOperationalSamples since lib a d t counters = ((samples, statuses, err), counters')"
  shows "\<forall>y \<in> set statuses. stDatabase y = dName d \<and> stCollectedAt y = t"
proof -
  obtain ss joined sm c' where r: "run_collections since t (dName d) (collections lib a d t)
      ([], None, no_operational, counters) = (ss, joined, sm, c')" by (metis prod_cases4)
  from run_collections_result [OF r] show ?thesis
    using assms by (auto simp: ScrapeOperationalSamples_def r)
qed

section \<open>Properties\<close>

text \<open>
  An operational scrape always runs its thirteen collections, in this order, and reports one
  status for each and one for the whole, all for this database and this tick; a collection that fails
  does not keep the others from running, and the scrape as a whole succeeds exactly if all did.
\<close>
theorem operational_scrape_reports_all:
  "let ((samples, statuses, err), counters') = ScrapeOperationalSamples since lib a d t counters in
     map stCollector statuses =
       map (\<lambda>name. ''operational.'' @ name)
         [''database_status'', ''database_identity'', ''instance'', ''instance_memory'',
          ''resource_limits'', ''tablespaces'', ''tablespace_allocation'', ''asm_diskgroups'',
          ''system_counters'', ''cpu_io_counters'', ''wait_classes'', ''system_metrics'', ''dataguard''] @
       [''operational''] \<and>
     (err = None \<longleftrightarrow> list_all stSuccess statuses) \<and>
     (stSuccess (last statuses) \<longleftrightarrow> err = None) \<and>
     stSampleCount (last statuses) = OperationalSamples_Count samples \<and>
     list_all (\<lambda>x. stCollectedAt x = t \<and> stDatabase x = dName d) statuses"
proof -
  obtain statuses joined samples c' where r:
    "run_collections since t (dName d) (collections lib a d t) ([], None, no_operational, counters) =
       (statuses, joined, samples, c')" by (metis prod_cases4)
  from run_collections_result [OF r] have
    names: "map stCollector statuses = map (\<lambda>(name, _). ''operational.'' @ name) (collections lib a d t)"
    and ok: "joined = None \<longleftrightarrow> (\<forall>x \<in> set statuses. stSuccess x)"
    and same: "\<forall>x \<in> set statuses. stCollectedAt x = t \<and> stDatabase x = dName d" by auto
  have all_names: "map stCollector statuses = map (\<lambda>name. ''operational.'' @ name)
         [''database_status'', ''database_identity'', ''instance'', ''instance_memory'',
          ''resource_limits'', ''tablespaces'', ''tablespace_allocation'', ''asm_diskgroups'',
          ''system_counters'', ''cpu_io_counters'', ''wait_classes'', ''system_metrics'', ''dataguard'']"
    unfolding names collections_def by simp
  define x where "x = newScrapeStatus t (dName d) ''operational'' (since ''operational'')
    (OperationalSamples_Count samples) joined"
  have res: "ScrapeOperationalSamples since lib a d t counters = ((samples, statuses @ [x], joined), c')"
    by (simp add: ScrapeOperationalSamples_def r x_def)
  have x: "stSuccess x \<longleftrightarrow> joined = None" "stCollector x = ''operational''" "stCollectedAt x = t"
    "stDatabase x = dName d" "stSampleCount x = OperationalSamples_Count samples"
    by (simp_all add: x_def)
  have all_ok: "joined = None \<longleftrightarrow> list_all stSuccess (statuses @ [x])"
    using ok x(1) by (auto simp: list_all_iff)
  have all_same: "list_all (\<lambda>y. stCollectedAt y = t \<and> stDatabase y = dName d) (statuses @ [x])"
    using same x(3,4) by (simp add: list_all_iff)
  have last_x: "last (statuses @ [x]) = x" by simp
  have all_map: "map stCollector (statuses @ [x]) = map stCollector statuses @ [''operational'']"
    using x(2) by simp
  show ?thesis unfolding res Let_def prod.case last_x all_map all_names
    by (intro conjI all_ok all_same x refl)
qed

text \<open>
  Operational collections of a database are at least the configured interval apart, and one that is
  overdue is admitted.
\<close>
theorem operational_collections_spaced:
  assumes "0 \<le> interval"
  shows "sorted_wrt (\<lambda>a b. a + interval \<le> b)
           (admissions (shouldCollectOperational True) db interval ticks s) \<and>
    (\<forall>t. s db = Some t \<longrightarrow> t + interval \<le> now \<longrightarrow>
         fst (shouldCollectOperational True db now interval s))"
  using operational.admissions_spaced [OF assms] operational.overdue_admitted by blast

lemma operational_collections_spaced_witness:
  "sorted_wrt (\<lambda>a b. a + minute \<le> b)
     (admissions (shouldCollectOperational True) ''db'' minute [0, second, minute, 3 * minute] Map.empty)"
  using operational_collections_spaced [of minute "''db''" "[0, second, minute, 3 * minute]"] by simp

text \<open>The readings of one counter and what \<open>operationalDelta\<close> makes of them.\<close>

fun delta_run ::
    "operationalCounterKey \<Rightarrow> (time \<times> int64) list \<Rightarrow> counters \<Rightarrow>
     (int64 option \<times> rat option \<times> bool) list" where
  "delta_run k [] c = []"
| "delta_run k ((t, v) # obs) c =
     (let (r, c') = operationalDelta k t v c in r # delta_run k obs c')"

lemma operationalDelta_stores:
  "snd (operationalDelta k t v c) = c(k \<mapsto> \<lparr>osCollectedAt = t, osValue = v\<rparr>)"
  by (simp add: operationalDelta_def Let_def split: option.splits)

lemma delta_run_Cons:
  "delta_run k ((t, v) # obs) c =
     fst (operationalDelta k t v c) # delta_run k obs (c(k \<mapsto> \<lparr>osCollectedAt = t, osValue = v\<rparr>))"
  by (cases "operationalDelta k t v c") (use operationalDelta_stores [of k t v c] in simp)

definition reading_delta :: "time \<times> int64 \<Rightarrow> time \<times> int64 \<Rightarrow> int64 option \<times> rat option \<times> bool" where
  "reading_delta prev cur =
     (let interval = duration_seconds (time_sub (fst cur) (fst prev)) in
      if sint (snd cur) < sint (snd prev) then (None, Some interval, True)
      else (Some (snd cur - snd prev), Some interval, False))"

lemma delta_run_known:
  assumes "c k = Some \<lparr>osCollectedAt = t0, osValue = v0\<rparr>" and "sorted_wrt (<) (t0 # map fst obs)"
  shows "delta_run k obs c = map2 reading_delta ((t0, v0) # obs) obs"
  using assms
proof (induction obs arbitrary: c t0 v0)
  case (Cons o1 obs)
  obtain t v where o: "o1 = (t, v)" by (cases o1)
  have "fst (operationalDelta k t v c) = reading_delta (t0, v0) (t, v)"
    using Cons.prems o
    by (simp add: operationalDelta_def Let_def reading_delta_def time_after_def)
  moreover have "delta_run k obs (c(k \<mapsto> \<lparr>osCollectedAt = t, osValue = v\<rparr>)) =
      map2 reading_delta ((t, v) # obs) obs"
    by (rule Cons.IH) (use Cons.prems(2) o in simp_all)
  ultimately show ?case unfolding o delta_run_Cons by simp
qed simp

lemma telescoping_sum:
  "sum_list (map2 (\<lambda>p c. snd c - snd p) ((t0, v0) # obs) obs) = (snd (last ((t0, v0) # obs)) - v0 :: int64)"
  by (induction obs arbitrary: t0 v0) auto

text \<open>
  The deltas of an operational counter. The first reading gives none; at increasing times every
  later one gives the difference to the reading before it and the seconds in between, or, when the
  counter went down, no delta and a reset mark. Without resets the deltas add up to the last reading
  minus the first (in 64-bit arithmetic).
\<close>
theorem counter_deltas_exact:
  assumes "c k = None" and "sorted_wrt (<) (t0 # map fst obs)"
  shows "delta_run k ((t0, v0) # obs) c =
      (None, None, False) # map2 reading_delta ((t0, v0) # obs) obs \<and>
    (list_all (\<lambda>r. \<not> snd (snd r)) (delta_run k ((t0, v0) # obs) c) \<longrightarrow>
       sum_list (List.map_filter fst (delta_run k ((t0, v0) # obs) c)) =
         snd (last ((t0, v0) # obs)) - v0)"
proof
  have first: "fst (operationalDelta k t0 v0 c) = (None, None, False)"
    using assms(1) by (simp add: operationalDelta_def Let_def)
  have "delta_run k obs (c(k \<mapsto> \<lparr>osCollectedAt = t0, osValue = v0\<rparr>)) =
      map2 reading_delta ((t0, v0) # obs) obs"
    by (rule delta_run_known) (use assms(2) in simp_all)
  then show run: "delta_run k ((t0, v0) # obs) c =
      (None, None, False) # map2 reading_delta ((t0, v0) # obs) obs"
    unfolding delta_run_Cons first by simp
  have "list_all (\<lambda>r. \<not> snd (snd r)) (map2 reading_delta ps obs) \<Longrightarrow>
      List.map_filter fst (map2 reading_delta ps obs) = map2 (\<lambda>p c. snd c - snd p) ps obs" for ps
    by (induction ps obs rule: list_induct2') (auto simp: reading_delta_def Let_def split: if_splits)
  then show "list_all (\<lambda>r. \<not> snd (snd r)) (delta_run k ((t0, v0) # obs) c) \<longrightarrow>
       sum_list (List.map_filter fst (delta_run k ((t0, v0) # obs) c)) =
         snd (last ((t0, v0) # obs)) - v0"
    unfolding run using telescoping_sum [of t0 v0 obs] by (auto simp del: list.map zip_Cons_Cons)
qed

definition example_counter_key :: operationalCounterKey where
  "example_counter_key = \<lparr>okDatabase = ''db'', okKind = ''system'', okInstID = 1, okConID = 0,
     okName = ''redo size''\<rparr>"

lemma counter_deltas_exact_witness:
  "delta_run example_counter_key [(0, 10), (second, 25), (2 * second, 5)] Map.empty =
     [(None, None, False), (Some 15, Some 1, False), (None, Some 1, True)]"
  using counter_deltas_exact [of Map.empty example_counter_key 0 "[(second, 25), (2 * second, 5)]" 10]
  by (simp add: reading_delta_def duration_seconds_def time_sub_def sat64_def int64_bounds_defs)

text \<open>
  The join of the database identities into the status samples. Whatever order the rows of the
  second query come in, a sample whose instance has an identity row gets its columns from that row, the
  others are left as they are, no sample is added, dropped or moved, and the number reported is that of
  the samples updated.
\<close>
theorem identity_join_exact:
  assumes "distinct (map idInstID rows)"
  shows "(\<forall>rows'. mset rows' = mset rows \<longrightarrow>
      applyDatabaseIdentity samples rows' = applyDatabaseIdentity samples rows) \<and>
    length (fst (applyDatabaseIdentity samples rows)) = length samples \<and>
    (\<forall>i < length samples.
      (\<forall>r \<in> set rows. idInstID r = dsInstID (samples ! i) \<longrightarrow>
         fst (applyDatabaseIdentity samples rows) ! i = set_identity r (samples ! i)) \<and>
      (dsInstID (samples ! i) \<notin> idInstID ` set rows \<longrightarrow>
         fst (applyDatabaseIdentity samples rows) ! i = samples ! i)) \<and>
    snd (applyDatabaseIdentity samples rows) =
      length (filter (\<lambda>s. dsInstID s \<in> idInstID ` set rows) samples)"
proof -
  note look = by_key_distinct [OF assms]
  have hit: "by_key idInstID rows k \<noteq> None \<longleftrightarrow> k \<in> idInstID ` set rows" for k
    using look [of k] by (auto simp: image_iff)
  have "fst (applyDatabaseIdentity samples rows) ! i = set_identity r (samples ! i)"
    if "i < length samples" "r \<in> set rows" "idInstID r = dsInstID (samples ! i)" for i r
    using that look [of "dsInstID (samples ! i)" r] by (simp add: applyDatabaseIdentity_def update_loop_map)
  moreover have "fst (applyDatabaseIdentity samples rows) ! i = samples ! i"
    if "i < length samples" "dsInstID (samples ! i) \<notin> idInstID ` set rows" for i
    using that hit [of "dsInstID (samples ! i)"] by (simp add: applyDatabaseIdentity_def update_loop_map)
  moreover have "applyDatabaseIdentity samples rows' = applyDatabaseIdentity samples rows"
    if "mset rows' = mset rows" for rows'
    using by_key_mset [OF assms that [symmetric]] by (simp only: applyDatabaseIdentity_def)
  moreover have "length (fst (applyDatabaseIdentity samples rows)) = length samples"
    and "snd (applyDatabaseIdentity samples rows) =
      length (filter (\<lambda>s. dsInstID s \<in> idInstID ` set rows) samples)"
    by (simp_all only: applyDatabaseIdentity_def update_loop_map hit fst_conv snd_conv length_map)
  ultimately show ?thesis by (intro conjI allI impI ballI)
qed

definition example_identity :: "int64 \<Rightarrow> databaseIdentityRow" where
  "example_identity i = \<lparr>idInstID = i, idDbid = (True, 99), idUniqueName = (True, ''orcl_a''),
     idProduct = (False, []), idEdition = (False, []), idVersion = (True, ''19''),
     idVersionFull = (False, []), idProtectionMode = (False, []), idProtectionLevel = (False, [])\<rparr>"

definition example_status_row :: "int64 \<Rightarrow> DatabaseStatusRow" where
  "example_status_row i = \<lparr>rdsInstID = i, rdsInstanceName = ''orcl1'', rdsInstanceStatus = ''OPEN'',
     rdsDatabaseStatus = ''ACTIVE'', rdsStartupTime = 0, rdsOpenMode = ''READ WRITE'',
     rdsDatabaseRole = ''PRIMARY'', rdsCDB = ''YES'', rdsConID = 0, rdsConName = ''CDB$ROOT'',
     rdsPlatformName = ''Linux''\<rparr>"

lemma identity_join_exact_witness:
  "snd (applyDatabaseIdentity [database_status_sample 0 ''db'' (example_status_row 1),
      database_status_sample 0 ''db'' (example_status_row 3)]
      [example_identity 2, example_identity 1]) = 1"
proof -
  have "distinct (map idInstID [example_identity 2, example_identity 1])"
    by (simp add: example_identity_def)
  note n = conjunct2 [OF conjunct2 [OF conjunct2 [OF identity_join_exact [OF this]]]]
  show ?thesis unfolding n
    by (simp add: example_identity_def database_status_sample_def example_status_row_def)
qed

end
