(* ===== verification/Scrape.thy ===== *)
theory Scrape
  imports MetricScrape SqlPerformance Operational
begin

text \<open>
  The scheduled scrape (\<open>collector/collector.go\<close>): what the goroutine of one database sends to the
  channels of a pass (\<open>scrapeDatabaseSamples\<close>), and how the pass turns what it receives into a batch
  (\<open>scrapeSamples\<close>, \<open>doScrape\<close>). A channel is the list of the values sent to it.

  The environment of a pass holds every answer from outside: the driver, the clock, the runtime's
  iteration order, and the critical sections that other goroutines (activity sampling, dead connection
  detection) run on the database in between.

  The read lock of the session, which the goroutine takes around its queries, is left out: every
  definition of this theory describes a goroutine that gets it each time it asks. The locks of the
  collectors, and a way in which one is never released, are in \<open>Queries\<close>.
\<close>

record scrape_env =
  sePing :: "go_error option"
  seNow :: time
  seSince :: "string \<Rightarrow> duration"
  seParseDuration :: "string \<Rightarrow> duration result"
  seParseFloat :: "string \<Rightarrow> float64 result"
  seMetric :: "string \<Rightarrow> metric_answer"
  seFresh :: "string \<Rightarrow> nat"
  seAfterMetrics :: "(time \<times> db_action) list"
  seIterate :: "(string \<rightharpoonup> sqlCounterValues) \<Rightarrow> ranked_sql list"
  sePerformance :: performance_answers
  seAfterPerformance :: "(time \<times> db_action) list"
  seLibrary :: dataguard_library
  seOperational :: operational_answers

record scraper_config =
  sgScrapeInterval :: duration
  sgPlans :: SQLPlanConfig
  sgOperational :: OperationalConfig
  sgLabels :: "string list"

text \<open>The state that the goroutine of a database reads and writes.\<close>

record pass_state =
  psDatabase :: Database
  psSql :: sql_state
  psCounters :: counters
  psLastOperational :: "string \<rightharpoonup> time"

text \<open>What the goroutine sends.\<close>

record scrape_out =
  soErrors :: "go_error option list"
  soSamples :: "MetricSample list list"
  soPerformance :: "PerformanceSamples list"
  soOperational :: "OperationalSamples list"
  soStatuses :: "ScrapeStatusSample list list"

definition no_out :: scrape_out where
  "no_out = \<lparr>soErrors = [], soSamples = [], soPerformance = [], soOperational = [], soStatuses = []\<rparr>"

definition send_error :: "go_error option \<Rightarrow> scrape_out \<Rightarrow> scrape_out" where
  "send_error e o1 = o1\<lparr>soErrors := soErrors o1 @ [e]\<rparr>"
definition send_samples :: "MetricSample list \<Rightarrow> scrape_out \<Rightarrow> scrape_out" where
  "send_samples s o1 = o1\<lparr>soSamples := soSamples o1 @ [s]\<rparr>"
definition send_performance :: "PerformanceSamples \<Rightarrow> scrape_out \<Rightarrow> scrape_out" where
  "send_performance p o1 = o1\<lparr>soPerformance := soPerformance o1 @ [p]\<rparr>"
definition send_operational :: "OperationalSamples \<Rightarrow> scrape_out \<Rightarrow> scrape_out" where
  "send_operational p o1 = o1\<lparr>soOperational := soOperational o1 @ [p]\<rparr>"
definition send_statuses :: "ScrapeStatusSample list \<Rightarrow> scrape_out \<Rightarrow> scrape_out" where
  "send_statuses ss o1 = o1\<lparr>soStatuses := soStatuses o1 @ [ss]\<rparr>"

lemmas send_defs = send_error_def send_samples_def send_performance_def send_operational_def
  send_statuses_def

definition out_samples :: "scrape_out \<Rightarrow> nat" where
  "out_samples o1 = sum_list (map length (soSamples o1)) +
     sum_list (map PerformanceSamples_Count (soPerformance o1)) +
     sum_list (map OperationalSamples_Count (soOperational o1))"

section \<open>The goroutine of one database\<close>

text \<open>The loop over the metrics: the count, the joined error, the database and what was sent;
  \<open>None\<close> is a nil dereference in the metrics cache.\<close>

fun scrape_metrics ::
    "scrape_env \<Rightarrow> scraper_config \<Rightarrow> time option \<Rightarrow> time \<Rightarrow> (string \<times> Metric) list \<Rightarrow>
     nat \<times> go_error option \<times> Database \<times> scrape_out \<Rightarrow>
     (nat \<times> go_error option \<times> Database \<times> scrape_out) option" where
  "scrape_metrics env cfg tick collectedAt [] st = Some st"
| "scrape_metrics env cfg tick collectedAt ((i, metric) # rest) (n, joined, d, o1) =
     (case isScrapeMetric (seParseDuration env) tick metric d of
        None \<Rightarrow> None
      | Some False \<Rightarrow> scrape_metrics env cfg tick collectedAt rest (n, joined, d, send_error None o1)
      | Some True \<Rightarrow>
          (case ScrapeMetricSamples (seParseFloat env) (sgLabels cfg) (seFresh env i) d metric collectedAt
                  (seMetric env i) of
             Inl err \<Rightarrow>
               (let o1 = send_error (Some err) o1;
                    joined = errors_join [joined, Some err];
                    (connectionFailed, d) = quarantineConnectionFailure (Some err) (seNow env) d
                in if connectionFailed then Some (n, joined, d, o1)
                   else scrape_metrics env cfg tick collectedAt rest (n, joined, d, o1))
           | Inr samples \<Rightarrow>
               (case SetLastScraped (dMetricsCache d) metric tick of
                  None \<Rightarrow> None
                | Some c \<Rightarrow>
                    scrape_metrics env cfg tick collectedAt rest
                      (n + length samples, joined, d\<lparr>dMetricsCache := c\<rparr>,
                       send_samples samples (send_error None o1)))))"

definition status_of ::
    "scrape_env \<Rightarrow> time \<Rightarrow> Database \<Rightarrow> string \<Rightarrow> nat \<Rightarrow> go_error option \<Rightarrow> ScrapeStatusSample" where
  "status_of env collectedAt d collector n err =
     newScrapeStatus collectedAt (dName d) collector (seSince env collector) n err"

text \<open>The operational part, and the final status.\<close>

definition scrape_operational ::
    "scrape_env \<Rightarrow> scraper_config \<Rightarrow> time \<Rightarrow> nat \<Rightarrow> go_error option \<Rightarrow> pass_state \<Rightarrow> scrape_out \<Rightarrow>
     scrape_out \<times> pass_state" where
  "scrape_operational env cfg collectedAt totalCount databaseErrors s o1 =
     (let d = psDatabase s;
          (due, lastOp) = shouldCollectOperational (Operational_GetEnabled (sgOperational cfg)) (dName d)
                            collectedAt (Operational_GetInterval (sgOperational cfg)) (psLastOperational s);
          s = s\<lparr>psLastOperational := lastOp\<rparr>
      in if \<not> due
         then (send_statuses [status_of env collectedAt d ''scheduled'' totalCount databaseErrors] o1, s)
         else
           let ((operational, statuses, operationalErr), counters) =
                 ScrapeOperationalSamples (seSince env) (seLibrary env) (seOperational env) d collectedAt
                   (psCounters s);
               o1 = (if OperationalSamples_Count operational > 0 then send_operational operational o1 else o1);
               o1 = send_statuses statuses o1;
               o1 = send_error operationalErr o1;
               databaseErrors = errors_join [databaseErrors, operationalErr];
               (failed, d') = quarantineConnectionFailure operationalErr (seNow env) d;
               totalCount = totalCount + OperationalSamples_Count operational
           in (send_statuses [status_of env collectedAt d ''scheduled'' totalCount databaseErrors] o1,
               s\<lparr>psDatabase := d', psCounters := counters\<rparr>))"

definition scrape_performance ::
    "scrape_env \<Rightarrow> scraper_config \<Rightarrow> time \<Rightarrow> nat \<Rightarrow> go_error option \<Rightarrow> pass_state \<Rightarrow> scrape_out \<Rightarrow>
     (scrape_out \<times> pass_state) option" where
  "scrape_performance env cfg collectedAt additionalCount databaseErrors s o1 =
     (let d = psDatabase s in
      case ScrapePerformanceSamples (sgScrapeInterval cfg) (sgPlans cfg) (seIterate env) (sePerformance env)
             d collectedAt (psSql s) of
        None \<Rightarrow> None
      | Some ((performanceSamples, err), sql) \<Rightarrow>
          (let o1 = send_error err o1;
               d = (case err of None \<Rightarrow> d
                    | Some e \<Rightarrow> snd (quarantineConnectionFailure (Some e) (seNow env) d));
               n = PerformanceSamples_Count performanceSamples;
               o1 = (if n > 0 then send_performance performanceSamples o1 else o1);
               o1 = send_statuses [status_of env collectedAt d ''performance'' n err] o1;
               databaseErrors = errors_join [databaseErrors, err];
               totalCount = additionalCount + n;
               d = run_others (seAfterPerformance env) d;
               s = s\<lparr>psDatabase := d, psSql := sql\<rparr>
           in if \<not> isActive d
              then Some (send_statuses [status_of env collectedAt d ''scheduled'' totalCount databaseErrors] o1, s)
              else Some (scrape_operational env cfg collectedAt totalCount databaseErrors s o1)))"

text \<open>The goroutine of a database, apart from the waiting for the read lock of its session.\<close>

definition scrapeDatabaseSamples ::
    "scrape_env \<Rightarrow> scraper_config \<Rightarrow> time option \<Rightarrow> (string \<times> Metric) list \<Rightarrow> pass_state \<Rightarrow>
     (scrape_out \<times> pass_state) option" where
  "scrapeDatabaseSamples env cfg tick metrics s =
     (let d = psDatabase s;
          collectedAt = (case tick of None \<Rightarrow> seNow env | Some t \<Rightarrow> t);
          failure = (\<lambda>err. send_statuses [status_of env collectedAt d ''connectivity'' 0 (Some err),
                                          status_of env collectedAt d ''scheduled'' 0 (Some err)] no_out)
      in if \<not> StartupReady d
         then Some (send_error None
                      (failure (ErrText ''database connection startup is still in progress'')), s)
         else if connectionState d \<noteq> Active
         then let err = ErrText (''database '' @ dName d @ '' is '' @ state_name (connectionState d) @
                                 '' and will not be scraped'')
              in Some (send_error (Some err) (failure err), s)
         else case ping (sePing env) (seNow env) d of
                (Some err, d) \<Rightarrow> Some (send_error (Some err) (failure err), s\<lparr>psDatabase := d\<rparr>)
              | (None, d) \<Rightarrow>
                  (let o1 = send_statuses [status_of env collectedAt d ''connectivity'' 1 None] no_out in
                   case scrape_metrics env cfg tick collectedAt metrics (0, None, d, o1) of
                     None \<Rightarrow> None
                   | Some (additionalCount, additionalErrors, d, o1) \<Rightarrow>
                       (let o1 = (if metrics \<noteq> []
                                  then send_statuses [status_of env collectedAt d ''additional_metrics''
                                         additionalCount additionalErrors] o1
                                  else o1);
                            databaseErrors = errors_join [None, additionalErrors];
                            d = run_others (seAfterMetrics env) d;
                            s = s\<lparr>psDatabase := d\<rparr>
                        in if \<not> isActive d
                           then Some (send_statuses [status_of env collectedAt d ''scheduled''
                                        additionalCount databaseErrors] o1, s)
                           else scrape_performance env cfg collectedAt additionalCount databaseErrors s o1)))"

section \<open>The pass\<close>

text \<open>The capacities of the channels that \<open>scrapeSamples\<close> makes.\<close>

definition err_capacity :: "nat \<Rightarrow> nat \<Rightarrow> nat" where
  "err_capacity metrics databases = (metrics + 2) * databases"
definition sample_capacity :: "nat \<Rightarrow> nat \<Rightarrow> nat" where
  "sample_capacity metrics databases = metrics * databases"
definition status_capacity :: "nat \<Rightarrow> nat" where
  "status_capacity databases = 12 * databases"

text \<open>What the pass makes of the values received from the closed channels.\<close>

definition scrape_batch ::
    "go_error option list \<Rightarrow> MetricSample list list \<Rightarrow> PerformanceSamples list \<Rightarrow> OperationalSamples list \<Rightarrow>
     ScrapeStatusSample list list \<Rightarrow> DatabaseConnectionStateSample list \<Rightarrow> time \<Rightarrow> time \<Rightarrow>
     SampleBatch \<times> ScrapeSummary" where
  "scrape_batch errs sampleCh performanceCh operationalCh statusCh states begun finished =
     (let totalErrors = foldl (\<lambda>n e. if e \<noteq> None then n + 1 else n) 0 errs;
          samples = foldl (@) [] sampleCh;
          performance = collect_performance performanceCh;
          operational = collect_operational operationalCh;
          statuses = foldl (@) [] statusCh
      in (\<lparr>sbAdditionalMetrics = samples, sbPerformance = performance, sbOperational = operational,
           sbScrapeStatuses = statuses, sbConnectionStates = states,
           sbConnectionStatesComplete = True, sbRuntime = None\<rparr>,
          \<lparr>ssStartedAt = begun, ssFinishedAt = finished,
           ssDurationSeconds = duration_seconds (time_sub finished begun),
           ssTotalErrors = totalErrors,
           ssSampleCount = length samples + PerformanceSamples_Count performance +
                           OperationalSamples_Count operational\<rparr>))"

definition doScrape ::
    "string \<Rightarrow> HighAvailabilityConfig \<Rightarrow> nat \<Rightarrow> string \<Rightarrow> time \<Rightarrow> duration \<Rightarrow> int \<Rightarrow>
     SampleBatch \<times> ScrapeSummary \<Rightarrow> SampleBatch \<times> ScrapeSummary" where
  "doScrape instanceName ha databases trigger tick interval missed bs =
     (let (batch, summary) = bs in
      (batch\<lparr>sbRuntime := Some (newRuntimeSample instanceName ha databases ''scheduled'' trigger tick
               (ssStartedAt summary) (ssFinishedAt summary) interval None missed
               (sbScrapeStatuses batch) ''scheduled'' (ssSampleCount summary) (ssTotalErrors summary))\<rparr>,
       summary))"

text \<open>The scrape requests of start-up warm-ups: a channel of capacity one, written without blocking.\<close>

definition requestScheduledScrape :: "nat \<Rightarrow> nat" where
  "requestScheduledScrape pending = (if pending < 1 then pending + 1 else pending)"

section \<open>Lemmas\<close>

lemma send_simps [simp]:
  "soErrors (send_error e o1) = soErrors o1 @ [e]" "soErrors (send_samples s o1) = soErrors o1"
  "soErrors (send_performance p o1) = soErrors o1" "soErrors (send_operational q o1) = soErrors o1"
  "soErrors (send_statuses t o1) = soErrors o1"
  "soSamples (send_error e o1) = soSamples o1" "soSamples (send_samples s o1) = soSamples o1 @ [s]"
  "soSamples (send_performance p o1) = soSamples o1" "soSamples (send_operational q o1) = soSamples o1"
  "soSamples (send_statuses t o1) = soSamples o1"
  "soPerformance (send_error e o1) = soPerformance o1" "soPerformance (send_samples s o1) = soPerformance o1"
  "soPerformance (send_performance p o1) = soPerformance o1 @ [p]"
  "soPerformance (send_operational q o1) = soPerformance o1"
  "soPerformance (send_statuses t o1) = soPerformance o1"
  "soOperational (send_error e o1) = soOperational o1" "soOperational (send_samples s o1) = soOperational o1"
  "soOperational (send_performance p o1) = soOperational o1"
  "soOperational (send_operational q o1) = soOperational o1 @ [q]"
  "soOperational (send_statuses t o1) = soOperational o1"
  "soStatuses (send_error e o1) = soStatuses o1" "soStatuses (send_samples s o1) = soStatuses o1"
  "soStatuses (send_performance p o1) = soStatuses o1" "soStatuses (send_operational q o1) = soStatuses o1"
  "soStatuses (send_statuses t o1) = soStatuses o1 @ [t]"
  by (simp_all add: send_defs)

lemma no_out_simps [simp]:
  "soErrors no_out = []" "soSamples no_out = []" "soPerformance no_out = []" "soOperational no_out = []"
  "soStatuses no_out = []"
  by (simp_all add: no_out_def)

lemma status_of_simps [simp]:
  "stCollector (status_of env t d c n err) = c" "stSuccess (status_of env t d c n err) \<longleftrightarrow> err = None"
  "stSampleCount (status_of env t d c n err) = n"
  by (simp_all add: status_of_def)

text \<open>What the metrics loop adds to the outputs: bounded sends, a count that matches the samples sent,
  and a joined error exactly if some error was sent.\<close>

definition metrics_step_ok :: "nat \<Rightarrow> nat \<times> go_error option \<times> Database \<times> scrape_out \<Rightarrow>
    nat \<times> go_error option \<times> Database \<times> scrape_out \<Rightarrow> bool" where
  "metrics_step_ok k = (\<lambda>(n, joined, d, o1) (n', joined', d', o2).
     \<exists>es ss. soErrors o2 = soErrors o1 @ es \<and> length es \<le> k \<and>
       soSamples o2 = soSamples o1 @ ss \<and> length ss \<le> k \<and>
       n' = n + sum_list (map length ss) \<and>
       (joined' = None \<longleftrightarrow> joined = None \<and> (\<forall>e \<in> set es. e = None)) \<and>
       soPerformance o2 = soPerformance o1 \<and> soOperational o2 = soOperational o1 \<and>
       soStatuses o2 = soStatuses o1)"

lemma metrics_step_trans:
  "metrics_step_ok j a b \<Longrightarrow> metrics_step_ok k b c \<Longrightarrow> metrics_step_ok (j + k) a c"
proof -
  assume ab: "metrics_step_ok j a b" and bc: "metrics_step_ok k b c"
  obtain n jn d o1 where a: "a = (n, jn, d, o1)" by (metis prod_cases4)
  obtain n' jn' d' o2 where b: "b = (n', jn', d', o2)" by (metis prod_cases4)
  obtain n'' jn'' d'' o3 where c: "c = (n'', jn'', d'', o3)" by (metis prod_cases4)
  obtain es ss where 1: "soErrors o2 = soErrors o1 @ es" "length es \<le> j"
    "soSamples o2 = soSamples o1 @ ss" "length ss \<le> j" "n' = n + sum_list (map length ss)"
    "jn' = None \<longleftrightarrow> jn = None \<and> (\<forall>e \<in> set es. e = None)"
    "soPerformance o2 = soPerformance o1" "soOperational o2 = soOperational o1"
    "soStatuses o2 = soStatuses o1" using ab unfolding metrics_step_ok_def a b prod.case by blast
  obtain fs ts where 2: "soErrors o3 = soErrors o2 @ fs" "length fs \<le> k"
    "soSamples o3 = soSamples o2 @ ts" "length ts \<le> k" "n'' = n' + sum_list (map length ts)"
    "jn'' = None \<longleftrightarrow> jn' = None \<and> (\<forall>e \<in> set fs. e = None)"
    "soPerformance o3 = soPerformance o2" "soOperational o3 = soOperational o2"
    "soStatuses o3 = soStatuses o2" using bc unfolding metrics_step_ok_def b c prod.case by blast
  show ?thesis unfolding metrics_step_ok_def a c prod.case
    by (rule exI [of _ "es @ fs"], rule exI [of _ "ss @ ts"]) (use 1 2 in auto)
qed

lemma metrics_step_mono: "metrics_step_ok j a b \<Longrightarrow> j \<le> k \<Longrightarrow> metrics_step_ok k a b"
  by (cases a; cases b) (auto simp: metrics_step_ok_def intro: order_trans)

lemma scrape_metrics_ok:
  "scrape_metrics env cfg tick t ms st = Some st' \<Longrightarrow> metrics_step_ok (length ms) st st'"
proof (induction ms arbitrary: st)
  case Nil
  obtain n jn d o1 where "st = (n, jn, d, o1)" by (metis prod_cases4)
  with Nil show ?case by (auto simp: metrics_step_ok_def)
next
  case (Cons im rest)
  obtain i m where im: "im = (i, m)" by (cases im)
  obtain n jn d o1 where st: "st = (n, jn, d, o1)" by (metis prod_cases4)
  have one: "metrics_step_ok 1 st (n, jn, d, send_error None o1)"
    by (auto simp: metrics_step_ok_def st)
  have err: "metrics_step_ok 1 st (n, errors_join [jn, Some e], d', send_error (Some e) o1)" for e d'
    by (auto simp: metrics_step_ok_def st intro!: exI [of _ "[Some e]"])
  have smp: "metrics_step_ok 1 st (n + length s, jn, d', send_samples s (send_error None o1))" for s d'
    by (auto simp: metrics_step_ok_def st)
  have next_ok: "metrics_step_ok (length (im # rest)) st st'"
    if "metrics_step_ok 1 st mid" "scrape_metrics env cfg tick t rest mid = Some st'" for mid
    using metrics_step_trans [OF that(1) Cons.IH [OF that(2)]] by simp
  show ?case
  proof (cases "isScrapeMetric (seParseDuration env) tick m d")
    case None
    then show ?thesis using Cons.prems im st by simp
  next
    case (Some due)
    show ?thesis
    proof (cases due)
      case False
      then show ?thesis using Cons.prems im st Some next_ok [OF one] by simp
    next
      case True
      show ?thesis
      proof (cases "ScrapeMetricSamples (seParseFloat env) (sgLabels cfg) (seFresh env i) d m t (seMetric env i)")
        case (Inl e)
        obtain failed d' where q: "quarantineConnectionFailure (Some e) (seNow env) d = (failed, d')" by fastforce
        show ?thesis
        proof (cases failed)
          case True
          then have "st' = (n, errors_join [jn, Some e], d', send_error (Some e) o1)"
            using Cons.prems im st Some \<open>due\<close> Inl q by (simp add: Let_def)
          then show ?thesis using metrics_step_mono [OF err [of e d']] by simp
        next
          case False
          then show ?thesis
            using Cons.prems im st Some \<open>due\<close> Inl q next_ok [OF err [of e d']] by (simp add: Let_def)
        qed
      next
        case (Inr samples)
        then show ?thesis
          using Cons.prems im st Some \<open>due\<close> next_ok [OF smp]
          by (auto split: option.splits)
      qed
    qed
  qed
qed

text \<open>What has been sent at some stage of the goroutine, with the count and error so far.\<close>

definition stage_ok ::
    "nat \<Rightarrow> nat \<Rightarrow> nat \<Rightarrow> nat \<Rightarrow> nat \<Rightarrow> nat \<Rightarrow> go_error option \<Rightarrow> scrape_out \<Rightarrow> bool" where
  "stage_ok ne ns np no nst n err o1 \<longleftrightarrow>
     length (soErrors o1) \<le> ne \<and> length (soSamples o1) \<le> ns \<and> length (soPerformance o1) \<le> np \<and>
     length (soOperational o1) \<le> no \<and> length (soStatuses o1) \<le> nst \<and>
     (\<forall>y \<in> set (concat (soStatuses o1)). stCollector y \<noteq> ''scheduled'') \<and>
     n = out_samples o1 \<and> (err = None \<longleftrightarrow> (\<forall>e \<in> set (soErrors o1). e = None))"

text \<open>What every way through the goroutine guarantees, with \<open>k\<close> metrics.\<close>

definition pass_ok :: "nat \<Rightarrow> scrape_out \<Rightarrow> bool" where
  "pass_ok k o1 \<longleftrightarrow>
     length (soErrors o1) \<le> k + 2 \<and> length (soSamples o1) \<le> k \<and> length (soPerformance o1) \<le> 1 \<and>
     length (soOperational o1) \<le> 1 \<and> length (soStatuses o1) \<le> 12 \<and>
     (\<exists>pre x. concat (soStatuses o1) = pre @ [x] \<and> stCollector x = ''scheduled'' \<and>
        (\<forall>y \<in> set pre. stCollector y \<noteq> ''scheduled'') \<and> stSampleCount x = out_samples o1 \<and>
        (stSuccess x \<longrightarrow> (\<forall>e \<in> set (soErrors o1). e = None)))"

lemma out_samples_send [simp]:
  "out_samples (send_error e o1) = out_samples o1" "out_samples (send_statuses t o1) = out_samples o1"
  "out_samples (send_performance p o1) = out_samples o1 + PerformanceSamples_Count p"
  "out_samples (send_operational q o1) = out_samples o1 + OperationalSamples_Count q"
  "out_samples no_out = 0"
  by (simp_all add: out_samples_def)

lemma stage_finish:
  "stage_ok ne ns np no nst n err o1 \<Longrightarrow> ne \<le> k + 2 \<Longrightarrow> ns \<le> k \<Longrightarrow> np \<le> 1 \<Longrightarrow> no \<le> 1 \<Longrightarrow> nst \<le> 11 \<Longrightarrow>
   pass_ok k (send_statuses [status_of env t d ''scheduled'' n err] o1)"
  by (auto simp: stage_ok_def pass_ok_def)

lemma scrape_operational_ok:
  assumes "scrape_operational env cfg t n err s o1 = (o2, s')"
    and stage: "stage_ok (k + 1) k 1 0 3 n err o1"
  shows "pass_ok k o2"
proof -
  let ?d = "psDatabase s"
  obtain due lastOp where due: "shouldCollectOperational (Operational_GetEnabled (sgOperational cfg)) (dName ?d)
      t (Operational_GetInterval (sgOperational cfg)) (psLastOperational s) = (due, lastOp)" by fastforce
  show ?thesis
  proof (cases due)
    case False
    then have "o2 = send_statuses [status_of env t ?d ''scheduled'' n err] o1"
      using assms(1) due by (simp add: scrape_operational_def Let_def)
    then show ?thesis using stage_finish [OF stage] by simp
  next
    case True
    obtain oper statuses operr c where r: "ScrapeOperationalSamples (seSince env) (seLibrary env)
        (seOperational env) ?d t (psCounters s) = ((oper, statuses, operr), c)" by (metis prod_cases3 prod.collapse)
    note st = ScrapeOperationalSamples_statuses(1) [OF r]
    have names: "stCollector y \<noteq> ''scheduled''" if "y \<in> set statuses" for y
      using st that by auto
    let ?o = "send_error operr (send_statuses statuses
      (if OperationalSamples_Count oper > 0 then send_operational oper o1 else o1))"
    have "stage_ok (k + 2) k 1 1 4 (n + OperationalSamples_Count oper) (errors_join [err, operr]) ?o"
      using stage names by (auto simp: stage_ok_def)
    moreover have "o2 = send_statuses [status_of env t ?d ''scheduled''
        (n + OperationalSamples_Count oper) (errors_join [err, operr])] ?o"
      using assms(1) due True r by (auto simp: scrape_operational_def Let_def split: prod.splits)
    ultimately show ?thesis using stage_finish [of "k + 2" k 1 1 4] by simp
  qed
qed

lemma scrape_performance_ok:
  assumes "scrape_performance env cfg t n err s o1 = Some (o2, s')"
    and stage: "stage_ok k k 0 0 2 n err o1"
  shows "pass_ok k o2"
proof -
  let ?d = "psDatabase s"
  obtain p perr sql where r: "ScrapePerformanceSamples (sgScrapeInterval cfg) (sgPlans cfg) (seIterate env)
      (sePerformance env) ?d t (psSql s) = Some ((p, perr), sql)"
    using assms(1) by (auto simp: scrape_performance_def Let_def split: option.splits)
  define d1 where "d1 = (case perr of None \<Rightarrow> ?d | Some e \<Rightarrow> snd (quarantineConnectionFailure (Some e) (seNow env) ?d))"
  define d2 where "d2 = run_others (seAfterPerformance env) d1"
  define o3 where "o3 = send_statuses [status_of env t d1 ''performance'' (PerformanceSamples_Count p) perr]
    (if PerformanceSamples_Count p > 0 then send_performance p (send_error perr o1) else send_error perr o1)"
  have st: "stage_ok (k + 1) k 1 0 3 (n + PerformanceSamples_Count p) (errors_join [err, perr]) o3"
    using stage by (auto simp: stage_ok_def o3_def)
  have "(if \<not> isActive d2
      then Some (send_statuses [status_of env t d2 ''scheduled'' (n + PerformanceSamples_Count p)
             (errors_join [err, perr])] o3, s\<lparr>psDatabase := d2, psSql := sql\<rparr>)
      else Some (scrape_operational env cfg t (n + PerformanceSamples_Count p) (errors_join [err, perr])
             (s\<lparr>psDatabase := d2, psSql := sql\<rparr>) o3)) = Some (o2, s')"
    using assms(1) unfolding scrape_performance_def Let_def r option.case prod.case
      d1_def d2_def o3_def .
  then show ?thesis
    using stage_finish [OF st, of k] scrape_operational_ok [OF _ st]
    by (cases "isActive d2") auto
qed

lemma scrapeDatabaseSamples_ok:
  assumes "scrapeDatabaseSamples env cfg tick metrics s = Some (o2, s')"
  shows "pass_ok (length metrics) o2"
proof -
  let ?d = "psDatabase s" and ?t = "case tick of None \<Rightarrow> seNow env | Some t \<Rightarrow> t"
  have fail: "pass_ok k (send_error e (send_statuses [status_of env t d ''connectivity'' 0 (Some err),
      status_of env t d ''scheduled'' 0 (Some err)] no_out))" for k e t d err
    by (auto simp: pass_ok_def)
  consider "\<not> StartupReady ?d" | "StartupReady ?d" "connectionState ?d \<noteq> Active"
    | "StartupReady ?d" "connectionState ?d = Active" by blast
  then show ?thesis
  proof cases
    case 3
    obtain e d1 where p: "ping (sePing env) (seNow env) ?d = (e, d1)" by fastforce
    show ?thesis
    proof (cases e)
      case (Some err)
      then show ?thesis using 3 p assms fail by (auto simp: scrapeDatabaseSamples_def Let_def)
    next
      case None
      define o1 where "o1 = send_statuses [status_of env ?t d1 ''connectivity'' 1 None] no_out"
      obtain n jn d2 o3 where m: "scrape_metrics env cfg tick ?t metrics (0, None, d1, o1) = Some (n, jn, d2, o3)"
        using 3 p assms None
        by (auto simp: scrapeDatabaseSamples_def Let_def o1_def split: option.splits)
      define o4 where "o4 = (if metrics \<noteq> []
        then send_statuses [status_of env ?t d2 ''additional_metrics'' n jn] o3 else o3)"
      define d3 where "d3 = run_others (seAfterMetrics env) d2"
      from scrape_metrics_ok [OF m] have
        stage: "stage_ok (length metrics) (length metrics) 0 0 2 n (errors_join [None, jn]) o4"
        by (auto simp: metrics_step_ok_def o1_def o4_def stage_ok_def out_samples_def)
      have "(if \<not> isActive d3
          then Some (send_statuses [status_of env ?t d3 ''scheduled'' n (errors_join [None, jn])] o4,
                 s\<lparr>psDatabase := d3\<rparr>)
          else scrape_performance env cfg ?t n (errors_join [None, jn]) (s\<lparr>psDatabase := d3\<rparr>) o4) =
        Some (o2, s')"
        using assms unfolding scrapeDatabaseSamples_def Let_def d3_def o4_def
        by (simp only: 3 p None m [unfolded o1_def] prod.case option.case if_False not_True_eq_False
            simp_thms)
      then show ?thesis
        using stage_finish [OF stage, of "length metrics"] scrape_performance_ok [OF _ stage]
        by (cases "isActive d3") auto
    qed
  qed (use assms fail in \<open>auto simp: scrapeDatabaseSamples_def Let_def\<close>)
qed

section \<open>The goroutine does not panic\<close>

lemma QuarantineConnectionFailure_cache [simp]:
  "dMetricsCache (snd (quarantineConnectionFailure err t d)) = dMetricsCache d"
  by (auto simp: quarantineConnectionFailure_def suspendActivity_def quarantine_def setUp_def
      split: option.splits)

lemma ping_cache [simp]: "dMetricsCache (snd (ping answer t d)) = dMetricsCache d"
  by (auto simp: ping_def suspendActivity_def quarantine_def setUp_def resumeActivity_def
      split: option.splits)

lemma SetLastScraped_covered:
  "mID m \<in> dom c \<Longrightarrow> \<exists>c'. SetLastScraped c m t = Some c' \<and> dom c' = dom c"
  by (auto simp: SetLastScraped_def)

lemma isScrapeMetric_covered: "mID m \<in> dom (dMetricsCache d) \<Longrightarrow> isScrapeMetric pd t m d \<noteq> None"
  by (auto simp: isScrapeMetric_def GetLastScraped_def split: option.splits)

lemma scrape_metrics_total:
  assumes "mID ` snd ` set ms \<subseteq> dom (dMetricsCache d)"
  shows "scrape_metrics env cfg tick t ms (n, jn, d, o1) \<noteq> None"
  using assms
proof (induction ms arbitrary: n jn d o1)
  case (Cons im rest)
  obtain i m where im: "im = (i, m)" by (cases im)
  obtain due where due: "isScrapeMetric (seParseDuration env) tick m d = Some due"
    using isScrapeMetric_covered [of m d] Cons.prems im by fastforce
  obtain c' where c: "SetLastScraped (dMetricsCache d) m tick = Some c'" "dom c' = dom (dMetricsCache d)"
    using SetLastScraped_covered [of m "dMetricsCache d" tick] Cons.prems im by fastforce
  show ?case
  proof (cases due)
    case False
    then show ?thesis using due im Cons.IH [of d] Cons.prems by simp
  next
    case True
    show ?thesis
    proof (cases "ScrapeMetricSamples (seParseFloat env) (sgLabels cfg) (seFresh env i) d m t (seMetric env i)")
      case (Inl e)
      obtain failed d' where q: "quarantineConnectionFailure (Some e) (seNow env) d = (failed, d')" by fastforce
      then have "dMetricsCache d' = dMetricsCache d"
        using QuarantineConnectionFailure_cache [of "Some e" "seNow env" d] by simp
      then show ?thesis using due im True Inl q Cons.IH [of d'] Cons.prems by (auto simp: Let_def)
    next
      case (Inr samples)
      then show ?thesis using due im True c Cons.IH [of "d\<lparr>dMetricsCache := c'\<rparr>"] Cons.prems by simp
    qed
  qed
qed simp

lemma takeTop_total: "0 \<le> n \<Longrightarrow> takeTopSQLConsumers db n es s \<noteq> None"
  by (simp add: takeTopSQLConsumers_def Let_def)

lemma ScrapePerformanceSamples_total:
  assumes "0 \<le> Plans_GetTopN cfg"
  shows "ScrapePerformanceSamples iv cfg iterate a d t s \<noteq> None"
proof -
  have details: "(scrape_details cfg iterate a d t s = None) = False" for s
    using takeTop_total [OF assms] unfolding scrape_details_def Let_def
    by (auto split: option.splits prod.splits if_splits)
  show ?thesis
    unfolding ScrapePerformanceSamples_def Let_def
    by (auto simp: details split: option.splits prod.splits if_splits)
qed

lemma scrapeDatabaseSamples_total:
  assumes "mID ` snd ` set metrics \<subseteq> dom (dMetricsCache (psDatabase s))" and "0 \<le> Plans_GetTopN (sgPlans cfg)"
  shows "\<exists>o1 s'. scrapeDatabaseSamples env cfg tick metrics s = Some (o1, s')"
proof -
  let ?t = "case tick of None \<Rightarrow> seNow env | Some t \<Rightarrow> t"
  obtain e d1 where p: "ping (sePing env) (seNow env) (psDatabase s) = (e, d1)" by fastforce
  then have "dMetricsCache d1 = dMetricsCache (psDatabase s)"
    using ping_cache [of "sePing env" "seNow env" "psDatabase s"] by simp
  with assms(1) have "scrape_metrics env cfg tick t metrics (0, None, d1, o1) \<noteq> None" for t o1
    using scrape_metrics_total [of metrics d1] by simp
  moreover have "scrape_performance env cfg t n err s' o1 \<noteq> None" for t n err s' o1
    using ScrapePerformanceSamples_total [OF assms(2)] unfolding scrape_performance_def Let_def
    by (auto split: option.splits prod.splits)
  moreover obtain n jn d2 o3 where m: "scrape_metrics env cfg tick ?t metrics
      (0, None, d1, send_statuses [status_of env ?t d1 ''connectivity'' 1 None] no_out) = Some (n, jn, d2, o3)"
    using calculation(1) by (metis not_None_eq prod_cases4)
  ultimately have "scrapeDatabaseSamples env cfg tick metrics s \<noteq> None"
    unfolding scrapeDatabaseSamples_def Let_def by (cases e) (simp_all add: p m)
  then show ?thesis by auto
qed

section \<open>Properties\<close>


text \<open>
  C5: the goroutine of a database reports its pass exactly once. Whichever way it ends (not started,
  quarantined, failed ping, connection lost on the way, or all the way through) its last status is the
  only one of the collector \<open>scheduled\<close>, the number in it is that of the samples it sent, and it is a
  success only if no error was sent.
\<close>
theorem scheduled_status_exact:
  assumes "scrapeDatabaseSamples env cfg tick metrics s = Some (o1, s')"
  shows "\<exists>pre x. concat (soStatuses o1) = pre @ [x] \<and> stCollector x = ''scheduled'' \<and>
    (\<forall>y \<in> set pre. stCollector y \<noteq> ''scheduled'') \<and> stSampleCount x = out_samples o1 \<and>
    (stSuccess x \<longrightarrow> (\<forall>e \<in> set (soErrors o1). e = None))"
  using scrapeDatabaseSamples_ok [OF assms] by (simp add: pass_ok_def)

lemma foldl_append_concat: "foldl (@) acc xss = acc @ concat xss"
  by (induction xss arbitrary: acc) auto

text \<open>
  The summary of a pass counts every sample and every error exactly once, in whatever order the
  values of the goroutines arrive on the channels.
\<close>
theorem pass_summary_exact:
  assumes "mset sampleCh = mset (concat (map soSamples outs))"
    and "mset performanceCh = mset (concat (map soPerformance outs))"
    and "mset operationalCh = mset (concat (map soOperational outs))"
    and "mset errs = mset (concat (map soErrors outs))"
    and "scrape_batch errs sampleCh performanceCh operationalCh statusCh states begun fin = (b, summary)"
  shows "ssSampleCount summary = sum_list (map out_samples outs) \<and>
    ssTotalErrors summary = sum_list (map (\<lambda>o1. length (filter (\<lambda>e. e \<noteq> None) (soErrors o1))) outs) \<and>
    SampleBatch_Count b = ssSampleCount summary + length (sbScrapeStatuses b) + length states"
proof -
  have sum_mset: "sum_list (map f xs) = sum_list (map f ys)" if "mset xs = mset ys"
    for f :: "'x \<Rightarrow> nat" and xs ys
    using that by (metis mset_map sum_mset_sum_list)
  have count: "foldl (\<lambda>n e. if e \<noteq> None then n + 1 else n) 0 errs = length (filter (\<lambda>e. e \<noteq> None) errs)"
    using foldl_count_filter [of "\<lambda>e. e \<noteq> None" 0 errs] by simp
  have "length (filter (\<lambda>e. e \<noteq> None) errs) = length (filter (\<lambda>e. e \<noteq> None) (concat (map soErrors outs)))"
    using assms(4) by (metis mset_filter size_mset)
  also have "\<dots> = sum_list (map (\<lambda>o1. length (filter (\<lambda>e. e \<noteq> None) (soErrors o1))) outs)"
    by (induction outs) auto
  finally have errors: "length (filter (\<lambda>e. e \<noteq> None) errs) = \<dots>" .
  have "sum_list (map length sampleCh) + sum_list (map PerformanceSamples_Count performanceCh) +
      sum_list (map OperationalSamples_Count operationalCh) = sum_list (map out_samples outs)"
    unfolding sum_mset [OF assms(1)] sum_mset [OF assms(2)] sum_mset [OF assms(3)]
    by (induction outs) (auto simp: out_samples_def)
  then show ?thesis
    using assms(5) count errors
    by (auto simp: scrape_batch_def Let_def collect_performance_Count collect_operational_Count
        foldl_append_concat length_concat SampleBatch_Count_def)
qed

section \<open>Witnesses\<close>

definition empty_answers :: operational_answers where
  "empty_answers = \<lparr>oaDatabaseStatus = no_rows, oaDatabaseIdentity = no_rows, oaInstances = no_rows,
     oaInstanceMemory = no_rows, oaResourceLimits = no_rows, oaTablespaces = no_rows,
     oaTablespaceAllocation = no_rows, oaASMDiskgroups = no_rows, oaSystemCounters = no_rows,
     oaCPUAndIOCounters = no_rows, oaWaitClasses = no_rows, oaSystemMetrics = no_rows,
     oaDataGuard = \<lparr>dgDiscovery = no_rows, dgDestinations = no_rows, dgLag = no_rows,
       dgProcesses = no_rows\<rparr>\<rparr>"

definition quiet_env :: scrape_env where
  "quiet_env = \<lparr>sePing = None, seNow = 7, seSince = (\<lambda>_. second), seParseDuration = (\<lambda>_. Inr minute),
     seParseFloat = (\<lambda>_. Inr 0), seMetric = (\<lambda>_. one_row), seFresh = (\<lambda>_. 0), seAfterMetrics = [],
     seIterate = (\<lambda>_. []), sePerformance = quiet_database, seAfterPerformance = [],
     seLibrary = \<lparr>dgParseFloat = (\<lambda>_. Inl ErrCanceled), dgParseTime = (\<lambda>_ _. None)\<rparr>,
     seOperational = empty_answers\<rparr>"

definition quiet_config :: scraper_config where
  "quiet_config = \<lparr>sgScrapeInterval = minute, sgPlans = example_plan_config,
     sgOperational = \<lparr>operEnabled = None, operInterval = None, operQueryTimeout = None\<rparr>,
     sgLabels = []\<rparr>"

definition covered_state :: "Metric \<Rightarrow> pass_state" where
  "covered_state m = \<lparr>psDatabase = example_database\<lparr>dMetricsCache := [mID m \<mapsto> None]\<rparr>,
     psSql = initial_sql_state, psCounters = Map.empty, psLastOperational = Map.empty\<rparr>"


lemma scheduled_status_exact_witness:
  "\<exists>o1 s' pre x. scrapeDatabaseSamples quiet_env quiet_config (Some 5) [] (covered_state (example_metric [])) =
     Some (o1, s') \<and> concat (soStatuses o1) = pre @ [x] \<and> stCollector x = ''scheduled'' \<and>
     stSampleCount x = out_samples o1"
proof -
  have "\<exists>o1 s'. scrapeDatabaseSamples quiet_env quiet_config (Some 5) [] (covered_state (example_metric [])) =
     Some (o1, s')"
    by (simp add: scrapeDatabaseSamples_def StartupReady_def covered_state_def example_database_def
        NewDatabase_def Let_def)
  then obtain o1 s' where r: "scrapeDatabaseSamples quiet_env quiet_config (Some 5) []
     (covered_state (example_metric [])) = Some (o1, s')" by blast
  from scheduled_status_exact [OF r] r show ?thesis by blast
qed

lemma pass_summary_exact_witness:
  "ssTotalErrors (snd (scrape_batch [Some ErrBadConn, None] [[], []] [no_performance] [] [] [] 5 9)) = 1"
proof -
  let ?o1 = "send_error None (send_samples [] (send_performance no_performance no_out))"
  let ?o2 = "send_error (Some ErrBadConn) (send_samples [] no_out)"
  obtain b summary where b: "scrape_batch [Some ErrBadConn, None] [[], []] [no_performance] [] [] [] 5 9 =
    (b, summary)" by fastforce
  have "ssTotalErrors summary = sum_list (map (\<lambda>o1. length (filter (\<lambda>e. e \<noteq> None) (soErrors o1))) [?o1, ?o2])"
    by (rule conjunct1 [OF conjunct2 [OF pass_summary_exact [OF _ _ _ _ b]]]) simp_all
  then show ?thesis by (simp add: b)
qed

end
