(* ===== verification/DeadConnection.thy ===== *)
theory DeadConnection
  imports Database Runtime
begin

text \<open>
  Dead connection detection (\<open>collector/dead_connection_detection.go\<close>): one pass probes the
  quarantined databases one after the other and writes a batch with one status per probe.
\<close>

text \<open>
  What happens around the probe of one database: whether the context was cancelled before it, the
  clock at its start and end, the driver's answers to the reconnection, and the critical sections of
  other goroutines that run while the probe waits for the driver.
\<close>

record probe_env =
  peCancelled :: bool
  peStarted :: time
  peConnect :: "nat result"
  peWarmup :: warmup_answers
  peOthers :: "(time \<times> db_action) list"
  peFinished :: time

text \<open>\<open>recoverDatabase\<close> without the test hook.\<close>

definition recoverDatabase :: "probe_env \<Rightarrow> Database \<Rightarrow> go_error option \<times> Database" where
  "recoverDatabase env d = reconnect (peConnect env) (peWarmup env) d"

text \<open>One iteration for a database that \<open>beginProbe\<close> admits: its status and its new state.\<close>

definition probe_database ::
    "time \<Rightarrow> probe_env \<Rightarrow> Database \<Rightarrow> go_error option \<times> ScrapeStatusSample \<times> Database" where
  "probe_database scheduledAt env d =
     (let (err, d) = recoverDatabase env (run_others (peOthers env) d);
          d = finishProbe (peStarted env) err (peFinished env) d
      in (err,
          newScrapeStatus scheduledAt (dName d) ''dead_connection_detection''
            (time_sub (peFinished env) (peStarted env)) 0 err,
          d))"

record dcd_counts =
  dcdStatuses :: "ScrapeStatusSample list"
  dcdAttempted :: nat
  dcdRecovered :: nat
  dcdErrors :: nat

definition count_probe :: "go_error option \<Rightarrow> ScrapeStatusSample \<Rightarrow> dcd_counts \<Rightarrow> dcd_counts" where
  "count_probe err status c =
     (let c = c\<lparr>dcdAttempted := dcdAttempted c + 1, dcdStatuses := dcdStatuses c @ [status]\<rparr>
      in if err \<noteq> None then c\<lparr>dcdErrors := dcdErrors c + 1\<rparr>
         else c\<lparr>dcdRecovered := dcdRecovered c + 1\<rparr>)"

text \<open>The loop. The Boolean tells that the context was cancelled: the pass returns and writes nothing.\<close>

fun dcd_loop :: "time \<Rightarrow> (probe_env \<times> Database) list \<Rightarrow> dcd_counts \<Rightarrow> bool \<times> dcd_counts \<times> Database list" where
  "dcd_loop scheduledAt [] c = (False, c, [])"
| "dcd_loop scheduledAt ((env, d) # rest) c =
     (if peCancelled env then (True, c, d # map snd rest)
      else let (admitted, d') = beginProbe (peStarted env) d in
           if \<not> admitted
           then let (stop, c', ds) = dcd_loop scheduledAt rest c in (stop, c', d' # ds)
           else let (err, status, d'') = probe_database scheduledAt env d';
                    (stop, c', ds) = dcd_loop scheduledAt rest (count_probe err status c)
                in (stop, c', d'' # ds))"

definition no_counts :: dcd_counts where
  "no_counts = \<lparr>dcdStatuses = [], dcdAttempted = 0, dcdRecovered = 0, dcdErrors = 0\<rparr>"

text \<open>The batch and summary of a pass; \<open>None\<close> when it was cancelled.\<close>

definition dcd_batch ::
    "DeadConnectionDetectionConfig \<Rightarrow> HighAvailabilityConfig \<Rightarrow> string \<Rightarrow> time \<Rightarrow> time \<Rightarrow> time \<Rightarrow>
     dcd_counts \<Rightarrow> Database list \<Rightarrow> SampleBatch \<times> ScrapeSummary" where
  "dcd_batch cfg ha instanceName scheduledAt startedAt finishedAt c databases =
     (let statuses = dcdStatuses c;
          missed = time_sub finishedAt startedAt sdiv DCD_GetInterval cfg
      in (\<lparr>sbAdditionalMetrics = [], sbPerformance = no_performance, sbOperational = no_operational,
           sbScrapeStatuses = statuses,
           sbConnectionStates = connectionStateSamples finishedAt instanceName databases,
           sbConnectionStatesComplete = True,
           sbRuntime = Some \<lparr>rtObservedAt = 0, rtScheduler = ''dead_connection_detection'',
             rtTrigger = ''ticker'', rtScraperInstance = instanceName, rtHAScope = HA_GetScope ha,
             rtScheduledAt = scheduledAt, rtStartedAt = startedAt,
             rtCollectionFinishedAt = finishedAt, rtFinishedAt = 0,
             rtConfiguredIntervalSeconds = duration_seconds (DCD_GetInterval cfg),
             rtConfiguredQueryTimeoutSeconds = Some (duration_seconds (DCD_GetProbeTimeout cfg)),
             rtSchedulingLagSeconds =
               duration_seconds (nonNegativeDuration (time_sub startedAt scheduledAt)),
             rtCollectionDurationSeconds = duration_seconds (time_sub finishedAt startedAt),
             rtPostgreSQLWriteDurationSeconds = 0, rtTotalDurationSeconds = 0,
             rtMissedIntervals = missed, rtDatabasesAttempted = dcdAttempted c,
             rtDatabasesSucceeded = dcdRecovered c, rtSampleCount = length statuses,
             rtErrorCount = dcdErrors c, rtPostgreSQLWriteSuccess = False,
             rtPostgreSQLErrorMessage = None\<rparr>\<rparr>,
          \<lparr>ssStartedAt = startedAt, ssFinishedAt = finishedAt,
           ssDurationSeconds = duration_seconds (time_sub finishedAt startedAt),
           ssTotalErrors = dcdErrors c, ssSampleCount = length statuses\<rparr>))"

definition runDeadConnectionDetection ::
    "DeadConnectionDetectionConfig \<Rightarrow> HighAvailabilityConfig \<Rightarrow> string \<Rightarrow> time \<Rightarrow> time \<Rightarrow> time \<Rightarrow>
     (probe_env \<times> Database) list \<Rightarrow> (SampleBatch \<times> ScrapeSummary) option \<times> Database list" where
  "runDeadConnectionDetection cfg ha instanceName scheduledAt startedAt finishedAt eds =
     (case dcd_loop scheduledAt eds no_counts of
        (True, c, ds) \<Rightarrow> (None, ds)
      | (False, c, ds) \<Rightarrow>
          (Some (dcd_batch cfg ha instanceName scheduledAt startedAt finishedAt c ds), ds))"

section \<open>Lemmas\<close>

lemma beginProbe_admits: "fst (beginProbe now d) \<longleftrightarrow> connectionState d = Quarantined"
  by (simp add: beginProbe_def Let_def connectionState_def)

lemma beginProbe_refused: "\<not> fst (beginProbe now d) \<Longrightarrow> snd (beginProbe now d) = d"
  by (simp add: beginProbe_def Let_def split: if_splits)

lemma finishProbe_state:
  "connectionState (finishProbe started err now d) = (if err = None then Active else Quarantined)"
  by (cases err)
    (simp_all add: finishProbe_def Let_def connectionState_def quarantineLocked_def)

lemma probe_database_status:
  "probe_database s env d = (err, status, d') \<Longrightarrow>
     stSuccess status \<longleftrightarrow> err = None"
  "probe_database s env d = (err, status, d') \<Longrightarrow>
     connectionState d' = (if err = None then Active else Quarantined)"
  by (auto simp: probe_database_def Let_def finishProbe_state split: prod.splits)

text \<open>One iteration, case by case.\<close>

lemma dcd_loop_cancelled: "peCancelled env \<Longrightarrow> dcd_loop s ((env, d) # rest) c = (True, c, d # map snd rest)"
  by simp

lemma dcd_loop_skipped:
  "\<not> peCancelled env \<Longrightarrow> connectionState d \<noteq> Quarantined \<Longrightarrow>
   dcd_loop s ((env, d) # rest) c =
     (case dcd_loop s rest c of (stop, c', ds) \<Rightarrow> (stop, c', d # ds))"
  by (simp add: beginProbe_def Let_def connectionState_def)

lemma dcd_loop_probed:
  "\<not> peCancelled env \<Longrightarrow> connectionState d = Quarantined \<Longrightarrow>
   probe_database s env (snd (beginProbe (peStarted env) d)) = (err, status, d') \<Longrightarrow>
   dcd_loop s ((env, d) # rest) c =
     (case dcd_loop s rest (count_probe err status c) of (stop, c', ds) \<Rightarrow> (stop, c', d' # ds))"
  using beginProbe_admits [of "peStarted env" d]
  by (cases "beginProbe (peStarted env) d") (simp add: Let_def)

declare dcd_loop.simps(2) [simp del]

definition counts_ok :: "dcd_counts \<Rightarrow> bool" where
  "counts_ok c \<longleftrightarrow>
     dcdAttempted c = length (dcdStatuses c) \<and>
     dcdRecovered c = length (filter stSuccess (dcdStatuses c)) \<and>
     dcdErrors c = length (filter (\<lambda>st. \<not> stSuccess st) (dcdStatuses c))"

lemma counts_ok_count_probe:
  "counts_ok c \<Longrightarrow> stSuccess status \<longleftrightarrow> err = None \<Longrightarrow> counts_ok (count_probe err status c)"
  by (auto simp: counts_ok_def count_probe_def Let_def)

text \<open>What the pass does to one database: left alone, or probed and then active or quarantined.\<close>

definition probe_outcome :: "bool \<Rightarrow> Database \<Rightarrow> Database \<Rightarrow> bool" where
  "probe_outcome stop d d' \<longleftrightarrow>
     (if connectionState d \<noteq> Quarantined then d' = d
      else stop \<and> d' = d \<or> connectionState d' = Active \<or> connectionState d' = Quarantined)"

lemma dcd_loop_invariant:
  assumes "dcd_loop s eds c = (stop, c', ds)" and "counts_ok c"
  shows "counts_ok c' \<and> list_all2 (probe_outcome stop) (map snd eds) ds"
  using assms
proof (induction eds arbitrary: c c' ds)
  case (Cons ed rest)
  obtain env d where ed: "ed = (env, d)" by (cases ed)
  have same: "list_all2 (probe_outcome True) xs xs" for xs
    by (rule list.rel_refl) (simp add: probe_outcome_def)
  consider "peCancelled env" | "\<not> peCancelled env" "connectionState d \<noteq> Quarantined"
    | "\<not> peCancelled env" "connectionState d = Quarantined" by blast
  then show ?case
  proof cases
    case 1
    with Cons.prems ed same [of "d # map snd rest"] show ?thesis by (auto simp: dcd_loop_cancelled)
  next
    case 2
    then obtain ds1 where "dcd_loop s rest c = (stop, c', ds1)" "ds = d # ds1"
      using Cons.prems(1) ed by (auto simp: dcd_loop_skipped split: prod.splits)
    with Cons.IH [of c c' ds1] Cons.prems(2) ed 2 show ?thesis by (simp add: probe_outcome_def)
  next
    case 3
    obtain err status d' where p: "probe_database s env (snd (beginProbe (peStarted env) d)) = (err, status, d')"
      by (metis prod_cases3)
    from 3 obtain ds1 where "dcd_loop s rest (count_probe err status c) = (stop, c', ds1)" "ds = d' # ds1"
      using Cons.prems(1) ed dcd_loop_probed [OF 3 p] by (auto split: prod.splits)
    moreover have "counts_ok (count_probe err status c)"
      using counts_ok_count_probe Cons.prems(2) probe_database_status(1) [OF p] by blast
    moreover have "probe_outcome stop d d'"
      using probe_database_status(2) [OF p] 3 by (simp add: probe_outcome_def)
    ultimately show ?thesis using Cons.IH ed by simp
  qed
qed simp

lemma dcd_loop_result:
  assumes "dcd_loop s eds no_counts = (stop, c, ds)"
  shows "counts_ok c" and "list_all2 (probe_outcome stop) (map snd eds) ds"
  using dcd_loop_invariant [OF assms] by (auto simp: counts_ok_def no_counts_def)

text \<open>
  A pass of dead connection detection that is not cancelled reports every probe exactly once
  (attempted = recovered + failed = statuses), leaves every database that was not quarantined as it
  was, and leaves no database under probe: each one it probed is active or back in quarantine.
\<close>
theorem dcd_pass_accounts:
  assumes "runDeadConnectionDetection cfg ha inst s st fin eds = (Some (b, summary), ds)"
  shows "(\<exists>r. sbRuntime b = Some r \<and>
      rtDatabasesAttempted r = length (sbScrapeStatuses b) \<and>
      rtDatabasesAttempted r = rtDatabasesSucceeded r + rtErrorCount r \<and>
      rtDatabasesSucceeded r = length (filter stSuccess (sbScrapeStatuses b)) \<and>
      ssTotalErrors summary = rtErrorCount r) \<and>
    list_all2 (\<lambda>d d'. if connectionState d = Quarantined
             then connectionState d' = Active \<or> connectionState d' = Quarantined
             else d' = d) (map snd eds) ds"
proof
  obtain c where loop: "dcd_loop s eds no_counts = (False, c, ds)"
    and b: "dcd_batch cfg ha inst s st fin c ds = (b, summary)"
    using assms by (auto simp: runDeadConnectionDetection_def split: prod.splits bool.splits)
  show "\<exists>r. sbRuntime b = Some r \<and>
      rtDatabasesAttempted r = length (sbScrapeStatuses b) \<and>
      rtDatabasesAttempted r = rtDatabasesSucceeded r + rtErrorCount r \<and>
      rtDatabasesSucceeded r = length (filter stSuccess (sbScrapeStatuses b)) \<and>
      ssTotalErrors summary = rtErrorCount r"
    using dcd_loop_result(1) [OF loop] b sum_length_filter_compl [of stSuccess "dcdStatuses c"]
    by (auto simp: dcd_batch_def Let_def counts_ok_def)
  show "list_all2 (\<lambda>d d'. if connectionState d = Quarantined
             then connectionState d' = Active \<or> connectionState d' = Quarantined
             else d' = d) (map snd eds) ds"
    using dcd_loop_result(2) [OF loop]
    by (rule list.rel_mono_strong) (auto simp: probe_outcome_def split: if_splits)
qed

definition quarantined_database :: Database where
  "quarantined_database = quarantine (Some ErrConnDone) 5 example_database"

definition example_dcd_config :: DeadConnectionDetectionConfig where
  "example_dcd_config = \<lparr>dcdEnabled = None, dcdInterval = None, dcdProbeTimeout = None\<rparr>"

definition example_ha_config :: HighAvailabilityConfig where
  "example_ha_config = \<lparr>haEnabled = None, haScope = [], haRetryInterval = None, haValidationInterval = None\<rparr>"

definition example_probes :: "(probe_env \<times> Database) list" where
  "example_probes =
     [(\<lparr>peCancelled = False, peStarted = 100, peConnect = Inl ErrBadConn,
        peWarmup = \<lparr>waPing = None, waConn = (\<lambda>_. None)\<rparr>, peOthers = [], peFinished = 120\<rparr>,
       quarantined_database),
      (\<lparr>peCancelled = False, peStarted = 130, peConnect = Inr 2,
        peWarmup = \<lparr>waPing = None, waConn = (\<lambda>_. None)\<rparr>, peOthers = [], peFinished = 160\<rparr>,
       example_database)]"

lemma dcd_pass_accounts_witness:
  "\<exists>b summary ds.
     runDeadConnectionDetection example_dcd_config example_ha_config ''h:1'' 90 95 170 example_probes =
       (Some (b, summary), ds) \<and> connectionState (ds ! 0) \<noteq> Probing \<and> ds ! 1 = example_database"
proof -
  have run: "\<exists>b summary ds.
     runDeadConnectionDetection example_dcd_config example_ha_config ''h:1'' 90 95 170 example_probes =
       (Some (b, summary), ds)"
    by (auto simp: runDeadConnectionDetection_def example_probes_def dcd_loop.simps split: prod.splits)
  then obtain b summary ds where r:
    "runDeadConnectionDetection example_dcd_config example_ha_config ''h:1'' 90 95 170 example_probes =
       (Some (b, summary), ds)" by blast
  have "connectionState quarantined_database = Quarantined" "connectionState example_database = Starting"
    by (simp_all add: quarantined_database_def connectionState_def quarantineLocked_def Let_def
        example_database_def NewDatabase_def)
  with dcd_pass_accounts [OF r] r show ?thesis
    by (auto simp: example_probes_def list_all2_Cons1)
qed

section \<open>Deviations\<close>

text \<open>
  C40: when the warm-up of a pool fails at its k-th connection, the connections acquired before it are
  never handed back to the pool (only the success path closes them), whatever the pool size.
\<close>
theorem failed_warmup_leaks_connections:
  assumes "waPing w = None" and "waConn w k = Some err" and "\<forall>i < k. waConn w i = None"
    and "int k < warmup_pool_size c"
  shows "warmupSession c w (Some s) = (Some err, k, 0)"
proof -
  have "acquire_connections w i n held = (Some err, held + (k - i))"
    if "i \<le> k" "k < i + n" for i n held
    using that
  proof (induction n arbitrary: i held)
    case (Suc n)
    show ?case
    proof (cases "i = k")
      case True
      then show ?thesis using assms(2) by simp
    next
      case False
      then show ?thesis using Suc.IH [of "Suc i" "Suc held"] Suc.prems assms(3) by auto
    qed
  qed simp
  from this [of 0 "nat (warmup_pool_size c)" 0] assms(1,4) show ?thesis
    by (simp add: warmupSession_def)
qed

lemma failed_warmup_leaks_connections_witness:
  "warmupSession sample_connect_config
     \<lparr>waPing = None, waConn = (\<lambda>i. if i = 3 then Some ErrCanceled else None)\<rparr> (Some 1) =
   (Some ErrCanceled, 3, 0)"
  by (rule failed_warmup_leaks_connections)
    (simp_all add: warmup_pool_size_def sample_connect_config_def GetMaxOpenConns_def)

text \<open>
  A network error is a connection failure on its own, and the same error joined with the timeout
  of another collector (as \<open>ScrapeOperationalSamples\<close> joins them) is not, unless its text has one of
  the markers: the database is then not quarantined.
\<close>
theorem timeout_masks_network_error:
  "isConnectionFailure (Some (ErrNet text)) \<and>
   \<not> isConnectionFailure (Some (ErrJoin
       [ErrWrap ''dataguard'' (ErrWrap ''Oracle query timed out'' ErrDeadlineExceeded),
        ErrWrap ''tablespaces'' (ErrNet ''read tcp: i/o timeout'')]))"
proof
  show "isConnectionFailure (Some (ErrNet text))" by simp
  let ?e = "ErrJoin [ErrWrap ''dataguard'' (ErrWrap ''Oracle query timed out'' ErrDeadlineExceeded),
        ErrWrap ''tablespaces'' (ErrNet ''read tcp: i/o timeout'')]"
  have "to_upper (err_message ?e) =
    ''DATAGUARD: ORACLE QUERY TIMED OUT: CONTEXT DEADLINE EXCEEDED'' @ [CHR 0x0A] @
    ''TABLESPACES: READ TCP: I/O TIMEOUT''"
    by (simp add: to_upper_def upper_char_def byte_of_def char_of_def bit_Suc_0_iff)
  then have "\<not> list_ex (str_contains (to_upper (err_message ?e))) connection_markers"
    by (simp add: connection_markers_def has_prefix_def)
  then show "\<not> isConnectionFailure (Some ?e)" by simp
qed

end
