(* ===== verification/RowsActivity.thy ===== *)
theory RowsActivity
  imports SamplesPerf SqlNull
begin

text \<open>
  The rows of the two activity queries (\<open>collector/activity.go\<close>) and their conversion to samples.
\<close>

record SessionActivityRow =
  rsaInstID :: int64
  rsaSessionID :: int64
  rsaSerialNumber :: "int64 sql_null"
  rsaUserID :: "int64 sql_null"
  rsaSqlID :: "string sql_null"
  rsaSqlChildNumber :: "int64 sql_null"
  rsaSqlExecID :: "int64 sql_null"
  rsaSqlExecStart :: "time sql_null"
  rsaSessionState :: "string sql_null"
  rsaEvent :: "string sql_null"
  rsaWaitClass :: "string sql_null"
  rsaWaitTime :: "int64 sql_null"
  rsaTimeWaited :: "int64 sql_null"
  rsaBlockingSession :: "int64 sql_null"
  rsaBlockingInstID :: "int64 sql_null"
  rsaObjectID :: "int64 sql_null"
  rsaFileNumber :: "int64 sql_null"
  rsaBlockNumber :: "int64 sql_null"
  rsaProgram :: "string sql_null"
  rsaModule :: "string sql_null"
  rsaAction :: "string sql_null"
  rsaMachine :: "string sql_null"
  rsaConID :: "int64 sql_null"
  rsaServiceName :: "string sql_null"
  rsaClientID :: "string sql_null"

definition session_activity_sample :: "time \<Rightarrow> string \<Rightarrow> int64 \<Rightarrow> int64 \<Rightarrow> SessionActivityRow \<Rightarrow> DatabaseActivitySample" where
  "session_activity_sample sampledAt database sampleID durationMicro r =
     \<lparr>daCollectedAt = sampledAt, daDatabase = database, daSampleID = sampleID,
      daSampleTime = sampledAt, daInstID = rsaInstID r, daSessionID = rsaSessionID r,
      daSessionSerialNumber = int64Ptr (rsaSerialNumber r),
      daSessionType = Some ''FOREGROUND'', daUserID = int64Ptr (rsaUserID r),
      daSQLID = stringPtr (rsaSqlID r), daSQLChildNumber = int64Ptr (rsaSqlChildNumber r),
      daSQLExecID = int64Ptr (rsaSqlExecID r), daSQLExecStart = timePtr (rsaSqlExecStart r),
      daTopLevelSQLID = None, daSessionState = stringPtr (rsaSessionState r),
      daEvent = stringPtr (rsaEvent r), daWaitClass = stringPtr (rsaWaitClass r),
      daWaitTimeMicro = int64Ptr (rsaWaitTime r),
      daTimeWaitedMicro = int64Ptr (rsaTimeWaited r),
      daBlockingSession = int64Ptr (rsaBlockingSession r), daBlockingSessionSerial = None,
      daBlockingInstID = int64Ptr (rsaBlockingInstID r),
      daCurrentObjectID = int64Ptr (rsaObjectID r),
      daCurrentFileNumber = int64Ptr (rsaFileNumber r),
      daCurrentBlockNumber = int64Ptr (rsaBlockNumber r),
      daProgram = stringPtr (rsaProgram r), daModule = stringPtr (rsaModule r),
      daAction = stringPtr (rsaAction r), daMachine = stringPtr (rsaMachine r),
      daPGAAllocated = None, daTempSpaceAllocated = None, daConID = int64Ptr (rsaConID r),
      daSampleSource = ''SESSION'', daSampleDurationMicro = durationMicro,
      daSQLPlanHashValue = None, daSQLFullPlanHashValue = None, daSQLPlanLineID = None,
      daServiceHash = None, daServiceName = stringPtr (rsaServiceName r),
      daClientIdentifier = stringPtr (rsaClientID r)\<rparr>"

record ASHRow =
  rashSampleID :: int64
  rashSampleTime :: time
  rashInstID :: int64
  rashSessionID :: int64
  rashSerialNumber :: "int64 sql_null"
  rashSessionType :: "string sql_null"
  rashUserID :: "int64 sql_null"
  rashSqlID :: "string sql_null"
  rashSqlChildNumber :: "int64 sql_null"
  rashSqlExecID :: "int64 sql_null"
  rashSqlExecStart :: "time sql_null"
  rashTopSQLID :: "string sql_null"
  rashSessionState :: "string sql_null"
  rashEvent :: "string sql_null"
  rashWaitClass :: "string sql_null"
  rashWaitTime :: "int64 sql_null"
  rashTimeWaited :: "int64 sql_null"
  rashBlockingSession :: "int64 sql_null"
  rashBlockingSerial :: "int64 sql_null"
  rashBlockingInstID :: "int64 sql_null"
  rashObjectID :: "int64 sql_null"
  rashFileNumber :: "int64 sql_null"
  rashBlockNumber :: "int64 sql_null"
  rashProgram :: "string sql_null"
  rashModule :: "string sql_null"
  rashAction :: "string sql_null"
  rashMachine :: "string sql_null"
  rashPga :: "int64 sql_null"
  rashTemp :: "int64 sql_null"
  rashConID :: "int64 sql_null"
  rashUsecs :: "int64 sql_null"
  rashPlanHash :: "int64 sql_null"
  rashFullPlanHash :: "int64 sql_null"
  rashPlanLineID :: "int64 sql_null"
  rashServiceHash :: "int64 sql_null"
  rashClientID :: "string sql_null"

definition ash_sample :: "time \<Rightarrow> string \<Rightarrow> duration \<Rightarrow> ASHRow \<Rightarrow> DatabaseActivitySample" where
  "ash_sample sampledAt database interval r =
     \<lparr>daCollectedAt = sampledAt, daDatabase = database, daSampleID = rashSampleID r,
      daSampleTime = rashSampleTime r, daInstID = rashInstID r,
      daSessionID = rashSessionID r, daSessionSerialNumber = int64Ptr (rashSerialNumber r),
      daSessionType = stringPtr (rashSessionType r), daUserID = int64Ptr (rashUserID r),
      daSQLID = stringPtr (rashSqlID r), daSQLChildNumber = int64Ptr (rashSqlChildNumber r),
      daSQLExecID = int64Ptr (rashSqlExecID r),
      daSQLExecStart = timePtr (rashSqlExecStart r),
      daTopLevelSQLID = stringPtr (rashTopSQLID r),
      daSessionState = stringPtr (rashSessionState r), daEvent = stringPtr (rashEvent r),
      daWaitClass = stringPtr (rashWaitClass r), daWaitTimeMicro = int64Ptr (rashWaitTime r),
      daTimeWaitedMicro = int64Ptr (rashTimeWaited r),
      daBlockingSession = int64Ptr (rashBlockingSession r),
      daBlockingSessionSerial = int64Ptr (rashBlockingSerial r),
      daBlockingInstID = int64Ptr (rashBlockingInstID r),
      daCurrentObjectID = int64Ptr (rashObjectID r),
      daCurrentFileNumber = int64Ptr (rashFileNumber r),
      daCurrentBlockNumber = int64Ptr (rashBlockNumber r),
      daProgram = stringPtr (rashProgram r), daModule = stringPtr (rashModule r),
      daAction = stringPtr (rashAction r), daMachine = stringPtr (rashMachine r),
      daPGAAllocated = int64Ptr (rashPga r), daTempSpaceAllocated = int64Ptr (rashTemp r),
      daConID = int64Ptr (rashConID r), daSampleSource = ''ASH'',
      daSampleDurationMicro = nullableDuration (rashUsecs r) interval,
      daSQLPlanHashValue = int64Ptr (rashPlanHash r),
      daSQLFullPlanHashValue = int64Ptr (rashFullPlanHash r),
      daSQLPlanLineID = int64Ptr (rashPlanLineID r),
      daServiceHash = int64Ptr (rashServiceHash r), daServiceName = None,
      daClientIdentifier = stringPtr (rashClientID r)\<rparr>"

end
