(* ===== verification/Activity.thy ===== *)
theory Activity
  imports RowsActivity Database Runtime
begin

text \<open>
  Activity sampling (\<open>collector/activity.go\<close>): the two collectors (active sessions, active session
  history), one pass over the databases, and the watermark of the history of each database. The pass
  runs one goroutine per database and receives their results in any order.
\<close>

section \<open>Collectors\<close>

definition unix_epoch :: time where
  "unix_epoch = 62135596800 * second"

definition unix_nano :: "time \<Rightarrow> int64" where
  "unix_nano t = word_of_int (t - unix_epoch)"

definition activityQueryError :: "bool \<Rightarrow> go_error \<Rightarrow> go_error" where
  "activityQueryError deadline err =
     (if deadline then ErrWrap ''Oracle activity query timed out'' ErrDeadlineExceeded else err)"

text \<open>The loop of both collectors, which look at the deadline only when the query failed.\<close>

definition activity_rows :: "('r \<Rightarrow> DatabaseActivitySample) \<Rightarrow> 'r query \<Rightarrow>
    DatabaseActivitySample list \<times> go_error option" where
  "activity_rows f q =
     (case qError q of
        Some err \<Rightarrow> ([], Some (activityQueryError (qDeadline q) err))
      | None \<Rightarrow> (case scan_samples f [] (qRows q) of
                  Inl err \<Rightarrow> ([], Some err)
                | Inr samples \<Rightarrow> (samples, qRowsErr q)))"

record activity_answers =
  aaSession :: "SessionActivityRow query"
  aaASH :: "time \<Rightarrow> ASHRow query"

definition scrapeSessionActivitySamples ::
    "ActivityConfig \<Rightarrow> activity_answers \<Rightarrow> Database \<Rightarrow> time \<Rightarrow>
     DatabaseActivitySample list \<times> go_error option" where
  "scrapeSessionActivitySamples cfg a d sampledAt =
     activity_rows
       (session_activity_sample sampledAt (dName d) (unix_nano sampledAt)
          (word_of_int (duration_microseconds (Activity_GetInterval cfg))))
       (QueryContext d (aaSession a))"

text \<open>The instant after which the history is read.\<close>

definition ash_since :: "ActivityConfig \<Rightarrow> (string \<rightharpoonup> time) \<Rightarrow> string \<Rightarrow> time \<Rightarrow> time" where
  "ash_since cfg activityWatermarks db sampledAt =
     (case activityWatermarks db of
        None \<Rightarrow> time_add sampledAt (- 2 * minute)
      | Some since \<Rightarrow> time_add since (- Activity_GetInterval cfg))"

definition scrapeASHSamples ::
    "ActivityConfig \<Rightarrow> (string \<rightharpoonup> time) \<Rightarrow> activity_answers \<Rightarrow> Database \<Rightarrow> time \<Rightarrow>
     DatabaseActivitySample list \<times> go_error option" where
  "scrapeASHSamples cfg activityWatermarks a d sampledAt =
     activity_rows (ash_sample sampledAt (dName d) (Activity_GetInterval cfg))
       (QueryContext d (aaASH a (ash_since cfg activityWatermarks (dName d) sampledAt)))"

definition scrapeActivitySamples ::
    "ActivityConfig \<Rightarrow> (string \<rightharpoonup> time) \<Rightarrow> activity_answers \<Rightarrow> Database \<Rightarrow> time \<Rightarrow>
     DatabaseActivitySample list \<times> go_error option" where
  "scrapeActivitySamples cfg activityWatermarks a d sampledAt =
     (if Activity_GetSource cfg = ''ash'' then scrapeASHSamples cfg activityWatermarks a d sampledAt
      else scrapeSessionActivitySamples cfg a d sampledAt)"

section \<open>A pass\<close>

record activity_result =
  arDatabase :: string
  arDuration :: duration
  arSamples :: "DatabaseActivitySample list"
  arErr :: "go_error option"
  arSkipped :: bool

definition skipped_result :: "Database \<Rightarrow> go_error \<Rightarrow> activity_result" where
  "skipped_result d err = \<lparr>arDatabase = dName d, arDuration = 0, arSamples = [], arErr = Some err,
     arSkipped = True\<rparr>"

text \<open>One database: its result and its new state. \<open>elapsed\<close> and \<open>now\<close> are readings of the clock.\<close>

definition sample_database ::
    "ActivityConfig \<Rightarrow> (string \<rightharpoonup> time) \<Rightarrow> activity_answers \<Rightarrow> time \<Rightarrow> duration \<Rightarrow> time \<Rightarrow> Database \<Rightarrow>
     activity_result \<times> Database" where
  "sample_database cfg watermarks a sampledAt since now d =
     (if \<not> StartupReady d
      then (skipped_result d (ErrText ''database connection startup is still in progress''), d)
      else if connectionState d \<noteq> Active
      then (skipped_result d (ErrText (''database connection state is '' @ state_name (connectionState d))), d)
      else case activityUnavailable d of
             Some err \<Rightarrow> (skipped_result d err, d)
           | None \<Rightarrow>
               (let (samples, err) = scrapeActivitySamples cfg watermarks a d sampledAt;
                    d' = (case err of
                            None \<Rightarrow> d
                          | Some e \<Rightarrow>
                              (let (failed, d) = quarantineConnectionFailure (Some e) now d in
                               if failed then d else suspendActivity (Some e) d))
                in (\<lparr>arDatabase = dName d, arDuration = since, arSamples = samples, arErr = err,
                     arSkipped = False\<rparr>, d')))"

text \<open>The loop over the results: activity samples, statuses, latest history times, errors.\<close>

record activity_acc =
  acSamples :: "DatabaseActivitySample list"
  acStatuses :: "ScrapeStatusSample list"
  acLatestASH :: "string \<rightharpoonup> time"
  acErrors :: nat

definition no_activity :: activity_acc where
  "no_activity = \<lparr>acSamples = [], acStatuses = [], acLatestASH = Map.empty, acErrors = 0\<rparr>"

definition latest_ash :: "string \<Rightarrow> DatabaseActivitySample \<Rightarrow> (string \<rightharpoonup> time) \<Rightarrow> (string \<rightharpoonup> time)" where
  "latest_ash db s m =
     (if daSampleSource s = ''ASH'' \<and>
         time_after (daSampleTime s) (case m db of None \<Rightarrow> 0 | Some t \<Rightarrow> t)
      then m(db \<mapsto> daSampleTime s) else m)"

definition take_result :: "time \<Rightarrow> activity_result \<Rightarrow> activity_acc \<Rightarrow> activity_acc" where
  "take_result sampledAt r acc =
     (case arErr r of
        Some err \<Rightarrow>
          acc\<lparr>acErrors := acErrors acc + 1,
              acStatuses := acStatuses acc @
                [newScrapeStatusWithDuration sampledAt (arDatabase r) ''activity'' (arDuration r) 0 (Some err)]\<rparr>
      | None \<Rightarrow>
          acc\<lparr>acStatuses := acStatuses acc @
                [newScrapeStatusWithDuration sampledAt (arDatabase r) ''activity'' (arDuration r)
                   (length (arSamples r)) None],
              acSamples := acSamples acc @ arSamples r,
              acLatestASH := fold (latest_ash (arDatabase r)) (arSamples r) (acLatestASH acc)\<rparr>)"

definition take_results :: "time \<Rightarrow> activity_result list \<Rightarrow> activity_acc" where
  "take_results sampledAt results = foldl (\<lambda>acc r. take_result sampledAt r acc) no_activity results"

definition activity_batch ::
    "ActivityConfig \<Rightarrow> HighAvailabilityConfig \<Rightarrow> string \<Rightarrow> nat \<Rightarrow> string \<Rightarrow> time \<Rightarrow> int \<Rightarrow> time \<Rightarrow> time \<Rightarrow>
     activity_result list \<Rightarrow> SampleBatch \<times> ScrapeSummary" where
  "activity_batch cfg ha instanceName databases trigger sampledAt missed started finished results =
     (let acc = take_results sampledAt results;
          summary = \<lparr>ssStartedAt = started, ssFinishedAt = finished,
            ssDurationSeconds = duration_seconds (time_sub finished started),
            ssTotalErrors = acErrors acc, ssSampleCount = length (acSamples acc)\<rparr>
      in (\<lparr>sbAdditionalMetrics = [],
           sbPerformance = no_performance\<lparr>pfDatabaseActivity := acSamples acc\<rparr>,
           sbOperational = no_operational, sbScrapeStatuses = acStatuses acc, sbConnectionStates = [],
           sbConnectionStatesComplete = False,
           sbRuntime = Some (newRuntimeSample instanceName ha databases ''activity'' trigger sampledAt
             started finished (Activity_GetInterval cfg) (Some (Activity_GetQueryTimeout cfg)) missed
             (acStatuses acc) ''activity'' (ssSampleCount summary) (acErrors acc))\<rparr>,
          summary))"

text \<open>The watermarks after the write: a failed write leaves them.\<close>

definition advance_watermarks :: "bool \<Rightarrow> activity_acc \<Rightarrow> (string \<rightharpoonup> time) \<Rightarrow> (string \<rightharpoonup> time)" where
  "advance_watermarks written acc watermarks =
     (if \<not> written then watermarks else watermarks ++ acLatestASH acc)"

section \<open>Lemmas\<close>

lemma activity_rows_ok:
  "activity_rows f q = (samples, None) \<Longrightarrow> \<exists>rs. qRows q = map Inr rs \<and> samples = map f rs"
  by (auto simp: activity_rows_def scan_samples_Inr split: option.splits sum.splits)

lemma activity_rows_samples: "activity_rows f q = (samples, err) \<Longrightarrow> s \<in> set samples \<Longrightarrow> \<exists>r. s = f r"
  by (auto simp: activity_rows_def scan_samples_Inr split: option.splits sum.splits)

lemma take_results_acc:
  "foldl (\<lambda>acc r. take_result t r acc) acc rs =
     \<lparr>acSamples = acSamples acc @ concat (map arSamples (filter (\<lambda>r. arErr r = None) rs)),
      acStatuses = acStatuses acc @ map (\<lambda>r. newScrapeStatusWithDuration t (arDatabase r) ''activity''
        (arDuration r) (if arErr r = None then length (arSamples r) else 0) (arErr r)) rs,
      acLatestASH = fold (\<lambda>r. fold (latest_ash (arDatabase r)) (arSamples r))
        (filter (\<lambda>r. arErr r = None) rs) (acLatestASH acc),
      acErrors = acErrors acc + length (filter (\<lambda>r. arErr r \<noteq> None) rs)\<rparr>"
  by (induction rs arbitrary: acc) (auto simp: take_result_def split: option.splits)

lemma take_results_eq:
  "take_results t rs =
     \<lparr>acSamples = concat (map arSamples (filter (\<lambda>r. arErr r = None) rs)),
      acStatuses = map (\<lambda>r. newScrapeStatusWithDuration t (arDatabase r) ''activity''
        (arDuration r) (if arErr r = None then length (arSamples r) else 0) (arErr r)) rs,
      acLatestASH = fold (\<lambda>r. fold (latest_ash (arDatabase r)) (arSamples r))
        (filter (\<lambda>r. arErr r = None) rs) Map.empty,
      acErrors = length (filter (\<lambda>r. arErr r \<noteq> None) rs)\<rparr>"
  unfolding take_results_def take_results_acc by (simp add: no_activity_def)

lemma activity_batch_fields:
  "sbScrapeStatuses (fst (activity_batch cfg ha inst n trigger t missed st fin rs)) = acStatuses (take_results t rs)"
  "pfDatabaseActivity (sbPerformance (fst (activity_batch cfg ha inst n trigger t missed st fin rs))) =
     acSamples (take_results t rs)"
  "ssTotalErrors (snd (activity_batch cfg ha inst n trigger t missed st fin rs)) = acErrors (take_results t rs)"
  "ssSampleCount (snd (activity_batch cfg ha inst n trigger t missed st fin rs)) =
     length (acSamples (take_results t rs))"
  by (simp_all add: activity_batch_def Let_def)

lemma latest_ash_other: "db' \<noteq> db \<Longrightarrow> latest_ash db s m db' = m db'"
  by (simp add: latest_ash_def)

lemma fold_latest_other: "db' \<noteq> db \<Longrightarrow> fold (latest_ash db) ss m db' = m db'"
  by (induction ss arbitrary: m) (auto simp: latest_ash_other)

text \<open>The latest time of a database: not older than before nor than any history sample, and one of them.\<close>

definition time_at :: "(string \<rightharpoonup> time) \<Rightarrow> string \<Rightarrow> time" where
  "time_at m db = (case m db of None \<Rightarrow> 0 | Some t \<Rightarrow> t)"

lemma latest_ash_step:
  "time_at m db \<le> time_at (latest_ash db s m) db"
  "daSampleSource s = ''ASH'' \<Longrightarrow> daSampleTime s \<le> time_at (latest_ash db s m) db"
  "latest_ash db s m db = m db \<or>
     (daSampleSource s = ''ASH'' \<and> latest_ash db s m db = Some (daSampleTime s))"
  by (auto simp: latest_ash_def time_at_def time_after_def split: option.splits)

lemma fold_latest_mono: "time_at m db \<le> time_at (fold (latest_ash db) ss m) db"
proof (induction ss arbitrary: m)
  case (Cons s ss)
  have "time_at m db \<le> time_at (latest_ash db s m) db" by (rule latest_ash_step)
  also have "\<dots> \<le> time_at (fold (latest_ash db) ss (latest_ash db s m)) db" by (rule Cons.IH)
  finally show ?case by simp
qed simp

lemma fold_latest_upper:
  "s \<in> set ss \<Longrightarrow> daSampleSource s = ''ASH'' \<Longrightarrow>
   daSampleTime s \<le> time_at (fold (latest_ash db) ss m) db"
proof (induction ss arbitrary: m)
  case (Cons x ss)
  show ?case
  proof (cases "s = x")
    case True
    then have "daSampleTime s \<le> time_at (latest_ash db x m) db" using Cons.prems latest_ash_step(2) by simp
    also have "\<dots> \<le> time_at (fold (latest_ash db) ss (latest_ash db x m)) db" by (rule fold_latest_mono)
    finally show ?thesis by simp
  next
    case False
    then show ?thesis using Cons by simp
  qed
qed simp

lemma fold_latest_source:
  "fold (latest_ash db) ss m db = m db \<or>
     (\<exists>s \<in> set ss. daSampleSource s = ''ASH'' \<and> fold (latest_ash db) ss m db = Some (daSampleTime s))"
proof (induction ss arbitrary: m)
  case (Cons s ss)
  from Cons.IH [of "latest_ash db s m"] latest_ash_step(3) [of db s m] show ?case by auto
qed simp

lemma latest_ash_same: "m db = m' db \<Longrightarrow> latest_ash db s m db = latest_ash db s m' db"
  by (simp add: latest_ash_def)

lemma fold_latest_same: "m db = m' db \<Longrightarrow> fold (latest_ash db) ss m db = fold (latest_ash db) ss m' db"
proof (induction ss arbitrary: m m')
  case (Cons s ss)
  have "latest_ash db s m db = latest_ash db s m' db" using Cons.prems by (rule latest_ash_same)
  then show ?case unfolding fold_Cons comp_apply by (rule Cons.IH)
qed simp

lemma fold_results_other:
  "db \<notin> arDatabase ` set rs \<Longrightarrow>
   fold (\<lambda>r. fold (latest_ash (arDatabase r)) (arSamples r)) rs m db = m db"
  by (induction rs arbitrary: m) (auto simp: fold_latest_other)

lemma take_results_latest:
  assumes "distinct (map arDatabase rs)" and "r \<in> set rs" and "arErr r = None"
  shows "acLatestASH (take_results t rs) (arDatabase r) =
    fold (latest_ash (arDatabase r)) (arSamples r) Map.empty (arDatabase r)"
proof -
  let ?ok = "filter (\<lambda>r. arErr r = None) rs" and ?f = "\<lambda>r. fold (latest_ash (arDatabase r)) (arSamples r)"
  have "r \<in> set ?ok" using assms by simp
  then obtain us vs where split: "?ok = us @ r # vs" by (meson split_list)
  have "distinct (map arDatabase ?ok)" using assms(1) by (simp add: distinct_map_filter)
  then have "arDatabase r \<notin> arDatabase ` set us" "arDatabase r \<notin> arDatabase ` set vs"
    by (auto simp: split)
  then have us: "fold ?f us Map.empty (arDatabase r) = None"
    and vs: "\<And>m. fold ?f vs m (arDatabase r) = m (arDatabase r)"
    by (simp_all add: fold_results_other)
  have "acLatestASH (take_results t rs) (arDatabase r) = fold ?f ?ok Map.empty (arDatabase r)"
    by (simp add: take_results_eq)
  also have "\<dots> = ?f r (fold ?f us Map.empty) (arDatabase r)" by (simp add: split vs)
  also have "\<dots> = ?f r Map.empty (arDatabase r)" by (rule fold_latest_same) (simp add: us)
  finally show ?thesis .
qed

text \<open>A row of the history, a result with two of them, and a failed one, for the examples.\<close>

definition example_ash_row :: "time \<Rightarrow> ASHRow" where
  "example_ash_row t = ASHRow.make 1 t 1 42 (True, 7) (True, ''FOREGROUND'') (False, 0)
     (True, ''7ws837zynp1zv'') (False, 0) (False, 0) (False, 0) (False, []) (True, ''WAITING'')
     (True, ''db file sequential read'') (True, ''User I/O'') (False, 0) (False, 0) (False, 0) (False, 0)
     (False, 0) (False, 0) (False, 0) (False, 0) (False, []) (False, []) (False, []) (False, []) (False, 0)
     (False, 0) (False, 0) (True, 1000000) (False, 0) (False, 0) (False, 0) (False, 0) (False, [])"

definition example_result :: activity_result where
  "example_result = \<lparr>arDatabase = ''orcl'', arDuration = 5,
     arSamples = [ash_sample 50 ''orcl'' second (example_ash_row 20), ash_sample 50 ''orcl'' second (example_ash_row 40)],
     arErr = None, arSkipped = False\<rparr>"

definition example_failure :: activity_result where
  "example_failure = \<lparr>arDatabase = ''xe'', arDuration = 9, arSamples = [],
     arErr = Some (ErrText ''ORA-00942''), arSkipped = False\<rparr>"

section \<open>Properties\<close>

lemma take_results_other:
  assumes "\<forall>r \<in> set rs. arDatabase r = db \<longrightarrow> arErr r \<noteq> None \<or> arSamples r = []"
  shows "acLatestASH (take_results t rs) db = None"
proof -
  have same: "fold (\<lambda>r. fold (latest_ash (arDatabase r)) (arSamples r)) xs m db = m db"
    if "\<forall>r \<in> set xs. arDatabase r = db \<longrightarrow> arSamples r = []" for xs :: "activity_result list" and m
    using that
  proof (induction xs arbitrary: m)
    case (Cons r xs)
    have "fold (latest_ash (arDatabase r)) (arSamples r) m db = m db"
    proof (cases "arDatabase r = db")
      case False
      then show ?thesis using fold_results_other [of db "[r]" m] by auto
    qed (use Cons.prems in simp)
    then show ?case using Cons.IH Cons.prems by simp
  qed simp
  have "\<forall>r \<in> set (filter (\<lambda>r. arErr r = None) rs). arDatabase r = db \<longrightarrow> arSamples r = []"
    using assms by auto
  from same [OF this, of Map.empty] show ?thesis by (simp add: take_results_eq)
qed

text \<open>
  C10: the history of a database is read without gaps. After a pass whose write succeeded, the next read
  of a database that answered with history samples starts an interval before its newest written
  sample, which is one of those samples. After a failed write, and for every other database (it did not
  answer, had no new samples, or was no part of the pass), the next read starts where it would have
  started before the pass, which is two minutes before the tick for a database without watermark.
\<close>
theorem history_read_without_gaps:
  assumes "distinct (map arDatabase rs)"
    and "\<forall>r \<in> set rs. \<forall>s \<in> set (arSamples r). daSampleSource s = ''ASH'' \<and> 0 < daSampleTime s"
  shows "let w' = advance_watermarks written (take_results t rs) w;
      answered = (\<lambda>r. written \<and> r \<in> set rs \<and> arDatabase r = db \<and> arErr r = None \<and> arSamples r \<noteq> []) in
    (\<forall>r. answered r \<longrightarrow>
      (\<exists>s \<in> set (arSamples r). (\<forall>s' \<in> set (arSamples r). daSampleTime s' \<le> daSampleTime s) \<and>
         ash_since cfg w' db t' = daSampleTime s - Activity_GetInterval cfg)) \<and>
    ((\<nexists>r. answered r) \<longrightarrow> ash_since cfg w' db t' = ash_since cfg w db t') \<and>
    (w db = None \<longrightarrow> ash_since cfg w db t' = t' - 2 * minute)"
proof -
  let ?w' = "advance_watermarks written (take_results t rs) w"
  let ?ans = "\<lambda>r. written \<and> r \<in> set rs \<and> arDatabase r = db \<and> arErr r = None \<and> arSamples r \<noteq> []"
  let ?l = "acLatestASH (take_results t rs) db"
  have "\<exists>s \<in> set (arSamples r). (\<forall>s' \<in> set (arSamples r). daSampleTime s' \<le> daSampleTime s) \<and>
      ash_since cfg ?w' db t' = daSampleTime s - Activity_GetInterval cfg" if r: "?ans r" for r
  proof -
    have mem: "r \<in> set rs" and db: "arDatabase r = db" and err: "arErr r = None" and ne: "arSamples r \<noteq> []"
      and written using r by auto
    let ?m = "fold (latest_ash db) (arSamples r) Map.empty"
    have l: "?l = ?m db" using take_results_latest [OF assms(1) mem err, of t] db by simp
    have ok: "\<forall>s \<in> set (arSamples r). daSampleSource s = ''ASH'' \<and> 0 < daSampleTime s" using assms(2) mem by blast
    have upper: "daSampleTime s' \<le> time_at ?m db" if "s' \<in> set (arSamples r)" for s'
      using fold_latest_upper [OF that, of db Map.empty] ok that by blast
    from ne obtain s0 where "s0 \<in> set (arSamples r)" by (cases "arSamples r") auto
    then have "0 < time_at ?m db" using upper ok by fastforce
    then have "?m db \<noteq> None" by (cases "?m db") (simp_all add: time_at_def)
    then obtain s where s: "s \<in> set (arSamples r)" "?m db = Some (daSampleTime s)"
      using fold_latest_source [of db "arSamples r" Map.empty] by auto
    then have "time_at ?m db = daSampleTime s" by (simp add: time_at_def)
    moreover have "ash_since cfg ?w' db t' = daSampleTime s - Activity_GetInterval cfg"
      using s(2) l \<open>written\<close> by (simp add: advance_watermarks_def ash_since_def time_add_def map_add_def)
    ultimately show ?thesis using s(1) upper by auto
  qed
  moreover have "ash_since cfg ?w' db t' = ash_since cfg w db t'" if none: "\<nexists>r. ?ans r"
  proof (cases written)
    case True
    then have "?l = None" using none by (intro take_results_other) auto
    then show ?thesis by (simp add: advance_watermarks_def ash_since_def map_add_def)
  qed (simp add: advance_watermarks_def)
  moreover have "ash_since cfg w db t' = t' - 2 * minute" if "w db = None"
    using that by (simp add: ash_since_def time_add_def)
  ultimately show ?thesis unfolding Let_def by blast
qed

lemma history_read_without_gaps_witness:
  "ash_since (ActivityConfig.make ''ash'' None None)
     (advance_watermarks True (take_results 50 [example_failure, example_result]) Map.empty) ''orcl'' 90 =
     40 - 2 * second"
proof -
  let ?rs = "[example_failure, example_result]" and ?cfg = "ActivityConfig.make ''ash'' None None"
  have r: "distinct (map arDatabase ?rs)"
    "\<forall>r \<in> set ?rs. \<forall>s \<in> set (arSamples r). daSampleSource s = ''ASH'' \<and> 0 < daSampleTime s"
    by (simp_all add: example_failure_def example_result_def ash_sample_def example_ash_row_def ASHRow.defs)
  have a: "True \<and> example_result \<in> set ?rs \<and> arDatabase example_result = ''orcl'' \<and>
      arErr example_result = None \<and> arSamples example_result \<noteq> []" by (simp add: example_result_def)
  have newest: "daSampleTime s = 40" if "s \<in> set (arSamples example_result)"
    "\<forall>s' \<in> set (arSamples example_result). daSampleTime s' \<le> daSampleTime s" for s
    using that by (auto simp: example_result_def ash_sample_def example_ash_row_def ASHRow.defs)
  have cfg: "Activity_GetInterval ?cfg = 2 * second"
    by (simp add: Activity_GetInterval_def ActivityConfig.defs or_default_def)
  note p = history_read_without_gaps [OF r, of True 50 Map.empty "''orcl''" ?cfg 90, unfolded Let_def]
  from p [THEN conjunct1, rule_format, OF a]
  obtain s where s: "s \<in> set (arSamples example_result)"
    "\<forall>s' \<in> set (arSamples example_result). daSampleTime s' \<le> daSampleTime s"
    "ash_since ?cfg (advance_watermarks True (take_results 50 ?rs) Map.empty) ''orcl'' 90 =
     daSampleTime s - Activity_GetInterval ?cfg" by blast
  show ?thesis unfolding s(3) newest [OF s(1,2)] cfg ..
qed

text \<open>
  An activity pass accounts for every database exactly once: one status each, an error for each
  that failed or was skipped, and the samples of exactly the others; whatever order the goroutines
  finish in.
\<close>
theorem activity_pass_accounts:
  assumes "mset received = mset results"
    and "activity_batch cfg ha inst n trigger t missed st fin received = (b, summary)"
  shows "mset (map stDatabase (sbScrapeStatuses b)) = mset (map arDatabase results) \<and>
    ssTotalErrors summary = length (filter (\<lambda>x. \<not> stSuccess x) (sbScrapeStatuses b)) \<and>
    ssTotalErrors summary = length (filter (\<lambda>r. arErr r \<noteq> None) results) \<and>
    mset (pfDatabaseActivity (sbPerformance b)) =
      mset (concat (map arSamples (filter (\<lambda>r. arErr r = None) results))) \<and>
    ssSampleCount summary = sum_list (map stSampleCount (sbScrapeStatuses b))"
proof -
  let ?st = "\<lambda>r. newScrapeStatusWithDuration t (arDatabase r) ''activity'' (arDuration r)
    (if arErr r = None then length (arSamples r) else 0) (arErr r)"
  have bs: "b = fst (activity_batch cfg ha inst n trigger t missed st fin received)"
    "summary = snd (activity_batch cfg ha inst n trigger t missed st fin received)" using assms(2) by simp_all
  have b: "sbScrapeStatuses b = map ?st received"
    "pfDatabaseActivity (sbPerformance b) = concat (map arSamples (filter (\<lambda>r. arErr r = None) received))"
    "ssTotalErrors summary = length (filter (\<lambda>r. arErr r \<noteq> None) received)"
    "ssSampleCount summary = length (concat (map arSamples (filter (\<lambda>r. arErr r = None) received)))"
    by (simp_all add: bs activity_batch_fields take_results_eq)
  have m: "mset (map f received) = mset (map f results)" for f :: "activity_result \<Rightarrow> 'x"
    using assms(1) by simp
  have c: "mset (concat xss) = mset (concat yss)" if "mset xss = mset yss" for xss yss :: "'y list list"
    by (simp add: mset_concat that flip: sum_mset_sum_list)
  have "mset (map stDatabase (sbScrapeStatuses b)) = mset (map arDatabase results)"
    using m [of arDatabase] by (simp add: b comp_def newScrapeStatusWithDuration_def)
  moreover have "ssTotalErrors summary = length (filter (\<lambda>x. \<not> stSuccess x) (sbScrapeStatuses b))"
    by (simp add: b filter_map comp_def newScrapeStatusWithDuration_def)
  moreover have "ssTotalErrors summary = length (filter (\<lambda>r. arErr r \<noteq> None) results)"
    using assms(1) by (simp only: b) (metis mset_filter size_mset)
  moreover have "mset (pfDatabaseActivity (sbPerformance b)) =
      mset (concat (map arSamples (filter (\<lambda>r. arErr r = None) results)))"
    unfolding b by (rule c) (metis assms(1) mset_filter mset_map)
  moreover have "length (concat (map arSamples (filter (\<lambda>r. arErr r = None) rs))) =
      sum_list (map (\<lambda>r. stSampleCount (?st r)) rs)" for rs
    by (induction rs) (auto simp: newScrapeStatusWithDuration_def)
  ultimately show ?thesis by (simp add: b comp_def)
qed

lemma activity_pass_accounts_witness:
  "\<forall>cfg ha. let (b, summary) = activity_batch cfg ha ''host'' 2 ''tick'' 50 0 40 60 [example_failure, example_result]
   in ssTotalErrors summary = 1 \<and> ssSampleCount summary = sum_list (map stSampleCount (sbScrapeStatuses b))"
proof (intro allI)
  fix cfg ha
  obtain b s where bs: "activity_batch cfg ha ''host'' 2 ''tick'' 50 0 40 60 [example_failure, example_result] = (b, s)"
    by fastforce
  have "mset [example_failure, example_result] = mset [example_result, example_failure]" by simp
  note p = activity_pass_accounts [OF this bs]
  have "length (filter (\<lambda>r. arErr r \<noteq> None) [example_result, example_failure]) = 1"
    by (simp add: example_failure_def example_result_def)
  with p show "let (b, summary) = activity_batch cfg ha ''host'' 2 ''tick'' 50 0 40 60 [example_failure, example_result]
     in ssTotalErrors summary = 1 \<and> ssSampleCount summary = sum_list (map stSampleCount (sbScrapeStatuses b))"
    unfolding bs by simp
qed

text \<open>
  A database whose activity query failed is left alone until its connectivity is confirmed. After
  the failure the next pass skips it without a query, in the state the failure left, and after the next
  successful ping, if the failure was no connection failure, it is sampled again.
\<close>
theorem failed_activity_suspends:
  assumes "isActive d" and "StartupReady d" and "activityUnavailable d = None"
    and "sample_database cfg w a t since now d = (r, d')" and "arErr r = Some e" and "err_message e \<noteq> []"
  shows "(\<exists>e'. sample_database cfg w2 a2 t2 since2 now2 d' = (skipped_result d' e', d')) \<and>
    (\<not> isConnectionFailure (Some e) \<and> dSession d \<noteq> None \<longrightarrow>
       isActive (snd (ping None now3 d')) \<and> activityUnavailable (snd (ping None now3 d')) = None)"
proof -
  have d': "d' = (let (failed, d1) = quarantineConnectionFailure (Some e) now d in
                 if failed then d1 else suspendActivity (Some e) d1)"
    using assms by (auto simp: sample_database_def isActive_def Let_def split: prod.splits)
  show ?thesis
  proof (cases "isConnectionFailure (Some e)")
    case True
    then have d: "d' = suspendActivity (Some e) (quarantine (Some e) now (setUp 0 d))"
      using d' by (simp add: quarantineConnectionFailure_def del: isConnectionFailure.simps)
    have "connectionState d' = Quarantined"
      by (simp add: d connectionState_def quarantineLocked_def Let_def)
    moreover have "dStartupReady d'" using assms(2)
      by (simp add: d StartupReady_def suspendActivity_def quarantine_def setUp_def)
    ultimately have "sample_database cfg w2 a2 t2 since2 now2 d' =
        (skipped_result d' (ErrText (''database connection state is '' @ state_name Quarantined)), d')"
      by (simp add: sample_database_def StartupReady_def)
    then show ?thesis using True by blast
  next
    case False
    then have d: "d' = suspendActivity (Some e) d"
      using d' by (simp add: quarantineConnectionFailure_def del: isConnectionFailure.simps)
    have "dActivityError d' = err_message e" "connectionState d' = Active" "dStartupReady d'"
      "dSession d' = dSession d"
      using assms(1,2) by (simp_all add: d suspendActivity_def connectionState_def isActive_def StartupReady_def)
    note f = this
    have "sample_database cfg w2 a2 t2 since2 now2 d' = (skipped_result d' (the (activityUnavailable d')), d')"
      using f assms(6) by (simp add: sample_database_def StartupReady_def activityUnavailable_def)
    then have skip: "\<exists>e'. sample_database cfg w2 a2 t2 since2 now2 d' = (skipped_result d' e', d')" by blast
    have "isActive (snd (ping None now3 d')) \<and> activityUnavailable (snd (ping None now3 d')) = None"
      if "dSession d \<noteq> None"
    proof -
      have "ping None now3 d' = (None, resumeActivity (setUp 1 d'))"
        using f that by (simp add: ping_def PingContext_def)
      then show ?thesis
        using f by (simp add: isActive_def connectionState_def resumeActivity_def setUp_def activityUnavailable_def)
    qed
    with skip show ?thesis by blast
  qed
qed

text \<open>A database in active use, and the answers of one that rejects the query.\<close>

definition active_database :: Database where
  "active_database = example_database\<lparr>dStartupReady := True,
     dConnection := (dConnection example_database)\<lparr>connState := Active\<rparr>\<rparr>"

definition rejecting :: activity_answers where
  "rejecting = \<lparr>aaSession = \<lparr>qDeadline = False, qError = Some (ErrText ''ORA-00942''), qRows = [],
       qRowsErr = None\<rparr>,
     aaASH = (\<lambda>_. \<lparr>qDeadline = False, qError = None, qRows = [], qRowsErr = None\<rparr>)\<rparr>"

lemma failed_activity_suspends_witness:
  "\<exists>d'. snd (sample_database (ActivityConfig.make [] None None) Map.empty rejecting 50 5 60 active_database) = d' \<and>
     (\<exists>e. sample_database (ActivityConfig.make [] None None) Map.empty rejecting 90 5 95 d' =
       (skipped_result d' e, d'))"
proof -
  let ?c = "ActivityConfig.make [] None None"
  obtain r d' where rd: "sample_database ?c Map.empty rejecting 50 5 60 active_database = (r, d')" by fastforce
  have a: "isActive active_database" "StartupReady active_database" "activityUnavailable active_database = None"
    by (simp_all add: active_database_def example_database_def NewDatabase_def isActive_def connectionState_def
        StartupReady_def activityUnavailable_def)
  have src: "Activity_GetSource ?c = ''session''"
    by (simp add: Activity_GetSource_def ActivityConfig.defs trim_space_def)
  have "arErr r = Some (ErrText ''ORA-00942'')"
    using rd a by (auto simp: sample_database_def isActive_def scrapeActivitySamples_def src rejecting_def
        scrapeSessionActivitySamples_def activity_rows_def QueryContext_def activityQueryError_def
        active_database_def example_database_def NewDatabase_def split: prod.splits)
  from failed_activity_suspends [OF a rd this, where ?w2.0 = Map.empty and ?a2.0 = rejecting and ?t2.0 = 90
      and ?since2.0 = 5 and ?now2.0 = 95] rd
  show ?thesis by simp
qed

end
