(* ===== verification/SinkSchema.thy ===== *)
theory SinkSchema
  imports Prelude
begin

text \<open>
  The tables of the repository, as the statements of \<open>Migrate\<close> in \<open>postgresql/postgresql.go\<close> create
  them: for each its columns with type and nullability in the order of the statement, its key (of the
  primary key, or of the unique index of the activity samples) and the column it is partitioned by.
  The generated column \<open>session_serial_number_key\<close> of the activity samples cannot be written and is
  listed in the key only.
\<close>

datatype pg_type = Timestamptz | Text | Bigint | DoublePrecision | Boolean | Jsonb

datatype nullability = Nullable | NotNull

type_synonym column = "string \<times> pg_type \<times> nullability"

record pg_table =
  ptColumns :: "column list"
  ptKey :: "string list"
  ptPartition :: "string option"

text \<open>
  The values the driver sends. A \<open>double precision\<close> is a value passed on (\<open>PgFloat\<close>) or a number of
  seconds the code computed (\<open>PgSeconds\<close>).
\<close>

datatype pg_value =
    PgNull
  | PgTime time
  | PgText string
  | PgInt int
  | PgFloat float64
  | PgSeconds rat
  | PgBool bool
  | PgJson string

text \<open>The driver's encoding of an \<open>int64\<close>, of an \<open>int\<close> count and of a nil-able pointer.\<close>

definition pg_int :: "int64 \<Rightarrow> pg_value" where "pg_int w = PgInt (sint w)"
definition pg_count :: "nat \<Rightarrow> pg_value" where "pg_count n = PgInt (int n)"

fun pg_opt :: "('a \<Rightarrow> pg_value) \<Rightarrow> 'a option \<Rightarrow> pg_value" where
  "pg_opt enc None = PgNull"
| "pg_opt enc (Some x) = enc x"

fun of_type :: "pg_type \<Rightarrow> pg_value \<Rightarrow> bool" where
  "of_type Timestamptz (PgTime t) = True"
| "of_type Text (PgText s) = True"
| "of_type Bigint (PgInt i) = True"
| "of_type DoublePrecision (PgFloat f) = True"
| "of_type DoublePrecision (PgSeconds r) = True"
| "of_type Boolean (PgBool b) = True"
| "of_type Jsonb (PgJson j) = True"
| "of_type ty v = False"

fun admits :: "pg_type \<times> nullability \<Rightarrow> pg_value \<Rightarrow> bool" where
  "admits (ty, Nullable) v = (v = PgNull \<or> of_type ty v)"
| "admits (ty, NotNull) v = of_type ty v"

text \<open>
  The server takes a row for these columns: they are columns of the table, each named once, every value
  fits its column, every column that must not be null has a value, and so has the partition column.
\<close>

definition conforms :: "pg_table \<Rightarrow> string list \<Rightarrow> pg_value list \<Rightarrow> bool" where
  "conforms t cols row \<longleftrightarrow>
     distinct cols \<and>
     list_all2 (\<lambda>c v. case map_of (ptColumns t) c of None \<Rightarrow> False | Some ty \<Rightarrow> admits ty v) cols row \<and>
     list_all (\<lambda>(c, ty, n). if n = NotNull then c \<in> set cols else True) (ptColumns t) \<and>
     list_all (\<lambda>c. c \<in> set cols) (case ptPartition t of None \<Rightarrow> [] | Some p \<Rightarrow> [p])"

text \<open>A row written in the order of the statement is checked column by column.\<close>

lemma conforms_aligned:
  assumes "cols = map fst (ptColumns t)" and "distinct cols"
    and "list_all2 admits (map snd (ptColumns t)) row"
    and "ptPartition t = None \<or> ptPartition t = Some (hd cols) \<or> ptPartition t = Some (cols ! 3) \<and> 3 < length cols"
    and "cols \<noteq> []"
  shows "conforms t cols row"
proof -
  have len: "length row = length (ptColumns t)" using assms(3) by (auto dest: list_all2_lengthD)
  have "map_of (ptColumns t) (cols ! i) = Some (snd (ptColumns t ! i))" if "i < length cols" for i
    using that assms(1,2) by (simp add: map_of_eq_Some_iff in_set_conv_nth) (metis prod.collapse nth_mem in_set_conv_nth)
  then have "list_all2 (\<lambda>c v. case map_of (ptColumns t) c of None \<Rightarrow> False | Some ty \<Rightarrow> admits ty v) cols row"
    using assms(1,3) len by (auto simp: list_all2_conv_all_nth)
  moreover have "list_all (\<lambda>(c, ty, n). if n = NotNull then c \<in> set cols else True) (ptColumns t)"
    using assms(1) by (force simp: list_all_iff)
  moreover have "list_all (\<lambda>c. c \<in> set cols) (case ptPartition t of None \<Rightarrow> [] | Some p \<Rightarrow> [p])"
    using assms(4,5) by (auto split: option.splits)
  ultimately show ?thesis using assms(2) by (simp add: conforms_def)
qed

lemma of_type_pg [simp]: "of_type Bigint (pg_int w)" "of_type Bigint (pg_count k)"
  by (simp_all add: pg_int_def pg_count_def)

lemma admits_pg_opt [simp]:
  "(\<And>x. of_type ty (enc x)) \<Longrightarrow> pg_opt enc v = PgNull \<or> of_type ty (pg_opt enc v)"
  by (cases v) simp_all

section \<open>Tables\<close>

definition samplesDDL :: pg_table where
  "samplesDDL =
    \<lparr>ptColumns =
      [(''collected_at'', Timestamptz, NotNull), (''source_database'', Text, NotNull),
       (''context'', Text, NotNull), (''metric_name'', Text, NotNull), (''metric_help'', Text, NotNull),
       (''metric_type'', Text, NotNull), (''value'', DoublePrecision, NotNull),
       (''labels'', Jsonb, NotNull)],
     ptKey = [],
     ptPartition = Some ''collected_at''\<rparr>"

definition sqlTextsDDL :: pg_table where
  "sqlTextsDDL =
    \<lparr>ptColumns =
      [(''source_database'', Text, NotNull), (''sql_id'', Text, NotNull),
       (''sql_fulltext'', Text, NotNull), (''first_seen_at'', Timestamptz, NotNull),
       (''last_text_seen_at'', Timestamptz, NotNull), (''last_referenced_at'', Timestamptz, NotNull)],
     ptKey = [''source_database'', ''sql_id''],
     ptPartition = None\<rparr>"

definition sqlCursorMetadataDDL :: pg_table where
  "sqlCursorMetadataDDL =
    \<lparr>ptColumns =
      [(''source_database'', Text, NotNull), (''inst_id'', Bigint, NotNull), (''sql_id'', Text, NotNull),
       (''child_number'', Bigint, NotNull), (''plan_hash_value'', Bigint, NotNull),
       (''parsing_schema_name'', Text, Nullable), (''module'', Text, Nullable),
       (''first_seen_at'', Timestamptz, NotNull), (''last_seen_at'', Timestamptz, NotNull)],
     ptKey = [''source_database'', ''inst_id'', ''sql_id'', ''child_number'', ''plan_hash_value''],
     ptPartition = None\<rparr>"

definition sqlPlansDDL :: pg_table where
  "sqlPlansDDL =
    \<lparr>ptColumns =
      [(''source_database'', Text, NotNull), (''inst_id'', Bigint, NotNull), (''sql_id'', Text, NotNull),
       (''child_number'', Bigint, NotNull), (''plan_hash_value'', Bigint, NotNull),
       (''plan_line_id'', Bigint, NotNull), (''parent_id'', Bigint, Nullable),
       (''depth'', Bigint, Nullable), (''position'', Bigint, Nullable), (''operation'', Text, NotNull),
       (''options'', Text, Nullable), (''object_owner'', Text, Nullable),
       (''object_name'', Text, Nullable), (''object_type'', Text, Nullable),
       (''optimizer'', Text, Nullable), (''cost'', Bigint, Nullable),
       (''cardinality'', Bigint, Nullable), (''bytes'', Bigint, Nullable),
       (''cpu_cost'', Bigint, Nullable), (''io_cost'', Bigint, Nullable),
       (''temp_space'', Bigint, Nullable), (''partition_start'', Text, Nullable),
       (''partition_stop'', Text, Nullable), (''access_predicates'', Text, Nullable),
       (''filter_predicates'', Text, Nullable), (''first_seen_at'', Timestamptz, NotNull),
       (''last_seen_at'', Timestamptz, NotNull), (''last_referenced_at'', Timestamptz, NotNull)],
     ptKey = [''source_database'', ''inst_id'', ''sql_id'', ''child_number'', ''plan_hash_value'',
       ''plan_line_id''],
     ptPartition = None\<rparr>"

definition sqlSamplesDDL :: pg_table where
  "sqlSamplesDDL =
    \<lparr>ptColumns =
      [(''collected_at'', Timestamptz, NotNull), (''source_database'', Text, NotNull),
       (''inst_id'', Bigint, NotNull), (''sql_id'', Text, NotNull), (''child_number'', Bigint, Nullable),
       (''plan_hash_value'', Bigint, Nullable), (''parsing_schema_name'', Text, Nullable),
       (''module'', Text, Nullable), (''executions'', Bigint, Nullable),
       (''elapsed_time_micro'', Bigint, Nullable), (''cpu_time_micro'', Bigint, Nullable),
       (''user_io_wait_micro'', Bigint, Nullable), (''application_wait_micro'', Bigint, Nullable),
       (''concurrency_wait_micro'', Bigint, Nullable), (''cluster_wait_micro'', Bigint, Nullable),
       (''buffer_gets'', Bigint, Nullable), (''disk_reads'', Bigint, Nullable),
       (''direct_writes'', Bigint, Nullable), (''rows_processed'', Bigint, Nullable),
       (''fetches'', Bigint, Nullable), (''loads'', Bigint, Nullable),
       (''invalidations'', Bigint, Nullable), (''parse_calls'', Bigint, Nullable),
       (''last_active_time'', Timestamptz, Nullable)],
     ptKey = [],
     ptPartition = Some ''collected_at''\<rparr>"

definition sessionSamplesDDL :: pg_table where
  "sessionSamplesDDL =
    \<lparr>ptColumns =
      [(''collected_at'', Timestamptz, NotNull), (''source_database'', Text, NotNull),
       (''inst_id'', Bigint, NotNull), (''sid'', Bigint, NotNull), (''serial_number'', Bigint, Nullable),
       (''username'', Text, Nullable), (''status'', Text, Nullable), (''sql_id'', Text, Nullable),
       (''sql_child_number'', Bigint, Nullable), (''prev_sql_id'', Text, Nullable),
       (''event'', Text, Nullable), (''wait_class'', Text, Nullable), (''state'', Text, Nullable),
       (''seconds_in_wait'', Bigint, Nullable), (''blocking_instance'', Bigint, Nullable),
       (''blocking_session'', Bigint, Nullable), (''machine'', Text, Nullable),
       (''program'', Text, Nullable), (''module'', Text, Nullable), (''action'', Text, Nullable),
       (''service_name'', Text, Nullable), (''logon_time'', Timestamptz, Nullable)],
     ptKey = [],
     ptPartition = Some ''collected_at''\<rparr>"

definition blockingSessionsDDL :: pg_table where
  "blockingSessionsDDL =
    \<lparr>ptColumns =
      [(''collected_at'', Timestamptz, NotNull), (''source_database'', Text, NotNull),
       (''inst_id'', Bigint, NotNull), (''sid'', Bigint, NotNull), (''serial_number'', Bigint, Nullable),
       (''username'', Text, Nullable), (''sql_id'', Text, Nullable), (''event'', Text, Nullable),
       (''wait_class'', Text, Nullable), (''blocking_instance'', Bigint, Nullable),
       (''blocking_session'', Bigint, Nullable), (''blocking_username'', Text, Nullable),
       (''blocking_sql_id'', Text, Nullable), (''blocking_event'', Text, Nullable)],
     ptKey = [],
     ptPartition = Some ''collected_at''\<rparr>"

definition databaseActivityDDL :: pg_table where
  "databaseActivityDDL =
    \<lparr>ptColumns =
      [(''collected_at'', Timestamptz, NotNull), (''source_database'', Text, NotNull),
       (''sample_id'', Bigint, NotNull), (''sample_time'', Timestamptz, NotNull),
       (''inst_id'', Bigint, NotNull), (''session_id'', Bigint, NotNull),
       (''session_serial_number'', Bigint, Nullable), (''session_type'', Text, Nullable),
       (''user_id'', Bigint, Nullable), (''sql_id'', Text, Nullable),
       (''sql_child_number'', Bigint, Nullable), (''sql_exec_id'', Bigint, Nullable),
       (''sql_exec_start'', Timestamptz, Nullable), (''top_level_sql_id'', Text, Nullable),
       (''session_state'', Text, Nullable), (''event'', Text, Nullable),
       (''wait_class'', Text, Nullable), (''wait_time_micro'', Bigint, Nullable),
       (''time_waited_micro'', Bigint, Nullable), (''blocking_session'', Bigint, Nullable),
       (''blocking_session_serial_number'', Bigint, Nullable), (''blocking_inst_id'', Bigint, Nullable),
       (''current_object_id'', Bigint, Nullable), (''current_file_number'', Bigint, Nullable),
       (''current_block_number'', Bigint, Nullable), (''program'', Text, Nullable),
       (''module'', Text, Nullable), (''action'', Text, Nullable), (''machine'', Text, Nullable),
       (''pga_allocated'', Bigint, Nullable), (''temp_space_allocated'', Bigint, Nullable),
       (''con_id'', Bigint, Nullable), (''sample_source'', Text, NotNull),
       (''sample_duration_micro'', Bigint, NotNull), (''sql_plan_hash_value'', Bigint, Nullable),
       (''sql_full_plan_hash_value'', Bigint, Nullable), (''sql_plan_line_id'', Bigint, Nullable),
       (''service_hash'', Bigint, Nullable), (''service_name'', Text, Nullable),
       (''client_identifier'', Text, Nullable)],
     ptKey = [''sample_time'', ''source_database'', ''inst_id'', ''sample_id'', ''session_id'',
       ''session_serial_number_key''],
     ptPartition = Some ''sample_time''\<rparr>"

definition connectionStateDDL :: pg_table where
  "connectionStateDDL =
    \<lparr>ptColumns =
      [(''source_database'', Text, NotNull), (''observed_at'', Timestamptz, NotNull),
       (''state'', Text, NotNull), (''queued_at'', Timestamptz, Nullable),
       (''last_failure_at'', Timestamptz, Nullable), (''last_failure'', Text, Nullable),
       (''last_probe_at'', Timestamptz, Nullable),
       (''last_probe_duration_seconds'', DoublePrecision, Nullable),
       (''last_probe_error'', Text, Nullable), (''probe_attempts'', Bigint, NotNull),
       (''recovered_at'', Timestamptz, Nullable), (''scraper_instance'', Text, NotNull)],
     ptKey = [''source_database''],
     ptPartition = None\<rparr>"

definition runtimeSamplesDDL :: pg_table where
  "runtimeSamplesDDL =
    \<lparr>ptColumns =
      [(''observed_at'', Timestamptz, NotNull), (''scheduler'', Text, NotNull),
       (''trigger'', Text, NotNull), (''scraper_instance'', Text, NotNull),
       (''ha_scope'', Text, NotNull), (''scheduled_at'', Timestamptz, NotNull),
       (''started_at'', Timestamptz, NotNull), (''collection_finished_at'', Timestamptz, NotNull),
       (''finished_at'', Timestamptz, NotNull),
       (''configured_interval_seconds'', DoublePrecision, NotNull),
       (''configured_query_timeout_seconds'', DoublePrecision, Nullable),
       (''scheduling_lag_seconds'', DoublePrecision, NotNull),
       (''collection_duration_seconds'', DoublePrecision, NotNull),
       (''postgresql_write_duration_seconds'', DoublePrecision, NotNull),
       (''total_duration_seconds'', DoublePrecision, NotNull), (''missed_intervals'', Bigint, NotNull),
       (''databases_attempted'', Bigint, NotNull), (''databases_succeeded'', Bigint, NotNull),
       (''sample_count'', Bigint, NotNull), (''error_count'', Bigint, NotNull),
       (''postgresql_write_success'', Boolean, NotNull), (''postgresql_error_message'', Text, Nullable)],
     ptKey = [],
     ptPartition = Some ''observed_at''\<rparr>"

definition latestRuntimeStatusDDL :: pg_table where
  "latestRuntimeStatusDDL =
    \<lparr>ptColumns =
      [(''observed_at'', Timestamptz, NotNull), (''scheduler'', Text, NotNull),
       (''trigger'', Text, NotNull), (''scraper_instance'', Text, NotNull),
       (''ha_scope'', Text, NotNull), (''scheduled_at'', Timestamptz, NotNull),
       (''started_at'', Timestamptz, NotNull), (''collection_finished_at'', Timestamptz, NotNull),
       (''finished_at'', Timestamptz, NotNull),
       (''configured_interval_seconds'', DoublePrecision, NotNull),
       (''configured_query_timeout_seconds'', DoublePrecision, Nullable),
       (''scheduling_lag_seconds'', DoublePrecision, NotNull),
       (''collection_duration_seconds'', DoublePrecision, NotNull),
       (''postgresql_write_duration_seconds'', DoublePrecision, NotNull),
       (''total_duration_seconds'', DoublePrecision, NotNull), (''missed_intervals'', Bigint, NotNull),
       (''databases_attempted'', Bigint, NotNull), (''databases_succeeded'', Bigint, NotNull),
       (''sample_count'', Bigint, NotNull), (''error_count'', Bigint, NotNull),
       (''postgresql_write_success'', Boolean, NotNull), (''postgresql_error_message'', Text, Nullable)],
     ptKey = [''ha_scope'', ''scheduler''],
     ptPartition = None\<rparr>"

definition repositoryIngestDDL :: pg_table where
  "repositoryIngestDDL =
    \<lparr>ptColumns =
      [(''sample_day'', Timestamptz, NotNull), (''source_database'', Text, NotNull),
       (''additional_metric_rows'', Bigint, NotNull), (''sql_sample_rows'', Bigint, NotNull),
       (''sql_text_writes'', Bigint, NotNull), (''sql_cursor_metadata_writes'', Bigint, NotNull),
       (''sql_plan_operation_writes'', Bigint, NotNull), (''session_sample_rows'', Bigint, NotNull),
       (''blocking_session_sample_rows'', Bigint, NotNull),
       (''database_activity_sample_rows'', Bigint, NotNull),
       (''database_status_sample_rows'', Bigint, NotNull), (''instance_sample_rows'', Bigint, NotNull),
       (''resource_limit_sample_rows'', Bigint, NotNull), (''tablespace_sample_rows'', Bigint, NotNull),
       (''asm_diskgroup_sample_rows'', Bigint, NotNull),
       (''system_counter_sample_rows'', Bigint, NotNull), (''wait_class_sample_rows'', Bigint, NotNull),
       (''system_metric_sample_rows'', Bigint, NotNull),
       (''dataguard_destination_rows'', Bigint, NotNull), (''dataguard_lag_rows'', Bigint, NotNull),
       (''dataguard_process_rows'', Bigint, NotNull), (''scrape_status_rows'', Bigint, NotNull),
       (''first_sample_at'', Timestamptz, Nullable), (''last_sample_at'', Timestamptz, Nullable),
       (''last_sql_sample_at'', Timestamptz, Nullable),
       (''last_session_sample_at'', Timestamptz, Nullable),
       (''last_database_activity_sample_at'', Timestamptz, Nullable),
       (''last_flushed_at'', Timestamptz, NotNull)],
     ptKey = [''sample_day'', ''source_database''],
     ptPartition = Some ''sample_day''\<rparr>"

definition dataGuardDestinationDDL :: pg_table where
  "dataGuardDestinationDDL =
    \<lparr>ptColumns =
      [(''collected_at'', Timestamptz, NotNull), (''source_database'', Text, NotNull),
       (''inst_id'', Bigint, NotNull), (''dest_id'', Bigint, NotNull),
       (''destination_name'', Text, Nullable), (''target'', Text, Nullable),
       (''destination'', Text, Nullable), (''status'', Text, Nullable),
       (''transmit_mode'', Text, Nullable), (''affirm'', Text, Nullable),
       (''valid_now'', Text, Nullable), (''db_unique_name'', Text, Nullable),
       (''destination_type'', Text, Nullable), (''database_mode'', Text, Nullable),
       (''recovery_mode'', Text, Nullable), (''protection_mode'', Text, Nullable),
       (''synchronized'', Text, Nullable), (''synchronization_status'', Text, Nullable),
       (''gap_status'', Text, Nullable), (''archived_thread'', Bigint, Nullable),
       (''archived_sequence'', Bigint, Nullable), (''applied_thread'', Bigint, Nullable),
       (''applied_sequence'', Bigint, Nullable), (''applied_scn'', Bigint, Nullable),
       (''error_message'', Text, Nullable)],
     ptKey = [],
     ptPartition = Some ''collected_at''\<rparr>"

definition dataGuardLagDDL :: pg_table where
  "dataGuardLagDDL =
    \<lparr>ptColumns =
      [(''collected_at'', Timestamptz, NotNull), (''source_database'', Text, NotNull),
       (''database_role'', Text, NotNull), (''transport_lag_seconds'', DoublePrecision, Nullable),
       (''apply_lag_seconds'', DoublePrecision, Nullable),
       (''apply_finish_time_seconds'', DoublePrecision, Nullable),
       (''estimated_startup_seconds'', DoublePrecision, Nullable), (''time_computed'', Text, Nullable),
       (''datum_time'', Text, Nullable), (''datum_age_seconds'', DoublePrecision, Nullable)],
     ptKey = [],
     ptPartition = Some ''collected_at''\<rparr>"

definition dataGuardProcessDDL :: pg_table where
  "dataGuardProcessDDL =
    \<lparr>ptColumns =
      [(''collected_at'', Timestamptz, NotNull), (''source_database'', Text, NotNull),
       (''inst_id'', Bigint, NotNull), (''database_role'', Text, NotNull),
       (''apply_processes'', Bigint, NotNull), (''transport_processes'', Bigint, NotNull),
       (''apply_status'', Text, Nullable), (''thread_number'', Bigint, Nullable),
       (''sequence_number'', Bigint, Nullable)],
     ptKey = [],
     ptPartition = Some ''collected_at''\<rparr>"

definition databaseStatusDDL :: pg_table where
  "databaseStatusDDL =
    \<lparr>ptColumns =
      [(''collected_at'', Timestamptz, NotNull), (''source_database'', Text, NotNull),
       (''inst_id'', Bigint, NotNull), (''instance_name'', Text, NotNull),
       (''instance_status'', Text, NotNull), (''database_status'', Text, NotNull),
       (''startup_time'', Timestamptz, NotNull), (''open_mode'', Text, NotNull),
       (''database_role'', Text, NotNull), (''cdb'', Text, NotNull), (''con_id'', Bigint, NotNull),
       (''con_name'', Text, NotNull), (''platform_name'', Text, NotNull), (''dbid'', Bigint, Nullable),
       (''db_unique_name'', Text, Nullable), (''database_product'', Text, Nullable),
       (''database_edition'', Text, Nullable), (''database_version'', Text, Nullable),
       (''database_version_full'', Text, Nullable), (''protection_mode'', Text, Nullable),
       (''protection_level'', Text, Nullable)],
     ptKey = [],
     ptPartition = Some ''collected_at''\<rparr>"

definition instanceDDL :: pg_table where
  "instanceDDL =
    \<lparr>ptColumns =
      [(''collected_at'', Timestamptz, NotNull), (''source_database'', Text, NotNull),
       (''inst_id'', Bigint, NotNull), (''user_sessions'', Bigint, NotNull),
       (''active_user_sessions'', Bigint, NotNull), (''background_sessions'', Bigint, NotNull),
       (''process_count'', Bigint, NotNull), (''cpu_count'', Bigint, Nullable),
       (''sga_max_bytes'', Bigint, Nullable), (''pga_aggregate_limit'', Bigint, Nullable),
       (''sga_allocated_bytes'', Bigint, Nullable), (''pga_allocated_bytes'', Bigint, Nullable),
       (''pga_max_allocated_bytes'', Bigint, Nullable)],
     ptKey = [],
     ptPartition = Some ''collected_at''\<rparr>"

definition resourceLimitDDL :: pg_table where
  "resourceLimitDDL =
    \<lparr>ptColumns =
      [(''collected_at'', Timestamptz, NotNull), (''source_database'', Text, NotNull),
       (''inst_id'', Bigint, NotNull), (''resource_name'', Text, NotNull),
       (''current_value'', Bigint, NotNull), (''max_value'', Bigint, NotNull),
       (''initial_limit'', Bigint, Nullable), (''limit_value'', Bigint, Nullable),
       (''limit_unlimited'', Boolean, NotNull)],
     ptKey = [],
     ptPartition = Some ''collected_at''\<rparr>"

definition tablespaceDDL :: pg_table where
  "tablespaceDDL =
    \<lparr>ptColumns =
      [(''collected_at'', Timestamptz, NotNull), (''source_database'', Text, NotNull),
       (''tablespace_name'', Text, NotNull), (''contents'', Text, NotNull),
       (''used_bytes'', Bigint, NotNull), (''free_bytes'', Bigint, NotNull),
       (''max_bytes'', Bigint, NotNull), (''used_percent'', DoublePrecision, NotNull),
       (''allocated_bytes'', Bigint, Nullable)],
     ptKey = [],
     ptPartition = Some ''collected_at''\<rparr>"

definition asmDiskgroupDDL :: pg_table where
  "asmDiskgroupDDL =
    \<lparr>ptColumns =
      [(''collected_at'', Timestamptz, NotNull), (''source_database'', Text, NotNull),
       (''inst_id'', Bigint, NotNull), (''diskgroup_name'', Text, NotNull),
       (''total_bytes'', Bigint, NotNull), (''free_bytes'', Bigint, NotNull),
       (''usable_bytes'', Bigint, Nullable)],
     ptKey = [],
     ptPartition = Some ''collected_at''\<rparr>"

definition systemCounterDDL :: pg_table where
  "systemCounterDDL =
    \<lparr>ptColumns =
      [(''collected_at'', Timestamptz, NotNull), (''source_database'', Text, NotNull),
       (''inst_id'', Bigint, NotNull), (''con_id'', Bigint, NotNull), (''stat_name'', Text, NotNull),
       (''cumulative_value'', Bigint, NotNull), (''delta_value'', Bigint, Nullable),
       (''interval_seconds'', DoublePrecision, Nullable), (''counter_reset'', Boolean, NotNull)],
     ptKey = [],
     ptPartition = Some ''collected_at''\<rparr>"

definition waitClassDDL :: pg_table where
  "waitClassDDL =
    \<lparr>ptColumns =
      [(''collected_at'', Timestamptz, NotNull), (''source_database'', Text, NotNull),
       (''inst_id'', Bigint, NotNull), (''con_id'', Bigint, NotNull), (''wait_class'', Text, NotNull),
       (''cumulative_wait_micro'', Bigint, NotNull), (''delta_wait_micro'', Bigint, Nullable),
       (''interval_seconds'', DoublePrecision, Nullable), (''counter_reset'', Boolean, NotNull)],
     ptKey = [],
     ptPartition = Some ''collected_at''\<rparr>"

definition systemMetricDDL :: pg_table where
  "systemMetricDDL =
    \<lparr>ptColumns =
      [(''collected_at'', Timestamptz, NotNull), (''source_database'', Text, NotNull),
       (''inst_id'', Bigint, NotNull), (''con_id'', Bigint, NotNull), (''metric_name'', Text, NotNull),
       (''value'', DoublePrecision, NotNull), (''unit'', Text, Nullable)],
     ptKey = [],
     ptPartition = Some ''collected_at''\<rparr>"

definition scrapeStatusDDL :: pg_table where
  "scrapeStatusDDL =
    \<lparr>ptColumns =
      [(''collected_at'', Timestamptz, NotNull), (''source_database'', Text, NotNull),
       (''collector'', Text, NotNull), (''success'', Boolean, NotNull),
       (''duration_seconds'', DoublePrecision, NotNull), (''sample_count'', Bigint, NotNull),
       (''error_message'', Text, Nullable)],
     ptKey = [],
     ptPartition = Some ''collected_at''\<rparr>"

definition latestScrapeStatusDDL :: pg_table where
  "latestScrapeStatusDDL =
    \<lparr>ptColumns =
      [(''collected_at'', Timestamptz, NotNull), (''source_database'', Text, NotNull),
       (''collector'', Text, NotNull), (''success'', Boolean, NotNull),
       (''duration_seconds'', DoublePrecision, NotNull), (''sample_count'', Bigint, NotNull),
       (''error_message'', Text, Nullable)],
     ptKey = [''source_database'', ''collector''],
     ptPartition = None\<rparr>"

end
