(* ===== verification/Calendar.thy ===== *)
theory Calendar
  imports Prelude
begin

text \<open>
  The part of Go's \<open>time\<close> package that the names and bounds of the daily partitions need: the civil date
  of an instant in UTC (\<open>Date\<close>), the instant of a date (\<open>time.Date\<close>, \<open>AddDate\<close> in days), the layouts
  \<open>2006_01_02\<close> and \<open>2006-01-02\<close> (\<open>Format\<close>, \<open>Parse\<close>). Times are nanoseconds since the first day of year 1.
\<close>

section \<open>Civil dates\<close>

definition day_ns :: int where "day_ns = 86400 * second"

lemma day_ns_pos [simp]: "0 < day_ns" by (simp add: day_ns_def)

definition leap :: "int \<Rightarrow> bool" where
  "leap y \<longleftrightarrow> y mod 4 = 0 \<and> (y mod 100 \<noteq> 0 \<or> y mod 400 = 0)"

definition days_before_year :: "int \<Rightarrow> int" where
  "days_before_year y = 365 * (y - 1) + (y - 1) div 4 - (y - 1) div 100 + (y - 1) div 400"

definition month_lengths :: "int \<Rightarrow> int list" where
  "month_lengths y = [31, if leap y then 29 else 28, 31, 30, 31, 30, 31, 31, 30, 31, 30, 31]"

text \<open>The day of a date that may be out of range, as \<open>time.Date\<close> normalizes it (months from 1 to 12).\<close>

definition days_of :: "int \<Rightarrow> int \<Rightarrow> int \<Rightarrow> int" where
  "days_of y m d = days_before_year y + sum_list (take (nat (m - 1)) (month_lengths y)) + (d - 1)"

text \<open>The year of a day and the day in the year, by cycles of 400, 100, 4 and 1 years.\<close>

definition year_of :: "int \<Rightarrow> int \<times> int" where
  "year_of n =
     (let a = n div 146097; n1 = n mod 146097;
          b = min 3 (n1 div 36524); n2 = n1 - 36524 * b;
          c = n2 div 1461; n3 = n2 - 1461 * c;
          e = min 3 (n3 div 365)
      in (400 * a + 100 * b + 4 * c + e + 1, n3 - 365 * e))"

fun month_of :: "int list \<Rightarrow> int \<Rightarrow> int \<Rightarrow> int \<times> int" where
  "month_of [] m n = (m, n + 1)"
| "month_of (l # ls) m n = (if n < l then (m, n + 1) else month_of ls (m + 1) (n - l))"

definition civil :: "int \<Rightarrow> int \<times> int \<times> int" where
  "civil n = (let (y, yday) = year_of n; (m, d) = month_of (month_lengths y) 1 yday in (y, m, d))"

definition valid_date :: "int \<Rightarrow> int \<Rightarrow> int \<Rightarrow> bool" where
  "valid_date y m d \<longleftrightarrow> 1 \<le> m \<and> m \<le> 12 \<and> 1 \<le> d \<and> d \<le> month_lengths y ! nat (m - 1)"

lemma capped_cycle:
  fixes x k :: int
  assumes "0 \<le> x" and "0 < k" and "b = min 3 (x div k)"
  shows "0 \<le> b" and "b \<le> 3" and "0 \<le> x - k * b" and "x - k * b < k \<or> b = 3"
proof -
  have q: "0 \<le> x div k" "k * (x div k) \<le> x" "x < k * (x div k) + k"
    using assms(1,2) by (auto simp: pos_imp_zdiv_nonneg_iff mult_div_mod_eq [symmetric])
      (smt (verit) mult_div_mod_eq pos_mod_bound pos_mod_sign)+
  show "0 \<le> b" "b \<le> 3" using q(1) assms(3) by auto
  have "k * b \<le> k * (x div k)" using assms(2,3) by (intro mult_left_mono) auto
  then show "0 \<le> x - k * b" using q(2) by linarith
  show "x - k * b < k \<or> b = 3"
  proof (cases "b = 3")
    case False
    then have "b = x div k" using assms(3) by (auto simp: min_def split: if_splits)
    then show ?thesis using q(3) by simp
  qed simp
qed

lemma year_of_day:
  assumes "year_of n = (y, r)"
  shows "days_before_year y + r = n" and "0 \<le> r" and "r < (if leap y then 366 else 365)"
proof -
  define a where "a = n div 146097"
  define n1 where "n1 = n mod 146097"
  define b where "b = min 3 (n1 div 36524)"
  define n2 where "n2 = n1 - 36524 * b"
  define c where "c = n2 div 1461"
  define n3 where "n3 = n2 - 1461 * c"
  define e where "e = min 3 (n3 div 365)"
  have "year_of n = (400 * a + 100 * b + 4 * c + e + 1, n3 - 365 * e)"
    unfolding year_of_def Let_def a_def b_def c_def e_def n1_def n2_def n3_def by (rule refl)
  then have "y = 400 * a + 100 * b + 4 * c + e + 1" and r: "r = n3 - 365 * e"
    using assms by simp_all
  then have y: "y - 1 = 400 * a + 100 * b + 4 * c + e" by simp
  have n1: "0 \<le> n1" "n1 < 146097" "n = 146097 * a + n1" by (simp_all add: n1_def a_def)
  note b = capped_cycle [OF n1(1) _ b_def, simplified, folded n2_def]
  have n2: "0 \<le> n2" "n2 < 36524 \<or> (b = 3 \<and> n2 < 36525)"
    using b n1(2) n2_def by linarith+
  have n3: "0 \<le> n3" "n3 < 1461"
    unfolding n3_def c_def using pos_mod_bound [of 1461 n2] pos_mod_sign [of 1461 n2]
    by (simp_all add: minus_mult_div_eq_mod)
  have c: "0 \<le> c" "c \<le> 24" "c = 24 \<longrightarrow> n3 < 1460 \<or> (b = 3 \<and> n3 < 1461)"
    using n2 n3 n3_def by linarith+
  note e = capped_cycle [OF n3(1) _ e_def, simplified]
  have r_bounds: "0 \<le> r" "r < 365 \<or> (e = 3 \<and> r < 366)"
    using e n3 unfolding r by linarith+
  have q4: "(y - 1) div 4 = 100 * a + 25 * b + c"
    using e unfolding y by (intro int_div_pos_eq [where r = e]) auto
  have q100: "(y - 1) div 100 = 4 * a + b"
    using e c unfolding y by (intro int_div_pos_eq [where r = "4 * c + e"]) auto
  have q400: "(y - 1) div 400 = a"
    using e c b unfolding y by (intro int_div_pos_eq [where r = "100 * b + 4 * c + e"]) auto
  have n2': "n1 = n2 + 36524 * b" "n2 = n3 + 1461 * c" by (simp_all add: n2_def n3_def)
  show "days_before_year y + r = n"
    unfolding days_before_year_def q4 q100 q400 n1(3) n2'(1) n2'(2) r using y by (simp add: algebra_simps)
  show "0 \<le> r" by fact
  have leap: "leap y" if "e = 3" "c \<noteq> 24 \<or> b = 3"
  proof -
    have y': "y = 400 * a + 100 * b + 4 * c + 4" using y that by simp
    have "y mod 4 = 0" unfolding y' by presburger
    moreover have "y mod 100 \<noteq> 0 \<or> y mod 400 = 0"
    proof (cases "c = 24")
      case True
      then have "y = 400 * (a + 1)" using that y' by simp
      then show ?thesis by simp
    next
      case False
      have "y mod 100 = 4 * c + 4"
        using c False unfolding y' by (intro int_mod_pos_eq [where q = "4 * a + b"]) auto
      then show ?thesis using c by simp
    qed
    ultimately show ?thesis by (simp add: leap_def)
  qed
  show "r < (if leap y then 366 else 365)"
  proof (cases "r < 365")
    case False
    then have "e = 3" "n3 = 1460" using r_bounds n3 r by auto
    then have "leap y" using c(3) leap by auto
    then show ?thesis using r_bounds by auto
  qed simp
qed

lemma month_of_split:
  assumes "month_of ls m n = (m', d)" and "0 \<le> n" and "n < sum_list ls" and "list_all (\<lambda>l. 0 < l) ls"
  shows "m \<le> m'" and "m' < m + int (length ls)" and "sum_list (take (nat (m' - m)) ls) + (d - 1) = n"
    and "1 \<le> d" and "d \<le> ls ! nat (m' - m)"
proof -
  have "m \<le> m' \<and> m' < m + int (length ls) \<and> sum_list (take (nat (m' - m)) ls) + (d - 1) = n \<and>
      1 \<le> d \<and> d \<le> ls ! nat (m' - m)"
    using assms
  proof (induction ls m n rule: month_of.induct)
    case (2 l ls m n)
    show ?case
    proof (cases "n < l")
      case False
      have ih: "m + 1 \<le> m' \<and> m' < m + 1 + int (length ls) \<and>
          sum_list (take (nat (m' - (m + 1))) ls) + (d - 1) = n - l \<and> 1 \<le> d \<and> d \<le> ls ! nat (m' - (m + 1))"
        using 2 False by simp
      then have "nat (m' - m) = Suc (nat (m' - (m + 1)))" by linarith
      with ih show ?thesis by simp
    qed (use 2 in auto)
  qed simp
  then show "m \<le> m'" "m' < m + int (length ls)" "sum_list (take (nat (m' - m)) ls) + (d - 1) = n"
    "1 \<le> d" "d \<le> ls ! nat (m' - m)" by simp_all
qed

lemma month_lengths_facts:
  "length (month_lengths y) = 12" "sum_list (month_lengths y) = (if leap y then 366 else 365)"
  "list_all (\<lambda>l. 0 < l) (month_lengths y)"
  by (simp_all add: month_lengths_def)

lemma civil_day:
  assumes "civil n = (y, m, d)"
  shows "days_of y m d = n" and "valid_date y m d" and "y = fst (year_of n)"
proof -
  obtain r where yr: "year_of n = (y, r)" and md: "month_of (month_lengths y) 1 r = (m, d)"
    using assms by (auto simp: civil_def split: prod.splits)
  note f = year_of_day [OF yr]
  have "r < sum_list (month_lengths y)" using f(3) by (simp add: month_lengths_facts)
  note g = month_of_split [OF md f(2) this month_lengths_facts(3)]
  show "days_of y m d = n" using f(1) g(3) by (simp add: days_of_def)
  show "valid_date y m d" using g by (simp add: valid_date_def month_lengths_facts)
  show "y = fst (year_of n)" by (simp add: yr)
qed

section \<open>Instants\<close>

definition Date :: "time \<Rightarrow> int \<times> int \<times> int" where
  "Date t = civil (t div day_ns)"

text \<open>\<open>time.Date(year, month, day, 0, 0, 0, 0, time.UTC)\<close>.\<close>

definition time_Date :: "int \<Rightarrow> int \<Rightarrow> int \<Rightarrow> time" where
  "time_Date y m d = days_of y m d * day_ns"

text \<open>\<open>AddDate(0, 0, n)\<close>: the date moves, the time of day stays.\<close>

definition AddDate_days :: "int \<Rightarrow> time \<Rightarrow> time" where
  "AddDate_days n t = (let (y, m, d) = Date t in time_Date y m (d + n) + t mod day_ns)"

lemma time_Date_Date: "(case Date t of (y, m, d) \<Rightarrow> time_Date y m d) = t div day_ns * day_ns"
  by (auto simp: Date_def time_Date_def civil_day split: prod.splits)

lemma AddDate_days_eq: "AddDate_days n t = t + n * day_ns"
proof -
  obtain y m d where d: "Date t = (y, m, d)" by (cases "Date t")
  then have "days_of y m (d + n) = t div day_ns + n"
    using civil_day(1) [of "t div day_ns" y m d] by (simp add: Date_def days_of_def)
  then show ?thesis
    using div_mult_mod_eq [of t day_ns] by (simp add: AddDate_days_def d time_Date_def algebra_simps)
qed

section \<open>Layouts\<close>

fun fixed_digits :: "nat \<Rightarrow> nat \<Rightarrow> string" where
  "fixed_digits 0 n = []"
| "fixed_digits (Suc w) n = fixed_digits w (n div 10) @ [char_of (n mod 10 + 48)]"

text \<open>At least \<open>w\<close> digits, padded with zeros.\<close>

definition zero_pad :: "nat \<Rightarrow> nat \<Rightarrow> string" where
  "zero_pad w n = (if n < 10 ^ w then fixed_digits w n else dec_of_nat n)"

text \<open>A year, a month and a day with a separator (years from 1 on).\<close>

definition format_date :: "string \<Rightarrow> time \<Rightarrow> string" where
  "format_date sep t =
     (let (y, m, d) = Date t in
      zero_pad 4 (nat y) @ sep @ zero_pad 2 (nat m) @ sep @ zero_pad 2 (nat d))"

definition take_digits :: "nat \<Rightarrow> string \<Rightarrow> (nat \<times> string) option" where
  "take_digits w s =
     (if w \<le> length s \<and> list_all is_digit (take w s)
      then Some (digits_value (take w s), drop w s) else None)"

definition take_text :: "string \<Rightarrow> string \<Rightarrow> string option" where
  "take_text p s = (if has_prefix p s then Some (drop (length p) s) else None)"

text \<open>\<open>time.Parse\<close> for that layout: exact widths, nothing left over, a day that exists.\<close>

definition parse_date :: "string \<Rightarrow> string \<Rightarrow> time option" where
  "parse_date sep s =
     Option.bind (take_digits 4 s) (\<lambda>(y, s).
     Option.bind (take_text sep s) (\<lambda>s.
     Option.bind (take_digits 2 s) (\<lambda>(m, s).
     Option.bind (take_text sep s) (\<lambda>s.
     Option.bind (take_digits 2 s) (\<lambda>(d, s).
       if s = [] \<and> valid_date (int y) (int m) (int d)
       then Some (time_Date (int y) (int m) (int d)) else None)))))"

lemma fixed_digits_props [simp]:
  "length (fixed_digits w n) = w" "list_all is_digit (fixed_digits w n)"
  by (induction w arbitrary: n) auto

lemma digits_value_snoc: "digits_value (s @ [c]) = 10 * digits_value s + digit_value c"
  by (simp add: digits_value_def)

lemma fixed_digits_value: "n < 10 ^ w \<Longrightarrow> digits_value (fixed_digits w n) = n"
proof (induction w arbitrary: n)
  case (Suc w)
  then have "n div 10 < 10 ^ w" by (simp add: less_mult_imp_div_less mult.commute)
  then show ?case using Suc.IH [of "n div 10"] by (simp add: digits_value_snoc)
qed (simp add: digits_value_def)

lemma take_digits_fixed: "n < 10 ^ w \<Longrightarrow> take_digits w (fixed_digits w n @ s) = Some (n, s)"
  by (simp add: take_digits_def fixed_digits_value)

lemma take_text_append: "take_text p (p @ s) = Some s"
  by (simp add: take_text_def)

text \<open>The four-digit years.\<close>

definition four_digit_year :: "time \<Rightarrow> bool" where
  "four_digit_year t \<longleftrightarrow> 0 \<le> fst (Date t) \<and> fst (Date t) \<le> 9999"

lemma parse_format_date:
  assumes "four_digit_year t"
  shows "parse_date sep (format_date sep t) = Some (t div day_ns * day_ns)"
proof -
  obtain y m d where date: "Date t = (y, m, d)" by (cases "Date t")
  have c: "valid_date y m d" using civil_day(2) date by (simp add: Date_def)
  have day: "time_Date y m d = t div day_ns * day_ns" using time_Date_Date [of t] date by simp
  have "list_all (\<lambda>l. l \<le> 31) (month_lengths y)" by (simp add: month_lengths_def)
  then have "month_lengths y ! k \<le> 31" if "k < 12" for k
    using that by (simp add: list_all_length month_lengths_facts)
  then have "month_lengths y ! nat (m - 1) \<le> 31" using c by (auto simp: valid_date_def)
  then have b: "0 \<le> y" "nat y < 10 ^ 4" "0 \<le> m" "nat m < 10 ^ 2" "0 \<le> d" "nat d < 10 ^ 2"
    using assms c date by (auto simp: four_digit_year_def valid_date_def)
  show ?thesis
    using c b day
    by (simp add: parse_date_def format_date_def date zero_pad_def take_digits_fixed take_text_append
        take_digits_fixed [of _ _ "[]", simplified])
qed

end
