(* ===== verification/Partitions.thy ===== *)
theory Partitions
  imports Calendar
begin

text \<open>
  The daily partitions of the PostgreSQL sink (\<open>postgresql/postgresql.go\<close>): table identifiers, the name
  and the bounds of the partition of a day, the statements that create the partitions a batch needs, and
  the clean-up that drops the expired ones. The catalogue of the server is a map from the name of a
  partition to its parent and its bounds; \<open>server_name\<close> is what the server makes of a name it is given
  (PostgreSQL cuts names longer than 63 bytes), an argument of the model.
\<close>

section \<open>Identifiers\<close>

type_synonym pg_identifier = "string list"

definition identifier_of :: "string \<Rightarrow> string \<Rightarrow> pg_identifier" where
  "identifier_of name fallback =
     (let out = filter (\<lambda>part. part \<noteq> []) (map trim_space (split_on CHR ''.'' name))
      in if out = [] then [fallback] else out)"

definition siblingIdentifier :: "pg_identifier \<Rightarrow> string \<Rightarrow> pg_identifier" where
  "siblingIdentifier ident table =
     (if length ident \<le> 1 then [table] else ident[length ident - 1 := table])"

lemma identifier_of_nonempty [simp]: "identifier_of name fallback \<noteq> []"
  by (simp add: identifier_of_def Let_def)

lemma siblingIdentifier_last: "ident \<noteq> [] \<Longrightarrow> siblingIdentifier ident table = butlast ident @ [table]"
  by (cases ident rule: rev_cases) (auto simp: siblingIdentifier_def)

section \<open>Partitions of a day\<close>

definition dayStartUTC :: "time \<Rightarrow> time" where
  "dayStartUTC t = (let (y, m, d) = Date t in time_Date y m d)"

lemma dayStartUTC_eq: "dayStartUTC t = t div day_ns * day_ns"
  using time_Date_Date [of t] by (simp add: dayStartUTC_def)

lemma dayStartUTC_bounds: "dayStartUTC t \<le> t" "t < dayStartUTC t + day_ns"
  unfolding dayStartUTC_eq
  using div_mult_mod_eq [of t day_ns] pos_mod_bound [OF day_ns_pos, of t] pos_mod_sign [OF day_ns_pos, of t]
  by linarith+

lemma dayStartUTC_idem [simp]: "dayStartUTC (dayStartUTC t) = dayStartUTC t"
  by (simp add: dayStartUTC_eq)

lemma dayStartUTC_mono: "t \<le> u \<Longrightarrow> dayStartUTC t \<le> dayStartUTC u"
  by (simp add: dayStartUTC_eq mult_right_mono zdiv_mono1)

definition partitionIdentifier :: "pg_identifier \<Rightarrow> time \<Rightarrow> pg_identifier" where
  "partitionIdentifier parent day =
     (let suffix = format_date ''_'' day in
      if parent = [] then [''partition_'' @ suffix]
      else parent[length parent - 1 := parent ! (length parent - 1) @ ''_'' @ suffix])"

definition quoteTimestamp :: "time \<Rightarrow> string" where
  "quoteTimestamp t =
     (let s = t mod day_ns div second in
      [CHR 0x27] @ format_date ''-'' t @ '' '' @ zero_pad 2 (nat (s div 3600)) @ '':'' @
      zero_pad 2 (nat (s div 60 mod 60)) @ '':'' @ zero_pad 2 (nat (s mod 60)) @ ''+00:00'' @ [CHR 0x27])"

definition partitionDay :: "pg_identifier \<Rightarrow> string \<Rightarrow> time option" where
  "partitionDay parent relname =
     (if parent = [] then None
      else let prefix = last parent @ ''_'' in
           if \<not> has_prefix prefix relname then None
           else parse_date ''_'' (drop (length prefix) relname))"

lemma partitionIdentifier_last:
  "parent \<noteq> [] \<Longrightarrow>
   partitionIdentifier parent day = butlast parent @ [last parent @ ''_'' @ format_date ''_'' day]"
  by (cases parent rule: rev_cases) (auto simp: partitionIdentifier_def Let_def nth_append)

text \<open>A day that the layout can print: midnight of a day of the years up to 9999.\<close>

definition plain_day :: "time \<Rightarrow> bool" where
  "plain_day day \<longleftrightarrow> dayStartUTC day = day \<and> four_digit_year day"

lemma plain_dayStart: "four_digit_year t \<Longrightarrow> plain_day (dayStartUTC t)"
proof -
  have "dayStartUTC t div day_ns = t div day_ns" by (simp add: dayStartUTC_eq)
  then show "four_digit_year t \<Longrightarrow> plain_day (dayStartUTC t)"
    by (simp add: plain_day_def four_digit_year_def Date_def)
qed

lemma parse_plain_day: "plain_day day \<Longrightarrow> parse_date ''_'' (format_date ''_'' day) = Some day"
  using parse_format_date [of day "''_''"] by (simp add: plain_day_def dayStartUTC_eq)

lemma partitionDay_name:
  assumes "plain_day day" and "parent \<noteq> []"
  shows "partitionDay parent (last (partitionIdentifier parent day)) = Some day"
  using assms parse_plain_day
  by (simp add: partitionDay_def Let_def partitionIdentifier_last has_prefix_iff)

text \<open>The printed day has ten characters, so a name determines its parent and its day.\<close>

lemma length_format_plain: "four_digit_year day \<Longrightarrow> length (format_date [c] day) = 10"
proof -
  assume y: "four_digit_year day"
  obtain y' m d where date: "Date day = (y', m, d)" by (cases "Date day")
  have "valid_date y' m d" using civil_day(2) date by (simp add: Date_def)
  moreover have "list_all (\<lambda>l. l \<le> 31) (month_lengths y')" by (simp add: month_lengths_def)
  ultimately have "nat m < 10 ^ 2" "nat d < 10 ^ 2" "nat y' < 10 ^ 4"
    using y date by (auto simp: valid_date_def four_digit_year_def list_all_length month_lengths_facts
        dest!: spec [of _ "nat (m - 1)"])
  then show ?thesis by (simp add: format_date_def date zero_pad_def)
qed

lemma partitionIdentifier_inj:
  assumes "partitionIdentifier p d = partitionIdentifier p' d'" and "p \<noteq> []" and "p' \<noteq> []"
    and "plain_day d" and "plain_day d'"
  shows "p = p' \<and> d = d'"
proof -
  have eq: "butlast p = butlast p'" "last p @ ''_'' @ format_date ''_'' d = last p' @ ''_'' @ format_date ''_'' d'"
    using assms(1-3) by (simp_all add: partitionIdentifier_last)
  have "length (''_'' @ format_date ''_'' d) = length (''_'' @ format_date ''_'' d')"
    using assms(4,5) by (simp add: length_format_plain plain_day_def)
  then have "last p = last p'" "format_date ''_'' d = format_date ''_'' d'" using eq(2) by auto
  then show ?thesis
    using eq(1) assms parse_plain_day [of d] parse_plain_day [of d'] append_butlast_last_id
    by (metis option.inject)
qed

section \<open>Creating partitions\<close>

type_synonym catalogue = "pg_identifier \<rightharpoonup> pg_identifier \<times> time \<times> time"

text \<open>The statement of a day, and what it does: nothing if a relation has the name already.\<close>

definition partition_ddl :: "pg_identifier \<Rightarrow> time \<Rightarrow> pg_identifier \<times> pg_identifier \<times> time \<times> time" where
  "partition_ddl parent day = (partitionIdentifier parent day, parent, day, AddDate_days 1 day)"

definition exec_partition_ddl ::
    "(string \<Rightarrow> string) \<Rightarrow> pg_identifier \<times> pg_identifier \<times> time \<times> time \<Rightarrow> catalogue \<Rightarrow> catalogue" where
  "exec_partition_ddl server_name stmt c =
     (let (ident, parent, from, until) = stmt; name = map server_name ident in
      if c name \<noteq> None then c else c(name \<mapsto> (parent, from, until)))"

text \<open>The days of the ts, in any order (a Go map): here the order of first occurrence.\<close>

definition partition_days :: "time list \<Rightarrow> time list" where
  "partition_days ts = remdups (map dayStartUTC (filter (\<lambda>t. \<not> is_zero_time t) ts))"

definition ensureDailyPartitions ::
    "(string \<Rightarrow> string) \<Rightarrow> pg_identifier \<Rightarrow> time list \<Rightarrow> catalogue \<Rightarrow> catalogue" where
  "ensureDailyPartitions server_name parent ts c =
     fold (\<lambda>day. exec_partition_ddl server_name (partition_ddl parent day)) (partition_days ts) c"

text \<open>Where a row with this time goes.\<close>

definition routed :: "catalogue \<Rightarrow> pg_identifier \<Rightarrow> time \<Rightarrow> bool" where
  "routed c parent t \<longleftrightarrow>
     (\<exists>name from until. c name = Some (parent, from, until) \<and> from \<le> t \<and> t < until)"

text \<open>A catalogue that only the sink writes to: every entry is the partition of its name.\<close>

definition own_partitions :: "catalogue \<Rightarrow> bool" where
  "own_partitions c \<longleftrightarrow>
     (\<forall>name entry. c name = Some entry \<longrightarrow>
        (\<exists>parent day. parent \<noteq> [] \<and> plain_day day \<and> name = partitionIdentifier parent day \<and>
           entry = (parent, day, day + day_ns)))"

definition kept_name :: "(string \<Rightarrow> string) \<Rightarrow> pg_identifier \<Rightarrow> bool" where
  "kept_name server_name parent \<longleftrightarrow>
     parent \<noteq> [] \<and> (\<forall>day. plain_day day \<longrightarrow>
       map server_name (partitionIdentifier parent day) = partitionIdentifier parent day)"

lemma exec_own_ddl:
  assumes "own_partitions c" and "kept_name server_name parent" and "plain_day day"
  defines "c' \<equiv> exec_partition_ddl server_name (partition_ddl parent day) c"
  shows "own_partitions c'" and "c' (partitionIdentifier parent day) = Some (parent, day, day + day_ns)"
    and "c name = Some e \<Longrightarrow> c' name = Some e"
proof -
  have parent: "parent \<noteq> []" and name: "map server_name (partitionIdentifier parent day) = partitionIdentifier parent day"
    using assms(2,3) by (auto simp: kept_name_def)
  have c': "c' = (if c (partitionIdentifier parent day) \<noteq> None then c
      else c(partitionIdentifier parent day \<mapsto> (parent, day, day + day_ns)))"
    by (simp add: c'_def exec_partition_ddl_def partition_ddl_def name AddDate_days_eq)
  show "own_partitions c'"
    using assms(1,3) parent unfolding c' own_partitions_def by (auto split: if_splits)
  show "c' (partitionIdentifier parent day) = Some (parent, day, day + day_ns)"
  proof (cases "c (partitionIdentifier parent day)")
    case (Some e)
    with assms(1) obtain p d where "p \<noteq> []" "plain_day d"
      "partitionIdentifier parent day = partitionIdentifier p d" "e = (p, d, d + day_ns)"
      unfolding own_partitions_def by blast
    then show ?thesis using partitionIdentifier_inj [of parent day p d] parent assms(3) Some c' by simp
  qed (simp add: c')
  show "c name = Some e \<Longrightarrow> c' name = Some e"
    by (cases "c (partitionIdentifier parent day)") (auto simp: c')
qed

lemma fold_own_ddl:
  assumes "own_partitions c" and "kept_name server_name parent" and "\<forall>day \<in> set days. plain_day day"
  defines "c' \<equiv> fold (\<lambda>day. exec_partition_ddl server_name (partition_ddl parent day)) days c"
  shows "own_partitions c' \<and>
    (\<forall>day \<in> set days. c' (partitionIdentifier parent day) = Some (parent, day, day + day_ns)) \<and>
    (\<forall>name e. c name = Some e \<longrightarrow> c' name = Some e)"
  using assms(1,3) unfolding c'_def
proof (induction days arbitrary: c)
  case (Cons day days)
  note own = exec_own_ddl [OF Cons.prems(1) assms(2), of day]
  have day: "plain_day day" using Cons.prems(2) by simp
  have ih: "own_partitions (fold (\<lambda>day. exec_partition_ddl server_name (partition_ddl parent day)) days
        (exec_partition_ddl server_name (partition_ddl parent day) c)) \<and>
      (\<forall>d \<in> set days. fold (\<lambda>day. exec_partition_ddl server_name (partition_ddl parent day)) days
        (exec_partition_ddl server_name (partition_ddl parent day) c) (partitionIdentifier parent d) =
          Some (parent, d, d + day_ns)) \<and>
      (\<forall>name e. exec_partition_ddl server_name (partition_ddl parent day) c name = Some e \<longrightarrow>
        fold (\<lambda>day. exec_partition_ddl server_name (partition_ddl parent day)) days
        (exec_partition_ddl server_name (partition_ddl parent day) c) name = Some e)"
    using Cons.prems(2) by (intro Cons.IH own(1) [OF day]) simp
  then show ?case using own(2,3) [OF day] by simp
qed simp

lemma partition_days_set: "set (partition_days ts) = dayStartUTC ` {t \<in> set ts. t \<noteq> 0}"
  by (auto simp: partition_days_def is_zero_time_def)

section \<open>Retention\<close>

text \<open>
  \<open>dropExpiredPartitionsForTable\<close>: the rows of the catalogue query (schema and name of each partition
  of the table), the expired ones among them, and the drops, each a statement of its own; \<open>fails\<close> is
  the server's answer to a drop.
\<close>

definition expired_partitions :: "pg_identifier \<Rightarrow> time \<Rightarrow> (string \<times> string) list \<Rightarrow> pg_identifier list" where
  "expired_partitions parent cutoff listing =
     List.map_filter
       (\<lambda>(schema, relname).
          case partitionDay parent relname of
            None \<Rightarrow> None
          | Some day \<Rightarrow> if \<not> time_after (AddDate_days 1 day) cutoff then Some [schema, relname] else None)
       listing"

fun drop_partitions ::
    "(pg_identifier \<Rightarrow> go_error option) \<Rightarrow> pg_identifier list \<Rightarrow> pg_identifier list \<Rightarrow>
     go_error option \<times> pg_identifier list" where
  "drop_partitions fails [] dropped = (None, dropped)"
| "drop_partitions fails (p # ps) dropped =
     (case fails p of
        Some e \<Rightarrow> (Some (ErrWrap ''drop expired partition'' e), dropped)
      | None \<Rightarrow> drop_partitions fails ps (dropped @ [p]))"

text \<open>The error, the number reported, and the partitions dropped.\<close>

definition dropExpiredPartitionsForTable ::
    "(pg_identifier \<Rightarrow> go_error option) \<Rightarrow> (string \<times> string) list result \<Rightarrow> pg_identifier \<Rightarrow> time \<Rightarrow>
     go_error option \<times> nat \<times> pg_identifier list" where
  "dropExpiredPartitionsForTable fails listing parent cutoff =
     (case listing of
        Inl e \<Rightarrow> (Some (ErrWrap ''list partitions'' e), 0, [])
      | Inr rows \<Rightarrow>
          (let expired = expired_partitions parent cutoff rows in
           case drop_partitions fails expired [] of
             (Some e, dropped) \<Rightarrow> (Some e, 0, dropped)
           | (None, dropped) \<Rightarrow> (None, length expired, dropped)))"

fun dropExpiredPartitions ::
    "(pg_identifier \<Rightarrow> go_error option) \<Rightarrow> (pg_identifier \<Rightarrow> (string \<times> string) list result) \<Rightarrow>
     pg_identifier list \<Rightarrow> time \<Rightarrow> nat \<Rightarrow> pg_identifier list \<Rightarrow> (go_error option \<times> nat) \<times> pg_identifier list" where
  "dropExpiredPartitions fails listing [] cutoff n0 dropped = ((None, n0), dropped)"
| "dropExpiredPartitions fails listing (parent # rest) cutoff n0 dropped =
     (case dropExpiredPartitionsForTable fails (listing parent) parent cutoff of
        (Some e, n, ps) \<Rightarrow> ((Some e, n0), dropped @ ps)
      | (None, n, ps) \<Rightarrow> dropExpiredPartitions fails listing rest cutoff (n0 + n) (dropped @ ps))"

definition retentionDayCutoff :: "time \<Rightarrow> time" where
  "retentionDayCutoff partitionCutoff = dayStartUTC partitionCutoff"

lemma drop_partitions_result:
  "drop_partitions fails ps acc = (err, dropped) \<Longrightarrow>
   set dropped \<subseteq> set acc \<union> set ps \<and> (err = None \<longrightarrow> dropped = acc @ ps)"
  by (induction ps arbitrary: acc) (fastforce split: option.splits)+

lemma expired_partitions_iff:
  "[schema, relname] \<in> set (expired_partitions parent cutoff rows) \<longleftrightarrow>
   (schema, relname) \<in> set rows \<and>
   (\<exists>day. partitionDay parent relname = Some day \<and> day + day_ns \<le> cutoff)"
  by (force simp: expired_partitions_def map_filter_def time_after_def AddDate_days_eq image_iff not_less
      split: option.splits)

lemma partitionDay_plain_prefix:
  assumes "plain_day day" and "parent \<noteq> []"
  shows "partitionDay parent (last parent @ ''_'' @ format_date ''_'' day) = Some day"
  using partitionDay_name [OF assms] assms(2) by (simp add: partitionIdentifier_last)

section \<open>Properties\<close>

text \<open>
  C22: every row finds its partition. After \<open>ensureDailyPartitions\<close> each of the times of a batch (the zero
  time apart, which no sample carries) is covered by a partition of the table, however many of the sink's
  partitions were there before, and an existing partition is never changed. The conditions: every relation
  that was there is a partition as the sink makes it, with the bounds of the day in its name (a
  foreign relation of that name makes \<open>if not exists\<close> skip the day), the times are of years with four
  digits, and the names fit the server's limit.
\<close>
theorem partitions_cover_batch:
  assumes "own_partitions c" and "kept_name server_name parent"
    and "\<forall>t \<in> set ts. t \<noteq> 0 \<longrightarrow> four_digit_year t"
  shows "let c' = ensureDailyPartitions server_name parent ts c in
    own_partitions c' \<and> (\<forall>t \<in> set ts. t \<noteq> 0 \<longrightarrow> routed c' parent t) \<and>
    (\<forall>name e. c name = Some e \<longrightarrow> c' name = Some e)"
proof -
  have "\<forall>day \<in> set (partition_days ts). plain_day day"
    using assms(3) plain_dayStart by (auto simp: partition_days_set)
  note f = fold_own_ddl [OF assms(1,2) this, folded ensureDailyPartitions_def]
  have "routed (ensureDailyPartitions server_name parent ts c) parent t" if "t \<in> set ts" "t \<noteq> 0" for t
  proof -
    have "dayStartUTC t \<in> set (partition_days ts)" using that by (auto simp: partition_days_set)
    then show ?thesis using f dayStartUTC_bounds [of t] unfolding routed_def by blast
  qed
  then show ?thesis using f by (simp add: Let_def)
qed

lemma plain_day_0: "plain_day 0" "four_digit_year 5"
  unfolding plain_day_def by code_simp+

theorem partitions_cover_batch_witness:
  "routed (ensureDailyPartitions (\<lambda>s. s) [''m''] [5] Map.empty) [''m''] 5"
  using partitions_cover_batch [of Map.empty "\<lambda>s. s" "[''m'']" "[5]"] plain_day_0
  by (simp add: own_partitions_def kept_name_def Let_def)

text \<open>
  C27: retention keeps what is young and drops what is old. Every partition that a clean-up drops is one of
  those listed, its name is the table's followed by a day that parses, and that day had ended at the cut-off,
  so none of its rows is younger than the retention time. When it reports no error it has dropped exactly those
  and the number reported is theirs. A name that does not parse as a day (a default partition) is never
  dropped, and the names that the sink gives to the partitions of a day always parse as it.
\<close>
theorem retention_drops_exactly_expired:
  assumes "parent \<noteq> []" and "dropExpiredPartitionsForTable fails (Inr rows) parent cutoff = (err, n, dropped)"
  shows "(let expired = {[schema, relname] | schema relname. (schema, relname) \<in> set rows \<and>
            (\<exists>suffix day. relname = last parent @ ''_'' @ suffix \<and> parse_date ''_'' suffix = Some day \<and>
               (\<forall>t < day + day_ns. t < cutoff))}
      in set dropped \<subseteq> expired \<and> (err = None \<longrightarrow> set dropped = expired \<and> n = length dropped)) \<and>
    (\<forall>day. plain_day day \<longrightarrow>
       (\<exists>suffix. last (partitionIdentifier parent day) = last parent @ ''_'' @ suffix \<and> parse_date ''_'' suffix = Some day))"
proof -
  obtain e d where r: "drop_partitions fails (expired_partitions parent cutoff rows) [] = (e, d)" by fastforce
  have ed: "err = e" "dropped = d" "e = None \<longrightarrow> n = length (expired_partitions parent cutoff rows)"
    using assms(2) r by (auto simp: dropExpiredPartitionsForTable_def Let_def split: option.splits)
  note d = drop_partitions_result [OF r]
  have pd: "partitionDay parent relname = Some day \<longleftrightarrow>
      (\<exists>suffix. relname = last parent @ ''_'' @ suffix \<and> parse_date ''_'' suffix = Some day)" for relname day
    using assms(1) by (auto simp: partitionDay_def Let_def has_prefix_iff)
  have ended: "(\<forall>t < day + day_ns. t < cutoff) \<longleftrightarrow> day + day_ns \<le> cutoff" for day :: time
    by (auto simp: not_le dest: spec [of _ cutoff])
  have dropped_row: "[schema, relname] \<in> set (expired_partitions parent cutoff rows) \<longleftrightarrow> (schema, relname) \<in> set rows \<and>
      (\<exists>suffix day. relname = last parent @ ''_'' @ suffix \<and> parse_date ''_'' suffix = Some day \<and>
         (\<forall>t < day + day_ns. t < cutoff))" for schema relname
    unfolding expired_partitions_iff ended pd by blast
  have "p \<in> set (expired_partitions parent cutoff rows) \<Longrightarrow> \<exists>schema relname. p = [schema, relname]" for p
    by (auto simp: expired_partitions_def map_filter_def split: option.splits if_splits)
  then have "set (expired_partitions parent cutoff rows) = {[schema, relname] | schema relname.
      [schema, relname] \<in> set (expired_partitions parent cutoff rows)}" by blast
  also have "\<dots> = {[schema, relname] | schema relname. (schema, relname) \<in> set rows \<and>
      (\<exists>suffix day. relname = last parent @ ''_'' @ suffix \<and> parse_date ''_'' suffix = Some day \<and>
         (\<forall>t < day + day_ns. t < cutoff))}"
    unfolding dropped_row ..
  finally have "set (expired_partitions parent cutoff rows) = {[schema, relname] | schema relname. (schema, relname) \<in> set rows \<and>
      (\<exists>suffix day. relname = last parent @ ''_'' @ suffix \<and> parse_date ''_'' suffix = Some day \<and>
         (\<forall>t < day + day_ns. t < cutoff))}" .
  moreover have "\<exists>suffix. last (partitionIdentifier parent day) = last parent @ ''_'' @ suffix \<and>
      parse_date ''_'' suffix = Some day" if "plain_day day" for day
    using partitionDay_name [OF that assms(1)] pd by blast
  ultimately show ?thesis using d ed unfolding Let_def by simp
qed

lemma retention_drops_exactly_expired_witness:
  "set (snd (snd (dropExpiredPartitionsForTable (\<lambda>_. None)
     (Inr [(''public'', ''m_default''), (''public'', ''m_'' @ format_date ''_'' 0)]) [''m''] (2 * day_ns)))) =
   {[''public'', ''m_'' @ format_date ''_'' 0]}"
proof -
  let ?rows = "[(''public'', ''m_default''), (''public'', ''m_'' @ format_date ''_'' 0)]"
  let ?r = "dropExpiredPartitionsForTable (\<lambda>_. None) (Inr ?rows) [''m''] (2 * day_ns)"
  have none: "drop_partitions (\<lambda>_. None) ps acc = (None, acc @ ps)" for ps acc
    by (induction ps arbitrary: acc) simp_all
  have parsed: "parse_date ''_'' ''default'' = None" "parse_date ''_'' (format_date ''_'' 0) = Some 0"
    using parse_plain_day [OF plain_day_0(1)] by code_simp+
  have r: "?r = (None, fst (snd ?r), snd (snd ?r))"
    by (simp add: none dropExpiredPartitionsForTable_def Let_def)
  from retention_drops_exactly_expired [OF _ r]
  have "set (snd (snd ?r)) = {[schema, relname] | schema relname. (schema, relname) \<in> set ?rows \<and>
            (\<exists>suffix day. relname = last [''m''] @ ''_'' @ suffix \<and> parse_date ''_'' suffix = Some day \<and>
               (\<forall>t < day + day_ns. t < 2 * day_ns))}" by (simp add: Let_def)
  also have "\<dots> = {[''public'', ''m_'' @ format_date ''_'' 0]}"
    using parsed by (auto simp: day_ns_def)
  finally show ?thesis .
qed

text \<open>
  A table name of more than 52 bytes breaks the scheme: with the date appended the server cuts the name of
  every later day down to the same one, \<open>if not exists\<close> finds it, and nothing is created.
\<close>
lemma colliding_names_create_nothing:
  "map server_name (partitionIdentifier parent d) = map server_name (partitionIdentifier parent d') \<Longrightarrow>
   exec_partition_ddl server_name (partition_ddl parent d')
     (exec_partition_ddl server_name (partition_ddl parent d) c) =
   exec_partition_ddl server_name (partition_ddl parent d) c"
  by (simp add: exec_partition_ddl_def partition_ddl_def Let_def)

end
