(* ===== verification/Transactions.thy ===== *)
theory Transactions
  imports Prelude
begin

text \<open>
  What the sink relies on PostgreSQL for: a transaction runs its statements on a copy of the repository
  and replaces it when it commits. The server's answers are arguments: an error or none for every
  statement, and the outcome of the commit, which the client may not learn. A statement that the
  server refuses leaves nothing behind.
\<close>

section \<open>Statements\<close>

fun run_stages :: "('r \<Rightarrow> 'r result) list \<Rightarrow> 'r \<Rightarrow> 'r result" where
  "run_stages [] r = Inr r"
| "run_stages (st # sts) r = (case st r of Inl e \<Rightarrow> Inl e | Inr r' \<Rightarrow> run_stages sts r')"

text \<open>One statement: the server's refusal, or its effect.\<close>

definition exec_statement :: "string \<Rightarrow> go_error option \<Rightarrow> ('r \<Rightarrow> 'r) \<Rightarrow> 'r \<Rightarrow> 'r result" where
  "exec_statement what answer effect r =
     (case answer of Some e \<Rightarrow> Inl (ErrWrap what e) | None \<Rightarrow> Inr (effect r))"

text \<open>
  \<open>SendBatch\<close>: the statements run in the order queued; the loop over \<open>results.Exec\<close> returns the first
  error, and closing the results can fail too.
\<close>

type_synonym batch_answer = "(nat \<Rightarrow> go_error option) \<times> go_error option"

fun exec_batch ::
    "string \<Rightarrow> (nat \<Rightarrow> go_error option) \<Rightarrow> nat \<Rightarrow> ('r \<Rightarrow> 'r) list \<Rightarrow> 'r \<Rightarrow> 'r result" where
  "exec_batch what answers n [] r = Inr r"
| "exec_batch what answers n (st # sts) r =
     (case answers n of
        Some e \<Rightarrow> Inl (ErrWrap what e)
      | None \<Rightarrow> exec_batch what answers (Suc n) sts (st r))"

definition send_batch ::
    "string \<Rightarrow> string \<Rightarrow> batch_answer \<Rightarrow> ('r \<Rightarrow> 'r) list \<Rightarrow> 'r \<Rightarrow> 'r result" where
  "send_batch what closing answer sts r =
     (case exec_batch what (fst answer) 0 sts r of
        Inl e \<Rightarrow> Inl e
      | Inr r' \<Rightarrow> (case snd answer of Some e \<Rightarrow> Inl (ErrWrap closing e) | None \<Rightarrow> Inr r'))"

lemma run_stages_append:
  "run_stages (xs @ ys) r = (case run_stages xs r of Inl e \<Rightarrow> Inl e | Inr r' \<Rightarrow> run_stages ys r')"
  by (induction xs arbitrary: r) (auto split: sum.splits)

lemma run_stages_invariant:
  assumes "run_stages sts r = Inr r'" and "P r"
    and "\<And>st a b. st \<in> set sts \<Longrightarrow> P a \<Longrightarrow> st a = Inr b \<Longrightarrow> P b"
  shows "P r'"
  using assms
proof (induction sts arbitrary: r)
  case (Cons st sts)
  then obtain r1 where st: "st r = Inr r1" "run_stages sts r1 = Inr r'" by (auto split: sum.splits)
  show ?case
  proof (rule Cons.IH [OF st(2)])
    show "P r1" using Cons.prems st(1) by auto
    show "P b" if "st' \<in> set sts" "P a" "st' a = Inr b" for st' a b
      using Cons.prems(3) [of st' a b] that by simp
  qed
qed simp

lemma exec_statement_ok [simp]:
  "exec_statement what answer f r = Inr r' \<longleftrightarrow> answer = None \<and> r' = f r"
  by (auto simp: exec_statement_def split: option.splits)

lemma exec_batch_ok: "exec_batch what ans n sts r = Inr r' \<Longrightarrow> r' = fold (\<lambda>f. f) sts r"
  by (induction sts arbitrary: n r) (auto split: option.splits)

lemma send_batch_ok: "send_batch what closing ans sts r = Inr r' \<Longrightarrow> r' = fold (\<lambda>f. f) sts r"
  by (auto simp: send_batch_def split: sum.splits option.splits dest: exec_batch_ok)

lemma exec_batch_quiet [simp]: "exec_batch what (\<lambda>_. None) n sts r = Inr (fold (\<lambda>f. f) sts r)"
  by (induction sts arbitrary: n r) simp_all

lemma send_batch_quiet [simp]: "send_batch what closing (\<lambda>_. None, None) sts r = Inr (fold (\<lambda>f. f) sts r)"
  by (simp add: send_batch_def)

lemma fold_map_statements: "fold (\<lambda>f. f) (map g xs) r = fold g xs r"
  by (induction xs arbitrary: r) simp_all

section \<open>Transactions\<close>

datatype commit_outcome = Committed | CommitRefused go_error | CommitLost go_error

definition transaction ::
    "string \<Rightarrow> go_error option \<Rightarrow> ('r \<Rightarrow> 'r result) list \<Rightarrow> string \<Rightarrow> commit_outcome \<Rightarrow> 'r \<Rightarrow>
     go_error option \<times> 'r" where
  "transaction beginning begun stages committing outcome r =
     (case begun of
        Some e \<Rightarrow> (Some (ErrWrap beginning e), r)
      | None \<Rightarrow>
          (case run_stages stages r of
             Inl e \<Rightarrow> (Some e, r)
           | Inr r' \<Rightarrow>
               (case outcome of
                  Committed \<Rightarrow> (None, r')
                | CommitRefused e \<Rightarrow> (Some (ErrWrap committing e), r)
                | CommitLost e \<Rightarrow> (Some (ErrWrap committing e), r'))))"

fun lost_commit :: "commit_outcome \<Rightarrow> bool" where
  "lost_commit (CommitLost e) = True"
| "lost_commit c = False"

lemma transaction_success:
  "transaction a begun sts b outcome r = (None, r') \<longleftrightarrow>
   begun = None \<and> run_stages sts r = Inr r' \<and> outcome = Committed"
  by (auto simp: transaction_def split: option.splits sum.splits commit_outcome.splits)

lemma transaction_failure:
  "transaction a begun sts b outcome r = (Some e, r') \<Longrightarrow> \<not> lost_commit outcome \<Longrightarrow> r' = r"
  by (auto simp: transaction_def split: option.splits sum.splits commit_outcome.splits)

text \<open>All or nothing, also when the answer to the commit is lost.\<close>

lemma transaction_all_or_nothing:
  "transaction a begun sts b outcome r = (err, r') \<Longrightarrow> r' = r \<or> run_stages sts r = Inr r'"
  by (auto simp: transaction_def split: option.splits sum.splits commit_outcome.splits)

end
