(* ===== verification/Tables.thy ===== *)
theory Tables
  imports Samples Partitions Transactions Machines
begin

text \<open>
  The tables of the sink that are written by upserts (\<open>postgresql/postgresql.go\<close>): the latest status of a
  collector, the latest runtime status of a scheduler, the connection states, and the activity samples.
  Each table is a map from its key to its row; each statement is its effect on the map.
  \<open>retained_table\<close> is what the tables that retention prunes have in common.
\<close>

section \<open>Retained tables\<close>

datatype 'w table_event = Write 'w | Prune time

text \<open>
  A row has a time, \<open>seen_at\<close>, that writes never lower; a write that sees a key leaves its time no earlier
  than \<open>coarse\<close> of the sighting; a clean-up deletes the rows whose time is before its cut-off.
\<close>

definition prune :: "('r \<Rightarrow> time) \<Rightarrow> time \<Rightarrow> ('k \<rightharpoonup> 'r) \<Rightarrow> ('k \<rightharpoonup> 'r)" where
  "prune seen_at cutoff t = (\<lambda>k. case t k of None \<Rightarrow> None | Some r \<Rightarrow> if seen_at r < cutoff then None else Some r)"

fun table_run :: "('w \<Rightarrow> ('k \<rightharpoonup> 'r) \<Rightarrow> ('k \<rightharpoonup> 'r)) \<Rightarrow> ('r \<Rightarrow> time) \<Rightarrow> 'w table_event list \<Rightarrow> ('k \<rightharpoonup> 'r) \<Rightarrow> ('k \<rightharpoonup> 'r)" where
  "table_run put seen_at [] t = t"
| "table_run put seen_at (Write w # es) t = table_run put seen_at es (put w t)"
| "table_run put seen_at (Prune c # es) t = table_run put seen_at es (prune seen_at c t)"

locale retained_table =
  fixes put :: "'w \<Rightarrow> ('k \<rightharpoonup> 'r) \<Rightarrow> ('k \<rightharpoonup> 'r)"
    and seen_at :: "'r \<Rightarrow> time"
    and sees :: "'w \<Rightarrow> 'k \<Rightarrow> time \<Rightarrow> bool"
    and coarse :: "time \<Rightarrow> time"
  assumes put_keeps: "t k = Some r \<Longrightarrow> \<exists>r'. put w t k = Some r' \<and> seen_at r \<le> seen_at r'"
    and put_sees: "sees w k s \<Longrightarrow> put w t k = Some r \<Longrightarrow> coarse s \<le> seen_at r"
begin

lemma run_keeps:
  assumes "t k = Some r" and "\<forall>c. Prune c \<in> set es \<longrightarrow> c \<le> seen_at r"
  shows "\<exists>r'. table_run put seen_at es t k = Some r' \<and> seen_at r \<le> seen_at r'"
  using assms
proof (induction es arbitrary: t r)
  case (Cons e es)
  show ?case
  proof (cases e)
    case (Write w)
    obtain r1 where r1: "put w t k = Some r1" "seen_at r \<le> seen_at r1"
      using put_keeps [where t = t and k = k and r = r and w = w] Cons.prems(1) by blast
    have "\<forall>c. Prune c \<in> set es \<longrightarrow> c \<le> seen_at r1" using Cons.prems(2) r1(2) Write by force
    with Cons.IH [where t = "put w t" and r = r1] r1 show ?thesis using Write by force
  next
    case (Prune c)
    then have "\<not> seen_at r < c" using Cons.prems(2) by (simp add: not_less)
    then have "prune seen_at c t k = Some r" using Cons.prems(1) by (simp add: prune_def)
    with Cons.IH [where t = "prune seen_at c t" and r = r] show ?thesis using Cons.prems(2) Prune by simp
  qed
qed simp

text \<open>What a write has seen outlives every clean-up whose cut-off is not after the sighting.\<close>

lemma seen_survives:
  assumes "sees w k s" and "put w t k = Some r" and "\<forall>c. Prune c \<in> set es \<longrightarrow> c \<le> coarse s"
  shows "\<exists>r'. table_run put seen_at es (put w t) k = Some r' \<and> coarse s \<le> seen_at r'"
proof -
  have s: "coarse s \<le> seen_at r" by (rule put_sees [OF assms(1,2)])
  then have "\<forall>c. Prune c \<in> set es \<longrightarrow> c \<le> seen_at r" using assms(3) by force
  with run_keeps [where t = "put w t" and r = r] assms(2) s show ?thesis by force
qed

end

text \<open>
  A batch of upserts for the entries of a map, in any order, changes every key by itself: \<open>merge\<close> makes the
  new row of the existing one, if any, and the entry.
\<close>

definition upsert_entry :: "('r option \<Rightarrow> 'w \<Rightarrow> 'r) \<Rightarrow> ('k \<rightharpoonup> 'w) \<Rightarrow> 'k \<Rightarrow> ('k \<rightharpoonup> 'r) \<Rightarrow> ('k \<rightharpoonup> 'r)" where
  "upsert_entry merge m k t = (case m k of None \<Rightarrow> t | Some w \<Rightarrow> t(k \<mapsto> merge (t k) w))"

definition apply_entries :: "('r option \<Rightarrow> 'w \<Rightarrow> 'r) \<Rightarrow> ('k \<rightharpoonup> 'w) \<Rightarrow> ('k \<rightharpoonup> 'r) \<Rightarrow> ('k \<rightharpoonup> 'r)" where
  "apply_entries merge m t = (\<lambda>k. case m k of None \<Rightarrow> t k | Some w \<Rightarrow> Some (merge (t k) w))"

lemma fold_upsert_entry:
  assumes "distinct ks"
  shows "fold (upsert_entry merge m) ks t k = (if k \<in> set ks then apply_entries merge m t k else t k)"
  using assms
proof (induction ks arbitrary: t)
  case (Cons a ks)
  then show ?case by (auto simp: apply_entries_def upsert_entry_def split: option.splits)
qed simp

lemma fold_upsert_entries: "distinct ks \<Longrightarrow> set ks = dom m \<Longrightarrow> fold (upsert_entry merge m) ks t = apply_entries merge m t"
  by (rule ext) (auto simp: fold_upsert_entry apply_entries_def split: option.splits)

text \<open>The deletion of the rows before a cut-off, and the times a later statement raises.\<close>

definition delete_expired :: "string \<Rightarrow> go_error option \<Rightarrow> ('r \<Rightarrow> time) \<Rightarrow> time \<Rightarrow> ('k \<rightharpoonup> 'r) \<Rightarrow> ('k \<rightharpoonup> 'r) result" where
  "delete_expired what answer seen_at cutoff t = exec_statement what answer (prune seen_at cutoff) t"

text \<open>The newest time of every key: how the collecting loops keep references.\<close>

definition newest_time :: "'k \<Rightarrow> time \<Rightarrow> ('k \<rightharpoonup> time) \<Rightarrow> ('k \<rightharpoonup> time)" where
  "newest_time key seenAt references =
     (case references key of
        None \<Rightarrow> references(key \<mapsto> seenAt)
      | Some previous \<Rightarrow> if time_after seenAt previous then references(key \<mapsto> seenAt) else references)"

lemma newest_time_apply:
  "newest_time key s m k = (if k = key then Some (case m key of None \<Rightarrow> s | Some p \<Rightarrow> max p s) else m k)"
  by (auto simp: newest_time_def time_after_def max_def split: option.splits)

lemma newest_time_upper:
  "(k, s) \<in> set refs \<Longrightarrow> \<exists>s'. fold (\<lambda>(k, s). newest_time k s) refs m k = Some s' \<and> s \<le> s'"
proof (induction refs rule: rev_induct)
  case (snoc x refs)
  define n where "n = fold (\<lambda>(k, s). newest_time k s) refs m"
  have seen: "(k, s) = x \<or> (\<exists>s'. n k = Some s' \<and> s \<le> s')" using snoc by (auto simp: n_def)
  have "fold (\<lambda>(k, s). newest_time k s) (refs @ [x]) m k = newest_time (fst x) (snd x) n k"
    by (simp add: n_def split_beta)
  also have "\<dots> = (if k = fst x then Some (case n (fst x) of None \<Rightarrow> snd x | Some p \<Rightarrow> max p (snd x)) else n k)"
    by (rule newest_time_apply)
  finally show ?case using seen by (auto simp del: fold_append simp: le_max_iff_disj split: option.splits)
qed simp

section \<open>Latest scrape statuses\<close>

type_synonym latest_statuses = "string \<times> string \<rightharpoonup> ScrapeStatusSample"

definition status_key :: "ScrapeStatusSample \<Rightarrow> string \<times> string" where
  "status_key s = (stDatabase s, stCollector s)"

text \<open>\<open>on conflict \<dots> do update \<dots> where excluded.collected_at >= existing.collected_at\<close>.\<close>

definition upsert_status :: "ScrapeStatusSample \<Rightarrow> latest_statuses \<Rightarrow> latest_statuses" where
  "upsert_status s t =
     (case t (status_key s) of
        None \<Rightarrow> t(status_key s \<mapsto> s)
      | Some existing \<Rightarrow>
          if stCollectedAt s \<ge> stCollectedAt existing then t(status_key s \<mapsto> s) else t)"

interpretation latest_status: latest_wins upsert_status status_key stCollectedAt
  by unfold_locales (auto simp: upsert_status_def split: option.splits)

text \<open>
  \<open>backfillLatestScrapeStatus\<close>: \<open>select distinct on (source_database, collector) \<dots> order by \<dots> collected_at
  desc\<close> picks a newest row of every key of the history, which is then upserted. \<open>newest\<close> is the
  server's choice.
\<close>

definition picks_newest :: "ScrapeStatusSample list \<Rightarrow> ScrapeStatusSample list \<Rightarrow> bool" where
  "picks_newest newest history \<longleftrightarrow>
     distinct (map status_key newest) \<and> set newest \<subseteq> set history \<and>
     (\<forall>s \<in> set history. \<exists>n \<in> set newest. status_key n = status_key s \<and> stCollectedAt s \<le> stCollectedAt n)"

definition backfillLatestScrapeStatus ::
    "go_error option \<Rightarrow> ScrapeStatusSample list \<Rightarrow> latest_statuses \<Rightarrow> latest_statuses result" where
  "backfillLatestScrapeStatus answer newest t =
     exec_statement ''backfill latest scrape status table'' answer (fold upsert_status newest) t"

section \<open>Latest runtime statuses\<close>

type_synonym latest_runtime = "string \<times> string \<rightharpoonup> RuntimeSample"

definition runtime_key :: "RuntimeSample \<Rightarrow> string \<times> string" where
  "runtime_key s = (rtHAScope s, rtScheduler s)"

definition upsert_runtime :: "RuntimeSample \<Rightarrow> latest_runtime \<Rightarrow> latest_runtime" where
  "upsert_runtime s t =
     (case t (runtime_key s) of
        None \<Rightarrow> t(runtime_key s \<mapsto> s)
      | Some existing \<Rightarrow>
          if rtObservedAt s \<ge> rtObservedAt existing then t(runtime_key s \<mapsto> s) else t)"

interpretation latest_runtime: latest_wins upsert_runtime runtime_key rtObservedAt
  by unfold_locales (auto simp: upsert_runtime_def split: option.splits)

text \<open>The index of the newest sample of every key, as the loop over the batch finds it.\<close>

definition latest_index :: "RuntimeSample list \<Rightarrow> nat \<Rightarrow> (string \<times> string \<rightharpoonup> nat) \<Rightarrow> (string \<times> string \<rightharpoonup> nat)" where
  "latest_index samples index latest =
     (let sample = samples ! index; key = runtime_key sample in
      case latest key of
        None \<Rightarrow> latest(key \<mapsto> index)
      | Some current \<Rightarrow>
          if time_after (rtObservedAt sample) (rtObservedAt (samples ! current))
          then latest(key \<mapsto> index) else latest)"

definition latest_indexes :: "RuntimeSample list \<Rightarrow> (string \<times> string \<rightharpoonup> nat)" where
  "latest_indexes samples = fold (latest_index samples) [0..<length samples] Map.empty"

definition latest_indexes_ok :: "RuntimeSample list \<Rightarrow> nat \<Rightarrow> (string \<times> string \<rightharpoonup> nat) \<Rightarrow> bool" where
  "latest_indexes_ok samples n latest \<longleftrightarrow>
     (\<forall>k i. latest k = Some i \<longrightarrow> i < n \<and> runtime_key (samples ! i) = k) \<and>
     (\<forall>j < n. \<exists>i. latest (runtime_key (samples ! j)) = Some i \<and>
                rtObservedAt (samples ! j) \<le> rtObservedAt (samples ! i))"

lemma latest_index_ok:
  assumes "latest_indexes_ok samples n m"
  shows "latest_indexes_ok samples (Suc n) (latest_index samples n m)"
proof (cases "m (runtime_key (samples ! n))")
  case None
  then show ?thesis using assms unfolding latest_indexes_ok_def
    by (simp add: latest_index_def Let_def less_Suc_eq) (metis option.distinct(1))
next
  case (Some i)
  have old: "l < n" "runtime_key (samples ! l) = k" if "m k = Some l" for k l
    using assms that unfolding latest_indexes_ok_def by blast+
  show ?thesis unfolding latest_indexes_ok_def
  proof (intro conjI allI impI)
    fix k l assume "latest_index samples n m k = Some l"
    then have "l = n \<and> k = runtime_key (samples ! n) \<or> m k = Some l"
      using Some by (auto simp: latest_index_def Let_def split: if_splits)
    then show "l < Suc n" "runtime_key (samples ! l) = k" using old [of k l] by auto
  next
    fix j assume "j < Suc n"
    then consider "j < n" | "j = n" by linarith
    then show "\<exists>l. latest_index samples n m (runtime_key (samples ! j)) = Some l \<and>
        rtObservedAt (samples ! j) \<le> rtObservedAt (samples ! l)"
    proof cases
      case 1
      then obtain l where l: "m (runtime_key (samples ! j)) = Some l" "rtObservedAt (samples ! j) \<le> rtObservedAt (samples ! l)"
        using assms unfolding latest_indexes_ok_def by blast
      then show ?thesis
        using Some by (cases "runtime_key (samples ! j) = runtime_key (samples ! n)")
          (auto simp: latest_index_def Let_def time_after_def)
    next
      case 2
      then show ?thesis using Some by (auto simp: latest_index_def Let_def time_after_def)
    qed
  qed
qed

lemma latest_indexes_newest: "latest_indexes_ok samples (length samples) (latest_indexes samples)"
proof -
  have "latest_indexes_ok samples n (fold (latest_index samples) [0..<n] Map.empty)" for n
    by (induction n) (simp add: latest_indexes_ok_def, simp add: latest_index_ok)
  then show ?thesis by (simp add: latest_indexes_def)
qed

text \<open>\<open>order\<close> is the iteration over the map of indexes.\<close>

definition upsert_latest_runtime ::
    "batch_answer \<Rightarrow> nat list \<Rightarrow> RuntimeSample list \<Rightarrow> latest_runtime \<Rightarrow> latest_runtime result" where
  "upsert_latest_runtime answers order samples t =
     send_batch ''upsert latest runtime status'' ''close latest runtime status batch'' answers
       (map (\<lambda>i. upsert_runtime (samples ! i)) order) t"

lemma upsert_latest_runtime_newest:
  assumes "upsert_latest_runtime answers order samples t = Inr t'" and "set order = ran (latest_indexes samples)"
    and "s \<in> set samples"
  shows "\<exists>row. t' (runtime_key s) = Some row \<and> rtObservedAt s \<le> rtObservedAt row"
proof -
  note ok = latest_indexes_newest [of samples, unfolded latest_indexes_ok_def]
  obtain j where j: "j < length samples" "s = samples ! j" using assms(3) by (auto simp: in_set_conv_nth)
  with ok obtain i where i: "latest_indexes samples (runtime_key s) = Some i"
    "rtObservedAt s \<le> rtObservedAt (samples ! i)" by blast
  then have key: "runtime_key (samples ! i) = runtime_key s" using ok by blast
  have order: "samples ! i \<in> set (map ((!) samples) order)" using assms(2) ranI [of "latest_indexes samples", OF i(1)] by simp
  have t': "t' = fold upsert_runtime (map ((!) samples) order) t"
    using send_batch_ok [OF assms(1) [unfolded upsert_latest_runtime_def]]
    by (simp add: fold_map_statements fold_map comp_def)
  have "runtime_key s \<in> dom t'"
    unfolding t' latest_runtime.dom_fold using imageI [OF order, of runtime_key] key by simp
  then obtain row where "t' (runtime_key s) = Some row" by blast
  then show ?thesis using latest_runtime.fold_newest [OF _ order key] i(2) t' by fastforce
qed

section \<open>Connection states\<close>

type_synonym connection_states = "string \<rightharpoonup> DatabaseConnectionStateSample"

definition upsert_connection :: "DatabaseConnectionStateSample \<Rightarrow> connection_states \<Rightarrow> connection_states" where
  "upsert_connection s t =
     (case t (csDatabase s) of
        None \<Rightarrow> t(csDatabase s \<mapsto> s)
      | Some existing \<Rightarrow>
          if csObservedAt s \<ge> csObservedAt existing then t(csDatabase s \<mapsto> s) else t)"

interpretation connection: latest_wins upsert_connection csDatabase csObservedAt
  by unfold_locales (auto simp: upsert_connection_def split: option.splits)

text \<open>The answers of the server: to the batch, and to the delete.\<close>

definition writeConnectionStates ::
    "batch_answer \<Rightarrow> go_error option \<Rightarrow> DatabaseConnectionStateSample list \<Rightarrow> bool \<Rightarrow>
     connection_states \<Rightarrow> connection_states result" where
  "writeConnectionStates answers deleting samples full t =
     (if samples = [] then
        (if full
         then exec_statement ''remove unconfigured database connection state'' deleting (\<lambda>_. Map.empty) t
         else Inr t)
      else
        (case send_batch ''upsert database connection state'' ''close database connection state batch'' answers
                (map upsert_connection samples) t of
           Inl e \<Rightarrow> Inl e
         | Inr t' \<Rightarrow>
             if full
             then exec_statement ''remove unconfigured database connection state'' deleting
                    (\<lambda>t. t |` set (map csDatabase samples)) t'
             else Inr t'))"

lemma writeConnectionStates_ok:
  "writeConnectionStates answers deleting samples full t = Inr t' \<Longrightarrow>
   t' = (if full then fold upsert_connection samples t |` set (map csDatabase samples)
         else fold upsert_connection samples t)"
  by (auto simp: writeConnectionStates_def fold_map_statements restrict_map_def
      split: if_splits sum.splits dest!: send_batch_ok)

section \<open>Activity samples\<close>

text \<open>The generated column of the unique index.\<close>

definition session_serial_number_key :: "DatabaseActivitySample \<Rightarrow> int64" where
  "session_serial_number_key s = (case daSessionSerialNumber s of None \<Rightarrow> -1 | Some n \<Rightarrow> n)"

type_synonym activity_key = "time \<times> string \<times> int64 \<times> int64 \<times> int64 \<times> int64"

definition activity_key :: "DatabaseActivitySample \<Rightarrow> activity_key" where
  "activity_key s =
     (daSampleTime s, daDatabase s, daInstID s, daSampleID s, daSessionID s, session_serial_number_key s)"

text \<open>\<open>on conflict do nothing\<close>: the row that is there stays.\<close>

definition insert_activity ::
    "DatabaseActivitySample \<Rightarrow> (activity_key \<rightharpoonup> DatabaseActivitySample) \<Rightarrow> (activity_key \<rightharpoonup> DatabaseActivitySample)" where
  "insert_activity s t = (if t (activity_key s) = None then t(activity_key s \<mapsto> s) else t)"

lemma insert_activity_le: "t \<subseteq>\<^sub>m insert_activity s t"
  by (auto simp: insert_activity_def map_le_def)

lemma fold_insert_activity_le: "t \<subseteq>\<^sub>m fold insert_activity samples t"
proof (induction samples arbitrary: t)
  case (Cons s samples)
  then show ?case using insert_activity_le [of t s] map_le_trans by fastforce
qed simp

lemma fold_insert_activity_dom:
  "dom (fold insert_activity samples t) = dom t \<union> activity_key ` set samples"
  by (induction samples arbitrary: t) (auto simp: insert_activity_def)

lemma fold_insert_activity_known:
  "activity_key ` set samples \<subseteq> dom t \<Longrightarrow> fold insert_activity samples t = t"
proof (induction samples arbitrary: t)
  case (Cons s samples)
  then have "insert_activity s t = t" by (auto simp: insert_activity_def)
  with Cons show ?case by simp
qed simp

section \<open>Properties\<close>

text \<open>
  The table of latest statuses shows the newest status of every collector. Whatever the order in which
  statuses arrive, also from two scrapers at once, each collector that has reported has a row, the row
  is one that was reported, and none that was reported is newer.
\<close>
theorem latest_status_newest:
  assumes "s \<in> set statuses"
  shows "\<exists>row. fold upsert_status statuses t (status_key s) = Some row \<and>
    stCollectedAt s \<le> stCollectedAt row \<and>
    (t (status_key s) = Some row \<or> row \<in> set statuses \<and> status_key row = status_key s)"
proof -
  have "status_key s \<in> dom (fold upsert_status statuses t)" using assms by (simp add: latest_status.dom_fold)
  then obtain row where row: "fold upsert_status statuses t (status_key s) = Some row" by blast
  then show ?thesis
    using latest_status.fold_newest [OF row assms refl] latest_status.fold_source [OF row] by blast
qed

definition example_status :: "time \<Rightarrow> ScrapeStatusSample" where
  "example_status t = \<lparr>stCollectedAt = t, stDatabase = ''db'', stCollector = ''metrics'', stSuccess = True,
     stDurationSeconds = 0, stSampleCount = 0, stErrorMessage = None\<rparr>"

theorem latest_status_newest_witness:
  "\<exists>row. fold upsert_status [example_status 7, example_status 3] Map.empty (''db'', ''metrics'') = Some row \<and>
     7 \<le> stCollectedAt row"
  using latest_status_newest [of "example_status 7" "[example_status 7, example_status 3]" Map.empty]
  by (auto simp: status_key_def example_status_def)

text \<open>
  The connection table mirrors the configured databases. A batch with the states of all databases
  leaves exactly their rows, none older than the batch's and each from the batch or already there;
  databases that are no longer configured disappear.
\<close>
theorem connection_table_mirrors:
  assumes "writeConnectionStates answers deleting samples True t = Inr t'"
  shows "dom t' = csDatabase ` set samples \<and>
    (\<forall>s \<in> set samples. \<exists>row. t' (csDatabase s) = Some row \<and> csObservedAt s \<le> csObservedAt row \<and>
       (t (csDatabase s) = Some row \<or> row \<in> set samples))"
proof -
  have t': "t' = fold upsert_connection samples t |` set (map csDatabase samples)"
    using writeConnectionStates_ok [OF assms] by simp
  have dom: "dom t' = csDatabase ` set samples" by (auto simp: t' connection.dom_fold)
  moreover have "\<exists>row. t' (csDatabase s) = Some row \<and> csObservedAt s \<le> csObservedAt row \<and>
      (t (csDatabase s) = Some row \<or> row \<in> set samples)" if "s \<in> set samples" for s
  proof -
    have "csDatabase s \<in> dom t'" using that by (simp add: dom)
    then obtain row where row: "t' (csDatabase s) = Some row" by (auto simp: dom_def)
    then have "fold upsert_connection samples t (csDatabase s) = Some row"
      using that by (simp add: t' restrict_map_def)
    then show ?thesis
      using row connection.fold_newest [OF _ that refl, of t row]
        connection.fold_source [of samples t "csDatabase s" row] by auto
  qed
  ultimately show ?thesis by blast
qed

definition example_connection :: DatabaseConnectionStateSample where
  "example_connection = \<lparr>csObservedAt = 4, csDatabase = ''db'', csState = ''connected'', csQueuedAt = None,
     csLastFailureAt = None, csLastFailure = None, csLastProbeAt = None, csLastProbeDurationSeconds = None,
     csLastProbeError = None, csProbeAttempts = 0, csRecoveredAt = None, csScraperInstance = ''a''\<rparr>"

theorem connection_table_mirrors_witness:
  "\<exists>t'. writeConnectionStates (\<lambda>_. None, None) None [example_connection] True
     [''gone'' \<mapsto> example_connection] = Inr t' \<and> dom t' = {''db''}"
proof -
  obtain t' where t': "writeConnectionStates (\<lambda>_. None, None) None [example_connection] True
      [''gone'' \<mapsto> example_connection] = Inr t'"
    by (simp add: writeConnectionStates_def exec_statement_def)
  have "csDatabase example_connection = ''db''" by (simp add: example_connection_def)
  then show ?thesis using t' connection_table_mirrors [OF t'] by simp
qed

text \<open>
  Sending activity samples again changes nothing. The insert keeps every row that is there, adds
  exactly the samples with new keys, and a second run of the same or of an overlapping batch is without
  effect, so a retry after a failed write never duplicates a sample.
\<close>
theorem activity_insert_idempotent:
  "t \<subseteq>\<^sub>m fold insert_activity samples t \<and>
   dom (fold insert_activity samples t) = dom t \<union> activity_key ` set samples \<and>
   (set again \<subseteq> set samples \<longrightarrow>
      fold insert_activity again (fold insert_activity samples t) = fold insert_activity samples t)"
proof -
  have "set again \<subseteq> set samples \<Longrightarrow>
      fold insert_activity again (fold insert_activity samples t) = fold insert_activity samples t"
    by (rule fold_insert_activity_known) (auto simp: fold_insert_activity_dom)
  then show ?thesis by (simp add: fold_insert_activity_le fold_insert_activity_dom)
qed

theorem activity_insert_idempotent_witness:
  "\<forall>s. fold insert_activity [s] (fold insert_activity [s] Map.empty) = fold insert_activity [s] Map.empty"
  using activity_insert_idempotent [where again = "[s]" and samples = "[s]" and t = Map.empty for s] by simp

end
