(* ===== verification/SinkSQL.thy ===== *)
theory SinkSQL
  imports Tables
begin

text \<open>
  The three tables of the sink that keep what SQL samples refer to (\<open>postgresql/postgresql.go\<close>): the full
  texts, the cursor metadata and the plans. Each is written by upserts for the newest of what a batch
  carries, has its sightings refreshed, and is pruned by retention.
\<close>

section \<open>SQL texts\<close>

type_synonym sqlTextKey = "string \<times> string"

record sqlTextRecord =
  rcFullText :: string
  rcFirstSeen :: time
  rcLastSeen :: time

definition addReference :: "string \<Rightarrow> string \<Rightarrow> time \<Rightarrow> (sqlTextKey \<rightharpoonup> time) \<Rightarrow> (sqlTextKey \<rightharpoonup> time)" where
  "addReference database sqlID seenAt references =
     (if trim_space database = [] \<or> trim_space sqlID = [] \<or> is_zero_time seenAt then references
      else newest_time (database, sqlID) seenAt references)"

definition addOptionalReference ::
    "string \<Rightarrow> string option \<Rightarrow> time \<Rightarrow> (sqlTextKey \<rightharpoonup> time) \<Rightarrow> (sqlTextKey \<rightharpoonup> time)" where
  "addOptionalReference database sqlID seenAt references =
     (case sqlID of None \<Rightarrow> references | Some i \<Rightarrow> addReference database i seenAt references)"

definition add_text :: "sqlTextKey \<Rightarrow> string \<Rightarrow> time \<Rightarrow> (sqlTextKey \<rightharpoonup> sqlTextRecord) \<Rightarrow> (sqlTextKey \<rightharpoonup> sqlTextRecord)" where
  "add_text key fullText collectedAt texts =
     (case texts key of
        None \<Rightarrow> texts(key \<mapsto> \<lparr>rcFullText = fullText, rcFirstSeen = collectedAt, rcLastSeen = collectedAt\<rparr>)
      | Some r \<Rightarrow>
          (let r = (if time_before collectedAt (rcFirstSeen r) then r\<lparr>rcFirstSeen := collectedAt\<rparr> else r);
               r = (if \<not> time_before collectedAt (rcLastSeen r)
                    then r\<lparr>rcFullText := fullText, rcLastSeen := collectedAt\<rparr> else r)
           in texts(key \<mapsto> r)))"

definition collectSQLTextUpdates ::
    "PerformanceSamples \<Rightarrow> (sqlTextKey \<rightharpoonup> sqlTextRecord) \<times> (sqlTextKey \<rightharpoonup> time)" where
  "collectSQLTextUpdates p =
     (let (texts, references) =
            fold (\<lambda>s (texts, references).
                    (case sqSQLFullText s of
                       None \<Rightarrow> texts
                     | Some text \<Rightarrow> add_text (sqDatabase s, sqSQLID s) text (sqCollectedAt s) texts,
                     addReference (sqDatabase s) (sqSQLID s) (sqCollectedAt s) references))
              (pfSQL p) (Map.empty, Map.empty);
          (texts, references) =
            fold (\<lambda>s (texts, references).
                    (add_text (sxDatabase s, sxSQLID s) (sxSQLFullText s) (sxCollectedAt s) texts,
                     addReference (sxDatabase s) (sxSQLID s) (sxCollectedAt s) references))
              (pfSQLTexts p) (texts, references);
          references =
            fold (\<lambda>s. addOptionalReference (seDatabase s) (sePrevSQLID s) (seCollectedAt s) \<circ>
                      addOptionalReference (seDatabase s) (seSQLID s) (seCollectedAt s))
              (pfSessions p) references;
          references =
            fold (\<lambda>s. addOptionalReference (bsDatabase s) (bsBlockingSQLID s) (bsCollectedAt s) \<circ>
                      addOptionalReference (bsDatabase s) (bsSQLID s) (bsCollectedAt s))
              (pfBlockingSessions p) references;
          references =
            fold (\<lambda>s. addOptionalReference (daDatabase s) (daTopLevelSQLID s) (daCollectedAt s) \<circ>
                      addOptionalReference (daDatabase s) (daSQLID s) (daCollectedAt s))
              (pfDatabaseActivity p) references
      in (texts, references))"

record sql_text_row =
  srFullText :: string
  srFirstSeen :: time
  srLastTextSeen :: time
  srLastReferenced :: time

text \<open>The insert and its \<open>on conflict \<dots> do update\<close>.\<close>

definition merge_text :: "sql_text_row option \<Rightarrow> sqlTextRecord \<Rightarrow> sql_text_row" where
  "merge_text existing r =
     (case existing of
        None \<Rightarrow> \<lparr>srFullText = rcFullText r, srFirstSeen = rcFirstSeen r, srLastTextSeen = rcLastSeen r,
                srLastReferenced = rcLastSeen r\<rparr>
      | Some e \<Rightarrow>
          \<lparr>srFullText = (if rcLastSeen r \<ge> srLastTextSeen e then rcFullText r else srFullText e),
           srFirstSeen = min (srFirstSeen e) (rcFirstSeen r),
           srLastTextSeen = max (srLastTextSeen e) (rcLastSeen r),
           srLastReferenced = max (srLastReferenced e) (rcLastSeen r)\<rparr>)"

type_synonym sql_texts = "sqlTextKey \<rightharpoonup> sql_text_row"

text \<open>\<open>update \<dots> set last_referenced_at = greatest(\<dots>) from unnest(\<dots>)\<close>.\<close>

definition touch_texts :: "(sqlTextKey \<rightharpoonup> time) \<Rightarrow> sql_texts \<Rightarrow> sql_texts" where
  "touch_texts references t =
     (\<lambda>key. case t key of
              None \<Rightarrow> None
            | Some row \<Rightarrow>
                (case references key of
                   None \<Rightarrow> Some row
                 | Some at_time \<Rightarrow> Some (row\<lparr>srLastReferenced := max (srLastReferenced row) at_time\<rparr>)))"

text \<open>\<open>order\<close> is the iteration over the texts.\<close>

definition writeSQLTexts ::
    "batch_answer \<Rightarrow> go_error option \<Rightarrow> sqlTextKey list \<Rightarrow> PerformanceSamples \<Rightarrow> sql_texts \<Rightarrow> sql_texts result" where
  "writeSQLTexts answers updating order p t =
     (let (texts, references) = collectSQLTextUpdates p in
      case (if texts = Map.empty then Inr t
            else send_batch ''upsert SQL full text'' ''close SQL full text upsert batch'' answers
                   (map (upsert_entry merge_text texts) order) t) of
        Inl e \<Rightarrow> Inl e
      | Inr t \<Rightarrow>
          if references = Map.empty then Inr t
          else exec_statement ''update SQL text references'' updating (touch_texts references) t)"

definition deleteExpiredSQLTexts :: "go_error option \<Rightarrow> time \<Rightarrow> sql_texts \<Rightarrow> sql_texts result" where
  "deleteExpiredSQLTexts answer cutoff t =
     delete_expired ''delete SQL texts'' answer srLastReferenced cutoff t"

section \<open>Cursor metadata\<close>

type_synonym sqlCursorMetadataKey = "string \<times> int64 \<times> string \<times> int64 \<times> int64"

text \<open>The key of a sample that has one.\<close>

definition cursor_key :: "SQLSample \<Rightarrow> sqlCursorMetadataKey option" where
  "cursor_key s =
     (case (sqChildNumber s, sqPlanHashValue s) of
        (Some child, Some plan) \<Rightarrow>
          if trim_space (sqDatabase s) = [] \<or> trim_space (sqSQLID s) = [] \<or> is_zero_time (sqCollectedAt s)
          then None
          else Some (sqDatabase s, sqInstID s, sqSQLID s, child, plan)
      | _ \<Rightarrow> None)"

definition add_cursor :: "SQLSample \<Rightarrow> (sqlCursorMetadataKey \<rightharpoonup> SQLSample) \<Rightarrow> (sqlCursorMetadataKey \<rightharpoonup> SQLSample)" where
  "add_cursor s metadata =
     (case cursor_key s of
        None \<Rightarrow> metadata
      | Some key \<Rightarrow>
          (case metadata key of
             None \<Rightarrow> metadata(key \<mapsto> s)
           | Some current \<Rightarrow>
               if time_after (sqCollectedAt s) (sqCollectedAt current) then metadata(key \<mapsto> s) else metadata))"

definition collectSQLCursorMetadata :: "SQLSample list \<Rightarrow> (sqlCursorMetadataKey \<rightharpoonup> SQLSample)" where
  "collectSQLCursorMetadata samples = fold add_cursor samples Map.empty"

record cursor_row =
  crParsingSchema :: "string option"
  crModule :: "string option"
  crFirstSeen :: time
  crLastSeen :: time

text \<open>
  The insert and its conflict clause: the row is left alone when it was seen on the same UTC day and
  nothing new is known of it.
\<close>

definition merge_cursor :: "cursor_row option \<Rightarrow> SQLSample \<Rightarrow> cursor_row" where
  "merge_cursor existing s =
     (let seen = sqCollectedAt s in
      case existing of
        None \<Rightarrow> \<lparr>crParsingSchema = sqParsingSchemaName s, crModule = sqModule s, crFirstSeen = seen,
                crLastSeen = seen\<rparr>
      | Some e \<Rightarrow>
          if crLastSeen e < dayStartUTC seen \<or>
             (seen \<ge> crLastSeen e \<and>
              (crParsingSchema e \<noteq> sqParsingSchemaName s \<or> crModule e \<noteq> sqModule s))
          then \<lparr>crParsingSchema = (if seen \<ge> crLastSeen e then sqParsingSchemaName s else crParsingSchema e),
                crModule = (if seen \<ge> crLastSeen e then sqModule s else crModule e),
                crFirstSeen = min (crFirstSeen e) seen, crLastSeen = max (crLastSeen e) seen\<rparr>
          else e)"

type_synonym cursor_table = "sqlCursorMetadataKey \<rightharpoonup> cursor_row"

definition writeSQLCursorMetadata ::
    "batch_answer \<Rightarrow> sqlCursorMetadataKey list \<Rightarrow> SQLSample list \<Rightarrow> cursor_table \<Rightarrow> cursor_table result" where
  "writeSQLCursorMetadata answers order samples t =
     (let metadata = collectSQLCursorMetadata samples in
      if metadata = Map.empty then Inr t
      else send_batch ''upsert SQL cursor metadata'' ''close SQL cursor metadata upsert batch'' answers
             (map (upsert_entry merge_cursor metadata) order) t)"

definition sqlCursorMetadataDeleteBatchSize :: nat where "sqlCursorMetadataDeleteBatchSize = 2000"
definition sqlCursorMetadataDeleteMaxBatches :: nat where "sqlCursorMetadataDeleteMaxBatches = 5"

text \<open>
  The bounded deletion: at most five statements of at most 2000 rows, oldest first. \<open>keys\<close> are the
  expired rows that no other session has locked, by their time.
\<close>

fun delete_batches ::
    "nat \<Rightarrow> (nat \<Rightarrow> go_error option) \<Rightarrow> nat \<Rightarrow> 'k list \<Rightarrow> nat \<Rightarrow> ('k \<rightharpoonup> 'r) \<Rightarrow>
     go_error option \<times> nat \<times> ('k \<rightharpoonup> 'r)" where
  "delete_batches 0 answers i keys deleted t = (None, deleted, t)"
| "delete_batches (Suc n) answers i keys deleted t =
     (case answers i of
        Some e \<Rightarrow> (Some (ErrWrap ''delete SQL cursor metadata'' e), deleted, t)
      | None \<Rightarrow>
          (let batch = take sqlCursorMetadataDeleteBatchSize keys;
               rows = length batch;
               t = t |` (- set batch);
               deleted = deleted + rows
           in if rows < sqlCursorMetadataDeleteBatchSize then (None, deleted, t)
              else delete_batches n answers (Suc i) (drop sqlCursorMetadataDeleteBatchSize keys) deleted t))"

definition deleteExpiredSQLCursorMetadata ::
    "(nat \<Rightarrow> go_error option) \<Rightarrow> sqlCursorMetadataKey list \<Rightarrow> cursor_table \<Rightarrow>
     go_error option \<times> nat \<times> cursor_table" where
  "deleteExpiredSQLCursorMetadata answers keys t =
     delete_batches sqlCursorMetadataDeleteMaxBatches answers 0 keys 0 t"

section \<open>Plans\<close>

type_synonym sqlPlanReferenceKey = "string \<times> SQLPlanKey"
type_synonym plan_line_key = "string \<times> SQLPlanKey \<times> int64"

record plan_row =
  prOperation :: SQLPlanOperation
  prFirstSeen :: time
  prLastSeen :: time
  prLastReferenced :: time

type_synonym plan_table = "plan_line_key \<rightharpoonup> plan_row"

definition plan_line_key :: "SQLPlanOperation \<Rightarrow> plan_line_key" where
  "plan_line_key op = (plDatabase op, plSQLPlanKey op, plPlanLineID op)"

definition upsert_plan :: "SQLPlanOperation \<Rightarrow> plan_table \<Rightarrow> plan_table" where
  "upsert_plan op t =
     (let seen = plCollectedAt op in
      t(plan_line_key op \<mapsto>
          (case t (plan_line_key op) of
             None \<Rightarrow> \<lparr>prOperation = op, prFirstSeen = seen, prLastSeen = seen, prLastReferenced = seen\<rparr>
           | Some e \<Rightarrow> \<lparr>prOperation = op, prFirstSeen = min (prFirstSeen e) seen,
                        prLastSeen = max (prLastSeen e) seen, prLastReferenced = max (prLastReferenced e) seen\<rparr>)))"

definition plan_reference :: "SQLSample \<Rightarrow> sqlPlanReferenceKey option" where
  "plan_reference s =
     (case (sqChildNumber s, sqPlanHashValue s) of
        (Some child, Some plan) \<Rightarrow>
          if sint plan \<le> 0 then None
          else Some (sqDatabase s, \<lparr>pkInstID = sqInstID s, pkSQLID = sqSQLID s, pkChildNumber = child,
                                   pkPlanHashValue = plan\<rparr>)
      | _ \<Rightarrow> None)"

definition collectSQLPlanReferences :: "SQLSample list \<Rightarrow> (sqlPlanReferenceKey \<rightharpoonup> time)" where
  "collectSQLPlanReferences samples =
     fold (\<lambda>s references.
             case plan_reference s of
               None \<Rightarrow> references
             | Some key \<Rightarrow> newest_time key (sqCollectedAt s) references)
       samples Map.empty"

definition touch_plans :: "(sqlPlanReferenceKey \<rightharpoonup> time) \<Rightarrow> plan_table \<Rightarrow> plan_table" where
  "touch_plans references t =
     (\<lambda>key. case t key of
              None \<Rightarrow> None
            | Some row \<Rightarrow>
                (case references (fst key, fst (snd key)) of
                   None \<Rightarrow> Some row
                 | Some at_time \<Rightarrow> Some (row\<lparr>prLastReferenced := max (prLastReferenced row) at_time\<rparr>)))"

definition writeSQLPlans ::
    "batch_answer \<Rightarrow> go_error option \<Rightarrow> PerformanceSamples \<Rightarrow> plan_table \<Rightarrow> plan_table result" where
  "writeSQLPlans answers updating p t =
     (case (if pfSQLPlans p = [] then Inr t
            else send_batch ''upsert SQL plan operation'' ''close SQL plan upsert batch'' answers
                   (map upsert_plan (pfSQLPlans p)) t) of
        Inl e \<Rightarrow> Inl e
      | Inr t \<Rightarrow>
          (let references = collectSQLPlanReferences (pfSQL p @ pfSQLDetails p) in
           if references = Map.empty then Inr t
           else exec_statement ''update SQL plan references'' updating (touch_plans references) t))"

definition deleteExpiredSQLPlans :: "go_error option \<Rightarrow> time \<Rightarrow> plan_table \<Rightarrow> plan_table result" where
  "deleteExpiredSQLPlans answer cutoff t =
     delete_expired ''delete SQL plans'' answer prLastReferenced cutoff t"

end
