(* ===== verification/Ingest.thy ===== *)
theory Ingest
  imports Samples Partitions Transactions SqlStats Machines
begin

text \<open>
  The accounting of what the repository ingested (\<open>postgresql/postgresql.go\<close>): the rows of every written
  batch are counted per day and database (\<open>collectRepositoryIngest\<close>), added to a buffer, and flushed to
  a table by an upsert that adds. A flush that fails puts the counts back. The counts are \<open>int64\<close>; the
  table's sums wrap here like them (the server would refuse a sum beyond \<open>bigint\<close>).
\<close>

section \<open>Counts\<close>

record repositoryIngestCounts =
  additionalMetricRows :: int64
  sqlSampleRows :: int64
  sqlTextWrites :: int64
  sqlCursorMetadataWrites :: int64
  sqlPlanOperationWrites :: int64
  sessionSampleRows :: int64
  blockingSessionSampleRows :: int64
  databaseActivitySampleRows :: int64
  databaseStatusSampleRows :: int64
  instanceSampleRows :: int64
  resourceLimitSampleRows :: int64
  tablespaceSampleRows :: int64
  asmDiskgroupSampleRows :: int64
  systemCounterSampleRows :: int64
  waitClassSampleRows :: int64
  systemMetricSampleRows :: int64
  dataGuardDestinationRows :: int64
  dataGuardLagRows :: int64
  dataGuardProcessRows :: int64
  scrapeStatusRows :: int64
  firstSampleAt :: time
  lastSampleAt :: time
  lastSQLSampleAt :: time
  lastSessionSampleAt :: time
  lastDatabaseActivitySampleAt :: time

text \<open>The zero value, which an absent map entry reads as.\<close>

definition zero_counts :: repositoryIngestCounts where
  "zero_counts = \<lparr>additionalMetricRows = 0, sqlSampleRows = 0, sqlTextWrites = 0,
     sqlCursorMetadataWrites = 0, sqlPlanOperationWrites = 0, sessionSampleRows = 0,
     blockingSessionSampleRows = 0, databaseActivitySampleRows = 0, databaseStatusSampleRows = 0,
     instanceSampleRows = 0, resourceLimitSampleRows = 0, tablespaceSampleRows = 0,
     asmDiskgroupSampleRows = 0, systemCounterSampleRows = 0, waitClassSampleRows = 0,
     systemMetricSampleRows = 0, dataGuardDestinationRows = 0, dataGuardLagRows = 0,
     dataGuardProcessRows = 0, scrapeStatusRows = 0, firstSampleAt = 0,
     lastSampleAt = 0, lastSQLSampleAt = 0, lastSessionSampleAt = 0,
     lastDatabaseActivitySampleAt = 0\<rparr>"

definition observe :: "time \<Rightarrow> repositoryIngestCounts \<Rightarrow> repositoryIngestCounts" where
  "observe sampleTime c =
     (if is_zero_time sampleTime then c
      else let c = (if is_zero_time (firstSampleAt c) \<or> time_before sampleTime (firstSampleAt c)
                    then c\<lparr>firstSampleAt := sampleTime\<rparr> else c)
           in if is_zero_time (lastSampleAt c) \<or> time_after sampleTime (lastSampleAt c)
              then c\<lparr>lastSampleAt := sampleTime\<rparr> else c)"

definition add_counts :: "repositoryIngestCounts \<Rightarrow> repositoryIngestCounts \<Rightarrow> repositoryIngestCounts" where
  "add_counts c other = c\<lparr>
     additionalMetricRows := additionalMetricRows c + additionalMetricRows other,
     sqlSampleRows := sqlSampleRows c + sqlSampleRows other,
     sqlTextWrites := sqlTextWrites c + sqlTextWrites other,
     sqlCursorMetadataWrites := sqlCursorMetadataWrites c + sqlCursorMetadataWrites other,
     sqlPlanOperationWrites := sqlPlanOperationWrites c + sqlPlanOperationWrites other,
     sessionSampleRows := sessionSampleRows c + sessionSampleRows other,
     blockingSessionSampleRows := blockingSessionSampleRows c + blockingSessionSampleRows other,
     databaseActivitySampleRows := databaseActivitySampleRows c + databaseActivitySampleRows other,
     databaseStatusSampleRows := databaseStatusSampleRows c + databaseStatusSampleRows other,
     instanceSampleRows := instanceSampleRows c + instanceSampleRows other,
     resourceLimitSampleRows := resourceLimitSampleRows c + resourceLimitSampleRows other,
     tablespaceSampleRows := tablespaceSampleRows c + tablespaceSampleRows other,
     asmDiskgroupSampleRows := asmDiskgroupSampleRows c + asmDiskgroupSampleRows other,
     systemCounterSampleRows := systemCounterSampleRows c + systemCounterSampleRows other,
     waitClassSampleRows := waitClassSampleRows c + waitClassSampleRows other,
     systemMetricSampleRows := systemMetricSampleRows c + systemMetricSampleRows other,
     dataGuardDestinationRows := dataGuardDestinationRows c + dataGuardDestinationRows other,
     dataGuardLagRows := dataGuardLagRows c + dataGuardLagRows other,
     dataGuardProcessRows := dataGuardProcessRows c + dataGuardProcessRows other,
     scrapeStatusRows := scrapeStatusRows c + scrapeStatusRows other,
     firstSampleAt :=
       (if is_zero_time (firstSampleAt c) \<or>
           (\<not> is_zero_time (firstSampleAt other) \<and> time_before (firstSampleAt other) (firstSampleAt c))
        then firstSampleAt other else firstSampleAt c),
     lastSampleAt :=
       (if time_after (lastSampleAt other) (lastSampleAt c) then lastSampleAt other else lastSampleAt c),
     lastSQLSampleAt :=
       (if time_after (lastSQLSampleAt other) (lastSQLSampleAt c) then lastSQLSampleAt other
        else lastSQLSampleAt c),
     lastSessionSampleAt :=
       (if time_after (lastSessionSampleAt other) (lastSessionSampleAt c) then lastSessionSampleAt other
        else lastSessionSampleAt c),
     lastDatabaseActivitySampleAt :=
       (if time_after (lastDatabaseActivitySampleAt other) (lastDatabaseActivitySampleAt c)
        then lastDatabaseActivitySampleAt other else lastDatabaseActivitySampleAt c)\<rparr>"

text \<open>The counts of a day and a database; an absent entry reads as the zero value.\<close>

type_synonym repositoryIngestKey = "time \<times> string"
type_synonym ingest = "repositoryIngestKey \<rightharpoonup> repositoryIngestCounts"

definition entry :: "ingest \<Rightarrow> repositoryIngestKey \<Rightarrow> repositoryIngestCounts" where
  "entry m key = (case m key of None \<Rightarrow> zero_counts | Some c \<Rightarrow> c)"

definition addRepositoryIngestValues ::
    "('a \<Rightarrow> time \<times> string) \<Rightarrow> (time \<Rightarrow> repositoryIngestCounts \<Rightarrow> repositoryIngestCounts) \<Rightarrow>
     'a list \<Rightarrow> ingest \<Rightarrow> ingest" where
  "addRepositoryIngestValues identity increment values counts =
     fold (\<lambda>value counts.
             let (sampleTime, database) = identity value in
             if is_zero_time sampleTime \<or> database = [] then counts
             else let key = (dayStartUTC sampleTime, database)
                  in counts(key \<mapsto> increment sampleTime (observe sampleTime (entry counts key))))
       values counts"

definition collectRepositoryIngest :: "SampleBatch \<Rightarrow> ingest" where
  "collectRepositoryIngest b =
     fold (\<lambda>add. add)
      [addRepositoryIngestValues (\<lambda>v. (msCollectedAt v, msDatabase v))
         (\<lambda>t c. c\<lparr>additionalMetricRows := additionalMetricRows c + 1\<rparr>)
         (sbAdditionalMetrics b),
       addRepositoryIngestValues (\<lambda>v. (sqCollectedAt v, sqDatabase v))
         (\<lambda>t c. c\<lparr>sqlSampleRows := sqlSampleRows c + 1,
            lastSQLSampleAt :=
             if time_after t (lastSQLSampleAt c) then t else lastSQLSampleAt c\<rparr>)
         (pfSQL (sbPerformance b)),
       addRepositoryIngestValues (\<lambda>v. (sxCollectedAt v, sxDatabase v))
         (\<lambda>t c. c\<lparr>sqlTextWrites := sqlTextWrites c + 1\<rparr>)
         (pfSQLTexts (sbPerformance b)),
       addRepositoryIngestValues (\<lambda>v. (sqCollectedAt v, sqDatabase v))
         (\<lambda>t c. c\<lparr>sqlCursorMetadataWrites := sqlCursorMetadataWrites c + 1\<rparr>)
         (pfSQLDetails (sbPerformance b)),
       addRepositoryIngestValues (\<lambda>v. (plCollectedAt v, plDatabase v))
         (\<lambda>t c. c\<lparr>sqlPlanOperationWrites := sqlPlanOperationWrites c + 1\<rparr>)
         (pfSQLPlans (sbPerformance b)),
       addRepositoryIngestValues (\<lambda>v. (seCollectedAt v, seDatabase v))
         (\<lambda>t c. c\<lparr>sessionSampleRows := sessionSampleRows c + 1,
            lastSessionSampleAt :=
             if time_after t (lastSessionSampleAt c) then t else lastSessionSampleAt c\<rparr>)
         (pfSessions (sbPerformance b)),
       addRepositoryIngestValues (\<lambda>v. (bsCollectedAt v, bsDatabase v))
         (\<lambda>t c. c\<lparr>blockingSessionSampleRows := blockingSessionSampleRows c + 1\<rparr>)
         (pfBlockingSessions (sbPerformance b)),
       addRepositoryIngestValues (\<lambda>v. (daSampleTime v, daDatabase v))
         (\<lambda>t c. c\<lparr>databaseActivitySampleRows := databaseActivitySampleRows c + 1,
            lastDatabaseActivitySampleAt :=
             if time_after t (lastDatabaseActivitySampleAt c) then t else lastDatabaseActivitySampleAt c\<rparr>)
         (pfDatabaseActivity (sbPerformance b)),
       addRepositoryIngestValues (\<lambda>v. (dsCollectedAt v, dsDatabase v))
         (\<lambda>t c. c\<lparr>databaseStatusSampleRows := databaseStatusSampleRows c + 1\<rparr>)
         (opDatabaseStatus (sbOperational b)),
       addRepositoryIngestValues (\<lambda>v. (isCollectedAt v, isDatabase v))
         (\<lambda>t c. c\<lparr>instanceSampleRows := instanceSampleRows c + 1\<rparr>)
         (opInstances (sbOperational b)),
       addRepositoryIngestValues (\<lambda>v. (rlCollectedAt v, rlDatabase v))
         (\<lambda>t c. c\<lparr>resourceLimitSampleRows := resourceLimitSampleRows c + 1\<rparr>)
         (opResourceLimits (sbOperational b)),
       addRepositoryIngestValues (\<lambda>v. (tsCollectedAt v, tsDatabase v))
         (\<lambda>t c. c\<lparr>tablespaceSampleRows := tablespaceSampleRows c + 1\<rparr>)
         (opTablespaces (sbOperational b)),
       addRepositoryIngestValues (\<lambda>v. (asmCollectedAt v, asmDatabase v))
         (\<lambda>t c. c\<lparr>asmDiskgroupSampleRows := asmDiskgroupSampleRows c + 1\<rparr>)
         (opASMDiskgroups (sbOperational b)),
       addRepositoryIngestValues (\<lambda>v. (scCollectedAt v, scDatabase v))
         (\<lambda>t c. c\<lparr>systemCounterSampleRows := systemCounterSampleRows c + 1\<rparr>)
         (opSystemCounters (sbOperational b)),
       addRepositoryIngestValues (\<lambda>v. (wcCollectedAt v, wcDatabase v))
         (\<lambda>t c. c\<lparr>waitClassSampleRows := waitClassSampleRows c + 1\<rparr>)
         (opWaitClasses (sbOperational b)),
       addRepositoryIngestValues (\<lambda>v. (smCollectedAt v, smDatabase v))
         (\<lambda>t c. c\<lparr>systemMetricSampleRows := systemMetricSampleRows c + 1\<rparr>)
         (opSystemMetrics (sbOperational b)),
       addRepositoryIngestValues (\<lambda>v. (dgdCollectedAt v, dgdDatabase v))
         (\<lambda>t c. c\<lparr>dataGuardDestinationRows := dataGuardDestinationRows c + 1\<rparr>)
         (opDataGuardDestinations (sbOperational b)),
       addRepositoryIngestValues (\<lambda>v. (dglCollectedAt v, dglDatabase v))
         (\<lambda>t c. c\<lparr>dataGuardLagRows := dataGuardLagRows c + 1\<rparr>)
         (opDataGuardLag (sbOperational b)),
       addRepositoryIngestValues (\<lambda>v. (dgpCollectedAt v, dgpDatabase v))
         (\<lambda>t c. c\<lparr>dataGuardProcessRows := dataGuardProcessRows c + 1\<rparr>)
         (opDataGuardProcesses (sbOperational b)),
       addRepositoryIngestValues (\<lambda>v. (stCollectedAt v, stDatabase v))
         (\<lambda>t c. c\<lparr>scrapeStatusRows := scrapeStatusRows c + 1\<rparr>)
         (sbScrapeStatuses b)]
      Map.empty"

section \<open>The buffer\<close>

definition repositoryIngestFlushInterval :: duration where "repositoryIngestFlushInterval = 5 * minute"

record IngestBuffer =
  pendingIngest :: ingest
  lastIngestFlushAttempt :: time
  ingestFlushInterval :: duration

text \<open>
  The range loop over a map that adds each entry to the pending one; every key occurs once, so the order
  does not matter.
\<close>

definition merge_ingest :: "ingest \<Rightarrow> ingest \<Rightarrow> ingest" where
  "merge_ingest counts pending =
     (\<lambda>key. case counts key of
               None \<Rightarrow> pending key
             | Some value \<Rightarrow> Some (add_counts (entry pending key) value))"

definition recordRepositoryIngest :: "SampleBatch \<Rightarrow> IngestBuffer \<Rightarrow> IngestBuffer" where
  "recordRepositoryIngest batch s =
     (let counts = collectRepositoryIngest batch in
      if counts = Map.empty then s else s\<lparr>pendingIngest := merge_ingest counts (pendingIngest s)\<rparr>)"

text \<open>The first half of \<open>flushRepositoryIngest\<close>, under \<open>ingestMu\<close>: \<open>None\<close> when no flush is due.\<close>

definition take_ingest :: "bool \<Rightarrow> time \<Rightarrow> IngestBuffer \<Rightarrow> (ingest \<times> IngestBuffer) option" where
  "take_ingest force now s =
     (let interval = (if ingestFlushInterval s \<le> 0 then repositoryIngestFlushInterval
                      else ingestFlushInterval s)
      in if \<not> force \<and> \<not> is_zero_time (lastIngestFlushAttempt s) \<and>
            time_sub now (lastIngestFlushAttempt s) < interval
         then None
         else Some (pendingIngest s, s\<lparr>lastIngestFlushAttempt := now, pendingIngest := Map.empty\<rparr>))"

text \<open>The second half: write, and put the counts back when that fails.\<close>

definition put_back_ingest :: "ingest \<Rightarrow> IngestBuffer \<Rightarrow> IngestBuffer" where
  "put_back_ingest pending s = s\<lparr>pendingIngest := merge_ingest pending (pendingIngest s)\<rparr>"

definition flushRepositoryIngest ::
    "(ingest \<Rightarrow> time \<Rightarrow> 'r \<Rightarrow> go_error option \<times> 'r) \<Rightarrow> bool \<Rightarrow> time \<Rightarrow> IngestBuffer \<Rightarrow> 'r \<Rightarrow>
     go_error option \<times> IngestBuffer \<times> 'r" where
  "flushRepositoryIngest write force now s r =
     (case take_ingest force now s of
        None \<Rightarrow> (None, s, r)
      | Some (pending, s) \<Rightarrow>
          if pending = Map.empty then (None, s, r)
          else case write pending now r of
                 (None, r') \<Rightarrow> (None, s, r')
               | (Some e, r') \<Rightarrow> (Some e, put_back_ingest pending s, r'))"

section \<open>The table\<close>

text \<open>A row: the twenty counters in the order of the insert, the nullable times, the last flush.\<close>

record ingest_row =
  irCounters :: "int64 list"
  irFirst :: "time option"
  irLast :: "time option"
  irLastSQL :: "time option"
  irLastSession :: "time option"
  irLastActivity :: "time option"
  irFlushed :: time

definition nullableTime :: "time \<Rightarrow> time option" where
  "nullableTime t = (if is_zero_time t then None else Some t)"

definition counters :: "repositoryIngestCounts \<Rightarrow> int64 list" where
  "counters c =
    [additionalMetricRows c, sqlSampleRows c, sqlTextWrites c,
     sqlCursorMetadataWrites c, sqlPlanOperationWrites c, sessionSampleRows c,
     blockingSessionSampleRows c, databaseActivitySampleRows c, databaseStatusSampleRows c,
     instanceSampleRows c, resourceLimitSampleRows c, tablespaceSampleRows c,
     asmDiskgroupSampleRows c, systemCounterSampleRows c, waitClassSampleRows c,
     systemMetricSampleRows c, dataGuardDestinationRows c, dataGuardLagRows c,
     dataGuardProcessRows c, scrapeStatusRows c]"

definition ingest_row_of :: "time \<Rightarrow> repositoryIngestCounts \<Rightarrow> ingest_row" where
  "ingest_row_of flushedAt c =
     \<lparr>irCounters = counters c, irFirst = nullableTime (firstSampleAt c),
      irLast = nullableTime (lastSampleAt c), irLastSQL = nullableTime (lastSQLSampleAt c),
      irLastSession = nullableTime (lastSessionSampleAt c),
      irLastActivity = nullableTime (lastDatabaseActivitySampleAt c), irFlushed = flushedAt\<rparr>"

text \<open>SQL's \<open>least\<close> and \<open>greatest\<close> ignore nulls.\<close>

fun pg_least :: "time option \<Rightarrow> time option \<Rightarrow> time option" where
  "pg_least (Some a) (Some b) = Some (min a b)"
| "pg_least None b = b"
| "pg_least a None = a"

fun pg_greatest :: "time option \<Rightarrow> time option \<Rightarrow> time option" where
  "pg_greatest (Some a) (Some b) = Some (max a b)"
| "pg_greatest None b = b"
| "pg_greatest a None = a"

text \<open>The \<open>on conflict (sample_day, source_database) do update set\<close>.\<close>

definition ingest_conflict :: "ingest_row \<Rightarrow> ingest_row \<Rightarrow> ingest_row" where
  "ingest_conflict existing excluded =
     \<lparr>irCounters = map2 (+) (irCounters existing) (irCounters excluded),
      irFirst = pg_least (irFirst existing) (irFirst excluded),
      irLast = pg_greatest (irLast existing) (irLast excluded),
      irLastSQL = pg_greatest (irLastSQL existing) (irLastSQL excluded),
      irLastSession = pg_greatest (irLastSession existing) (irLastSession excluded),
      irLastActivity = pg_greatest (irLastActivity existing) (irLastActivity excluded),
      irFlushed = max (irFlushed existing) (irFlushed excluded)\<rparr>"

type_synonym ingest_table = "repositoryIngestKey \<rightharpoonup> ingest_row"

definition ingest_upsert :: "time \<Rightarrow> ingest \<Rightarrow> repositoryIngestKey \<Rightarrow> ingest_table \<Rightarrow> ingest_table" where
  "ingest_upsert flushedAt counts key table =
     (let excluded = ingest_row_of flushedAt (entry counts key)
      in table(key \<mapsto> (case table key of None \<Rightarrow> excluded | Some existing \<Rightarrow> ingest_conflict existing excluded)))"

definition ingest_key_compare :: "repositoryIngestKey \<Rightarrow> repositoryIngestKey \<Rightarrow> int" where
  "ingest_key_compare a b =
     (if fst a \<noteq> fst b then (if fst a < fst b then -1 else 1) else compare_strings (snd a) (snd b))"

text \<open>\<open>keys\<close> is the iteration over the map; the partitions of the days are another statement.\<close>

definition writeRepositoryIngest ::
    "go_error option \<Rightarrow> (catalogue \<Rightarrow> catalogue result) \<Rightarrow> batch_answer \<Rightarrow> commit_outcome \<Rightarrow>
     repositoryIngestKey list \<Rightarrow> ingest \<Rightarrow> time \<Rightarrow> catalogue \<times> ingest_table \<Rightarrow>
     go_error option \<times> catalogue \<times> ingest_table" where
  "writeRepositoryIngest begun partitions answers outcome keys counts flushedAt r =
     transaction ''begin repository ingestion transaction'' begun
       [\<lambda>(c, t). case partitions c of
                   Inl e \<Rightarrow> Inl (ErrWrap ''ensure repository ingestion partitions'' e)
                 | Inr c' \<Rightarrow> Inr (c', t),
        \<lambda>(c, t). case send_batch ''upsert repository ingestion accounting''
                          ''close repository ingestion batch'' answers
                          (map (ingest_upsert flushedAt counts) (sort_func ingest_key_compare keys)) t of
                   Inl e \<Rightarrow> Inl e
                 | Inr t' \<Rightarrow> Inr (c, t')]
       ''commit repository ingestion transaction'' outcome r"

end
