(* ===== verification/SinkRows.thy ===== *)
theory SinkRows
  imports SinkSchema SinkSQL Ingest
begin

text \<open>
  The rows the sink writes (\<open>postgresql/postgresql.go\<close>): for every table the column list of its
  \<open>CopyFrom\<close> or \<open>insert\<close> and the values of one sample, and that every row fits the table that
  \<open>Migrate\<close> created. The JSON of the labels (\<open>encoding/json\<close>) is an argument.
\<close>

section \<open>Rows and columns\<close>

definition sqlSamplesRow :: "SQLSample \<Rightarrow> pg_value list" where
  "sqlSamplesRow s =
    [PgTime (sqCollectedAt s), PgText (sqDatabase s), pg_int (sqInstID s), PgText (sqSQLID s),
     pg_opt pg_int (sqChildNumber s), pg_opt pg_int (sqPlanHashValue s),
     pg_opt PgText (sqParsingSchemaName s), pg_opt PgText (sqModule s), pg_opt pg_int (sqExecutions s),
     pg_opt pg_int (sqElapsedTimeMicro s), pg_opt pg_int (sqCPUTimeMicro s),
     pg_opt pg_int (sqUserIOWaitMicro s), pg_opt pg_int (sqApplicationWaitMicro s),
     pg_opt pg_int (sqConcurrencyWaitMicro s), pg_opt pg_int (sqClusterWaitMicro s),
     pg_opt pg_int (sqBufferGets s), pg_opt pg_int (sqDiskReads s), pg_opt pg_int (sqDirectWrites s),
     pg_opt pg_int (sqRowsProcessed s), pg_opt pg_int (sqFetches s), pg_opt pg_int (sqLoads s),
     pg_opt pg_int (sqInvalidations s), pg_opt pg_int (sqParseCalls s),
     pg_opt PgTime (sqLastActiveTime s)]"

definition sqlSamplesColumns :: "string list" where
  "sqlSamplesColumns =
    [''collected_at'', ''source_database'', ''inst_id'', ''sql_id'', ''child_number'',
     ''plan_hash_value'', ''parsing_schema_name'', ''module'', ''executions'', ''elapsed_time_micro'',
     ''cpu_time_micro'', ''user_io_wait_micro'', ''application_wait_micro'',
     ''concurrency_wait_micro'', ''cluster_wait_micro'', ''buffer_gets'', ''disk_reads'',
     ''direct_writes'', ''rows_processed'', ''fetches'', ''loads'', ''invalidations'', ''parse_calls'',
     ''last_active_time'']"

definition sessionSamplesRow :: "SessionSample \<Rightarrow> pg_value list" where
  "sessionSamplesRow s =
    [PgTime (seCollectedAt s), PgText (seDatabase s), pg_int (seInstID s), pg_int (seSID s),
     pg_opt pg_int (seSerialNumber s), pg_opt PgText (seUsername s), pg_opt PgText (seStatus s),
     pg_opt PgText (seSQLID s), pg_opt pg_int (seSQLChildNumber s), pg_opt PgText (sePrevSQLID s),
     pg_opt PgText (seEvent s), pg_opt PgText (seWaitClass s), pg_opt PgText (seState s),
     pg_opt pg_int (seSecondsInWait s), pg_opt pg_int (seBlockingInstance s),
     pg_opt pg_int (seBlockingSession s), pg_opt PgText (seMachine s), pg_opt PgText (seProgram s),
     pg_opt PgText (seModule s), pg_opt PgText (seAction s), pg_opt PgText (seServiceName s),
     pg_opt PgTime (seLogonTime s)]"

definition sessionSamplesColumns :: "string list" where
  "sessionSamplesColumns =
    [''collected_at'', ''source_database'', ''inst_id'', ''sid'', ''serial_number'', ''username'',
     ''status'', ''sql_id'', ''sql_child_number'', ''prev_sql_id'', ''event'', ''wait_class'',
     ''state'', ''seconds_in_wait'', ''blocking_instance'', ''blocking_session'', ''machine'',
     ''program'', ''module'', ''action'', ''service_name'', ''logon_time'']"

definition blockingSessionsRow :: "BlockingSessionSample \<Rightarrow> pg_value list" where
  "blockingSessionsRow s =
    [PgTime (bsCollectedAt s), PgText (bsDatabase s), pg_int (bsInstID s), pg_int (bsSID s),
     pg_opt pg_int (bsSerialNumber s), pg_opt PgText (bsUsername s), pg_opt PgText (bsSQLID s),
     pg_opt PgText (bsEvent s), pg_opt PgText (bsWaitClass s), pg_opt pg_int (bsBlockingInstance s),
     pg_opt pg_int (bsBlockingSession s), pg_opt PgText (bsBlockingUsername s),
     pg_opt PgText (bsBlockingSQLID s), pg_opt PgText (bsBlockingEvent s)]"

definition blockingSessionsColumns :: "string list" where
  "blockingSessionsColumns =
    [''collected_at'', ''source_database'', ''inst_id'', ''sid'', ''serial_number'', ''username'',
     ''sql_id'', ''event'', ''wait_class'', ''blocking_instance'', ''blocking_session'',
     ''blocking_username'', ''blocking_sql_id'', ''blocking_event'']"

definition databaseActivityRow :: "DatabaseActivitySample \<Rightarrow> pg_value list" where
  "databaseActivityRow s =
    [PgTime (daCollectedAt s), PgText (daDatabase s), pg_int (daSampleID s), PgTime (daSampleTime s),
     pg_int (daInstID s), pg_int (daSessionID s), pg_opt pg_int (daSessionSerialNumber s),
     pg_opt PgText (daSessionType s), pg_opt pg_int (daUserID s), pg_opt PgText (daSQLID s),
     pg_opt pg_int (daSQLChildNumber s), pg_opt pg_int (daSQLExecID s),
     pg_opt PgTime (daSQLExecStart s), pg_opt PgText (daTopLevelSQLID s),
     pg_opt PgText (daSessionState s), pg_opt PgText (daEvent s), pg_opt PgText (daWaitClass s),
     pg_opt pg_int (daWaitTimeMicro s), pg_opt pg_int (daTimeWaitedMicro s),
     pg_opt pg_int (daBlockingSession s), pg_opt pg_int (daBlockingSessionSerial s),
     pg_opt pg_int (daBlockingInstID s), pg_opt pg_int (daCurrentObjectID s),
     pg_opt pg_int (daCurrentFileNumber s), pg_opt pg_int (daCurrentBlockNumber s),
     pg_opt PgText (daProgram s), pg_opt PgText (daModule s), pg_opt PgText (daAction s),
     pg_opt PgText (daMachine s), pg_opt pg_int (daPGAAllocated s),
     pg_opt pg_int (daTempSpaceAllocated s), pg_opt pg_int (daConID s), PgText (daSampleSource s),
     pg_int (daSampleDurationMicro s), pg_opt pg_int (daSQLPlanHashValue s),
     pg_opt pg_int (daSQLFullPlanHashValue s), pg_opt pg_int (daSQLPlanLineID s),
     pg_opt pg_int (daServiceHash s), pg_opt PgText (daServiceName s),
     pg_opt PgText (daClientIdentifier s)]"

definition databaseActivityColumns :: "string list" where
  "databaseActivityColumns =
    [''collected_at'', ''source_database'', ''sample_id'', ''sample_time'', ''inst_id'',
     ''session_id'', ''session_serial_number'', ''session_type'', ''user_id'', ''sql_id'',
     ''sql_child_number'', ''sql_exec_id'', ''sql_exec_start'', ''top_level_sql_id'',
     ''session_state'', ''event'', ''wait_class'', ''wait_time_micro'', ''time_waited_micro'',
     ''blocking_session'', ''blocking_session_serial_number'', ''blocking_inst_id'',
     ''current_object_id'', ''current_file_number'', ''current_block_number'', ''program'', ''module'',
     ''action'', ''machine'', ''pga_allocated'', ''temp_space_allocated'', ''con_id'',
     ''sample_source'', ''sample_duration_micro'', ''sql_plan_hash_value'',
     ''sql_full_plan_hash_value'', ''sql_plan_line_id'', ''service_hash'', ''service_name'',
     ''client_identifier'']"

definition connectionStateRow :: "DatabaseConnectionStateSample \<Rightarrow> pg_value list" where
  "connectionStateRow s =
    [PgText (csDatabase s), PgTime (csObservedAt s), PgText (csState s), pg_opt PgTime (csQueuedAt s),
     pg_opt PgTime (csLastFailureAt s), pg_opt PgText (csLastFailure s),
     pg_opt PgTime (csLastProbeAt s), pg_opt PgSeconds (csLastProbeDurationSeconds s),
     pg_opt PgText (csLastProbeError s), PgInt (csProbeAttempts s), pg_opt PgTime (csRecoveredAt s),
     PgText (csScraperInstance s)]"

definition connectionStateColumns :: "string list" where
  "connectionStateColumns =
    [''source_database'', ''observed_at'', ''state'', ''queued_at'', ''last_failure_at'',
     ''last_failure'', ''last_probe_at'', ''last_probe_duration_seconds'', ''last_probe_error'',
     ''probe_attempts'', ''recovered_at'', ''scraper_instance'']"

definition runtimeSamplesRow :: "RuntimeSample \<Rightarrow> pg_value list" where
  "runtimeSamplesRow s =
    [PgTime (rtObservedAt s), PgText (rtScheduler s), PgText (rtTrigger s),
     PgText (rtScraperInstance s), PgText (rtHAScope s), PgTime (rtScheduledAt s),
     PgTime (rtStartedAt s), PgTime (rtCollectionFinishedAt s), PgTime (rtFinishedAt s),
     PgSeconds (rtConfiguredIntervalSeconds s), pg_opt PgSeconds (rtConfiguredQueryTimeoutSeconds s),
     PgSeconds (rtSchedulingLagSeconds s), PgSeconds (rtCollectionDurationSeconds s),
     PgSeconds (rtPostgreSQLWriteDurationSeconds s), PgSeconds (rtTotalDurationSeconds s),
     PgInt (rtMissedIntervals s), pg_count (rtDatabasesAttempted s), pg_count (rtDatabasesSucceeded s),
     pg_count (rtSampleCount s), pg_count (rtErrorCount s), PgBool (rtPostgreSQLWriteSuccess s),
     pg_opt PgText (rtPostgreSQLErrorMessage s)]"

definition runtimeSamplesColumns :: "string list" where
  "runtimeSamplesColumns =
    [''observed_at'', ''scheduler'', ''trigger'', ''scraper_instance'', ''ha_scope'', ''scheduled_at'',
     ''started_at'', ''collection_finished_at'', ''finished_at'', ''configured_interval_seconds'',
     ''configured_query_timeout_seconds'', ''scheduling_lag_seconds'', ''collection_duration_seconds'',
     ''postgresql_write_duration_seconds'', ''total_duration_seconds'', ''missed_intervals'',
     ''databases_attempted'', ''databases_succeeded'', ''sample_count'', ''error_count'',
     ''postgresql_write_success'', ''postgresql_error_message'']"

definition scrapeStatusRow :: "ScrapeStatusSample \<Rightarrow> pg_value list" where
  "scrapeStatusRow s =
    [PgTime (stCollectedAt s), PgText (stDatabase s), PgText (stCollector s), PgBool (stSuccess s),
     PgSeconds (stDurationSeconds s), pg_count (stSampleCount s), pg_opt PgText (stErrorMessage s)]"

definition scrapeStatusColumns :: "string list" where
  "scrapeStatusColumns =
    [''collected_at'', ''source_database'', ''collector'', ''success'', ''duration_seconds'',
     ''sample_count'', ''error_message'']"

definition samplesRow :: "((string \<rightharpoonup> string) \<Rightarrow> string) \<Rightarrow> MetricSample \<Rightarrow> pg_value list" where
  "samplesRow marshal s =
    [PgTime (msCollectedAt s), PgText (msDatabase s), PgText (msContext s), PgText (msName s),
     PgText (msHelp s), PgText (msType s), PgFloat (msValue s), PgJson (marshal (msLabels s))]"

definition samplesColumns :: "string list" where
  "samplesColumns =
    [''collected_at'', ''source_database'', ''context'', ''metric_name'', ''metric_help'',
     ''metric_type'', ''value'', ''labels'']"

definition sqlPlansRow :: "SQLPlanOperation \<Rightarrow> pg_value list" where
  "sqlPlansRow s =
    [PgText (plDatabase s), pg_int (pkInstID (plSQLPlanKey s)), PgText (pkSQLID (plSQLPlanKey s)),
     pg_int (pkChildNumber (plSQLPlanKey s)), pg_int (pkPlanHashValue (plSQLPlanKey s)),
     pg_int (plPlanLineID s), pg_opt pg_int (plParentID s), pg_opt pg_int (plDepth s),
     pg_opt pg_int (plPosition s), PgText (plOperation s), pg_opt PgText (plOptions s),
     pg_opt PgText (plObjectOwner s), pg_opt PgText (plObjectName s), pg_opt PgText (plObjectType s),
     pg_opt PgText (plOptimizer s), pg_opt pg_int (plCost s), pg_opt pg_int (plCardinality s),
     pg_opt pg_int (plBytes s), pg_opt pg_int (plCPUCost s), pg_opt pg_int (plIOCost s),
     pg_opt pg_int (plTempSpace s), pg_opt PgText (plPartitionStart s),
     pg_opt PgText (plPartitionStop s), pg_opt PgText (plAccessPredicates s),
     pg_opt PgText (plFilterPredicates s), PgTime (plCollectedAt s), PgTime (plCollectedAt s),
     PgTime (plCollectedAt s)]"

definition sqlPlansColumns :: "string list" where
  "sqlPlansColumns =
    [''source_database'', ''inst_id'', ''sql_id'', ''child_number'', ''plan_hash_value'',
     ''plan_line_id'', ''parent_id'', ''depth'', ''position'', ''operation'', ''options'',
     ''object_owner'', ''object_name'', ''object_type'', ''optimizer'', ''cost'', ''cardinality'',
     ''bytes'', ''cpu_cost'', ''io_cost'', ''temp_space'', ''partition_start'', ''partition_stop'',
     ''access_predicates'', ''filter_predicates'', ''first_seen_at'', ''last_seen_at'',
     ''last_referenced_at'']"

definition databaseStatusRow :: "DatabaseStatusSample \<Rightarrow> pg_value list" where
  "databaseStatusRow s =
    [PgTime (dsCollectedAt s), PgText (dsDatabase s), pg_int (dsInstID s), PgText (dsInstanceName s),
     PgText (dsInstanceStatus s), PgText (dsDatabaseStatus s), PgTime (dsStartupTime s),
     PgText (dsOpenMode s), PgText (dsDatabaseRole s), PgText (dsCDB s), pg_int (dsConID s),
     PgText (dsConName s), PgText (dsPlatformName s), pg_opt pg_int (dsDBID s),
     pg_opt PgText (dsDBUniqueName s), pg_opt PgText (dsDatabaseProduct s),
     pg_opt PgText (dsDatabaseEdition s), pg_opt PgText (dsDatabaseVersion s),
     pg_opt PgText (dsDatabaseVersionFull s), pg_opt PgText (dsProtectionMode s),
     pg_opt PgText (dsProtectionLevel s)]"

definition databaseStatusColumns :: "string list" where
  "databaseStatusColumns =
    [''collected_at'', ''source_database'', ''inst_id'', ''instance_name'', ''instance_status'',
     ''database_status'', ''startup_time'', ''open_mode'', ''database_role'', ''cdb'', ''con_id'',
     ''con_name'', ''platform_name'', ''dbid'', ''db_unique_name'', ''database_product'',
     ''database_edition'', ''database_version'', ''database_version_full'', ''protection_mode'',
     ''protection_level'']"

definition instanceRow :: "InstanceSample \<Rightarrow> pg_value list" where
  "instanceRow s =
    [PgTime (isCollectedAt s), PgText (isDatabase s), pg_int (isInstID s), pg_int (isUserSessions s),
     pg_int (isActiveUserSessions s), pg_int (isBackgroundSessions s), pg_int (isProcessCount s),
     pg_opt pg_int (isCPUCount s), pg_opt pg_int (isSGAMaxBytes s),
     pg_opt pg_int (isPGAAggregateLimit s), pg_opt pg_int (isSGAAllocatedBytes s),
     pg_opt pg_int (isPGAAllocatedBytes s), pg_opt pg_int (isPGAMaxAllocatedBytes s)]"

definition instanceColumns :: "string list" where
  "instanceColumns =
    [''collected_at'', ''source_database'', ''inst_id'', ''user_sessions'', ''active_user_sessions'',
     ''background_sessions'', ''process_count'', ''cpu_count'', ''sga_max_bytes'',
     ''pga_aggregate_limit'', ''sga_allocated_bytes'', ''pga_allocated_bytes'',
     ''pga_max_allocated_bytes'']"

definition resourceLimitRow :: "ResourceLimitSample \<Rightarrow> pg_value list" where
  "resourceLimitRow s =
    [PgTime (rlCollectedAt s), PgText (rlDatabase s), pg_int (rlInstID s), PgText (rlResourceName s),
     pg_int (rlCurrentValue s), pg_int (rlMaxValue s), pg_opt pg_int (rlInitialLimit s),
     pg_opt pg_int (rlLimitValue s), PgBool (rlLimitUnlimited s)]"

definition resourceLimitColumns :: "string list" where
  "resourceLimitColumns =
    [''collected_at'', ''source_database'', ''inst_id'', ''resource_name'', ''current_value'',
     ''max_value'', ''initial_limit'', ''limit_value'', ''limit_unlimited'']"

definition tablespaceRow :: "TablespaceSample \<Rightarrow> pg_value list" where
  "tablespaceRow s =
    [PgTime (tsCollectedAt s), PgText (tsDatabase s), PgText (tsTablespace s), PgText (tsContents s),
     pg_int (tsUsedBytes s), pg_int (tsFreeBytes s), pg_int (tsMaxBytes s), PgFloat (tsUsedPercent s),
     pg_opt pg_int (tsAllocatedBytes s)]"

definition tablespaceColumns :: "string list" where
  "tablespaceColumns =
    [''collected_at'', ''source_database'', ''tablespace_name'', ''contents'', ''used_bytes'',
     ''free_bytes'', ''max_bytes'', ''used_percent'', ''allocated_bytes'']"

definition asmDiskgroupRow :: "ASMDiskgroupSample \<Rightarrow> pg_value list" where
  "asmDiskgroupRow s =
    [PgTime (asmCollectedAt s), PgText (asmDatabase s), pg_int (asmInstID s), PgText (asmName s),
     pg_int (asmTotalBytes s), pg_int (asmFreeBytes s), pg_opt pg_int (asmUsableBytes s)]"

definition asmDiskgroupColumns :: "string list" where
  "asmDiskgroupColumns =
    [''collected_at'', ''source_database'', ''inst_id'', ''diskgroup_name'', ''total_bytes'',
     ''free_bytes'', ''usable_bytes'']"

definition systemCounterRow :: "SystemCounterSample \<Rightarrow> pg_value list" where
  "systemCounterRow s =
    [PgTime (scCollectedAt s), PgText (scDatabase s), pg_int (scInstID s), pg_int (scConID s),
     PgText (scStatName s), pg_int (scCumulativeValue s), pg_opt pg_int (scDeltaValue s),
     pg_opt PgSeconds (scIntervalSeconds s), PgBool (scCounterReset s)]"

definition systemCounterColumns :: "string list" where
  "systemCounterColumns =
    [''collected_at'', ''source_database'', ''inst_id'', ''con_id'', ''stat_name'',
     ''cumulative_value'', ''delta_value'', ''interval_seconds'', ''counter_reset'']"

definition waitClassRow :: "WaitClassSample \<Rightarrow> pg_value list" where
  "waitClassRow s =
    [PgTime (wcCollectedAt s), PgText (wcDatabase s), pg_int (wcInstID s), pg_int (wcConID s),
     PgText (wcWaitClass s), pg_int (wcCumulativeWaitMicro s), pg_opt pg_int (wcDeltaWaitMicro s),
     pg_opt PgSeconds (wcIntervalSeconds s), PgBool (wcCounterReset s)]"

definition waitClassColumns :: "string list" where
  "waitClassColumns =
    [''collected_at'', ''source_database'', ''inst_id'', ''con_id'', ''wait_class'',
     ''cumulative_wait_micro'', ''delta_wait_micro'', ''interval_seconds'', ''counter_reset'']"

definition systemMetricRow :: "SystemMetricSample \<Rightarrow> pg_value list" where
  "systemMetricRow s =
    [PgTime (smCollectedAt s), PgText (smDatabase s), pg_int (smInstID s), pg_int (smConID s),
     PgText (smMetricName s), PgFloat (smValue s), pg_opt PgText (smUnit s)]"

definition systemMetricColumns :: "string list" where
  "systemMetricColumns =
    [''collected_at'', ''source_database'', ''inst_id'', ''con_id'', ''metric_name'', ''value'',
     ''unit'']"

definition dataGuardDestinationRow :: "DataGuardDestinationSample \<Rightarrow> pg_value list" where
  "dataGuardDestinationRow s =
    [PgTime (dgdCollectedAt s), PgText (dgdDatabase s), pg_int (dgdInstID s), pg_int (dgdDestID s),
     pg_opt PgText (dgdDestinationName s), pg_opt PgText (dgdTarget s),
     pg_opt PgText (dgdDestination s), pg_opt PgText (dgdStatus s), pg_opt PgText (dgdTransmitMode s),
     pg_opt PgText (dgdAffirm s), pg_opt PgText (dgdValidNow s), pg_opt PgText (dgdDBUniqueName s),
     pg_opt PgText (dgdDestinationType s), pg_opt PgText (dgdDatabaseMode s),
     pg_opt PgText (dgdRecoveryMode s), pg_opt PgText (dgdProtectionMode s),
     pg_opt PgText (dgdSynchronized s), pg_opt PgText (dgdSynchronizationStatus s),
     pg_opt PgText (dgdGapStatus s), pg_opt pg_int (dgdArchivedThread s),
     pg_opt pg_int (dgdArchivedSequence s), pg_opt pg_int (dgdAppliedThread s),
     pg_opt pg_int (dgdAppliedSequence s), pg_opt pg_int (dgdAppliedSCN s), pg_opt PgText (dgdError s)]"

definition dataGuardDestinationColumns :: "string list" where
  "dataGuardDestinationColumns =
    [''collected_at'', ''source_database'', ''inst_id'', ''dest_id'', ''destination_name'', ''target'',
     ''destination'', ''status'', ''transmit_mode'', ''affirm'', ''valid_now'', ''db_unique_name'',
     ''destination_type'', ''database_mode'', ''recovery_mode'', ''protection_mode'', ''synchronized'',
     ''synchronization_status'', ''gap_status'', ''archived_thread'', ''archived_sequence'',
     ''applied_thread'', ''applied_sequence'', ''applied_scn'', ''error_message'']"

definition dataGuardLagRow :: "DataGuardLagSample \<Rightarrow> pg_value list" where
  "dataGuardLagRow s =
    [PgTime (dglCollectedAt s), PgText (dglDatabase s), PgText (dglDatabaseRole s),
     pg_opt PgSeconds (dglTransportLagSeconds s), pg_opt PgSeconds (dglApplyLagSeconds s),
     pg_opt PgSeconds (dglApplyFinishTimeSeconds s), pg_opt PgSeconds (dglEstimatedStartupSeconds s),
     pg_opt PgText (dglTimeComputed s), pg_opt PgText (dglDatumTime s),
     pg_opt PgSeconds (dglDatumAgeSeconds s)]"

definition dataGuardLagColumns :: "string list" where
  "dataGuardLagColumns =
    [''collected_at'', ''source_database'', ''database_role'', ''transport_lag_seconds'',
     ''apply_lag_seconds'', ''apply_finish_time_seconds'', ''estimated_startup_seconds'',
     ''time_computed'', ''datum_time'', ''datum_age_seconds'']"

definition dataGuardProcessRow :: "DataGuardProcessSample \<Rightarrow> pg_value list" where
  "dataGuardProcessRow s =
    [PgTime (dgpCollectedAt s), PgText (dgpDatabase s), pg_int (dgpInstID s),
     PgText (dgpDatabaseRole s), pg_int (dgpApplyProcesses s), pg_int (dgpTransportProcesses s),
     pg_opt PgText (dgpApplyStatus s), pg_opt pg_int (dgpThreadNumber s),
     pg_opt pg_int (dgpSequenceNumber s)]"

definition dataGuardProcessColumns :: "string list" where
  "dataGuardProcessColumns =
    [''collected_at'', ''source_database'', ''inst_id'', ''database_role'', ''apply_processes'',
     ''transport_processes'', ''apply_status'', ''thread_number'', ''sequence_number'']"

text \<open>The texts, cursors and ingestion counts are inserted from the maps that the sink collects: a key and
  its value make a row. The newest time of a text fills two columns, as does that of a cursor.\<close>

definition sqlTextsRow :: "sqlTextKey \<Rightarrow> sqlTextRecord \<Rightarrow> pg_value list" where
  "sqlTextsRow key record =
    (case key of (database, sqlID) \<Rightarrow>
      [PgText database, PgText sqlID, PgText (rcFullText record), PgTime (rcFirstSeen record),
       PgTime (rcLastSeen record), PgTime (rcLastSeen record)])"

definition sqlTextsColumns :: "string list" where
  "sqlTextsColumns =
    [''source_database'', ''sql_id'', ''sql_fulltext'', ''first_seen_at'', ''last_text_seen_at'',
     ''last_referenced_at'']"

definition sqlCursorMetadataRow :: "sqlCursorMetadataKey \<Rightarrow> SQLSample \<Rightarrow> pg_value list" where
  "sqlCursorMetadataRow key sample =
    (case key of (database, instID, sqlID, childNumber, planHashValue) \<Rightarrow>
      [PgText database, pg_int instID, PgText sqlID, pg_int childNumber, pg_int planHashValue,
       pg_opt PgText (sqParsingSchemaName sample), pg_opt PgText (sqModule sample),
       PgTime (sqCollectedAt sample), PgTime (sqCollectedAt sample)])"

definition sqlCursorMetadataColumns :: "string list" where
  "sqlCursorMetadataColumns =
    [''source_database'', ''inst_id'', ''sql_id'', ''child_number'', ''plan_hash_value'',
     ''parsing_schema_name'', ''module'', ''first_seen_at'', ''last_seen_at'']"

definition repositoryIngestRow :: "time \<Rightarrow> repositoryIngestKey \<Rightarrow> repositoryIngestCounts \<Rightarrow> pg_value list" where
  "repositoryIngestRow flushedAt key v =
    (case key of (day, database) \<Rightarrow>
      [PgTime day, PgText database, pg_int (additionalMetricRows v), pg_int (sqlSampleRows v),
       pg_int (sqlTextWrites v), pg_int (sqlCursorMetadataWrites v), pg_int (sqlPlanOperationWrites v),
       pg_int (sessionSampleRows v), pg_int (blockingSessionSampleRows v), pg_int (databaseActivitySampleRows v),
       pg_int (databaseStatusSampleRows v), pg_int (instanceSampleRows v), pg_int (resourceLimitSampleRows v),
       pg_int (tablespaceSampleRows v), pg_int (asmDiskgroupSampleRows v), pg_int (systemCounterSampleRows v),
       pg_int (waitClassSampleRows v), pg_int (systemMetricSampleRows v), pg_int (dataGuardDestinationRows v),
       pg_int (dataGuardLagRows v), pg_int (dataGuardProcessRows v), pg_int (scrapeStatusRows v),
       pg_opt PgTime (nullableTime (firstSampleAt v)), pg_opt PgTime (nullableTime (lastSampleAt v)),
       pg_opt PgTime (nullableTime (lastSQLSampleAt v)), pg_opt PgTime (nullableTime (lastSessionSampleAt v)),
       pg_opt PgTime (nullableTime (lastDatabaseActivitySampleAt v)), PgTime flushedAt])"

definition repositoryIngestColumns :: "string list" where
  "repositoryIngestColumns =
    [''sample_day'', ''source_database'', ''additional_metric_rows'', ''sql_sample_rows'', ''sql_text_writes'',
     ''sql_cursor_metadata_writes'', ''sql_plan_operation_writes'', ''session_sample_rows'',
     ''blocking_session_sample_rows'', ''database_activity_sample_rows'', ''database_status_sample_rows'',
     ''instance_sample_rows'', ''resource_limit_sample_rows'', ''tablespace_sample_rows'',
     ''asm_diskgroup_sample_rows'', ''system_counter_sample_rows'', ''wait_class_sample_rows'',
     ''system_metric_sample_rows'', ''dataguard_destination_rows'', ''dataguard_lag_rows'',
     ''dataguard_process_rows'', ''scrape_status_rows'', ''first_sample_at'', ''last_sample_at'',
     ''last_sql_sample_at'', ''last_session_sample_at'', ''last_database_activity_sample_at'', ''last_flushed_at'']"

text \<open>The upserts of the latest statuses send the rows and columns of the sample tables.\<close>

section \<open>Rows fit their tables\<close>

lemma samples_fits: "conforms samplesDDL samplesColumns (samplesRow marshal s)"
  by (rule conforms_aligned) (simp_all add: samplesDDL_def samplesColumns_def samplesRow_def)

lemma sqlSamples_fits: "conforms sqlSamplesDDL sqlSamplesColumns (sqlSamplesRow s)"
  by (rule conforms_aligned) (simp_all add: sqlSamplesDDL_def sqlSamplesColumns_def sqlSamplesRow_def)

lemma sessionSamples_fits: "conforms sessionSamplesDDL sessionSamplesColumns (sessionSamplesRow s)"
  by (rule conforms_aligned) (simp_all add: sessionSamplesDDL_def sessionSamplesColumns_def sessionSamplesRow_def)

lemma blockingSessions_fits: "conforms blockingSessionsDDL blockingSessionsColumns (blockingSessionsRow s)"
  by (rule conforms_aligned) (simp_all add: blockingSessionsDDL_def blockingSessionsColumns_def blockingSessionsRow_def)

lemma databaseActivity_fits: "conforms databaseActivityDDL databaseActivityColumns (databaseActivityRow s)"
  by (rule conforms_aligned) (simp_all add: databaseActivityDDL_def databaseActivityColumns_def databaseActivityRow_def)

lemma connectionState_fits: "conforms connectionStateDDL connectionStateColumns (connectionStateRow s)"
  by (rule conforms_aligned) (simp_all add: connectionStateDDL_def connectionStateColumns_def connectionStateRow_def)

lemma runtimeSamples_fits: "conforms runtimeSamplesDDL runtimeSamplesColumns (runtimeSamplesRow s)"
  by (rule conforms_aligned) (simp_all add: runtimeSamplesDDL_def runtimeSamplesColumns_def runtimeSamplesRow_def)

lemma scrapeStatus_fits: "conforms scrapeStatusDDL scrapeStatusColumns (scrapeStatusRow s)"
  by (rule conforms_aligned) (simp_all add: scrapeStatusDDL_def scrapeStatusColumns_def scrapeStatusRow_def)

lemma databaseStatus_fits: "conforms databaseStatusDDL databaseStatusColumns (databaseStatusRow s)"
  by (rule conforms_aligned) (simp_all add: databaseStatusDDL_def databaseStatusColumns_def databaseStatusRow_def)

lemma instance_fits: "conforms instanceDDL instanceColumns (instanceRow s)"
  by (rule conforms_aligned) (simp_all add: instanceDDL_def instanceColumns_def instanceRow_def)

lemma resourceLimit_fits: "conforms resourceLimitDDL resourceLimitColumns (resourceLimitRow s)"
  by (rule conforms_aligned) (simp_all add: resourceLimitDDL_def resourceLimitColumns_def resourceLimitRow_def)

lemma tablespace_fits: "conforms tablespaceDDL tablespaceColumns (tablespaceRow s)"
  by (rule conforms_aligned) (simp_all add: tablespaceDDL_def tablespaceColumns_def tablespaceRow_def)

lemma asmDiskgroup_fits: "conforms asmDiskgroupDDL asmDiskgroupColumns (asmDiskgroupRow s)"
  by (rule conforms_aligned) (simp_all add: asmDiskgroupDDL_def asmDiskgroupColumns_def asmDiskgroupRow_def)

lemma systemCounter_fits: "conforms systemCounterDDL systemCounterColumns (systemCounterRow s)"
  by (rule conforms_aligned) (simp_all add: systemCounterDDL_def systemCounterColumns_def systemCounterRow_def)

lemma waitClass_fits: "conforms waitClassDDL waitClassColumns (waitClassRow s)"
  by (rule conforms_aligned) (simp_all add: waitClassDDL_def waitClassColumns_def waitClassRow_def)

lemma systemMetric_fits: "conforms systemMetricDDL systemMetricColumns (systemMetricRow s)"
  by (rule conforms_aligned) (simp_all add: systemMetricDDL_def systemMetricColumns_def systemMetricRow_def)

lemma dataGuardDestination_fits: "conforms dataGuardDestinationDDL dataGuardDestinationColumns (dataGuardDestinationRow s)"
  by (rule conforms_aligned) (simp_all add: dataGuardDestinationDDL_def dataGuardDestinationColumns_def dataGuardDestinationRow_def)

lemma dataGuardLag_fits: "conforms dataGuardLagDDL dataGuardLagColumns (dataGuardLagRow s)"
  by (rule conforms_aligned) (simp_all add: dataGuardLagDDL_def dataGuardLagColumns_def dataGuardLagRow_def)

lemma dataGuardProcess_fits: "conforms dataGuardProcessDDL dataGuardProcessColumns (dataGuardProcessRow s)"
  by (rule conforms_aligned) (simp_all add: dataGuardProcessDDL_def dataGuardProcessColumns_def dataGuardProcessRow_def)

lemma sqlPlans_fits: "conforms sqlPlansDDL sqlPlansColumns (sqlPlansRow s)"
  by (rule conforms_aligned) (simp_all add: sqlPlansDDL_def sqlPlansColumns_def sqlPlansRow_def)

lemma sqlTexts_fits: "conforms sqlTextsDDL sqlTextsColumns (sqlTextsRow key record)"
  by (rule conforms_aligned) (simp_all add: sqlTextsDDL_def sqlTextsColumns_def sqlTextsRow_def split: prod.split)

lemma sqlCursorMetadata_fits: "conforms sqlCursorMetadataDDL sqlCursorMetadataColumns (sqlCursorMetadataRow key sample)"
  by (rule conforms_aligned)
    (simp_all add: sqlCursorMetadataDDL_def sqlCursorMetadataColumns_def sqlCursorMetadataRow_def split: prod.split)

lemma repositoryIngest_fits: "conforms repositoryIngestDDL repositoryIngestColumns (repositoryIngestRow now key v)"
  by (rule conforms_aligned)
    (simp_all add: repositoryIngestDDL_def repositoryIngestColumns_def repositoryIngestRow_def split: prod.split)

lemma latestScrapeStatus_fits: "conforms latestScrapeStatusDDL scrapeStatusColumns (scrapeStatusRow s)"
  by (rule conforms_aligned) (simp_all add: latestScrapeStatusDDL_def scrapeStatusColumns_def scrapeStatusRow_def)

lemma latestRuntimeStatus_fits: "conforms latestRuntimeStatusDDL runtimeSamplesColumns (runtimeSamplesRow s)"
  by (rule conforms_aligned) (simp_all add: latestRuntimeStatusDDL_def runtimeSamplesColumns_def runtimeSamplesRow_def)

text \<open>
  C23: every row fits its table. Whatever the sample, for each of the tables of the schema (those of the samples,
  of the SQL texts, cursors and plans, of the latest statuses and of the ingestion counts) the values the
  sink sends for it agree in number, order
  and type with the columns it names, those are columns of the table as \<open>Migrate\<close> created it, each
  named once, a nil pointer only goes to a column that may be null, and no column that must have a value
  is left out.
\<close>
theorem rows_fit_schema:
  "conforms samplesDDL samplesColumns (samplesRow marshal m) \<and>
   conforms sqlSamplesDDL sqlSamplesColumns (sqlSamplesRow sq) \<and>
   conforms sessionSamplesDDL sessionSamplesColumns (sessionSamplesRow se) \<and>
   conforms blockingSessionsDDL blockingSessionsColumns (blockingSessionsRow bs) \<and>
   conforms databaseActivityDDL databaseActivityColumns (databaseActivityRow da) \<and>
   conforms connectionStateDDL connectionStateColumns (connectionStateRow cs) \<and>
   conforms runtimeSamplesDDL runtimeSamplesColumns (runtimeSamplesRow rt) \<and>
   conforms scrapeStatusDDL scrapeStatusColumns (scrapeStatusRow st) \<and>
   conforms databaseStatusDDL databaseStatusColumns (databaseStatusRow ds) \<and>
   conforms instanceDDL instanceColumns (instanceRow ins) \<and>
   conforms resourceLimitDDL resourceLimitColumns (resourceLimitRow rl) \<and>
   conforms tablespaceDDL tablespaceColumns (tablespaceRow tbs) \<and>
   conforms asmDiskgroupDDL asmDiskgroupColumns (asmDiskgroupRow asm) \<and>
   conforms systemCounterDDL systemCounterColumns (systemCounterRow sc) \<and>
   conforms waitClassDDL waitClassColumns (waitClassRow wc) \<and>
   conforms systemMetricDDL systemMetricColumns (systemMetricRow sm) \<and>
   conforms dataGuardDestinationDDL dataGuardDestinationColumns (dataGuardDestinationRow dgd) \<and>
   conforms dataGuardLagDDL dataGuardLagColumns (dataGuardLagRow dgl) \<and>
   conforms dataGuardProcessDDL dataGuardProcessColumns (dataGuardProcessRow dgp) \<and>
   conforms sqlPlansDDL sqlPlansColumns (sqlPlansRow pl) \<and>
   conforms sqlTextsDDL sqlTextsColumns (sqlTextsRow key text) \<and>
   conforms sqlCursorMetadataDDL sqlCursorMetadataColumns (sqlCursorMetadataRow ckey cursor) \<and>
   conforms repositoryIngestDDL repositoryIngestColumns (repositoryIngestRow flushedAt ikey counts) \<and>
   conforms latestScrapeStatusDDL scrapeStatusColumns (scrapeStatusRow st) \<and>
   conforms latestRuntimeStatusDDL runtimeSamplesColumns (runtimeSamplesRow rt)"
  by (intro conjI samples_fits sqlSamples_fits sessionSamples_fits blockingSessions_fits databaseActivity_fits
      connectionState_fits runtimeSamples_fits scrapeStatus_fits databaseStatus_fits instance_fits
      resourceLimit_fits tablespace_fits asmDiskgroup_fits systemCounter_fits waitClass_fits
      systemMetric_fits dataGuardDestination_fits dataGuardLag_fits dataGuardProcess_fits sqlPlans_fits
      sqlTexts_fits sqlCursorMetadata_fits repositoryIngest_fits latestScrapeStatus_fits latestRuntimeStatus_fits)

end
