(* ===== verification/SinkQueue.thy ===== *)
theory SinkQueue
  imports Samples Machines "HOL-Library.Multiset"
begin

text \<open>
  The buffer of runtime telemetry of the sink (\<open>postgresql/postgresql.go\<close>): a sample is queued after its
  write, taken by a later write, and put back in front when that write fails. The buffer holds at most
  \<open>maxPendingRuntimeSamples\<close>; beyond that the oldest are dropped. Each operation runs under \<open>runtimeMu\<close>,
  so an interleaving of writers is a sequence of operations.
\<close>

definition maxPendingRuntimeSamples :: nat where "maxPendingRuntimeSamples = 10000"
definition runtimeTelemetryFlushInterval :: duration where "runtimeTelemetryFlushInterval = minute"

record RuntimeQueue =
  pendingRuntime :: "RuntimeSample list"
  lastRuntimeFlushAttempt :: time
  runtimeFlushInterval :: duration

text \<open>\<open>copy\<close> within one slice: the elements move to the front, the tail keeps what it held.\<close>

definition shift_down :: "nat \<Rightarrow> 'a list \<Rightarrow> 'a list" where
  "shift_down k xs = drop k xs @ drop (length xs - k) xs"

definition queueRuntime :: "RuntimeSample list \<Rightarrow> RuntimeQueue \<Rightarrow> RuntimeQueue" where
  "queueRuntime samples q =
     (if samples = [] then q
      else let pending = pendingRuntime q @ samples;
               dropped = length pending - maxPendingRuntimeSamples
           in if dropped > 0
              then q\<lparr>pendingRuntime := take maxPendingRuntimeSamples (shift_down dropped pending)\<rparr>
              else q\<lparr>pendingRuntime := pending\<rparr>)"

definition takePendingRuntime :: "bool \<Rightarrow> time \<Rightarrow> RuntimeQueue \<Rightarrow> RuntimeSample list \<times> RuntimeQueue" where
  "takePendingRuntime force now q =
     (if pendingRuntime q = [] then ([], q)
      else let interval = (if runtimeFlushInterval q \<le> 0 then runtimeTelemetryFlushInterval
                           else runtimeFlushInterval q)
           in if \<not> force \<and> \<not> is_zero_time (lastRuntimeFlushAttempt q) \<and>
                 time_sub now (lastRuntimeFlushAttempt q) < interval
              then ([], q)
              else (pendingRuntime q, q\<lparr>pendingRuntime := [], lastRuntimeFlushAttempt := now\<rparr>))"

definition requeueRuntime :: "RuntimeSample list \<Rightarrow> RuntimeQueue \<Rightarrow> RuntimeQueue" where
  "requeueRuntime samples q =
     (if samples = [] then q
      else let pending = samples @ pendingRuntime q;
               dropped = length pending - maxPendingRuntimeSamples
           in q\<lparr>pendingRuntime := (if dropped > 0 then drop dropped pending else pending)\<rparr>)"

text \<open>The two clocks are read by the caller: \<open>now\<close> is \<open>time.Now()\<close> at the end of the write.\<close>

definition recordRuntimeResult ::
    "RuntimeSample option \<Rightarrow> time \<Rightarrow> time \<Rightarrow> go_error option \<Rightarrow> RuntimeQueue \<Rightarrow> RuntimeQueue" where
  "recordRuntimeResult sample now writeStartedAt err q =
     (case sample of
        None \<Rightarrow> q
      | Some s \<Rightarrow>
          (let completed = s\<lparr>rtFinishedAt := now, rtObservedAt := now,
                 rtPostgreSQLWriteDurationSeconds := duration_seconds (time_sub now writeStartedAt),
                 rtTotalDurationSeconds :=
                   (let d = duration_seconds (time_sub now (rtScheduledAt s)) in if d < 0 then 0 else d),
                 rtPostgreSQLWriteSuccess := (err = None),
                 rtPostgreSQLErrorMessage :=
                   (case err of
                      None \<Rightarrow> rtPostgreSQLErrorMessage s
                    | Some e \<Rightarrow> let message = err_message e in
                                Some (if length message > 2000 then take 2000 message else message))\<rparr>
           in queueRuntime [completed] q))"

section \<open>The newest entries of a bounded log\<close>

definition keep_last :: "nat \<Rightarrow> 'a list \<Rightarrow> 'a list" where
  "keep_last n xs = drop (length xs - n) xs"

lemma keep_last_length [simp]: "length (keep_last n xs) = min n (length xs)"
  by (simp add: keep_last_def)

lemma keep_last_all [simp]: "length xs \<le> n \<Longrightarrow> keep_last n xs = xs"
  by (simp add: keep_last_def)

lemma keep_last_split: "take (length xs - n) xs @ keep_last n xs = xs"
  by (simp add: keep_last_def)

lemma keep_last_mset: "mset (take (length xs - n) xs) + mset (keep_last n xs) = mset xs"
  by (metis keep_last_split mset_append)

lemma pendingRuntime_queue:
  "pendingRuntime (queueRuntime samples q) =
     (if samples = [] then pendingRuntime q
      else keep_last maxPendingRuntimeSamples (pendingRuntime q @ samples))"
  by (auto simp: queueRuntime_def Let_def shift_down_def keep_last_def)

lemma pendingRuntime_requeue:
  "pendingRuntime (requeueRuntime samples q) =
     (if samples = [] then pendingRuntime q
      else keep_last maxPendingRuntimeSamples (samples @ pendingRuntime q))"
  by (simp add: requeueRuntime_def Let_def keep_last_def)

lemma takePendingRuntime_conserves:
  "takePendingRuntime force now q = (samples, q') \<Longrightarrow> samples @ pendingRuntime q' = pendingRuntime q"
  by (auto simp: takePendingRuntime_def Let_def split: if_splits)

section \<open>Several writers\<close>

text \<open>
  The buffer with the batches that writers have taken and not settled yet. What was recorded, what the
  repository stored, what was delivered (stored, and the writer knows it) and what was dropped are kept
  beside it. A write that fails puts its batch back. The commit is the delicate case: when its answer is lost
  the writer sees an error and puts back rows that are stored, which \<open>tmLost\<close> counts.
\<close>

record Telemetry =
  tmQueue :: RuntimeQueue
  tmFlights :: "RuntimeSample list list"
  tmRecorded :: "RuntimeSample multiset"
  tmStored :: "RuntimeSample multiset"
  tmDelivered :: "RuntimeSample multiset"
  tmLost :: "RuntimeSample multiset"
  tmDropped :: "RuntimeSample multiset"

definition overflow :: "RuntimeSample list \<Rightarrow> RuntimeSample multiset" where
  "overflow xs = mset (take (length xs - maxPendingRuntimeSamples) xs)"

inductive telemetry_step :: "Telemetry \<Rightarrow> Telemetry \<Rightarrow> bool" where
  record_sample: "telemetry_step s (s\<lparr>tmQueue := queueRuntime samples (tmQueue s),
     tmRecorded := tmRecorded s + mset samples,
     tmDropped := tmDropped s + overflow (pendingRuntime (tmQueue s) @ samples)\<rparr>)"
    if "samples \<noteq> []"
| take_batch: "telemetry_step s (s\<lparr>tmQueue := q, tmFlights := batch # tmFlights s\<rparr>)"
    if "takePendingRuntime force now (tmQueue s) = (batch, q)"
| deliver: "telemetry_step s (s\<lparr>tmFlights := before @ after, tmStored := tmStored s + mset batch,
     tmDelivered := tmDelivered s + mset batch\<rparr>)"
    if "tmFlights s = before @ batch # after"
| put_back: "telemetry_step s (s\<lparr>tmQueue := requeueRuntime batch (tmQueue s), tmFlights := before @ after,
     tmDropped := tmDropped s +
       (if batch = [] then {#} else overflow (batch @ pendingRuntime (tmQueue s)))\<rparr>)"
    if "tmFlights s = before @ batch # after"
| lost_answer: "telemetry_step s (s\<lparr>tmQueue := requeueRuntime batch (tmQueue s), tmFlights := before @ after,
     tmStored := tmStored s + mset batch, tmLost := tmLost s + mset batch,
     tmDropped := tmDropped s +
       (if batch = [] then {#} else overflow (batch @ pendingRuntime (tmQueue s)))\<rparr>)"
    if "tmFlights s = before @ batch # after"

inductive_cases telemetry_stepE: "telemetry_step s s'"

definition telemetry_initial :: "Telemetry \<Rightarrow> bool" where
  "telemetry_initial s \<longleftrightarrow> pendingRuntime (tmQueue s) = [] \<and> tmFlights s = [] \<and>
     tmRecorded s = {#} \<and> tmStored s = {#} \<and> tmDelivered s = {#} \<and> tmLost s = {#} \<and> tmDropped s = {#}"

definition outstanding :: "Telemetry \<Rightarrow> RuntimeSample multiset" where
  "outstanding s = mset (pendingRuntime (tmQueue s)) + mset (concat (tmFlights s))"

definition telemetry_ok :: "Telemetry \<Rightarrow> bool" where
  "telemetry_ok s \<longleftrightarrow>
     tmRecorded s = outstanding s + tmDelivered s + tmDropped s \<and>
     tmStored s = tmDelivered s + tmLost s \<and>
     length (pendingRuntime (tmQueue s)) \<le> maxPendingRuntimeSamples"

lemma overflow_split: "overflow xs + mset (keep_last maxPendingRuntimeSamples xs) = mset xs"
  by (simp add: overflow_def keep_last_mset)

lemma overflow_empty: "overflow xs \<noteq> {#} \<Longrightarrow> maxPendingRuntimeSamples < length xs"
  by (auto simp: overflow_def)

lemma telemetry_step_ok: "telemetry_step s s' \<Longrightarrow> telemetry_ok s \<Longrightarrow> telemetry_ok s'"
proof (induction rule: telemetry_step.induct)
  case (record_sample samples s)
  let ?p = "pendingRuntime (tmQueue s) @ samples"
  have "mset (pendingRuntime (tmQueue s)) + mset samples =
      overflow ?p + mset (keep_last maxPendingRuntimeSamples ?p)"
    by (simp add: overflow_split)
  with record_sample show ?case
    by (simp add: telemetry_ok_def outstanding_def pendingRuntime_queue ac_simps)
next
  case (take_batch force now s batch q)
  from takePendingRuntime_conserves [OF take_batch(1)]
  have "mset (pendingRuntime (tmQueue s)) = mset batch + mset (pendingRuntime q)"
    "length (pendingRuntime q) \<le> length (pendingRuntime (tmQueue s))"
    by (metis mset_append) (metis le_add2 length_append takePendingRuntime_conserves take_batch(1))
  with take_batch(2) show ?case
    by (simp add: telemetry_ok_def outstanding_def ac_simps)
next
  case (deliver s before batch after)
  then show ?case by (simp add: telemetry_ok_def outstanding_def ac_simps)
next
  case (put_back s before batch after)
  let ?p = "batch @ pendingRuntime (tmQueue s)"
  have "mset batch + mset (pendingRuntime (tmQueue s)) =
      overflow ?p + mset (keep_last maxPendingRuntimeSamples ?p)"
    by (simp add: overflow_split)
  with put_back show ?case
    by (auto simp: telemetry_ok_def outstanding_def pendingRuntime_requeue ac_simps)
next
  case (lost_answer s before batch after)
  let ?p = "batch @ pendingRuntime (tmQueue s)"
  have "mset batch + mset (pendingRuntime (tmQueue s)) =
      overflow ?p + mset (keep_last maxPendingRuntimeSamples ?p)"
    by (simp add: overflow_split)
  with lost_answer show ?case
    by (auto simp: telemetry_ok_def outstanding_def pendingRuntime_requeue ac_simps)
qed

interpretation telemetry: invariant_machine telemetry_initial telemetry_step telemetry_ok
  by unfold_locales
    (simp add: telemetry_initial_def telemetry_ok_def outstanding_def, rule telemetry_step_ok)

lemma telemetry_step_drops:
  assumes "telemetry_step s s'" and "telemetry_ok s" and "tmDropped s' \<noteq> tmDropped s"
  shows "maxPendingRuntimeSamples < size (outstanding s) + size (tmRecorded s' - tmRecorded s)"
  using assms
proof (induction rule: telemetry_step.induct)
  case (record_sample samples s)
  then have "maxPendingRuntimeSamples < length (pendingRuntime (tmQueue s) @ samples)"
    by (intro overflow_empty) auto
  then show ?case by (simp add: outstanding_def)
next
  case (put_back s before batch after)
  then have "maxPendingRuntimeSamples < length (batch @ pendingRuntime (tmQueue s))"
    by (intro overflow_empty) (auto split: if_splits)
  with put_back(1) show ?case by (simp add: outstanding_def)
next
  case (lost_answer s before batch after)
  then have "maxPendingRuntimeSamples < length (batch @ pendingRuntime (tmQueue s))"
    by (intro overflow_empty) (auto split: if_splits)
  with lost_answer(1) show ?case by (simp add: outstanding_def)
qed simp_all

section \<open>One writer\<close>

text \<open>
  The cycles of one scheduler: each takes what is pending, writes it, and records its own result. The
  second component is what the committed transactions have delivered.
\<close>

type_synonym telemetry_cycle = "bool \<times> time \<times> bool \<times> RuntimeSample"

fun telemetry_cycle :: "telemetry_cycle \<Rightarrow> RuntimeQueue \<times> RuntimeSample list \<Rightarrow> RuntimeQueue \<times> RuntimeSample list" where
  "telemetry_cycle (force, now, committed, sample) (q, out) =
     (let (batch, q1) = takePendingRuntime force now q;
          q2 = (if committed then q1 else requeueRuntime batch q1)
      in (queueRuntime [sample] q2, if committed then out @ batch else out))"

lemma telemetry_cycle_log:
  assumes "length (pendingRuntime q) < maxPendingRuntimeSamples"
    and "telemetry_cycle (force, now, committed, sample) (q, out) = (q', out')"
  shows "out' @ pendingRuntime q' = (out @ pendingRuntime q) @ [sample]"
    and "length (pendingRuntime q') \<le> Suc (length (pendingRuntime q))"
    and "committed \<Longrightarrow> fst (takePendingRuntime force now q) = pendingRuntime q \<Longrightarrow> pendingRuntime q' = [sample]"
proof -
  obtain batch q1 where t: "takePendingRuntime force now q = (batch, q1)" by fastforce
  note c = takePendingRuntime_conserves [OF t]
  then have len: "length batch + length (pendingRuntime q1) = length (pendingRuntime q)"
    by (metis length_append)
  have keep: "keep_last maxPendingRuntimeSamples (pendingRuntime q @ [sample]) = pendingRuntime q @ [sample]"
    "keep_last maxPendingRuntimeSamples (pendingRuntime q1 @ [sample]) = pendingRuntime q1 @ [sample]"
    "keep_last maxPendingRuntimeSamples (pendingRuntime q) = pendingRuntime q"
    using assms(1) len by simp_all
  show "out' @ pendingRuntime q' = (out @ pendingRuntime q) @ [sample]"
    "length (pendingRuntime q') \<le> Suc (length (pendingRuntime q))"
    "committed \<Longrightarrow> fst (takePendingRuntime force now q) = pendingRuntime q \<Longrightarrow> pendingRuntime q' = [sample]"
    using assms(2) c keep len
    by (auto simp: t pendingRuntime_queue pendingRuntime_requeue split: if_splits)
qed

lemma telemetry_cycles_log:
  assumes "length (pendingRuntime q) + length cycles \<le> maxPendingRuntimeSamples"
    and "fold telemetry_cycle cycles (q, out) = (q', out')"
  shows "out' @ pendingRuntime q' = (out @ pendingRuntime q) @ map (snd \<circ> snd \<circ> snd) cycles"
  using assms
proof (induction cycles arbitrary: q out)
  case (Cons c cycles)
  obtain force now committed sample where c: "c = (force, now, committed, sample)" by (cases c)
  obtain q1 out1 where s: "telemetry_cycle c (q, out) = (q1, out1)" by fastforce
  have room: "length (pendingRuntime q) < maxPendingRuntimeSamples" using Cons.prems(1) by simp
  note log = telemetry_cycle_log [OF room s [unfolded c]]
  have "fold telemetry_cycle cycles (q1, out1) = (q', out')" using Cons.prems(2) s by simp
  then show ?case using Cons.IH [of q1 out1] Cons.prems(1) log by (simp add: c del: fold_simps)
qed simp

section \<open>Properties\<close>

text \<open>
  C12: telemetry is accounted for. Whatever the order in which the schedulers record, take, deliver and put
  back, every recorded sample is in exactly one place (pending, in the hands of a writer, delivered,
  dropped) as often as it was recorded. What the repository stores is what was delivered and what was
  stored by a commit whose answer was lost: those samples are put back, so they and no others may be
  stored twice. The buffer never holds more than its bound, and a step drops samples only when
  more than the bound are undelivered.
\<close>
theorem telemetry_accounted:
  assumes "telemetry_initial s0" and "telemetry_step\<^sup>*\<^sup>* s0 s" and "telemetry_step s s'"
  shows "tmRecorded s = outstanding s + tmDelivered s + tmDropped s \<and>
    tmStored s = tmDelivered s + tmLost s \<and> tmStored s \<subseteq># tmRecorded s + tmLost s \<and>
    length (pendingRuntime (tmQueue s)) \<le> maxPendingRuntimeSamples \<and>
    (tmDropped s' \<noteq> tmDropped s \<longrightarrow>
       maxPendingRuntimeSamples < size (outstanding s) + size (tmRecorded s' - tmRecorded s))"
  using telemetry.reachable_inv [OF assms(1,2)] telemetry_step_drops [OF assms(3)]
  by (auto simp: telemetry_ok_def)

definition example_telemetry :: Telemetry where
  "example_telemetry = \<lparr>tmQueue = \<lparr>pendingRuntime = [], lastRuntimeFlushAttempt = 0,
     runtimeFlushInterval = runtimeTelemetryFlushInterval\<rparr>, tmFlights = [], tmRecorded = {#},
     tmStored = {#}, tmDelivered = {#}, tmLost = {#}, tmDropped = {#}\<rparr>"

definition example_runtime :: RuntimeSample where
  "example_runtime = \<lparr>rtObservedAt = 1, rtScheduler = ''metrics'', rtTrigger = ''interval'',
     rtScraperInstance = ''a'', rtHAScope = ''default'', rtScheduledAt = 1, rtStartedAt = 1,
     rtCollectionFinishedAt = 1, rtFinishedAt = 1, rtConfiguredIntervalSeconds = 30,
     rtConfiguredQueryTimeoutSeconds = None, rtSchedulingLagSeconds = 0, rtCollectionDurationSeconds = 0,
     rtPostgreSQLWriteDurationSeconds = 0, rtTotalDurationSeconds = 0, rtMissedIntervals = 0,
     rtDatabasesAttempted = 1, rtDatabasesSucceeded = 1, rtSampleCount = 0, rtErrorCount = 0,
     rtPostgreSQLWriteSuccess = True, rtPostgreSQLErrorMessage = None\<rparr>"

text \<open>A sample whose first commit was not answered and whose second write succeeds.\<close>

lemma telemetry_accounted_witness:
  "\<exists>s. telemetry_step\<^sup>*\<^sup>* example_telemetry s \<and> tmRecorded s = {#example_runtime#} \<and>
     tmStored s = {#example_runtime, example_runtime#} \<and> tmStored s \<subseteq># tmRecorded s + tmLost s"
proof -
  let ?q = "\<lambda>pending at1. \<lparr>pendingRuntime = pending, lastRuntimeFlushAttempt = at1,
    runtimeFlushInterval = runtimeTelemetryFlushInterval\<rparr>"
  define st where "st = (\<lambda>pending at1 flights stored delivered lost. \<lparr>tmQueue = ?q pending at1,
    tmFlights = flights, tmRecorded = {#example_runtime#}, tmStored = stored, tmDelivered = delivered,
    tmLost = lost, tmDropped = {#}\<rparr>)"
  let ?x = "[example_runtime]" and ?m = "{#example_runtime#}"
  have s1: "telemetry_step example_telemetry (st ?x 0 [] {#} {#} {#})"
    using record_sample [of ?x example_telemetry]
    by (simp add: example_telemetry_def st_def queueRuntime_def Let_def overflow_def maxPendingRuntimeSamples_def)
  have s2: "telemetry_step (st ?x 0 [] {#} {#} {#}) (st [] 5 [?x] {#} {#} {#})"
    using take_batch [of True 5 "st ?x 0 [] {#} {#} {#}" ?x "?q [] 5"]
    by (simp add: st_def takePendingRuntime_def)
  have s3: "telemetry_step (st [] 5 [?x] {#} {#} {#}) (st ?x 5 [] ?m {#} ?m)"
    using lost_answer [of "st [] 5 [?x] {#} {#} {#}" "[]" ?x "[]"]
    by (simp add: st_def requeueRuntime_def Let_def overflow_def maxPendingRuntimeSamples_def)
  have s4: "telemetry_step (st ?x 5 [] ?m {#} ?m) (st [] 6 [?x] ?m {#} ?m)"
    using take_batch [of True 6 "st ?x 5 [] ?m {#} ?m" ?x "?q [] 6"]
    by (simp add: st_def takePendingRuntime_def)
  have s5: "telemetry_step (st [] 6 [?x] ?m {#} ?m) (st [] 6 [] (?m + ?m) ?m ?m)"
    using deliver [of "st [] 6 [?x] ?m {#} ?m" "[]" ?x "[]"] by (simp add: st_def)
  have run: "telemetry_step\<^sup>*\<^sup>* example_telemetry (st [] 6 [] (?m + ?m) ?m ?m)"
    using s1 s2 s3 s4 s5 by (meson rtranclp.rtrancl_into_rtrancl rtranclp.rtrancl_refl)
  have "telemetry_initial example_telemetry" by (simp add: telemetry_initial_def example_telemetry_def)
  from telemetry_accounted [OF this run record_sample [of ?x]]
  have "tmStored (st [] 6 [] (?m + ?m) ?m ?m) \<subseteq># tmRecorded (st [] 6 [] (?m + ?m) ?m ?m) + tmLost (st [] 6 [] (?m + ?m) ?m ?m)"
    by simp
  with run show ?thesis
    by (intro exI [of _ "st [] 6 [] (?m + ?m) ?m ?m"]) (simp add: st_def)
qed

text \<open>
  One writer keeps the order. Seen from outside, the buffer and what was delivered are one log to
  which every cycle appends its sample: over any run of at most 10,000 cycles, whichever of their
  writes fail, what was delivered followed by what is pending is the samples in the order recorded.
\<close>
theorem telemetry_in_order:
  assumes "pendingRuntime q = []" and "length cycles \<le> maxPendingRuntimeSamples"
    and "fold telemetry_cycle cycles (q, []) = (q', out)"
  shows "out @ pendingRuntime q' = map (snd \<circ> snd \<circ> snd) cycles"
  using telemetry_cycles_log [OF _ assms(3)] assms(1,2) by simp

theorem telemetry_in_order_witness:
  "let (q, out) = fold telemetry_cycle [(False, 1, True, example_runtime), (True, 2, False, example_runtime)]
     (tmQueue example_telemetry, []) in out @ pendingRuntime q = [example_runtime, example_runtime]"
  using telemetry_in_order [of "tmQueue example_telemetry"
      "[(False, 1, True, example_runtime), (True, 2, False, example_runtime)]"]
  by (auto simp: example_telemetry_def maxPendingRuntimeSamples_def split: prod.splits simp del: fold_simps)

end
