(* ===== verification/Repository.thy ===== *)
theory Repository
  imports SinkRows SinkQueue SinkSQL Ingest Config Runtime
begin

text \<open>
  The repository the sink writes to and the names of its tables (\<open>New\<close> in \<open>postgresql/postgresql.go\<close>), and
  the two kinds of stage a write is made of: the statements that create the daily partitions, and
  \<open>CopyFrom\<close> into a partitioned table. The server is a record of its answers: it may refuse any
  statement, and it refuses by itself a row that does not fit its table, that no partition covers, or
  whose text is not well-formed UTF-8.
\<close>

section \<open>Tables\<close>

record SinkTables =
  samplesTable :: pg_identifier
  sqlSamplesTable :: pg_identifier
  sqlTextsTable :: pg_identifier
  sqlCursorMetadataTable :: pg_identifier
  sqlPlansTable :: pg_identifier
  sessionSamplesTable :: pg_identifier
  blockingSessionsTable :: pg_identifier
  databaseActivityTable :: pg_identifier
  databaseStatusTable :: pg_identifier
  instanceTable :: pg_identifier
  resourceLimitTable :: pg_identifier
  tablespaceTable :: pg_identifier
  asmDiskgroupTable :: pg_identifier
  systemCounterTable :: pg_identifier
  waitClassTable :: pg_identifier
  systemMetricTable :: pg_identifier
  dataGuardDestinationTable :: pg_identifier
  dataGuardLagTable :: pg_identifier
  dataGuardProcessTable :: pg_identifier
  scrapeStatusTable :: pg_identifier
  latestScrapeStatusTable :: pg_identifier
  runtimeSamplesTable :: pg_identifier
  latestRuntimeStatusTable :: pg_identifier
  connectionStateTable :: pg_identifier
  repositoryIngestTable :: pg_identifier

definition sink_tables :: "PostgreSQLConfig \<Rightarrow> SinkTables" where
  "sink_tables cfg =
     (let sql = identifier_of (pgSQLSamplesTable cfg) ''oracle_sql_samples'' in
      \<lparr>samplesTable = identifier_of (pgSamplesTable cfg) ''oracle_metric_samples'',
       sqlSamplesTable = sql,
       sqlTextsTable = siblingIdentifier sql ''oracle_sql_texts'',
       sqlCursorMetadataTable = siblingIdentifier sql ''oracle_sql_cursor_metadata'',
       sqlPlansTable = siblingIdentifier sql ''oracle_sql_plans'',
       sessionSamplesTable = identifier_of (pgSessionSamplesTable cfg) ''oracle_session_samples'',
       blockingSessionsTable = identifier_of (pgBlockingSessionsTable cfg) ''oracle_blocking_session_samples'',
       databaseActivityTable = identifier_of (pgDatabaseActivityTable cfg) ''oracle_database_activity_samples'',
       databaseStatusTable = siblingIdentifier sql ''oracle_database_status_samples'',
       instanceTable = siblingIdentifier sql ''oracle_instance_samples'',
       resourceLimitTable = siblingIdentifier sql ''oracle_resource_limit_samples'',
       tablespaceTable = siblingIdentifier sql ''oracle_tablespace_samples'',
       asmDiskgroupTable = siblingIdentifier sql ''oracle_asm_diskgroup_samples'',
       systemCounterTable = siblingIdentifier sql ''oracle_system_counter_samples'',
       waitClassTable = siblingIdentifier sql ''oracle_wait_class_samples'',
       systemMetricTable = siblingIdentifier sql ''oracle_system_metric_samples'',
       dataGuardDestinationTable = siblingIdentifier sql ''oracle_dataguard_destination_samples'',
       dataGuardLagTable = siblingIdentifier sql ''oracle_dataguard_lag_samples'',
       dataGuardProcessTable = siblingIdentifier sql ''oracle_dataguard_process_samples'',
       scrapeStatusTable = siblingIdentifier sql ''oracle_scrape_status'',
       latestScrapeStatusTable = siblingIdentifier sql ''oracle_latest_scrape_status'',
       runtimeSamplesTable = siblingIdentifier sql ''harry_runtime_samples'',
       latestRuntimeStatusTable = siblingIdentifier sql ''harry_latest_runtime_status'',
       connectionStateTable = siblingIdentifier sql ''harry_database_connection_state'',
       repositoryIngestTable = siblingIdentifier sql ''harry_repository_daily_ingest''\<rparr>)"

definition partitionedTables :: "SinkTables \<Rightarrow> pg_identifier list" where
  "partitionedTables tb =
     [samplesTable tb, sqlSamplesTable tb, sessionSamplesTable tb, blockingSessionsTable tb,
      databaseActivityTable tb, databaseStatusTable tb, instanceTable tb, resourceLimitTable tb,
      tablespaceTable tb, asmDiskgroupTable tb, systemCounterTable tb, waitClassTable tb,
      systemMetricTable tb, dataGuardDestinationTable tb, dataGuardLagTable tb,
      dataGuardProcessTable tb, scrapeStatusTable tb, runtimeSamplesTable tb, repositoryIngestTable tb]"

section \<open>Repository and server\<close>

record Repository =
  rpCatalogue :: catalogue
  rpRows :: "pg_identifier \<Rightarrow> pg_value list list"
  rpTexts :: sql_texts
  rpCursors :: cursor_table
  rpPlans :: plan_table
  rpActivity :: "activity_key \<rightharpoonup> DatabaseActivitySample"
  rpLatestStatus :: latest_statuses
  rpLatestRuntime :: latest_runtime
  rpConnections :: connection_states
  rpIngest :: ingest_table

text \<open>
  The answers of the server to one transaction, by table and day or by what the statement is for, and the
  orders in which the loops over the maps of the batch run.
\<close>

record Server =
  svName :: "string \<Rightarrow> string"
  svBegin :: "go_error option"
  svPartition :: "pg_identifier \<Rightarrow> time \<Rightarrow> go_error option"
  svCopy :: "string \<Rightarrow> go_error option"
  svBatch :: "string \<Rightarrow> batch_answer"
  svExec :: "string \<Rightarrow> go_error option"
  svCommit :: commit_outcome
  svTextOrder :: "(sqlTextKey \<rightharpoonup> sqlTextRecord) \<Rightarrow> sqlTextKey list"
  svCursorOrder :: "(sqlCursorMetadataKey \<rightharpoonup> SQLSample) \<Rightarrow> sqlCursorMetadataKey list"
  svRuntimeOrder :: "(string \<times> string \<rightharpoonup> nat) \<Rightarrow> nat list"

text \<open>The text of a value is well-formed, as a UTF-8 database requires.\<close>

fun encodable :: "pg_value \<Rightarrow> bool" where
  "encodable (PgText s) = utf8_valid (map byte_of s)"
| "encodable (PgJson s) = utf8_valid (map byte_of s)"
| "encodable v = True"

text \<open>The partition column of every copied table is its first one.\<close>

fun row_time :: "pg_value list \<Rightarrow> time option" where
  "row_time (PgTime t # vs) = Some t"
| "row_time vs = None"

definition accepted :: "Repository \<Rightarrow> pg_identifier \<Rightarrow> pg_table \<Rightarrow> string list \<Rightarrow> pg_value list \<Rightarrow> bool" where
  "accepted r table ddl cols row \<longleftrightarrow>
     conforms ddl cols row \<and> list_all encodable row \<and>
     (case row_time row of None \<Rightarrow> False | Some t \<Rightarrow> routed (rpCatalogue r) table t)"

definition copyRows ::
    "Server \<Rightarrow> pg_identifier \<Rightarrow> pg_table \<Rightarrow> string list \<Rightarrow> pg_value list list \<Rightarrow> string \<Rightarrow>
     Repository \<Rightarrow> Repository result" where
  "copyRows sv table ddl cols rows description r =
     (if rows = [] then Inr r
      else case svCopy sv description of
             Some e \<Rightarrow> Inl (ErrWrap (''copy '' @ description) e)
           | None \<Rightarrow>
               if list_all (accepted r table ddl cols) rows
               then Inr (r\<lparr>rpRows := (rpRows r)(table := rpRows r table @ rows)\<rparr>)
               else Inl (ErrWrap (''copy '' @ description) (ErrText ''row not accepted'')))"

section \<open>Partitions of a write\<close>

text \<open>\<open>ensureDailyPartitions\<close> against a server that can refuse.\<close>

definition partition_stage :: "Server \<Rightarrow> string \<Rightarrow> pg_identifier \<Rightarrow> time \<Rightarrow> Repository \<Rightarrow> Repository result" where
  "partition_stage sv what parent day r =
     exec_statement what (svPartition sv parent day)
       (\<lambda>r. r\<lparr>rpCatalogue := exec_partition_ddl (svName sv) (partition_ddl parent day) (rpCatalogue r)\<rparr>) r"

definition ensure_partitions :: "Server \<Rightarrow> string \<Rightarrow> pg_identifier \<times> time list \<Rightarrow> Repository \<Rightarrow> Repository result" where
  "ensure_partitions sv what target = run_stages (map (partition_stage sv what (fst target)) (partition_days (snd target)))"

text \<open>The tables of a batch with the times of its rows, in the order of \<open>ensureWritePartitions\<close>.\<close>

definition write_partitions :: "SinkTables \<Rightarrow> SampleBatch \<Rightarrow> RuntimeSample list \<Rightarrow> (string \<times> pg_identifier \<times> time list) list" where
  "write_partitions tb b runtime =
     (let p = sbPerformance b; o' = sbOperational b in
      [(''ensure metric sample partitions'', samplesTable tb, map msCollectedAt (sbAdditionalMetrics b)),
       (''ensure sql sample partitions'', sqlSamplesTable tb, map sqCollectedAt (pfSQL p)),
       (''ensure session sample partitions'', sessionSamplesTable tb, map seCollectedAt (pfSessions p)),
       (''ensure blocking session sample partitions'', blockingSessionsTable tb,
         map bsCollectedAt (pfBlockingSessions p)),
       (''ensure database activity sample partitions'', databaseActivityTable tb,
         map daSampleTime (pfDatabaseActivity p)),
       (''ensure partitions'', databaseStatusTable tb, map dsCollectedAt (opDatabaseStatus o')),
       (''ensure partitions'', instanceTable tb, map isCollectedAt (opInstances o')),
       (''ensure partitions'', resourceLimitTable tb, map rlCollectedAt (opResourceLimits o')),
       (''ensure partitions'', tablespaceTable tb, map tsCollectedAt (opTablespaces o')),
       (''ensure partitions'', asmDiskgroupTable tb, map asmCollectedAt (opASMDiskgroups o')),
       (''ensure partitions'', systemCounterTable tb, map scCollectedAt (opSystemCounters o')),
       (''ensure partitions'', waitClassTable tb, map wcCollectedAt (opWaitClasses o')),
       (''ensure partitions'', systemMetricTable tb, map smCollectedAt (opSystemMetrics o')),
       (''ensure partitions'', dataGuardDestinationTable tb, map dgdCollectedAt (opDataGuardDestinations o')),
       (''ensure partitions'', dataGuardLagTable tb, map dglCollectedAt (opDataGuardLag o')),
       (''ensure partitions'', dataGuardProcessTable tb, map dgpCollectedAt (opDataGuardProcesses o')),
       (''ensure partitions'', scrapeStatusTable tb, map stCollectedAt (sbScrapeStatuses b)),
       (''ensure runtime sample partitions'', runtimeSamplesTable tb, map rtObservedAt runtime)])"

definition ensureWritePartitions ::
    "Server \<Rightarrow> SinkTables \<Rightarrow> SampleBatch \<Rightarrow> RuntimeSample list \<Rightarrow> Repository \<Rightarrow> Repository result" where
  "ensureWritePartitions sv tb b runtime =
     run_stages (map (\<lambda>(what, target). ensure_partitions sv what target) (write_partitions tb b runtime))"

section \<open>Stages\<close>

text \<open>A stage on one of the upserted tables.\<close>

definition on_table ::
    "(Repository \<Rightarrow> 't) \<Rightarrow> ('t \<Rightarrow> Repository \<Rightarrow> Repository) \<Rightarrow> ('t \<Rightarrow> 't result) \<Rightarrow> Repository \<Rightarrow> Repository result" where
  "on_table get_t set_t stage r = (case stage (get_t r) of Inl e \<Rightarrow> Inl e | Inr t \<Rightarrow> Inr (set_t t r))"

definition write_texts_stage :: "Server \<Rightarrow> PerformanceSamples \<Rightarrow> Repository \<Rightarrow> Repository result" where
  "write_texts_stage sv p =
     on_table rpTexts (\<lambda>t r. r\<lparr>rpTexts := t\<rparr>)
       (writeSQLTexts (svBatch sv ''SQL full text'') (svExec sv ''SQL text references'')
          (svTextOrder sv (fst (collectSQLTextUpdates p))) p)"

definition write_cursors_stage :: "Server \<Rightarrow> SQLSample list \<Rightarrow> Repository \<Rightarrow> Repository result" where
  "write_cursors_stage sv samples =
     on_table rpCursors (\<lambda>t r. r\<lparr>rpCursors := t\<rparr>)
       (writeSQLCursorMetadata (svBatch sv ''SQL cursor metadata'')
          (svCursorOrder sv (collectSQLCursorMetadata samples)) samples)"

definition write_plans_stage :: "Server \<Rightarrow> PerformanceSamples \<Rightarrow> Repository \<Rightarrow> Repository result" where
  "write_plans_stage sv p =
     on_table rpPlans (\<lambda>t r. r\<lparr>rpPlans := t\<rparr>)
       (writeSQLPlans (svBatch sv ''SQL plan'') (svExec sv ''SQL plan references'') p)"

definition writeSQLSamples :: "Server \<Rightarrow> SinkTables \<Rightarrow> SQLSample list \<Rightarrow> Repository \<Rightarrow> Repository result" where
  "writeSQLSamples sv tb samples =
     copyRows sv (sqlSamplesTable tb) sqlSamplesDDL sqlSamplesColumns (map sqlSamplesRow samples) ''sql samples''"

definition writeSessionSamples :: "Server \<Rightarrow> SinkTables \<Rightarrow> SessionSample list \<Rightarrow> Repository \<Rightarrow> Repository result" where
  "writeSessionSamples sv tb samples =
     copyRows sv (sessionSamplesTable tb) sessionSamplesDDL sessionSamplesColumns
       (map sessionSamplesRow samples) ''session samples''"

definition writeBlockingSessionSamples ::
    "Server \<Rightarrow> SinkTables \<Rightarrow> BlockingSessionSample list \<Rightarrow> Repository \<Rightarrow> Repository result" where
  "writeBlockingSessionSamples sv tb samples =
     copyRows sv (blockingSessionsTable tb) blockingSessionsDDL blockingSessionsColumns
       (map blockingSessionsRow samples) ''blocking session samples''"

text \<open>The activity samples go by single inserts; closing the results is deferred and its error unused.\<close>

definition activity_accepted :: "Repository \<Rightarrow> pg_identifier \<Rightarrow> DatabaseActivitySample \<Rightarrow> bool" where
  "activity_accepted r table s \<longleftrightarrow>
     conforms databaseActivityDDL databaseActivityColumns (databaseActivityRow s) \<and>
     list_all encodable (databaseActivityRow s) \<and> routed (rpCatalogue r) table (daSampleTime s)"

definition writeDatabaseActivitySamples ::
    "Server \<Rightarrow> SinkTables \<Rightarrow> DatabaseActivitySample list \<Rightarrow> Repository \<Rightarrow> Repository result" where
  "writeDatabaseActivitySamples sv tb samples r =
     (if samples = [] then Inr r
      else if list_all (activity_accepted r (databaseActivityTable tb)) samples
      then on_table rpActivity (\<lambda>t r. r\<lparr>rpActivity := t\<rparr>)
             (exec_batch ''insert database activity samples'' (fst (svBatch sv ''database activity'')) 0
                (map insert_activity samples)) r
      else Inl (ErrWrap ''insert database activity samples'' (ErrText ''row not accepted'')))"

definition writeOperationalSamples :: "Server \<Rightarrow> SinkTables \<Rightarrow> OperationalSamples \<Rightarrow> Repository \<Rightarrow> Repository result" where
  "writeOperationalSamples sv tb s =
     run_stages
      [copyRows sv (databaseStatusTable tb) databaseStatusDDL databaseStatusColumns
         (map databaseStatusRow (opDatabaseStatus s)) ''database status samples'',
       copyRows sv (instanceTable tb) instanceDDL instanceColumns
         (map instanceRow (opInstances s)) ''instance samples'',
       copyRows sv (resourceLimitTable tb) resourceLimitDDL resourceLimitColumns
         (map resourceLimitRow (opResourceLimits s)) ''resource limit samples'',
       copyRows sv (tablespaceTable tb) tablespaceDDL tablespaceColumns
         (map tablespaceRow (opTablespaces s)) ''tablespace samples'',
       copyRows sv (asmDiskgroupTable tb) asmDiskgroupDDL asmDiskgroupColumns
         (map asmDiskgroupRow (opASMDiskgroups s)) ''ASM diskgroup samples'',
       copyRows sv (systemCounterTable tb) systemCounterDDL systemCounterColumns
         (map systemCounterRow (opSystemCounters s)) ''system counter samples'',
       copyRows sv (waitClassTable tb) waitClassDDL waitClassColumns
         (map waitClassRow (opWaitClasses s)) ''wait class samples'',
       copyRows sv (systemMetricTable tb) systemMetricDDL systemMetricColumns
         (map systemMetricRow (opSystemMetrics s)) ''system metric samples'',
       copyRows sv (dataGuardDestinationTable tb) dataGuardDestinationDDL dataGuardDestinationColumns
         (map dataGuardDestinationRow (opDataGuardDestinations s)) ''Data Guard destination samples'',
       copyRows sv (dataGuardLagTable tb) dataGuardLagDDL dataGuardLagColumns
         (map dataGuardLagRow (opDataGuardLag s)) ''Data Guard lag samples'',
       copyRows sv (dataGuardProcessTable tb) dataGuardProcessDDL dataGuardProcessColumns
         (map dataGuardProcessRow (opDataGuardProcesses s)) ''Data Guard process samples'']"

definition writeScrapeStatuses :: "Server \<Rightarrow> SinkTables \<Rightarrow> ScrapeStatusSample list \<Rightarrow> Repository \<Rightarrow> Repository result" where
  "writeScrapeStatuses sv tb statuses =
     run_stages
      [copyRows sv (scrapeStatusTable tb) scrapeStatusDDL scrapeStatusColumns
         (map scrapeStatusRow statuses) ''scrape status samples'',
       \<lambda>r. if statuses = [] then Inr r
           else on_table rpLatestStatus (\<lambda>t r. r\<lparr>rpLatestStatus := t\<rparr>)
                  (send_batch ''upsert latest scrape status'' ''close latest scrape status batch''
                     (svBatch sv ''latest scrape status'') (map upsert_status statuses)) r]"

definition write_connections_stage ::
    "Server \<Rightarrow> DatabaseConnectionStateSample list \<Rightarrow> bool \<Rightarrow> Repository \<Rightarrow> Repository result" where
  "write_connections_stage sv samples full =
     on_table rpConnections (\<lambda>t r. r\<lparr>rpConnections := t\<rparr>)
       (writeConnectionStates (svBatch sv ''connection state'') (svExec sv ''remove connection state'') samples full)"

definition writeRuntimeSamples :: "Server \<Rightarrow> SinkTables \<Rightarrow> RuntimeSample list \<Rightarrow> Repository \<Rightarrow> Repository result" where
  "writeRuntimeSamples sv tb samples =
     (if samples = [] then Inr
      else run_stages
        [copyRows sv (runtimeSamplesTable tb) runtimeSamplesDDL runtimeSamplesColumns
           (map runtimeSamplesRow samples) ''runtime samples'',
         on_table rpLatestRuntime (\<lambda>t r. r\<lparr>rpLatestRuntime := t\<rparr>)
           (upsert_latest_runtime (svBatch sv ''latest runtime status'')
              (svRuntimeOrder sv (latest_indexes samples)) samples)])"

end
