(* ===== verification/IngestAccounts.thy ===== *)
theory IngestAccounts
  imports Ingest
begin

text \<open>
  What the accounting of \<open>Ingest\<close> promises: adding counts is a commutative monoid, \<open>collectRepositoryIngest\<close>
  counts every row once, the upsert adds a row as the buffer does, and over any interleaving of batches
  and flushes nothing is counted twice or forgotten.
\<close>

section \<open>Counts add up\<close>

definition counts_ok :: "repositoryIngestCounts \<Rightarrow> bool" where
  "counts_ok c \<longleftrightarrow> 0 \<le> lastSampleAt c \<and> 0 \<le> lastSQLSampleAt c \<and> 0 \<le> lastSessionSampleAt c \<and>
     0 \<le> lastDatabaseActivitySampleAt c"

lemma zero_counts_ok [simp]: "counts_ok zero_counts"
  by (simp add: counts_ok_def zero_counts_def)

lemma entry_ok: "(\<And>c. m key = Some c \<Longrightarrow> counts_ok c) \<Longrightarrow> counts_ok (entry m key)"
  by (cases "m key") (simp_all add: entry_def)

lemma add_counts_last [simp]:
  "lastSampleAt (add_counts c d) = max (lastSampleAt c) (lastSampleAt d)"
  "lastSQLSampleAt (add_counts c d) = max (lastSQLSampleAt c) (lastSQLSampleAt d)"
  "lastSessionSampleAt (add_counts c d) = max (lastSessionSampleAt c) (lastSessionSampleAt d)"
  "lastDatabaseActivitySampleAt (add_counts c d) = max (lastDatabaseActivitySampleAt c) (lastDatabaseActivitySampleAt d)"
  by (simp_all add: add_counts_def time_after_def max_def)

lemma add_counts_first:
  "firstSampleAt (add_counts c d) =
     (if firstSampleAt c = 0 then firstSampleAt d
      else if firstSampleAt d = 0 then firstSampleAt c else min (firstSampleAt c) (firstSampleAt d))"
  by (simp add: add_counts_def is_zero_time_def time_before_def min_def)

lemma add_counts_rows [simp]:
  "additionalMetricRows (add_counts c d) = additionalMetricRows c + additionalMetricRows d"
  "sqlSampleRows (add_counts c d) = sqlSampleRows c + sqlSampleRows d"
  "sqlTextWrites (add_counts c d) = sqlTextWrites c + sqlTextWrites d"
  "sqlCursorMetadataWrites (add_counts c d) = sqlCursorMetadataWrites c + sqlCursorMetadataWrites d"
  "sqlPlanOperationWrites (add_counts c d) = sqlPlanOperationWrites c + sqlPlanOperationWrites d"
  "sessionSampleRows (add_counts c d) = sessionSampleRows c + sessionSampleRows d"
  "blockingSessionSampleRows (add_counts c d) = blockingSessionSampleRows c + blockingSessionSampleRows d"
  "databaseActivitySampleRows (add_counts c d) = databaseActivitySampleRows c + databaseActivitySampleRows d"
  "databaseStatusSampleRows (add_counts c d) = databaseStatusSampleRows c + databaseStatusSampleRows d"
  "instanceSampleRows (add_counts c d) = instanceSampleRows c + instanceSampleRows d"
  "resourceLimitSampleRows (add_counts c d) = resourceLimitSampleRows c + resourceLimitSampleRows d"
  "tablespaceSampleRows (add_counts c d) = tablespaceSampleRows c + tablespaceSampleRows d"
  "asmDiskgroupSampleRows (add_counts c d) = asmDiskgroupSampleRows c + asmDiskgroupSampleRows d"
  "systemCounterSampleRows (add_counts c d) = systemCounterSampleRows c + systemCounterSampleRows d"
  "waitClassSampleRows (add_counts c d) = waitClassSampleRows c + waitClassSampleRows d"
  "systemMetricSampleRows (add_counts c d) = systemMetricSampleRows c + systemMetricSampleRows d"
  "dataGuardDestinationRows (add_counts c d) = dataGuardDestinationRows c + dataGuardDestinationRows d"
  "dataGuardLagRows (add_counts c d) = dataGuardLagRows c + dataGuardLagRows d"
  "dataGuardProcessRows (add_counts c d) = dataGuardProcessRows c + dataGuardProcessRows d"
  "scrapeStatusRows (add_counts c d) = scrapeStatusRows c + scrapeStatusRows d"
  by (simp_all add: add_counts_def)

lemma counts_eqI:
  assumes "counters c = counters d" and "firstSampleAt c = firstSampleAt d" and "lastSampleAt c = lastSampleAt d"
    and "lastSQLSampleAt c = lastSQLSampleAt d" and "lastSessionSampleAt c = lastSessionSampleAt d"
    and "lastDatabaseActivitySampleAt c = lastDatabaseActivitySampleAt d"
  shows "c = d"
  using assms by (intro repositoryIngestCounts.equality) (simp_all add: counters_def)

lemma counters_add: "counters (add_counts c d) = map2 (+) (counters c) (counters d)"
  by (simp add: counters_def)

lemma add_counts_ok [simp]: "counts_ok c \<Longrightarrow> counts_ok (add_counts c d)"
  by (simp add: counts_ok_def le_max_iff_disj)

lemma add_counts_commute: "add_counts c d = add_counts d c"
  by (rule counts_eqI) (simp_all add: counters_def add_counts_first max.commute min.commute)

lemma add_counts_assoc: "add_counts (add_counts a b) c = add_counts a (add_counts b c)"
  by (rule counts_eqI) (simp_all add: counters_def ac_simps, simp add: add_counts_first min_def)

lemma add_counts_left_commute: "add_counts a (add_counts b c) = add_counts b (add_counts a c)"
  by (metis add_counts_assoc add_counts_commute)

lemmas add_counts_ac = add_counts_assoc add_counts_commute add_counts_left_commute

lemma add_counts_zero [simp]: "counts_ok c \<Longrightarrow> add_counts c zero_counts = c" "counts_ok c \<Longrightarrow> add_counts zero_counts c = c"
proof -
  show "counts_ok c \<Longrightarrow> add_counts c zero_counts = c"
    by (rule counts_eqI) (simp_all add: counters_def add_counts_first zero_counts_def counts_ok_def max_def)
  then show "counts_ok c \<Longrightarrow> add_counts zero_counts c = c" by (simp add: add_counts_commute)
qed

text \<open>The upsert of the table adds as the buffer does.\<close>

lemma nullable_max: "0 \<le> a \<Longrightarrow> 0 \<le> b \<Longrightarrow> pg_greatest (nullableTime a) (nullableTime b) = nullableTime (max a b)"
  by (auto simp: nullableTime_def is_zero_time_def max_def)

lemma ingest_conflict_adds:
  "counts_ok c \<Longrightarrow> counts_ok d \<Longrightarrow>
   ingest_conflict (ingest_row_of f c) (ingest_row_of g d) = ingest_row_of (max f g) (add_counts c d)"
  by (simp add: ingest_conflict_def ingest_row_of_def counters_add nullable_max counts_ok_def)
    (auto simp: add_counts_first nullableTime_def is_zero_time_def)

section \<open>Every row is counted once\<close>

text \<open>The values of a list that belong to a day and database.\<close>

definition values_of :: "('a \<Rightarrow> time \<times> string) \<Rightarrow> 'a list \<Rightarrow> repositoryIngestKey \<Rightarrow> 'a list" where
  "values_of identity values key =
     filter (\<lambda>v. fst (identity v) \<noteq> 0 \<and> snd (identity v) \<noteq> [] \<and>
                 (dayStartUTC (fst (identity v)), snd (identity v)) = key) values"

lemma entry_upd [simp]: "entry (m(k \<mapsto> c)) key = (if key = k then c else entry m key)"
  by (simp add: entry_def)

lemma addRepositoryIngestValues_entry:
  "entry (addRepositoryIngestValues identity increment values m) key =
   fold (\<lambda>v. increment (fst (identity v)) \<circ> observe (fst (identity v))) (values_of identity values key) (entry m key)"
  unfolding addRepositoryIngestValues_def
proof (induction "values" arbitrary: m)
  case (Cons v vs)
  then show ?case
    by (cases "identity v") (auto simp: values_of_def is_zero_time_def Let_def)
qed (simp add: values_of_def)

lemma observe_kept:
  "additionalMetricRows (observe t c) = additionalMetricRows c"
  "sqlSampleRows (observe t c) = sqlSampleRows c"
  "sqlTextWrites (observe t c) = sqlTextWrites c"
  "sqlCursorMetadataWrites (observe t c) = sqlCursorMetadataWrites c"
  "sqlPlanOperationWrites (observe t c) = sqlPlanOperationWrites c"
  "sessionSampleRows (observe t c) = sessionSampleRows c"
  "blockingSessionSampleRows (observe t c) = blockingSessionSampleRows c"
  "databaseActivitySampleRows (observe t c) = databaseActivitySampleRows c"
  "databaseStatusSampleRows (observe t c) = databaseStatusSampleRows c"
  "instanceSampleRows (observe t c) = instanceSampleRows c"
  "resourceLimitSampleRows (observe t c) = resourceLimitSampleRows c"
  "tablespaceSampleRows (observe t c) = tablespaceSampleRows c"
  "asmDiskgroupSampleRows (observe t c) = asmDiskgroupSampleRows c"
  "systemCounterSampleRows (observe t c) = systemCounterSampleRows c"
  "waitClassSampleRows (observe t c) = waitClassSampleRows c"
  "systemMetricSampleRows (observe t c) = systemMetricSampleRows c"
  "dataGuardDestinationRows (observe t c) = dataGuardDestinationRows c"
  "dataGuardLagRows (observe t c) = dataGuardLagRows c"
  "dataGuardProcessRows (observe t c) = dataGuardProcessRows c"
  "scrapeStatusRows (observe t c) = scrapeStatusRows c"
  "lastSQLSampleAt (observe t c) = lastSQLSampleAt c"
  "lastSessionSampleAt (observe t c) = lastSessionSampleAt c"
  "lastDatabaseActivitySampleAt (observe t c) = lastDatabaseActivitySampleAt c"
  by (simp_all add: observe_def Let_def)

lemma values_kept:
  assumes "\<And>t c. sel (increment t c) = sel c" and "\<And>t c. sel (observe t c) = sel c"
  shows "sel (entry (addRepositoryIngestValues identity increment values m) key) = sel (entry m key)"
proof -
  have "sel (fold (\<lambda>v. increment (fst (identity v)) \<circ> observe (fst (identity v))) vs c) = sel c" for vs c
    by (induction vs arbitrary: c) (simp_all add: assms)
  then show ?thesis by (simp add: addRepositoryIngestValues_entry)
qed

lemma values_counted:
  assumes "\<And>t c. sel (increment t c) = sel c + (1 :: int64)" and "\<And>t c. sel (observe t c) = sel c"
  shows "sel (entry (addRepositoryIngestValues identity increment values m) key) =
    sel (entry m key) + of_nat (length (values_of identity values key))"
proof -
  have "sel (fold (\<lambda>v. increment (fst (identity v)) \<circ> observe (fst (identity v))) vs c) =
      sel c + of_nat (length vs)" for vs c
    by (induction vs arbitrary: c) (simp_all add: assms)
  then show ?thesis by (simp add: addRepositoryIngestValues_entry)
qed

lemmas counters_kept =
  values_kept [where sel = additionalMetricRows]
  values_kept [where sel = sqlSampleRows]
  values_kept [where sel = sqlTextWrites]
  values_kept [where sel = sqlCursorMetadataWrites]
  values_kept [where sel = sqlPlanOperationWrites]
  values_kept [where sel = sessionSampleRows]
  values_kept [where sel = blockingSessionSampleRows]
  values_kept [where sel = databaseActivitySampleRows]
  values_kept [where sel = databaseStatusSampleRows]
  values_kept [where sel = instanceSampleRows]
  values_kept [where sel = resourceLimitSampleRows]
  values_kept [where sel = tablespaceSampleRows]
  values_kept [where sel = asmDiskgroupSampleRows]
  values_kept [where sel = systemCounterSampleRows]
  values_kept [where sel = waitClassSampleRows]
  values_kept [where sel = systemMetricSampleRows]
  values_kept [where sel = dataGuardDestinationRows]
  values_kept [where sel = dataGuardLagRows]
  values_kept [where sel = dataGuardProcessRows]
  values_kept [where sel = scrapeStatusRows]

lemmas counters_counted =
  values_counted [where sel = additionalMetricRows]
  values_counted [where sel = sqlSampleRows]
  values_counted [where sel = sqlTextWrites]
  values_counted [where sel = sqlCursorMetadataWrites]
  values_counted [where sel = sqlPlanOperationWrites]
  values_counted [where sel = sessionSampleRows]
  values_counted [where sel = blockingSessionSampleRows]
  values_counted [where sel = databaseActivitySampleRows]
  values_counted [where sel = databaseStatusSampleRows]
  values_counted [where sel = instanceSampleRows]
  values_counted [where sel = resourceLimitSampleRows]
  values_counted [where sel = tablespaceSampleRows]
  values_counted [where sel = asmDiskgroupSampleRows]
  values_counted [where sel = systemCounterSampleRows]
  values_counted [where sel = waitClassSampleRows]
  values_counted [where sel = systemMetricSampleRows]
  values_counted [where sel = dataGuardDestinationRows]
  values_counted [where sel = dataGuardLagRows]
  values_counted [where sel = dataGuardProcessRows]
  values_counted [where sel = scrapeStatusRows]

lemma observe_ok [simp]: "counts_ok c \<Longrightarrow> 0 \<le> t \<Longrightarrow> counts_ok (observe t c)"
  by (auto simp: observe_def Let_def counts_ok_def time_after_def is_zero_time_def)

text \<open>The times counted for a day of the calendar are not before it.\<close>

lemma values_of_time: "v \<in> set (values_of identity values key) \<Longrightarrow> 0 \<le> fst key \<Longrightarrow> 0 \<le> fst (identity v)"
  using dayStartUTC_bounds(1) [of "fst (identity v)"] by (auto simp: values_of_def)

lemma values_ok:
  assumes "\<And>t c. counts_ok c \<Longrightarrow> counts_ok (increment t c)" and "0 \<le> fst key" and "counts_ok (entry m key)"
  shows "counts_ok (entry (addRepositoryIngestValues identity increment values m) key)"
proof -
  have "counts_ok (fold (\<lambda>v. increment (fst (identity v)) \<circ> observe (fst (identity v))) vs c)"
    if "counts_ok c" "\<forall>v \<in> set vs. 0 \<le> fst (identity v)" for vs c
    using that by (induction vs arbitrary: c) (simp_all add: assms(1))
  then show ?thesis
    using assms(2,3) values_of_time [of _ identity "values" key] by (simp add: addRepositoryIngestValues_entry)
qed

lemma entry_empty [simp]: "entry Map.empty key = zero_counts"
  by (simp add: entry_def)

lemma collectRepositoryIngest_ok: "0 \<le> fst key \<Longrightarrow> counts_ok (entry (collectRepositoryIngest b) key)"
  unfolding collectRepositoryIngest_def fold_simps comp_def id_def
  by (rule values_ok; (simp add: counts_ok_def time_after_def; fail)?)+ (simp add: entry_empty)

text \<open>
  Every row of a batch is counted once, under its own kind, day and database. For each of the twenty
  kinds of row, the count of a day and a database is the number of the batch's values of that kind whose
  time lies in that day and whose database it is; rows without a time or a database are not counted.
\<close>
theorem ingest_counts_every_row:
  "let c = entry (collectRepositoryIngest b) key in
   additionalMetricRows c = of_nat (length (values_of (\<lambda>v. (msCollectedAt v, msDatabase v)) (sbAdditionalMetrics b) key)) \<and>
   sqlSampleRows c = of_nat (length (values_of (\<lambda>v. (sqCollectedAt v, sqDatabase v)) (pfSQL (sbPerformance b)) key)) \<and>
   sqlTextWrites c = of_nat (length (values_of (\<lambda>v. (sxCollectedAt v, sxDatabase v)) (pfSQLTexts (sbPerformance b)) key)) \<and>
   sqlCursorMetadataWrites c = of_nat (length (values_of (\<lambda>v. (sqCollectedAt v, sqDatabase v)) (pfSQLDetails (sbPerformance b)) key)) \<and>
   sqlPlanOperationWrites c = of_nat (length (values_of (\<lambda>v. (plCollectedAt v, plDatabase v)) (pfSQLPlans (sbPerformance b)) key)) \<and>
   sessionSampleRows c = of_nat (length (values_of (\<lambda>v. (seCollectedAt v, seDatabase v)) (pfSessions (sbPerformance b)) key)) \<and>
   blockingSessionSampleRows c = of_nat (length (values_of (\<lambda>v. (bsCollectedAt v, bsDatabase v)) (pfBlockingSessions (sbPerformance b)) key)) \<and>
   databaseActivitySampleRows c = of_nat (length (values_of (\<lambda>v. (daSampleTime v, daDatabase v)) (pfDatabaseActivity (sbPerformance b)) key)) \<and>
   databaseStatusSampleRows c = of_nat (length (values_of (\<lambda>v. (dsCollectedAt v, dsDatabase v)) (opDatabaseStatus (sbOperational b)) key)) \<and>
   instanceSampleRows c = of_nat (length (values_of (\<lambda>v. (isCollectedAt v, isDatabase v)) (opInstances (sbOperational b)) key)) \<and>
   resourceLimitSampleRows c = of_nat (length (values_of (\<lambda>v. (rlCollectedAt v, rlDatabase v)) (opResourceLimits (sbOperational b)) key)) \<and>
   tablespaceSampleRows c = of_nat (length (values_of (\<lambda>v. (tsCollectedAt v, tsDatabase v)) (opTablespaces (sbOperational b)) key)) \<and>
   asmDiskgroupSampleRows c = of_nat (length (values_of (\<lambda>v. (asmCollectedAt v, asmDatabase v)) (opASMDiskgroups (sbOperational b)) key)) \<and>
   systemCounterSampleRows c = of_nat (length (values_of (\<lambda>v. (scCollectedAt v, scDatabase v)) (opSystemCounters (sbOperational b)) key)) \<and>
   waitClassSampleRows c = of_nat (length (values_of (\<lambda>v. (wcCollectedAt v, wcDatabase v)) (opWaitClasses (sbOperational b)) key)) \<and>
   systemMetricSampleRows c = of_nat (length (values_of (\<lambda>v. (smCollectedAt v, smDatabase v)) (opSystemMetrics (sbOperational b)) key)) \<and>
   dataGuardDestinationRows c = of_nat (length (values_of (\<lambda>v. (dgdCollectedAt v, dgdDatabase v)) (opDataGuardDestinations (sbOperational b)) key)) \<and>
   dataGuardLagRows c = of_nat (length (values_of (\<lambda>v. (dglCollectedAt v, dglDatabase v)) (opDataGuardLag (sbOperational b)) key)) \<and>
   dataGuardProcessRows c = of_nat (length (values_of (\<lambda>v. (dgpCollectedAt v, dgpDatabase v)) (opDataGuardProcesses (sbOperational b)) key)) \<and>
   scrapeStatusRows c = of_nat (length (values_of (\<lambda>v. (stCollectedAt v, stDatabase v)) (sbScrapeStatuses b) key))"
  unfolding collectRepositoryIngest_def Let_def
  by (intro conjI) (simp_all add: counters_kept counters_counted observe_kept zero_counts_def)

section \<open>Batches and flushes in any order\<close>

text \<open>
  The writers record batches at any time; one flush at a time (\<open>ingestFlushMu\<close>) takes the buffer, writes it
  and, when that fails, puts it back. \<open>acFlight\<close> is what the flush under way has taken.
\<close>

record Accounting =
  acBuffer :: IngestBuffer
  acFlight :: ingest
  acTable :: ingest_table
  acRecorded :: "SampleBatch list"

inductive accounting_step :: "Accounting \<Rightarrow> Accounting \<Rightarrow> bool" where
  record_batch: "accounting_step s (s\<lparr>acBuffer := recordRepositoryIngest b (acBuffer s),
     acRecorded := b # acRecorded s\<rparr>)"
| take_counts: "accounting_step s (s\<lparr>acBuffer := buffer, acFlight := counts\<rparr>)"
    if "acFlight s = Map.empty" and "take_ingest force now (acBuffer s) = Some (counts, buffer)"
| counts_written: "accounting_step s (s\<lparr>acFlight := Map.empty, acTable := table\<rparr>)"
    if "distinct keys" and "set keys = dom (acFlight s)"
      and "writeRepositoryIngest begun partitions answers outcome keys (acFlight s) now (c, acTable s) =
             (None, c', table)"
| counts_put_back: "accounting_step s (s\<lparr>acFlight := Map.empty, acTable := table,
     acBuffer := put_back_ingest (acFlight s) (acBuffer s)\<rparr>)"
    if "writeRepositoryIngest begun partitions answers outcome keys (acFlight s) now (c, acTable s) =
             (Some e, c', table)" and "\<not> lost_commit outcome"

inductive_cases accounting_stepE: "accounting_step s s'"

definition total_ingest :: "SampleBatch list \<Rightarrow> repositoryIngestKey \<Rightarrow> repositoryIngestCounts" where
  "total_ingest bs key = foldr (\<lambda>b. add_counts (entry (collectRepositoryIngest b) key)) bs zero_counts"

definition holds :: "ingest_table \<Rightarrow> repositoryIngestKey \<Rightarrow> repositoryIngestCounts \<Rightarrow> bool" where
  "holds table key w \<longleftrightarrow> counts_ok w \<and>
     (case table key of None \<Rightarrow> w = zero_counts | Some row \<Rightarrow> \<exists>f. row = ingest_row_of f w)"

definition accounting_initial :: "Accounting \<Rightarrow> bool" where
  "accounting_initial s \<longleftrightarrow> pendingIngest (acBuffer s) = Map.empty \<and> acFlight s = Map.empty \<and>
     acTable s = Map.empty \<and> acRecorded s = []"

text \<open>What a key's counts must satisfy; \<open>w\<close> is what the table holds for it.\<close>

definition accounted ::
    "ingest \<Rightarrow> ingest \<Rightarrow> ingest_table \<Rightarrow> SampleBatch list \<Rightarrow> repositoryIngestKey \<Rightarrow> bool" where
  "accounted pending flight table recorded key \<longleftrightarrow>
     counts_ok (entry pending key) \<and> counts_ok (entry flight key) \<and>
     (\<exists>w. holds table key w \<and>
        total_ingest recorded key = add_counts (add_counts (entry pending key) (entry flight key)) w)"

definition accounting_ok :: "Accounting \<Rightarrow> bool" where
  "accounting_ok s \<longleftrightarrow>
     (\<forall>key. 0 \<le> fst key \<longrightarrow>
        accounted (pendingIngest (acBuffer s)) (acFlight s) (acTable s) (acRecorded s) key)"

lemma entry_merge:
  "counts_ok (entry pending key) \<Longrightarrow>
   entry (merge_ingest counts pending) key = add_counts (entry pending key) (entry counts key)"
  by (cases "counts key") (simp_all add: merge_ingest_def entry_def)

lemma pending_recorded:
  "pendingIngest (recordRepositoryIngest b buffer) = merge_ingest (collectRepositoryIngest b) (pendingIngest buffer)"
  by (auto simp: recordRepositoryIngest_def Let_def merge_ingest_def)

lemma set_insert_by: "set (insert_by cmp x ys) = insert x (set ys) \<and> (distinct (insert_by cmp x ys) \<longleftrightarrow> x \<notin> set ys \<and> distinct ys)"
  by (induction ys) auto

lemma sort_func_set: "set (sort_func cmp xs) = set xs \<and> (distinct (sort_func cmp xs) \<longleftrightarrow> distinct xs)"
proof (induction xs)
  case (Cons x xs)
  then show ?case using set_insert_by [of cmp x "sort_func cmp xs"] by (simp add: sort_func_def)
qed (simp add: sort_func_def)

lemma fold_upsert_other: "key \<notin> set keys \<Longrightarrow> fold (ingest_upsert f counts) keys table key = table key"
  by (induction keys arbitrary: table) (simp_all add: ingest_upsert_def Let_def)

lemma fold_upsert_holds:
  assumes "distinct keys" and "holds table key w" and "counts_ok (entry counts key)" and "set keys = dom counts"
  shows "holds (fold (ingest_upsert f counts) keys table) key (add_counts w (entry counts key))"
proof (cases "key \<in> set keys")
  case False
  then have "entry counts key = zero_counts" using assms(4) by (simp add: entry_def domIff)
  then show ?thesis using assms(2) fold_upsert_other [OF False, of f counts table] by (simp add: holds_def)
next
  case True
  then obtain before after where keys: "keys = before @ key # after" by (auto simp: in_set_conv_decomp)
  then have out: "key \<notin> set before" "key \<notin> set after" using assms(1) by auto
  let ?t = "fold (ingest_upsert f counts) before table"
  have "fold (ingest_upsert f counts) keys table key = ingest_upsert f counts key ?t key"
    using fold_upsert_other [OF out(2)] by (simp add: keys)
  moreover have "?t key = table key" by (rule fold_upsert_other [OF out(1)])
  ultimately show ?thesis
    using assms(2,3)
    by (auto simp: holds_def ingest_upsert_def Let_def ingest_conflict_adds split: option.splits) 
qed

lemma writeRepositoryIngest_success:
  assumes "writeRepositoryIngest begun partitions answers outcome keys counts now (c, table) = (None, c', table')"
  shows "table' = fold (ingest_upsert now counts) (sort_func ingest_key_compare keys) table"
  using assms
  by (auto simp: writeRepositoryIngest_def transaction_success fold_map_statements
      split: sum.splits dest!: send_batch_ok)

lemma writeRepositoryIngest_failure:
  "writeRepositoryIngest begun partitions answers outcome keys counts now (c, table) = (Some e, c', table') \<Longrightarrow>
   \<not> lost_commit outcome \<Longrightarrow> table' = table"
  unfolding writeRepositoryIngest_def by (drule (1) transaction_failure) simp

lemma accounted_record:
  assumes "accounted pending flight table recorded key" and "0 \<le> fst key"
  shows "accounted (merge_ingest (collectRepositoryIngest b) pending) flight table (b # recorded) key"
  using assms collectRepositoryIngest_ok [OF assms(2), of b]
  by (auto simp: accounted_def entry_merge total_ingest_def) (auto simp: add_counts_ac)

lemma accounted_take:
  "accounted pending Map.empty table recorded key \<Longrightarrow> accounted Map.empty pending table recorded key"
  by (auto simp: accounted_def add_counts_commute)

lemma accounted_written:
  assumes "accounted pending flight table recorded key" and "distinct keys" and "set keys = dom flight"
  shows "accounted pending Map.empty (fold (ingest_upsert f flight) keys table) recorded key"
proof -
  obtain w where w: "holds table key w" "counts_ok (entry flight key)" "counts_ok (entry pending key)"
    "total_ingest recorded key = add_counts (add_counts (entry pending key) (entry flight key)) w"
    using assms(1) by (auto simp: accounted_def)
  show ?thesis unfolding accounted_def
    using w fold_upsert_holds [OF assms(2) w(1,2) assms(3), of f] by (auto simp: add_counts_ac)
qed

lemma accounted_put_back:
  "accounted pending flight table recorded key \<Longrightarrow>
   accounted (merge_ingest flight pending) Map.empty table recorded key"
  by (auto simp: accounted_def entry_merge)

lemma accounting_step_ok: "accounting_step s s' \<Longrightarrow> accounting_ok s \<Longrightarrow> accounting_ok s'"
proof (induction rule: accounting_step.induct)
  case (record_batch s b)
  then show ?case by (simp add: accounting_ok_def pending_recorded accounted_record)
next
  case (take_counts s force now counts buffer)
  then show ?case
    by (auto simp: accounting_ok_def take_ingest_def Let_def accounted_take split: if_splits)
next
  case (counts_written keys s begun partitions answers outcome now c c' table)
  then show ?case
    using writeRepositoryIngest_success [OF counts_written(3)]
    by (simp add: accounting_ok_def accounted_written sort_func_set)
next
  case (counts_put_back begun partitions answers outcome keys s now c e c' table)
  then show ?case
    using writeRepositoryIngest_failure [OF counts_put_back(1,2)]
    by (simp add: accounting_ok_def put_back_ingest_def accounted_put_back)
qed

text \<open>A flush that nobody interrupts is such steps: \<open>flushRepositoryIngest\<close> behaves as the relation says.\<close>

lemma flush_is_steps:
  assumes flush: "flushRepositoryIngest
      (\<lambda>counts now. writeRepositoryIngest begun partitions answers outcome keys counts now) force now (acBuffer s) (c, acTable s) =
        (err, buffer, (c', table))"
    and idle: "acFlight s = Map.empty" and kept: "\<not> lost_commit outcome"
    and keys: "distinct keys" "set keys = dom (pendingIngest (acBuffer s))"
  shows "accounting_step\<^sup>*\<^sup>* s (s\<lparr>acBuffer := buffer, acTable := table\<rparr>)"
proof (cases "take_ingest force now (acBuffer s)")
  case None
  then have "s\<lparr>acBuffer := buffer, acTable := table\<rparr> = s"
    using flush by (simp add: flushRepositoryIngest_def)
  then show ?thesis by simp
next
  case (Some taken)
  obtain counts rest where t: "take_ingest force now (acBuffer s) = Some (counts, rest)" using Some by (cases taken) simp
  let ?s = "s\<lparr>acBuffer := rest, acFlight := counts\<rparr>"
  have taken: "accounting_step s ?s" by (rule take_counts [OF idle t])
  have counts: "counts = pendingIngest (acBuffer s)"
    using t by (auto simp: take_ingest_def Let_def split: if_splits)
  show ?thesis
  proof (cases "counts = Map.empty")
    case True
    then have "s\<lparr>acBuffer := buffer, acTable := table\<rparr> = ?s"
      using flush t idle by (simp add: flushRepositoryIngest_def)
    then show ?thesis using taken by simp
  next
    case False
    obtain err' table' c'' where w: "writeRepositoryIngest begun partitions answers outcome keys counts now (c, acTable s) = (err', c'', table')"
      by (metis prod_cases3)
    have "accounting_step ?s (s\<lparr>acBuffer := buffer, acTable := table\<rparr>)"
    proof (cases err')
      case None
      then have "s\<lparr>acBuffer := buffer, acTable := table\<rparr> = ?s\<lparr>acFlight := Map.empty, acTable := table\<rparr>"
        and table: "table' = table"
        using flush t False w idle by (simp_all add: flushRepositoryIngest_def)
      then show ?thesis using counts_written [of keys ?s begun partitions answers outcome now c c'' table'] w None keys counts
        by simp
    next
      case (Some e)
      then have "s\<lparr>acBuffer := buffer, acTable := table\<rparr> =
          ?s\<lparr>acFlight := Map.empty, acTable := table, acBuffer := put_back_ingest counts rest\<rparr>"
        and table: "table' = table"
        using flush t False w idle by (simp_all add: flushRepositoryIngest_def)
      then show ?thesis using counts_put_back [of begun partitions answers outcome keys ?s now c e c'' table'] w Some kept
        by simp
    qed
    with taken show ?thesis by (meson converse_rtranclp_into_rtranclp rtranclp.rtrancl_refl)
  qed
qed

interpretation accounting: invariant_machine accounting_initial accounting_step accounting_ok
  by unfold_locales
    (simp add: accounting_initial_def accounting_ok_def accounted_def holds_def total_ingest_def,
     rule accounting_step_ok)

section \<open>Properties\<close>

text \<open>
  C7: the ingestion table ends up with the exact totals. Over any interleaving of batches recorded,
  flushes taken, written and failed (each flush under the flush lock, no commit whose answer is lost),
  as soon as nothing is pending or in flight the row of every day and database holds exactly the sum of
  the counts of all batches, and a key without a row has had nothing to count.
\<close>
theorem ingest_totals_exact:
  assumes "accounting_initial s0" and "accounting_step\<^sup>*\<^sup>* s0 s" and "0 \<le> fst key"
    and "pendingIngest (acBuffer s) = Map.empty" and "acFlight s = Map.empty"
  shows "case acTable s key of
      None \<Rightarrow> total_ingest (acRecorded s) key = zero_counts
    | Some row \<Rightarrow> \<exists>f. row = ingest_row_of f (total_ingest (acRecorded s) key)"
proof -
  have "accounted (pendingIngest (acBuffer s)) (acFlight s) (acTable s) (acRecorded s) key"
    using accounting.reachable_inv [OF assms(1,2)] assms(3) unfolding accounting_ok_def by blast
  then obtain w where "holds (acTable s) key w" "total_ingest (acRecorded s) key = add_counts zero_counts w"
    using assms(4,5) by (auto simp: accounted_def)
  then show ?thesis by (auto simp: holds_def split: option.splits)
qed

definition example_batch :: SampleBatch where
  "example_batch = \<lparr>sbAdditionalMetrics = [], sbPerformance = no_performance, sbOperational = no_operational,
     sbScrapeStatuses = [\<lparr>stCollectedAt = 5, stDatabase = ''db'', stCollector = ''metrics'', stSuccess = True,
       stDurationSeconds = 0, stSampleCount = 0, stErrorMessage = None\<rparr>],
     sbConnectionStates = [], sbConnectionStatesComplete = False, sbRuntime = None\<rparr>"

definition example_accounting :: Accounting where
  "example_accounting = \<lparr>acBuffer = \<lparr>pendingIngest = Map.empty, lastIngestFlushAttempt = 0,
     ingestFlushInterval = repositoryIngestFlushInterval\<rparr>, acFlight = Map.empty, acTable = Map.empty,
     acRecorded = []\<rparr>"

lemma example_collect:
  "collectRepositoryIngest example_batch = [(0, ''db'') \<mapsto> zero_counts\<lparr>scrapeStatusRows := 1,
     firstSampleAt := 5, lastSampleAt := 5\<rparr>]"
  by (simp add: collectRepositoryIngest_def example_batch_def addRepositoryIngestValues_def no_performance_def
      no_operational_def is_zero_time_def dayStartUTC_eq day_ns_def observe_def zero_counts_def)

theorem ingest_totals_exact_witness:
  "\<exists>s row. accounting_step\<^sup>*\<^sup>* example_accounting s \<and> acRecorded s = [example_batch] \<and>
     acTable s (0, ''db'') = Some row \<and> (\<exists>f. row = ingest_row_of f (total_ingest [example_batch] (0, ''db'')))"
proof -
  let ?counts = "collectRepositoryIngest example_batch"
  define s1 where "s1 = example_accounting\<lparr>acBuffer := recordRepositoryIngest example_batch (acBuffer example_accounting),
    acRecorded := [example_batch]\<rparr>"
  define s2 where "s2 = s1\<lparr>acBuffer := (acBuffer s1)\<lparr>lastIngestFlushAttempt := 9, pendingIngest := Map.empty\<rparr>,
    acFlight := pendingIngest (acBuffer s1)\<rparr>"
  define s3 where "s3 = s2\<lparr>acFlight := Map.empty,
    acTable := fold (ingest_upsert 9 (acFlight s2)) [(0, ''db'')] (acTable s2)\<rparr>"
  have steps: "accounting_step example_accounting s1" "accounting_step s1 s2"
    using record_batch [of example_accounting example_batch]
      take_counts [of s1 True 9 "pendingIngest (acBuffer s1)"]
    by (simp_all add: s1_def s2_def example_accounting_def take_ingest_def)
  have flight: "dom (acFlight s2) = {(0, ''db'')}"
    by (auto simp: s1_def s2_def pending_recorded example_collect merge_ingest_def example_accounting_def
        split: if_splits)
  have "accounting_step s2 s3"
    unfolding s3_def
    by (rule counts_written [where keys = "[(0, ''db'')]" and begun = None and partitions = Inr
          and answers = "(\<lambda>_. None, None)" and outcome = Committed and now = 9 and c = Map.empty and c' = Map.empty])
      (simp_all add: flight writeRepositoryIngest_def transaction_success sort_func_def ingest_upsert_def Let_def)
  with steps have r: "accounting_step\<^sup>*\<^sup>* example_accounting s3" by (blast intro: converse_rtranclp_into_rtranclp)
  have "pendingIngest (acBuffer s3) = Map.empty" "acFlight s3 = Map.empty" "acRecorded s3 = [example_batch]"
    by (simp_all add: s3_def s2_def s1_def)
  moreover obtain row where "acTable s3 (0, ''db'') = Some row"
    by (simp add: s3_def ingest_upsert_def Let_def)
  moreover have "accounting_initial example_accounting"
    by (simp add: accounting_initial_def example_accounting_def)
  ultimately show ?thesis using ingest_totals_exact [OF _ r, of "(0, ''db'')"] r by fastforce
qed

end
