(* ===== verification/SQLRetention.thy ===== *)
theory SQLRetention
  imports SinkSQL
begin

text \<open>
  What the tables of \<open>SinkSQL\<close> promise: collapsing a batch before the upserts loses nothing, what a batch has
  referred to outlives the clean-ups whose cut-off is not after it, and the bounded deletion of cursor
  metadata makes progress and takes the oldest rows first.
\<close>

section \<open>Texts\<close>

text \<open>The texts and the references of a batch in the order the loops visit them.\<close>

definition text_samples :: "PerformanceSamples \<Rightarrow> (sqlTextKey \<times> string \<times> time) list" where
  "text_samples p =
     List.map_filter (\<lambda>s. map_option (\<lambda>x. ((sqDatabase s, sqSQLID s), x, sqCollectedAt s)) (sqSQLFullText s)) (pfSQL p) @
     map (\<lambda>s. ((sxDatabase s, sxSQLID s), sxSQLFullText s, sxCollectedAt s)) (pfSQLTexts p)"

definition optional_reference :: "string \<Rightarrow> string option \<Rightarrow> time \<Rightarrow> (sqlTextKey \<times> time) list" where
  "optional_reference database sqlID t = (case sqlID of None \<Rightarrow> [] | Some i \<Rightarrow> [((database, i), t)])"

definition sql_references :: "PerformanceSamples \<Rightarrow> (sqlTextKey \<times> time) list" where
  "sql_references p =
     map (\<lambda>s. ((sqDatabase s, sqSQLID s), sqCollectedAt s)) (pfSQL p) @
     map (\<lambda>s. ((sxDatabase s, sxSQLID s), sxCollectedAt s)) (pfSQLTexts p) @
     concat (map (\<lambda>s. optional_reference (seDatabase s) (seSQLID s) (seCollectedAt s) @
                      optional_reference (seDatabase s) (sePrevSQLID s) (seCollectedAt s)) (pfSessions p)) @
     concat (map (\<lambda>s. optional_reference (bsDatabase s) (bsSQLID s) (bsCollectedAt s) @
                      optional_reference (bsDatabase s) (bsBlockingSQLID s) (bsCollectedAt s)) (pfBlockingSessions p)) @
     concat (map (\<lambda>s. optional_reference (daDatabase s) (daSQLID s) (daCollectedAt s) @
                      optional_reference (daDatabase s) (daTopLevelSQLID s) (daCollectedAt s)) (pfDatabaseActivity p))"

definition valid_reference :: "sqlTextKey \<times> time \<Rightarrow> bool" where
  "valid_reference r \<longleftrightarrow>
     trim_space (fst (fst r)) \<noteq> [] \<and> trim_space (snd (fst r)) \<noteq> [] \<and> snd r \<noteq> 0"

lemma in_map_filterI: "x \<in> set xs \<Longrightarrow> f x = Some y \<Longrightarrow> y \<in> set (List.map_filter f xs)"
  by (induction xs) (auto simp: map_filter_simps split: option.splits)

lemma fold_pair: "fold (\<lambda>s (a, b). (f s a, g s b)) xs (a, b) = (fold f xs a, fold g xs b)"
  by (induction xs arbitrary: a b) simp_all

lemma fold_option_case:
  "fold (\<lambda>s a. case h s of None \<Rightarrow> a | Some x \<Rightarrow> f s x a) xs a =
   fold (\<lambda>(s, x). f s x) (List.map_filter (\<lambda>s. map_option (Pair s) (h s)) xs) a"
  by (induction xs arbitrary: a) (auto simp: map_filter_simps split: option.splits)

abbreviation add_ref :: "sqlTextKey \<times> time \<Rightarrow> (sqlTextKey \<rightharpoonup> time) \<Rightarrow> (sqlTextKey \<rightharpoonup> time)" where
  "add_ref r \<equiv> addReference (fst (fst r)) (snd (fst r)) (snd r)"

lemma add_optional: "addOptionalReference d i t refs = fold add_ref (optional_reference d i t) refs"
  by (simp add: addOptionalReference_def optional_reference_def split: option.splits)

lemma fold_concat_map: "fold f (concat (map g xs)) a = fold (\<lambda>x. fold f (g x)) xs a"
  by (induction xs arbitrary: a) simp_all

lemma collect_texts: "fst (collectSQLTextUpdates p) = fold (\<lambda>(k, x, t). add_text k x t) (text_samples p) Map.empty"
proof -
  have "fold (\<lambda>s texts. case sqSQLFullText s of None \<Rightarrow> texts
        | Some text \<Rightarrow> add_text (sqDatabase s, sqSQLID s) text (sqCollectedAt s) texts) xs m =
      fold (\<lambda>(k, x, t). add_text k x t)
        (List.map_filter (\<lambda>s. map_option (\<lambda>x. ((sqDatabase s, sqSQLID s), x, sqCollectedAt s)) (sqSQLFullText s)) xs) m"
    for xs :: "SQLSample list" and m
    by (induction xs arbitrary: m) (auto simp: map_filter_simps split: option.splits)
  then show ?thesis
    by (simp add: collectSQLTextUpdates_def Let_def fold_pair text_samples_def fold_map comp_def)
qed

lemma collect_references: "snd (collectSQLTextUpdates p) = fold add_ref (sql_references p) Map.empty"
  by (simp add: collectSQLTextUpdates_def Let_def fold_pair sql_references_def fold_map comp_def add_optional
      fold_concat_map)

lemma add_ref_valid:
  "add_ref r refs = (if valid_reference r then newest_time (fst r) (snd r) refs else refs)"
  by (simp add: addReference_def valid_reference_def is_zero_time_def)

lemma fold_add_ref: "fold add_ref refs m = fold (\<lambda>(k, s). newest_time k s) (filter valid_reference refs) m"
  by (induction refs arbitrary: m) (auto simp: add_ref_valid)

text \<open>One upsert per sample, without collapsing.\<close>

definition upsert_text_sample :: "sqlTextKey \<times> string \<times> time \<Rightarrow> sql_texts \<Rightarrow> sql_texts" where
  "upsert_text_sample x t =
     (let (key, text, at_time) = x in
      t(key \<mapsto> merge_text (t key) \<lparr>rcFullText = text, rcFirstSeen = at_time, rcLastSeen = at_time\<rparr>))"

lemma apply_add_text:
  "apply_entries merge_text (add_text key x s texts) t =
   upsert_text_sample (key, x, s) (apply_entries merge_text texts t)"
proof (cases "texts key")
  case None
  then show ?thesis by (auto simp: apply_entries_def add_text_def upsert_text_sample_def)
next
  case (Some r)
  have "merge_text (t key) (let r = (if time_before s (rcFirstSeen r) then r\<lparr>rcFirstSeen := s\<rparr> else r)
      in (if \<not> time_before s (rcLastSeen r) then r\<lparr>rcFullText := x, rcLastSeen := s\<rparr> else r)) =
    merge_text (Some (merge_text (t key) r)) \<lparr>rcFullText = x, rcFirstSeen = s, rcLastSeen = s\<rparr>"
    by (cases "t key") (auto simp: merge_text_def Let_def time_before_def min_def max_def)
  then show ?thesis
    using Some by (auto simp: apply_entries_def add_text_def upsert_text_sample_def Let_def)
qed

lemma apply_collected:
  "apply_entries merge_text (fold (\<lambda>(k, x, s). add_text k x s) xs texts) t =
   fold upsert_text_sample xs (apply_entries merge_text texts t)"
proof (induction xs arbitrary: texts)
  case (Cons x xs)
  then show ?case by (cases x) (simp add: apply_add_text)
qed simp

text \<open>The effect of a batch on the table.\<close>

definition texts_written :: "PerformanceSamples \<Rightarrow> sql_texts \<Rightarrow> sql_texts" where
  "texts_written p t = touch_texts (fold add_ref (sql_references p) Map.empty) (fold upsert_text_sample (text_samples p) t)"

lemma touch_texts_none [simp]: "touch_texts Map.empty t = t"
  by (rule ext) (simp add: touch_texts_def split: option.splits)

lemma writeSQLTexts_ok:
  assumes "writeSQLTexts answers updating order p t = Inr t'" and "distinct order"
    and "set order = dom (fst (collectSQLTextUpdates p))"
  shows "t' = texts_written p t"
proof -
  obtain texts refs where c: "collectSQLTextUpdates p = (texts, refs)" by fastforce
  have refs: "refs = fold add_ref (sql_references p) Map.empty" using collect_references [of p] c by simp
  have "apply_entries merge_text Map.empty t = t" by (rule ext) (simp add: apply_entries_def)
  then have upserts: "apply_entries merge_text texts t = fold upsert_text_sample (text_samples p) t"
    using apply_collected [where xs = "text_samples p" and texts = Map.empty and t = t] collect_texts [of p] c
    by simp
  have "fold (upsert_entry merge_text texts) order t = apply_entries merge_text texts t"
    using assms(2,3) c by (intro fold_upsert_entries) simp_all
  with assms(1) show ?thesis
    by (auto simp: writeSQLTexts_def c texts_written_def refs [symmetric] upserts [symmetric] fold_map_statements
        \<open>apply_entries merge_text Map.empty t = t\<close>
        split: if_splits sum.splits dest!: send_batch_ok)
qed

lemma touch_texts_raises:
  "touch_texts refs t k = Some row \<Longrightarrow> refs k = Some s \<Longrightarrow> s \<le> srLastReferenced row"
  by (auto simp: touch_texts_def split: option.splits)

lemma fold_upsert_text_keeps:
  "t k = Some r \<Longrightarrow> \<exists>r'. fold upsert_text_sample xs t k = Some r' \<and> srLastReferenced r \<le> srLastReferenced r'"
proof (induction xs arbitrary: t r)
  case (Cons x xs)
  have "\<exists>r1. upsert_text_sample x t k = Some r1 \<and> srLastReferenced r \<le> srLastReferenced r1"
    using Cons.prems
    by (cases x; cases "k = fst x") (simp_all add: upsert_text_sample_def merge_text_def)
  then obtain r1 where "upsert_text_sample x t k = Some r1" "srLastReferenced r \<le> srLastReferenced r1"
    by blast
  with Cons.IH [of "upsert_text_sample x t" r1] show ?case by force
qed simp

interpretation sql_texts: retained_table texts_written srLastReferenced
  "\<lambda>p k s. (k, s) \<in> set (sql_references p) \<and> valid_reference (k, s)" "\<lambda>s. s"
proof
  fix t :: sql_texts and k r w
  assume "t k = Some r"
  then obtain r1 where "fold upsert_text_sample (text_samples w) t k = Some r1" "srLastReferenced r \<le> srLastReferenced r1"
    using fold_upsert_text_keeps by blast
  then show "\<exists>r'. texts_written w t k = Some r' \<and> srLastReferenced r \<le> srLastReferenced r'"
    by (auto simp: texts_written_def touch_texts_def split: option.splits)
next
  fix w k s and t :: sql_texts and r
  assume "(k, s) \<in> set (sql_references w) \<and> valid_reference (k, s)" and r: "texts_written w t k = Some r"
  then have "(k, s) \<in> set (filter valid_reference (sql_references w))" by simp
  from newest_time_upper [OF this, of Map.empty]
  show "s \<le> srLastReferenced r"
    using r touch_texts_raises unfolding texts_written_def fold_add_ref by fastforce
qed

section \<open>Cursor metadata\<close>

definition cursors_written :: "SQLSample list \<Rightarrow> cursor_table \<Rightarrow> cursor_table" where
  "cursors_written samples = apply_entries merge_cursor (collectSQLCursorMetadata samples)"

lemma writeSQLCursorMetadata_ok:
  assumes "writeSQLCursorMetadata answers order samples t = Inr t'" and "distinct order"
    and "set order = dom (collectSQLCursorMetadata samples)"
  shows "t' = cursors_written samples t"
proof -
  have none: "apply_entries merge_cursor Map.empty t = t" by (rule ext) (simp add: apply_entries_def)
  note upserts = fold_upsert_entries [OF assms(2,3), of merge_cursor t]
  show ?thesis
    using assms(1) none upserts
    by (auto simp: writeSQLCursorMetadata_def Let_def cursors_written_def fold_map_statements
        split: if_splits dest!: send_batch_ok)
qed

text \<open>What is collected for a key was seen with that key, and no sample with the key is newer.\<close>

definition collected_ok :: "SQLSample list \<Rightarrow> (sqlCursorMetadataKey \<rightharpoonup> SQLSample) \<Rightarrow> bool" where
  "collected_ok samples m \<longleftrightarrow>
     (\<forall>s \<in> set samples. \<forall>k. cursor_key s = Some k \<longrightarrow> (\<exists>c. m k = Some c \<and> sqCollectedAt s \<le> sqCollectedAt c))"

lemma add_cursor_raises:
  "m k = Some c \<Longrightarrow> \<exists>c'. add_cursor s m k = Some c' \<and> sqCollectedAt c \<le> sqCollectedAt c'"
  by (cases "cursor_key s = Some k") (auto simp: add_cursor_def time_after_def split: option.splits)

lemma add_cursor_own:
  "cursor_key s = Some k \<Longrightarrow> \<exists>c. add_cursor s m k = Some c \<and> sqCollectedAt s \<le> sqCollectedAt c"
  by (simp add: add_cursor_def time_after_def split: option.splits)

lemma collected_newest: "collected_ok samples (collectSQLCursorMetadata samples)"
  unfolding collectSQLCursorMetadata_def
proof (induction samples rule: rev_induct)
  case (snoc s samples)
  show ?case unfolding collected_ok_def
  proof (intro ballI allI impI)
    fix u k assume u: "u \<in> set (samples @ [s])" "cursor_key u = Some k"
    show "\<exists>c. fold add_cursor (samples @ [s]) Map.empty k = Some c \<and> sqCollectedAt u \<le> sqCollectedAt c"
    proof (cases "u = s")
      case True
      then show ?thesis using add_cursor_own u(2) by simp
    next
      case False
      then have "u \<in> set samples" using u(1) by simp
      then obtain c where c: "fold add_cursor samples Map.empty k = Some c" "sqCollectedAt u \<le> sqCollectedAt c"
        using snoc [unfolded collected_ok_def] u(2) by blast
      with add_cursor_raises [of "fold add_cursor samples Map.empty" k c s] show ?thesis by force
    qed
  qed
qed (simp add: collected_ok_def)

lemma merge_cursor_keeps: "crLastSeen r \<le> crLastSeen (merge_cursor (Some r) s)"
  by (simp add: merge_cursor_def Let_def)

lemma merge_cursor_sees: "dayStartUTC (sqCollectedAt s) \<le> crLastSeen (merge_cursor existing s)"
  using dayStartUTC_bounds(1) [of "sqCollectedAt s"]
  by (cases existing) (auto simp: merge_cursor_def Let_def)

interpretation sql_cursors: retained_table cursors_written crLastSeen
  "\<lambda>samples k s. \<exists>x \<in> set samples. cursor_key x = Some k \<and> sqCollectedAt x = s" dayStartUTC
proof
  fix t :: cursor_table and k r w
  assume "t k = Some r"
  then show "\<exists>r'. cursors_written w t k = Some r' \<and> crLastSeen r \<le> crLastSeen r'"
    by (cases "collectSQLCursorMetadata w k") (simp_all add: cursors_written_def apply_entries_def merge_cursor_keeps)
next
  fix w k s and t :: cursor_table and r
  assume "\<exists>x \<in> set w. cursor_key x = Some k \<and> sqCollectedAt x = s" and r: "cursors_written w t k = Some r"
  then obtain c where c: "collectSQLCursorMetadata w k = Some c" "s \<le> sqCollectedAt c"
    using collected_newest [of w] unfolding collected_ok_def by blast
  then show "dayStartUTC s \<le> crLastSeen r"
    using r dayStartUTC_mono [OF c(2)] merge_cursor_sees [of c "t k"]
    by (auto simp: cursors_written_def apply_entries_def)
qed

section \<open>Plans\<close>

definition plans_written :: "PerformanceSamples \<Rightarrow> plan_table \<Rightarrow> plan_table" where
  "plans_written p t =
     touch_plans (collectSQLPlanReferences (pfSQL p @ pfSQLDetails p)) (fold upsert_plan (pfSQLPlans p) t)"

lemma touch_plans_none [simp]: "touch_plans Map.empty t = t"
  by (rule ext) (simp add: touch_plans_def split: option.splits)

lemma writeSQLPlans_ok: "writeSQLPlans answers updating p t = Inr t' \<Longrightarrow> t' = plans_written p t"
  by (auto simp: writeSQLPlans_def Let_def plans_written_def fold_map_statements
      split: if_splits sum.splits dest!: send_batch_ok)

lemma fold_upsert_plan_keeps:
  "t k = Some r \<Longrightarrow> \<exists>r'. fold upsert_plan ops t k = Some r' \<and> prLastReferenced r \<le> prLastReferenced r'"
proof (induction ops arbitrary: t r)
  case (Cons op ops)
  have "\<exists>r1. upsert_plan op t k = Some r1 \<and> prLastReferenced r \<le> prLastReferenced r1"
    using Cons.prems by (cases "k = plan_line_key op") (simp_all add: upsert_plan_def Let_def)
  then obtain r1 where "upsert_plan op t k = Some r1" "prLastReferenced r \<le> prLastReferenced r1" by blast
  with Cons.IH [of "upsert_plan op t" r1] show ?case by force
qed simp

text \<open>The plan references of a batch, in order.\<close>

lemma collect_plan_references:
  "collectSQLPlanReferences samples =
   fold (\<lambda>(k, s). newest_time k s)
     (List.map_filter (\<lambda>s. map_option (\<lambda>k. (k, sqCollectedAt s)) (plan_reference s)) samples) Map.empty"
proof -
  have "fold (\<lambda>s references. case plan_reference s of None \<Rightarrow> references
        | Some key \<Rightarrow> newest_time key (sqCollectedAt s) references) xs m =
      fold (\<lambda>(k, s). newest_time k s)
        (List.map_filter (\<lambda>s. map_option (\<lambda>k. (k, sqCollectedAt s)) (plan_reference s)) xs) m" for xs m
    by (induction xs arbitrary: m) (auto simp: map_filter_simps split: option.splits)
  then show ?thesis by (simp add: collectSQLPlanReferences_def)
qed

interpretation sql_plans: retained_table plans_written prLastReferenced
  "\<lambda>p k s. \<exists>x \<in> set (pfSQL p @ pfSQLDetails p). plan_reference x = Some (fst k, fst (snd k)) \<and> sqCollectedAt x = s"
  "\<lambda>s. s"
proof
  fix t :: plan_table and w :: PerformanceSamples and k r
  assume "t k = Some r"
  then obtain r1 where "fold upsert_plan (pfSQLPlans w) t k = Some r1" "prLastReferenced r \<le> prLastReferenced r1"
    using fold_upsert_plan_keeps by blast
  then show "\<exists>r'. plans_written w t k = Some r' \<and> prLastReferenced r \<le> prLastReferenced r'"
    by (auto simp: plans_written_def touch_plans_def split: option.splits)
next
  fix w :: PerformanceSamples and s and k :: plan_line_key and t :: plan_table and r
  let ?samples = "pfSQL w @ pfSQLDetails w"
  assume "\<exists>x \<in> set ?samples. plan_reference x = Some (fst k, fst (snd k)) \<and> sqCollectedAt x = s"
    and r: "plans_written w t k = Some r"
  then obtain x where "x \<in> set ?samples" "plan_reference x = Some (fst k, fst (snd k))" "sqCollectedAt x = s"
    by blast
  then have "((fst k, fst (snd k)), s) \<in>
      set (List.map_filter (\<lambda>s. map_option (\<lambda>k. (k, sqCollectedAt s)) (plan_reference s)) ?samples)"
    by (intro in_map_filterI [of x]) simp_all
  from newest_time_upper [OF this, of Map.empty]
  obtain s' where "collectSQLPlanReferences ?samples (fst k, fst (snd k)) = Some s'" "s \<le> s'"
    by (auto simp: collect_plan_references)
  then show "s \<le> prLastReferenced r"
    using r by (auto simp: plans_written_def touch_plans_def split: option.splits)
qed

section \<open>Bounded deletion\<close>

lemma delete_batches_result:
  assumes "delete_batches n answers i keys deleted t = (err, d, t')" and "distinct keys"
  shows "\<exists>m \<le> length keys. d = deleted + m \<and> t' = t |` (- set (take m keys)) \<and>
    m \<le> n * sqlCursorMetadataDeleteBatchSize \<and>
    (err = None \<longrightarrow> m = min (length keys) (n * sqlCursorMetadataDeleteBatchSize))"
  using assms
proof (induction n answers i keys deleted t rule: delete_batches.induct)
  case (1 answers i keys deleted t)
  then show ?case by (intro exI [of _ 0]) (auto simp: restrict_map_def)
next
  case (2 n answers i keys deleted t)
  let ?b = sqlCursorMetadataDeleteBatchSize
  show ?case
  proof (cases "answers i")
    case (Some e)
    with 2 show ?thesis by (intro exI [of _ 0]) (auto simp: restrict_map_def)
  next
    case None
    show ?thesis
    proof (cases "length keys < ?b")
      case True
      with 2 None show ?thesis by (intro exI [of _ "length keys"]) (auto simp: Let_def)
    next
      case False
      let ?t = "t |` (- set (take ?b keys))"
      have rec: "delete_batches n answers (Suc i) (drop ?b keys) (deleted + ?b) ?t = (err, d, t')"
        using 2(2) None False by (simp add: Let_def min_absorb2)
      obtain m where m: "m \<le> length (drop ?b keys)" "d = deleted + ?b + m"
        "t' = ?t |` (- set (take m (drop ?b keys)))" "m \<le> n * ?b"
        "err = None \<longrightarrow> m = min (length (drop ?b keys)) (n * ?b)"
        using 2(1) [OF None refl refl refl refl _ _] rec 2(3) False by (auto simp: min_absorb2)
      have "t' = t |` (- set (take (?b + m) keys))"
        using m(3) by (auto simp: restrict_map_def take_add fun_eq_iff)
      with m False show ?thesis by (intro exI [of _ "?b + m"]) auto
    qed
  qed
qed

section \<open>Properties\<close>

text \<open>
  Collapsing the texts of a batch loses nothing. A successful \<open>writeSQLTexts\<close>, which sends one upsert per
  distinct text, in any order, leaves the table as if every sample of the batch had been upserted by
  itself in the order collected, with the references of the batch applied last.
\<close>
theorem sql_text_batch_exact:
  assumes "writeSQLTexts answers updating order p t = Inr t'" and "distinct order"
    and "set order = dom (fst (collectSQLTextUpdates p))"
  shows "t' = touch_texts (snd (collectSQLTextUpdates p)) (fold upsert_text_sample (text_samples p) t)"
  using writeSQLTexts_ok [OF assms] by (simp add: texts_written_def collect_references)

definition example_texts :: PerformanceSamples where
  "example_texts = no_performance\<lparr>pfSQLTexts :=
     [\<lparr>sxCollectedAt = 5, sxDatabase = ''db'', sxSQLID = ''id'', sxSQLFullText = ''select''\<rparr>]\<rparr>"

lemma example_texts_facts:
  "dom (fst (collectSQLTextUpdates example_texts)) = {(''db'', ''id'')}"
  "sql_references example_texts = [((''db'', ''id''), 5)]" "valid_reference ((''db'', ''id''), 5)"
  by (simp_all add: collect_texts text_samples_def sql_references_def example_texts_def no_performance_def
      map_filter_simps add_text_def valid_reference_def trim_space_def trim_left_def is_space_def byte_of_def)

theorem sql_text_batch_exact_witness:
  "writeSQLTexts (\<lambda>_. None, None) None [(''db'', ''id'')] example_texts Map.empty =
   Inr (touch_texts (snd (collectSQLTextUpdates example_texts)) (fold upsert_text_sample (text_samples example_texts) Map.empty))"
proof -
  have "\<exists>t'. writeSQLTexts (\<lambda>_. None, None) None [(''db'', ''id'')] example_texts Map.empty = Inr t'"
    by (cases "collectSQLTextUpdates example_texts") (simp add: writeSQLTexts_def exec_statement_def)
  then obtain t' where t': "writeSQLTexts (\<lambda>_. None, None) None [(''db'', ''id'')] example_texts Map.empty = Inr t'"
    by blast
  show ?thesis using sql_text_batch_exact [OF t'] t' example_texts_facts(1) by simp
qed

text \<open>
  C11: retention never deletes what is still in use. A text, a plan or a cursor that a written batch has
  referred to is still there after any further writes and clean-ups, as long as no clean-up's cut-off is
  after the sighting; for cursors, whose time is refreshed once a day only, as long as none is after the
  start of the sighting's day, which is where the sink puts its cut-offs.
\<close>
theorem retention_keeps_referenced:
  "((k, s) \<in> set (sql_references p) \<longrightarrow> valid_reference (k, s) \<longrightarrow> texts_written p texts k \<noteq> None \<longrightarrow>
      (\<forall>c. Prune c \<in> set es \<longrightarrow> c \<le> s) \<longrightarrow>
      table_run texts_written srLastReferenced es (texts_written p texts) k \<noteq> None) \<and>
   (x \<in> set (pfSQL p @ pfSQLDetails p) \<longrightarrow> plan_reference x = Some (db, plan) \<longrightarrow>
      plans_written p plans (db, plan, line) \<noteq> None \<longrightarrow> (\<forall>c. Prune c \<in> set es \<longrightarrow> c \<le> sqCollectedAt x) \<longrightarrow>
      table_run plans_written prLastReferenced es (plans_written p plans) (db, plan, line) \<noteq> None) \<and>
   (y \<in> set samples \<longrightarrow> cursor_key y = Some key \<longrightarrow>
      (\<forall>c. Prune c \<in> set fs \<longrightarrow> c \<le> dayStartUTC (sqCollectedAt y)) \<longrightarrow>
      table_run cursors_written crLastSeen fs (cursors_written samples cursors) key \<noteq> None)"
proof (intro conjI impI)
  assume "(k, s) \<in> set (sql_references p)" "valid_reference (k, s)" "texts_written p texts k \<noteq> None"
    "\<forall>c. Prune c \<in> set es \<longrightarrow> c \<le> s"
  then show "table_run texts_written srLastReferenced es (texts_written p texts) k \<noteq> None"
    using sql_texts.seen_survives [of k s p texts _ es] by fastforce
next
  assume "x \<in> set (pfSQL p @ pfSQLDetails p)" "plan_reference x = Some (db, plan)"
    "plans_written p plans (db, plan, line) \<noteq> None" "\<forall>c. Prune c \<in> set es \<longrightarrow> c \<le> sqCollectedAt x"
  then show "table_run plans_written prLastReferenced es (plans_written p plans) (db, plan, line) \<noteq> None"
    using sql_plans.seen_survives [of p "(db, plan, line)" "sqCollectedAt x" plans _ es] by fastforce
next
  assume y: "y \<in> set samples" "cursor_key y = Some key" "\<forall>c. Prune c \<in> set fs \<longrightarrow> c \<le> dayStartUTC (sqCollectedAt y)"
  then obtain c where "collectSQLCursorMetadata samples key = Some c"
    using collected_newest [of samples] unfolding collected_ok_def by blast
  then have "cursors_written samples cursors key = Some (merge_cursor (cursors key) c)"
    by (simp add: cursors_written_def apply_entries_def)
  then show "table_run cursors_written crLastSeen fs (cursors_written samples cursors) key \<noteq> None"
    using sql_cursors.seen_survives [of samples key "sqCollectedAt y" cursors _ fs] y by fastforce
qed

theorem retention_keeps_referenced_witness:
  "table_run texts_written srLastReferenced [Prune 3, Write no_performance, Prune 5] (texts_written example_texts Map.empty)
     (''db'', ''id'') \<noteq> None"
proof -
  have "texts_written example_texts Map.empty (''db'', ''id'') \<noteq> None"
    by (simp add: texts_written_def touch_texts_def text_samples_def example_texts_def no_performance_def
        map_filter_simps upsert_text_sample_def split: option.splits)
  then show ?thesis
    using retention_keeps_referenced [where k = "(''db'', ''id'')" and s = 5 and p = example_texts
        and texts = Map.empty and es = "[Prune 3, Write no_performance, Prune 5]"] example_texts_facts(2,3)
    by simp
qed

text \<open>
  The clean-up of cursor metadata is bounded and makes progress. One run deletes at most 10,000 rows
  with at most five statements; whatever fails, exactly the reported number of rows is gone, the oldest
  first; and a run without an error deletes all expired rows or the full 10,000.
\<close>
theorem cursor_cleanup_bounded:
  assumes "deleteExpiredSQLCursorMetadata answers keys t = (err, n, t')" and "distinct keys"
  shows "n \<le> 10000 \<and> n \<le> length keys \<and> t' = t |` (- set (take n keys)) \<and>
    (err = None \<longrightarrow> n = min (length keys) 10000)"
  using delete_batches_result [OF assms(1) [unfolded deleteExpiredSQLCursorMetadata_def] assms(2)]
  by (auto simp: sqlCursorMetadataDeleteMaxBatches_def sqlCursorMetadataDeleteBatchSize_def)

theorem cursor_cleanup_bounded_witness:
  "\<forall>row. let (err, n, t') = deleteExpiredSQLCursorMetadata (\<lambda>_. None) [(''db'', 1, ''id'', 0, 7)]
     [(''db'', 1, ''id'', 0, 7) \<mapsto> row, (''db'', 1, ''id'', 1, 7) \<mapsto> row] in
   t' = [(''db'', 1, ''id'', 1, 7) \<mapsto> row]"
proof
  fix row :: cursor_row
  let ?key = "(''db'', 1, ''id'', 0, 7) :: sqlCursorMetadataKey"
  let ?t = "[?key \<mapsto> row, (''db'', 1, ''id'', 1, 7) \<mapsto> row]"
  obtain err n t' where r: "deleteExpiredSQLCursorMetadata (\<lambda>_. None) [?key] ?t = (err, n, t')"
    by (cases "deleteExpiredSQLCursorMetadata (\<lambda>_. None) [?key] ?t") blast
  have "err = None"
    using r by (simp add: deleteExpiredSQLCursorMetadata_def sqlCursorMetadataDeleteMaxBatches_def
        sqlCursorMetadataDeleteBatchSize_def eval_nat_numeral)
  then have "n = 1" "t' = ?t |` (- set (take n [?key]))"
    using cursor_cleanup_bounded [OF r] by simp_all
  then show "let (err, n, t') = deleteExpiredSQLCursorMetadata (\<lambda>_. None) [?key] ?t in
      t' = [(''db'', 1, ''id'', 1, 7) \<mapsto> row]" using r by (auto simp: restrict_map_def)
qed

end
