(* ===== verification/Sink.thy ===== *)
theory Sink
  imports Repository IngestAccounts SQLRetention
begin

text \<open>
  The PostgreSQL sink (\<open>postgresql/postgresql.go\<close>): the transaction that writes a batch, what happens around
  it (telemetry, ingestion accounting, retention), and the flushes at shutdown. Every call to the server
  takes its answers as an argument, every reading of the clock is an argument.
\<close>

section \<open>The transaction of a batch\<close>

definition write_stages ::
    "Server \<Rightarrow> SinkTables \<Rightarrow> ((string \<rightharpoonup> string) \<Rightarrow> string) \<Rightarrow> SampleBatch \<Rightarrow> RuntimeSample list \<Rightarrow>
     (Repository \<Rightarrow> Repository result) list" where
  "write_stages sv tb marshal b pending =
     (let p = sbPerformance b in
      [ensureWritePartitions sv tb b pending,
       copyRows sv (samplesTable tb) samplesDDL samplesColumns
         (map (samplesRow marshal) (sbAdditionalMetrics b)) ''metric samples'',
       write_texts_stage sv p,
       write_cursors_stage sv (pfSQLDetails p),
       write_plans_stage sv p,
       writeSQLSamples sv tb (pfSQL p),
       writeSessionSamples sv tb (pfSessions p),
       writeBlockingSessionSamples sv tb (pfBlockingSessions p),
       writeDatabaseActivitySamples sv tb (pfDatabaseActivity p),
       writeOperationalSamples sv tb (sbOperational b),
       writeScrapeStatuses sv tb (sbScrapeStatuses b),
       write_connections_stage sv (sbConnectionStates b) (sbConnectionStatesComplete b),
       writeRuntimeSamples sv tb pending])"

definition write_transaction ::
    "Server \<Rightarrow> SinkTables \<Rightarrow> ((string \<rightharpoonup> string) \<Rightarrow> string) \<Rightarrow> SampleBatch \<Rightarrow> RuntimeSample list \<Rightarrow>
     Repository \<Rightarrow> go_error option \<times> Repository" where
  "write_transaction sv tb marshal b pending r =
     transaction ''begin postgresql transaction'' (svBegin sv) (write_stages sv tb marshal b pending)
       ''commit postgresql transaction'' (svCommit sv) r"

section \<open>Retention\<close>

record CleanupAnswers =
  caListing :: "pg_identifier \<Rightarrow> (string \<times> string) list result"
  caDrop :: "pg_identifier \<Rightarrow> go_error option"
  caExec :: "string \<Rightarrow> go_error option"
  caBatches :: "nat \<Rightarrow> go_error option"
  caCursorKeys :: "cursor_table \<Rightarrow> time \<Rightarrow> sqlCursorMetadataKey list"

text \<open>Dropping partitions: their names are qualified, and the rows they held are gone.\<close>

definition refers :: "pg_identifier \<Rightarrow> pg_identifier \<Rightarrow> bool" where
  "refers dropped name \<longleftrightarrow> name \<noteq> [] \<and> last name = last dropped \<and> (length name = 1 \<or> name = dropped)"

definition forget_partitions :: "pg_identifier list \<Rightarrow> Repository \<Rightarrow> Repository" where
  "forget_partitions dropped r =
     (let c = (\<lambda>name. if list_ex (\<lambda>d. refers d name) dropped then None else rpCatalogue r name)
      in r\<lparr>rpCatalogue := c,
           rpRows := (\<lambda>table. filter (\<lambda>row. case row_time row of None \<Rightarrow> True | Some t \<Rightarrow> routed c table t)
                               (rpRows r table))\<rparr>)"

definition deleteExpiredLatestScrapeStatuses :: "go_error option \<Rightarrow> time \<Rightarrow> latest_statuses \<Rightarrow> latest_statuses result" where
  "deleteExpiredLatestScrapeStatuses answer cutoff t =
     delete_expired ''delete latest scrape statuses'' answer stCollectedAt cutoff t"

definition deleteExpiredLatestRuntimeStatuses :: "go_error option \<Rightarrow> time \<Rightarrow> latest_runtime \<Rightarrow> latest_runtime result" where
  "deleteExpiredLatestRuntimeStatuses answer cutoff t =
     delete_expired ''delete latest runtime statuses'' answer rtObservedAt cutoff t"

text \<open>The deletions after the partitions, each a statement of its own; an error ends the clean-up.\<close>

definition cleanup_tables :: "CleanupAnswers \<Rightarrow> time \<Rightarrow> Repository \<Rightarrow> go_error option \<times> Repository" where
  "cleanup_tables a cutoff r =
     (case deleteExpiredLatestScrapeStatuses (caExec a ''latest scrape statuses'') cutoff (rpLatestStatus r) of
        Inl e \<Rightarrow> (Some e, r)
      | Inr t \<Rightarrow> (let r = r\<lparr>rpLatestStatus := t\<rparr> in
      case deleteExpiredLatestRuntimeStatuses (caExec a ''latest runtime statuses'') cutoff (rpLatestRuntime r) of
        Inl e \<Rightarrow> (Some e, r)
      | Inr t \<Rightarrow> (let r = r\<lparr>rpLatestRuntime := t\<rparr> in
      case deleteExpiredSQLTexts (caExec a ''SQL texts'') cutoff (rpTexts r) of
        Inl e \<Rightarrow> (Some e, r)
      | Inr t \<Rightarrow> (let r = r\<lparr>rpTexts := t\<rparr> in
      case deleteExpiredSQLPlans (caExec a ''SQL plans'') cutoff (rpPlans r) of
        Inl e \<Rightarrow> (Some e, r)
      | Inr t \<Rightarrow> (let r = r\<lparr>rpPlans := t\<rparr>;
                     (err, n, t) = deleteExpiredSQLCursorMetadata (caBatches a) (caCursorKeys a (rpCursors r) cutoff)
                                     (rpCursors r)
                 in (err, r\<lparr>rpCursors := t\<rparr>))))))"

text \<open>The error is only logged; \<open>now\<close> is read for the throttle and again for the cut-off.\<close>

definition cleanupRetention ::
    "CleanupAnswers \<Rightarrow> SinkTables \<Rightarrow> duration \<Rightarrow> time \<Rightarrow> time \<Rightarrow> time \<times> Repository \<Rightarrow> time \<times> Repository" where
  "cleanupRetention a tb retention now now' s =
     (let (lastRetentionCleanup, r) = s in
      if retention \<le> 0 then s
      else if \<not> is_zero_time lastRetentionCleanup \<and> time_sub now lastRetentionCleanup < hour then s
      else let cutoff = time_add now' (- retention);
               ((err, n), dropped) =
                 dropExpiredPartitions (caDrop a) (caListing a) (partitionedTables tb) cutoff 0 [];
               r = forget_partitions dropped r
           in case err of
                Some e \<Rightarrow> (now, r)
              | None \<Rightarrow> (now, snd (cleanup_tables a (retentionDayCutoff cutoff) r)))"

section \<open>Writing a batch\<close>

record SinkState =
  skQueue :: RuntimeQueue
  skIngest :: IngestBuffer
  skLastCleanup :: time
  skRepo :: Repository

text \<open>The readings of the clock during a write, in their order.\<close>

record WriteClock =
  ckStarted :: time
  ckTaken :: time
  ckFlushed :: time
  ckCleanup :: time
  ckCutoff :: time
  ckFinished :: time

definition ensureRepositoryIngestPartitions ::
    "Server \<Rightarrow> pg_identifier \<Rightarrow> time list \<Rightarrow> catalogue \<Rightarrow> catalogue result" where
  "ensureRepositoryIngestPartitions sv parent ts =
     run_stages
       (map (\<lambda>day. exec_statement ''ensure partition'' (svPartition sv parent day)
                     (exec_partition_ddl (svName sv) (partition_ddl parent day)))
          (partition_days ts))"

text \<open>The accounting of \<open>Ingest\<close> on the repository; \<open>order\<close> is the iteration over the buffer.\<close>

definition write_ingest ::
    "Server \<Rightarrow> SinkTables \<Rightarrow> (ingest \<Rightarrow> repositoryIngestKey list) \<Rightarrow> ingest \<Rightarrow> time \<Rightarrow> Repository \<Rightarrow>
     go_error option \<times> Repository" where
  "write_ingest sv tb order counts flushedAt r =
     (let keys = order counts;
          (err, c, t) = writeRepositoryIngest (svBegin sv)
                          (ensureRepositoryIngestPartitions sv (repositoryIngestTable tb) (map fst keys))
                          (svBatch sv ''repository ingestion'') (svCommit sv) keys counts flushedAt
                          (rpCatalogue r, rpIngest r)
      in (err, r\<lparr>rpCatalogue := c, rpIngest := t\<rparr>))"

text \<open>
  \<open>WriteSamples\<close>: \<open>sv\<close> answers the transaction of the batch, \<open>fv\<close> that of the accounting. The deferred
  function puts the telemetry back and records the result of a failed write.
\<close>

definition WriteSamples ::
    "Server \<Rightarrow> Server \<Rightarrow> CleanupAnswers \<Rightarrow> SinkTables \<Rightarrow> duration \<Rightarrow> ((string \<rightharpoonup> string) \<Rightarrow> string) \<Rightarrow>
     (ingest \<Rightarrow> repositoryIngestKey list) \<Rightarrow> WriteClock \<Rightarrow> SampleBatch \<Rightarrow> SinkState \<Rightarrow>
     go_error option \<times> SinkState" where
  "WriteSamples sv fv a tb retention marshal order clock b s =
     (let (pending, q) = takePendingRuntime False (ckTaken clock) (skQueue s);
          (err, r) = write_transaction sv tb marshal b pending (skRepo s)
      in case err of
           Some e \<Rightarrow>
             (Some e,
              s\<lparr>skQueue := recordRuntimeResult (sbRuntime b) (ckFinished clock) (ckStarted clock) (Some e)
                            (requeueRuntime pending q),
                skRepo := r\<rparr>)
         | None \<Rightarrow>
             (let buffer = recordRepositoryIngest b (skIngest s);
                  (flushErr, buffer, r) =
                    flushRepositoryIngest (write_ingest fv tb order) False (ckFlushed clock) buffer r;
                  (cleaned, r) = cleanupRetention a tb retention (ckCleanup clock) (ckCutoff clock) (skLastCleanup s, r)
              in (None,
                  \<lparr>skQueue = recordRuntimeResult (sbRuntime b) (ckFinished clock) (ckStarted clock) None q,
                   skIngest = buffer, skLastCleanup = cleaned, skRepo = r\<rparr>)))"

section \<open>Shutdown\<close>

definition flushRuntime :: "Server \<Rightarrow> SinkTables \<Rightarrow> time \<Rightarrow> SinkState \<Rightarrow> go_error option \<times> SinkState" where
  "flushRuntime sv tb now s =
     (let (samples, q) = takePendingRuntime True now (skQueue s) in
      if samples = [] then (None, s\<lparr>skQueue := q\<rparr>)
      else let (err, r) =
                 transaction ''begin runtime telemetry flush'' (svBegin sv)
                   [ensure_partitions sv ''ensure runtime telemetry partitions''
                      (runtimeSamplesTable tb, map rtObservedAt samples),
                    writeRuntimeSamples sv tb samples]
                   ''commit runtime telemetry flush'' (svCommit sv) (skRepo s)
           in case err of
                None \<Rightarrow> (None, s\<lparr>skQueue := q, skRepo := r\<rparr>)
              | Some e \<Rightarrow> (Some e, s\<lparr>skQueue := requeueRuntime samples q, skRepo := r\<rparr>))"

definition Sink_Close ::
    "Server \<Rightarrow> Server \<Rightarrow> SinkTables \<Rightarrow> (ingest \<Rightarrow> repositoryIngestKey list) \<Rightarrow> time \<Rightarrow> time \<Rightarrow> SinkState \<Rightarrow> SinkState" where
  "Sink_Close sv fv tb order now now' s =
     (let (err, s) = flushRuntime sv tb now s;
          (flushErr, buffer, r) = flushRepositoryIngest (write_ingest fv tb order) True now' (skIngest s) (skRepo s)
      in s\<lparr>skIngest := buffer, skRepo := r\<rparr>)"

end
