(* ===== verification/SinkWrites.thy ===== *)
theory SinkWrites
  imports Sink
begin

text \<open>
  What a write of the sink does. \<open>store_batch\<close> says in one line per table what a batch adds to the
  repository; a transaction that succeeds does exactly that, one that fails does nothing, and one that
  the server does not refuse succeeds.
\<close>

section \<open>The abstract write\<close>

definition add_rows :: "pg_identifier \<times> pg_value list list \<Rightarrow> (pg_identifier \<Rightarrow> pg_value list list) \<Rightarrow> (pg_identifier \<Rightarrow> pg_value list list)" where
  "add_rows x rows = rows(fst x := rows (fst x) @ snd x)"

definition operational_rows :: "SinkTables \<Rightarrow> OperationalSamples \<Rightarrow> (pg_identifier \<times> pg_value list list) list" where
  "operational_rows tb s =
     [(databaseStatusTable tb, map databaseStatusRow (opDatabaseStatus s)),
      (instanceTable tb, map instanceRow (opInstances s)),
      (resourceLimitTable tb, map resourceLimitRow (opResourceLimits s)),
      (tablespaceTable tb, map tablespaceRow (opTablespaces s)),
      (asmDiskgroupTable tb, map asmDiskgroupRow (opASMDiskgroups s)),
      (systemCounterTable tb, map systemCounterRow (opSystemCounters s)),
      (waitClassTable tb, map waitClassRow (opWaitClasses s)),
      (systemMetricTable tb, map systemMetricRow (opSystemMetrics s)),
      (dataGuardDestinationTable tb, map dataGuardDestinationRow (opDataGuardDestinations s)),
      (dataGuardLagTable tb, map dataGuardLagRow (opDataGuardLag s)),
      (dataGuardProcessTable tb, map dataGuardProcessRow (opDataGuardProcesses s))]"

definition batch_rows ::
    "SinkTables \<Rightarrow> ((string \<rightharpoonup> string) \<Rightarrow> string) \<Rightarrow> SampleBatch \<Rightarrow> RuntimeSample list \<Rightarrow>
     (pg_identifier \<times> pg_value list list) list" where
  "batch_rows tb marshal b pending =
     (let p = sbPerformance b in
      [(samplesTable tb, map (samplesRow marshal) (sbAdditionalMetrics b)),
       (sqlSamplesTable tb, map sqlSamplesRow (pfSQL p)),
       (sessionSamplesTable tb, map sessionSamplesRow (pfSessions p)),
       (blockingSessionsTable tb, map blockingSessionsRow (pfBlockingSessions p))] @
      operational_rows tb (sbOperational b) @
      [(scrapeStatusTable tb, map scrapeStatusRow (sbScrapeStatuses b)),
       (runtimeSamplesTable tb, map runtimeSamplesRow pending)])"

definition store_batch ::
    "Server \<Rightarrow> SinkTables \<Rightarrow> ((string \<rightharpoonup> string) \<Rightarrow> string) \<Rightarrow> SampleBatch \<Rightarrow> RuntimeSample list \<Rightarrow> Repository \<Rightarrow> Repository" where
  "store_batch sv tb marshal b pending r =
     r\<lparr>rpCatalogue := fold (\<lambda>(what, parent, ts). ensureDailyPartitions (svName sv) parent ts)
                        (write_partitions tb b pending) (rpCatalogue r),
       rpRows := fold add_rows (batch_rows tb marshal b pending) (rpRows r),
       rpTexts := texts_written (sbPerformance b) (rpTexts r),
       rpCursors := cursors_written (pfSQLDetails (sbPerformance b)) (rpCursors r),
       rpPlans := plans_written (sbPerformance b) (rpPlans r),
       rpActivity := fold insert_activity (pfDatabaseActivity (sbPerformance b)) (rpActivity r),
       rpLatestStatus := fold upsert_status (sbScrapeStatuses b) (rpLatestStatus r),
       rpLatestRuntime := fold (\<lambda>i. upsert_runtime (pending ! i)) (svRuntimeOrder sv (latest_indexes pending)) (rpLatestRuntime r),
       rpConnections := (if sbConnectionStatesComplete b
                         then fold upsert_connection (sbConnectionStates b) (rpConnections r) |`
                                set (map csDatabase (sbConnectionStates b))
                         else fold upsert_connection (sbConnectionStates b) (rpConnections r))\<rparr>"

text \<open>The iterations over Go maps visit every entry once.\<close>

definition orders_ok :: "Server \<Rightarrow> bool" where
  "orders_ok sv \<longleftrightarrow>
     (\<forall>m. distinct (svTextOrder sv m) \<and> (finite (dom m) \<longrightarrow> set (svTextOrder sv m) = dom m)) \<and>
     (\<forall>m. distinct (svCursorOrder sv m) \<and> (finite (dom m) \<longrightarrow> set (svCursorOrder sv m) = dom m)) \<and>
     (\<forall>m. distinct (svRuntimeOrder sv m) \<and> (finite (ran m) \<longrightarrow> set (svRuntimeOrder sv m) = ran m))"

section \<open>Stages that succeed\<close>

lemma on_table_ok: "on_table get_t set_t st r = Inr r' \<longleftrightarrow> (\<exists>t. st (get_t r) = Inr t \<and> r' = set_t t r)"
  by (auto simp: on_table_def split: sum.splits)

lemma copyRows_ok:
  "copyRows sv table ddl cols rows d r = Inr r' \<Longrightarrow> r' = r\<lparr>rpRows := add_rows (table, rows) (rpRows r)\<rparr>"
  by (auto simp: copyRows_def add_rows_def split: if_splits option.splits)

lemma run_mapped_stages:
  assumes "\<And>x r r'. x \<in> set xs \<Longrightarrow> f x r = Inr r' \<Longrightarrow> r' = g x r"
    and "run_stages (map f xs) r = Inr r'"
  shows "r' = fold g xs r"
  using assms
proof (induction xs arbitrary: r)
  case (Cons x xs)
  obtain r1 where "f x r = Inr r1" "run_stages (map f xs) r1 = Inr r'"
    using Cons.prems(2) by (auto split: sum.splits)
  with Cons.IH [of r1] Cons.prems(1) show ?case by simp
qed simp

text \<open>Peeling the first stage off a run that succeeds.\<close>

lemma next_stage:
  "run_stages (st # sts) r = Inr r' \<Longrightarrow> (\<And>r1. st r = Inr r1 \<Longrightarrow> r1 = x) \<Longrightarrow> run_stages sts x = Inr r'"
  by (auto split: sum.splits)

text \<open>Stages that do what some functions do, run one after the other.\<close>

definition does :: "('r \<Rightarrow> 'r result) \<Rightarrow> ('r \<Rightarrow> 'r) \<Rightarrow> bool" where
  "does st f \<longleftrightarrow> (\<forall>r r'. st r = Inr r' \<longrightarrow> r' = f r)"

lemma doesI: "(\<And>r r'. st r = Inr r' \<Longrightarrow> r' = f r) \<Longrightarrow> does st f"
  by (simp add: does_def)

lemma run_stages_does:
  "list_all2 does sts fs \<Longrightarrow> run_stages sts r = Inr r' \<Longrightarrow> r' = fold (\<lambda>f. f) fs r"
proof (induction sts fs arbitrary: r rule: list_all2_induct)
  case (Cons st sts f fs)
  then obtain r1 where "st r = Inr r1" "run_stages sts r1 = Inr r'" by (auto split: sum.splits)
  with Cons show ?case by (simp add: does_def)
qed simp

lemma fold_catalogue:
  "fold (\<lambda>x r. r\<lparr>rpCatalogue := h x (rpCatalogue r)\<rparr>) xs r = r\<lparr>rpCatalogue := fold h xs (rpCatalogue r)\<rparr>"
  for r :: Repository
  by (induction xs arbitrary: r) simp_all

lemma ensure_partitions_ok:
  assumes "ensure_partitions sv what (parent, ts) r = Inr r'"
  shows "r' = r\<lparr>rpCatalogue := ensureDailyPartitions (svName sv) parent ts (rpCatalogue r)\<rparr>"
proof -
  have "r' = fold (\<lambda>day r. r\<lparr>rpCatalogue := exec_partition_ddl (svName sv) (partition_ddl parent day) (rpCatalogue r)\<rparr>)
      (partition_days ts) r"
    by (rule run_mapped_stages [where f = "partition_stage sv what parent"])
      (use assms in \<open>auto simp: ensure_partitions_def partition_stage_def\<close>)
  then show ?thesis
    using fold_catalogue [where h = "\<lambda>day. exec_partition_ddl (svName sv) (partition_ddl parent day)"]
    by (simp add: ensureDailyPartitions_def)
qed

lemma ensureWritePartitions_ok:
  assumes "ensureWritePartitions sv tb b pending r = Inr r'"
  shows "r' = r\<lparr>rpCatalogue := fold (\<lambda>(what, parent, ts). ensureDailyPartitions (svName sv) parent ts)
    (write_partitions tb b pending) (rpCatalogue r)\<rparr>"
proof -
  have "r' = fold (\<lambda>x r. r\<lparr>rpCatalogue := (case x of (what, parent, ts) \<Rightarrow> ensureDailyPartitions (svName sv) parent ts) (rpCatalogue r)\<rparr>)
      (write_partitions tb b pending) r"
    by (rule run_mapped_stages [where f = "\<lambda>(what, target). ensure_partitions sv what target"])
      (use assms in \<open>auto simp: ensureWritePartitions_def dest: ensure_partitions_ok\<close>)
  then show ?thesis by (simp only: fold_catalogue)
qed

lemma writeOperationalSamples_ok:
  "writeOperationalSamples sv tb s r = Inr r' \<Longrightarrow>
   r' = r\<lparr>rpRows := fold add_rows (operational_rows tb s) (rpRows r)\<rparr>"
  unfolding writeOperationalSamples_def operational_rows_def
  by (drule next_stage, erule copyRows_ok)+ simp

lemma writeScrapeStatuses_ok:
  "writeScrapeStatuses sv tb ss r = Inr r' \<Longrightarrow>
   r' = r\<lparr>rpRows := add_rows (scrapeStatusTable tb, map scrapeStatusRow ss) (rpRows r),
          rpLatestStatus := fold upsert_status ss (rpLatestStatus r)\<rparr>"
  by (auto simp: writeScrapeStatuses_def on_table_ok fold_map_statements
      split: sum.splits if_splits dest!: copyRows_ok send_batch_ok)

lemma writeDatabaseActivitySamples_ok:
  "writeDatabaseActivitySamples sv tb ss r = Inr r' \<Longrightarrow>
   r' = r\<lparr>rpActivity := fold insert_activity ss (rpActivity r)\<rparr>"
  by (auto simp: writeDatabaseActivitySamples_def on_table_ok fold_map_statements
      split: if_splits dest!: exec_batch_ok)

lemma latest_indexes_Nil [simp]: "latest_indexes [] = Map.empty"
  by (simp add: latest_indexes_def)

lemma writeRuntimeSamples_ok:
  assumes "writeRuntimeSamples sv tb ss r = Inr r'" and "orders_ok sv"
  shows "r' = r\<lparr>rpRows := add_rows (runtimeSamplesTable tb, map runtimeSamplesRow ss) (rpRows r),
    rpLatestRuntime := fold (\<lambda>i. upsert_runtime (ss ! i)) (svRuntimeOrder sv (latest_indexes ss)) (rpLatestRuntime r)\<rparr>"
proof (cases "ss = []")
  case True
  have "set (svRuntimeOrder sv Map.empty) = ran (Map.empty :: string \<times> string \<rightharpoonup> nat)"
    using assms(2) unfolding orders_ok_def by (metis finite.emptyI ran_empty)
  then have "svRuntimeOrder sv Map.empty = []" by simp
  with True assms(1) show ?thesis by (simp add: writeRuntimeSamples_def add_rows_def)
next
  case False
  then obtain r1 t where r1: "copyRows sv (runtimeSamplesTable tb) runtimeSamplesDDL runtimeSamplesColumns
      (map runtimeSamplesRow ss) ''runtime samples'' r = Inr r1"
    and t: "upsert_latest_runtime (svBatch sv ''latest runtime status'') (svRuntimeOrder sv (latest_indexes ss)) ss
      (rpLatestRuntime r1) = Inr t" and r': "r' = r1\<lparr>rpLatestRuntime := t\<rparr>"
    using assms(1) by (auto simp: writeRuntimeSamples_def on_table_ok split: sum.splits)
  show ?thesis
    using copyRows_ok [OF r1] send_batch_ok [OF t [unfolded upsert_latest_runtime_def]] r'
    by (simp add: fold_map_statements)
qed

lemma finite_dom_texts: "finite (dom (fst (collectSQLTextUpdates p)))"
proof -
  have "finite (dom m) \<Longrightarrow> finite (dom (fold (\<lambda>(k, x, t). add_text k x t) xs m))" for xs m
    by (induction xs arbitrary: m) (auto simp: add_text_def Let_def split: option.splits)
  then show ?thesis by (simp add: collect_texts)
qed

lemma finite_dom_cursors: "finite (dom (collectSQLCursorMetadata samples))"
proof -
  have "finite (dom m) \<Longrightarrow> finite (dom (fold add_cursor xs m))" for xs m
    by (induction xs arbitrary: m) (auto simp: add_cursor_def split: option.splits)
  then show ?thesis by (simp add: collectSQLCursorMetadata_def)
qed

lemma upsert_stages_ok:
  assumes "orders_ok sv"
  shows "write_texts_stage sv p r = Inr r' \<Longrightarrow> r' = r\<lparr>rpTexts := texts_written p (rpTexts r)\<rparr>"
    and "write_cursors_stage sv ds r = Inr r' \<Longrightarrow> r' = r\<lparr>rpCursors := cursors_written ds (rpCursors r)\<rparr>"
    and "write_plans_stage sv p r = Inr r' \<Longrightarrow> r' = r\<lparr>rpPlans := plans_written p (rpPlans r)\<rparr>"
  using assms
  by (auto simp: write_texts_stage_def write_cursors_stage_def write_plans_stage_def on_table_ok orders_ok_def
      finite_dom_texts finite_dom_cursors
      dest!: writeSQLTexts_ok writeSQLCursorMetadata_ok writeSQLPlans_ok)

section \<open>Properties of the transaction\<close>

lemma write_connections_stage_ok:
  "write_connections_stage sv ss full r = Inr r' \<Longrightarrow>
   r' = r\<lparr>rpConnections := (if full then fold upsert_connection ss (rpConnections r) |` set (map csDatabase ss)
                          else fold upsert_connection ss (rpConnections r))\<rparr>"
  by (auto simp: write_connections_stage_def on_table_ok dest!: writeConnectionStates_ok)

lemma write_stages_ok:
  assumes "run_stages (write_stages sv tb marshal b pending) r = Inr r'" and "orders_ok sv"
  shows "r' = store_batch sv tb marshal b pending r"
proof -
  let ?p = "sbPerformance b"
  let ?copy = "\<lambda>table rows r. r\<lparr>rpRows := add_rows (table, rows) (rpRows r)\<rparr>"
  have "list_all2 does (write_stages sv tb marshal b pending)
    [\<lambda>r. r\<lparr>rpCatalogue := fold (\<lambda>(what, parent, ts). ensureDailyPartitions (svName sv) parent ts)
              (write_partitions tb b pending) (rpCatalogue r)\<rparr>,
     ?copy (samplesTable tb) (map (samplesRow marshal) (sbAdditionalMetrics b)),
     \<lambda>r. r\<lparr>rpTexts := texts_written ?p (rpTexts r)\<rparr>,
     \<lambda>r. r\<lparr>rpCursors := cursors_written (pfSQLDetails ?p) (rpCursors r)\<rparr>,
     \<lambda>r. r\<lparr>rpPlans := plans_written ?p (rpPlans r)\<rparr>,
     ?copy (sqlSamplesTable tb) (map sqlSamplesRow (pfSQL ?p)),
     ?copy (sessionSamplesTable tb) (map sessionSamplesRow (pfSessions ?p)),
     ?copy (blockingSessionsTable tb) (map blockingSessionsRow (pfBlockingSessions ?p)),
     \<lambda>r. r\<lparr>rpActivity := fold insert_activity (pfDatabaseActivity ?p) (rpActivity r)\<rparr>,
     \<lambda>r. r\<lparr>rpRows := fold add_rows (operational_rows tb (sbOperational b)) (rpRows r)\<rparr>,
     \<lambda>r. r\<lparr>rpRows := add_rows (scrapeStatusTable tb, map scrapeStatusRow (sbScrapeStatuses b)) (rpRows r),
           rpLatestStatus := fold upsert_status (sbScrapeStatuses b) (rpLatestStatus r)\<rparr>,
     \<lambda>r. r\<lparr>rpConnections := (if sbConnectionStatesComplete b
             then fold upsert_connection (sbConnectionStates b) (rpConnections r) |` set (map csDatabase (sbConnectionStates b))
             else fold upsert_connection (sbConnectionStates b) (rpConnections r))\<rparr>,
     \<lambda>r. r\<lparr>rpRows := add_rows (runtimeSamplesTable tb, map runtimeSamplesRow pending) (rpRows r),
           rpLatestRuntime := fold (\<lambda>i. upsert_runtime (pending ! i)) (svRuntimeOrder sv (latest_indexes pending))
             (rpLatestRuntime r)\<rparr>]"
    unfolding write_stages_def Let_def writeSQLSamples_def writeSessionSamples_def writeBlockingSessionSamples_def
    by (intro list.rel_intros doesI; erule
        ensureWritePartitions_ok copyRows_ok upsert_stages_ok [OF assms(2)] writeDatabaseActivitySamples_ok
        writeOperationalSamples_ok writeScrapeStatuses_ok write_connections_stage_ok
        writeRuntimeSamples_ok [OF _ assms(2)])
  from run_stages_does [OF this assms(1)] show ?thesis
    by (simp add: store_batch_def batch_rows_def Let_def)
qed

text \<open>A server that refuses nothing, tables with the default names and an empty repository.\<close>

definition example_server :: Server where
  "example_server = \<lparr>svName = (\<lambda>s. s), svBegin = None, svPartition = (\<lambda>_ _. None), svCopy = (\<lambda>_. None),
     svBatch = (\<lambda>_. (\<lambda>_. None, None)), svExec = (\<lambda>_. None), svCommit = Committed,
     svTextOrder = (\<lambda>m. sorted_list_of_set (dom m)), svCursorOrder = (\<lambda>m. sorted_list_of_set (dom m)),
     svRuntimeOrder = (\<lambda>m. sorted_list_of_set (ran m))\<rparr>"

definition example_tables :: SinkTables where
  "example_tables = sink_tables \<lparr>pgURL = ''postgres'', pgMaxConns = None, pgMinConns = None,
     pgConnMaxLifetime = None, pgRetention = None, pgAutoMigrate = None, pgSamplesTable = [],
     pgSQLSamplesTable = [], pgSessionSamplesTable = [], pgBlockingSessionsTable = [],
     pgDatabaseActivityTable = []\<rparr>"

definition empty_repository :: Repository where
  "empty_repository = \<lparr>rpCatalogue = Map.empty, rpRows = (\<lambda>_. []), rpTexts = Map.empty, rpCursors = Map.empty,
     rpPlans = Map.empty, rpActivity = Map.empty, rpLatestStatus = Map.empty, rpLatestRuntime = Map.empty,
     rpConnections = Map.empty, rpIngest = Map.empty\<rparr>"

lemma example_orders: "orders_ok (example_server\<lparr>svBegin := e\<rparr>)"
  by (simp add: orders_ok_def example_server_def)

text \<open>
  C1: a batch is stored completely or not at all. A write that reports success has done to the repository
  exactly what \<open>store_batch\<close> says, in every table; a write that reports an error has done nothing, unless the
  answer to its commit was lost, when it has done everything.
\<close>
theorem write_all_or_nothing:
  assumes "orders_ok sv" and "write_transaction sv tb marshal b pending r = (err, r')"
  shows "(err = None \<longrightarrow> r' = store_batch sv tb marshal b pending r) \<and>
    (err \<noteq> None \<longrightarrow> r' = r \<or> lost_commit (svCommit sv) \<and> r' = store_batch sv tb marshal b pending r)"
proof -
  have "err = None \<Longrightarrow> run_stages (write_stages sv tb marshal b pending) r = Inr r'"
    using assms(2) by (simp add: write_transaction_def transaction_success)
  moreover have "r' = r \<or> run_stages (write_stages sv tb marshal b pending) r = Inr r'"
    using assms(2) unfolding write_transaction_def by (rule transaction_all_or_nothing)
  moreover have "err \<noteq> None \<Longrightarrow> \<not> lost_commit (svCommit sv) \<Longrightarrow> r' = r"
    using assms(2) unfolding write_transaction_def by (cases err) (auto dest: transaction_failure)
  ultimately show ?thesis using write_stages_ok [OF _ assms(1)] by blast
qed

section \<open>Writes that nothing refuses\<close>

definition quiet :: "Server \<Rightarrow> bool" where
  "quiet sv \<longleftrightarrow>
     svBegin sv = None \<and> svPartition sv = (\<lambda>_ _. None) \<and> svCopy sv = (\<lambda>_. None) \<and>
     svBatch sv = (\<lambda>_. (\<lambda>_. None, None)) \<and> svExec sv = (\<lambda>_. None) \<and> svCommit sv = Committed"

text \<open>Every row has a time in a year of four digits, and the server keeps the names of the partitions.\<close>

definition times_ok :: "Server \<Rightarrow> SinkTables \<Rightarrow> SampleBatch \<Rightarrow> RuntimeSample list \<Rightarrow> bool" where
  "times_ok sv tb b pending \<longleftrightarrow>
     (\<forall>(what, parent, ts) \<in> set (write_partitions tb b pending).
        kept_name (svName sv) parent \<and> (\<forall>t \<in> set ts. t \<noteq> 0 \<and> four_digit_year t))"

definition texts_ok :: "SinkTables \<Rightarrow> ((string \<rightharpoonup> string) \<Rightarrow> string) \<Rightarrow> SampleBatch \<Rightarrow> RuntimeSample list \<Rightarrow> bool" where
  "texts_ok tb marshal b pending \<longleftrightarrow>
     list_all (\<lambda>(table, rows). list_all (list_all encodable) rows) (batch_rows tb marshal b pending) \<and>
     list_all (\<lambda>s. list_all encodable (databaseActivityRow s)) (pfDatabaseActivity (sbPerformance b))"

lemma row_times [simp]:
  "row_time (samplesRow marshal s0) = Some (msCollectedAt s0)"
  "row_time (sqlSamplesRow s1) = Some (sqCollectedAt s1)"
  "row_time (sessionSamplesRow s2) = Some (seCollectedAt s2)"
  "row_time (blockingSessionsRow s3) = Some (bsCollectedAt s3)"
  "row_time (runtimeSamplesRow s4) = Some (rtObservedAt s4)"
  "row_time (scrapeStatusRow s5) = Some (stCollectedAt s5)"
  "row_time (databaseStatusRow s6) = Some (dsCollectedAt s6)"
  "row_time (instanceRow s7) = Some (isCollectedAt s7)"
  "row_time (resourceLimitRow s8) = Some (rlCollectedAt s8)"
  "row_time (tablespaceRow s9) = Some (tsCollectedAt s9)"
  "row_time (asmDiskgroupRow s10) = Some (asmCollectedAt s10)"
  "row_time (systemCounterRow s11) = Some (scCollectedAt s11)"
  "row_time (waitClassRow s12) = Some (wcCollectedAt s12)"
  "row_time (systemMetricRow s13) = Some (smCollectedAt s13)"
  "row_time (dataGuardDestinationRow s14) = Some (dgdCollectedAt s14)"
  "row_time (dataGuardLagRow s15) = Some (dglCollectedAt s15)"
  "row_time (dataGuardProcessRow s16) = Some (dgpCollectedAt s16)"
  by (simp_all add: samplesRow_def sqlSamplesRow_def sessionSamplesRow_def blockingSessionsRow_def runtimeSamplesRow_def
      scrapeStatusRow_def databaseStatusRow_def instanceRow_def resourceLimitRow_def tablespaceRow_def
      asmDiskgroupRow_def systemCounterRow_def waitClassRow_def systemMetricRow_def dataGuardDestinationRow_def
      dataGuardLagRow_def dataGuardProcessRow_def)

text \<open>A stage that succeeds whenever the catalogue is \<open>C\<close>, and leaves it so.\<close>

definition goes :: "catalogue \<Rightarrow> (Repository \<Rightarrow> Repository result) \<Rightarrow> bool" where
  "goes C st \<longleftrightarrow> (\<forall>r. rpCatalogue r = C \<longrightarrow> (\<exists>r'. st r = Inr r' \<and> rpCatalogue r' = C))"

lemma goesI: "(\<And>r. rpCatalogue r = C \<Longrightarrow> \<exists>r'. st r = Inr r' \<and> rpCatalogue r' = C) \<Longrightarrow> goes C st"
  by (simp add: goes_def)

lemma goesD: "goes C st \<Longrightarrow> rpCatalogue r = C \<Longrightarrow> \<exists>r'. st r = Inr r' \<and> rpCatalogue r' = C"
  by (simp add: goes_def)

lemma run_stages_goes: "list_all (goes C) sts \<Longrightarrow> goes C (run_stages sts)"
proof (induction sts)
  case (Cons st sts)
  then show ?case unfolding goes_def by (auto split: sum.splits)
qed (simp add: goes_def)

lemma copyRows_goes:
  assumes "quiet sv" and "\<forall>row \<in> set rows. conforms ddl cols row"
    and "list_all (list_all encodable) rows"
    and "\<forall>row \<in> set rows. \<exists>t. row_time row = Some t \<and> routed C table t"
  shows "goes C (copyRows sv table ddl cols rows d)"
proof (rule goesI)
  fix r :: Repository assume "rpCatalogue r = C"
  then have "list_all (accepted r table ddl cols) rows"
    using assms(2-4) by (fastforce simp: list_all_iff accepted_def)
  then show "\<exists>r'. copyRows sv table ddl cols rows d r = Inr r' \<and> rpCatalogue r' = C"
    using assms(1) \<open>rpCatalogue r = C\<close> by (simp add: copyRows_def quiet_def)
qed

lemma on_table_goes:
  "(\<And>t. \<exists>t'. st t = Inr t') \<Longrightarrow> (\<And>t r. rpCatalogue (set_t t r) = rpCatalogue r) \<Longrightarrow> goes C (on_table get_t set_t st)"
  by (rule goesI) (metis on_table_ok)

lemma ensure_partitions_quiet:
  assumes "quiet sv"
  shows "ensure_partitions sv what (parent, ts) r =
    Inr (r\<lparr>rpCatalogue := ensureDailyPartitions (svName sv) parent ts (rpCatalogue r)\<rparr>)"
proof -
  have "\<exists>r'. run_stages (map (partition_stage sv what parent) days) r = Inr r'" for days
    using assms by (induction days arbitrary: r) (simp_all add: partition_stage_def quiet_def exec_statement_def)
  then obtain r' where "ensure_partitions sv what (parent, ts) r = Inr r'"
    by (auto simp: ensure_partitions_def)
  with ensure_partitions_ok [OF this] show ?thesis by simp
qed

lemma ensure_routes:
  assumes "own_partitions c" and "kept_name name parent" and "\<forall>t \<in> set ts. t \<noteq> 0 \<and> four_digit_year t"
  shows "own_partitions (ensureDailyPartitions name parent ts c) \<and>
    (\<forall>t \<in> set ts. routed (ensureDailyPartitions name parent ts c) parent t) \<and>
    c \<subseteq>\<^sub>m ensureDailyPartitions name parent ts c"
proof -
  have "\<forall>day \<in> set (partition_days ts). plain_day day"
    using assms(3) plain_dayStart by (auto simp: partition_days_set)
  note f = fold_own_ddl [OF assms(1,2) this, folded ensureDailyPartitions_def]
  have "routed (ensureDailyPartitions name parent ts c) parent t" if "t \<in> set ts" for t
  proof -
    have "dayStartUTC t \<in> set (partition_days ts)" using that assms(3) by (auto simp: partition_days_set)
    then show ?thesis using f dayStartUTC_bounds [of t] unfolding routed_def by blast
  qed
  then show ?thesis using f by (auto simp: map_le_def)
qed

lemma routed_mono:
  assumes "routed c parent t" and "c \<subseteq>\<^sub>m c'"
  shows "routed c' parent t"
proof -
  obtain name start stop where n: "c name = Some (parent, start, stop)" "start \<le> t" "t < stop"
    using assms(1) unfolding routed_def by blast
  then have "c' name = Some (parent, start, stop)" using assms(2) by (simp add: map_le_def dom_def)
  with n show ?thesis unfolding routed_def by blast
qed

text \<open>After the first stage every row of the batch has a partition.\<close>

lemma ensure_all_routes:
  assumes "own_partitions c" and "\<forall>(what, parent, ts) \<in> set ps. kept_name name parent \<and> (\<forall>t \<in> set ts. t \<noteq> 0 \<and> four_digit_year t)"
  defines "c' \<equiv> fold (\<lambda>(what, parent, ts). ensureDailyPartitions name parent ts) ps c"
  shows "own_partitions c' \<and> c \<subseteq>\<^sub>m c' \<and> (\<forall>(what, parent, ts) \<in> set ps. \<forall>t \<in> set ts. routed c' parent t)"
  using assms(1,2) unfolding c'_def
proof (induction ps arbitrary: c)
  case (Cons p ps)
  obtain what parent ts where p: "p = (what, parent, ts)" by (cases p)
  let ?c = "ensureDailyPartitions name parent ts c"
  have e: "own_partitions ?c \<and> (\<forall>t \<in> set ts. routed ?c parent t) \<and> c \<subseteq>\<^sub>m ?c"
    using Cons.prems p by (intro ensure_routes) auto
  have ih: "own_partitions (fold (\<lambda>(what, parent, ts). ensureDailyPartitions name parent ts) ps ?c) \<and>
      ?c \<subseteq>\<^sub>m fold (\<lambda>(what, parent, ts). ensureDailyPartitions name parent ts) ps ?c \<and>
      (\<forall>(what, parent, ts) \<in> set ps. \<forall>t \<in> set ts.
         routed (fold (\<lambda>(what, parent, ts). ensureDailyPartitions name parent ts) ps ?c) parent t)"
    using e Cons.prems(2) by (intro Cons.IH) auto
  then show ?case using e by (auto simp: p intro: map_le_trans routed_mono)
qed simp

lemma copy_mapped_goes:
  assumes "quiet sv" and "\<And>s. conforms ddl cols (f s)" and "\<And>s. row_time (f s) = Some (g s)"
    and "list_all (list_all encodable) (map f ss)" and "\<forall>s \<in> set ss. routed C table (g s)"
  shows "goes C (copyRows sv table ddl cols (map f ss) d)"
  using assms by (intro copyRows_goes) auto

lemmas copies_go =
  copy_mapped_goes [OF _ samples_fits row_times(1)]
  copy_mapped_goes [OF _ sqlSamples_fits row_times(2)]
  copy_mapped_goes [OF _ sessionSamples_fits row_times(3)]
  copy_mapped_goes [OF _ blockingSessions_fits row_times(4)]
  copy_mapped_goes [OF _ scrapeStatus_fits row_times(6)]
  copy_mapped_goes [OF _ databaseStatus_fits row_times(7)]
  copy_mapped_goes [OF _ instance_fits row_times(8)]
  copy_mapped_goes [OF _ resourceLimit_fits row_times(9)]
  copy_mapped_goes [OF _ tablespace_fits row_times(10)]
  copy_mapped_goes [OF _ asmDiskgroup_fits row_times(11)]
  copy_mapped_goes [OF _ systemCounter_fits row_times(12)]
  copy_mapped_goes [OF _ waitClass_fits row_times(13)]
  copy_mapped_goes [OF _ systemMetric_fits row_times(14)]
  copy_mapped_goes [OF _ dataGuardDestination_fits row_times(15)]
  copy_mapped_goes [OF _ dataGuardLag_fits row_times(16)]
  copy_mapped_goes [OF _ dataGuardProcess_fits row_times(17)]
  copy_mapped_goes [OF _ runtimeSamples_fits row_times(5)]

lemma upserts_go:
  assumes "quiet sv"
  shows "goes C (write_texts_stage sv p)" and "goes C (write_cursors_stage sv ds)" and "goes C (write_plans_stage sv p)"
    and "goes C (write_connections_stage sv cs full)"
  unfolding write_texts_stage_def write_cursors_stage_def write_plans_stage_def write_connections_stage_def
  using assms
  by (intro on_table_goes; auto simp: quiet_def writeSQLTexts_def writeSQLCursorMetadata_def writeSQLPlans_def
      writeConnectionStates_def exec_statement_def Let_def split: prod.splits)+

lemma activity_goes:
  assumes "quiet sv" and "list_all (\<lambda>s. list_all encodable (databaseActivityRow s)) ss"
    and "\<forall>s \<in> set ss. routed C (databaseActivityTable tb) (daSampleTime s)"
  shows "goes C (writeDatabaseActivitySamples sv tb ss)"
proof (rule goesI)
  fix r :: Repository assume "rpCatalogue r = C"
  moreover from this have "list_all (activity_accepted r (databaseActivityTable tb)) ss"
    using assms(2,3) by (simp add: list_all_iff activity_accepted_def databaseActivity_fits)
  ultimately show "\<exists>r'. writeDatabaseActivitySamples sv tb ss r = Inr r' \<and> rpCatalogue r' = C"
    using assms(1) by (simp add: writeDatabaseActivitySamples_def quiet_def on_table_def)
qed

lemma latest_go:
  assumes "quiet sv"
  shows "goes C (\<lambda>r. if ss = [] then Inr r
      else on_table rpLatestStatus (\<lambda>t r. r\<lparr>rpLatestStatus := t\<rparr>)
        (send_batch ''upsert latest scrape status'' ''close latest scrape status batch''
           (svBatch sv ''latest scrape status'') (map upsert_status ss)) r)"
    and "goes C (on_table rpLatestRuntime (\<lambda>t r. r\<lparr>rpLatestRuntime := t\<rparr>)
           (upsert_latest_runtime (svBatch sv ''latest runtime status'') order rs))"
  using assms by (auto simp: goes_def quiet_def on_table_def upsert_latest_runtime_def)

lemma later_stages_go:
  assumes q: "quiet sv" and "texts_ok tb marshal b pending"
    and "\<forall>(what, parent, ts) \<in> set (write_partitions tb b pending). \<forall>t \<in> set ts. routed C parent t"
  shows "list_all (goes C) (tl (write_stages sv tb marshal b pending))"
proof -
  note encodable = assms(2) [unfolded texts_ok_def batch_rows_def operational_rows_def Let_def, simplified]
  note routes = assms(3) [unfolded write_partitions_def Let_def, simplified]
  have operational: "goes C (writeOperationalSamples sv tb (sbOperational b))"
    unfolding writeOperationalSamples_def
    by (rule run_stages_goes) (use encodable routes in \<open>simp add: copies_go [OF q] list_all_filter_map\<close>)
  have statuses: "goes C (writeScrapeStatuses sv tb (sbScrapeStatuses b))"
    unfolding writeScrapeStatuses_def
    by (rule run_stages_goes) (use encodable routes in \<open>simp add: copies_go [OF q] latest_go [OF q] list_all_filter_map\<close>)
  have runtime: "goes C (writeRuntimeSamples sv tb pending)"
  proof (cases "pending = []")
    case False
    then show ?thesis unfolding writeRuntimeSamples_def
      using encodable routes
      by (simp, intro run_stages_goes) (simp add: copies_go [OF q] latest_go [OF q] list_all_filter_map)
  qed (simp add: writeRuntimeSamples_def goes_def)
  show ?thesis
    unfolding write_stages_def Let_def writeSQLSamples_def writeSessionSamples_def writeBlockingSessionSamples_def
    using encodable routes operational statuses runtime
    by (simp add: copies_go [OF q] upserts_go [OF q] activity_goes [OF q] list_all_filter_map)
qed

lemma quiet_write:
  assumes "quiet sv" and "own_partitions (rpCatalogue r)" and "times_ok sv tb b pending"
    and "texts_ok tb marshal b pending"
  shows "\<exists>r'. write_transaction sv tb marshal b pending r = (None, r') \<and> own_partitions (rpCatalogue r')"
proof -
  let ?ps = "write_partitions tb b pending"
  define C where "C = fold (\<lambda>(what, parent, ts). ensureDailyPartitions (svName sv) parent ts) ?ps (rpCatalogue r)"
  have C: "own_partitions C" "\<forall>(what, parent, ts) \<in> set ?ps. \<forall>t \<in> set ts. routed C parent t"
    using ensure_all_routes [OF assms(2), of ?ps "svName sv"] assms(3) by (simp_all add: C_def times_ok_def)
  have first: "ensureWritePartitions sv tb b pending r = Inr (r\<lparr>rpCatalogue := C\<rparr>)"
  proof -
    have "\<exists>r'. run_stages (map (\<lambda>(what, target). ensure_partitions sv what target) ps) r = Inr r'" for ps
      using assms(1) by (induction ps arbitrary: r) (auto simp: ensure_partitions_quiet split: prod.splits)
    then obtain r' where "ensureWritePartitions sv tb b pending r = Inr r'"
      by (auto simp: ensureWritePartitions_def)
    with ensureWritePartitions_ok [OF this] show ?thesis by (simp add: C_def)
  qed
  have "goes C (run_stages (tl (write_stages sv tb marshal b pending)))"
    by (rule run_stages_goes [OF later_stages_go [OF assms(1,4) C(2)]])
  then obtain r' where r': "run_stages (tl (write_stages sv tb marshal b pending)) (r\<lparr>rpCatalogue := C\<rparr>) = Inr r'"
    "rpCatalogue r' = C"
    using goesD [of C _ "r\<lparr>rpCatalogue := C\<rparr>"] by auto
  then have "run_stages (write_stages sv tb marshal b pending) r = Inr r'"
    using first by (simp add: write_stages_def Let_def)
  then have "write_transaction sv tb marshal b pending r = (None, r')"
    using assms(1) by (simp add: write_transaction_def transaction_success quiet_def)
  then show ?thesis using r'(2) C(1) by blast
qed

text \<open>
  C20: a write that the server does not refuse succeeds. If every row has a time and well-formed text and the
  server keeps the names of the partitions, the partitions the first stage creates cover every row, so
  no later stage fails; the batch is stored and the partitions are still the sink's own.
\<close>
theorem quiet_write_succeeds:
  assumes "quiet sv" and "own_partitions (rpCatalogue r)" and "times_ok sv tb b pending"
    and "texts_ok tb marshal b pending"
  shows "\<exists>r'. write_transaction sv tb marshal b pending r = (None, r') \<and> own_partitions (rpCatalogue r')"
  by (rule quiet_write [OF assms])

text \<open>Rows of the instant 5 have a time that the example server takes.\<close>

lemma example_times_ok:
  assumes "list_all (\<lambda>(what, parent, ts). set ts \<subseteq> {5}) (write_partitions example_tables b pending)"
  shows "times_ok example_server example_tables b pending"
proof -
  have "kept_name (\<lambda>s. s) p" if "p \<noteq> []" for p using that by (simp add: kept_name_def)
  moreover have "siblingIdentifier p t \<noteq> []" for p t by (auto simp: siblingIdentifier_def)
  ultimately have "list_all (\<lambda>(what, parent, ts). kept_name (\<lambda>s. s) parent) (write_partitions example_tables b pending)"
    by (simp add: write_partitions_def Let_def example_tables_def sink_tables_def)
  then show ?thesis
    using assms plain_day_0(2) by (fastforce simp: times_ok_def example_server_def list_all_iff)
qed

lemma example_times: "times_ok example_server example_tables example_batch []"
  by (rule example_times_ok) (simp add: write_partitions_def Let_def example_batch_def no_performance_def no_operational_def)

lemma example_texts_ok: "texts_ok example_tables (\<lambda>_. []) example_batch []"
  by (simp add: texts_ok_def batch_rows_def operational_rows_def Let_def example_batch_def no_performance_def
      no_operational_def scrapeStatusRow_def byte_of_def utf8_width_def pg_count_def)

theorem quiet_write_succeeds_witness:
  "\<exists>r'. write_transaction example_server example_tables (\<lambda>_. []) example_batch [] empty_repository = (None, r')"
  using quiet_write_succeeds [OF _ _ example_times example_texts_ok, of empty_repository]
  by (auto simp: quiet_def example_server_def empty_repository_def own_partitions_def)

theorem write_all_or_nothing_witness:
  "write_transaction example_server example_tables (\<lambda>_. []) example_batch [] empty_repository =
     (None, store_batch example_server example_tables (\<lambda>_. []) example_batch [] empty_repository) \<and>
   snd (write_transaction (example_server\<lparr>svBegin := Some ErrBadConn\<rparr>) example_tables (\<lambda>_. []) example_batch []
     empty_repository) = empty_repository"
proof
  have quiet: "quiet example_server" and own: "own_partitions (rpCatalogue empty_repository)"
    by (simp_all add: quiet_def example_server_def empty_repository_def own_partitions_def)
  from quiet_write [OF quiet own example_times example_texts_ok]
  obtain r' where w: "write_transaction example_server example_tables (\<lambda>_. []) example_batch [] empty_repository = (None, r')"
    by blast
  have "orders_ok example_server" using example_orders by (simp add: orders_ok_def example_server_def)
  from write_all_or_nothing [OF this w] show
    "write_transaction example_server example_tables (\<lambda>_. []) example_batch [] empty_repository =
       (None, store_batch example_server example_tables (\<lambda>_. []) example_batch [] empty_repository)"
    by (simp add: w)
next
  let ?sv = "example_server\<lparr>svBegin := Some ErrBadConn\<rparr>"
  obtain err r' where w: "write_transaction ?sv example_tables (\<lambda>_. []) example_batch [] empty_repository = (err, r')"
    by (cases "write_transaction ?sv example_tables (\<lambda>_. []) example_batch [] empty_repository") blast
  then have "err \<noteq> None" by (auto simp: write_transaction_def transaction_def)
  with write_all_or_nothing [OF example_orders w] have "r' = empty_repository"
    by (auto simp: example_server_def)
  then show "snd (write_transaction ?sv example_tables (\<lambda>_. []) example_batch [] empty_repository) = empty_repository"
    by (simp add: w)
qed

section \<open>Failed writes\<close>

text \<open>What \<open>recordRuntimeResult\<close> queues.\<close>

definition result_sample :: "RuntimeSample \<Rightarrow> time \<Rightarrow> time \<Rightarrow> go_error option \<Rightarrow> RuntimeSample" where
  "result_sample s now started err = s\<lparr>rtFinishedAt := now, rtObservedAt := now,
     rtPostgreSQLWriteDurationSeconds := duration_seconds (time_sub now started),
     rtTotalDurationSeconds :=
       (let d = duration_seconds (time_sub now (rtScheduledAt s)) in if d < 0 then 0 else d),
     rtPostgreSQLWriteSuccess := (err = None),
     rtPostgreSQLErrorMessage :=
       (case err of None \<Rightarrow> rtPostgreSQLErrorMessage s | Some e \<Rightarrow> Some (take 2000 (err_message e)))\<rparr>"

lemma recordRuntimeResult_eq:
  "recordRuntimeResult sample now started err q =
     (case sample of None \<Rightarrow> q
      | Some s \<Rightarrow> q\<lparr>pendingRuntime :=
          keep_last maxPendingRuntimeSamples (pendingRuntime q @ [result_sample s now started err])\<rparr>)"
proof (cases sample)
  case (Some s)
  have "queueRuntime [x] q = q\<lparr>pendingRuntime := keep_last maxPendingRuntimeSamples (pendingRuntime q @ [x])\<rparr>" for x
    using pendingRuntime_queue [of "[x]" q] by (auto simp: queueRuntime_def Let_def)
  then show ?thesis
    by (simp add: Some recordRuntimeResult_def result_sample_def Let_def split: option.split)
qed (simp add: recordRuntimeResult_def)

lemma takePendingRuntime_fields:
  assumes "takePendingRuntime force now q = (taken, q')"
  shows "runtimeFlushInterval q' = runtimeFlushInterval q"
    and "lastRuntimeFlushAttempt q' = (if taken = [] then lastRuntimeFlushAttempt q else now)"
    and "taken @ pendingRuntime q' = pendingRuntime q" and "taken \<noteq> [] \<Longrightarrow> taken = pendingRuntime q"
  using assms by (auto simp: takePendingRuntime_def Let_def split: if_splits)

lemma requeueRuntime_restores:
  assumes "takePendingRuntime force now q = (taken, q')" and "length (pendingRuntime q) \<le> maxPendingRuntimeSamples"
  shows "requeueRuntime taken q' = q'\<lparr>pendingRuntime := pendingRuntime q\<rparr>"
  using takePendingRuntime_fields(3) [OF assms(1)] assms(2) by (auto simp: requeueRuntime_def Let_def)

lemma WriteSamples_error:
  assumes "WriteSamples sv fv a tb retention marshal order clock b k = (Some e, k')"
    and "takePendingRuntime False (ckTaken clock) (skQueue k) = (taken, q)"
  shows "write_transaction sv tb marshal b taken (skRepo k) = (Some e, skRepo k')"
    and "k' = k\<lparr>skQueue := recordRuntimeResult (sbRuntime b) (ckFinished clock) (ckStarted clock) (Some e)
      (requeueRuntime taken q), skRepo := skRepo k'\<rparr>"
proof -
  obtain err r where w: "write_transaction sv tb marshal b taken (skRepo k) = (err, r)" by fastforce
  have "err = Some e" and k': "k' = k\<lparr>skQueue := recordRuntimeResult (sbRuntime b) (ckFinished clock)
      (ckStarted clock) (Some e) (requeueRuntime taken q), skRepo := r\<rparr>"
    using assms by (auto simp: WriteSamples_def w Let_def split: option.splits prod.splits)
  with w show "write_transaction sv tb marshal b taken (skRepo k) = (Some e, skRepo k')"
    and "k' = k\<lparr>skQueue := recordRuntimeResult (sbRuntime b) (ckFinished clock) (ckStarted clock) (Some e)
      (requeueRuntime taken q), skRepo := skRepo k'\<rparr>" by simp_all
qed

text \<open>
  C25: a failed write keeps what there was. When \<open>WriteSamples\<close> reports an error whose commit was not lost, the
  repository, the ingestion accounting and the time of the last clean-up are as before. Of the telemetry
  buffer, the flush interval is as before, the last attempt is this write's if it took samples, and the
  samples are those of before in their order, with the telemetry of the failed cycle itself behind them,
  marked as failed and carrying the first 2000 bytes of the error. The buffer is within its
  bound before, as it always is; when it was full, its oldest sample is dropped for that; nothing else ever is.
\<close>
theorem failed_write_loses_nothing:
  assumes "WriteSamples sv fv a tb retention marshal order clock b s = (Some e, s')"
    and "\<not> lost_commit (svCommit sv)"
    and "length (pendingRuntime (skQueue s)) \<le> maxPendingRuntimeSamples"
  shows "skRepo s' = skRepo s \<and> skIngest s' = skIngest s \<and> skLastCleanup s' = skLastCleanup s \<and>
    runtimeFlushInterval (skQueue s') = runtimeFlushInterval (skQueue s) \<and>
    lastRuntimeFlushAttempt (skQueue s') =
      (if fst (takePendingRuntime False (ckTaken clock) (skQueue s)) = []
       then lastRuntimeFlushAttempt (skQueue s) else ckTaken clock) \<and>
    (case sbRuntime b of
       None \<Rightarrow> pendingRuntime (skQueue s') = pendingRuntime (skQueue s)
     | Some sample \<Rightarrow>
         \<exists>x. pendingRuntime (skQueue s') = (if length (pendingRuntime (skQueue s)) < maxPendingRuntimeSamples
               then pendingRuntime (skQueue s) else tl (pendingRuntime (skQueue s))) @ [x] \<and>
             \<not> rtPostgreSQLWriteSuccess x \<and> rtPostgreSQLErrorMessage x = Some (take 2000 (err_message e)) \<and>
             rtScheduler x = rtScheduler sample \<and> rtScheduledAt x = rtScheduledAt sample)"
proof -
  obtain pending q where t: "takePendingRuntime False (ckTaken clock) (skQueue s) = (pending, q)" by fastforce
  note w = WriteSamples_error [OF assms(1) t]
  have "skRepo s' = skRepo s"
    by (rule transaction_failure [OF w(1) [unfolded write_transaction_def] assms(2)])
  moreover have "skQueue s' = recordRuntimeResult (sbRuntime b) (ckFinished clock) (ckStarted clock) (Some e)
      (q\<lparr>pendingRuntime := pendingRuntime (skQueue s)\<rparr>)" "skIngest s' = skIngest s" "skLastCleanup s' = skLastCleanup s"
    using requeueRuntime_restores [OF t assms(3)] by (subst w(2); simp)+
  moreover have "keep_last maxPendingRuntimeSamples (xs @ [x]) =
      (if length xs < maxPendingRuntimeSamples then xs else tl xs) @ [x]"
    if "length xs \<le> maxPendingRuntimeSamples" for xs :: "RuntimeSample list" and x
    using that by (cases xs) (auto simp: keep_last_def maxPendingRuntimeSamples_def Suc_diff_le)
  ultimately show ?thesis
    using takePendingRuntime_fields(1,2) [OF t] assms(3)
    by (simp add: t recordRuntimeResult_eq result_sample_def split: option.split)
qed

definition example_sink :: SinkState where
  "example_sink = \<lparr>skQueue = tmQueue example_telemetry, skIngest = acBuffer example_accounting, skLastCleanup = 0,
     skRepo = empty_repository\<rparr>"

lemma failed_begin:
  "\<exists>k'. WriteSamples (sv\<lparr>svBegin := Some e\<rparr>) fv a tb retention marshal order clock b k =
     (Some (ErrWrap ''begin postgresql transaction'' e), k')"
  by (simp add: WriteSamples_def write_transaction_def transaction_def split: prod.split)

text \<open>The second write of a sink whose buffer holds a sample of the first.\<close>

definition example_clock :: WriteClock where
  "example_clock = \<lparr>ckStarted = 6, ckTaken = 7, ckFlushed = 8, ckCleanup = 9, ckCutoff = 9, ckFinished = 9\<rparr>"

definition example_answers :: CleanupAnswers where
  "example_answers = \<lparr>caListing = (\<lambda>_. Inr []), caDrop = (\<lambda>_. None), caExec = (\<lambda>_. None), caBatches = (\<lambda>_. None),
     caCursorKeys = (\<lambda>_ _. [])\<rparr>"

definition runtime_batch :: SampleBatch where
  "runtime_batch = example_batch\<lparr>sbRuntime := Some example_runtime\<rparr>"

definition waiting_sink :: SinkState where
  "waiting_sink = example_sink\<lparr>skQueue := (skQueue example_sink)\<lparr>pendingRuntime := [example_runtime]\<rparr>\<rparr>"

lemma failed_write_loses_nothing_witness:
  "\<forall>fv a. \<exists>x. pendingRuntime (skQueue (snd (WriteSamples (example_server\<lparr>svBegin := Some ErrBadConn\<rparr>) fv a example_tables 0
     (\<lambda>_. []) (\<lambda>_. []) example_clock runtime_batch waiting_sink))) = [example_runtime, x] \<and>
     rtPostgreSQLErrorMessage x = Some ''begin postgresql transaction: driver: bad connection''"
proof (intro allI)
  fix fv :: Server and a :: CleanupAnswers
  let ?sv = "example_server\<lparr>svBegin := Some ErrBadConn\<rparr>"
  let ?w = "WriteSamples ?sv fv a example_tables 0 (\<lambda>_. []) (\<lambda>_. []) example_clock runtime_batch waiting_sink"
  obtain s' where w: "?w = (Some (ErrWrap ''begin postgresql transaction'' ErrBadConn), s')"
    using failed_begin by blast
  have "pendingRuntime (skQueue waiting_sink) = [example_runtime]" "sbRuntime runtime_batch = Some example_runtime"
    by (simp_all add: waiting_sink_def runtime_batch_def)
  then have "\<exists>x. pendingRuntime (skQueue s') = [example_runtime, x] \<and>
     rtPostgreSQLErrorMessage x = Some ''begin postgresql transaction: driver: bad connection''"
    using failed_write_loses_nothing [OF w] by (auto simp: example_server_def maxPendingRuntimeSamples_def)
  then show "\<exists>x. pendingRuntime (skQueue (snd ?w)) = [example_runtime, x] \<and>
     rtPostgreSQLErrorMessage x = Some ''begin postgresql transaction: driver: bad connection''"
    by (simp only: w snd_conv)
qed

section \<open>A malformed message blocks the writes\<close>

text \<open>The text of an error that, wrapped by the failed begin, makes a message of 2001 bytes ending in one e-acute.\<close>

definition long_error :: string where
  "long_error = replicate 1969 CHR ''a'' @ [char_of (195::nat), char_of (169::nat)]"

definition begin_error :: go_error where
  "begin_error = ErrWrap ''begin postgresql transaction'' (ErrText long_error)"

lemma begin_error_cut:
  "utf8_valid (map byte_of (err_message begin_error))" "\<not> utf8_valid (map byte_of (take 2000 (err_message begin_error)))"
proof -
  let ?prefix = "map byte_of ''begin postgresql transaction: ''"
  have a: "byte_of CHR ''a'' = 97" by (simp add: byte_of_def)
  have bytes: "map byte_of (err_message begin_error) = ?prefix @ replicate 1969 97 @ [195, 169]"
    by (simp add: begin_error_def long_error_def a) (simp add: byte_of_def)
  have prefix: "utf8_valid (?prefix @ bs) = utf8_valid bs" for bs
    by (simp add: byte_of_def utf8_valid_ascii del: utf8_valid.simps(2))
  show "utf8_valid (map byte_of (err_message begin_error))"
    unfolding bytes prefix by (simp only: utf8_valid_replicate) (simp add: utf8_width_def)
  have "map byte_of (take 2000 (err_message begin_error)) = ?prefix @ replicate 1969 97 @ [195]"
    unfolding take_map [symmetric] bytes by simp
  then show "\<not> utf8_valid (map byte_of (take 2000 (err_message begin_error)))"
    unfolding prefix by (simp only: prefix utf8_valid_replicate) (simp add: utf8_width_def)
qed

lemma runtime_row_text:
  "rtPostgreSQLErrorMessage x = Some m \<Longrightarrow> \<not> utf8_valid (map byte_of m) \<Longrightarrow>
   \<not> list_all encodable (runtimeSamplesRow x)"
  by (simp add: runtimeSamplesRow_def)

lemma write_refuses_row:
  assumes "\<not> list_all encodable (runtimeSamplesRow x)" and "x \<in> set pending"
  shows "\<exists>e. write_transaction sv tb marshal b pending r = (Some e, r)"
proof -
  have refused: False if "run_stages (write_stages sv tb marshal b pending) r = Inr r'" for r'
  proof -
    have "write_stages sv tb marshal b pending =
        butlast (write_stages sv tb marshal b pending) @ [writeRuntimeSamples sv tb pending]"
      by (simp add: write_stages_def Let_def)
    with that have "run_stages (butlast (write_stages sv tb marshal b pending) @ [writeRuntimeSamples sv tb pending]) r = Inr r'"
      by simp
    then obtain r1 where "writeRuntimeSamples sv tb pending r1 = Inr r'"
      unfolding run_stages_append by (auto split: sum.splits)
    moreover have "pending \<noteq> []" using assms(2) by auto
    ultimately obtain r2 where "copyRows sv (runtimeSamplesTable tb) runtimeSamplesDDL runtimeSamplesColumns
        (map runtimeSamplesRow pending) ''runtime samples'' r1 = Inr r2"
      by (auto simp: writeRuntimeSamples_def split: sum.splits)
    then show False
      using assms \<open>pending \<noteq> []\<close> by (auto simp: copyRows_def list_all_iff accepted_def split: option.splits if_splits)
  qed
  then show ?thesis
    by (cases "run_stages (write_stages sv tb marshal b pending) r")
      (auto simp: write_transaction_def transaction_def split: option.splits)
qed

lemma blocked_write:
  assumes "x \<in> set (pendingRuntime (skQueue k))" and "length (pendingRuntime (skQueue k)) < maxPendingRuntimeSamples"
    and "\<not> list_all encodable (runtimeSamplesRow x)"
    and "fst (takePendingRuntime False (ckTaken clock) (skQueue k)) \<noteq> []"
    and "WriteSamples sv fv a tb retention marshal order clock b k = (err, k')"
  shows "err \<noteq> None \<and> skRepo k' = skRepo k \<and> x \<in> set (pendingRuntime (skQueue k'))"
proof -
  obtain pending q where t: "takePendingRuntime False (ckTaken clock) (skQueue k) = (pending, q)" by fastforce
  then have all: "pending = pendingRuntime (skQueue k)" using assms(4) takePendingRuntime_fields(4) by simp
  then obtain e where w: "write_transaction sv tb marshal b pending (skRepo k) = (Some e, skRepo k)"
    using write_refuses_row [OF assms(3)] assms(1) by blast
  then have err: "err = Some e" and k': "k' = k\<lparr>skQueue := recordRuntimeResult (sbRuntime b) (ckFinished clock)
      (ckStarted clock) (Some e) (q\<lparr>pendingRuntime := pendingRuntime (skQueue k)\<rparr>), skRepo := skRepo k\<rparr>"
    using assms(5) requeueRuntime_restores [OF t] assms(2) by (auto simp: WriteSamples_def t Let_def)
  have "x \<in> set (pendingRuntime (skQueue k'))"
    using assms(1,2) by (simp add: k' recordRuntimeResult_eq split: option.split)
  then show ?thesis by (simp add: err k')
qed

text \<open>
  C37: the telemetry of a failed write can block the sink. The error message is cut after 2000 bytes, which can
  split a character. After a write that fails with such an error the sample that carries the cut message is
  in the buffer. The database refuses malformed text, so from any later state with that sample in a buffer
  that is not full every write that takes the buffer, whatever it is to write and even if the server
  answers every statement, fails as a whole: it leaves the repository as it was and puts the sample back.
\<close>
theorem malformed_telemetry_blocks_writes:
  assumes "WriteSamples sv fv a tb retention marshal order clock b k = (Some e, k1)"
    and "sbRuntime b = Some sample" and "\<not> utf8_valid (map byte_of (take 2000 (err_message e)))"
  shows "\<exists>x \<in> set (pendingRuntime (skQueue k1)). rtPostgreSQLErrorMessage x = Some (take 2000 (err_message e)) \<and>
    (\<forall>k2 sv' fv' a' tb' retention' marshal' order' clock' b' err k3.
       x \<in> set (pendingRuntime (skQueue k2)) \<and> length (pendingRuntime (skQueue k2)) < maxPendingRuntimeSamples \<and>
       fst (takePendingRuntime False (ckTaken clock') (skQueue k2)) \<noteq> [] \<and>
       WriteSamples sv' fv' a' tb' retention' marshal' order' clock' b' k2 = (err, k3) \<longrightarrow>
       err \<noteq> None \<and> skRepo k3 = skRepo k2 \<and> x \<in> set (pendingRuntime (skQueue k3)))"
proof -
  let ?x = "result_sample sample (ckFinished clock) (ckStarted clock) (Some e)"
  obtain pending q where t: "takePendingRuntime False (ckTaken clock) (skQueue k) = (pending, q)" by fastforce
  have "?x \<in> set (pendingRuntime (skQueue k1))"
    by (subst WriteSamples_error(2) [OF assms(1) t])
      (simp add: assms(2) recordRuntimeResult_eq keep_last_def maxPendingRuntimeSamples_def)
  moreover have m: "rtPostgreSQLErrorMessage ?x = Some (take 2000 (err_message e))" by (simp add: result_sample_def)
  moreover note runtime_row_text [OF m assms(3)]
  ultimately show ?thesis using blocked_write by blast
qed

text \<open>A begin fails with a long error; the next write, to a server that answers everything, fails for its message.\<close>

lemma malformed_telemetry_blocks_writes_witness:
  "\<exists>k1. WriteSamples (example_server\<lparr>svBegin := Some (ErrText long_error)\<rparr>) example_server example_answers example_tables 0
       (\<lambda>_. []) (\<lambda>_. []) example_clock runtime_batch example_sink = (Some begin_error, k1) \<and>
     (\<forall>err k2. WriteSamples example_server example_server example_answers example_tables 0
       (\<lambda>_. []) (\<lambda>_. []) example_clock example_batch k1 = (err, k2) \<longrightarrow> err \<noteq> None \<and> skRepo k2 = empty_repository)"
proof -
  obtain k1 where w: "WriteSamples (example_server\<lparr>svBegin := Some (ErrText long_error)\<rparr>) example_server example_answers
      example_tables 0 (\<lambda>_. []) (\<lambda>_. []) example_clock runtime_batch example_sink = (Some begin_error, k1)"
    using failed_begin unfolding begin_error_def by blast
  have sample: "sbRuntime runtime_batch = Some example_runtime" by (simp add: runtime_batch_def)
  have q0: "takePendingRuntime False (ckTaken example_clock) (skQueue example_sink) = ([], skQueue example_sink)"
    by (simp add: takePendingRuntime_def example_sink_def example_telemetry_def)
  note k1 = WriteSamples_error [OF w q0]
  have repo: "skRepo k1 = empty_repository"
    using transaction_failure [OF k1(1) [unfolded write_transaction_def]] by (simp add: example_server_def example_sink_def)
  have queue: "skQueue k1 = (skQueue example_sink)\<lparr>pendingRuntime :=
      [result_sample example_runtime (ckFinished example_clock) (ckStarted example_clock) (Some begin_error)]\<rparr>"
    by (subst k1(2)) (simp add: sample recordRuntimeResult_eq requeueRuntime_def example_sink_def example_telemetry_def
        maxPendingRuntimeSamples_def)
  from malformed_telemetry_blocks_writes [OF w sample begin_error_cut(2)]
  obtain x where x: "x \<in> set (pendingRuntime (skQueue k1))"
    and later: "\<forall>k2 sv' fv' a' tb' retention' marshal' order' clock' b' err k3.
       x \<in> set (pendingRuntime (skQueue k2)) \<and> length (pendingRuntime (skQueue k2)) < maxPendingRuntimeSamples \<and>
       fst (takePendingRuntime False (ckTaken clock') (skQueue k2)) \<noteq> [] \<and>
       WriteSamples sv' fv' a' tb' retention' marshal' order' clock' b' k2 = (err, k3) \<longrightarrow>
       err \<noteq> None \<and> skRepo k3 = skRepo k2 \<and> x \<in> set (pendingRuntime (skQueue k3))"
    by (elim bexE conjE) (rule that)
  have "length (pendingRuntime (skQueue k1)) < maxPendingRuntimeSamples"
    "fst (takePendingRuntime False (ckTaken example_clock) (skQueue k1)) \<noteq> []"
    by (simp_all add: queue maxPendingRuntimeSamples_def takePendingRuntime_def example_sink_def example_telemetry_def
        is_zero_time_def)
  then have "err \<noteq> None \<and> skRepo k2 = empty_repository"
    if "WriteSamples example_server example_server example_answers example_tables 0 (\<lambda>_. []) (\<lambda>_. []) example_clock
      example_batch k1 = (err, k2)" for err k2
    using later [rule_format, OF conjI [OF x conjI [OF _ conjI [OF _ that]]]] repo by simp
  with w show ?thesis by blast
qed

end
