(* ===== verification/Migration.thy ===== *)
theory Migration
  imports SinkWrites
begin

text \<open>
  Opening the sink (\<open>New\<close>, \<open>Migrate\<close> in \<open>postgresql/postgresql.go\<close>): the order of the migrations, the
  conversion of the relation of latest statuses from a view of earlier versions to a table, with its
  grants and its contents, and the sink that \<open>New\<close> returns. The tables themselves are in \<open>SinkSchema\<close>;
  the connection pool of pgx is a parameter.
\<close>

section \<open>The relation of latest statuses\<close>

record relationGrant =
  grGrantee :: string
  grOption :: bool

text \<open>
  What PostgreSQL knows of the relation: its kind (\<open>relkind\<close>), the grants of SELECT on it, the rows when
  it is a table; and the history of statuses it summarizes.
\<close>

record LatestRelation =
  lrKind :: "string option"
  lrGrants :: "relationGrant list"
  lrRows :: latest_statuses
  lrHistory :: "ScrapeStatusSample list"

text \<open>
  The server's answers, the name of the relation and pgx's quoting of identifiers, and the grants that the
  server makes to the owner of a new table (\<open>acldefault\<close>).
\<close>

record MigrationAnswers =
  maLatestTable :: string
  maSanitize :: "string \<Rightarrow> string"
  maOwnerGrants :: "relationGrant list"
  maBegin :: "go_error option"
  maKind :: "go_error option"
  maGrants :: "go_error option"
  maDrop :: "go_error option"
  maDDL :: "string \<Rightarrow> go_error option"
  maGrant :: "string \<Rightarrow> go_error option"
  maBackfill :: "go_error option"
  maNewest :: "ScrapeStatusSample list \<Rightarrow> ScrapeStatusSample list"
  maCommit :: commit_outcome

definition prepareLatestScrapeStatusTable ::
    "MigrationAnswers \<Rightarrow> LatestRelation \<Rightarrow> ((bool \<times> relationGrant list) \<times> LatestRelation) result" where
  "prepareLatestScrapeStatusTable a r =
     (case maKind a of
        Some e \<Rightarrow> Inl (ErrWrap ''inspect legacy latest scrape status relation'' e)
      | None \<Rightarrow>
          (case lrKind r of
             None \<Rightarrow> Inr ((True, []), r)
           | Some relationKind \<Rightarrow>
               if relationKind = ''r'' \<or> relationKind = ''p'' then Inr ((False, []), r)
               else if relationKind \<noteq> ''v''
               then Inl (ErrText (''cannot migrate '' @ maLatestTable a @ '': expected a view or table, found PostgreSQL relkind '' @ relationKind))
               else
                 (case maGrants a of
                    Some e \<Rightarrow> Inl (ErrWrap ''read legacy latest scrape status grants'' e)
                  | None \<Rightarrow>
                      (case maDrop a of
                         Some e \<Rightarrow> Inl (ErrWrap ''drop legacy latest scrape status view'' e)
                       | None \<Rightarrow> Inr ((True, lrGrants r), r\<lparr>lrKind := None, lrGrants := []\<rparr>)))))"

text \<open>\<open>create table if not exists\<close>.\<close>

definition create_latest_table :: "relationGrant list \<Rightarrow> LatestRelation \<Rightarrow> LatestRelation" where
  "create_latest_table owner r =
     (if lrKind r = None then r\<lparr>lrKind := Some ''r'', lrGrants := owner, lrRows := Map.empty\<rparr> else r)"

text \<open>The text of a grant; \<open>sanitize\<close> quotes an identifier as pgx does.\<close>

definition grant_statement :: "(string \<Rightarrow> string) \<Rightarrow> string \<Rightarrow> relationGrant \<Rightarrow> string" where
  "grant_statement sanitize table g =
     (let grantee = (if grGrantee g = ''PUBLIC'' then ''PUBLIC'' else sanitize (grGrantee g));
          query = ''grant select on '' @ table @ '' to '' @ grantee
      in if grOption g then query @ '' with grant option'' else query)"

definition restoreLatestScrapeStatusGrants ::
    "MigrationAnswers \<Rightarrow> relationGrant list \<Rightarrow> LatestRelation \<Rightarrow> LatestRelation result" where
  "restoreLatestScrapeStatusGrants a grants =
     run_stages (map (\<lambda>g. exec_statement (''restore latest scrape status SELECT grant for '' @ grGrantee g)
                            (maGrant a (grant_statement (maSanitize a) (maLatestTable a) g))
                            (\<lambda>r. r\<lparr>lrGrants := lrGrants r @ [g]\<rparr>)) grants)"

definition operational_statements ::
    "MigrationAnswers \<Rightarrow> bool \<Rightarrow> relationGrant list \<Rightarrow> LatestRelation \<Rightarrow>
     (LatestRelation \<Rightarrow> LatestRelation result) list" where
  "operational_statements a backfillLatest selectGrants prepared =
     [exec_statement ''migrate PostgreSQL operational schema'' (maDDL a ''operational'')
        (\<lambda>_. create_latest_table (maOwnerGrants a) prepared),
      restoreLatestScrapeStatusGrants a selectGrants] @
     (if backfillLatest
      then [\<lambda>r. case backfillLatestScrapeStatus (maBackfill a) (maNewest a (lrHistory r)) (lrRows r) of
                  Inl e \<Rightarrow> Inl e
                | Inr rows \<Rightarrow> Inr (r\<lparr>lrRows := rows\<rparr>)]
      else [])"

definition migrateOperationalSchema :: "MigrationAnswers \<Rightarrow> LatestRelation \<Rightarrow> go_error option \<times> LatestRelation" where
  "migrateOperationalSchema a r =
     (case maBegin a of
        Some e \<Rightarrow> (Some (ErrWrap ''begin PostgreSQL operational schema migration'' e), r)
      | None \<Rightarrow>
          (case prepareLatestScrapeStatusTable a r of
             Inl e \<Rightarrow> (Some e, r)
           | Inr ((backfillLatest, selectGrants), prepared) \<Rightarrow>
               transaction ''begin PostgreSQL operational schema migration'' None
                 (operational_statements a backfillLatest selectGrants prepared)
                 ''commit PostgreSQL operational schema migration'' (maCommit a) r))"

text \<open>\<open>Migrate\<close>: the schemas in order, the first error ends it.\<close>

definition Migrate :: "MigrationAnswers \<Rightarrow> LatestRelation \<Rightarrow> go_error option \<times> LatestRelation" where
  "Migrate a r =
     (case maDDL a ''samples'' of
        Some e \<Rightarrow> (Some (ErrWrap ''migrate postgresql schema'' e), r)
      | None \<Rightarrow>
     (case maDDL a ''repository ingest'' of
        Some e \<Rightarrow> (Some (ErrWrap ''migrate PostgreSQL repository ingest schema'' e), r)
      | None \<Rightarrow>
     (case migrateOperationalSchema a r of
        (Some e, r) \<Rightarrow> (Some e, r)
      | (None, r) \<Rightarrow>
     (case maDDL a ''runtime'' of
        Some e \<Rightarrow> (Some (ErrWrap ''migrate PostgreSQL runtime schema'' e), r)
      | None \<Rightarrow>
     (case maDDL a ''connection state'' of
        Some e \<Rightarrow> (Some (ErrWrap ''migrate PostgreSQL database connection state schema'' e), r)
      | None \<Rightarrow> (None, r))))))"

section \<open>Opening the sink\<close>

text \<open>
  \<open>New\<close>: the pools it has left open, and the error or the sink. \<open>parse_url\<close>, \<open>open_pool\<close> and \<open>ping_pool\<close> are pgx;
  the first clean-up of retention runs at the end.
\<close>

definition Sink_New ::
    "(string \<Rightarrow> 'c result) \<Rightarrow> ('c \<Rightarrow> int \<Rightarrow> int \<Rightarrow> duration \<Rightarrow> 'p result) \<Rightarrow> ('p \<Rightarrow> go_error option) \<Rightarrow>
     MigrationAnswers \<Rightarrow> LatestRelation \<Rightarrow> CleanupAnswers \<Rightarrow> time \<Rightarrow> time \<Rightarrow> PostgreSQLConfig \<Rightarrow> Repository \<Rightarrow>
     'p list \<times> (SinkTables \<times> duration \<times> SinkState) result" where
  "Sink_New parse_url open_pool ping_pool a latest ca now now' cfg repo =
     (if trim_space (pgURL cfg) = [] then ([], Inl (ErrText ''output.postgresql.url is required''))
      else case parse_url (pgURL cfg) of
        Inl e \<Rightarrow> ([], Inl (ErrWrap ''parse postgresql url'' e))
      | Inr pool_config \<Rightarrow>
     (case open_pool pool_config (PG_GetMaxConns cfg) (PG_GetMinConns cfg) (PG_GetConnMaxLifetime cfg) of
        Inl e \<Rightarrow> ([], Inl (ErrWrap ''create postgresql pool'' e))
      | Inr pool \<Rightarrow>
     (case ping_pool pool of
        Some e \<Rightarrow> ([], Inl (ErrWrap ''ping postgresql'' e))
      | None \<Rightarrow>
     (case (if PG_GetAutoMigrate cfg then fst (Migrate a latest) else None) of
        Some e \<Rightarrow> ([], Inl e)
      | None \<Rightarrow>
          (let tb = sink_tables cfg;
               retention = PG_GetRetention cfg;
               (cleaned, repo) = cleanupRetention ca tb retention now now' (0, repo)
           in ([pool],
               Inr (tb, retention,
                    \<lparr>skQueue = \<lparr>pendingRuntime = [], lastRuntimeFlushAttempt = 0,
                                runtimeFlushInterval = runtimeTelemetryFlushInterval\<rparr>,
                     skIngest = \<lparr>pendingIngest = Map.empty, lastIngestFlushAttempt = 0,
                                 ingestFlushInterval = repositoryIngestFlushInterval\<rparr>,
                     skLastCleanup = cleaned, skRepo = repo\<rparr>)))))))"

section \<open>Properties\<close>

lemma restore_grants_ok:
  "restoreLatestScrapeStatusGrants a grants r = Inr r' \<Longrightarrow> r' = r\<lparr>lrGrants := lrGrants r @ grants\<rparr>"
proof (induction grants arbitrary: r)
  case Nil
  then show ?case by (simp add: restoreLatestScrapeStatusGrants_def)
next
  case (Cons g grants)
  then have "restoreLatestScrapeStatusGrants a grants (r\<lparr>lrGrants := lrGrants r @ [g]\<rparr>) = Inr r'"
    by (auto simp: restoreLatestScrapeStatusGrants_def exec_statement_def split: option.splits)
  then show ?case using Cons.IH by force
qed

lemma operational_statements_ok:
  assumes "run_stages (operational_statements a backfill grants prepared) r = Inr r'"
  shows "r' = (let r = (create_latest_table (maOwnerGrants a) prepared)\<lparr>lrGrants := lrGrants (create_latest_table (maOwnerGrants a) prepared) @ grants\<rparr>
    in if backfill then r\<lparr>lrRows := fold upsert_status (maNewest a (lrHistory r)) (lrRows r)\<rparr> else r)"
  using assms unfolding operational_statements_def
  by (auto simp: exec_statement_def Let_def backfillLatestScrapeStatus_def dest!: restore_grants_ok
      split: sum.splits option.splits if_splits)

text \<open>What the newest statuses of a history leave in an empty table.\<close>

lemma newest_shown:
  assumes "picks_newest newest history" and "s \<in> set history"
  shows "\<exists>row \<in> set history. fold upsert_status newest Map.empty (status_key s) = Some row \<and>
    stCollectedAt s \<le> stCollectedAt row"
proof -
  obtain n where n: "n \<in> set newest" "status_key n = status_key s" "stCollectedAt s \<le> stCollectedAt n"
    using assms unfolding picks_newest_def by blast
  have "status_key s \<in> dom (fold upsert_status newest Map.empty)"
    using imageI [OF n(1), of status_key] n(2) by (simp add: latest_status.dom_fold)
  then obtain row where row: "fold upsert_status newest Map.empty (status_key s) = Some row" by blast
  then have "stCollectedAt n \<le> stCollectedAt row" "row \<in> set newest"
    using latest_status.fold_newest [OF row n(1,2)] latest_status.fold_source [OF row] by auto
  then show ?thesis using row n(3) assms(1) unfolding picks_newest_def by fastforce
qed

text \<open>
  A legacy view becomes a table that answers the same. A migration that succeeds leaves a table; if the
  relation was a view of earlier versions (or absent), the table has the view's grants, and shows for
  every database and collector a newest status of the history; if it was a table already, nothing about
  it changes, so migrating again is harmless.
\<close>
theorem legacy_view_migrated:
  assumes "migrateOperationalSchema a r = (None, r')" and "picks_newest (maNewest a (lrHistory r)) (lrHistory r)"
  shows "(lrKind r = Some ''r'' \<or> lrKind r = Some ''p'' \<longrightarrow> r' = r) \<and>
    (lrKind r = Some ''v'' \<longrightarrow> lrKind r' = Some ''r'' \<and> set (lrGrants r) \<subseteq> set (lrGrants r')) \<and>
    (lrKind r = Some ''v'' \<or> lrKind r = None \<longrightarrow>
       (\<forall>s \<in> set (lrHistory r). \<exists>row \<in> set (lrHistory r).
          lrRows r' (status_key s) = Some row \<and> stCollectedAt s \<le> stCollectedAt row))"
proof -
  obtain backfill grants prepared where p: "prepareLatestScrapeStatusTable a r = Inr ((backfill, grants), prepared)"
    using assms(1) by (auto simp: migrateOperationalSchema_def split: option.splits sum.splits)
  then have "run_stages (operational_statements a backfill grants prepared) r = Inr r'"
    using assms(1) by (auto simp: migrateOperationalSchema_def transaction_success split: option.splits)
  note r' = operational_statements_ok [OF this]
  show ?thesis
    using p r' newest_shown [OF assms(2)]
    by (auto simp: prepareLatestScrapeStatusTable_def create_latest_table_def Let_def split: option.splits if_splits)
qed

definition legacy_relation :: LatestRelation where
  "legacy_relation = \<lparr>lrKind = Some ''v'', lrGrants = [\<lparr>grGrantee = ''PUBLIC'', grOption = False\<rparr>],
     lrRows = Map.empty, lrHistory = [example_status 3, example_status 7]\<rparr>"

definition quiet_migration :: MigrationAnswers where
  "quiet_migration = \<lparr>maLatestTable = ''latest'', maSanitize = (\<lambda>s. s),
     maOwnerGrants = [\<lparr>grGrantee = ''hps'', grOption = True\<rparr>],
     maBegin = None, maKind = None, maGrants = None, maDrop = None, maDDL = (\<lambda>_. None), maGrant = (\<lambda>_. None),
     maBackfill = None, maNewest = (\<lambda>_. [example_status 7]), maCommit = Committed\<rparr>"

theorem legacy_view_migrated_witness:
  "\<exists>t'. migrateOperationalSchema quiet_migration legacy_relation = (None, t') \<and> lrKind t' = Some ''r'' \<and>
     (\<exists>row. lrRows t' (''db'', ''metrics'') = Some row \<and> 7 \<le> stCollectedAt row)"
proof -
  let ?out = "migrateOperationalSchema quiet_migration legacy_relation"
  have "fst ?out = None"
    by (simp add: quiet_migration_def legacy_relation_def migrateOperationalSchema_def prepareLatestScrapeStatusTable_def
        operational_statements_def transaction_def exec_statement_def restoreLatestScrapeStatusGrants_def
        backfillLatestScrapeStatus_def)
  then have ok: "?out = (None, snd ?out)" by (metis prod.collapse)
  have "picks_newest (maNewest quiet_migration (lrHistory legacy_relation)) (lrHistory legacy_relation)"
    by (auto simp: picks_newest_def quiet_migration_def legacy_relation_def example_status_def status_key_def)
  from legacy_view_migrated [OF ok this] ok show ?thesis
    by (auto simp: legacy_relation_def example_status_def status_key_def)
qed

end
