(* ===== verification/Election.thy ===== *)
theory Election
  imports Machines
begin

text \<open>
  High availability (\<open>ha/election.go\<close>): the key of the advisory lock, the loops \<open>Acquire\<close> and \<open>Monitor\<close>,
  and several instances that compete for the lock of one PostgreSQL primary. Connections of pgx, the
  answers of the server and the end of the context are arguments of the loops; the advisory locks
  of the server follow PostgreSQL's documentation.
\<close>

unbundle bit_operations_syntax

section \<open>The key of the lock\<close>

definition lockNamespace :: string where "lockNamespace = ''harry-performance-scraper/ha/v1:''"

text \<open>\<open>binary.BigEndian.Uint64\<close>.\<close>

definition big_endian :: "8 word list \<Rightarrow> 64 word" where
  "big_endian = foldl (\<lambda>w b. push_bit 8 w OR ucast b) 0"

definition MaxInt64 :: "64 word" where "MaxInt64 = 0x7FFFFFFFFFFFFFFF"

definition lockIDForScope :: "(string \<Rightarrow> 8 word list) \<Rightarrow> string \<Rightarrow> 64 word" where
  "lockIDForScope sha256 scope =
     (let digest = sha256 (lockNamespace @ scope) in big_endian (take 8 digest) AND MaxInt64)"

section \<open>The elector\<close>

record 'c Elector =
  elScope :: string
  elLockID :: "64 word"
  elRetryInterval :: duration
  elValidationInterval :: duration
  elConn :: "'c option"

text \<open>\<open>New\<close>; the connection configuration only serves to connect.\<close>

definition Elector_New ::
    "(string \<Rightarrow> 'k result) \<Rightarrow> (string \<Rightarrow> 8 word list) \<Rightarrow> string \<Rightarrow> string \<Rightarrow> duration \<Rightarrow> duration \<Rightarrow>
     ('k \<times> 'c Elector) result" where
  "Elector_New parse_config sha256 url scope retryInterval validationInterval =
     (case parse_config url of
        Inl e \<Rightarrow> Inl (ErrWrap ''parse PostgreSQL URL for HA'' e)
      | Inr connectionConfig \<Rightarrow>
          Inr (connectionConfig,
            \<lparr>elScope = scope, elLockID = lockIDForScope sha256 scope, elRetryInterval = retryInterval,
             elValidationInterval = validationInterval, elConn = None\<rparr>))"

datatype ha_log =
    LeadershipAcquired
  | HeldByAnother
  | StillHeldByAnother
  | AttemptFailed go_error
  | ConnectFailed go_error

text \<open>What one round of \<open>Acquire\<close> meets: the connection, the answer to the query, the end of the wait.\<close>

record 'c attempt =
  atConnect :: "'c result"
  atAnswer :: "bool result"
  atDone :: "go_error option"

text \<open>The attempt of a round: the connection that is kept, those closed, the log, and \<open>standbyLogged\<close>.\<close>

definition acquire_attempt ::
    "'c result \<Rightarrow> bool result \<Rightarrow> bool \<Rightarrow> 'c option \<times> 'c list \<times> ha_log list \<times> bool" where
  "acquire_attempt connection answer standbyLogged =
     (case connection of
        Inr conn \<Rightarrow>
          (case answer of
             Inr acquired \<Rightarrow>
               if acquired then (Some conn, [], [LeadershipAcquired], standbyLogged)
               else if \<not> standbyLogged then (None, [conn], [HeldByAnother], True)
               else (None, [conn], [StillHeldByAnother], standbyLogged)
           | Inl e \<Rightarrow> (None, [conn], [AttemptFailed e], standbyLogged))
      | Inl e \<Rightarrow>
          (None, [], if err_is e ErrCanceled then [] else [ConnectFailed e], standbyLogged))"

text \<open>
  The loop over the rounds it meets: what it returned (\<open>None\<close> when it is still waiting after them),
  the connections closed, the log, the rounds used and the elector.
\<close>

record 'c acquire_run =
  arReturned :: "go_error option option"
  arClosed :: "'c list"
  arLog :: "ha_log list"
  arRounds :: nat
  arElector :: "'c Elector"

fun acquire_loop :: "'c attempt list \<Rightarrow> bool \<Rightarrow> 'c acquire_run \<Rightarrow> 'c acquire_run" where
  "acquire_loop [] standbyLogged run = run"
| "acquire_loop (a # rest) standbyLogged run =
     (let (kept, closed, log, standbyLogged) = acquire_attempt (atConnect a) (atAnswer a) standbyLogged;
          run = run\<lparr>arClosed := arClosed run @ closed, arLog := arLog run @ log, arRounds := arRounds run + 1\<rparr>
      in case kept of
           Some conn \<Rightarrow> run\<lparr>arReturned := Some None, arElector := (arElector run)\<lparr>elConn := Some conn\<rparr>\<rparr>
         | None \<Rightarrow>
             (case atDone a of
                Some e \<Rightarrow> run\<lparr>arReturned := Some (Some e)\<rparr>
              | None \<Rightarrow> acquire_loop rest standbyLogged run))"

definition Acquire :: "'c attempt list \<Rightarrow> 'c Elector \<Rightarrow> 'c acquire_run" where
  "Acquire rounds e =
     acquire_loop rounds False \<lparr>arReturned = None, arClosed = [], arLog = [], arRounds = 0, arElector = e\<rparr>"

text \<open>
  What \<open>Monitor\<close> meets: the end of its context, a tick with the server's answer, or a \<open>Close\<close> of
  another goroutine.
\<close>

datatype monitor_event = ContextDone go_error | Validate "bool result" | ClosedMeanwhile

fun monitor_loop :: "monitor_event list \<Rightarrow> 'c Elector \<Rightarrow> go_error option" where
  "monitor_loop [] e = None"
| "monitor_loop (ContextDone err # rest) e = Some err"
| "monitor_loop (ClosedMeanwhile # rest) e = monitor_loop rest (e\<lparr>elConn := None\<rparr>)"
| "monitor_loop (Validate answer # rest) e =
     (if elConn e = None then Some (ErrText ''PostgreSQL HA leadership connection is closed'')
      else case answer of
        Inl err \<Rightarrow> Some (ErrWrap ''validate PostgreSQL HA leadership connection'' err)
      | Inr writablePrimary \<Rightarrow>
          if \<not> writablePrimary
          then Some (ErrText ''PostgreSQL HA leadership connection is no longer on a writable primary'')
          else monitor_loop rest e)"

text \<open>\<open>None\<close>: still monitoring after the events.\<close>

definition Monitor :: "monitor_event list \<Rightarrow> 'c Elector \<Rightarrow> go_error option" where
  "Monitor events e =
     (if elConn e = None then Some (ErrText ''PostgreSQL HA leadership has not been acquired'')
      else monitor_loop events e)"

text \<open>\<open>closing\<close> is what closing the connection answers; the elector forgets it in any case.\<close>

definition Elector_Close :: "('c \<Rightarrow> go_error option) \<Rightarrow> 'c Elector \<Rightarrow> go_error option \<times> 'c Elector" where
  "Elector_Close closing e =
     (case elConn e of None \<Rightarrow> (None, e) | Some conn \<Rightarrow> (closing conn, e\<lparr>elConn := None\<rparr>))"

section \<open>Instances that compete for one primary\<close>

text \<open>
  Session-level advisory locks as PostgreSQL documents them: a session that asks for a key gets it when no
  other session holds it, and keeps it until the session ends. A session is a number; the server
  runs the query of a session at some time after it was sent, even if the client has given up.
\<close>

record cluster =
  clWritable :: bool
  clSessions :: "nat set"
  clLocks :: "64 word \<rightharpoonup> nat"
  clRequested :: "nat \<rightharpoonup> 64 word"
  clReplies :: "nat \<rightharpoonup> bool"
  clNext :: nat

definition server_connect :: "64 word \<Rightarrow> cluster \<Rightarrow> cluster" where
  "server_connect key c =
     c\<lparr>clSessions := insert (clNext c) (clSessions c), clRequested := (clRequested c)(clNext c \<mapsto> key),
       clNext := clNext c + 1\<rparr>"

text \<open>\<open>acquireQuery\<close>, run by the server for a session.\<close>

definition server_acquire :: "nat \<Rightarrow> 64 word \<Rightarrow> cluster \<Rightarrow> cluster" where
  "server_acquire s key c =
     (let granted = clWritable c \<and> (case clLocks c key of None \<Rightarrow> True | Some owner \<Rightarrow> owner = s)
      in c\<lparr>clLocks := (if granted then (clLocks c)(key \<mapsto> s) else clLocks c),
           clReplies := (clReplies c)(s \<mapsto> granted)\<rparr>)"

definition server_end_session :: "nat \<Rightarrow> cluster \<Rightarrow> cluster" where
  "server_end_session s c =
     c\<lparr>clSessions := clSessions c - {s},
       clLocks := (\<lambda>key. if clLocks c key = Some s then None else clLocks c key)\<rparr>"

text \<open>The instances: the connection of the attempt in progress, and the elector.\<close>

record 'p ha_system =
  hsCluster :: cluster
  hsTrying :: "'p \<Rightarrow> nat option"
  hsElector :: "'p \<Rightarrow> nat Elector"

inductive ha_step :: "'p ha_system \<Rightarrow> 'p ha_system \<Rightarrow> bool" where
  connect:
  "\<lbrakk>hsTrying h p = None; elConn (hsElector h p) = None; key = elLockID (hsElector h p)\<rbrakk> \<Longrightarrow>
   ha_step h (h\<lparr>hsCluster := server_connect key (hsCluster h),
               hsTrying := (hsTrying h)(p := Some (clNext (hsCluster h)))\<rparr>)"
| serve:
  "\<lbrakk>s \<in> clSessions (hsCluster h); clRequested (hsCluster h) s = Some key; clReplies (hsCluster h) s = None\<rbrakk> \<Longrightarrow>
   ha_step h (h\<lparr>hsCluster := server_acquire s key (hsCluster h)\<rparr>)"
| attempt:
  "\<lbrakk>hsTrying h p = Some s; \<And>b. answer = Inr b \<Longrightarrow> clReplies (hsCluster h) s = Some b;
    kept = fst (acquire_attempt (Inr s) answer logged)\<rbrakk> \<Longrightarrow>
   ha_step h (h\<lparr>hsTrying := (hsTrying h)(p := None),
               hsElector := (hsElector h)(p := (hsElector h p)\<lparr>elConn := kept\<rparr>)\<rparr>)"
| end_session:
  "ha_step h (h\<lparr>hsCluster := server_end_session s (hsCluster h)\<rparr>)"
| switch:
  "ha_step h (h\<lparr>hsCluster := (hsCluster h)\<lparr>clWritable := w\<rparr>\<rparr>)"
| stand_down:
  "\<lbrakk>Monitor [event] (hsElector h p) \<noteq> None; elector = snd (Elector_Close closing (hsElector h p))\<rbrakk> \<Longrightarrow>
   ha_step h (h\<lparr>hsElector := (hsElector h)(p := elector)\<rparr>)"

text \<open>The instances have their keys, and nothing else has happened.\<close>

definition ha_initial :: "'p ha_system \<Rightarrow> bool" where
  "ha_initial h \<longleftrightarrow> hsTrying h = (\<lambda>_. None) \<and> (\<forall>p. elConn (hsElector h p) = None) \<and>
     clSessions (hsCluster h) = {} \<and> clLocks (hsCluster h) = Map.empty \<and>
     clRequested (hsCluster h) = Map.empty \<and> clReplies (hsCluster h) = Map.empty"

text \<open>The connection of an instance, in an attempt or as a leader.\<close>

definition connection_of :: "'p ha_system \<Rightarrow> 'p \<Rightarrow> nat option" where
  "connection_of h p = (case hsTrying h p of Some s \<Rightarrow> Some s | None \<Rightarrow> elConn (hsElector h p))"

definition locks_held :: "cluster \<Rightarrow> bool" where
  "locks_held c \<longleftrightarrow>
     (\<forall>s key. s \<in> clSessions c \<longrightarrow> clReplies c s = Some True \<longrightarrow> clRequested c s = Some key \<longrightarrow>
       clLocks c key = Some s) \<and>
     (\<forall>s. clNext c \<le> s \<longrightarrow> s \<notin> clSessions c \<and> clRequested c s = None \<and> clReplies c s = None)"

definition ha_inv :: "'p ha_system \<Rightarrow> bool" where
  "ha_inv h \<longleftrightarrow> locks_held (hsCluster h) \<and>
     (\<forall>p s. connection_of h p = Some s \<longrightarrow> clRequested (hsCluster h) s = Some (elLockID (hsElector h p))) \<and>
     (\<forall>p q s. connection_of h p = Some s \<longrightarrow> connection_of h q = Some s \<longrightarrow> p = q) \<and>
     (\<forall>p s. elConn (hsElector h p) = Some s \<longrightarrow> clReplies (hsCluster h) s = Some True \<and> hsTrying h p = None)"

lemma locks_held_connect: "locks_held c \<Longrightarrow> locks_held (server_connect key c)"
  by (auto simp: locks_held_def server_connect_def)

lemma locks_held_acquire:
  "\<lbrakk>locks_held c; s \<in> clSessions c; clRequested c s = Some key; clReplies c s = None\<rbrakk> \<Longrightarrow>
   locks_held (server_acquire s key c)"
  unfolding locks_held_def server_acquire_def Let_def
  by (auto split: option.splits) 

lemma locks_held_end: "locks_held c \<Longrightarrow> locks_held (server_end_session s c)"
  by (auto simp: locks_held_def server_end_session_def)

lemma connection_of_cluster [simp]: "connection_of (h\<lparr>hsCluster := c\<rparr>) p = connection_of h p"
  by (simp add: connection_of_def split: option.split)

lemma connection_requested:
  "ha_inv h \<Longrightarrow> connection_of h p = Some s \<Longrightarrow> s < clNext (hsCluster h)"
  unfolding ha_inv_def locks_held_def by (metis linorder_not_less option.distinct(1))

lemma ha_step_inv: "ha_step h h' \<Longrightarrow> ha_inv h \<Longrightarrow> ha_inv h'"
proof (induction rule: ha_step.induct)
  case (connect h p key)
  let ?n = "clNext (hsCluster h)"
  have c: "connection_of (h\<lparr>hsCluster := server_connect key (hsCluster h), hsTrying := (hsTrying h)(p := Some ?n)\<rparr>) q =
      (if q = p then Some ?n else connection_of h q)" for q
    by (simp add: connection_of_def split: option.split)
  show ?case
    using connect connection_requested [OF connect(4)] locks_held_connect
    unfolding ha_inv_def c by (auto simp: server_connect_def)
next
  case (serve s h key)
  then show ?case using locks_held_acquire [of "hsCluster h" s key]
    by (auto simp: ha_inv_def server_acquire_def Let_def)
next
  case (attempt h p s answer kept logged)
  have k: "kept = None \<or> kept = Some s \<and> answer = Inr True"
    using attempt(3) by (auto simp: acquire_attempt_def split: sum.splits if_splits)
  have c: "connection_of (h\<lparr>hsTrying := (hsTrying h)(p := None),
      hsElector := (hsElector h)(p := (hsElector h p)\<lparr>elConn := kept\<rparr>)\<rparr>) q = (if q = p then kept else connection_of h q)" for q
    by (simp add: connection_of_def split: option.split)
  have old: "connection_of h p = Some s" using attempt(1) by (simp add: connection_of_def split: option.split)
  show ?case
    using attempt(2,4) k old unfolding ha_inv_def c by auto
next
  case (end_session h s)
  then show ?case using locks_held_end [of "hsCluster h" s]
    by (auto simp: ha_inv_def server_end_session_def)
next
  case (switch h w)
  then show ?case by (auto simp: ha_inv_def locks_held_def)
next
  case (stand_down event h p elector closing)
  have e: "elector = (hsElector h p)\<lparr>elConn := None\<rparr>"
    using stand_down(2) by (auto simp: Elector_Close_def split: option.splits)
  show ?case using stand_down(3) unfolding ha_inv_def e connection_of_def by (auto split: option.splits)
qed

interpretation election: invariant_machine ha_initial ha_step ha_inv
  proof
  fix h :: "'p ha_system"
  show "ha_inv h" if "ha_initial h" using that
    by (auto simp: ha_initial_def ha_inv_def connection_of_def locks_held_def)
qed (rule ha_step_inv)

section \<open>The loops\<close>

definition isr_conn :: "'c result \<Rightarrow> bool" where
  "isr_conn r = (case r of Inr c \<Rightarrow> True | Inl e \<Rightarrow> False)"

definition wins :: "'c attempt \<Rightarrow> bool" where
  "wins a \<longleftrightarrow> isr_conn (atConnect a) \<and> atAnswer a = Inr True"

definition opened :: "'c attempt list \<Rightarrow> 'c list" where
  "opened rounds = concat (map (\<lambda>a. case atConnect a of Inr c \<Rightarrow> [c] | Inl e \<Rightarrow> []) rounds)"

lemma lost_round:
  "\<lbrakk>acquire_attempt (atConnect a) (atAnswer a) logged = (kept, shut, written, logged'); \<not> wins a\<rbrakk> \<Longrightarrow>
   kept = None \<and> shut = opened [a]"
  by (auto simp: acquire_attempt_def wins_def opened_def isr_conn_def split: sum.splits if_splits)

lemma won_round:
  "wins a \<Longrightarrow> acquire_attempt (atConnect a) (atAnswer a) logged =
     (Some (projr (atConnect a)), [], [LeadershipAcquired], logged) \<and> opened [a] = [projr (atConnect a)]"
  by (auto simp: acquire_attempt_def wins_def opened_def isr_conn_def split: sum.splits)


lemma opened_Cons: "opened (a # rounds) = opened [a] @ opened rounds"
  by (simp add: opened_def)

definition kept_connection :: "'c acquire_run \<Rightarrow> 'c list" where
  "kept_connection run = (case elConn (arElector run) of None \<Rightarrow> [] | Some c \<Rightarrow> [c])"

text \<open>What a run has done when \<open>n\<close> rounds were used, started from \<open>before\<close>.\<close>

definition acquired_well :: "'c attempt list \<Rightarrow> 'c acquire_run \<Rightarrow> 'c acquire_run \<Rightarrow> bool" where
  "acquired_well rounds before run \<longleftrightarrow>
     (arReturned run = None \<longleftrightarrow> list_all (\<lambda>a. \<not> wins a \<and> atDone a = None) rounds) \<and>
     (arReturned run = Some None \<longleftrightarrow> elConn (arElector run) \<noteq> None) \<and>
     arRounds before \<le> arRounds run \<and>
     arClosed run @ kept_connection run =
       arClosed before @ opened (take (arRounds run - arRounds before) rounds)"

lemma acquire_loop_well:
  "\<lbrakk>elConn (arElector run) = None; arReturned run = None\<rbrakk> \<Longrightarrow> acquired_well rounds run (acquire_loop rounds logged run)"
proof (induction rounds arbitrary: logged run)
  case Nil
  then show ?case by (simp add: acquired_well_def kept_connection_def opened_def)
next
  case (Cons a rounds)
  obtain kept shut written logged' where r:
    "acquire_attempt (atConnect a) (atAnswer a) logged = (kept, shut, written, logged')"
    by (metis prod_cases4)
  let ?run = "run\<lparr>arClosed := arClosed run @ shut, arLog := arLog run @ written, arRounds := arRounds run + 1\<rparr>"
  consider (won) "wins a" | (ended) err where "\<not> wins a" "atDone a = Some err" | (again) "\<not> wins a" "atDone a = None"
    by blast
  then show ?case
  proof cases
    case won
    have "kept = Some (projr (atConnect a))" "shut = []" "opened [a] = [projr (atConnect a)]"
      using r won_round [OF won, of logged] by simp_all
    then show ?thesis using Cons.prems r won by (simp add: acquired_well_def kept_connection_def Let_def)
  next
    case ended
    then show ?thesis using Cons.prems r lost_round [OF r] by (simp add: acquired_well_def kept_connection_def Let_def)
  next
    case again
    have step: "acquire_loop (a # rounds) logged run = acquire_loop rounds logged' ?run"
      using r lost_round [OF r] again by (simp add: Let_def)
    let ?out = "acquire_loop rounds logged' ?run"
    have ih: "acquired_well rounds ?run ?out" using Cons.prems by (intro Cons.IH) simp_all
    then have "arRounds run + 1 \<le> arRounds ?out" by (simp add: acquired_well_def)
    then obtain n where n: "arRounds ?out = arRounds run + 1 + n" by (auto simp only: le_iff_add)
    show ?thesis
      using ih n again lost_round [OF r] opened_Cons [of a "take n rounds"] unfolding step
      by (simp add: acquired_well_def kept_connection_def)
  qed
qed

section \<open>Properties\<close>

text \<open>The key is one that PostgreSQL's signed \<open>bigint\<close> shows as a number that is not negative.\<close>

lemma lock_id_nonnegative: "0 \<le> sint (lockIDForScope sha256 scope)"
proof -
  have "\<not> bit (lockIDForScope sha256 scope) 63"
    by (simp add: lockIDForScope_def MaxInt64_def Let_def bit_simps)
  then show ?thesis using bit_last_iff [of "lockIDForScope sha256 scope"] by simp
qed

text \<open>
  C3: the instances of one scope have at most one leader that the server still knows. Instances with the same
  key that both believe to lead are the same instance, or the session of one of them has ended at the server
  and its lock is gone; this holds in every interleaving of connections, answers that arrive, get lost or are
  late, sessions that end, changes of the primary's role, and instances that stand down.
\<close>
theorem one_live_leader:
  assumes "ha_initial h0" and "ha_step\<^sup>*\<^sup>* h0 h"
    and "elConn (hsElector h p) = Some a" and "elConn (hsElector h q) = Some b"
    and "elLockID (hsElector h p) = elLockID (hsElector h q)"
    and "a \<in> clSessions (hsCluster h)" and "b \<in> clSessions (hsCluster h)"
  shows "p = q"
proof -
  have inv: "ha_inv h" by (rule election.reachable_inv [OF assms(1,2)])
  then have "connection_of h p = Some a" "connection_of h q = Some b"
    using assms(3,4) by (auto simp: ha_inv_def connection_of_def)
  moreover have "clLocks (hsCluster h) (elLockID (hsElector h p)) = Some s"
    if "connection_of h r = Some s" "elConn (hsElector h r) = Some s" "s \<in> clSessions (hsCluster h)"
      "elLockID (hsElector h r) = elLockID (hsElector h p)" for r s
    using inv that unfolding ha_inv_def locks_held_def by metis
  ultimately have "a = b" using assms(3-7) by (metis option.inject)
  then show ?thesis using inv \<open>connection_of h p = Some a\<close> \<open>connection_of h q = Some b\<close>
    unfolding ha_inv_def by blast
qed

text \<open>
  \<open>Monitor\<close> makes a leader that lost its lock stand down. With an answer that is an error when the
  session has ended and otherwise tells whether the server is a writable primary, the next validation keeps
  the leader exactly when its session lives on a writable primary; the elector that stood down has no
  connection, and monitoring it again reports that.
\<close>
theorem lost_leader_stands_down:
  assumes "elConn (hsElector h p) = Some a"
    and "case answer of Inl e \<Rightarrow> a \<notin> clSessions (hsCluster h)
         | Inr w \<Rightarrow> a \<in> clSessions (hsCluster h) \<and> w = clWritable (hsCluster h)"
  shows "(Monitor [Validate answer] (hsElector h p) = None \<longleftrightarrow>
            a \<in> clSessions (hsCluster h) \<and> clWritable (hsCluster h)) \<and>
    Monitor events (snd (Elector_Close closing (hsElector h p))) =
      Some (ErrText ''PostgreSQL HA leadership has not been acquired'')"
  using assms by (cases answer) (auto simp: Monitor_def Elector_Close_def)

text \<open>
  C29: \<open>Acquire\<close> returns as soon as it can and leaks no connection. It is still waiting after some rounds
  exactly when no round got the lock and the context did not end; it returns nil exactly when the elector has
  a connection; and the connections it opened in the rounds it used are those it closed, followed by the one
  that it keeps.
\<close>
theorem acquire_returns:
  assumes "elConn e = None"
  shows "let run = Acquire rounds e in
    (arReturned run = None \<longleftrightarrow> list_all (\<lambda>a. \<not> wins a \<and> atDone a = None) rounds) \<and>
    (arReturned run = Some None \<longleftrightarrow> elConn (arElector run) \<noteq> None) \<and>
    arClosed run @ kept_connection run = opened (take (arRounds run) rounds)"
  using acquire_loop_well [of "\<lparr>arReturned = None, arClosed = [], arLog = [], arRounds = 0, arElector = e\<rparr>" rounds False]
    assms
  by (simp add: Acquire_def acquired_well_def Let_def)

definition example_elector :: "nat Elector" where
  "example_elector = \<lparr>elScope = ''prod'', elLockID = 5, elRetryInterval = 10, elValidationInterval = 5, elConn = None\<rparr>"

definition refused :: "nat \<Rightarrow> nat attempt" where
  "refused c = \<lparr>atConnect = Inr c, atAnswer = Inr False, atDone = None\<rparr>"

definition granted :: "nat \<Rightarrow> nat attempt" where
  "granted c = \<lparr>atConnect = Inr c, atAnswer = Inr True, atDone = None\<rparr>"

theorem acquire_returns_witness:
  "arReturned (Acquire [refused 1, refused 2, granted 3] example_elector) = Some None \<and>
   arClosed (Acquire [refused 1, refused 2, granted 3] example_elector) = [1, 2]"
proof -
  let ?run = "Acquire [refused 1, refused 2, granted 3] example_elector"
  have "elConn (arElector ?run) = Some 3" "arRounds ?run = 3"
    by (simp_all add: Acquire_def acquire_attempt_def example_elector_def refused_def granted_def)
  then show ?thesis
    using acquire_returns [of example_elector "[refused 1, refused 2, granted 3]"]
    by (simp add: example_elector_def Let_def kept_connection_def opened_def refused_def granted_def)
qed

text \<open>An instance got the lock, its session ended, and another one has the lock: the first has not noticed yet.\<close>

definition fresh_instances :: "bool ha_system" where
  "fresh_instances = \<lparr>hsCluster = \<lparr>clWritable = True, clSessions = {}, clLocks = Map.empty, clRequested = Map.empty,
     clReplies = Map.empty, clNext = 0\<rparr>, hsTrying = (\<lambda>_. None), hsElector = (\<lambda>_. example_elector)\<rparr>"

text \<open>One instance connects, is served and reads the answer.\<close>

definition elect :: "'p \<Rightarrow> 'p ha_system \<Rightarrow> 'p ha_system" where
  "elect p h =
     (let s = clNext (hsCluster h); key = elLockID (hsElector h p);
          cluster = server_acquire s key (server_connect key (hsCluster h));
          kept = (if clReplies cluster s = Some True then Some s else None)
      in h\<lparr>hsCluster := cluster, hsTrying := (hsTrying h)(p := None),
           hsElector := (hsElector h)(p := (hsElector h p)\<lparr>elConn := kept\<rparr>)\<rparr>)"

lemma elect_steps:
  assumes "hsTrying h p = None" and "elConn (hsElector h p) = None"
    and "clReplies (hsCluster h) (clNext (hsCluster h)) = None"
  shows "ha_step\<^sup>*\<^sup>* h (elect p h)"
proof -
  let ?s = "clNext (hsCluster h)" and ?key = "elLockID (hsElector h p)"
  let ?h1 = "h\<lparr>hsCluster := server_connect ?key (hsCluster h), hsTrying := (hsTrying h)(p := Some ?s)\<rparr>"
  let ?h2 = "?h1\<lparr>hsCluster := server_acquire ?s ?key (hsCluster ?h1)\<rparr>"
  let ?b = "the (clReplies (hsCluster ?h2) ?s)"
  let ?kept = "fst (acquire_attempt (Inr ?s) (Inr ?b) False)"
  let ?h3 = "?h2\<lparr>hsTrying := (hsTrying ?h2)(p := None),
               hsElector := (hsElector ?h2)(p := (hsElector ?h2 p)\<lparr>elConn := ?kept\<rparr>)\<rparr>"
  have "ha_step h ?h1" using assms by (intro ha_step.connect) simp_all
  moreover have "ha_step ?h1 ?h2" using assms by (intro ha_step.serve) (simp_all add: server_connect_def)
  moreover have "ha_step ?h2 ?h3" by (rule ha_step.attempt) (simp_all add: server_acquire_def Let_def)
  moreover have "?h3 = elect p h"
    by (simp add: elect_def Let_def acquire_attempt_def server_acquire_def)
  ultimately show ?thesis by (metis (no_types, lifting) r_into_rtranclp rtranclp_trans)
qed

definition unnoticed :: "bool ha_system" where
  "unnoticed = (let h = elect True fresh_instances
     in elect False (h\<lparr>hsCluster := server_end_session 0 (hsCluster h)\<rparr>))"

lemmas elect_simps = unnoticed_def fresh_instances_def elect_def server_connect_def server_acquire_def
  server_end_session_def example_elector_def Let_def

theorem one_live_leader_witness:
  "ha_step\<^sup>*\<^sup>* fresh_instances unnoticed \<and> elConn (hsElector unnoticed True) = Some 0 \<and>
   elConn (hsElector unnoticed False) = Some 1 \<and> \<not> {0, 1} \<subseteq> clSessions (hsCluster unnoticed)"
proof -
  let ?h = "elect True fresh_instances"
  let ?h1 = "?h\<lparr>hsCluster := server_end_session 0 (hsCluster ?h)\<rparr>"
  have "ha_step\<^sup>*\<^sup>* fresh_instances ?h" by (rule elect_steps) (simp_all add: elect_simps)
  moreover have "ha_step ?h ?h1" by (rule ha_step.end_session)
  moreover have "ha_step\<^sup>*\<^sup>* ?h1 (elect False ?h1)" by (rule elect_steps) (simp_all add: elect_simps)
  ultimately have steps: "ha_step\<^sup>*\<^sup>* fresh_instances unnoticed" unfolding unnoticed_def Let_def by (meson rtranclp.rtrancl_into_rtrancl rtranclp_trans)
  have leaders: "elConn (hsElector unnoticed True) = Some 0" "elConn (hsElector unnoticed False) = Some 1"
    "elLockID (hsElector unnoticed True) = elLockID (hsElector unnoticed False)"
    by (simp_all add: elect_simps)
  have "ha_initial fresh_instances" by (simp add: ha_initial_def fresh_instances_def example_elector_def)
  from one_live_leader [OF this steps leaders] steps leaders show ?thesis by auto
qed

theorem lost_leader_stands_down_witness:
  "Monitor [Validate (Inr True)] (hsElector unnoticed False) = None"
  using lost_leader_stands_down [of unnoticed False 1 "Inr True" "[]" "\<lambda>_. None"]
  by (simp add: elect_simps)

end
