(* ===== verification/Json.thy ===== *)
theory Json
  imports Prelude
begin

text \<open>
  What the sources use of \<open>encoding/json\<close>: \<open>Marshal\<close> of a struct of strings, and \<open>Unmarshal\<close> into it.
  Texts are byte strings; a text that is no valid UTF-8 has each byte that begins no character replaced
  by U+FFFD, when it is written and when it is read.
\<close>

section \<open>Characters of more than one byte\<close>

definition continuation_byte :: "char \<Rightarrow> bool" where
  "continuation_byte c \<longleftrightarrow> 128 \<le> byte_of c \<and> byte_of c \<le> 191"

text \<open>The length that the first byte announces, 0 for a byte that begins no character.\<close>

definition rune_length :: "nat \<Rightarrow> nat" where
  "rune_length b =
     (if b < 128 then 1 else if b < 194 then 0 else if b \<le> 223 then 2 else if b \<le> 239 then 3
      else if b \<le> 244 then 4 else 0)"

text \<open>The range of the second byte excludes overlong forms, surrogates and what is above U+10FFFF.\<close>

definition second_byte :: "nat \<Rightarrow> nat \<Rightarrow> bool" where
  "second_byte b0 b1 \<longleftrightarrow>
     (if b0 = 224 then 160 else if b0 = 240 then 144 else 128) \<le> b1 \<and>
     b1 \<le> (if b0 = 237 then 159 else if b0 = 244 then 143 else 191)"

text \<open>\<open>utf8.DecodeRune\<close>: how many bytes the first character has, 0 where it answers \<open>RuneError\<close> of size 1.\<close>

definition rune_size :: "string \<Rightarrow> nat" where
  "rune_size s =
     (let n = rune_length (byte_of (hd s)) in
      if n \<le> 1 then n
      else if n \<le> length s \<and> second_byte (byte_of (hd s)) (byte_of (s ! 1)) \<and>
              list_all continuation_byte (take (n - 1) (tl s))
      then n else 0)"

definition replacement :: string where
  "replacement = map char_of [239::nat, 191, 189]"

text \<open>A text with the replacement character for every byte that begins no character.\<close>

function valid_text :: "string \<Rightarrow> string" where
  "valid_text [] = []"
| "valid_text (c # cs) =
     (let n = rune_size (c # cs) in
      if n = 0 then replacement @ valid_text cs else take n (c # cs) @ valid_text (drop (n - 1) cs))"
  by pat_completeness auto
termination by (relation "measure length") auto

section \<open>Encoding\<close>

definition hex_digit :: "nat \<Rightarrow> char" where
  "hex_digit n = char_of (if n < 10 then n + 48 else n + 87)"

definition quote :: char where "quote = CHR 0x22"
definition backslash :: char where "backslash = CHR 0x5C"

text \<open>\<open>appendString\<close> with the HTML escapes that \<open>Marshal\<close> makes: a byte below 128, and a whole text.\<close>

definition json_escape :: "char \<Rightarrow> string" where
  "json_escape c =
     (let b = byte_of c in
      if c = quote \<or> c = backslash then [backslash, c]
      else if b = 8 then [backslash, CHR ''b'']
      else if b = 12 then [backslash, CHR ''f'']
      else if b = 10 then [backslash, CHR ''n'']
      else if b = 13 then [backslash, CHR ''r'']
      else if b = 9 then [backslash, CHR ''t'']
      else if b < 32 \<or> c = CHR ''<'' \<or> c = CHR ''>'' \<or> c = CHR ''&''
      then backslash # ''u00'' @ [hex_digit (b div 16), hex_digit (b mod 16)]
      else [c])"

definition line_separator :: string where "line_separator = map char_of [226::nat, 128, 168]"
definition paragraph_separator :: string where "paragraph_separator = map char_of [226::nat, 128, 169]"

function json_chars :: "string \<Rightarrow> string" where
  "json_chars [] = []"
| "json_chars (c # cs) =
     (if byte_of c < 128 then json_escape c @ json_chars cs
      else let n = rune_size (c # cs); rune = take n (c # cs) in
           if n = 0 then backslash # ''ufffd'' @ json_chars cs
           else (if rune = line_separator then backslash # ''u2028''
                 else if rune = paragraph_separator then backslash # ''u2029'' else rune) @
                json_chars (drop (n - 1) cs))"
  by pat_completeness auto
termination by (relation "measure length") auto

definition json_string :: "string \<Rightarrow> string" where
  "json_string s = quote # json_chars s @ [quote]"

text \<open>\<open>Marshal\<close> of a struct whose fields are strings: the tags and the values, in the order of the fields.\<close>

definition json_struct :: "(string \<times> string) list \<Rightarrow> string" where
  "json_struct fields =
     CHR ''{'' # join_with '','' (map (\<lambda>(k, v). json_string k @ '':'' @ json_string v) fields) @ ''}''"

section \<open>Parsing\<close>

datatype json =
    JNull
  | JBool bool
  | JNumber string
  | JString string
  | JArray "json list"
  | JObject "(string \<times> json) list"

definition json_space :: "char \<Rightarrow> bool" where
  "json_space c \<longleftrightarrow> byte_of c \<in> {32, 9, 10, 13}"

definition skip :: "string \<Rightarrow> string" where "skip = dropWhile json_space"

definition hex_value :: "char \<Rightarrow> nat option" where
  "hex_value c =
     (let b = byte_of c in
      if 48 \<le> b \<and> b \<le> 57 then Some (b - 48)
      else if 97 \<le> b \<and> b \<le> 102 then Some (b - 87)
      else if 65 \<le> b \<and> b \<le> 70 then Some (b - 55)
      else None)"

fun hex4 :: "string \<Rightarrow> (nat \<times> string) option" where
  "hex4 (a # b # c # d # rest) =
     (case (hex_value a, hex_value b, hex_value c, hex_value d) of
        (Some w, Some x, Some y, Some z) \<Rightarrow> Some (((w * 16 + x) * 16 + y) * 16 + z, rest)
      | _ \<Rightarrow> None)"
| "hex4 _ = None"

definition utf8_encode :: "nat \<Rightarrow> string" where
  "utf8_encode n = map char_of
     (if n < 128 then [n]
      else if n < 2048 then [192 + n div 64, 128 + n mod 64]
      else if n < 65536 then [224 + n div 4096, 128 + n div 64 mod 64, 128 + n mod 64]
      else [240 + n div 262144, 128 + n div 4096 mod 64, 128 + n div 64 mod 64, 128 + n mod 64])"

text \<open>\<open>\u\<close> escapes: a surrogate pair is one character, a lone surrogate becomes U+FFFD.\<close>

definition unescape_u :: "string \<Rightarrow> (string \<times> string) option" where
  "unescape_u s =
     (case hex4 s of
        None \<Rightarrow> None
      | Some (n, rest) \<Rightarrow>
          if n < 55296 \<or> 57344 \<le> n then Some (utf8_encode n, rest)
          else (case (if take 2 rest = [backslash, CHR ''u''] then hex4 (drop 2 rest) else None) of
                  Some (low, rest') \<Rightarrow>
                    if n < 56320 \<and> 56320 \<le> low \<and> low < 57344
                    then Some (utf8_encode (65536 + (n - 55296) * 1024 + (low - 56320)), rest')
                    else Some (utf8_encode 65533, rest)
                | None \<Rightarrow> Some (utf8_encode 65533, rest)))"

definition unescape_char :: "char \<Rightarrow> string option" where
  "unescape_char c =
     (if c \<in> {quote, backslash, CHR ''/''} then Some [c]
      else if c = CHR ''b'' then Some [CHR 0x08]
      else if c = CHR ''f'' then Some [CHR 0x0C]
      else if c = CHR ''n'' then Some [CHR 0x0A]
      else if c = CHR ''r'' then Some [CHR 0x0D]
      else if c = CHR ''t'' then Some [CHR 0x09]
      else None)"

text \<open>The rest of a string literal after its opening quote; the fuel is the length of the text.\<close>

fun string_body :: "nat \<Rightarrow> string \<Rightarrow> (string \<times> string) option" where
  "string_body 0 s = None"
| "string_body (Suc n) [] = None"
| "string_body (Suc n) (c # cs) =
     (if c = quote then Some ([], cs)
      else if c = backslash then
        (case cs of
           [] \<Rightarrow> None
         | d # ds \<Rightarrow>
             (case (if d = CHR ''u'' then unescape_u ds else map_option (\<lambda>x. (x, ds)) (unescape_char d)) of
                None \<Rightarrow> None
              | Some (x, rest) \<Rightarrow> map_option (\<lambda>(s, r). (x @ s, r)) (string_body n rest)))
      else if byte_of c < 32 then None
      else let k = rune_size (c # cs) in
           if k = 0 then map_option (\<lambda>(s, r). (replacement @ s, r)) (string_body n cs)
           else map_option (\<lambda>(s, r). (take k (c # cs) @ s, r)) (string_body n (drop (k - 1) cs)))"

text \<open>Numbers: the sign, the integer part, the fraction and the exponent.\<close>

definition digits :: "string \<Rightarrow> (string \<times> string) option" where
  "digits s = (let ds = takeWhile is_digit s in if ds = [] then None else Some (ds, drop (length ds) s))"

definition number_parts :: "string \<Rightarrow> string option" where
  "number_parts s =
     (let s = (if take 1 s = ''-'' then drop 1 s else s) in
      case digits s of
        None \<Rightarrow> None
      | Some (ds, rest) \<Rightarrow>
          let rest = (if hd ds = CHR ''0'' then drop 1 s else rest) in
          case (if take 1 rest = ''.'' then map_option snd (digits (drop 1 rest)) else Some rest) of
            None \<Rightarrow> None
          | Some rest \<Rightarrow>
              if take 1 rest \<in> {''e'', ''E''}
              then let rest = drop 1 rest in
                   map_option snd (digits (if take 1 rest \<in> {''+'', ''-''} then drop 1 rest else rest))
              else Some rest)"

definition literal :: "string \<Rightarrow> json \<Rightarrow> string \<Rightarrow> (json \<times> string) option" where
  "literal word v s = (if has_prefix word s then Some (v, drop (length word) s) else None)"

fun json_value :: "nat \<Rightarrow> string \<Rightarrow> (json \<times> string) option"
  and json_elements :: "nat \<Rightarrow> string \<Rightarrow> (json list \<times> string) option"
  and json_members :: "nat \<Rightarrow> string \<Rightarrow> ((string \<times> json) list \<times> string) option" where
  "json_value 0 s = None"
| "json_value (Suc n) s =
     (case skip s of
        [] \<Rightarrow> None
      | c # cs \<Rightarrow>
          if c = CHR ''{'' then
            (case skip cs of
               d # ds \<Rightarrow>
                 if d = CHR ''}'' then Some (JObject [], ds)
                 else map_option (\<lambda>(ms, r). (JObject ms, r)) (json_members n cs)
             | [] \<Rightarrow> None)
          else if c = CHR ''['' then
            (case skip cs of
               d # ds \<Rightarrow>
                 if d = CHR '']'' then Some (JArray [], ds)
                 else map_option (\<lambda>(vs, r). (JArray vs, r)) (json_elements n cs)
             | [] \<Rightarrow> None)
          else if c = quote then map_option (\<lambda>(t, r). (JString t, r)) (string_body (length cs) cs)
          else if c = CHR ''t'' then literal ''true'' (JBool True) (c # cs)
          else if c = CHR ''f'' then literal ''false'' (JBool False) (c # cs)
          else if c = CHR ''n'' then literal ''null'' JNull (c # cs)
          else map_option (\<lambda>r. (JNumber (take (length (c # cs) - length r) (c # cs)), r)) (number_parts (c # cs)))"
| "json_elements 0 s = None"
| "json_elements (Suc n) s =
     (case json_value n s of
        None \<Rightarrow> None
      | Some (v, r) \<Rightarrow>
          (case skip r of
             d # ds \<Rightarrow>
               if d = CHR '']'' then Some ([v], ds)
               else if d = CHR '','' then map_option (\<lambda>(vs, r). (v # vs, r)) (json_elements n ds)
               else None
           | [] \<Rightarrow> None))"
| "json_members 0 s = None"
| "json_members (Suc n) s =
     (case skip s of
        c # cs \<Rightarrow>
          if c \<noteq> quote then None
          else (case string_body (length cs) cs of
                  None \<Rightarrow> None
                | Some (k, r) \<Rightarrow>
                    (case skip r of
                       d # ds \<Rightarrow>
                         if d \<noteq> CHR '':'' then None
                         else (case json_value n ds of
                                 None \<Rightarrow> None
                               | Some (v, r) \<Rightarrow>
                                   (case skip r of
                                      d # ds \<Rightarrow>
                                        if d = CHR ''}'' then Some ([(k, v)], ds)
                                        else if d = CHR '','' then map_option (\<lambda>(ms, r). ((k, v) # ms, r)) (json_members n ds)
                                        else None
                                    | [] \<Rightarrow> None))
                     | [] \<Rightarrow> None))
      | [] \<Rightarrow> None)"

text \<open>A whole text is one value with white space around it.\<close>

definition json_parse :: "string \<Rightarrow> json option" where
  "json_parse s =
     (case json_value (Suc (length s)) s of
        Some (v, r) \<Rightarrow> if skip r = [] then Some v else None
      | None \<Rightarrow> None)"

text \<open>
  \<open>Unmarshal\<close> into a struct of strings: a member goes to the field whose tag is its key, up to case; others
  are ignored, and null changes nothing. The result is the values of the fields in their order.
\<close>

definition field_index :: "string list \<Rightarrow> string \<Rightarrow> nat option" where
  "field_index tags k =
     (if k \<in> set tags then find (\<lambda>i. tags ! i = k) [0..<length tags]
      else find (\<lambda>i. to_lower (tags ! i) = to_lower k) [0..<length tags])"

fun set_members :: "string list \<Rightarrow> (string \<times> json) list \<Rightarrow> string list \<Rightarrow> string list result" where
  "set_members tags [] vs = Inr vs"
| "set_members tags ((k, v) # ms) vs =
     (case field_index tags k of
        None \<Rightarrow> set_members tags ms vs
      | Some i \<Rightarrow>
          (case v of
             JString t \<Rightarrow> set_members tags ms (vs[i := t])
           | JNull \<Rightarrow> set_members tags ms vs
           | _ \<Rightarrow> Inl (ErrText (''json: cannot unmarshal into Go struct field '' @ k @ '' of type string''))))"

definition json_unmarshal :: "string list \<Rightarrow> string \<Rightarrow> string list result" where
  "json_unmarshal tags s =
     (case json_parse s of
        None \<Rightarrow> Inl (ErrText ''invalid JSON'')
      | Some (JObject ms) \<Rightarrow> set_members tags ms (replicate (length tags) [])
      | Some JNull \<Rightarrow> Inr (replicate (length tags) [])
      | Some _ \<Rightarrow> Inl (ErrText ''json: cannot unmarshal into Go value of type struct''))"

section \<open>What is written can be read\<close>

lemma hex_value_digit [simp]: "n < 16 \<Longrightarrow> hex_value (hex_digit n) = Some n"
  by (auto simp: hex_value_def hex_digit_def byte_of_def Let_def)

lemma unescape_byte: "byte_of c < 128 \<Longrightarrow>
  unescape_u (CHR ''0'' # CHR ''0'' # hex_digit (byte_of c div 16) # hex_digit (byte_of c mod 16) # t) = Some ([c], t)"
proof -
  assume b: "byte_of c < 128"
  have "hex_value (CHR ''0'') = Some 0" by (simp add: hex_value_def byte_of_def)
  then show ?thesis using b by (simp add: unescape_u_def utf8_encode_def byte_of_def)
qed

lemma byte_of_inject: "byte_of c = byte_of d \<Longrightarrow> c = d"
  by (simp add: byte_of_def)

lemma rune_size_ascii [simp]: "byte_of c < 128 \<Longrightarrow> rune_size (c # cs) = 1"
  by (simp add: rune_size_def rune_length_def)

lemma rune_length_4: "rune_length b \<le> 4"
  by (simp add: rune_length_def)

text \<open>A character of several bytes: none of its bytes is below 128, and what follows does not matter.\<close>

lemma rune_bytes:
  assumes "rune_size (c # cs) = n" and "n \<noteq> 0" and "128 \<le> byte_of c"
  shows "n \<le> Suc (length cs)" and "list_all (\<lambda>d. 128 \<le> byte_of d) (take n (c # cs))"
    and "rune_size (take n (c # cs) @ t) = n" and "2 \<le> n"
proof -
  have l: "rune_length (byte_of c) \<noteq> 1" using assms(3) by (simp add: rune_length_def)
  then have n: "n = rune_length (byte_of c)" "2 \<le> n" "n \<le> Suc (length cs)" "second_byte (byte_of c) (byte_of (cs ! 0))"
    "list_all continuation_byte (take (n - 1) cs)"
    using assms(1,2) by (auto simp: rune_size_def Let_def split: if_splits)
  obtain m where "n = Suc m" using n(2) by (cases n) auto
  then have m: "n = Suc m" "0 < m" "m \<le> length cs" using n(2,3) by simp_all
  have "list_all (\<lambda>d. 128 \<le> byte_of d) (take m cs)"
    using n(5) m(1) by (auto simp: list_all_iff continuation_byte_def)
  then show "list_all (\<lambda>d. 128 \<le> byte_of d) (take n (c # cs))" using assms(3) by (simp add: m(1))
  have "(take m cs @ t) ! 0 = cs ! 0" "take m (take m cs @ t) = take m cs"
    using m(2,3) by (simp_all add: nth_append)
  moreover note n(1) [unfolded m(1), symmetric] n(4) n(5) [unfolded m(1) diff_Suc_1]
  ultimately show "rune_size (take n (c # cs) @ t) = n"
    using m by (simp add: rune_size_def)
  show "n \<le> Suc (length cs)" "2 \<le> n" using n by simp_all
qed

text \<open>One character, as it was written.\<close>

lemma string_body_char:
  assumes ascii: "byte_of c < 128"
  shows "string_body (Suc n) (json_escape c @ t) = map_option (\<lambda>(s, r). (c # s, r)) (string_body n t)"
proof -
  consider "c = quote \<or> c = backslash" | "byte_of c \<in> {8, 12, 10, 13, 9}"
    | "byte_of c < 32 \<or> c = CHR ''<'' \<or> c = CHR ''>'' \<or> c = CHR ''&''" "byte_of c \<notin> {8, 12, 10, 13, 9}" "c \<noteq> quote" "c \<noteq> backslash"
    | "\<not> (byte_of c < 32 \<or> c = CHR ''<'' \<or> c = CHR ''>'' \<or> c = CHR ''&'')" "c \<noteq> quote" "c \<noteq> backslash"
    by blast
  then show ?thesis
  proof cases
    case 1
    then show ?thesis by (auto simp: json_escape_def Let_def quote_def backslash_def unescape_char_def)
  next
    case 2
    moreover have "byte_of (CHR 0x08) = 8" "byte_of (CHR 0x0C) = 12" "byte_of (CHR 0x0A) = 10"
      "byte_of (CHR 0x0D) = 13" "byte_of (CHR 0x09) = 9" by (simp_all add: byte_of_def)
    ultimately consider "c = CHR 0x08" | "c = CHR 0x0C" | "c = CHR 0x0A" | "c = CHR 0x0D" | "c = CHR 0x09"
      by (metis byte_of_inject insert_iff empty_iff)
    then show ?thesis
      by cases (simp_all add: json_escape_def Let_def quote_def backslash_def unescape_char_def byte_of_def)
  next
    case 3
    then have "json_escape c = backslash # ''u00'' @ [hex_digit (byte_of c div 16), hex_digit (byte_of c mod 16)]"
      by (auto simp: json_escape_def Let_def)
    then show ?thesis using unescape_byte [OF ascii] by (simp add: quote_def backslash_def)
  next
    case 4
    then have "json_escape c = [c]" by (auto simp: json_escape_def Let_def byte_of_def)
    then show ?thesis using 4 ascii by simp
  qed
qed

lemma unescape_runes:
  "unescape_u (CHR ''f'' # CHR ''f'' # CHR ''f'' # CHR ''d'' # t) = Some (replacement, t)"
  "unescape_u (CHR ''2'' # CHR ''0'' # CHR ''2'' # CHR ''8'' # t) = Some (line_separator, t)"
  "unescape_u (CHR ''2'' # CHR ''0'' # CHR ''2'' # CHR ''9'' # t) = Some (paragraph_separator, t)"
  by (simp_all add: unescape_u_def hex_value_def byte_of_def utf8_encode_def replacement_def line_separator_def
      paragraph_separator_def)

lemma string_body_rune:
  assumes "rune_size (c # cs) = k" and "k \<noteq> 0" and "128 \<le> byte_of c"
  shows "string_body (Suc n) (take k (c # cs) @ t) = map_option (\<lambda>(s, r). (take k (c # cs) @ s, r)) (string_body n t)"
proof -
  note rune = rune_bytes [OF assms]
  obtain m where m: "k = Suc m" using assms(2) by (cases k) auto
  have "c \<noteq> quote" "c \<noteq> backslash" "\<not> byte_of c < 32" using assms(3) by (auto simp: quote_def backslash_def byte_of_def)
  moreover have "rune_size (c # take m cs @ t) = Suc m" using rune(3) [of t] by (simp add: m)
  ultimately show ?thesis using rune(1) by (simp add: m min_def)
qed

lemma string_body_json_string:
  "length s < n \<Longrightarrow> string_body n (json_chars s @ quote # rest) = Some (valid_text s, rest)"
proof (induction s arbitrary: n rule: json_chars.induct)
  case 1
  then show ?case by (cases n) simp_all
next
  case (2 c cs)
  obtain m where m: "n = Suc m" "length cs < m" using 2(4) by (cases n) auto
  show ?case
  proof (cases "byte_of c < 128")
    case True
    then show ?thesis using 2(1) [OF True m(2)] by (simp add: m(1) string_body_char)
  next
    case high: False
    define k where "k = rune_size (c # cs)"
    show ?thesis
    proof (cases "k = 0")
      case True
      have "string_body m (json_chars cs @ quote # rest) = Some (valid_text cs, rest)"
        using 2(2) [OF high k_def refl True m(2)] .
      then show ?thesis
        using high True by (simp add: m(1) k_def [symmetric] Let_def unescape_runes) (simp add: quote_def backslash_def)
    next
      case False
      have "length (drop (k - 1) cs) < m" using m(2) by simp
      then have ih: "string_body m (json_chars (drop (k - 1) cs) @ quote # rest) = Some (valid_text (drop (k - 1) cs), rest)"
        using 2(3) [OF high k_def refl False] by simp
      have chars: "json_chars (c # cs) = (if take k (c # cs) = line_separator then backslash # ''u2028''
          else if take k (c # cs) = paragraph_separator then backslash # ''u2029'' else take k (c # cs)) @
          json_chars (drop (k - 1) cs)"
        using high False by (simp add: k_def [symmetric] Let_def)
      have kept: "valid_text (c # cs) = take k (c # cs) @ valid_text (drop (k - 1) cs)"
        using False by (simp add: k_def [symmetric] Let_def)
      have high': "128 \<le> byte_of c" using high by simp
      consider "take k (c # cs) = line_separator" | "take k (c # cs) = paragraph_separator"
        "take k (c # cs) \<noteq> line_separator" | "take k (c # cs) \<noteq> paragraph_separator" "take k (c # cs) \<noteq> line_separator"
        by blast
      then show ?thesis
      proof cases
        case 1
        then show ?thesis unfolding chars kept m(1)
          using ih by (simp add: unescape_runes) (simp add: quote_def backslash_def)
      next
        case 2
        then show ?thesis unfolding chars kept m(1)
          using ih by (simp add: unescape_runes) (simp add: quote_def backslash_def)
      next
        case 3
        then show ?thesis unfolding chars kept m(1)
          using ih string_body_rune [OF k_def [symmetric] False high', of m] by simp
      qed
    qed
  qed
qed

lemma json_escape_nonempty: "0 < length (json_escape c)"
  by (simp add: json_escape_def Let_def)

lemma length_escaped: "length s \<le> length (json_chars s)"
proof (induction s rule: json_chars.induct)
  case (2 c cs)
  define k where "k = rune_size (c # cs)"
  show ?case
  proof (cases "byte_of c < 128")
    case True
    then show ?thesis using 2(1) [OF True] json_escape_nonempty [of c] by (simp del: length_greater_0_conv)
  next
    case high: False
    then show ?thesis
    proof (cases "k = 0")
      case True
      then show ?thesis using 2(2) [OF high k_def refl True] high by (simp add: k_def [symmetric] Let_def)
    next
      case False
      have "k \<le> 4"
        using rune_length_4 [of "byte_of c"] by (simp add: k_def rune_size_def Let_def)
      then show ?thesis
        using 2(3) [OF high k_def refl False] high False by (auto simp: k_def [symmetric] Let_def)
    qed
  qed
qed simp

text \<open>A text of plain characters is kept.\<close>

lemma valid_text_ascii: "list_all (\<lambda>c. byte_of c < 128) s \<Longrightarrow> valid_text s = s"
  by (induction s) simp_all

lemma json_value_string: "json_value (Suc n) (json_string s @ rest) = Some (JString (valid_text s), rest)"
  using string_body_json_string [of s "length (json_chars s) + Suc (length rest)" rest] length_escaped [of s]
  by (simp add: json_string_def skip_def json_space_def quote_def byte_of_def)

definition json_field :: "string \<times> string \<Rightarrow> string" where
  "json_field = (\<lambda>(k, v). json_string k @ '':'' @ json_string v)"

lemma json_string_Cons: "json_string s = quote # json_chars s @ [quote]"
  by (simp add: json_string_def)

lemma skip_simps [simp]:
  "skip [] = []" "skip (quote # s) = quote # s" "skip (CHR '':'' # s) = CHR '':'' # s"
  "skip (CHR '','' # s) = CHR '','' # s" "skip (CHR ''}'' # s) = CHR ''}'' # s" "skip (CHR ''{'' # s) = CHR ''{'' # s"
  by (simp_all add: skip_def json_space_def quote_def byte_of_def)

text \<open>One member: what is left to do after its value.\<close>

lemma json_members_field:
  "0 < n \<Longrightarrow> json_members (Suc n) (json_field (k, v) @ d # ds) =
     (case skip (d # ds) of
        d # ds \<Rightarrow>
          if d = CHR ''}'' then Some ([(valid_text k, JString (valid_text v))], ds)
          else if d = CHR '','' then map_option (\<lambda>(ms, r). ((valid_text k, JString (valid_text v)) # ms, r)) (json_members n ds)
          else None
      | [] \<Rightarrow> None)"
proof -
  assume "0 < n"
  then obtain m where n: "n = Suc m" by (cases n) auto
  let ?rest = "CHR '':'' # json_string v @ d # ds"
  have key: "string_body (length (json_chars k @ quote # ?rest)) (json_chars k @ quote # ?rest) = Some (valid_text k, ?rest)"
    using length_escaped [of k] by (intro string_body_json_string) simp
  show ?thesis
    using key json_value_string [of m v "d # ds"]
    by (simp add: n json_field_def json_string_Cons [of k] del: json_value.simps split: list.splits)
qed

lemma json_members_fields:
  "\<lbrakk>fields \<noteq> []; length fields < n\<rbrakk> \<Longrightarrow>
   json_members n (join_with '','' (map json_field fields) @ CHR ''}'' # rest) =
     Some (map (\<lambda>(k, v). (valid_text k, JString (valid_text v))) fields, rest)"
proof (induction fields arbitrary: n)
  case (Cons f fields)
  obtain k v where f: "f = (k, v)" by (cases f)
  obtain m where n: "n = Suc m" "length fields < m" using Cons.prems(2) by (cases n) auto
  show ?case
  proof (cases fields)
    case Nil
    then show ?thesis using n json_members_field [of m k v "CHR ''}''" rest] by (simp add: f del: json_members.simps)
  next
    case (Cons g gs)
    then show ?thesis
      using n Cons.IH [of m] json_members_field [of m k v "CHR '',''" "join_with '','' (map json_field fields) @ CHR ''}'' # rest"]
      by (simp add: f del: json_members.simps)
  qed
qed simp

lemma length_join_fields: "length fields \<le> length (join_with '','' (map json_field fields))"
proof (induction fields rule: induct_list012)
  case (2 f)
  then show ?case by (cases f) (simp add: json_field_def json_string_def)
next
  case (3 f g fs)
  then show ?case by (cases f) (simp add: json_field_def json_string_def)
qed simp

lemma parse_struct:
  assumes "fields \<noteq> []"
  shows "json_parse (json_struct fields) = Some (JObject (map (\<lambda>(k, v). (valid_text k, JString (valid_text v))) fields))"
proof -
  let ?body = "join_with '','' (map json_field fields) @ ''}''"
  have s: "json_struct fields = CHR ''{'' # ?body" by (simp add: json_struct_def json_field_def)
  obtain k v fs where f: "fields = (k, v) # fs" using assms by (cases fields) auto
  then obtain body where b: "?body = quote # body"
    by (cases fs) (simp_all add: json_field_def json_string_def)
  have "json_members (length (json_struct fields)) ?body =
      Some (map (\<lambda>(k, v). (valid_text k, JString (valid_text v))) fields, [])"
    using assms length_join_fields [of fields] unfolding s by (intro json_members_fields) simp_all
  then have "json_value (Suc (length (json_struct fields))) (json_struct fields) =
      Some (JObject (map (\<lambda>(k, v). (valid_text k, JString (valid_text v))) fields), [])"
    unfolding s b by (simp del: json_members.simps) (simp add: quote_def)
  then show ?thesis by (simp add: json_parse_def del: json_value.simps)
qed

text \<open>What is written has no line break, and neither starts nor ends with white space.\<close>

lemma json_escape_line: "c \<in> set (json_escape d) \<Longrightarrow> 32 \<le> byte_of c"
proof -
  have "32 \<le> byte_of (hex_digit n)" if "n < 16" for n using that by (auto simp: hex_digit_def byte_of_def)
  moreover have "byte_of d div 16 < 16" "byte_of d mod 16 < 16"
    by (cases d) (simp_all add: byte_of_def nat_of_char_less_256 less_mult_imp_div_less)
  ultimately show "c \<in> set (json_escape d) \<Longrightarrow> 32 \<le> byte_of c"
    by (auto simp: json_escape_def Let_def quote_def backslash_def byte_of_def split: if_splits)
qed

lemma json_chars_line: "list_all (\<lambda>c. 32 \<le> byte_of c) (json_chars s)"
proof (induction s rule: json_chars.induct)
  case (2 c cs)
  define k where "k = rune_size (c # cs)"
  have ascii: "list_all (\<lambda>c. 32 \<le> byte_of c) (backslash # ''ufffd'')" "list_all (\<lambda>c. 32 \<le> byte_of c) (backslash # ''u2028'')"
    "list_all (\<lambda>c. 32 \<le> byte_of c) (backslash # ''u2029'')" by (simp_all add: backslash_def byte_of_def)
  show ?case
  proof (cases "byte_of c < 128")
    case True
    then show ?thesis using 2(1) [OF True] json_escape_line by (auto simp: list_all_iff)
  next
    case high: False
    then show ?thesis
    proof (cases "k = 0")
      case True
      then show ?thesis using 2(2) [OF high k_def refl True] high ascii(1) by (simp add: k_def [symmetric] Let_def)
    next
      case False
      have "list_all (\<lambda>d. 128 \<le> byte_of d) (take k (c # cs))"
        using rune_bytes(2) [OF k_def [symmetric] False] high by simp
      then have "list_all (\<lambda>d. 32 \<le> byte_of d) (take k (c # cs))" by (rule list.pred_mono_strong) simp
      then show ?thesis
        using 2(3) [OF high k_def refl False] high False ascii(2,3) by (simp add: k_def [symmetric] Let_def)
    qed
  qed
qed simp

lemma json_string_line: "c \<in> set (json_string s) \<Longrightarrow> 32 \<le> byte_of c"
  using json_chars_line [of s] by (auto simp: json_string_def quote_def byte_of_def list_all_iff)

lemma join_with_chars: "set (join_with sep xs) \<subseteq> set sep \<union> (\<Union>x \<in> set xs. set x)"
  by (induction xs rule: induct_list012) auto

lemma json_struct_line: "c \<in> set (json_struct fields) \<Longrightarrow> 32 \<le> byte_of c"
  using join_with_chars [of "'',''" "map json_field fields"] json_string_line
  by (fastforce simp: json_struct_def json_field_def byte_of_def)

lemma trim_json_struct [simp]: "trim_space (json_struct fields) = json_struct fields"
  by (simp add: trim_space_def json_struct_def is_space_def byte_of_def)

end
