(* ===== verification/AlertLog.thy ===== *)
theory AlertLog
  imports Json Database
begin

text \<open>
  The export of the alert log (\<open>alertlog/\<close>): the backoff after failures, the file of a database, the
  backward search for its last record, and the update that appends the new ones. Files are byte
  strings; what the operating system and Oracle answer are arguments.
\<close>

section \<open>Backoff\<close>

definition initialRetryBackoff :: duration where "initialRetryBackoff = 60 * 10 ^ 9"
definition maxRetryBackoff :: duration where "maxRetryBackoff = 15 * 60 * 10 ^ 9"

record databaseRetryState =
  consecutiveFailures :: nat
  rsRetryAfter :: time

type_synonym retryTracker = "string \<rightharpoonup> databaseRetryState"

definition shouldRetry :: "string \<Rightarrow> time \<Rightarrow> retryTracker \<Rightarrow> bool \<times> time" where
  "shouldRetry db now t =
     (case t db of
        None \<Rightarrow> (True, 0)
      | Some st \<Rightarrow>
          if is_zero_time (rsRetryAfter st) then (True, 0)
          else if \<not> time_before now (rsRetryAfter st) then (True, 0)
          else (False, rsRetryAfter st))"

text \<open>The loop doubles the backoff \<open>i\<close> times and stops at the maximum.\<close>

fun double_backoff :: "nat \<Rightarrow> duration \<Rightarrow> duration" where
  "double_backoff 0 backoff = backoff"
| "double_backoff (Suc i) backoff =
     (let backoff = wrap64 (backoff * 2)
      in if backoff \<ge> maxRetryBackoff then maxRetryBackoff else double_backoff i backoff)"

definition recordFailure :: "string \<Rightarrow> time \<Rightarrow> retryTracker \<Rightarrow> time \<times> retryTracker" where
  "recordFailure db now t =
     (let st = (case t db of Some st \<Rightarrow> st | None \<Rightarrow> \<lparr>consecutiveFailures = 0, rsRetryAfter = 0\<rparr>);
          failures = consecutiveFailures st + 1;
          retryAfter = time_add now (double_backoff (failures - 1) initialRetryBackoff)
      in (retryAfter, t(db \<mapsto> \<lparr>consecutiveFailures = failures, rsRetryAfter = retryAfter\<rparr>)))"

definition recordSuccess :: "string \<Rightarrow> retryTracker \<Rightarrow> retryTracker" where
  "recordSuccess db t = t(db := None)"

section \<open>The file of a database\<close>

definition slash :: char where "slash = CHR ''/''"

text \<open>\<open>path/filepath\<close> on a Unix system.\<close>

definition clean_step :: "bool \<Rightarrow> string list \<Rightarrow> string \<Rightarrow> string list" where
  "clean_step rooted acc c =
     (if c = [] \<or> c = ''.'' then acc
      else if c = ''..'' then
        (if acc \<noteq> [] \<and> last acc \<noteq> ''..'' then butlast acc else if rooted then acc else acc @ [c])
      else acc @ [c])"

definition path_clean :: "string \<Rightarrow> string" where
  "path_clean p =
     (if p = [] then ''.''
      else let rooted = (hd p = slash);
               comps = foldl (clean_step rooted) [] (split_on slash p)
           in if rooted then slash # join_with [slash] comps
              else if comps = [] then ''.'' else join_with [slash] comps)"

definition path_dir :: "string \<Rightarrow> string" where
  "path_dir p = path_clean (rev (dropWhile (\<lambda>c. c \<noteq> slash) (rev p)))"

definition path_base :: "string \<Rightarrow> string" where
  "path_base p =
     (if p = [] then ''.''
      else let p = rev (dropWhile (\<lambda>c. c = slash) (rev p));
               p = rev (takeWhile (\<lambda>c. c \<noteq> slash) (rev p))
           in if p = [] then [slash] else p)"

definition path_ext :: "string \<Rightarrow> string" where
  "path_ext p =
     (let name = takeWhile (\<lambda>c. c \<noteq> slash) (rev p)
      in if CHR ''.'' \<in> set name then CHR ''.'' # rev (takeWhile (\<lambda>c. c \<noteq> CHR ''.'') name) else [])"

definition path_join :: "string \<Rightarrow> string \<Rightarrow> string" where
  "path_join dir name =
     (if dir \<noteq> [] then path_clean (dir @ slash # name) else if name \<noteq> [] then path_clean name else [])"

definition trim_suffix :: "string \<Rightarrow> string \<Rightarrow> string" where
  "trim_suffix s suffix = (if has_suffix suffix s then take (length s - length suffix) s else s)"

definition logDestinationForDatabase :: "string \<Rightarrow> string \<Rightarrow> bool \<Rightarrow> string" where
  "logDestinationForDatabase logDestination db perDatabaseFiles =
     (if \<not> perDatabaseFiles then logDestination
      else let dir = path_dir logDestination;
               ext = path_ext logDestination;
               base = trim_suffix (path_base logDestination) ext
           in path_join dir (base @ ''-'' @ db @ ext))"

section \<open>Records\<close>

record LogRecord =
  lrTimestamp :: string
  lrDatabase :: string
  lrModuleId :: string
  lrECID :: string
  lrMessage :: string

definition log_tags :: "string list" where
  "log_tags = [''timestamp'', ''database'', ''moduleId'', ''ecid'', ''message'']"

definition marshal_record :: "LogRecord \<Rightarrow> string" where
  "marshal_record r =
     json_struct (zip log_tags [lrTimestamp r, lrDatabase r, lrModuleId r, lrECID r, lrMessage r])"

definition unmarshal_record :: "string \<Rightarrow> LogRecord result" where
  "unmarshal_record s =
     (case json_unmarshal log_tags s of
        Inl e \<Rightarrow> Inl e
      | Inr vs \<Rightarrow> Inr \<lparr>lrTimestamp = vs ! 0, lrDatabase = vs ! 1, lrModuleId = vs ! 2, lrECID = vs ! 3, lrMessage = vs ! 4\<rparr>)"

definition defaultLastLogRecord :: LogRecord where
  "defaultLastLogRecord = \<lparr>lrTimestamp = ''1900-01-01T01:01:01.001Z'', lrDatabase = [], lrModuleId = [], lrECID = [],
     lrMessage = []\<rparr>"

definition nullStringValue :: "string option \<Rightarrow> string" where
  "nullStringValue s = (case s of Some v \<Rightarrow> v | None \<Rightarrow> [])"

section \<open>The last record of a database\<close>

definition alertLogReadChunkSize :: nat where "alertLogReadChunkSize = 4096"
definition maxAlertLogLineBytes :: nat where "maxAlertLogLineBytes = 1048576"

definition line_break :: "char \<Rightarrow> bool" where
  "line_break c \<longleftrightarrow> c = CHR 0x0A \<or> c = CHR 0x0D"

definition line_too_long :: go_error where
  "line_too_long = ErrText (''last log line exceeds '' @ dec_of_nat maxAlertLogLineBytes @ '' byte limit'')"

text \<open>\<open>flushLine\<close> on the bytes of a line, the last one first: an error, a record that matches, or none.\<close>

definition flushLine :: "bool \<Rightarrow> string \<Rightarrow> string \<Rightarrow> LogRecord option result" where
  "flushLine perDatabaseFiles db currentReversed =
     (if currentReversed = [] then Inr None
      else let lineBytes = trim_space (rev currentReversed) in
           if lineBytes = [] then Inr None
           else case unmarshal_record lineBytes of
             Inl e \<Rightarrow> Inl e
           | Inr record \<Rightarrow> if \<not> perDatabaseFiles \<and> lrDatabase record \<noteq> db then Inr None else Inr (Some record))"

text \<open>The inner loop, over the bytes of a chunk from its end.\<close>

fun scan_chunk :: "bool \<Rightarrow> string \<Rightarrow> string \<Rightarrow> string \<Rightarrow> (LogRecord option \<times> string) result" where
  "scan_chunk per db [] cur = Inr (None, cur)"
| "scan_chunk per db (b # bs) cur =
     (if line_break b
      then (case flushLine per db cur of
              Inl e \<Rightarrow> Inl e
            | Inr (Some record) \<Rightarrow> Inr (Some record, [])
            | Inr None \<Rightarrow> scan_chunk per db bs [])
      else let cur = cur @ [b] in
           if maxAlertLogLineBytes < length cur then Inl line_too_long else scan_chunk per db bs cur)"

text \<open>After the loops: the first line of the file.\<close>

definition first_line :: "bool \<Rightarrow> string \<Rightarrow> string \<Rightarrow> LogRecord result" where
  "first_line per db cur =
     (case flushLine per db cur of
        Inl e \<Rightarrow> Inl e
      | Inr (Some record) \<Rightarrow> Inr record
      | Inr None \<Rightarrow> Inr defaultLastLogRecord)"

function read_back :: "(nat \<Rightarrow> nat \<Rightarrow> string result) \<Rightarrow> bool \<Rightarrow> string \<Rightarrow> nat \<Rightarrow> string \<Rightarrow> LogRecord result" where
  "read_back read_at per db offset cur =
     (if offset = 0 then first_line per db cur
      else let start = offset - alertLogReadChunkSize; chunkSize = offset - start in
           case read_at start chunkSize of
             Inl e \<Rightarrow> Inl e
           | Inr buffer \<Rightarrow>
               (case scan_chunk per db (rev buffer) cur of
                  Inl e \<Rightarrow> Inl e
                | Inr (Some record, _) \<Rightarrow> Inr record
                | Inr (None, cur) \<Rightarrow> read_back read_at per db start cur))"
  by pat_completeness auto
termination
  by (relation "measure (\<lambda>(read_at, per, db, offset, cur). offset)") (auto simp: alertLogReadChunkSize_def)

declare read_back.simps [simp del]

text \<open>
  \<open>readLastMatchingLogRecord\<close>; \<open>opening\<close> is the error of \<open>Open\<close> or \<open>Stat\<close>, \<open>filesize\<close> the size that \<open>Stat\<close>
  reports, \<open>read_at\<close> what \<open>ReadAt\<close> fills the buffer with.
\<close>

definition readLastMatchingLogRecord ::
    "go_error option \<Rightarrow> nat \<Rightarrow> (nat \<Rightarrow> nat \<Rightarrow> string result) \<Rightarrow> string \<Rightarrow> bool \<Rightarrow> LogRecord result" where
  "readLastMatchingLogRecord opening filesize read_at db per =
     (case opening of
        Some e \<Rightarrow> Inl e
      | None \<Rightarrow>
          if filesize = 0 then Inr defaultLastLogRecord
          else read_back read_at per db filesize [])"

text \<open>A file that nobody else changes, read without errors.\<close>

definition read_content :: "string \<Rightarrow> nat \<Rightarrow> nat \<Rightarrow> string result" where
  "read_content content start n = Inr (take n (drop start content))"

section \<open>The update\<close>

text \<open>A row of the query: timestamp, module, execution context and message.\<close>

type_synonym alert_row = "string \<times> string option \<times> string option \<times> string option"

definition new_record :: "string \<Rightarrow> alert_row \<Rightarrow> LogRecord" where
  "new_record db row =
     (case row of
        (timestamp, moduleID, ecid, message) \<Rightarrow>
          \<lparr>lrTimestamp = timestamp, lrDatabase = db, lrModuleId = nullStringValue moduleID,
           lrECID = nullStringValue ecid, lrMessage = trim_suffix (nullStringValue message) [CHR 0x0A]\<rparr>)"

definition record_line :: "LogRecord \<Rightarrow> string" where
  "record_line r = marshal_record r @ [CHR 0x0A]"

text \<open>
  The loop over the rows. \<open>writes i\<close> is the answer to the write of the \<open>i\<close>-th row: an error and how many bytes
  of the line were written before it, or none.
\<close>

fun write_rows :: "string \<Rightarrow> (nat \<Rightarrow> (go_error \<times> nat) option) \<Rightarrow> nat \<Rightarrow> alert_row result list \<Rightarrow> string \<Rightarrow> go_error option \<times> string" where
  "write_rows db writes i [] content = (None, content)"
| "write_rows db writes i (Inl e # rows) content = (Some e, content)"
| "write_rows db writes i (Inr row # rows) content =
     (let line = record_line (new_record db row) in
      case writes i of
        Some (e, n) \<Rightarrow> (Some e, content @ take n line)
      | None \<Rightarrow> write_rows db writes (i + 1) rows (content @ line))"

type_synonym files = "string \<rightharpoonup> string"

record update_env =
  ueNow :: time
  ueFailedAt :: time
  ueCreate :: "go_error option"
  ueOpen :: "go_error option"
  ueRead :: "nat \<Rightarrow> go_error option"
  ueAsk :: "string \<Rightarrow> alert_row query"
  ueAppend :: "go_error option"
  ueWrite :: "nat \<Rightarrow> (go_error \<times> nat) option"

definition read_file :: "update_env \<Rightarrow> string \<Rightarrow> nat \<Rightarrow> nat \<Rightarrow> string result" where
  "read_file env content start n =
     (case ueRead env start of Some e \<Rightarrow> Inl e | None \<Rightarrow> read_content content start n)"

definition UpdateLog ::
    "update_env \<Rightarrow> string \<Rightarrow> bool \<Rightarrow> Database \<Rightarrow> files \<times> retryTracker \<Rightarrow> files \<times> retryTracker" where
  "UpdateLog env logDestination perDatabaseFiles d = (\<lambda>(fs, retries).
     if \<not> StartupReady d then (fs, retries)
     else if \<not> IsActive d then (fs, retries)
     else if \<not> fst (shouldRetry (dName d) (ueNow env) retries) then (fs, retries)
     else
       let path = logDestinationForDatabase logDestination (dName d) perDatabaseFiles in
       if fs path = None \<and> ueCreate env \<noteq> None then (fs, retries)
       else
         let content = (case fs path of Some c \<Rightarrow> c | None \<Rightarrow> []);
             fs = fs(path \<mapsto> content)
         in case readLastMatchingLogRecord (ueOpen env) (length content) (read_file env content) (dName d) perDatabaseFiles of
              Inl e \<Rightarrow> (fs, retries)
            | Inr lastLogRecord \<Rightarrow>
                let q = Query d (ueAsk env (lrTimestamp lastLogRecord)) in
                if qError q \<noteq> None then (fs, snd (recordFailure (dName d) (ueNow env) retries))
                else if ueAppend env \<noteq> None then (fs, retries)
                else
                  let (err, content) = write_rows (dName d) (ueWrite env) 0 (qRows q) content;
                      fs = fs(path \<mapsto> content)
                  in if err \<noteq> None \<or> qRowsErr q \<noteq> None
                     then (fs, snd (recordFailure (dName d) (ueFailedAt env) retries))
                     else (fs, recordSuccess (dName d) retries))"

section \<open>The search, line by line\<close>

text \<open>The lines of a text, and the reference search: the last line that is a record of the database.\<close>

fun split_lines :: "string \<Rightarrow> string list" where
  "split_lines [] = [[]]"
| "split_lines (c # cs) =
     (if line_break c then [] # split_lines cs
      else case split_lines cs of [] \<Rightarrow> [[c]] | l # ls \<Rightarrow> (c # l) # ls)"

definition line_record :: "bool \<Rightarrow> string \<Rightarrow> string \<Rightarrow> LogRecord option result" where
  "line_record per db line =
     (if maxAlertLogLineBytes < length line then Inl line_too_long
      else if trim_space line = [] then Inr None
      else case unmarshal_record (trim_space line) of
        Inl e \<Rightarrow> Inl e
      | Inr record \<Rightarrow> Inr (if per \<or> lrDatabase record = db then Some record else None))"

fun last_record :: "bool \<Rightarrow> string \<Rightarrow> string list \<Rightarrow> LogRecord result" where
  "last_record per db [] = Inr defaultLastLogRecord"
| "last_record per db (line # before) =
     (case line_record per db line of
        Inl e \<Rightarrow> Inl e
      | Inr (Some record) \<Rightarrow> Inr record
      | Inr None \<Rightarrow> last_record per db before)"

definition no_break :: "string \<Rightarrow> bool" where "no_break t \<longleftrightarrow> list_all (\<lambda>c. \<not> line_break c) t"

lemma split_lines_nonempty [simp]: "split_lines s \<noteq> []"
  by (induction s) (auto split: list.splits)

lemma split_lines_no_break: "no_break t \<Longrightarrow> split_lines t = [t]"
  by (induction t) (auto simp: no_break_def)

lemma split_lines_break: "line_break b \<Longrightarrow> split_lines (xs @ b # t) = split_lines xs @ split_lines t"
  by (induction xs) (auto split: list.splits)

lemma split_lines_last: "no_break t \<Longrightarrow> length t \<le> length (last (split_lines (xs @ t)))"
proof (induction xs)
  case (Cons c xs)
  then show ?case by (cases "split_lines (xs @ t)") (auto split: if_splits)
qed (simp add: split_lines_no_break)

lemma flushLine_line_record:
  "length cur \<le> maxAlertLogLineBytes \<Longrightarrow> flushLine per db cur = line_record per db (rev cur)"
  by (simp add: flushLine_def line_record_def Let_def split: sum.split)

lemma scan_chunk_append:
  "scan_chunk per db (xs @ ys) cur =
     (case scan_chunk per db xs cur of
        Inl e \<Rightarrow> Inl e
      | Inr (Some r, c) \<Rightarrow> Inr (Some r, c)
      | Inr (None, c) \<Rightarrow> scan_chunk per db ys c)"
  by (induction xs arbitrary: cur) (auto simp: Let_def split: sum.splits option.splits)

text \<open>The end of a search that is over.\<close>

definition search_end :: "bool \<Rightarrow> string \<Rightarrow> (LogRecord option \<times> string) result \<Rightarrow> LogRecord result" where
  "search_end per db out =
     (case out of
        Inl e \<Rightarrow> Inl e
      | Inr (Some record, _) \<Rightarrow> Inr record
      | Inr (None, cur) \<Rightarrow> first_line per db cur)"

lemma search_end_simps [simp]:
  "search_end per db (Inl e) = Inl e" "search_end per db (Inr (Some r, c)) = Inr r"
  "search_end per db (Inr (None, c)) = first_line per db c"
  by (simp_all add: search_end_def)

lemma search_end_append:
  "search_end per db (scan_chunk per db (xs @ ys) cur) =
     (case scan_chunk per db xs cur of
        Inl e \<Rightarrow> Inl e
      | Inr (Some r, c) \<Rightarrow> Inr r
      | Inr (None, c) \<Rightarrow> search_end per db (scan_chunk per db ys c))"
  by (simp add: scan_chunk_append split: sum.split prod.split option.split)

lemma read_back_scan:
  "offset \<le> length content \<Longrightarrow>
   read_back (read_content content) per db offset cur = search_end per db (scan_chunk per db (rev (take offset content)) cur)"
proof (induction offset arbitrary: cur rule: less_induct)
  case (less offset)
  show ?case
  proof (cases "offset = 0")
    case True
    then show ?thesis by (subst read_back.simps) simp
  next
    case False
    define start where "start = offset - alertLogReadChunkSize"
    have start: "start < offset" using False by (simp add: start_def alertLogReadChunkSize_def)
    then have "take offset content = take start content @ take (offset - start) (drop start content)"
      by (metis le_add_diff_inverse less_imp_le take_add)
    then show ?thesis
      using False less.IH [OF start] less.prems start
        read_content_def [of content start "offset - start"]
      by (subst read_back.simps)
        (simp add: Let_def search_end_append start_def [symmetric] split: sum.split prod.split option.split)
  qed
qed

lemma scan_lines:
  "\<lbrakk>no_break cur; length cur \<le> maxAlertLogLineBytes\<rbrakk> \<Longrightarrow>
   search_end per db (scan_chunk per db (rev content) cur) = last_record per db (rev (split_lines (content @ rev cur)))"
proof (induction content arbitrary: cur rule: rev_induct)
  case Nil
  then show ?case
    by (simp add: first_line_def flushLine_line_record split_lines_no_break no_break_def
        split: sum.split option.split)
next
  case (snoc b content)
  have cur: "no_break (rev cur)" using snoc.prems by (simp add: no_break_def)
  show ?case
  proof (cases "line_break b")
    case True
    have "split_lines ((content @ [b]) @ rev cur) = split_lines content @ [rev cur]"
      using True cur by (simp add: split_lines_break split_lines_no_break)
    then show ?thesis
      using True snoc.IH [of "[]"] snoc.prems(2)
      by (simp add: flushLine_line_record no_break_def split: sum.split option.split)
  next
    case False
    then have b: "no_break (cur @ [b])" using snoc.prems(1) by (simp add: no_break_def)
    show ?thesis
    proof (cases "length (cur @ [b]) \<le> maxAlertLogLineBytes")
      case True
      then show ?thesis using False snoc.IH [OF b True] by (simp add: Let_def)
    next
      case too_long: False
      have "no_break (b # rev cur)" using b by (simp add: no_break_def)
      then have long: "maxAlertLogLineBytes < length (last (split_lines (content @ b # rev cur)))"
        using split_lines_last [of "b # rev cur" content] too_long by simp
      obtain ls l where l: "split_lines (content @ b # rev cur) = ls @ [l]"
        by (metis split_lines_nonempty rev_exhaust)
      then have "rev (split_lines (content @ b # rev cur)) = l # rev ls" "maxAlertLogLineBytes < length l"
        using long by simp_all
      then show ?thesis using too_long False by (simp add: line_record_def)
    qed
  qed
qed

text \<open>What the writer wrote is read as one line.\<close>

lemma no_break_marshal: "no_break (marshal_record r)"
proof -
  have "32 \<le> byte_of c" if "c \<in> set (marshal_record r)" for c
    using that unfolding marshal_record_def by (rule json_struct_line)
  then show ?thesis unfolding no_break_def list_all_iff line_break_def
    by (fastforce simp: byte_of_def)
qed

lemma trim_marshal [simp]: "trim_space (marshal_record r) = marshal_record r"
  by (simp add: marshal_record_def)

lemma find_up: "find P [i..<j] = (if i < j then if P i then Some i else find P [Suc i..<j] else None)"
  by (simp add: upt_rec)

lemma field_index_tags:
  "field_index log_tags ''timestamp'' = Some 0" "field_index log_tags ''database'' = Some 1"
  "field_index log_tags ''moduleId'' = Some 2" "field_index log_tags ''ecid'' = Some 3"
  "field_index log_tags ''message'' = Some 4"
  by (simp_all add: field_index_def log_tags_def find_up)

text \<open>A record as it comes back: bytes that begin no character have been replaced.\<close>

definition valid_record :: "LogRecord \<Rightarrow> LogRecord" where
  "valid_record r = \<lparr>lrTimestamp = valid_text (lrTimestamp r), lrDatabase = valid_text (lrDatabase r),
     lrModuleId = valid_text (lrModuleId r), lrECID = valid_text (lrECID r), lrMessage = valid_text (lrMessage r)\<rparr>"

lemma valid_tags: "map valid_text log_tags = log_tags"
  by (simp add: log_tags_def valid_text_ascii byte_of_def del: valid_text.simps(2))

lemma unmarshal_marshal: "unmarshal_record (marshal_record r) = Inr (valid_record r)"
proof -
  let ?vs = "[lrTimestamp r, lrDatabase r, lrModuleId r, lrECID r, lrMessage r]"
  let ?fields = "map (\<lambda>(k, v). (valid_text k, JString (valid_text v))) (zip log_tags ?vs)"
  have "zip log_tags ?vs \<noteq> []" by (simp add: log_tags_def)
  from parse_struct [OF this] have
    "json_parse (marshal_record r) = Some (JObject ?fields)"
    by (simp only: marshal_record_def)
  moreover have "?fields = zip log_tags (map (JString \<circ> valid_text) ?vs)"
    using valid_tags by (simp add: log_tags_def)
  moreover have "set_members log_tags (zip log_tags (map (JString \<circ> valid_text) ?vs)) (replicate (length log_tags) []) =
      Inr (map valid_text ?vs)"
    using field_index_tags by (simp add: log_tags_def)
  ultimately show ?thesis by (simp add: unmarshal_record_def json_unmarshal_def valid_record_def)
qed

text \<open>What a loop without errors has written.\<close>

lemma write_rows_ok:
  "write_rows db writes i rows content = (None, content') \<Longrightarrow>
   \<exists>rs. rows = map Inr rs \<and> content' = content @ concat (map (\<lambda>r. record_line (new_record db r)) rs)"
proof (induction rows arbitrary: i content)
  case (Cons row rows)
  then obtain r where r: "row = Inr r" "writes i = None"
    by (cases row) (auto simp: Let_def split: option.splits)
  with Cons.prems Cons.IH obtain rs where
    "rows = map Inr rs" "content' = (content @ record_line (new_record db r)) @ concat (map (\<lambda>r. record_line (new_record db r)) rs)"
    by (fastforce simp: Let_def)
  then show ?case using r by (intro exI [of _ "r # rs"]) simp
qed simp

lemma split_lines_end: "line_break b \<Longrightarrow> split_lines (xs @ [b]) = split_lines xs @ [[]]"
  by (simp add: split_lines_break)

lemma last_line_of_record:
  assumes "content = [] \<or> line_break (last content)"
  shows "\<exists>before. split_lines (content @ record_line r) = before @ [marshal_record r, []]"
proof (cases content rule: rev_cases)
  case Nil
  then show ?thesis by (simp add: record_line_def split_lines_end line_break_def split_lines_no_break no_break_marshal)
next
  case (snoc xs b)
  then have "line_break b" using assms by simp
  then show ?thesis
    by (simp add: snoc record_line_def split_lines_break [of b] split_lines_no_break no_break_marshal
        split_lines_end [of _ "marshal_record r", simplified] line_break_def)
qed

lemma search_lines:
  "readLastMatchingLogRecord None (length content) (read_content content) db per =
     last_record per db (rev (split_lines content))"
proof -
  have "search_end per db (scan_chunk per db (rev content) []) = last_record per db (rev (split_lines (content @ rev [])))"
    by (rule scan_lines) (simp_all add: no_break_def)
  then show ?thesis
    using read_back_scan [of "length content" content per db "[]"]
    by (simp add: readLastMatchingLogRecord_def line_record_def maxAlertLogLineBytes_def trim_space_def)
qed

section \<open>Properties\<close>

lemma double_backoff_closed:
  "\<lbrakk>0 < b; b < maxRetryBackoff\<rbrakk> \<Longrightarrow> double_backoff i b = min maxRetryBackoff (b * 2 ^ i)"
proof (induction i arbitrary: b)
  case (Suc i)
  have w: "wrap64 (b * 2) = b * 2"
    using Suc.prems by (intro wrap64_id) (simp add: in_int64_def max_int64_def min_int64_def maxRetryBackoff_def)
  have "maxRetryBackoff \<le> b * 2 ^ Suc i" if "maxRetryBackoff \<le> b * 2"
  proof -
    have "b * 2 * 1 \<le> b * 2 * 2 ^ i" by (rule mult_left_mono) (use Suc.prems(1) in simp_all)
    with that show ?thesis by (simp add: mult.assoc)
  qed
  then show ?case using Suc.IH [of "b * 2"] Suc.prems by (auto simp: w Let_def min_def mult.assoc)
qed simp

text \<open>A database that fails again and again is asked ever more rarely, but at least every 15 minutes.\<close>

lemma failure_backoff:
  "fst (recordFailure db now t) = time_add now
     (min maxRetryBackoff (initialRetryBackoff * 2 ^ (case t db of Some st \<Rightarrow> consecutiveFailures st | None \<Rightarrow> 0)))"
  by (simp add: recordFailure_def Let_def double_backoff_closed initialRetryBackoff_def maxRetryBackoff_def
      split: option.split)

text \<open>
  C14: the search reads the file backwards in chunks and finds what a search over the lines finds. For every
  content of the file, the result of the chunked loop is that of going through the lines from the last to the
  first: blank lines and records of other databases of a shared file are passed over, a line that is no
  record or longer than the limit is an error, and a file without a record gives the default.
\<close>
theorem search_is_last_record:
  "readLastMatchingLogRecord None (length content) (read_content content) db per =
     last_record per db (rev (split_lines content))"
  by (rule search_lines)

text \<open>
  C28: an export resumes where the previous one ended. When the rows of a query have been appended to a file
  whose last line was complete, and the line of the last row is not longer than the 1 MiB that the search
  accepts, the search finds the record of that row, whatever the bytes of its texts (those that are no
  UTF-8 come back as U+FFFD), in a file of its own and, if its name is valid UTF-8, in a shared one. The next
  update therefore puts no question to Oracle but the one for what comes after the timestamp of that row.
\<close>
theorem export_resumes_after_last_row:
  assumes "write_rows (dName d) writes 0 rows content = (None, content')" and "rows \<noteq> []"
    and "content = [] \<or> line_break (last content)"
    and "last rows = Inr row" and "length (marshal_record (new_record (dName d) row)) \<le> maxAlertLogLineBytes"
    and "per \<or> valid_text (dName d) = dName d"
  shows "readLastMatchingLogRecord None (length content') (read_content content') (dName d) per =
      Inr (valid_record (new_record (dName d) row)) \<and>
    (fs (logDestinationForDatabase dest (dName d) per) = Some content' \<longrightarrow> ueRead env = (\<lambda>_. None) \<longrightarrow>
       UpdateLog env dest per d (fs, retries) =
       UpdateLog (env\<lparr>ueAsk := \<lambda>_. ueAsk env (valid_text (fst row))\<rparr>) dest per d (fs, retries))"
proof -
  let ?r = "new_record (dName d) row"
  obtain rs where rs: "rows = map Inr rs" "content' = content @ concat (map (\<lambda>r. record_line (new_record (dName d) r)) rs)"
    using write_rows_ok [OF assms(1)] by blast
  then obtain before where b: "rs = before @ [row]"
    using assms(2,4) by (cases rs rule: rev_cases) auto
  let ?content = "content @ concat (map (\<lambda>r. record_line (new_record (dName d) r)) before)"
  have "?content = [] \<or> line_break (last ?content)"
    using assms(3) by (cases before rule: rev_cases) (auto simp: record_line_def line_break_def)
  from last_line_of_record [OF this] obtain ls where
    ls: "split_lines content' = ls @ [marshal_record ?r, []]"
    using rs(2) b by auto
  have "marshal_record ?r \<noteq> []" by (simp add: marshal_record_def json_struct_def)
  moreover have fields: "lrDatabase ?r = dName d" "lrTimestamp ?r = fst row" by (cases row, simp add: new_record_def)+
  then have "per \<or> lrDatabase (valid_record ?r) = dName d" using assms(6) by (simp add: valid_record_def)
  ultimately have found: "readLastMatchingLogRecord None (length content') (read_content content') (dName d) per =
      Inr (valid_record ?r)"
    using assms(5)
    by (simp add: search_lines ls line_record_def unmarshal_marshal maxAlertLogLineBytes_def trim_space_def [of "[]"])
  have "UpdateLog env dest per d (fs, retries) =
      UpdateLog (env\<lparr>ueAsk := \<lambda>_. ueAsk env (valid_text (fst row))\<rparr>) dest per d (fs, retries)"
    if f: "fs (logDestinationForDatabase dest (dName d) per) = Some content'" and "ueRead env = (\<lambda>_. None)"
  proof -
    have read: "read_file env content' = read_content content'"
      "read_file (env\<lparr>ueAsk := \<lambda>_. ueAsk env (valid_text (fst row))\<rparr>) content' = read_content content'"
      by (intro ext, simp add: read_file_def that(2))+
    have "lrTimestamp (valid_record ?r) = valid_text (fst row)" by (simp add: valid_record_def fields)
    moreover have "readLastMatchingLogRecord (ueOpen env) (length content') (read_content content') (dName d) per =
        (case ueOpen env of Some e \<Rightarrow> Inl e | None \<Rightarrow> Inr (valid_record ?r))"
      unfolding found [symmetric] by (simp add: readLastMatchingLogRecord_def split: option.split)
    ultimately show ?thesis
      by (cases "ueOpen env") (simp_all add: UpdateLog_def Let_def f read split: prod.split)
  qed
  with found show ?thesis by blast
qed

definition example_row :: alert_row where
  "example_row = (''2026-03-13T12:05:00.000Z'', None, Some ''<x>'', Some (''ORA-00600'' @ [CHR 0xFF, CHR 0x0A, CHR 0x0A]))"

definition ready_database :: Database where
  "ready_database = example_database\<lparr>dName := ''db'', dStartupReady := True\<rparr>"

lemma export_resumes_after_last_row_witness:
  "readLastMatchingLogRecord None (length (record_line (new_record ''db'' example_row)))
     (read_content (record_line (new_record ''db'' example_row))) ''db'' False =
   Inr \<lparr>lrTimestamp = ''2026-03-13T12:05:00.000Z'', lrDatabase = ''db'', lrModuleId = [], lrECID = ''<x>'',
     lrMessage = ''ORA-00600'' @ replacement @ [CHR 0x0A]\<rparr>"
proof -
  have w: "write_rows (dName ready_database) (\<lambda>_. None) 0 [Inr example_row] [] =
      (None, record_line (new_record ''db'' example_row))" by (simp add: ready_database_def)
  have "length (marshal_record (new_record ''db'' example_row)) \<le> 300" by code_simp
  then have "length (marshal_record (new_record ''db'' example_row)) \<le> maxAlertLogLineBytes"
    by (simp add: maxAlertLogLineBytes_def)
  moreover have "valid_text ''db'' = ''db''" by code_simp
  ultimately have "readLastMatchingLogRecord None (length (record_line (new_record ''db'' example_row)))
     (read_content (record_line (new_record ''db'' example_row))) ''db'' False = Inr (valid_record (new_record ''db'' example_row))"
    using export_resumes_after_last_row [OF w, of example_row False]
    by (simp add: ready_database_def)
  moreover have "valid_record (new_record ''db'' example_row) =
      \<lparr>lrTimestamp = ''2026-03-13T12:05:00.000Z'', lrDatabase = ''db'', lrModuleId = [], lrECID = ''<x>'',
       lrMessage = ''ORA-00600'' @ replacement @ [CHR 0x0A]\<rparr>" by code_simp
  ultimately show ?thesis by simp
qed

text \<open>
  C38: a torn last line stops the export for good. If the last line of the file is no record (a write that
  failed half-way or a crash left it so), an update of any database that uses the file changes nothing:
  whatever Oracle and the operating system answer, no record is written, the line stays, and not even a
  failure is recorded.
\<close>
theorem torn_line_blocks_export:
  assumes "files (logDestinationForDatabase dest (dName d) per) = Some content"
    and "line_record per (dName d) (last (split_lines content)) = Inl e"
    and "ueRead env = (\<lambda>_. None)"
  shows "UpdateLog env dest per d (files, retries) = (files, retries)"
proof -
  let ?path = "logDestinationForDatabase dest (dName d) per"
  obtain before l where l: "split_lines content = before @ [l]" by (metis rev_exhaust split_lines_nonempty)
  have read: "read_file env content = read_content content"
    by (intro ext) (simp add: read_file_def assms(3))
  have "readLastMatchingLogRecord (ueOpen env) (length content) (read_content content) (dName d) per \<noteq> Inr r" for r
    using search_lines [of content "dName d" per] assms(2)
    by (cases "ueOpen env") (simp_all add: l readLastMatchingLogRecord_def)
  moreover have "files(?path \<mapsto> content) = files" using assms(1) by (simp add: fun_upd_idem)
  ultimately show ?thesis
    using assms(1) by (simp add: UpdateLog_def Let_def read split: sum.split)
qed

text \<open>The disk is full after one byte of the first record.\<close>

definition full_disk :: update_env where
  "full_disk = \<lparr>ueNow = 5, ueFailedAt = 6, ueCreate = None, ueOpen = None, ueRead = (\<lambda>_. None),
     ueAsk = (\<lambda>_. \<lparr>qDeadline = False, qError = None, qRows = [Inr example_row], qRowsErr = None\<rparr>),
     ueAppend = None, ueWrite = (\<lambda>_. Some (ErrText ''no space left on device'', 1))\<rparr>"

theorem torn_line_blocks_export_witness:
  "snd (write_rows ''db'' (ueWrite full_disk) 0 [Inr example_row] []) = ''{'' \<and>
   UpdateLog full_disk ''alert.log'' False ready_database ([''alert.log'' \<mapsto> ''{''], Map.empty) =
     ([''alert.log'' \<mapsto> ''{''], Map.empty)"
proof -
  have "line_record False ''db'' (last (split_lines ''{'')) = Inl (ErrText ''invalid JSON'')"
    by (simp add: line_record_def maxAlertLogLineBytes_def trim_space_def is_space_def byte_of_def line_break_def
        unmarshal_record_def json_unmarshal_def json_parse_def)
  then have "UpdateLog full_disk ''alert.log'' False ready_database ([''alert.log'' \<mapsto> ''{''], Map.empty) =
      ([''alert.log'' \<mapsto> ''{''], Map.empty)"
    using torn_line_blocks_export [where files = "[''alert.log'' \<mapsto> ''{'']" and dest = "''alert.log''"
        and d = ready_database and per = False and content = "''{''" and env = full_disk]
    by (simp add: ready_database_def logDestinationForDatabase_def full_disk_def)
  then show ?thesis by (simp add: full_disk_def record_line_def marshal_record_def json_struct_def)
qed

section \<open>Files of different databases\<close>

lemma split_on_snoc: "c \<notin> set p \<Longrightarrow> split_on c (s @ c # p) = split_on c s @ [p]"
  by (induction s) (auto simp: split_on_single split: list.splits)

lemma join_with_snoc: "join_with sep (xs @ [x]) = (if xs = [] then x else join_with sep xs @ sep @ x)"
  by (induction xs rule: induct_list012) auto

definition plain_name :: "string \<Rightarrow> bool" where
  "plain_name n \<longleftrightarrow> slash \<notin> set n \<and> n \<noteq> [] \<and> n \<noteq> ''.'' \<and> n \<noteq> ''..''"

lemma path_join_plain:
  assumes "plain_name n"
  shows "path_join dir n =
    (if dir = [] then n
     else let rooted = (hd dir = slash); comps = foldl (clean_step rooted) [] (split_on slash dir)
          in (if rooted then [slash] else []) @ (if comps = [] then n else join_with [slash] comps @ slash # n))"
proof -
  have n: "clean_step rooted acc n = acc @ [n]" for rooted acc using assms by (simp add: clean_step_def plain_name_def)
  have "hd n \<noteq> slash" using assms by (cases n) (auto simp: plain_name_def)
  then have "path_join [] n = n"
    using assms n by (simp add: path_join_def path_clean_def plain_name_def split_on_single)
  moreover have "split_on slash (dir @ slash # n) = split_on slash dir @ [n]"
    using assms by (intro split_on_snoc) (simp add: plain_name_def)
  ultimately show ?thesis
    using n by (cases "dir = []") (simp_all add: path_join_def path_clean_def Let_def join_with_snoc)
qed

lemma path_join_inject: "\<lbrakk>plain_name n; plain_name m; path_join dir n = path_join dir m\<rbrakk> \<Longrightarrow> n = m"
  by (auto simp: path_join_plain Let_def split: if_splits)

lemma path_base_slash: "\<lbrakk>p \<noteq> []; last p \<noteq> slash\<rbrakk> \<Longrightarrow> slash \<notin> set (path_base p)"
proof -
  assume p: "p \<noteq> []" "last p \<noteq> slash"
  then have "rev (dropWhile (\<lambda>c. c = slash) (rev p)) = p"
    by (metis (mono_tags, lifting) dropWhile_eq_self_iff hd_rev rev_rev_ident)
  moreover have "takeWhile (\<lambda>c. c \<noteq> slash) (rev p) \<noteq> []" using p by (cases "rev p") (auto simp: last_rev hd_rev [symmetric])
  ultimately show ?thesis using p(1) by (auto simp: path_base_def Let_def dest: set_takeWhileD)
qed

lemma path_ext_slash: "slash \<notin> set (path_ext p)"
  by (auto simp: path_ext_def Let_def slash_def dest!: set_takeWhileD)

text \<open>
  With files per database, different databases write to different files. If the configured destination
  names a file and the names of the databases contain no slash, equal paths mean equal names, whatever the
  directory, the extension and the cleaning of the path.
\<close>
theorem databases_have_own_files:
  assumes "logDestinationForDatabase dest db1 True = logDestinationForDatabase dest db2 True"
    and "dest \<noteq> []" and "last dest \<noteq> slash" and "slash \<notin> set db1" and "slash \<notin> set db2"
  shows "db1 = db2"
proof -
  let ?base = "trim_suffix (path_base dest) (path_ext dest)"
  let ?name = "\<lambda>db. ?base @ ''-'' @ db @ path_ext dest"
  have "slash \<notin> set ?base"
    using path_base_slash [OF assms(2,3)] by (auto simp: trim_suffix_def dest: in_set_takeD)
  then have plain: "plain_name (?name db)" if "slash \<notin> set db" for db
    using that path_ext_slash [of dest]
    by (auto simp: plain_name_def slash_def append_eq_Cons_conv Cons_eq_append_conv)
  have "path_join (path_dir dest) (?name db1) = path_join (path_dir dest) (?name db2)"
    using assms(1) by (simp add: logDestinationForDatabase_def Let_def)
  from path_join_inject [OF plain [OF assms(4)] plain [OF assms(5)] this] show ?thesis by simp
qed

theorem databases_have_own_files_witness:
  "logDestinationForDatabase ''/log/alert.log'' ''db1'' True \<noteq> logDestinationForDatabase ''/log/alert.log'' ''db2'' True"
  using databases_have_own_files [of "''/log/alert.log''" "''db1''" "''db2''"] by (auto simp: slash_def)

end
