(* ===== verification/Lifecycle.thy ===== *)
theory Lifecycle
  imports ConfigValidation
begin

text \<open>
  The main program (\<open>main.go\<close>): the command line, the logger's settings, the health pages, and the life of
  the process as the sequence of effects that \<open>run\<close> has on the components, with the deferred calls in
  their order. What the environment answers is an argument.
\<close>

section \<open>The command line\<close>

definition dash :: char where "dash = CHR ''-''"
definition ErrHelp :: go_error where "ErrHelp = ErrText ''flag: help requested''"

text \<open>
  \<open>flag.FlagSet.Parse\<close> with the single string flag of the program: the value of the flag and the positional
  arguments, or an error.
\<close>

definition cut_equals :: "string \<Rightarrow> string \<times> string option" where
  "cut_equals name =
     (let before = takeWhile (\<lambda>c. c \<noteq> CHR ''='') (tl name)
      in if CHR ''='' \<in> set (tl name) then (hd name # before, Some (drop (Suc (length before)) (tl name))) else (name, None))"

fun parse_flags :: "string list \<Rightarrow> string \<Rightarrow> (string \<times> string list) result" where
  "parse_flags [] value = Inr (value, [])"
| "parse_flags (s # args) value =
     (if length s < 2 \<or> hd s \<noteq> dash then Inr (value, s # args)
      else if s = [dash, dash] then Inr (value, args)
      else
        let name = drop (if s ! 1 = dash then 2 else 1) s in
        if name = [] \<or> hd name = dash \<or> hd name = CHR ''='' then Inl (ErrText (''bad flag syntax: '' @ s))
        else
          let (name, given) = cut_equals name in
          if name \<noteq> ''config.file''
          then if name = ''help'' \<or> name = ''h'' then Inl ErrHelp
               else Inl (ErrText (''flag provided but not defined: -'' @ name))
          else (case given of
                  Some v \<Rightarrow> parse_flags args v
                | None \<Rightarrow>
                    (case args of
                       [] \<Rightarrow> Inl (ErrText (''flag needs an argument: -'' @ name))
                     | v # args \<Rightarrow> parse_flags args v)))"

definition parseConfigFile :: "string list \<Rightarrow> (string \<Rightarrow> string) \<Rightarrow> string result" where
  "parseConfigFile args getenv =
     (case parse_flags args (getenv ''CONFIG_FILE'') of
        Inl e \<Rightarrow> Inl e
      | Inr (configFile, positional) \<Rightarrow>
          if positional \<noteq> [] then Inl (ErrText (''unexpected positional arguments: '' @ join_with '' '' positional))
          else if trim_space configFile = [] then Inl (ErrText ''config file is required; set --config.file or CONFIG_FILE'')
          else Inr configFile)"

section \<open>The logger and the pages\<close>

datatype log_level = LevelDebug | LevelInfo | LevelWarn | LevelError
datatype log_format = Logfmt | LogJSON

definition newLogger :: "string \<Rightarrow> string \<Rightarrow> (log_level \<times> log_format) result" where
  "newLogger levelValue formatValue =
     (let level = to_lower levelValue; format = to_lower formatValue in
      case (if level = [] \<or> level = ''info'' then Some LevelInfo
            else if level = ''debug'' then Some LevelDebug
            else if level = ''warn'' then Some LevelWarn
            else if level = ''error'' then Some LevelError
            else None) of
        None \<Rightarrow> Inl (ErrText (''invalid log level '' @ levelValue))
      | Some l \<Rightarrow>
          if format = [] \<or> format = ''logfmt'' then Inr (l, Logfmt)
          else if format = ''json'' then Inr (l, LogJSON)
          else Inl (ErrText (''invalid log format '' @ formatValue)))"

text \<open>\<open>html.EscapeString\<close>.\<close>

definition html_escape_char :: "char \<Rightarrow> string" where
  "html_escape_char c =
     (if c = CHR ''&'' then ''&amp;''
      else if c = CHR 0x27 then ''&#39;''
      else if c = CHR ''<'' then ''&lt;''
      else if c = CHR ''>'' then ''&gt;''
      else if c = CHR 0x22 then ''&#34;''
      else [c])"

definition html_escape :: "string \<Rightarrow> string" where "html_escape s = concat (map html_escape_char s)"

definition landingPageHTML :: "string \<Rightarrow> string \<Rightarrow> string" where
  "landingPageHTML version healthPath =
     (let escapedVersion = html_escape version; escapedHealthPath = html_escape healthPath
      in ''<html><head><title>Harry - Performance Scraper for Oracle Database '' @ escapedVersion @
         ''</title></head><body><h1>Harry - Performance Scraper for Oracle Database '' @ escapedVersion @
         ''</h1><p>Writing Oracle metrics to PostgreSQL.</p><p><a href='' @ [CHR 0x27] @ escapedHealthPath @ [CHR 0x27] @
         ''>Health</a></p></body></html>'')"

definition readinessHandler :: "bool \<Rightarrow> nat \<times> string" where
  "readinessHandler ready =
     (if \<not> ready then (503, ''standby'' @ [CHR 0x0A]) else (200, ''ready'' @ [CHR 0x0A]))"

text \<open>The routes of the server; every path without a route of its own is the landing page.\<close>

definition landingPageHandler :: "string \<Rightarrow> string \<Rightarrow> nat \<times> string" where
  "landingPageHandler version healthPath = (200, landingPageHTML version healthPath)"

definition serve_path :: "string \<Rightarrow> bool \<Rightarrow> string \<Rightarrow> nat \<times> string" where
  "serve_path version ready path =
     (if path = ''/healthz'' then (200, ''ok'' @ [CHR 0x0A])
      else if path = ''/readyz'' then readinessHandler ready
      else landingPageHandler version ''/healthz'')"

definition listenAddress :: "string list option \<Rightarrow> string" where
  "listenAddress addresses =
     (case addresses of
        None \<Rightarrow> '':9161''
      | Some [] \<Rightarrow> '':9161''
      | Some (a # _) \<Rightarrow> if trim_space a = [] then '':9161'' else a)"

section \<open>The life of the process\<close>

datatype main_effect =
    StartServer string
  | StartAcquire
  | StartMonitor
  | OpenSink
  | StartTicker string duration
  | StartAlertLog
  | StartScrapers
  | SetReady bool
  | CancelWork
  | ShutdownServer
  | CloseSink
  | CloseElector

text \<open>What ends the wait for the leadership, and what ends the work.\<close>

datatype wait_end = AcquireReturned "go_error option" | WaitServerEnded "go_error option" | WaitStopped
datatype work_end = WorkStopped | LeadershipLost go_error | WorkServerEnded "go_error option"

record run_env =
  rvArgs :: "string list"
  rvGetenv :: "string \<Rightarrow> string"
  rvLoad :: "string \<Rightarrow> MetricsConfiguration result"
  rvFreeInterval :: "string option"
  rvRestartInterval :: "string option"
  rvParseDuration :: "string \<Rightarrow> duration result"
  rvElectorNew :: "go_error option"
  rvWait :: wait_end
  rvSignalled :: bool
  rvSinkNew :: "go_error option"
  rvLostAtStartup :: "go_error option"
  rvWorkEnd :: work_end

text \<open>The program ends with an exit code; the deferred calls run in the reverse order of their registration.\<close>

definition leave :: "nat \<Rightarrow> main_effect list \<Rightarrow> main_effect list \<Rightarrow> nat \<times> main_effect list" where
  "leave code effects deferred = (code, effects @ rev deferred)"

definition ticker_effect :: "run_env \<Rightarrow> string \<Rightarrow> string option \<Rightarrow> main_effect list" where
  "ticker_effect env what interval =
     (case interval of
        None \<Rightarrow> []
      | Some s \<Rightarrow>
          (case rvParseDuration env s of
             Inl e \<Rightarrow> []
           | Inr d \<Rightarrow> if d \<le> 0 then [] else [StartTicker what d]))"

text \<open>From the start of the work on: \<open>effects\<close> and \<open>deferred\<close> are what happened before.\<close>

definition run_work ::
    "run_env \<Rightarrow> MetricsConfiguration \<Rightarrow> bool \<Rightarrow> main_effect list \<Rightarrow> main_effect list \<Rightarrow> nat \<times> main_effect list" where
  "run_work env m elected effects deferred =
     (let deferred = deferred @ [CancelWork];
          effects = effects @ (if elected then [StartMonitor] else []) in
      if rvSinkNew env \<noteq> None then leave 1 (effects @ [ShutdownServer]) deferred
      else
        let effects = effects @ [OpenSink]; deferred = deferred @ [CloseSink] in
        case (if elected then rvLostAtStartup env else None) of
          Some err \<Rightarrow>
            if err_is err ErrCanceled \<and> rvSignalled env then leave 0 (effects @ [CancelWork, ShutdownServer]) deferred
            else leave 1 (effects @ [CancelWork, ShutdownServer]) deferred
        | None \<Rightarrow>
            let effects = effects @
                  ticker_effect env ''restart'' (rvRestartInterval env) @
                  ticker_effect env ''free memory'' (rvFreeInterval env) @
                  (if LogDisable m = Some 1 then [] else [StartAlertLog]) @
                  [StartScrapers, SetReady True, SetReady False, CancelWork]
            in case rvWorkEnd env of
                 WorkStopped \<Rightarrow> leave 0 (effects @ [ShutdownServer]) deferred
               | LeadershipLost err \<Rightarrow>
                   if err_is err ErrCanceled \<and> rvSignalled env then leave 0 (effects @ [ShutdownServer]) deferred
                   else leave 1 (effects @ [ShutdownServer]) deferred
               | WorkServerEnded err \<Rightarrow>
                   (case err of
                      Some e \<Rightarrow> if err_is e (ErrText ''http: Server closed'') then leave 0 effects deferred else leave 1 effects deferred
                    | None \<Rightarrow> leave 1 effects deferred))"

definition run_elected :: "run_env \<Rightarrow> MetricsConfiguration \<Rightarrow> main_effect list \<Rightarrow> nat \<times> main_effect list" where
  "run_elected env m effects =
     (if \<not> HA_GetEnabled (cfgHighAvailability m) then run_work env m False effects []
      else if rvElectorNew env \<noteq> None then leave 1 (effects @ [ShutdownServer]) []
      else
        let deferred = [CloseElector]; effects = effects @ [StartAcquire] in
        case rvWait env of
          AcquireReturned err \<Rightarrow>
            (case err of
               None \<Rightarrow> run_work env m True effects deferred
             | Some e \<Rightarrow>
                 if err_is e ErrCanceled \<and> rvSignalled env then leave 0 (effects @ [ShutdownServer]) deferred
                 else leave 1 (effects @ [ShutdownServer]) deferred)
        | WaitServerEnded err \<Rightarrow> leave 1 effects deferred
        | WaitStopped \<Rightarrow> leave 0 (effects @ [ShutdownServer]) deferred)"

definition run :: "run_env \<Rightarrow> nat \<times> main_effect list" where
  "run env =
     (case parseConfigFile (rvArgs env) (rvGetenv env) of
        Inl e \<Rightarrow> if err_is e ErrHelp then (0, []) else (2, [])
      | Inr configFile \<Rightarrow>
          (case rvLoad env configFile of
             Inl e \<Rightarrow> (1, [])
           | Inr m \<Rightarrow>
               (case newLogger (logLevel (cfgLogging m)) (logFormat (cfgLogging m)) of
                  Inl e \<Rightarrow> (1, [])
                | Inr logger \<Rightarrow> run_elected env m [StartServer (listenAddress (webListenAddresses (cfgWeb m)))])))"

text \<open>
  The two goroutines of the tickers. The first tick of the restart replaces the program image and with it every
  goroutine, or panics; \<open>execErr\<close> is the answer of \<open>syscall.Exec\<close>, which returns only when it fails. Each tick of
  the other one frees memory, and the wait never ends.
\<close>

datatype restart_end = Waiting | Replaced string "string list" | RestartPanic go_error

definition restart_process :: "nat \<Rightarrow> string \<Rightarrow> string list \<Rightarrow> go_error option \<Rightarrow> restart_end" where
  "restart_process ticks executable args execErr =
     (if ticks = 0 then Waiting
      else case execErr of None \<Rightarrow> Replaced executable args | Some e \<Rightarrow> RestartPanic e)"

fun free_memory :: "nat \<Rightarrow> ('m \<Rightarrow> 'm) \<Rightarrow> 'm \<Rightarrow> 'm" where
  "free_memory 0 freeOSMemory memory = memory"
| "free_memory (Suc ticks) freeOSMemory memory = free_memory ticks freeOSMemory (freeOSMemory memory)"

text \<open>The effects of a process that is replaced, or panics, after the first \<open>n\<close> of them; a panic of any other
  goroutine (\<open>pass_panics_only_on_null_metric\<close> describes one) ends the process in the same way.\<close>

definition interrupted_run :: "run_env \<Rightarrow> nat \<Rightarrow> restart_end \<Rightarrow> main_effect list" where
  "interrupted_run env n restart = (case restart of Waiting \<Rightarrow> snd (run env) | _ \<Rightarrow> take n (snd (run env)))"

section \<open>Properties\<close>

lemma ticker_effect_only: "e \<in> set (ticker_effect env what interval) \<Longrightarrow> \<exists>d. e = StartTicker what d"
  by (auto simp: ticker_effect_def split: option.splits sum.splits if_splits)

text \<open>What the work does between its start and the deferred calls.\<close>

definition working :: "run_env \<Rightarrow> MetricsConfiguration \<Rightarrow> bool \<Rightarrow> main_effect list" where
  "working env m elected =
     (if elected then [StartMonitor] else []) @ [OpenSink] @
     ticker_effect env ''restart'' (rvRestartInterval env) @
     ticker_effect env ''free memory'' (rvFreeInterval env) @
     (if LogDisable m = Some 1 then [] else [StartAlertLog])"

lemma run_work_cases:
  "(\<exists>ending. set ending \<subseteq> {ShutdownServer} \<and>
      snd (run_work env m elected effects deferred) =
        effects @ working env m elected @ [StartScrapers, SetReady True, SetReady False, CancelWork] @ ending @
        [CloseSink, CancelWork] @ rev deferred) \<or>
   (\<exists>tail. set tail \<subseteq> {StartMonitor, OpenSink, CancelWork, ShutdownServer, CloseSink} \<and>
      (OpenSink \<in> set tail \<longleftrightarrow> CloseSink \<in> set tail) \<and>
      snd (run_work env m elected effects deferred) = effects @ tail @ rev deferred)"
proof (cases "rvSinkNew env = None \<and> (if elected then rvLostAtStartup env else None) = None")
  case True
  let ?ending = "case rvWorkEnd env of WorkServerEnded err \<Rightarrow> [] | _ \<Rightarrow> [ShutdownServer]"
  have "snd (run_work env m elected effects deferred) =
      effects @ working env m elected @ [StartScrapers, SetReady True, SetReady False, CancelWork] @ ?ending @
        [CloseSink, CancelWork] @ rev deferred"
    using True by (simp add: run_work_def working_def leave_def Let_def split: work_end.split option.split)
  moreover have "set ?ending \<subseteq> {ShutdownServer}" by (simp split: work_end.split)
  ultimately show ?thesis by blast
next
  case False
  let ?tail = "(if elected then [StartMonitor] else []) @
     (if rvSinkNew env \<noteq> None then [ShutdownServer] else [OpenSink, CancelWork, ShutdownServer, CloseSink]) @ [CancelWork]"
  have "snd (run_work env m elected effects deferred) = effects @ ?tail @ rev deferred"
    using False by (auto simp: run_work_def leave_def Let_def)
  moreover have "set ?tail \<subseteq> {StartMonitor, OpenSink, CancelWork, ShutdownServer, CloseSink}" by auto
  moreover have "OpenSink \<in> set ?tail \<longleftrightarrow> CloseSink \<in> set ?tail" by auto
  ultimately show ?thesis by blast
qed

lemma working_effects:
  "e \<in> set (working env m elected) \<Longrightarrow>
   e = StartMonitor \<and> elected \<or> e = OpenSink \<or> (\<exists>w d. e = StartTicker w d) \<or> e = StartAlertLog"
  "OpenSink \<in> set (working env m elected)"
  "StartMonitor \<in> set (working env m elected) \<longleftrightarrow> elected"
  by (auto simp: working_def dest: ticker_effect_only split: if_splits)

text \<open>A process ends early, with few effects, or reaches the work.\<close>

lemma run_cases:
  "(set (snd (run env)) \<subseteq> {ShutdownServer} \<union> range StartServer) \<or>
   (\<exists>a tail. snd (run env) = StartServer a # StartAcquire # tail @ [CloseElector] \<and> set tail \<subseteq> {ShutdownServer}) \<or>
   (\<exists>path m a. rvLoad env path = Inr m \<and>
      snd (run env) = (if HA_GetEnabled (cfgHighAvailability m)
        then snd (run_work env m True [StartServer a, StartAcquire] [CloseElector])
        else snd (run_work env m False [StartServer a] [])) \<and>
      (HA_GetEnabled (cfgHighAvailability m) \<longrightarrow> rvWait env = AcquireReturned None))"
proof (cases "parseConfigFile (rvArgs env) (rvGetenv env)")
  case (Inr path)
  show ?thesis
  proof (cases "rvLoad env path")
    case Inr_m: (Inr m)
    then show ?thesis
      using Inr
      by (cases "rvWait env"; cases "newLogger (logLevel (cfgLogging m)) (logFormat (cfgLogging m))")
        (auto simp: run_def run_elected_def leave_def Let_def split: option.splits intro!: exI [of _ path])
  qed (use Inr in \<open>simp add: run_def\<close>)
qed (simp add: run_def)

lemma scrapers_between:
  assumes "StartScrapers \<in> set (snd (run env))"
  shows "\<exists>before after. snd (run env) = before @ [StartScrapers, SetReady True, SetReady False, CancelWork] @ after \<and>
    OpenSink \<in> set before \<and> CloseSink \<notin> set before \<and> StartScrapers \<notin> set before \<and> CloseElector \<notin> set before"
proof -
  obtain m a where r: "snd (run env) = (if HA_GetEnabled (cfgHighAvailability m)
        then snd (run_work env m True [StartServer a, StartAcquire] [CloseElector])
        else snd (run_work env m False [StartServer a] []))"
    using run_cases [of env] assms by auto
  let ?ha = "HA_GetEnabled (cfgHighAvailability m)"
  let ?pre = "if ?ha then [StartServer a, StartAcquire] else [StartServer a]"
  let ?post = "if ?ha then [CloseElector] else []"
  have r': "snd (run env) = snd (run_work env m ?ha ?pre ?post)" using r by simp
  obtain ending where e: "snd (run env) = ?pre @ working env m ?ha @
      [StartScrapers, SetReady True, SetReady False, CancelWork] @ ending @ [CloseSink, CancelWork] @ rev ?post"
    using run_work_cases [of env m ?ha ?pre ?post] assms r' by (auto split: if_splits)
  have "CloseSink \<notin> set (?pre @ working env m ?ha)" "StartScrapers \<notin> set (?pre @ working env m ?ha)"
    "CloseElector \<notin> set (?pre @ working env m ?ha)"
    by (auto dest: working_effects(1))
  moreover have "OpenSink \<in> set (?pre @ working env m ?ha)" using working_effects(2) by simp
  ultimately show ?thesis using e by (intro exI [of _ "?pre @ working env m ?ha"] exI) auto
qed

text \<open>
  C13: a standby does not scrape. When the scrapers run, the configuration was loaded and the sink opened
  before; with high availability the process had acquired the leadership and its monitor was running; and
  the process reports that it is ready only after the scrapers were started.
\<close>
theorem standby_never_scrapes:
  assumes "StartScrapers \<in> set (snd (run env))"
  shows "\<exists>path m before after. rvLoad env path = Inr m \<and>
    snd (run env) = before @ [StartScrapers, SetReady True] @ after \<and>
    OpenSink \<in> set before \<and> SetReady True \<notin> set before \<and>
    (HA_GetEnabled (cfgHighAvailability m) \<longrightarrow>
       rvWait env = AcquireReturned None \<and> {StartAcquire, StartMonitor} \<subseteq> set before)"
proof -
  obtain path m a where m: "rvLoad env path = Inr m"
    and r: "snd (run env) = (if HA_GetEnabled (cfgHighAvailability m)
        then snd (run_work env m True [StartServer a, StartAcquire] [CloseElector])
        else snd (run_work env m False [StartServer a] []))"
    and w: "HA_GetEnabled (cfgHighAvailability m) \<longrightarrow> rvWait env = AcquireReturned None"
    using run_cases [of env] assms by auto
  let ?ha = "HA_GetEnabled (cfgHighAvailability m)"
  let ?pre = "if ?ha then [StartServer a, StartAcquire] else [StartServer a]"
  let ?post = "if ?ha then [CloseElector] else []"
  have r': "snd (run env) = snd (run_work env m ?ha ?pre ?post)" using r by simp
  obtain ending where e: "snd (run env) = ?pre @ working env m ?ha @
      [StartScrapers, SetReady True, SetReady False, CancelWork] @ ending @ [CloseSink, CancelWork] @ rev ?post"
    using run_work_cases [of env m ?ha ?pre ?post] assms r' by (auto split: if_splits)
  let ?before = "?pre @ working env m ?ha"
  have "snd (run env) = ?before @ [StartScrapers, SetReady True] @
      ([SetReady False, CancelWork] @ ending @ [CloseSink, CancelWork] @ rev ?post)" using e by simp
  moreover have "OpenSink \<in> set ?before" "SetReady True \<notin> set ?before"
    using working_effects(1) [of "SetReady True" env m ?ha] working_effects(2) by auto
  moreover have "?ha \<longrightarrow> {StartAcquire, StartMonitor} \<subseteq> set ?before" using working_effects(3) by simp
  ultimately show ?thesis using m w by blast
qed

lemma returned_run:
  "let trace = snd (run env) in
    (if StartAcquire \<in> set trace then last trace = CloseElector \<and> CloseElector \<notin> set (butlast trace)
     else CloseElector \<notin> set trace) \<and>
    (CloseSink \<in> set trace \<longleftrightarrow> OpenSink \<in> set trace) \<and>
    filter (\<lambda>e. e \<in> range SetReady) trace \<in> {[], [SetReady True, SetReady False]}"
proof -
  have quiet: "filter (\<lambda>e. e \<in> range SetReady) xs = []" if "set xs \<subseteq> - range SetReady" for xs
    using that by (auto simp: filter_empty_conv)
  have work: "filter (\<lambda>e. e \<in> range SetReady) (working env m b) = []" for m b
    by (rule quiet) (auto dest: working_effects(1))
  have working_of: "StartAcquire \<notin> set (working env m b)" "CloseElector \<notin> set (working env m b)"
    "CloseSink \<notin> set (working env m b)" for m b by (auto dest: working_effects(1))
  consider (early) "set (snd (run env)) \<subseteq> {ShutdownServer} \<union> range StartServer"
    | (waiting) a tail where "snd (run env) = StartServer a # StartAcquire # tail @ [CloseElector]" "set tail \<subseteq> {ShutdownServer}"
    | (working) m a b where "snd (run env) = snd (run_work env m b (if b then [StartServer a, StartAcquire] else [StartServer a]) (if b then [CloseElector] else []))"
    using run_cases [of env] by (metis (full_types))
  then show ?thesis
  proof cases
    case early
    then have "filter (\<lambda>e. e \<in> range SetReady) (snd (run env)) = []" by (intro quiet) auto
    then show ?thesis using early by (auto simp: Let_def)
  next
    case waiting
    then have "filter (\<lambda>e. e \<in> range SetReady) tail = []" by (intro quiet) auto
    then show ?thesis using waiting by (auto simp: Let_def)
  next
    case working
    let ?pre = "if b then [StartServer a, StartAcquire] else [StartServer a]"
    let ?post = "if b then [CloseElector] else []"
    from run_work_cases [of env m b ?pre ?post] show ?thesis
    proof (elim disjE exE conjE)
      fix ending assume e: "set ending \<subseteq> {ShutdownServer}" "snd (run_work env m b ?pre ?post) = ?pre @ working env m b @
        [StartScrapers, SetReady True, SetReady False, CancelWork] @ ending @ [CloseSink, CancelWork] @ rev ?post"
      have "filter (\<lambda>e. e \<in> range SetReady) ending = []" using e(1) by (intro quiet) auto
      then show ?thesis
        using working e work [of m b] working_of [of m b] working_effects(2) [of env m b]
        by (auto simp: Let_def butlast_append)
    next
      fix tail assume t: "set tail \<subseteq> {StartMonitor, OpenSink, CancelWork, ShutdownServer, CloseSink}"
        "OpenSink \<in> set tail \<longleftrightarrow> CloseSink \<in> set tail" "snd (run_work env m b ?pre ?post) = ?pre @ tail @ rev ?post"
      have "filter (\<lambda>e. e \<in> range SetReady) tail = []" using t(1) by (intro quiet) auto
      then show ?thesis using working t by (auto simp: Let_def butlast_append)
    qed
  qed
qed

lemma restart_skips_close:
  assumes scraping: "StartScrapers \<in> set (interrupted_run env n restart)"
    and working: "CancelWork \<notin> set (interrupted_run env n restart)"
  shows "OpenSink \<in> set (interrupted_run env n restart)" "CloseSink \<notin> set (interrupted_run env n restart)"
    "CloseElector \<notin> set (interrupted_run env n restart)"
proof -
  let ?t = "interrupted_run env n restart"
  obtain k where t: "?t = take k (snd (run env))"
    by (cases restart) (auto simp: interrupted_run_def intro: that [of "length (snd (run env))"])
  have "StartScrapers \<in> set (snd (run env))" using scraping t by (auto dest: in_set_takeD)
  then obtain before after where r: "snd (run env) = before @ [StartScrapers, SetReady True, SetReady False, CancelWork] @ after"
    and b: "OpenSink \<in> set before" "CloseSink \<notin> set before" "StartScrapers \<notin> set before" "CloseElector \<notin> set before"
    using scrapers_between by blast
  have "length before < k"
  proof (rule ccontr)
    assume "\<not> length before < k"
    then have "?t = take k before" using t r by simp
    then show False using scraping b(3) by (auto dest: in_set_takeD)
  qed
  then have "?t = before @ take (k - length before) ([StartScrapers, SetReady True, SetReady False, CancelWork] @ after)"
    using t r by simp
  moreover have "k - length before < 4"
  proof (rule ccontr)
    assume "\<not> k - length before < 4"
    then have "CancelWork \<in> set (take (k - length before) ([StartScrapers, SetReady True, SetReady False, CancelWork] @ after))"
      by (simp add: take_Cons')
    then show False using working calculation by simp
  qed
  ultimately show "OpenSink \<in> set ?t" "CloseSink \<notin> set ?t" "CloseElector \<notin> set ?t"
    using b(1,2,4) by (auto simp: take_Cons' split: if_splits)
qed

text \<open>
  C30: the lock is released last, unless the process restarts itself. In every run that returns, whatever ends it,
  an instance that has asked for the leadership closes the elector as its last effect, and not before; a
  sink that was opened is closed, so it is closed before the lock is released; and readiness is reported at
  most once and is taken back. A process that the restart replaces (or that panics then) while its scrapers work
  does none of that: its sink is open and never closed, so that what it held back is not written, and the
  elector is not closed.
\<close>
theorem lock_released_last:
  "(let trace = snd (run env) in
      (if StartAcquire \<in> set trace then last trace = CloseElector \<and> CloseElector \<notin> set (butlast trace)
       else CloseElector \<notin> set trace) \<and>
      (CloseSink \<in> set trace \<longleftrightarrow> OpenSink \<in> set trace) \<and>
      filter (\<lambda>e. e \<in> range SetReady) trace \<in> {[], [SetReady True, SetReady False]}) \<and>
   (let trace = interrupted_run env n restart in
      StartScrapers \<in> set trace \<and> CancelWork \<notin> set trace \<longrightarrow>
        OpenSink \<in> set trace \<and> CloseSink \<notin> set trace \<and> CloseElector \<notin> set trace)"
  using returned_run [of env] restart_skips_close [of env n restart] by (simp add: Let_def)

definition example_run :: "MetricsConfiguration \<Rightarrow> run_env" where
  "example_run m = \<lparr>rvArgs = [''--config.file'', ''hps.yaml''], rvGetenv = (\<lambda>_. []), rvLoad = (\<lambda>_. Inr m),
     rvFreeInterval = None, rvRestartInterval = None, rvParseDuration = (\<lambda>_. Inl (ErrText [])),
     rvElectorNew = None, rvWait = AcquireReturned None, rvSignalled = True, rvSinkNew = None,
     rvLostAtStartup = None, rvWorkEnd = WorkStopped\<rparr>"

lemma example_run_effects:
  "snd (run (example_run empty_configuration)) =
     [StartServer '':9161'', StartAcquire, StartMonitor, OpenSink, StartAlertLog, StartScrapers, SetReady True,
      SetReady False, CancelWork, ShutdownServer, CloseSink, CancelWork, CloseElector]"
  by (simp add: run_def example_run_def parseConfigFile_def cut_equals_def dash_def trim_space_def is_space_def byte_of_def
      empty_configuration_def newLogger_def run_elected_def run_work_def leave_def ticker_effect_def
      HA_GetEnabled_def or_default_def LogDisable_def listenAddress_def to_lower_def Let_def)

theorem standby_never_scrapes_witness:
  "\<exists>before after. snd (run (example_run empty_configuration)) = before @ [StartScrapers, SetReady True] @ after \<and>
     OpenSink \<in> set before \<and> StartAcquire \<in> set before"
  using standby_never_scrapes [of "example_run empty_configuration"] example_run_effects
  by (auto simp: example_run_def empty_configuration_def HA_GetEnabled_def or_default_def)

lemma lock_released_last_witness:
  "last (snd (run (example_run empty_configuration))) = CloseElector \<and>
   (let trace = interrupted_run (example_run empty_configuration) 7 (Replaced ''hps'' [''hps'']) in
      last trace = SetReady True \<and> OpenSink \<in> set trace \<and> CloseSink \<notin> set trace \<and> CloseElector \<notin> set trace)"
  using lock_released_last [of "example_run empty_configuration" 7 "Replaced ''hps'' [''hps'']"]
  by (simp add: example_run_effects interrupted_run_def Let_def)

end
