(* ===== verification/Connect.thy ===== *)
theory Connect
  imports Credentials
begin

text \<open>
  Opening an Oracle pool: the parameters for the godror driver and the gate that spaces its physical
  connections (\<open>collector/connect_godror.go\<close>), the DSN and the pool sizes for the go-ora driver
  (\<open>collector/connect_goora.go\<close>), and \<open>maskDsn\<close> (\<open>collector/collector.go\<close>). The drivers are arguments.
\<close>

section \<open>Logging a DSN\<close>

definition maskDsn :: "string \<Rightarrow> string" where
  "maskDsn dsn =
     (let parts = split_on (CHR ''@'') dsn
      in if length parts > 1 then ''***@'' @ (parts ! 1) else dsn)"

section \<open>godror\<close>

datatype admin_role = NoRole | SysDBA | SysOPER | SysBACKUP | SysDG | SysKM | SysRAC | SysASM

text \<open>\<open>godror.ConnectionParams\<close>, the fields that the code sets; a pool parameter that is not set is \<open>None\<close>.\<close>

record ConnectionParams =
  cpUsername :: string
  cpPassword :: string
  cpConnectString :: string
  cpExternalAuth :: bool
  cpSessionIncrement :: "int option"
  cpMaxSessions :: "int option"
  cpMinSessions :: "int option"
  cpWaitTimeout :: duration
  cpConfigDir :: string
  cpAdminRole :: admin_role

definition positive :: "int \<Rightarrow> int option" where
  "positive n = (if n > 0 then Some n else None)"

definition admin_role_of :: "string \<Rightarrow> admin_role" where
  "admin_role_of role =
     (if role = ''SYSDBA'' then SysDBA
      else if role = ''SYSOPER'' then SysOPER
      else if role = ''SYSBACKUP'' then SysBACKUP
      else if role = ''SYSDG'' then SysDG
      else if role = ''SYSKM'' then SysKM
      else if role = ''SYSRAC'' then SysRAC
      else if role = ''SYSASM'' then SysASM
      else NoRole)"

text \<open>\<open>connect\<close>: the configuration with its fetched secrets, and the parameters that the pool is opened with.\<close>

definition godror_connect :: "vault_access \<Rightarrow> DatabaseConfig \<Rightarrow> DatabaseConfig \<times> ConnectionParams result" where
  "godror_connect va d =
     (case connect_credentials va d of
        (d, Inl err) \<Rightarrow> (d, Inl err)
      | (d, Inr c) \<Rightarrow>
          (d, Inr \<lparr>cpUsername = crUsername c, cpPassword = crPassword c, cpConnectString = dcURL d,
                  cpExternalAuth = crExternalAuth c,
                  cpSessionIncrement = positive (GetPoolIncrement (dcConnect d)),
                  cpMaxSessions = positive (GetPoolMaxConnections (dcConnect d)),
                  cpMinSessions = positive (GetPoolMinConnections (dcConnect d)),
                  cpWaitTimeout = second * 5, cpConfigDir = ccTNSAdmin (dcConnect d),
                  cpAdminRole = admin_role_of (ccRole (dcConnect d))\<rparr>))"

section \<open>The gate of physical connections\<close>

record oracleConnectionGate =
  ogMinimumInterval :: duration
  ogLastCompleted :: time

definition minimumGodrorConnectionInterval :: duration where "minimumGodrorConnectionInterval = 100 * millisecond"

definition newOracleConnectionGate :: "duration \<Rightarrow> oracleConnectionGate" where
  "newOracleConnectionGate minimumInterval = \<lparr>ogMinimumInterval = minimumInterval, ogLastCompleted = 0\<rparr>"

text \<open>
  One call of \<open>Connect\<close>: the semaphore lets one call in at a time, so the calls that get it are a sequence. A
  call meets the end of its context while it waits for the semaphore or for the timer, or connects; it knows
  the time when it got the semaphore, when the timer fired, and when the driver returned.
\<close>

record connect_call =
  ccEntered :: time
  ccTimerFired :: time
  ccCompleted :: time
  ccGivenUpQueueing :: "go_error option"
  ccGivenUpWaiting :: "go_error option"

text \<open>The times at which the driver was called and returned, when it was.\<close>

definition gated_Connect :: "connect_call \<Rightarrow> oracleConnectionGate \<Rightarrow> (go_error + time \<times> time) \<times> oracleConnectionGate" where
  "gated_Connect c gate =
     (case ccGivenUpQueueing c of
        Some e \<Rightarrow> (Inl e, gate)
      | None \<Rightarrow>
          let pause = ogMinimumInterval gate - time_sub (ccEntered c) (ogLastCompleted gate);
              connected = (\<lambda>started. (Inr (started, ccCompleted c), gate\<lparr>ogLastCompleted := ccCompleted c\<rparr>))
          in if pause > 0
             then (case ccGivenUpWaiting c of Some e \<Rightarrow> (Inl e, gate) | None \<Rightarrow> connected (ccTimerFired c))
             else connected (ccEntered c))"

fun gated_calls :: "connect_call list \<Rightarrow> oracleConnectionGate \<Rightarrow> (time \<times> time) list" where
  "gated_calls [] gate = []"
| "gated_calls (c # cs) gate =
     (case gated_Connect c gate of
        (Inl e, gate) \<Rightarrow> gated_calls cs gate
      | (Inr attempt, gate) \<Rightarrow> attempt # gated_calls cs gate)"

text \<open>
  A timer that was set at the time a call got the semaphore does not fire early, and the driver returns
  after it was called; the next call gets the semaphore after the one before has released it.
\<close>

definition clock_ok :: "connect_call \<Rightarrow> oracleConnectionGate \<Rightarrow> bool" where
  "clock_ok c gate \<longleftrightarrow>
     ogLastCompleted gate \<le> ccEntered c \<and>
     ccEntered c + (ogMinimumInterval gate - time_sub (ccEntered c) (ogLastCompleted gate)) \<le> ccTimerFired c \<and>
     ccEntered c \<le> ccTimerFired c \<and> ccTimerFired c \<le> ccCompleted c"

fun clocks_ok :: "connect_call list \<Rightarrow> oracleConnectionGate \<Rightarrow> bool" where
  "clocks_ok [] gate = True"
| "clocks_ok (c # cs) gate = (clock_ok c gate \<and> clocks_ok cs (snd (gated_Connect c gate)))"

section \<open>go-ora\<close>

text \<open>\<open>url.UserPassword(u, p).String()\<close>: percent-encoding for the user information of a URL.\<close>

definition userinfo_plain :: "char \<Rightarrow> bool" where
  "userinfo_plain c \<longleftrightarrow>
     (let b = byte_of c in
      48 \<le> b \<and> b \<le> 57 \<or> 65 \<le> b \<and> b \<le> 90 \<or> 97 \<le> b \<and> b \<le> 122 \<or> c \<in> set ''-_.~$&+,;='')"

definition upper_hex :: "nat \<Rightarrow> char" where
  "upper_hex n = char_of (if n < 10 then n + 48 else n + 55)"

definition userinfo_escape :: "string \<Rightarrow> string" where
  "userinfo_escape s = concat (map (\<lambda>c. if userinfo_plain c then [c]
     else [CHR ''%'', upper_hex (byte_of c div 16), upper_hex (byte_of c mod 16)]) s)"

definition user_password :: "string \<Rightarrow> string \<Rightarrow> string" where
  "user_password username password = userinfo_escape username @ '':'' @ userinfo_escape password"

definition goora_dsn :: "credentials \<Rightarrow> string \<Rightarrow> string" where
  "goora_dsn c url =
     (if crExternalAuth c then ''oracle://@'' @ url
      else if crUsername c \<noteq> [] then ''oracle://'' @ user_password (crUsername c) (crPassword c) @ ''@'' @ url
      else ''oracle://'' @ url)"

text \<open>
  The limits of a \<open>sql.DB\<close>: zero open connections stand for no limit; a new pool keeps two idle connections.
  \<open>SetMaxOpenConns\<close> and \<open>SetMaxIdleConns\<close> keep the idle connections within the open ones.
\<close>

record pool_limits =
  plMaxOpen :: int
  plMaxIdle :: int
  plMaxLifetime :: duration
  plMaxIdleTime :: duration

definition new_pool :: pool_limits where
  "new_pool = \<lparr>plMaxOpen = 0, plMaxIdle = 2, plMaxLifetime = 0, plMaxIdleTime = 0\<rparr>"

definition SetMaxIdleConns :: "int \<Rightarrow> pool_limits \<Rightarrow> pool_limits" where
  "SetMaxIdleConns n p =
     (let n = max 0 n in p\<lparr>plMaxIdle := (if plMaxOpen p > 0 \<and> n > plMaxOpen p then plMaxOpen p else n)\<rparr>)"

definition SetMaxOpenConns :: "int \<Rightarrow> pool_limits \<Rightarrow> pool_limits" where
  "SetMaxOpenConns n p =
     (let p = p\<lparr>plMaxOpen := max 0 n\<rparr>
      in if plMaxOpen p > 0 \<and> plMaxIdle p > plMaxOpen p then SetMaxIdleConns n p else p)"

definition setConnectionPool :: "DatabaseConfig \<Rightarrow> pool_limits \<Rightarrow> pool_limits" where
  "setConnectionPool d p =
     (let c = dcConnect d;
          p = (if GetPoolMaxConnections c > 0 then SetMaxOpenConns (GetPoolMaxConnections c) p
               else SetMaxOpenConns (GetMaxOpenConns c) p)
      in if GetPoolMinConnections c > 0 then SetMaxIdleConns (GetPoolMinConnections c) p
         else SetMaxIdleConns (GetMaxIdleConns c) p)"

text \<open>
  \<open>initdb\<close>, which every warm-up runs on the pool (\<open>collector/database.go\<close>); the two statements that it sends only
  have their errors logged. A lifetime below zero counts as none.
\<close>

definition initdb :: "DatabaseConfig \<Rightarrow> pool_limits \<Rightarrow> pool_limits" where
  "initdb d p =
     (let c = dcConnect d;
          p = SetMaxOpenConns (GetMaxOpenConns c) (SetMaxIdleConns (GetMaxIdleConns c) p)
      in p\<lparr>plMaxLifetime := max 0 (GetConnMaxLifetime c), plMaxIdleTime := max 0 (GetConnMaxIdleTime c)\<rparr>)"

definition goora_connect ::
    "(string \<Rightarrow> 'p result) \<Rightarrow> vault_access \<Rightarrow> DatabaseConfig \<Rightarrow> DatabaseConfig \<times> ('p \<times> pool_limits) result" where
  "goora_connect open_driver va d =
     (case connect_credentials va d of
        (d, Inl err) \<Rightarrow> (d, Inl err)
      | (d, Inr c) \<Rightarrow>
          (case open_driver (goora_dsn c (dcURL d)) of
             Inl err \<Rightarrow> (d, Inl err)
           | Inr pool \<Rightarrow> (d, Inr (pool, setConnectionPool d new_pool))))"

section \<open>Properties\<close>

text \<open>
  What \<open>maskDsn\<close> shows of a DSN whose password has an \<open>@\<close>: the part of the password after it, and not the host.
\<close>

lemma maskDsn_shows_password:
  "maskDsn ''scott/ti@ger@host'' = ''***@ger''"
  by (simp add: maskDsn_def)

text \<open>Without a password the driver still gets the user name that the log says is ignored.\<close>

lemma external_auth_keeps_username:
  "\<lbrakk>connect_credentials va d = (d', Inr c); crPassword c = []\<rbrakk> \<Longrightarrow>
   \<exists>p. godror_connect va d = (d', Inr p) \<and> cpExternalAuth p \<and> cpUsername p = crUsername c"
  by (auto simp: godror_connect_def connect_credentials_def split: prod.splits sum.splits)

lemma gated_Connect_spaced:
  assumes "clock_ok c gate" and "0 \<le> ogMinimumInterval gate" and "ogMinimumInterval gate \<le> max_int64"
    and "gated_Connect c gate = (Inr (started, completed), gate')"
  shows "ogLastCompleted gate + ogMinimumInterval gate \<le> started \<and> started \<le> completed \<and>
    gate' = gate\<lparr>ogLastCompleted := completed\<rparr>"
  using assms
  by (auto simp: gated_Connect_def clock_ok_def Let_def time_sub_def sat64_def max_int64_def min_int64_def
      split: option.splits if_splits)

lemma gated_Connect_refused: "gated_Connect c gate = (Inl e, gate') \<Longrightarrow> gate' = gate"
  by (auto simp: gated_Connect_def Let_def split: option.splits if_splits)

lemma gated_calls_after:
  "\<lbrakk>clocks_ok cs gate; 0 \<le> ogMinimumInterval gate; ogMinimumInterval gate \<le> max_int64\<rbrakk> \<Longrightarrow>
   sorted_wrt (\<lambda>(s1, c1) (s2, c2). c1 + ogMinimumInterval gate \<le> s2) (gated_calls cs gate) \<and>
   list_all (\<lambda>(started, completed). ogLastCompleted gate + ogMinimumInterval gate \<le> started \<and> started \<le> completed)
     (gated_calls cs gate)"
proof (induction cs arbitrary: gate)
  case (Cons c cs)
  obtain out gate' where g: "gated_Connect c gate = (out, gate')" by fastforce
  show ?case
  proof (cases out)
    case (Inl e)
    then have "gate' = gate" using g gated_Connect_refused by simp
    then show ?thesis using Cons g Inl by simp
  next
    case (Inr attempt)
    obtain started completed where a: "attempt = (started, completed)" by fastforce
    note spaced = gated_Connect_spaced [OF _ Cons.prems(2,3) g [unfolded Inr a]]
    have "clocks_ok cs gate'" and g': "gate' = gate\<lparr>ogLastCompleted := completed\<rparr>"
      and s: "ogLastCompleted gate + ogMinimumInterval gate \<le> started" "started \<le> completed"
      using spaced Cons.prems(1) g by auto
    then have ih: "sorted_wrt (\<lambda>(s1, c1) (s2, c2). c1 + ogMinimumInterval gate \<le> s2) (gated_calls cs gate')"
      "list_all (\<lambda>(s2, c2). completed + ogMinimumInterval gate \<le> s2 \<and> s2 \<le> c2) (gated_calls cs gate')"
      using Cons.IH [of gate'] Cons.prems(2,3) by auto
    then show ?thesis using s Cons.prems(2) g Inr a by (auto simp: list_all_iff)
  qed
qed simp

text \<open>
  Physical connections are spaced. However many pools connect at once, and whichever calls are given up
  while they wait, every call of the driver starts at least the gate's interval after the one before it has
  returned.
\<close>
theorem connections_spaced:
  assumes "clocks_ok cs (newOracleConnectionGate i)" and "0 \<le> i" and "i \<le> max_int64"
  shows "sorted_wrt (\<lambda>(s1, c1) (s2, c2). c1 + i \<le> s2) (gated_calls cs (newOracleConnectionGate i))"
  using gated_calls_after [OF assms(1)] assms(2,3) by (simp add: newOracleConnectionGate_def)

definition example_call :: "time \<Rightarrow> time \<Rightarrow> time \<Rightarrow> connect_call" where
  "example_call entered fired completed = \<lparr>ccEntered = entered, ccTimerFired = fired, ccCompleted = completed,
     ccGivenUpQueueing = None, ccGivenUpWaiting = None\<rparr>"

theorem connections_spaced_witness:
  "gated_calls [example_call 500 500 520, example_call 520 620 650] (newOracleConnectionGate 100) = [(500, 520), (620, 650)] \<and>
   520 + 100 \<le> (620 :: int)"
proof -
  have "gated_calls [example_call 500 500 520, example_call 520 620 650] (newOracleConnectionGate 100) = [(500, 520), (620, 650)]"
    by (simp add: gated_Connect_def example_call_def newOracleConnectionGate_def time_sub_def sat64_def
        max_int64_def min_int64_def Let_def)
  moreover have "clocks_ok [example_call 500 500 520, example_call 520 620 650] (newOracleConnectionGate 100)"
    by (simp add: clock_ok_def gated_Connect_def example_call_def newOracleConnectionGate_def time_sub_def sat64_def
        max_int64_def min_int64_def Let_def)
  ultimately show ?thesis
    using connections_spaced [of "[example_call 500 500 520, example_call 520 620 650]" 100]
    by (simp add: max_int64_def)
qed

section \<open>The limits of a warmed-up pool\<close>

text \<open>The example configuration's advice for the pool settings, with no limit of its own for open connections.\<close>

definition pool_configuration :: DatabaseConfig where
  "pool_configuration = sample_db_config\<lparr>dcConnect := sample_connect_config\<lparr>ccMaxOpenConns := Some 0,
     ccMaxIdleConns := Some 0, ccPoolMaxConnections := Some 15, ccPoolMinConnections := Some 5\<rparr>\<rparr>"

text \<open>
  The warm-up takes the pool settings back. In the build with go-ora \<open>connect\<close> limits a pool to
  \<open>poolMaxConnections\<close>, but \<open>initdb\<close>, which every warm-up runs next, sets both limits again without
  looking at the pool settings: afterwards the limit is that of \<open>maxOpenConns\<close> alone. With fifteen
  pool connections and \<open>maxOpenConns\<close> of zero, a pool limited to fifteen has no limit once it is warmed up.
\<close>
theorem warmup_overrides_pool_limits:
  "plMaxOpen (initdb d p) = max 0 (GetMaxOpenConns (dcConnect d)) \<and>
   plMaxOpen (setConnectionPool pool_configuration new_pool) = 15 \<and>
   plMaxOpen (initdb pool_configuration (setConnectionPool pool_configuration new_pool)) = 0"
proof (intro conjI)
  show "plMaxOpen (initdb d p) = max 0 (GetMaxOpenConns (dcConnect d))"
    by (simp add: initdb_def SetMaxOpenConns_def SetMaxIdleConns_def Let_def)
  show "plMaxOpen (setConnectionPool pool_configuration new_pool) = 15"
    by (simp add: setConnectionPool_def SetMaxOpenConns_def SetMaxIdleConns_def Let_def new_pool_def
        pool_configuration_def GetPoolMaxConnections_def GetPoolMinConnections_def)
  show "plMaxOpen (initdb pool_configuration (setConnectionPool pool_configuration new_pool)) = 0"
    by (simp add: initdb_def SetMaxOpenConns_def SetMaxIdleConns_def Let_def pool_configuration_def GetMaxOpenConns_def)
qed

end
