(* ===== verification/Pass.thy ===== *)
theory Pass
  imports Scrape MetricLoading ConfigValidation
begin

text \<open>
  The scheduled pass from end to end (\<open>collector/collector.go\<close>, \<open>collector/types.go\<close>): the scraper and how
  \<open>NewScraper\<close> makes it, a pass over all its databases (\<open>scrapeSamples\<close>) with the reload of changed
  metric definitions before it. The theory composes \<open>Scrape\<close> and \<open>MetricLoading\<close> and shows which
  passes panic.
\<close>

section \<open>The scraper\<close>

text \<open>
  The goroutine of a database uses only the entries of its own database in the maps of the scraper
  (\<open>lastSQLDetailCollection\<close>, \<open>knownPlans\<close>, \<open>sqlCounterSnapshots\<close>, \<open>sqlConsumerDeltas\<close>,
  \<open>lastOperationalScrape\<close>, \<open>operationalCounters\<close>); they are kept with the database.
\<close>

record Scraper =
  scConfiguration :: MetricsConfiguration
  scInstanceName :: string
  scConstLabels :: "string list"
  scMetrics :: metric_map
  scHashes :: "string \<rightharpoonup> string"
  scDatabases :: "pass_state list"

definition scraper_instance :: "string result \<Rightarrow> string \<Rightarrow> string" where
  "scraper_instance hostname pid =
     (case hostname of
        Inl err \<Rightarrow> ''unknown''
      | Inr h \<Rightarrow> if trim_space h = [] then ''unknown'' else h) @ '':'' @ pid"

text \<open>The labels of all databases, each once, in the order of their first appearance.\<close>

fun add_labels :: "string list \<Rightarrow> string list \<Rightarrow> string list" where
  "add_labels [] labels = labels"
| "add_labels (label # rest) labels =
     add_labels rest (if label \<in> set labels then labels else labels @ [label])"

definition all_const_labels :: "(string \<times> DatabaseConfig) list \<Rightarrow> string list" where
  "all_const_labels databases =
     foldl (\<lambda>labels (name, c). add_labels (map fst (dcLabels c)) labels) [] databases"

text \<open>The methods of \<open>MetricLoading\<close> on the scraper: the definitions, their hashes and the caches.\<close>

definition metric_state_of :: "Scraper \<Rightarrow> metric_state" where
  "metric_state_of e =
     \<lparr>metricsToScrape = scMetrics e, metricDefinitionHashes = scHashes e,
      metricCaches = map (\<lambda>s. (dName (psDatabase s), dMetricsCache (psDatabase s))) (scDatabases e)\<rparr>"

definition set_cache :: "MetricsCache \<Rightarrow> pass_state \<Rightarrow> pass_state" where
  "set_cache c s = s\<lparr>psDatabase := (psDatabase s)\<lparr>dMetricsCache := c\<rparr>\<rparr>"

definition set_metric_state :: "metric_state \<Rightarrow> Scraper \<Rightarrow> Scraper" where
  "set_metric_state m e =
     e\<lparr>scMetrics := metricsToScrape m, scHashes := metricDefinitionHashes m,
       scDatabases := map2 (\<lambda>s (name, c). set_cache c s) (scDatabases e) (metricCaches m)\<rparr>"

definition new_pass_state :: "Database \<Rightarrow> pass_state" where
  "new_pass_state d = \<lparr>psDatabase = d, psSql = initial_sql_state, psCounters = Map.empty,
     psLastOperational = Map.empty\<rparr>"

text \<open>\<open>opened\<close> answers the session pool of a database; the configured databases come in the order of the
  iteration over their map. \<open>None\<close> is the panic of a load that meets a null entry.\<close>

definition NewScraper ::
    "string result \<Rightarrow> string \<Rightarrow> definition_files \<Rightarrow> (string \<Rightarrow> nat result) \<Rightarrow> MetricsConfiguration \<Rightarrow>
     Scraper option" where
  "NewScraper hostname pid fs opened m =
     (let databases = map (\<lambda>(name, c). NewDatabase (DatabaseLabel m) name c (opened name)) (cfgDatabases m);
          e = \<lparr>scConfiguration = m, scInstanceName = scraper_instance hostname pid,
               scConstLabels = all_const_labels (cfgDatabases m), scMetrics = Map.empty,
               scHashes = Map.empty, scDatabases = map new_pass_state databases\<rparr>
      in map_option (\<lambda>s. set_metric_state s e)
           (initial_metric_state fs (mcDefinitions (cfgMetrics m)) (map dName databases)))"

section \<open>The pass\<close>

text \<open>
  The goroutines send concurrently. What a channel delivers is an interleaving of what they send: at each
  step the value of the goroutine that \<open>schedule\<close> names, if it has one left, and in the end the rest.
\<close>

fun receive :: "nat list \<Rightarrow> 'a list list \<Rightarrow> 'a list" where
  "receive [] sent = concat sent"
| "receive (i # schedule) sent =
     (if i < length sent \<and> sent ! i \<noteq> []
      then hd (sent ! i) # receive schedule (sent[i := tl (sent ! i)])
      else receive schedule sent)"

text \<open>What one pass reads from outside: every goroutine has its own answers and its own iteration over the
  metrics to scrape; the lists are the schedules of the channels.\<close>

record pass_env =
  paFiles :: definition_files
  paBegun :: time
  paFinished :: time
  paDatabases :: "(scrape_env \<times> (metric_map \<Rightarrow> (string \<times> Metric) list)) list"
  paErrors :: "nat list"
  paSamples :: "nat list"
  paPerformance :: "nat list"
  paOperational :: "nat list"
  paStatuses :: "nat list"

definition scrapeInterval :: "MetricsConfiguration \<Rightarrow> duration" where
  "scrapeInterval m = (case mcScrapeInterval (cfgMetrics m) of None \<Rightarrow> 0 | Some i \<Rightarrow> i)"

definition scraper_config_of :: "Scraper \<Rightarrow> scraper_config" where
  "scraper_config_of e =
     (let m = scConfiguration e in
      \<lparr>sgScrapeInterval = scrapeInterval m, sgPlans = perfSQLPlans (cfgPerformance m),
       sgOperational = cfgOperational m, sgLabels = scConstLabels e\<rparr>)"

definition scrape_databases ::
    "scraper_config \<Rightarrow> time option \<Rightarrow> metric_map \<Rightarrow>
     (scrape_env \<times> (metric_map \<Rightarrow> (string \<times> Metric) list)) list \<Rightarrow> pass_state list \<Rightarrow>
     (scrape_out \<times> pass_state) list option" where
  "scrape_databases cfg tick metrics envs ss =
     those (map2 (\<lambda>(env, order) s. scrapeDatabaseSamples env cfg tick (order metrics) s) envs ss)"

definition refresh_scraper :: "definition_files \<Rightarrow> Scraper \<Rightarrow> Scraper option" where
  "refresh_scraper fs e =
     map_option (\<lambda>s. set_metric_state s e)
       (refresh_definitions fs (mcDefinitions (cfgMetrics (scConfiguration e))) (metric_state_of e))"

text \<open>
  \<open>None\<close> is a panic, of the reload or of a goroutine. The read locks of the sessions, for which the
  goroutines wait, are no part of this model: \<open>Queries\<close> models them.
\<close>

definition scrapeSamples ::
    "pass_env \<Rightarrow> time option \<Rightarrow> Scraper \<Rightarrow> ((SampleBatch \<times> ScrapeSummary) \<times> Scraper) option" where
  "scrapeSamples env tick e =
     (case refresh_scraper (paFiles env) e of
        None \<Rightarrow> None
      | Some e \<Rightarrow>
          (case scrape_databases (scraper_config_of e) tick (scMetrics e) (paDatabases env)
                  (scDatabases e) of
             None \<Rightarrow> None
           | Some rs \<Rightarrow>
               (let outs = map fst rs; e = e\<lparr>scDatabases := map snd rs\<rparr>
                in Some (scrape_batch (receive (paErrors env) (map soErrors outs))
                           (receive (paSamples env) (map soSamples outs))
                           (receive (paPerformance env) (map soPerformance outs))
                           (receive (paOperational env) (map soOperational outs))
                           (receive (paStatuses env) (map soStatuses outs))
                           (connectionStateSamples (paFinished env) (scInstanceName e)
                              (map psDatabase (scDatabases e)))
                           (paBegun env) (paFinished env), e))))"

section \<open>What a goroutine keeps\<close>

text \<open>The name of a database and the metrics that its cache knows never change during a pass, and every status
  that its goroutine sends is one of this database and this tick.\<close>

definition keeps :: "Database \<Rightarrow> Database \<Rightarrow> bool" where
  "keeps d d' \<longleftrightarrow> dName d' = dName d \<and> dom (dMetricsCache d') = dom (dMetricsCache d)"

definition statuses_of :: "string \<Rightarrow> time \<Rightarrow> scrape_out \<Rightarrow> bool" where
  "statuses_of db t o1 \<longleftrightarrow> (\<forall>y \<in> set (concat (soStatuses o1)). stDatabase y = db \<and> stCollectedAt y = t)"

lemma keeps_refl [simp, intro]: "keeps d d"
  by (simp add: keeps_def)

lemma keeps_trans [trans]: "keeps d1 d2 \<Longrightarrow> keeps d2 d3 \<Longrightarrow> keeps d1 d3"
  by (simp add: keeps_def)

lemma do_action_keeps: "keeps d (do_action t a d)"
  by (cases a) (auto simp: keeps_def setUp_def quarantine_def activate_def suspendActivity_def resumeActivity_def
      beginProbe_def finishProbe_def Let_def split: option.splits)

lemma run_others_keeps: "keeps d (run_others tas d)"
proof (induction tas arbitrary: d)
  case (Cons ta tas)
  have "keeps (do_action (fst ta) (snd ta) d) (run_others tas (do_action (fst ta) (snd ta) d))" by (rule Cons.IH)
  then show ?case using keeps_trans [OF do_action_keeps] by (cases ta) (simp add: run_others_def)
qed (simp add: run_others_def)

lemma ping_keeps: "keeps d (snd (ping answer t d))"
  by (auto simp: keeps_def ping_def suspendActivity_def quarantine_def setUp_def resumeActivity_def
      split: option.splits)

lemma quarantineConnectionFailure_keeps: "keeps d (snd (quarantineConnectionFailure err t d))"
  by (auto simp: keeps_def quarantineConnectionFailure_def suspendActivity_def quarantine_def setUp_def
      split: option.splits)

lemma SetLastScraped_keeps:
  "SetLastScraped (dMetricsCache d) m t = Some c \<Longrightarrow> keeps d (d\<lparr>dMetricsCache := c\<rparr>)"
  by (auto simp: keeps_def SetLastScraped_def split: option.splits if_splits)

lemma scrape_metrics_keeps:
  "scrape_metrics env cfg tick t ms (n, jn, d, o1) = Some (n', jn', d', o2) \<Longrightarrow> keeps d d'"
proof (induction ms arbitrary: n jn d o1)
  case (Cons im rest)
  obtain i m where im: "im = (i, m)" by (cases im)
  obtain due where due: "isScrapeMetric (seParseDuration env) tick m d = Some due"
    using Cons.prems im by (auto split: option.splits)
  show ?case
  proof (cases due)
    case False
    then show ?thesis using Cons.prems due im Cons.IH by simp
  next
    case True
    show ?thesis
    proof (cases "ScrapeMetricSamples (seParseFloat env) (sgLabels cfg) (seFresh env i) d m t (seMetric env i)")
      case (Inl e)
      obtain failed d1 where q: "quarantineConnectionFailure (Some e) (seNow env) d = (failed, d1)" by fastforce
      have d1: "keeps d d1" using quarantineConnectionFailure_keeps [of d "Some e" "seNow env"] q by simp
      show ?thesis
      proof (cases failed)
        case True
        then show ?thesis using Cons.prems due im \<open>due\<close> Inl q d1 by (simp add: Let_def)
      next
        case False
        then have "scrape_metrics env cfg tick t rest (n, errors_join [jn, Some e], d1, send_error (Some e) o1) =
            Some (n', jn', d', o2)" using Cons.prems due im \<open>due\<close> Inl q by (simp add: Let_def)
        from keeps_trans [OF d1 Cons.IH [OF this]] show ?thesis .
      qed
    next
      case (Inr samples)
      obtain c where c: "SetLastScraped (dMetricsCache d) m tick = Some c"
        using Cons.prems due im True Inr by (auto split: option.splits)
      then have "scrape_metrics env cfg tick t rest (n + length samples, jn, d\<lparr>dMetricsCache := c\<rparr>,
          send_samples samples (send_error None o1)) = Some (n', jn', d', o2)"
        using Cons.prems due im True Inr by simp
      from keeps_trans [OF SetLastScraped_keeps [OF c] Cons.IH [OF this]] show ?thesis .
    qed
  qed
qed simp

lemma status_of_fields:
  "stDatabase (status_of env t d c n err) = dName d" "stCollectedAt (status_of env t d c n err) = t"
  by (simp_all add: status_of_def)

lemma statuses_of_send:
  "statuses_of db t (send_error e o1) = statuses_of db t o1"
  "statuses_of db t (send_performance p o1) = statuses_of db t o1"
  "statuses_of db t (send_operational q o1) = statuses_of db t o1"
  "statuses_of db t (send_statuses ss o1) \<longleftrightarrow>
     statuses_of db t o1 \<and> (\<forall>y \<in> set ss. stDatabase y = db \<and> stCollectedAt y = t)"
  "statuses_of db t no_out"
  by (auto simp: statuses_of_def no_out_def send_defs send_statuses_def)

lemmas report_simps = statuses_of_send status_of_fields

lemma scrape_operational_reports:
  assumes "scrape_operational env cfg t n err s o1 = (o2, s')" and "statuses_of (dName (psDatabase s)) t o1"
  shows "keeps (psDatabase s) (psDatabase s') \<and> statuses_of (dName (psDatabase s)) t o2"
proof -
  let ?d = "psDatabase s"
  obtain due lastOp where due: "shouldCollectOperational (Operational_GetEnabled (sgOperational cfg)) (dName ?d)
      t (Operational_GetInterval (sgOperational cfg)) (psLastOperational s) = (due, lastOp)" by fastforce
  obtain oper statuses operr c where r: "ScrapeOperationalSamples (seSince env) (seLibrary env)
      (seOperational env) ?d t (psCounters s) = ((oper, statuses, operr), c)" by (metis prod_cases3 prod.collapse)
  have "\<forall>y \<in> set statuses. stDatabase y = dName ?d \<and> stCollectedAt y = t"
    by (rule ScrapeOperationalSamples_marked [OF r])
  then show ?thesis
    using assms due r quarantineConnectionFailure_keeps [of ?d operr "seNow env"]
    by (auto simp: scrape_operational_def Let_def report_simps split: if_splits prod.splits)
qed

lemma scrape_performance_reports:
  assumes "scrape_performance env cfg t n err s o1 = Some (o2, s')" and "statuses_of (dName (psDatabase s)) t o1"
  shows "keeps (psDatabase s) (psDatabase s') \<and> statuses_of (dName (psDatabase s)) t o2"
proof -
  let ?d = "psDatabase s"
  obtain p perr sql where r: "ScrapePerformanceSamples (sgScrapeInterval cfg) (sgPlans cfg) (seIterate env)
      (sePerformance env) ?d t (psSql s) = Some ((p, perr), sql)"
    using assms(1) by (auto simp: scrape_performance_def Let_def split: option.splits)
  define d1 where "d1 = (case perr of None \<Rightarrow> ?d | Some e \<Rightarrow> snd (quarantineConnectionFailure (Some e) (seNow env) ?d))"
  define d2 where "d2 = run_others (seAfterPerformance env) d1"
  define o3 where "o3 = send_statuses [status_of env t d1 ''performance'' (PerformanceSamples_Count p) perr]
    (if PerformanceSamples_Count p > 0 then send_performance p (send_error perr o1) else send_error perr o1)"
  define s2 where "s2 = s\<lparr>psDatabase := d2, psSql := sql\<rparr>"
  have d1: "keeps ?d d1"
    unfolding d1_def using quarantineConnectionFailure_keeps by (simp split: option.split)
  have d2: "keeps ?d d2" unfolding d2_def by (rule keeps_trans [OF d1 run_others_keeps])
  have s2: "psDatabase s2 = d2" by (simp add: s2_def)
  have names: "dName d1 = dName ?d" "dName d2 = dName ?d" using d1 d2 by (simp_all add: keeps_def)
  have o3: "statuses_of (dName (psDatabase s2)) t o3"
    using assms(2) by (simp add: o3_def report_simps names s2)
  have "(if \<not> isActive d2
      then Some (send_statuses [status_of env t d2 ''scheduled'' (n + PerformanceSamples_Count p)
             (errors_join [err, perr])] o3, s2)
      else Some (scrape_operational env cfg t (n + PerformanceSamples_Count p) (errors_join [err, perr]) s2 o3)) =
      Some (o2, s')"
    using assms(1) unfolding scrape_performance_def Let_def r option.case prod.case
      d1_def d2_def o3_def s2_def .
  then consider "o2 = send_statuses [status_of env t d2 ''scheduled'' (n + PerformanceSamples_Count p)
      (errors_join [err, perr])] o3" "s' = s2"
    | "scrape_operational env cfg t (n + PerformanceSamples_Count p) (errors_join [err, perr]) s2 o3 = (o2, s')"
    by (cases "isActive d2") auto
  then show ?thesis
  proof cases
    case 1
    then show ?thesis using o3 d2 by (simp add: report_simps names s2)
  next
    case 2
    from scrape_operational_reports [OF this o3] keeps_trans [OF d2] show ?thesis by (simp add: names s2)
  qed
qed

lemma scrapeDatabaseSamples_reports:
  assumes "scrapeDatabaseSamples env cfg tick metrics s = Some (o2, s')"
    and t: "t = (case tick of None \<Rightarrow> seNow env | Some t \<Rightarrow> t)"
  shows "keeps (psDatabase s) (psDatabase s') \<and> statuses_of (dName (psDatabase s)) t o2"
proof -
  let ?d = "psDatabase s"
  consider "\<not> StartupReady ?d" | "StartupReady ?d" "connectionState ?d \<noteq> Active"
    | "StartupReady ?d" "connectionState ?d = Active" by blast
  then show ?thesis
  proof cases
    case 3
    obtain e d1 where p: "ping (sePing env) (seNow env) ?d = (e, d1)" by fastforce
    have d1: "keeps ?d d1" using ping_keeps [of ?d "sePing env" "seNow env"] p by simp
    show ?thesis
    proof (cases e)
      case (Some err)
      then show ?thesis
        using assms(1) 3 p d1 by (simp add: scrapeDatabaseSamples_def Let_def t)
          (use d1 in \<open>auto simp: report_simps t\<close>)
    next
      case None
      let ?o1 = "send_statuses [status_of env t d1 ''connectivity'' 1 None] no_out"
      obtain n jn d2 o3 where m: "scrape_metrics env cfg tick t metrics (0, None, d1, ?o1) = Some (n, jn, d2, o3)"
        using assms(1) 3 p None by (auto simp: scrapeDatabaseSamples_def Let_def t split: option.splits)
      have o3: "statuses_of (dName ?d) t o3"
        using scrape_metrics_ok [OF m] d1 by (auto simp: metrics_step_ok_def statuses_of_def status_of_fields keeps_def)
      have d2: "keeps ?d d2" using keeps_trans [OF d1 scrape_metrics_keeps [OF m]] .
      define o4 where "o4 = (if metrics \<noteq> [] then send_statuses [status_of env t d2 ''additional_metrics'' n jn] o3 else o3)"
      define d3 where "d3 = run_others (seAfterMetrics env) d2"
      define s3 where "s3 = s\<lparr>psDatabase := d3\<rparr>"
      have d3: "keeps ?d d3" unfolding d3_def by (rule keeps_trans [OF d2 run_others_keeps])
      have s3: "psDatabase s3 = d3" by (simp add: s3_def)
      have names: "dName d2 = dName ?d" "dName d3 = dName ?d" using d2 d3 by (simp_all add: keeps_def)
      have o4: "statuses_of (dName (psDatabase s3)) t o4"
        using o3 by (simp add: o4_def report_simps names s3)
      have "(if \<not> isActive d3
          then Some (send_statuses [status_of env t d3 ''scheduled'' n (errors_join [None, jn])] o4, s3)
          else scrape_performance env cfg t n (errors_join [None, jn]) s3 o4) = Some (o2, s')"
        using assms(1) 3 p None m unfolding o4_def d3_def s3_def
        by (simp only: scrapeDatabaseSamples_def Let_def t [symmetric] if_False not_True_eq_False simp_thms
            prod.case option.case)
      then consider "o2 = send_statuses [status_of env t d3 ''scheduled'' n (errors_join [None, jn])] o4" "s' = s3"
        | "scrape_performance env cfg t n (errors_join [None, jn]) s3 o4 = Some (o2, s')"
        by (cases "isActive d3") auto
      then show ?thesis
      proof cases
        case 1
        then show ?thesis using o4 d3 by (simp add: report_simps names s3)
      next
        case 2
        from scrape_performance_reports [OF this o4] keeps_trans [OF d3] show ?thesis by (simp add: names s3)
      qed
    qed
  qed (use assms in \<open>auto simp: scrapeDatabaseSamples_def Let_def report_simps\<close>)
qed

lemma goroutine_result:
  assumes "scrapeDatabaseSamples env cfg tick metrics s = Some x"
    and "t = (case tick of None \<Rightarrow> seNow env | Some t \<Rightarrow> t)"
  shows "keeps (psDatabase s) (psDatabase (snd x))" and "statuses_of (dName (psDatabase s)) t (fst x)"
    and "pass_ok (length metrics) (fst x)"
  using assms(1) scrapeDatabaseSamples_reports [OF _ assms(2), of cfg metrics s "fst x" "snd x"]
    scrapeDatabaseSamples_ok [of env cfg tick metrics s "fst x" "snd x"] by simp_all

section \<open>The whole pass\<close>

lemma mset_receive: "mset (receive schedule sent) = mset (concat sent)"
proof (induction schedule sent rule: receive.induct)
  case (2 i schedule sent)
  show ?case
  proof (cases "i < length sent \<and> sent ! i \<noteq> []")
    case True
    then have s: "sent ! i = hd (sent ! i) # tl (sent ! i)" by simp
    have "sent = take i sent @ sent ! i # drop (Suc i) sent" using True by (simp add: id_take_nth_drop)
    then have "mset (concat sent) = mset (concat (take i sent)) + mset (sent ! i) + mset (concat (drop (Suc i) sent))"
      by (metis concat.simps(2) concat_append mset_append union_assoc)
    moreover have "mset (concat (sent[i := tl (sent ! i)])) =
        mset (concat (take i sent)) + mset (tl (sent ! i)) + mset (concat (drop (Suc i) sent))"
      using True by (simp add: upd_conv_take_nth_drop)
    moreover have "mset (sent ! i) = add_mset (hd (sent ! i)) (mset (tl (sent ! i)))"
      using s by (metis mset.simps(2))
    ultimately show ?thesis using 2(1) [OF True] True by simp
  next
    case False
    then have "receive (i # schedule) sent = receive schedule sent" by (simp only: receive.simps if_False)
    with 2(2) [OF False] show ?thesis by (simp only:)
  qed
qed simp

lemma set_receive: "set (receive schedule sent) = set (concat sent)"
  using mset_receive by (rule mset_eq_setD)

lemma those_Some: "those xs = Some ys \<longleftrightarrow> xs = map Some ys"
  by (induction xs arbitrary: ys) (auto split: option.splits)

lemma those_total: "(\<forall>x \<in> set xs. x \<noteq> None) \<Longrightarrow> \<exists>ys. those xs = Some ys"
  by (induction xs) auto

lemma scrape_databases_length:
  "scrape_databases cfg tick ms envs ss = Some rs \<Longrightarrow> length envs = length ss \<Longrightarrow> length rs = length ss"
  unfolding scrape_databases_def those_Some by (drule arg_cong [of _ _ length]) simp

lemma scrape_databases_each:
  assumes "scrape_databases cfg tick ms envs ss = Some rs" and "length envs = length ss" and "i < length ss"
  shows "length rs = length ss \<and>
    scrapeDatabaseSamples (fst (envs ! i)) cfg tick (snd (envs ! i) ms) (ss ! i) = Some (rs ! i)"
proof -
  let ?f = "\<lambda>(env, order) s. scrapeDatabaseSamples env cfg tick (order ms) s"
  have m: "map2 ?f envs ss = map Some rs"
    using assms(1) unfolding scrape_databases_def those_Some .
  have l: "length rs = length ss" by (rule scrape_databases_length [OF assms(1,2)])
  have "map2 ?f envs ss ! i = ?f (envs ! i) (ss ! i)" using assms(2,3) by simp
  then have "map Some rs ! i = ?f (envs ! i) (ss ! i)" unfolding m .
  with l assms(3) show ?thesis by (simp only: nth_map case_prod_beta conj_absorb simp_thms)
qed

lemma set_metric_state_fields [simp]:
  "scConfiguration (set_metric_state m e) = scConfiguration e"
  "scInstanceName (set_metric_state m e) = scInstanceName e"
  "scMetrics (set_metric_state m e) = metricsToScrape m"
  by (simp_all add: set_metric_state_def)

definition database_names :: "Scraper \<Rightarrow> string list" where
  "database_names e = map (\<lambda>s. dName (psDatabase s)) (scDatabases e)"

lemma metric_state_of_set:
  assumes "map fst (metricCaches m) = database_names e"
  shows "metric_state_of (set_metric_state m e) = m"
    and "database_names (set_metric_state m e) = database_names e"
proof -
  have l: "length (metricCaches m) = length (scDatabases e)"
    using assms by (metis database_names_def length_map)
  have n: "fst (metricCaches m ! i) = dName (psDatabase (scDatabases e ! i))" if "i < length (scDatabases e)" for i
    using arg_cong [OF assms, of "\<lambda>xs. xs ! i"] that l by (simp add: database_names_def)
  have "metricCaches (metric_state_of (set_metric_state m e)) = metricCaches m"
    using l n by (intro nth_equalityI) (auto simp: metric_state_of_def set_metric_state_def set_cache_def prod_eq_iff split: prod.splits)
  then show "metric_state_of (set_metric_state m e) = m"
    by (simp add: metric_state_of_def set_metric_state_def)
  show "database_names (set_metric_state m e) = database_names e"
    using l by (intro nth_equalityI) (auto simp: database_names_def set_metric_state_def set_cache_def split: prod.splits)
qed

text \<open>A scraper whose caches cover its metrics, which have distinct identifiers, and whose ranking limit is
  not negative.\<close>

definition scraper_ok :: "Scraper \<Rightarrow> bool" where
  "scraper_ok e \<longleftrightarrow> definitions_ok (metric_state_of e) \<and>
     0 \<le> Plans_GetTopN (perfSQLPlans (cfgPerformance (scConfiguration e)))"

lemma names_of_state: "map fst (metricCaches (metric_state_of e)) = database_names e"
  by (simp add: metric_state_of_def database_names_def comp_def)

lemma refresh_scraper_state:
  assumes "refresh_scraper fs e = Some r"
  shows "refresh_definitions fs (mcDefinitions (cfgMetrics (scConfiguration e))) (metric_state_of e) =
      Some (metric_state_of r)"
    and "database_names r = database_names e" and "scConfiguration r = scConfiguration e"
proof -
  obtain s where s: "refresh_definitions fs (mcDefinitions (cfgMetrics (scConfiguration e))) (metric_state_of e) = Some s"
    "r = set_metric_state s e" using assms by (auto simp: refresh_scraper_def)
  have "map fst (metricCaches s) = database_names e"
    using refresh_definitions_names [OF s(1)] by (simp add: names_of_state)
  from metric_state_of_set [OF this] show "refresh_definitions fs (mcDefinitions (cfgMetrics (scConfiguration e)))
      (metric_state_of e) = Some (metric_state_of r)"
    "database_names r = database_names e" "scConfiguration r = scConfiguration e" by (simp_all add: s)
qed

lemma refresh_scraper_ok: "refresh_scraper fs e = Some r \<Longrightarrow> scraper_ok e \<Longrightarrow> scraper_ok r"
  using refresh_scraper_state [of fs e r] refresh_definitions_ok by (simp add: scraper_ok_def)

lemma refresh_scraper_None:
  "refresh_scraper fs e = None \<longleftrightarrow>
     checkIfMetricsChanged fs (scHashes e) (mcDefinitions (cfgMetrics (scConfiguration e))) \<and>
     loadMetricsToScrape fs (mcDefinitions (cfgMetrics (scConfiguration e))) = None"
  by (simp add: refresh_scraper_def refresh_definitions_None) (simp add: metric_state_of_def)

lemma length_databases: "length (scDatabases e) = length (database_names e)"
  by (simp add: database_names_def)

text \<open>The answers of a pass: one goroutine per database, each with an iteration over all metrics.\<close>

definition answers :: "pass_env \<Rightarrow> Scraper \<Rightarrow> bool" where
  "answers env e \<longleftrightarrow> length (paDatabases env) = length (scDatabases e) \<and>
     (case refresh_scraper (paFiles env) e of
        None \<Rightarrow> True
      | Some r \<Rightarrow> list_all (\<lambda>(s, order). enumerates (order (scMetrics r)) (scMetrics r)) (paDatabases env))"

lemma metric_state_of_metrics [simp]: "metricsToScrape (metric_state_of e) = scMetrics e"
  by (simp add: metric_state_of_def)

lemma scraper_ok_covers:
  assumes "scraper_ok e" and "s \<in> set (scDatabases e)"
  shows "dom (dMetricsCache (psDatabase s)) = dom (scMetrics e)"
  using assms by (auto simp: scraper_ok_def definitions_ok_def caches_cover_def metric_state_of_def)

lemma scrapeSamples_total:
  assumes "scraper_ok e" and "answers env e"
  shows "scrapeSamples env tick e = None \<longleftrightarrow> refresh_scraper (paFiles env) e = None"
proof (cases "refresh_scraper (paFiles env) e")
  case (Some r)
  let ?e = r
  have ok: "scraper_ok ?e" by (rule refresh_scraper_ok [OF Some assms(1)])
  have "scrapeDatabaseSamples s (scraper_config_of ?e) tick (order (scMetrics ?e)) ps \<noteq> None"
    if "(s, order) \<in> set (paDatabases env)" "ps \<in> set (scDatabases ?e)" for s order ps
  proof -
    have en: "enumerates (order (scMetrics ?e)) (scMetrics ?e)"
      using assms(2) that(1) Some by (auto simp: answers_def list_all_iff)
    have keyed: "keyed_by_id (scMetrics ?e)"
      using ok by (simp add: scraper_ok_def definitions_ok_def)
    have "mID ` snd ` set (order (scMetrics ?e)) \<subseteq> dom (dMetricsCache (psDatabase ps))"
      unfolding scraper_ok_covers [OF ok that(2)]
      using keyed enumerates_mem [OF en] by (force simp: keyed_by_id_def)
    moreover have "0 \<le> Plans_GetTopN (sgPlans (scraper_config_of ?e))"
      using ok by (simp add: scraper_ok_def scraper_config_of_def Let_def)
    ultimately show ?thesis using scrapeDatabaseSamples_total by fastforce
  qed
  then have "\<forall>x \<in> set (map2 (\<lambda>(s, order) ps. scrapeDatabaseSamples s (scraper_config_of ?e) tick
      (order (scMetrics ?e)) ps) (paDatabases env) (scDatabases ?e)). x \<noteq> None"
    by (clarsimp dest!: in_set_zipE) (meson option.distinct(1) set_zip_leftD set_zip_rightD)
  from those_total [OF this] Some show ?thesis
    by (auto simp: scrapeSamples_def scrape_databases_def Let_def)
qed (simp add: scrapeSamples_def)

section \<open>Properties\<close>

text \<open>What may happen to a scraper: a pass, and between two passes the critical sections that the other
  goroutines run on a database.\<close>

definition others_on :: "(time \<times> db_action) list \<Rightarrow> nat \<Rightarrow> Scraper \<Rightarrow> Scraper" where
  "others_on tas i e =
     e\<lparr>scDatabases := (scDatabases e)[i := (scDatabases e ! i)\<lparr>psDatabase := run_others tas (psDatabase (scDatabases e ! i))\<rparr>]\<rparr>"

inductive scraper_step :: "Scraper \<Rightarrow> Scraper \<Rightarrow> bool" where
  pass: "answers env e \<Longrightarrow> scrapeSamples env tick e = Some (bs, e') \<Longrightarrow> scraper_step e e'"
| others: "i < length (scDatabases e) \<Longrightarrow> scraper_step e (others_on tas i e)"

inductive_cases scraper_stepE: "scraper_step e e'"

text \<open>The invariant only depends on the metrics and on what the caches know.\<close>

lemma scraper_ok_keeps:
  assumes "scraper_ok e" and "scConfiguration e' = scConfiguration e" and "scMetrics e' = scMetrics e"
    and "list_all2 (\<lambda>s s'. dom (dMetricsCache (psDatabase s')) = dom (dMetricsCache (psDatabase s)))
           (scDatabases e) (scDatabases e')"
  shows "scraper_ok e'"
proof -
  have "dom (dMetricsCache (psDatabase s')) = dom (scMetrics e)" if "s' \<in> set (scDatabases e')" for s'
  proof -
    from that obtain i where i: "i < length (scDatabases e')" "s' = scDatabases e' ! i" by (auto simp: in_set_conv_nth)
    then have "dom (dMetricsCache (psDatabase s')) = dom (dMetricsCache (psDatabase (scDatabases e ! i)))"
      using assms(4) by (simp add: list_all2_conv_all_nth)
    then show ?thesis using scraper_ok_covers [OF assms(1), of "scDatabases e ! i"] i assms(4)
      by (simp add: list_all2_conv_all_nth)
  qed
  then show ?thesis
    using assms(1-3) by (auto simp: scraper_ok_def definitions_ok_def caches_cover_def metric_state_of_def)
qed

lemma scrapeSamples_keeps:
  assumes "scrapeSamples env tick e = Some (bs, e')" and "length (paDatabases env) = length (scDatabases e)"
  obtains r rs where "refresh_scraper (paFiles env) e = Some r" "length rs = length (scDatabases r)" "scDatabases e' = map snd rs"
    "e' = r\<lparr>scDatabases := map snd rs\<rparr>"
    "\<And>i. i < length (scDatabases r) \<Longrightarrow> scrapeDatabaseSamples (fst (paDatabases env ! i)) (scraper_config_of r) tick
        (snd (paDatabases env ! i) (scMetrics r)) (scDatabases r ! i) = Some (rs ! i)"
    "bs = scrape_batch (receive (paErrors env) (map soErrors (map fst rs)))
        (receive (paSamples env) (map soSamples (map fst rs)))
        (receive (paPerformance env) (map soPerformance (map fst rs)))
        (receive (paOperational env) (map soOperational (map fst rs)))
        (receive (paStatuses env) (map soStatuses (map fst rs)))
        (connectionStateSamples (paFinished env) (scInstanceName e') (map psDatabase (map snd rs)))
        (paBegun env) (paFinished env)"
proof -
  obtain r rs where r: "refresh_scraper (paFiles env) e = Some r"
    and rs: "scrape_databases (scraper_config_of r) tick (scMetrics r) (paDatabases env) (scDatabases r) = Some rs"
    using assms(1) by (auto simp: scrapeSamples_def Let_def split: option.splits)
  have l: "length (paDatabases env) = length (scDatabases r)"
    using assms(2) by (simp add: length_databases refresh_scraper_state [OF r])
  have e': "e' = r\<lparr>scDatabases := map snd rs\<rparr>"
    using assms(1) rs by (simp add: scrapeSamples_def Let_def r)
  have lr: "length rs = length (scDatabases r)"
    by (rule scrape_databases_length [OF rs l])
  show ?thesis
  proof (rule that [OF r lr _ e'])
    show "scDatabases e' = map snd rs" by (simp add: e')
    show "bs = scrape_batch (receive (paErrors env) (map soErrors (map fst rs)))
        (receive (paSamples env) (map soSamples (map fst rs)))
        (receive (paPerformance env) (map soPerformance (map fst rs)))
        (receive (paOperational env) (map soOperational (map fst rs)))
        (receive (paStatuses env) (map soStatuses (map fst rs)))
        (connectionStateSamples (paFinished env) (scInstanceName e') (map psDatabase (map snd rs)))
        (paBegun env) (paFinished env)"
      using assms(1) rs by (simp add: scrapeSamples_def Let_def r e')
  qed (use scrape_databases_each [OF rs l] in blast)
qed

definition scraper_inv :: "MetricsConfiguration \<Rightarrow> Scraper \<Rightarrow> bool" where
  "scraper_inv m e \<longleftrightarrow> scraper_ok e \<and> scConfiguration e = m \<and> database_names e = map fst (cfgDatabases m)"

lemma dName_NewDatabase [simp]: "dName (NewDatabase l n c o1) = n"
  by (simp add: NewDatabase_def)

lemma NewScraper_inv:
  assumes "0 \<le> Plans_GetTopN (perfSQLPlans (cfgPerformance m))" and "NewScraper hostname pid fs opened m = Some e0"
  shows "scraper_inv m e0"
proof -
  let ?ds = "map (\<lambda>(name, c). NewDatabase (DatabaseLabel m) name c (opened name)) (cfgDatabases m)"
  define e where "e = \<lparr>scConfiguration = m, scInstanceName = scraper_instance hostname pid,
      scConstLabels = all_const_labels (cfgDatabases m), scMetrics = Map.empty,
      scHashes = Map.empty, scDatabases = map new_pass_state ?ds\<rparr>"
  obtain s where s: "initial_metric_state fs (mcDefinitions (cfgMetrics m)) (map dName ?ds) = Some s"
    and e0: "e0 = set_metric_state s e" using assms(2) by (auto simp: NewScraper_def Let_def e_def)
  have ds: "map dName ?ds = map fst (cfgDatabases m)" by (simp add: comp_def case_prod_beta)
  have names: "database_names e = map fst (cfgDatabases m)"
    by (simp add: database_names_def e_def new_pass_state_def comp_def case_prod_beta)
  have "map fst (metricCaches s) = database_names e"
    using s unfolding initial_metric_state_def names ds by (auto simp: comp_def split: option.splits)
  from metric_state_of_set [OF this] have "metric_state_of (set_metric_state s e) = s"
    "database_names (set_metric_state s e) = map fst (cfgDatabases m)" by (simp_all add: names)
  moreover have "definitions_ok s" by (rule initial_definitions_ok [OF s])
  ultimately show ?thesis using assms(1) by (simp add: e0 scraper_inv_def scraper_ok_def e_def)
qed

lemma pass_inv:
  assumes "answers env e" and "scrapeSamples env tick e = Some (bs, e')" and "scraper_inv m e"
  shows "scraper_inv m e'"
proof -
  have l: "length (paDatabases env) = length (scDatabases e)" using assms(1) by (simp add: answers_def)
  obtain r rs where r: "refresh_scraper (paFiles env) e = Some r"
    and rs: "length rs = length (scDatabases r)" "e' = r\<lparr>scDatabases := map snd rs\<rparr>"
    "\<And>i. i < length (scDatabases r) \<Longrightarrow> scrapeDatabaseSamples (fst (paDatabases env ! i)) (scraper_config_of r) tick
        (snd (paDatabases env ! i) (scMetrics r)) (scDatabases r ! i) = Some (rs ! i)"
    by (rule scrapeSamples_keeps [OF assms(2) l]) (rule that; assumption)
  let ?r = r
  have kept: "keeps (psDatabase (scDatabases ?r ! i)) (psDatabase (snd (rs ! i)))" if "i < length (scDatabases ?r)" for i
    by (rule goroutine_result(1) [OF rs(3) [OF that] refl])
  have "scraper_ok ?r" using assms(3) refresh_scraper_ok [OF r] by (simp add: scraper_inv_def)
  then have "scraper_ok e'"
    by (rule scraper_ok_keeps) (use kept rs(1,2) in \<open>auto simp: list_all2_conv_all_nth keeps_def\<close>)
  moreover have "database_names e' = database_names ?r"
    unfolding database_names_def using kept rs(1,2) by (intro nth_equalityI) (auto simp: keeps_def)
  ultimately show ?thesis
    using assms(3) rs(2) by (simp add: scraper_inv_def refresh_scraper_state [OF r])
qed

lemma others_inv: "i < length (scDatabases e) \<Longrightarrow> scraper_inv m e \<Longrightarrow> scraper_inv m (others_on tas i e)"
proof -
  assume i: "i < length (scDatabases e)" and inv: "scraper_inv m e"
  note kept = run_others_keeps [of "psDatabase (scDatabases e ! i)" tas]
  have "scraper_ok e" using inv by (simp add: scraper_inv_def)
  then have "scraper_ok (others_on tas i e)"
  proof (rule scraper_ok_keeps)
    show "list_all2 (\<lambda>s s'. dom (dMetricsCache (psDatabase s')) = dom (dMetricsCache (psDatabase s)))
        (scDatabases e) (scDatabases (others_on tas i e))"
      unfolding list_all2_conv_all_nth
    proof (intro conjI allI impI)
      fix j assume "j < length (scDatabases e)"
      then show "dom (dMetricsCache (psDatabase (scDatabases (others_on tas i e) ! j))) =
          dom (dMetricsCache (psDatabase (scDatabases e ! j)))"
        using kept by (cases "j = i") (simp_all add: others_on_def keeps_def)
    qed (simp add: others_on_def)
  qed (simp_all add: others_on_def)
  moreover have "database_names (others_on tas i e) = database_names e"
    unfolding database_names_def others_on_def using kept i
    by (simp add: map_update keeps_def list_update_same_conv)
  ultimately show ?thesis using inv by (simp add: scraper_inv_def others_on_def)
qed

definition started :: "MetricsConfiguration \<Rightarrow> Scraper \<Rightarrow> bool" where
  "started m e \<longleftrightarrow> 0 \<le> Plans_GetTopN (perfSQLPlans (cfgPerformance m)) \<and>
     (\<exists>hostname pid fs opened. NewScraper hostname pid fs opened m = Some e)"

interpretation scraper: invariant_machine "started m" scraper_step "scraper_inv m" for m
proof
  show "started m s \<Longrightarrow> scraper_inv m s" for s by (auto simp: started_def NewScraper_inv)
  show "scraper_step s s' \<Longrightarrow> scraper_inv m s \<Longrightarrow> scraper_inv m s'" for s s'
    by (erule scraper_stepE) (auto intro: pass_inv others_inv)
qed

text \<open>
  C4: only a null entry in a definition file makes a pass panic. From \<open>NewScraper\<close> on (which panics only
  on such an entry too), whatever the databases answer and whatever the other goroutines do in between, the
  caches of all databases know exactly the metrics to scrape and the databases are the configured ones; the
  next pass panics exactly when the definition files changed and their load dereferences the nil pointer of
  a null entry, which is in one of them. In every other case, broken files included, no
  goroutine dereferences nil and the pass returns its batch, as far as every goroutine gets the read lock of
  its session (which the model leaves out).
\<close>
theorem pass_panics_only_on_null_metric:
  assumes "0 \<le> Plans_GetTopN (perfSQLPlans (cfgPerformance m))"
    and "NewScraper hostname pid fs opened m = Some e0" and "scraper_step\<^sup>*\<^sup>* e0 e"
    and "answers env e"
  shows "let files = mcDefinitions (cfgMetrics m) in
    (scrapeSamples env tick e = None \<longleftrightarrow>
       checkIfMetricsChanged (paFiles env) (scHashes e) files \<and> loadMetricsToScrape (paFiles env) files = None) \<and>
    (\<forall>fs'. loadMetricsToScrape fs' files = None \<longrightarrow> (\<exists>f \<in> set files. trim_space f \<noteq> [] \<and> null_entry fs' f)) \<and>
    (\<forall>fs'. NewScraper hostname pid fs' opened m = None \<longleftrightarrow> loadMetricsToScrape fs' files = None) \<and>
    database_names e = map fst (cfgDatabases m) \<and>
    (\<forall>s \<in> set (scDatabases e). dom (dMetricsCache (psDatabase s)) = dom (scMetrics e))"
proof -
  have "scraper_inv m e"
    by (rule scraper.reachable_inv [OF _ assms(3)]) (use assms(1,2) in \<open>auto simp: started_def\<close>)
  moreover have "NewScraper hostname pid fs' opened m = None \<longleftrightarrow>
      loadMetricsToScrape fs' (mcDefinitions (cfgMetrics m)) = None" for fs'
    by (simp add: NewScraper_def Let_def initial_metric_state_def split: option.split)
  ultimately show ?thesis
    using scrapeSamples_total [OF _ assms(4)] scraper_ok_covers loadMetricsToScrape_None
    by (simp add: Let_def scraper_inv_def refresh_scraper_None)
qed

section \<open>Witnesses\<close>

text \<open>A configuration with one database and no metric definitions; the database is not started yet.\<close>

definition one_database :: MetricsConfiguration where
  "one_database = empty_configuration\<lparr>cfgDatabases := [(''db'', sample_db_config)]\<rparr>"

definition one_scraper :: Scraper where
  "one_scraper = the (NewScraper (Inr ''host'') ''1'' example_files (\<lambda>_. Inr 7) one_database)"

definition one_pass :: pass_env where
  "one_pass = \<lparr>paFiles = example_files, paBegun = 6, paFinished = 9, paDatabases = [(quiet_env, \<lambda>_. [])],
     paErrors = [], paSamples = [], paPerformance = [], paOperational = [], paStatuses = [0, 0]\<rparr>"

lemma one_scraper_fields:
  "NewScraper (Inr ''host'') ''1'' example_files (\<lambda>_. Inr 7) one_database = Some one_scraper"
  "scMetrics one_scraper = Map.empty" "scConfiguration one_scraper = one_database"
  "database_names one_scraper = [''db'']"
  "scDatabases one_scraper = [new_pass_state (NewDatabase (DatabaseLabel one_database) ''db'' sample_db_config (Inr 7))]"
  by (simp_all add: one_scraper_def NewScraper_def Let_def one_database_def empty_configuration_def
      initial_metric_state_def loadMetricsToScrape_def initCache_def set_metric_state_def set_cache_def
      new_pass_state_def database_names_def NewDatabase_def NewMetricsCache_def)

lemma one_scraper_refresh: "refresh_scraper (paFiles one_pass) one_scraper = Some one_scraper"
  by (simp add: refresh_scraper_def refresh_definitions_def one_scraper_fields one_database_def
      empty_configuration_def set_metric_state_def metric_state_of_def set_cache_def)

lemma one_answers: "answers one_pass one_scraper"
  by (simp add: answers_def one_scraper_refresh one_scraper_fields enumerates_def) (simp add: one_pass_def)

text \<open>A scraper of no databases whose one definition file is replaced by one with a null entry.\<close>

definition null_configuration :: MetricsConfiguration where
  "null_configuration = empty_configuration
     \<lparr>cfgMetrics := (cfgMetrics empty_configuration)\<lparr>mcDefinitions := [''null.yaml'']\<rparr>\<rparr>"

definition null_pass :: pass_env where
  "null_pass = one_pass\<lparr>paDatabases := []\<rparr>"

lemma pass_panics_only_on_null_metric_witness:
  "scrapeSamples one_pass (Some 5) one_scraper \<noteq> None \<and>
   (\<exists>e. NewScraper (Inr ''host'') ''1'' (example_files\<lparr>dfRead := \<lambda>_. Inr ''metrics: [...]''\<rparr>) (\<lambda>_. Inr 7)
          null_configuration = Some e \<and> scrapeSamples null_pass (Some 5) e = None)"
proof
  show "scrapeSamples one_pass (Some 5) one_scraper \<noteq> None"
    using pass_panics_only_on_null_metric [OF _ one_scraper_fields(1) rtranclp.rtrancl_refl one_answers, of "Some 5"]
    by (simp add: one_database_def empty_configuration_def Plans_GetTopN_def loadMetricsToScrape_def)
next
  let ?fs = "example_files\<lparr>dfRead := \<lambda>_. Inr ''metrics: [...]''\<rparr>" and ?files = "[''null.yaml'']"
  have files: "mcDefinitions (cfgMetrics null_configuration) = ?files" by (simp add: null_configuration_def)
  have "loadMetricsToScrape ?fs ?files \<noteq> None" by (simp add: load_defs)
  then obtain e where e: "NewScraper (Inr ''host'') ''1'' ?fs (\<lambda>_. Inr 7) null_configuration = Some e"
    by (auto simp: NewScraper_def Let_def initial_metric_state_def files)
  then have fields: "scHashes e = Map.empty" "scDatabases e = []" "scConfiguration e = null_configuration"
    by (auto simp: NewScraper_def Let_def initial_metric_state_def set_metric_state_def initCache_def
        null_configuration_def empty_configuration_def split: option.splits)
  have changed: "checkIfMetricsChanged example_files (scHashes e) ?files"
    by (simp add: fields filepath_clean_def has_prefix_def example_files_def)
  have "answers null_pass e"
    by (simp add: answers_def fields null_pass_def split: option.split)
  from pass_panics_only_on_null_metric [OF _ e rtranclp.rtrancl_refl this, of "Some 5"]
  have "scrapeSamples null_pass (Some 5) e = None"
    using changed example_files_load(3)
    by (simp add: files Let_def null_pass_def one_pass_def)
      (simp add: null_configuration_def empty_configuration_def Plans_GetTopN_def)
  with e show "\<exists>e. NewScraper (Inr ''host'') ''1'' ?fs (\<lambda>_. Inr 7) null_configuration = Some e \<and>
      scrapeSamples null_pass (Some 5) e = None" by blast
qed

end
