(* ===== verification/PassWrites.thy ===== *)
theory PassWrites
  imports Pass SinkWrites
begin

text \<open>
  The scheduled pass and its write (\<open>doScrape\<close> in \<open>collector/collector.go\<close> with \<open>WriteSamples\<close> of the sink): what
  the tables of the repository hold after a pass whose write succeeded.
\<close>

section \<open>The pass with its write\<close>

text \<open>What the sink reads from outside during a write, and its settings.\<close>

record sink_env =
  snServer :: Server
  snFlush :: Server
  snCleanup :: CleanupAnswers
  snOrder :: "ingest \<Rightarrow> repositoryIngestKey list"
  snMarshal :: "(string \<rightharpoonup> string) \<Rightarrow> string"
  snClock :: WriteClock

definition write_to_sink ::
    "sink_env \<Rightarrow> PostgreSQLConfig \<Rightarrow> SampleBatch \<Rightarrow> SinkState \<Rightarrow> go_error option \<times> SinkState" where
  "write_to_sink sn c b k =
     WriteSamples (snServer sn) (snFlush sn) (snCleanup sn) (sink_tables c) (PG_GetRetention c) (snMarshal sn)
       (snOrder sn) (snClock sn) b k"

text \<open>\<open>doScrape\<close> with the write; the error of the write is logged (it is the second component).\<close>

definition scheduled_pass ::
    "pass_env \<Rightarrow> sink_env \<Rightarrow> time \<Rightarrow> duration \<Rightarrow> int \<Rightarrow> string \<Rightarrow> Scraper \<times> SinkState \<Rightarrow>
     (go_error option \<times> Scraper \<times> SinkState) option" where
  "scheduled_pass env sn tick interval missed trigger st =
     (let (e, k) = st in
      case scrapeSamples env (Some tick) e of
        None \<Rightarrow> None
      | Some (bs, e) \<Rightarrow>
          (let (batch, summary) = doScrape (scInstanceName e) (cfgHighAvailability (scConfiguration e))
                                    (length (scDatabases e)) trigger tick interval missed bs;
               (err, k) = write_to_sink sn (cfgPostgreSQL (scConfiguration e)) batch k
           in Some (err, e, k)))"

section \<open>What a successful write leaves in the repository\<close>

lemma cleanup_tables_keeps:
  assumes "cleanup_tables a cutoff r = (err, r')"
  shows "rpConnections r' = rpConnections r"
    and "rpLatestStatus r key = Some row \<Longrightarrow> cutoff \<le> stCollectedAt row \<Longrightarrow> rpLatestStatus r' key = Some row"
  using assms
  by (auto simp: cleanup_tables_def Let_def deleteExpiredLatestScrapeStatuses_def delete_expired_def exec_statement_def
      prune_def split: sum.splits option.splits prod.splits)

lemma cleanupRetention_keeps:
  assumes "cleanupRetention a tb retention now now' (last_cleanup, r) = (c, r')"
  shows "rpConnections r' = rpConnections r"
    and "rpLatestStatus r key = Some row \<Longrightarrow> (0 < retention \<Longrightarrow> now' \<le> stCollectedAt row + retention) \<Longrightarrow>
      rpLatestStatus r' key = Some row"
proof -
  define cutoff where "cutoff = time_add now' (- retention)"
  obtain err n dropped where d: "dropExpiredPartitions (caDrop a) (caListing a) (partitionedTables tb) cutoff 0 [] =
    ((err, n), dropped)" by (metis prod.collapse)
  obtain cerr r1 where t: "cleanup_tables a (retentionDayCutoff cutoff) (forget_partitions dropped r) = (cerr, r1)"
    by fastforce
  have f: "rpConnections (forget_partitions dropped r) = rpConnections r"
    "rpLatestStatus (forget_partitions dropped r) = rpLatestStatus r"
    by (simp_all add: forget_partitions_def Let_def)
  have r': "r' = r \<or> 0 < retention \<and> (r' = forget_partitions dropped r \<or> r' = r1)"
    using assms d t by (auto simp: cleanupRetention_def cutoff_def [symmetric] Let_def split: if_splits option.splits)
  then show "rpConnections r' = rpConnections r" using cleanup_tables_keeps(1) [OF t] f by auto
  assume row: "rpLatestStatus r key = Some row" "0 < retention \<Longrightarrow> now' \<le> stCollectedAt row + retention"
  have "0 < retention \<Longrightarrow> retentionDayCutoff cutoff \<le> stCollectedAt row"
    using row(2) dayStartUTC_bounds(1) [of cutoff] by (simp add: retentionDayCutoff_def cutoff_def time_add_def)
  then show "rpLatestStatus r' key = Some row" using r' row(1) f cleanup_tables_keeps(2) [OF t, of key row] by auto
qed

lemma flush_keeps:
  assumes "flushRepositoryIngest (write_ingest sv tb order) force now buffer r = (err, buffer', r')"
  shows "rpConnections r' = rpConnections r \<and> rpLatestStatus r' = rpLatestStatus r"
  using assms
  by (auto simp: flushRepositoryIngest_def write_ingest_def Let_def split: option.splits prod.splits if_splits)

lemma written_batch:
  assumes "WriteSamples sv fv a tb retention marshal order clock b k = (None, k')" and "orders_ok sv"
  shows "rpConnections (skRepo k') =
      (if sbConnectionStatesComplete b
       then fold upsert_connection (sbConnectionStates b) (rpConnections (skRepo k)) |` set (map csDatabase (sbConnectionStates b))
       else fold upsert_connection (sbConnectionStates b) (rpConnections (skRepo k)))"
    and "fold upsert_status (sbScrapeStatuses b) (rpLatestStatus (skRepo k)) key = Some row \<Longrightarrow>
      (0 < retention \<Longrightarrow> ckCutoff clock \<le> stCollectedAt row + retention) \<Longrightarrow>
      rpLatestStatus (skRepo k') key = Some row"
proof -
  obtain pending q where q: "takePendingRuntime False (ckTaken clock) (skQueue k) = (pending, q)" by fastforce
  obtain err r where w: "write_transaction sv tb marshal b pending (skRepo k) = (err, r)" by fastforce
  have err: "err = None" using assms(1) q w by (auto simp: WriteSamples_def Let_def split: option.splits)
  then have r: "r = store_batch sv tb marshal b pending (skRepo k)"
    using w write_stages_ok [OF _ assms(2)] by (simp add: write_transaction_def transaction_success)
  obtain ferr buffer r1 where f: "flushRepositoryIngest (write_ingest fv tb order) False (ckFlushed clock)
      (recordRepositoryIngest b (skIngest k)) r = (ferr, buffer, r1)" by (metis prod_cases3)
  obtain cleaned r2 where c: "cleanupRetention a tb retention (ckCleanup clock) (ckCutoff clock)
      (skLastCleanup k, r1) = (cleaned, r2)" by fastforce
  have k': "skRepo k' = r2" using assms(1) q w err f c by (auto simp: WriteSamples_def Let_def)
  note kept = flush_keeps [OF f] cleanupRetention_keeps [OF c]
  show "rpConnections (skRepo k') =
      (if sbConnectionStatesComplete b
       then fold upsert_connection (sbConnectionStates b) (rpConnections (skRepo k)) |` set (map csDatabase (sbConnectionStates b))
       else fold upsert_connection (sbConnectionStates b) (rpConnections (skRepo k)))"
    using kept(1,2) by (simp add: k' r store_batch_def)
  show "rpLatestStatus (skRepo k') key = Some row"
    if "fold upsert_status (sbScrapeStatuses b) (rpLatestStatus (skRepo k)) key = Some row"
      "0 < retention \<Longrightarrow> ckCutoff clock \<le> stCollectedAt row + retention"
    using kept(1) kept(3) [of key row] that by (simp add: k' r store_batch_def)
qed

section \<open>Every database is reported\<close>

text \<open>The statuses of a pass: those that the goroutines sent, all of this tick, one \<open>scheduled\<close> per database.\<close>

lemma pass_statuses:
  assumes "scrapeSamples env (Some tick) e = Some ((b, summary), e')"
    and "length (paDatabases env) = length (scDatabases e)"
  shows "\<forall>y \<in> set (sbScrapeStatuses b). stCollectedAt y = tick"
    and "name \<in> set (database_names e) \<Longrightarrow> \<exists>y \<in> set (sbScrapeStatuses b). status_key y = (name, ''scheduled'')"
    and "sbConnectionStatesComplete b" and "map csDatabase (sbConnectionStates b) = database_names e"
    and "scConfiguration e' = scConfiguration e"
proof -
  obtain r rs where r: "refresh_scraper (paFiles env) e = Some r"
    and rs: "length rs = length (scDatabases r)" "scDatabases e' = map snd rs"
    "e' = r\<lparr>scDatabases := map snd rs\<rparr>"
    "\<And>i. i < length (scDatabases r) \<Longrightarrow> scrapeDatabaseSamples (fst (paDatabases env ! i)) (scraper_config_of r) (Some tick)
        (snd (paDatabases env ! i) (scMetrics r)) (scDatabases r ! i) = Some (rs ! i)"
    "(b, summary) = scrape_batch (receive (paErrors env) (map soErrors (map fst rs)))
        (receive (paSamples env) (map soSamples (map fst rs)))
        (receive (paPerformance env) (map soPerformance (map fst rs)))
        (receive (paOperational env) (map soOperational (map fst rs)))
        (receive (paStatuses env) (map soStatuses (map fst rs)))
        (connectionStateSamples (paFinished env) (scInstanceName e') (map psDatabase (map snd rs)))
        (paBegun env) (paFinished env)"
    by (rule scrapeSamples_keeps [OF assms]) (rule that; assumption)
  let ?r = r
  have ss: "set (sbScrapeStatuses b) = (\<Union>x \<in> set rs. set (concat (soStatuses (fst x))))"
    using rs(5) by (simp add: scrape_batch_def Let_def foldl_append_concat set_receive)
  have each: "keeps (psDatabase (scDatabases ?r ! i)) (psDatabase (snd (rs ! i))) \<and>
      statuses_of (dName (psDatabase (scDatabases ?r ! i))) tick (fst (rs ! i))" if "i < length rs" for i
    using goroutine_result(1,2) [OF rs(4) [unfolded rs(1) [symmetric], OF that], of tick] by simp
  show "\<forall>y \<in> set (sbScrapeStatuses b). stCollectedAt y = tick"
  proof
    fix y assume "y \<in> set (sbScrapeStatuses b)"
    then obtain x where "x \<in> set rs" and y: "y \<in> set (concat (soStatuses (fst x)))" unfolding ss by blast
    then obtain i where "i < length rs" "x = rs ! i" by (auto simp: in_set_conv_nth)
    with each [of i] y show "stCollectedAt y = tick" unfolding statuses_of_def by blast
  qed
  have names: "dName (psDatabase (scDatabases ?r ! i)) = database_names e ! i" if "i < length rs" for i
    using that rs(1) refresh_scraper_state(2) [OF r] by (metis database_names_def nth_map)
  show "\<exists>y \<in> set (sbScrapeStatuses b). status_key y = (name, ''scheduled'')" if n: "name \<in> set (database_names e)"
  proof -
    have "length (database_names e) = length rs"
      using rs(1) by (simp add: length_databases refresh_scraper_state [OF r])
    then obtain i where i: "i < length rs" "database_names e ! i = name" using n by (auto simp: in_set_conv_nth)
    then obtain pre y where y: "concat (soStatuses (fst (rs ! i))) = pre @ [y]" "stCollector y = ''scheduled''"
      using goroutine_result(3) [OF rs(4) [unfolded rs(1) [symmetric], OF i(1)] refl] by (auto simp: pass_ok_def)
    then have mem: "y \<in> set (concat (soStatuses (fst (rs ! i))))" by simp
    then have "stDatabase y = name"
      using each [OF i(1)] unfolding statuses_of_def names [OF i(1)] i(2) by blast
    then have "status_key y = (name, ''scheduled'')" using y(2) by (simp add: status_key_def)
    moreover have "y \<in> set (sbScrapeStatuses b)" unfolding ss using mem i(1) nth_mem by blast
    ultimately show ?thesis by blast
  qed
  show "sbConnectionStatesComplete b" using rs(5) by (simp add: scrape_batch_def Let_def)
  have "map csDatabase (sbConnectionStates b) = map (\<lambda>x. dName (psDatabase (snd x))) rs"
    using rs(5) by (simp add: scrape_batch_def Let_def connectionStateSamples_def connectionStateSample_def)
  also have "\<dots> = map (\<lambda>s. dName (psDatabase s)) (scDatabases ?r)"
    unfolding list_eq_iff_nth_eq using rs(1) each by (auto simp: keeps_def)
  finally show "map csDatabase (sbConnectionStates b) = database_names e"
    using refresh_scraper_state(2) [OF r] by (simp add: database_names_def)
  show "scConfiguration e' = scConfiguration e" using rs(3) by (simp add: refresh_scraper_state [OF r])
qed

text \<open>
  C6: a pass whose write succeeds has reported on every configured database. Whatever the databases did
  (not started, quarantined, failing), the sink's table of latest statuses then holds for each of them a
  \<open>scheduled\<close> status at least as new as the tick (a newer one only if it was already there), and the
  table of connection states has exactly one row for each of them. The clean-up of expired rows that the
  same write may run spares these statuses under the stated condition that its cutoff is computed at most
  one retention period after the tick: a pass slower than that may delete what it has just written.
\<close>
theorem every_database_reported:
  assumes "scheduled_pass env sn tick interval missed trigger (e, k) = Some (None, e', k')"
    and "length (paDatabases env) = length (scDatabases e)" and "orders_ok (snServer sn)"
    and "0 < PG_GetRetention (cfgPostgreSQL (scConfiguration e)) \<Longrightarrow>
      ckCutoff (snClock sn) \<le> tick + PG_GetRetention (cfgPostgreSQL (scConfiguration e))"
  shows "(\<forall>name \<in> set (database_names e).
      \<exists>row. rpLatestStatus (skRepo k') (name, ''scheduled'') = Some row \<and> tick \<le> stCollectedAt row \<and>
        (stCollectedAt row = tick \<or> rpLatestStatus (skRepo k) (name, ''scheduled'') = Some row)) \<and>
    dom (rpConnections (skRepo k')) = set (database_names e)"
proof -
  obtain b summary where p: "scrapeSamples env (Some tick) e = Some ((b, summary), e')"
    and w: "write_to_sink sn (cfgPostgreSQL (scConfiguration e'))
      (fst (doScrape (scInstanceName e') (cfgHighAvailability (scConfiguration e')) (length (scDatabases e')) trigger
        tick interval missed (b, summary))) k = (None, k')"
    using assms(1) by (auto simp: scheduled_pass_def Let_def split: option.splits prod.splits)
  note st = pass_statuses [OF p assms(2)]
  let ?b = "fst (doScrape (scInstanceName e') (cfgHighAvailability (scConfiguration e')) (length (scDatabases e'))
    trigger tick interval missed (b, summary))"
  have b: "sbScrapeStatuses ?b = sbScrapeStatuses b" "sbConnectionStates ?b = sbConnectionStates b"
    "sbConnectionStatesComplete ?b = sbConnectionStatesComplete b"
    by (simp_all add: doScrape_def)
  note stored = written_batch [OF w [unfolded write_to_sink_def] assms(3)]
  have "\<exists>row. rpLatestStatus (skRepo k') (name, ''scheduled'') = Some row \<and> tick \<le> stCollectedAt row \<and>
      (stCollectedAt row = tick \<or> rpLatestStatus (skRepo k) (name, ''scheduled'') = Some row)"
    if name: "name \<in> set (database_names e)" for name
  proof -
    obtain y where y: "y \<in> set (sbScrapeStatuses b)" "status_key y = (name, ''scheduled'')"
      using st(2) [OF name] by blast
    then have "(name, ''scheduled'') \<in> dom (fold upsert_status (sbScrapeStatuses b) (rpLatestStatus (skRepo k)))"
      unfolding latest_status.dom_fold using imageI [of y "set (sbScrapeStatuses b)" status_key] by simp
    then obtain row where row:
      "fold upsert_status (sbScrapeStatuses b) (rpLatestStatus (skRepo k)) (name, ''scheduled'') = Some row" by auto
    then have new: "tick \<le> stCollectedAt row" using latest_status.fold_newest [OF row y] st(1) y(1) by simp
    have "ckCutoff (snClock sn) \<le> stCollectedAt row + PG_GetRetention (cfgPostgreSQL (scConfiguration e))"
      if "0 < PG_GetRetention (cfgPostgreSQL (scConfiguration e))" using assms(4) [OF that] new by linarith
    with row have "rpLatestStatus (skRepo k') (name, ''scheduled'') = Some row"
      by (rule stored(2) [unfolded b, unfolded st(5)])
    then show ?thesis using new st(1) latest_status.fold_source [OF row] by auto
  qed
  moreover have "dom (rpConnections (skRepo k')) = set (database_names e)"
    unfolding stored(1) b st(4) using st(3) arg_cong [OF st(4), of set] by (auto simp: connection.dom_fold)
  ultimately show ?thesis by blast
qed

section \<open>Witness\<close>

definition one_write :: sink_env where
  "one_write = \<lparr>snServer = example_server, snFlush = example_server,
     snCleanup = \<lparr>caListing = (\<lambda>_. Inr []), caDrop = (\<lambda>_. None), caExec = (\<lambda>_. None), caBatches = (\<lambda>_. None),
       caCursorKeys = (\<lambda>_ _. [])\<rparr>,
     snOrder = (\<lambda>_. []), snMarshal = (\<lambda>_. []),
     snClock = \<lparr>ckStarted = 6, ckTaken = 7, ckFlushed = 8, ckCleanup = 9, ckCutoff = 9, ckFinished = 9\<rparr>\<rparr>"

lemma one_tables: "sink_tables (cfgPostgreSQL one_database) = example_tables" "PG_GetRetention (cfgPostgreSQL one_database) = 0"
  by (simp_all add: one_database_def empty_configuration_def example_tables_def sink_tables_def PG_GetRetention_def)

lemma one_pass_batch:
  "\<exists>b summary e'. scrapeSamples one_pass (Some 5) one_scraper = Some ((b, summary), e') \<and>
     sbAdditionalMetrics b = [] \<and> sbPerformance b = no_performance \<and> sbOperational b = no_operational \<and>
     scConfiguration e' = one_database \<and>
     sbScrapeStatuses b = map (\<lambda>c. newScrapeStatus 5 ''db'' c second 0
       (Some (ErrText ''database connection startup is still in progress''))) [''connectivity'', ''scheduled'']"
proof -
  let ?s = "new_pass_state (NewDatabase (DatabaseLabel one_database) ''db'' sample_db_config (Inr 7))"
  let ?err = "ErrText ''database connection startup is still in progress''"
  have one: "scrapeDatabaseSamples quiet_env cfg (Some 5) ms ?s =
      Some (send_error None (send_statuses [newScrapeStatus 5 ''db'' ''connectivity'' second 0 (Some ?err),
        newScrapeStatus 5 ''db'' ''scheduled'' second 0 (Some ?err)] no_out), ?s)" for cfg ms
    by (simp add: scrapeDatabaseSamples_def StartupReady_def new_pass_state_def NewDatabase_def Let_def status_of_def)
      (simp add: quiet_env_def)
  have "scrape_databases cfg (Some 5) ms (paDatabases one_pass) (scDatabases one_scraper) =
      Some [(send_error None (send_statuses [newScrapeStatus 5 ''db'' ''connectivity'' second 0 (Some ?err),
        newScrapeStatus 5 ''db'' ''scheduled'' second 0 (Some ?err)] no_out), ?s)]" for cfg ms
    by (simp add: scrape_databases_def one_scraper_fields one_pass_def one)
  then show ?thesis
    by (simp add: scrapeSamples_def one_scraper_refresh [unfolded one_pass_def, simplified] Let_def scrape_batch_def collect_performance_def
        collect_operational_def one_scraper_fields one_pass_def)
qed

theorem every_database_reported_witness:
  "\<exists>e' k' row. scheduled_pass one_pass one_write 5 minute 0 ''startup'' (one_scraper, example_sink) = Some (None, e', k') \<and>
     rpLatestStatus (skRepo k') (''db'', ''scheduled'') = Some row \<and> stCollectedAt row = 5"
proof -
  obtain b summary e' where p: "scrapeSamples one_pass (Some 5) one_scraper = Some ((b, summary), e')"
    and b: "sbAdditionalMetrics b = []" "sbPerformance b = no_performance" "sbOperational b = no_operational"
      "scConfiguration e' = one_database"
      "sbScrapeStatuses b = map (\<lambda>c. newScrapeStatus 5 ''db'' c second 0
         (Some (ErrText ''database connection startup is still in progress''))) [''connectivity'', ''scheduled'']"
    using one_pass_batch by blast
  define b' where "b' = fst (doScrape (scInstanceName e') (cfgHighAvailability one_database) (length (scDatabases e'))
    ''startup'' 5 minute 0 (b, summary))"
  have b': "sbAdditionalMetrics b' = []" "sbPerformance b' = no_performance" "sbOperational b' = no_operational"
    "sbScrapeStatuses b' = sbScrapeStatuses b" by (simp_all add: b'_def doScrape_def b)
  have times: "times_ok example_server example_tables b' []"
    by (rule example_times_ok) (simp add: write_partitions_def Let_def b' b no_performance_def no_operational_def)
  have texts: "texts_ok example_tables (\<lambda>_. []) b' []"
    by (simp add: texts_ok_def batch_rows_def operational_rows_def Let_def b' b no_performance_def
        no_operational_def scrapeStatusRow_def newScrapeStatus_def newScrapeStatusWithDuration_def max_error_length_def
        byte_of_def utf8_width_def pg_count_def)
  have queue: "takePendingRuntime False t (skQueue example_sink) = ([], skQueue example_sink)" for t
    by (simp add: takePendingRuntime_def example_sink_def example_telemetry_def)
  have "\<exists>r. write_transaction example_server example_tables (\<lambda>_. []) b' [] (skRepo example_sink) = (None, r)"
    using quiet_write [OF _ _ times texts, of "skRepo example_sink"]
    by (auto simp: quiet_def example_server_def example_sink_def empty_repository_def own_partitions_def)
  then obtain r where r: "write_transaction example_server example_tables (\<lambda>_. []) b' [] (skRepo example_sink) = (None, r)" ..
  have "fst (write_to_sink one_write (cfgPostgreSQL one_database) b' example_sink) = None"
    by (simp add: write_to_sink_def one_tables one_write_def WriteSamples_def queue r split: prod.split)
  then obtain k' where "write_to_sink one_write (cfgPostgreSQL one_database) b' example_sink = (None, k')"
    by (cases "write_to_sink one_write (cfgPostgreSQL one_database) b' example_sink") simp
  then have run: "scheduled_pass one_pass one_write 5 minute 0 ''startup'' (one_scraper, example_sink) = Some (None, e', k')"
    using p by (simp add: scheduled_pass_def b(4) b'_def Let_def case_prod_beta)
  have "orders_ok (snServer one_write)"
    using example_orders [of None] by (simp add: one_write_def example_server_def)
  moreover have "rpLatestStatus (skRepo example_sink) = Map.empty"
    by (simp add: example_sink_def empty_repository_def)
  ultimately have "\<exists>row. rpLatestStatus (skRepo k') (''db'', ''scheduled'') = Some row \<and> stCollectedAt row = 5"
    using every_database_reported [OF run] by (auto simp: one_answers [unfolded answers_def] one_scraper_fields one_tables)
  with run show ?thesis by blast
qed

end
