(* ===== verification/Scheduling.thy ===== *)
theory Scheduling
  imports PassWrites Activity DeadConnection AlertLog
begin

text \<open>
  The loops that run until the process stops: the scheduled scrape (\<open>RunScheduledScrapes\<close>,
  \<open>InitializeDatabases\<close> in \<open>collector/collector.go\<close>), the activity sampling (\<open>RunActivitySampling\<close> in
  \<open>collector/activity.go\<close>), the dead connection detection (\<open>RunDeadConnectionDetection\<close> in
  \<open>collector/dead_connection_detection.go\<close>) and the alert-log export (\<open>main.go\<close>).

  A loop is a function of the list of what its \<open>select\<close> finds; every element carries what the pass it
  starts reads from outside. The Boolean of the result tells that the loop returned, \<open>False\<close> that it waits.
\<close>

section \<open>Scheduled scrapes\<close>

datatype 'e wakeup = Ticked time 'e | Requested time 'e | Stopped

text \<open>\<open>serve env tick interval missed trigger s\<close> is \<open>doScrape\<close>; \<open>None\<close> is a panic.\<close>

fun scrape_loop ::
    "('e \<Rightarrow> time \<Rightarrow> duration \<Rightarrow> int \<Rightarrow> string \<Rightarrow> 's \<Rightarrow> 's option) \<Rightarrow> duration \<Rightarrow> time \<Rightarrow> 'e wakeup list \<Rightarrow> 's \<Rightarrow>
     (bool \<times> 's) option" where
  "scrape_loop serve interval previousTick [] s = Some (False, s)"
| "scrape_loop serve interval previousTick (Ticked tick env # ws) s =
     (let missed = missedScheduledIntervals previousTick tick interval in
      case serve env tick interval missed ''ticker'' s of
        None \<Rightarrow> None
      | Some s \<Rightarrow> scrape_loop serve interval tick ws s)"
| "scrape_loop serve interval previousTick (Requested now env # ws) s =
     (case serve env now interval 0 ''startup_warmup'' s of
        None \<Rightarrow> None
      | Some s \<Rightarrow> scrape_loop serve interval previousTick ws s)"
| "scrape_loop serve interval previousTick (Stopped # ws) s = Some (True, s)"

definition serve_scrape ::
    "pass_env \<times> sink_env \<Rightarrow> time \<Rightarrow> duration \<Rightarrow> int \<Rightarrow> string \<Rightarrow> Scraper \<times> SinkState \<Rightarrow> (Scraper \<times> SinkState) option" where
  "serve_scrape env tick interval missed trigger st =
     (case scheduled_pass (fst env) (snd env) tick interval missed trigger st of
        None \<Rightarrow> None
      | Some (err, st) \<Rightarrow> Some st)"

definition RunScheduledScrapes ::
    "time \<Rightarrow> pass_env \<times> sink_env \<Rightarrow> (pass_env \<times> sink_env) wakeup list \<Rightarrow> Scraper \<times> SinkState \<Rightarrow>
     (bool \<times> Scraper \<times> SinkState) option" where
  "RunScheduledScrapes initialTick env ws st =
     (let interval = scrapeInterval (scConfiguration (fst st));
          interval = (if interval = 0 then 15 * second else interval)
      in case NewTicker interval of
           None \<Rightarrow> None
         | Some interval \<Rightarrow>
             (case serve_scrape env initialTick interval 0 ''startup'' st of
                None \<Rightarrow> None
              | Some st \<Rightarrow> scrape_loop serve_scrape interval initialTick ws st))"

section \<open>Warm-ups\<close>

text \<open>
  \<open>InitializeDatabases\<close> runs beside the scrape loop: for one database after the other it warms up the pool,
  which makes the database ready, and requests a scrape. A state holds the databases, how many of them
  are warmed up, whether the request for the last one is still to be made, the requests in the
  channel, the databases that the goroutines of the running pass have looked at (\<open>None\<close> between two
  passes), and the databases that some pass found ready.
\<close>

record boot =
  btDatabases :: "Database list"
  btWarm :: nat
  btRequesting :: bool
  btRequests :: nat
  btPass :: "nat set option"
  btSeen :: "nat set"

definition boot_start :: "Database list \<Rightarrow> boot" where
  "boot_start ds = \<lparr>btDatabases = ds, btWarm = 0, btRequesting = False, btRequests = 0, btPass = None, btSeen = {}\<rparr>"

text \<open>The steps of the two goroutines, and the critical sections of the others (which never unset readiness).\<close>

definition warm_up :: "warmup_answers \<Rightarrow> time \<Rightarrow> boot \<Rightarrow> boot" where
  "warm_up w now b = b\<lparr>btDatabases := (btDatabases b)[btWarm b :=
       snd (WarmupConnectionPool w now (btDatabases b ! btWarm b))],
     btWarm := btWarm b + 1, btRequesting := True\<rparr>"

definition request_scrape :: "boot \<Rightarrow> boot" where
  "request_scrape b = b\<lparr>btRequests := requestScheduledScrape (btRequests b), btRequesting := False\<rparr>"

definition look_at :: "nat \<Rightarrow> nat set \<Rightarrow> boot \<Rightarrow> boot" where
  "look_at i looked b = b\<lparr>btPass := Some (insert i looked),
     btSeen := (if StartupReady (btDatabases b ! i) then insert i (btSeen b) else btSeen b)\<rparr>"

inductive boot_step :: "boot \<Rightarrow> boot \<Rightarrow> bool" where
  warm: "btWarm b < length (btDatabases b) \<Longrightarrow> \<not> btRequesting b \<Longrightarrow> boot_step b (warm_up w now b)"
| request: "btRequesting b \<Longrightarrow> boot_step b (request_scrape b)"
| tick: "btPass b = None \<Longrightarrow> boot_step b (b\<lparr>btPass := Some {}\<rparr>)"
| receive: "btPass b = None \<Longrightarrow> 0 < btRequests b \<Longrightarrow>
    boot_step b (b\<lparr>btRequests := btRequests b - 1, btPass := Some {}\<rparr>)"
| look: "btPass b = Some looked \<Longrightarrow> i < length (btDatabases b) \<Longrightarrow> i \<notin> looked \<Longrightarrow> boot_step b (look_at i looked b)"
| finish: "btPass b = Some {..<length (btDatabases b)} \<Longrightarrow> boot_step b (b\<lparr>btPass := None\<rparr>)"
| other: "i < length (btDatabases b) \<Longrightarrow>
    boot_step b (b\<lparr>btDatabases := (btDatabases b)[i := run_others tas (btDatabases b ! i)]\<rparr>)"

section \<open>Activity sampling\<close>

text \<open>What the scraper keeps for the activity sampling, beside its configuration.\<close>

record activity_state =
  yDatabases :: "Database list"
  yWatermarks :: "string \<rightharpoonup> time"
  ySink :: SinkState

text \<open>What one pass reads: the answers and clock of every goroutine, and the order in which the results arrive.\<close>

record activity_env =
  aeAnswers :: "(activity_answers \<times> duration \<times> time) list"
  aeOrder :: "nat list"
  aeStarted :: time
  aeFinished :: time
  aeWrite :: sink_env

definition sample_databases ::
    "ActivityConfig \<Rightarrow> (string \<rightharpoonup> time) \<Rightarrow> time \<Rightarrow> (activity_answers \<times> duration \<times> time) list \<Rightarrow> Database list \<Rightarrow>
     (activity_result \<times> Database) list" where
  "sample_databases cfg watermarks sampledAt as ds =
     map2 (\<lambda>(a, since, now) d. sample_database cfg watermarks a sampledAt since now d) as ds"

definition sampleActivity ::
    "MetricsConfiguration \<Rightarrow> string \<Rightarrow> activity_env \<Rightarrow> time \<Rightarrow> int \<Rightarrow> string \<Rightarrow> activity_state \<Rightarrow> activity_state" where
  "sampleActivity m instanceName env sampledAt missed trigger y =
     (let cfg = perfActivity (cfgPerformance m);
          rs = sample_databases cfg (yWatermarks y) sampledAt (aeAnswers env) (yDatabases y);
          results = receive (aeOrder env) (map (\<lambda>(r, d). [r]) rs);
          (batch, summary) = activity_batch cfg (cfgHighAvailability m) instanceName (length (yDatabases y)) trigger
                               sampledAt missed (aeStarted env) (aeFinished env) results;
          (err, k) = write_to_sink (aeWrite env) (cfgPostgreSQL m) batch (ySink y)
      in \<lparr>yDatabases = map snd rs,
          yWatermarks = advance_watermarks (err = None) (take_results sampledAt results) (yWatermarks y),
          ySink = k\<rparr>)"

text \<open>\<open>None\<close> in the list is the end of the context.\<close>

fun activity_loop ::
    "('e \<Rightarrow> time \<Rightarrow> int \<Rightarrow> string \<Rightarrow> 's \<Rightarrow> 's) \<Rightarrow> duration \<Rightarrow> time \<Rightarrow> (time \<times> 'e) option list \<Rightarrow> 's \<Rightarrow> bool \<times> 's" where
  "activity_loop serve interval previousTick [] s = (False, s)"
| "activity_loop serve interval previousTick (None # ws) s = (True, s)"
| "activity_loop serve interval previousTick (Some (tick, env) # ws) s =
     (let missed = missedScheduledIntervals previousTick tick interval in
      activity_loop serve interval tick ws (serve env tick missed ''ticker'' s))"

definition RunActivitySampling ::
    "MetricsConfiguration \<Rightarrow> string \<Rightarrow> time \<Rightarrow> activity_env \<Rightarrow> (time \<times> activity_env) option list \<Rightarrow> activity_state \<Rightarrow>
     (bool \<times> activity_state) option" where
  "RunActivitySampling m instanceName initialTick env ws y =
     (let serve = sampleActivity m instanceName in
      case NewTicker (Activity_GetInterval (perfActivity (cfgPerformance m))) of
        None \<Rightarrow> None
      | Some interval \<Rightarrow>
          Some (activity_loop serve interval initialTick ws (serve env initialTick 0 ''startup'' y)))"

section \<open>Dead connection detection\<close>

text \<open>
  The state is the databases and the sink. An element of the list is an instant at which the loop looks at
  its channels: the timer has fired if it was due by then; \<open>deWriting\<close> is the time from the end of the
  collection to the reset of the timer, which comes after the write to the sink; \<open>deCancelled\<close> tells what
  \<open>ctx.Err\<close> answers after the pass.
\<close>

record dcd_env =
  deStarted :: time
  deFinished :: time
  deProbes :: "probe_env list"
  deWrite :: sink_env
  deWriting :: nat
  deCancelled :: bool

definition serve_detection ::
    "MetricsConfiguration \<Rightarrow> string \<Rightarrow> dcd_env \<Rightarrow> time \<Rightarrow> Database list \<times> SinkState \<Rightarrow> Database list \<times> SinkState" where
  "serve_detection m instanceName env scheduledAt = (\<lambda>(ds, k).
     (case runDeadConnectionDetection (mcDeadConnectionDetection (cfgMetrics m)) (cfgHighAvailability m) instanceName
             scheduledAt (deStarted env) (deFinished env) (zip (deProbes env) ds) of
        (None, ds) \<Rightarrow> (ds, k)
      | (Some (batch, summary), ds) \<Rightarrow> (ds, snd (write_to_sink (deWrite env) (cfgPostgreSQL m) batch k))))"

definition deCompleted :: "dcd_env \<Rightarrow> time" where
  "deCompleted env = time_add (deFinished env) (int (deWriting env))"

fun detection_loop ::
    "(dcd_env \<Rightarrow> time \<Rightarrow> 's \<Rightarrow> 's) \<Rightarrow> duration \<Rightarrow> time \<Rightarrow> (time \<times> dcd_env) option list \<Rightarrow> 's \<Rightarrow> bool \<times> 's" where
  "detection_loop serve interval due [] s = (False, s)"
| "detection_loop serve interval due (None # ws) s = (True, s)"
| "detection_loop serve interval due (Some (now, env) # ws) s =
     (if now < due then detection_loop serve interval due ws s
      else let s = serve env now s in
           if deCancelled env then (True, s)
           else detection_loop serve interval (time_add (deCompleted env) interval) ws s)"

definition RunDeadConnectionDetection ::
    "MetricsConfiguration \<Rightarrow> string \<Rightarrow> time \<Rightarrow> (time \<times> dcd_env) option list \<Rightarrow> Database list \<times> SinkState \<Rightarrow>
     bool \<times> Database list \<times> SinkState" where
  "RunDeadConnectionDetection m instanceName now ws s =
     (let config = mcDeadConnectionDetection (cfgMetrics m) in
      if \<not> DCD_GetEnabled config then (True, s)
      else detection_loop (serve_detection m instanceName) (DCD_GetInterval config)
             (time_add now (DCD_GetInterval config)) ws s)"

section \<open>Alert-log export\<close>

text \<open>One tick: \<open>UpdateLog\<close> for every database, in the order of the configuration.\<close>

definition update_logs ::
    "MetricsConfiguration \<Rightarrow> (update_env \<times> Database) list \<Rightarrow> files \<times> retryTracker \<Rightarrow> files \<times> retryTracker" where
  "update_logs m eds s =
     foldl (\<lambda>s (env, d). UpdateLog env (LogDestination m) (LogPerDatabaseFiles m) d s) s eds"

fun alert_log_loop ::
    "MetricsConfiguration \<Rightarrow> (update_env \<times> Database) list option list \<Rightarrow> files \<times> retryTracker \<Rightarrow>
     bool \<times> files \<times> retryTracker" where
  "alert_log_loop m [] s = (False, s)"
| "alert_log_loop m (None # ws) s = (True, s)"
| "alert_log_loop m (Some eds # ws) s = alert_log_loop m ws (update_logs m eds s)"

definition run_alert_log ::
    "MetricsConfiguration \<Rightarrow> (update_env \<times> Database) list option list \<Rightarrow> files \<times> retryTracker \<Rightarrow>
     (bool \<times> files \<times> retryTracker) option" where
  "run_alert_log m ws s =
     (if LogDisable m = Some 1 then Some (True, s)
      else case alert_log_ticker m of None \<Rightarrow> None | Some interval \<Rightarrow> Some (alert_log_loop m ws s))"

section \<open>What the loops serve\<close>

text \<open>The passes that a list of wake-ups leads to, as a list, and what serving them does.\<close>

fun cycles :: "duration \<Rightarrow> time \<Rightarrow> 'e wakeup list \<Rightarrow> ('e \<times> time \<times> int \<times> string) list" where
  "cycles interval previousTick [] = []"
| "cycles interval previousTick (Ticked tick env # ws) =
     (env, tick, missedScheduledIntervals previousTick tick interval, ''ticker'') # cycles interval tick ws"
| "cycles interval previousTick (Requested now env # ws) =
     (env, now, 0, ''startup_warmup'') # cycles interval previousTick ws"
| "cycles interval previousTick (Stopped # ws) = []"

fun serve_all ::
    "('e \<Rightarrow> time \<Rightarrow> duration \<Rightarrow> int \<Rightarrow> string \<Rightarrow> 's \<Rightarrow> 's option) \<Rightarrow> duration \<Rightarrow>
     ('e \<times> time \<times> int \<times> string) list \<Rightarrow> 's \<Rightarrow> 's option" where
  "serve_all serve interval [] s = Some s"
| "serve_all serve interval ((env, tick, missed, trigger) # cs) s =
     (case serve env tick interval missed trigger s of None \<Rightarrow> None | Some s \<Rightarrow> serve_all serve interval cs s)"

lemma scrape_loop_serves:
  "scrape_loop serve interval previousTick ws s =
     map_option (Pair (Stopped \<in> set ws)) (serve_all serve interval (cycles interval previousTick ws) s)"
  by (induction serve interval previousTick ws s rule: scrape_loop.induct) (auto split: option.splits)

text \<open>The activity loop is the scrape loop without requests and panics.\<close>

definition activity_wakeups :: "(time \<times> 'e) option list \<Rightarrow> 'e wakeup list" where
  "activity_wakeups ws = map (\<lambda>w. case w of None \<Rightarrow> Stopped | Some (tick, env) \<Rightarrow> Ticked tick env) ws"

lemma activity_loop_serves:
  "Some (activity_loop serve interval previousTick ws s) =
     scrape_loop (\<lambda>env tick i missed trigger s. Some (serve env tick missed trigger s)) interval previousTick
       (activity_wakeups ws) s"
  by (induction serve interval previousTick ws s rule: activity_loop.induct) (auto simp: activity_wakeups_def)

text \<open>The instants of the ticks that are served.\<close>

fun ticks :: "'e wakeup list \<Rightarrow> time list" where
  "ticks [] = []"
| "ticks (Ticked tick env # ws) = tick # ticks ws"
| "ticks (Requested now env # ws) = ticks ws"
| "ticks (Stopped # ws) = []"

definition accounted :: "('e \<times> time \<times> int \<times> string) list \<Rightarrow> int" where
  "accounted cs = sum_list (map (\<lambda>(env, tick, missed, trigger). if trigger = ''ticker'' then 1 + missed else 0) cs)"

lemma accounted_simps [simp]:
  "accounted [] = 0"
  "accounted ((env, tick, missed, ''ticker'') # cs) = 1 + missed + accounted cs"
  "accounted ((env, tick, missed, ''startup_warmup'') # cs) = accounted cs"
  by (simp_all add: accounted_def)

lemma missed_between_ticks:
  assumes "0 < interval" and "j < k" and "base + int j * interval \<noteq> 0" and "int (k - j) * interval \<le> max_int64"
  shows "missedScheduledIntervals (base + int j * interval) (base + int k * interval) interval = int (k - j) - 1"
proof -
  have d: "base + int k * interval - (base + int j * interval) = int (k - j) * interval"
    using assms(2) by (simp add: of_nat_diff left_diff_distrib)
  have pos: "0 < int (k - j) * interval" using assms(1,2) by simp
  have "in_int64 (int (k - j) * interval)"
    using assms(4) pos unfolding int64_bounds_defs by linarith
  then have "time_sub (base + int k * interval) (base + int j * interval) = int (k - j) * interval"
    unfolding time_sub_def d by (rule sat64_id)
  moreover have "int (k - j) * interval sdiv interval = int (k - j)"
    using assms(1) pos by (simp add: sdiv_nonneg)
  moreover have "time_after (base + int k * interval) (base + int j * interval)"
    unfolding time_after_def using d pos by linarith
  ultimately show ?thesis
    using assms(1-3) by (auto simp: missedScheduledIntervals_def is_zero_time_def Let_def)
qed

lemma accounted_from:
  assumes "0 < interval" and "sorted_wrt (<) (j # ks)" and "ticks ws = map (\<lambda>k. base + int k * interval) ks"
    and "0 < base" and "int (last (j # ks)) * interval \<le> max_int64"
  shows "int j + accounted (cycles interval (base + int j * interval) ws) = int (last (j # ks))"
  using assms(2,3,5)
proof (induction ws arbitrary: j ks)
  case (Cons w ws)
  show ?case
  proof (cases w)
    case (Ticked tick env)
    then obtain k ks' where ks: "ks = k # ks'" "tick = base + int k * interval"
      "ticks ws = map (\<lambda>k. base + int k * interval) ks'" using Cons.prems(2) by (cases ks) auto
    have jk: "j < k" "sorted_wrt (<) (k # ks')" using Cons.prems(1) by (auto simp: ks)
    have "k \<le> last (k # ks')" using jk(2) by (cases ks') (auto intro: less_imp_le)
    then have "int (k - j) * interval \<le> int (last (k # ks')) * interval"
      using assms(1) by (intro mult_right_mono) auto
    also have "\<dots> \<le> max_int64" using Cons.prems(3) by (simp add: ks(1))
    finally have "int (k - j) * interval \<le> max_int64" .
    moreover have "0 \<le> int j * interval" using assms(1) by simp
    then have "base + int j * interval \<noteq> 0" using assms(4) by linarith
    ultimately have "missedScheduledIntervals (base + int j * interval) tick interval = int (k - j) - 1"
      unfolding ks(2) by (intro missed_between_ticks [OF assms(1) jk(1)])
    moreover have "int k + accounted (cycles interval tick ws) = int (last (k # ks'))"
      using Cons.IH [OF jk(2) ks(3)] Cons.prems(3) by (simp add: ks)
    ultimately show ?thesis using jk(1) by (simp add: Ticked ks of_nat_diff)
  next
    case (Requested now env)
    then show ?thesis using Cons by simp
  next
    case Stopped
    then show ?thesis using Cons.prems by simp
  qed
qed simp

lemma accounted_cycles:
  assumes "0 < interval" and "0 < base" and "base \<le> start" and "start < base + interval"
    and "ticks ws = map (\<lambda>k. base + int k * interval) ks" and "sorted_wrt (<) ks" and "ks \<noteq> []" and "hd ks = 1"
    and "int (last ks) * interval \<le> max_int64"
  shows "accounted (cycles interval start ws) = int (last ks)"
  using assms(5-9)
proof (induction ws)
  case (Cons w ws)
  show ?case
  proof (cases w)
    case (Ticked tick env)
    then obtain ks' where ks: "ks = 1 # ks'" "tick = base + interval"
      "ticks ws = map (\<lambda>k. base + int k * interval) ks'" using Cons.prems(1,3,4) by (cases ks) auto
    have "time_sub tick start = tick - start" "0 < tick - start" "tick - start \<le> interval"
    proof -
      have "1 \<le> last ks" using Cons.prems(2) by (cases ks') (auto simp: ks intro: less_imp_le)
      then have "interval \<le> int (last ks) * interval" using assms(1) by simp
      then have "in_int64 (tick - start)"
        using assms(1,3,4) Cons.prems(5) unfolding ks(2) int64_bounds_defs by linarith
      then show "time_sub tick start = tick - start" unfolding time_sub_def by (rule sat64_id)
    qed (use ks assms in auto)
    then have "time_sub tick start sdiv interval \<le> 1"
      using assms(1) zdiv_mono1 [of "tick - start" interval interval] by (simp add: sdiv_nonneg)
    then have "missedScheduledIntervals start tick interval = 0" by (simp add: missedScheduledIntervals_def Let_def)
    moreover have "int 1 + accounted (cycles interval (base + int 1 * interval) ws) = int (last (1 # ks'))"
      by (rule accounted_from [OF assms(1) _ ks(3) assms(2)]) (use Cons.prems ks in auto)
    ultimately show ?thesis by (simp add: Ticked ks)
  next
    case (Requested now env)
    then show ?thesis using Cons by simp
  next
    case Stopped
    then show ?thesis using Cons.prems by simp
  qed
qed simp

text \<open>
  What the passes report: the runtime sample that each hands to the sink with its batch. Its number of missed
  intervals is the loop's, or the full intervals that the pass began after its tick where that is more.
\<close>

definition pass_runtime :: "pass_env \<Rightarrow> time \<Rightarrow> duration \<Rightarrow> int \<Rightarrow> string \<Rightarrow> Scraper \<Rightarrow> RuntimeSample option" where
  "pass_runtime env tick interval missed trigger e =
     (case scrapeSamples env (Some tick) e of
        None \<Rightarrow> None
      | Some (bs, e) \<Rightarrow> sbRuntime (fst (doScrape (scInstanceName e) (cfgHighAvailability (scConfiguration e))
                           (length (scDatabases e)) trigger tick interval missed bs)))"

fun scrape_runtimes ::
    "duration \<Rightarrow> ((pass_env \<times> sink_env) \<times> time \<times> int \<times> string) list \<Rightarrow> Scraper \<times> SinkState \<Rightarrow> RuntimeSample list" where
  "scrape_runtimes interval [] st = []"
| "scrape_runtimes interval ((env, tick, missed, trigger) # cs) st =
     (case (pass_runtime (fst env) tick interval missed trigger (fst st),
            serve_scrape env tick interval missed trigger st) of
        (Some r, Some st) \<Rightarrow> r # scrape_runtimes interval cs st
      | _ \<Rightarrow> [])"

definition reported :: "RuntimeSample list \<Rightarrow> int" where
  "reported rs = sum_list (map (\<lambda>r. if rtTrigger r = ''ticker'' then 1 + rtMissedIntervals r else 0) rs)"

definition delayed :: "pass_env \<Rightarrow> time \<Rightarrow> duration \<Rightarrow> int" where
  "delayed env tick interval = nonNegativeDuration (time_sub (paBegun env) tick) sdiv interval"

lemma pass_runtime_missed:
  assumes "0 < interval" and "scrapeSamples env (Some tick) e = Some (bs, e')"
  shows "\<exists>r. pass_runtime env tick interval missed trigger e = Some r \<and> rtTrigger r = trigger \<and>
    rtMissedIntervals r = max missed (delayed env tick interval)"
proof -
  have "ssStartedAt (snd bs) = paBegun env"
    using assms(2) by (auto simp: scrapeSamples_def Let_def scrape_batch_def split: option.splits)
  then show ?thesis
    using assms by (cases bs) (simp add: pass_runtime_def doScrape_def newRuntimeSample_def Let_def delayed_def nonNegativeDuration_def)
qed

lemma delayed_on_time: "0 < interval \<Longrightarrow> paBegun env < tick + interval \<Longrightarrow> delayed env tick interval = 0"
  unfolding delayed_def nonNegativeDuration_def time_sub_def sat64_def int64_bounds_defs by (auto simp: sdiv_nonneg)

lemma cycles_missed: "(env, tick, missed, trigger) \<in> set (cycles interval previousTick ws) \<Longrightarrow> 0 \<le> missed"
  by (induction interval previousTick ws rule: cycles.induct) (auto simp: missedScheduledIntervals_def Let_def)

lemma reported_cycles:
  assumes "0 < interval" and "\<forall>(env, tick, missed, trigger) \<in> set cs. 0 \<le> missed"
    and "serve_all serve_scrape interval cs st = Some st'"
  shows "length (scrape_runtimes interval cs st) = length cs \<and> accounted cs \<le> reported (scrape_runtimes interval cs st) \<and>
    ((\<forall>(env, tick, missed, trigger) \<in> set cs. trigger = ''ticker'' \<longrightarrow> paBegun (fst env) < tick + interval) \<longrightarrow>
       reported (scrape_runtimes interval cs st) = accounted cs)"
  using assms(2,3)
proof (induction cs arbitrary: st)
  case (Cons c cs)
  obtain env tick missed trigger where c: "c = (env, tick, missed, trigger)" by (metis prod.exhaust)
  obtain st1 where st1: "serve_scrape env tick interval missed trigger st = Some st1"
    "serve_all serve_scrape interval cs st1 = Some st'" using Cons.prems(2) by (auto simp: c split: option.splits)
  then obtain bs e' where "scrapeSamples (fst env) (Some tick) (fst st) = Some (bs, e')"
    by (cases st) (auto simp: serve_scrape_def scheduled_pass_def Let_def split: option.splits)
  from pass_runtime_missed [OF assms(1) this]
  obtain r where r: "pass_runtime (fst env) tick interval missed trigger (fst st) = Some r" "rtTrigger r = trigger"
    "rtMissedIntervals r = max missed (delayed (fst env) tick interval)" by blast
  note ih = Cons.IH [OF _ st1(2)]
  have m: "0 \<le> missed" using Cons.prems(1) by (simp add: c)
  show ?case
    using ih Cons.prems(1) m r st1(1) delayed_on_time [OF assms(1), of "fst env" tick]
    by (auto simp: c reported_def accounted_def)
qed (simp add: reported_def accounted_def)

text \<open>
  C16: no scheduled interval is unaccounted for. The loop makes its passes one after the other, one for every
  tick and request until it is stopped. Over the ticks it serves (scheduled instants, exact multiples of
  the interval; the first is the first one, later ones may be dropped while a pass runs) the passes and the
  missed intervals that their runtime samples report add up to at least the intervals that have elapsed,
  and to exactly those when every pass begins less than an interval after its tick. Requested scrapes in between
  neither add nor hide one. Without that condition the sum can be larger: a tick that waited for a slow pass
  reports the intervals it waited, and the next tick reports the same ones as missed.
\<close>
theorem intervals_accounted:
  assumes "0 < interval" and "0 < base" and "base \<le> start" and "start < base + interval"
    and "ticks ws = map (\<lambda>k. base + int k * interval) ks" and "sorted_wrt (<) ks" and "ks \<noteq> []" and "hd ks = 1"
    and "int (last ks) * interval \<le> max_int64"
    and "scrape_loop serve_scrape interval start ws st = Some (stopped, st')"
  shows "let cs = cycles interval start ws; rs = scrape_runtimes interval cs st in
    stopped = (Stopped \<in> set ws) \<and> serve_all serve_scrape interval cs st = Some st' \<and> length rs = length cs \<and>
    int (last ks) \<le> reported rs \<and>
    ((\<forall>(env, tick, missed, trigger) \<in> set cs. trigger = ''ticker'' \<longrightarrow> paBegun (fst env) < tick + interval) \<longrightarrow>
       reported rs = int (last ks))"
proof -
  have run: "stopped = (Stopped \<in> set ws)" "serve_all serve_scrape interval (cycles interval start ws) st = Some st'"
    using assms(10) by (auto simp: scrape_loop_serves)
  have "\<forall>(env, tick, missed, trigger) \<in> set (cycles interval start ws). 0 \<le> missed" using cycles_missed by fast
  from reported_cycles [OF assms(1) this run(2)] show ?thesis
    using run accounted_cycles [OF assms(1-9)] by (simp add: Let_def)
qed

text \<open>A pass over the database of the example, which is not started yet, leaves the scraper as it is.\<close>

definition pass_at :: "time \<Rightarrow> pass_env \<times> sink_env" where
  "pass_at t = (one_pass\<lparr>paBegun := t\<rparr>, one_write)"

lemma one_pass_again: "\<exists>bs. scrapeSamples (fst (pass_at b)) (Some t) one_scraper = Some (bs, one_scraper)"
proof -
  obtain ps where ps: "scDatabases one_scraper = [ps]" "\<not> StartupReady (psDatabase ps)"
    by (simp add: one_scraper_fields StartupReady_def new_pass_state_def NewDatabase_def)
  have "one_scraper\<lparr>scDatabases := [ps]\<rparr> = one_scraper" by (simp add: ps(1) [symmetric])
  moreover have "\<exists>o1. scrapeDatabaseSamples env cfg tick ms ps = Some (o1, ps)" for env cfg tick ms
    using ps(2) by (simp add: scrapeDatabaseSamples_def Let_def)
  then obtain o1 where "scrapeDatabaseSamples quiet_env (scraper_config_of one_scraper) (Some t) [] ps = Some (o1, ps)" by blast
  moreover have "refresh_scraper (paFiles (fst (pass_at b))) one_scraper = Some one_scraper"
    using one_scraper_refresh by (simp add: pass_at_def)
  moreover have "paDatabases (fst (pass_at b)) = [(quiet_env, \<lambda>_. [])]" by (simp add: pass_at_def one_pass_def)
  ultimately show ?thesis by (simp add: scrapeSamples_def scrape_databases_def ps(1) Let_def)
qed

lemma serve_again: "\<exists>k'. serve_scrape (pass_at b) t interval missed trigger (one_scraper, k) = Some (one_scraper, k')"
  using one_pass_again [of b t]
  by (auto simp: serve_scrape_def scheduled_pass_def Let_def split: prod.splits)

text \<open>Two ticks, the second and third dropped while the first pass runs, and a requested scrape in between.\<close>

definition two_ticks :: "time \<Rightarrow> (pass_env \<times> sink_env) wakeup list" where
  "two_ticks begun = [Ticked (50 + second) (pass_at begun), Requested (50 + 3 * second) (pass_at (50 + 3 * second)),
     Ticked (50 + 4 * second) (pass_at (50 + 4 * second))]"

lemma two_ticks_served:
  "\<exists>k'. scrape_loop serve_scrape second 100 (two_ticks begun) (one_scraper, k) = Some (False, one_scraper, k')"
proof -
  obtain k1 where k1: "serve_scrape (pass_at begun) (50 + second) second
      (missedScheduledIntervals 100 (50 + second) second) ''ticker'' (one_scraper, k) = Some (one_scraper, k1)"
    using serve_again by blast
  obtain k2 where k2: "serve_scrape (pass_at (50 + 3 * second)) (50 + 3 * second) second 0 ''startup_warmup'' (one_scraper, k1) =
      Some (one_scraper, k2)" using serve_again by blast
  obtain k3 where k3: "serve_scrape (pass_at (50 + 4 * second)) (50 + 4 * second) second
      (missedScheduledIntervals (50 + second) (50 + 4 * second) second) ''ticker'' (one_scraper, k2) = Some (one_scraper, k3)"
    using serve_again by blast
  show ?thesis using k1 k2 k3 by (simp add: two_ticks_def Let_def)
qed

lemma intervals_accounted_witness:
  "reported (scrape_runtimes second (cycles second 100 (two_ticks (50 + second))) (one_scraper, example_sink)) = 4"
proof -
  obtain k' where k': "scrape_loop serve_scrape second 100 (two_ticks (50 + second)) (one_scraper, example_sink) =
      Some (False, one_scraper, k')" using two_ticks_served by blast
  from intervals_accounted [OF _ _ _ _ _ _ _ _ _ k', of 50 "[1, 4]"] show ?thesis
    by (simp add: two_ticks_def Let_def pass_at_def max_int64_def)
qed

text \<open>
  When the first pass begins three intervals late it reports three missed intervals, and the next
  tick reports two of the same again: seven intervals are accounted for where four have elapsed.
\<close>
lemma late_tick_counted_twice:
  "reported (scrape_runtimes second (cycles second 100 (two_ticks (50 + 4 * second))) (one_scraper, example_sink)) = 7"
proof -
  have p: "\<exists>r. pass_runtime (fst (pass_at b)) t second m tr one_scraper = Some r \<and> rtTrigger r = tr \<and>
      rtMissedIntervals r = max m (delayed (fst (pass_at b)) t second)" for b t m tr
    using one_pass_again [of b t] pass_runtime_missed [of second "fst (pass_at b)" t one_scraper] by fastforce
  define m1 where "m1 = missedScheduledIntervals 100 (50 + second) second"
  define m3 where "m3 = missedScheduledIntervals (50 + second) (50 + 4 * second) second"
  have m: "m1 = 0" "m3 = 2"
    by (simp_all add: m1_def m3_def missedScheduledIntervals_def is_zero_time_def time_after_def time_sub_def sat64_def
        int64_bounds_defs sdiv_nonneg Let_def)
  have d: "delayed (fst (pass_at (50 + 4 * second))) (50 + second) second = 3"
    "delayed (fst (pass_at (50 + 4 * second))) (50 + 4 * second) second = 0"
    by (simp_all add: delayed_def pass_at_def nonNegativeDuration_def time_sub_def sat64_def int64_bounds_defs sdiv_nonneg)
  obtain r1 where r1: "pass_runtime (fst (pass_at (50 + 4 * second))) (50 + second) second m1 ''ticker'' one_scraper = Some r1"
    "rtTrigger r1 = ''ticker''" "rtMissedIntervals r1 = 3" using p m(1) d(1) by force
  obtain r2 where r2: "pass_runtime (fst (pass_at (50 + 3 * second))) (50 + 3 * second) second 0 ''startup_warmup'' one_scraper = Some r2"
    "rtTrigger r2 = ''startup_warmup''" using p by blast
  obtain r3 where r3: "pass_runtime (fst (pass_at (50 + 4 * second))) (50 + 4 * second) second m3 ''ticker'' one_scraper = Some r3"
    "rtTrigger r3 = ''ticker''" "rtMissedIntervals r3 = 2" using p m(2) d(2) by force
  obtain k1 where k1: "serve_scrape (pass_at (50 + 4 * second)) (50 + second) second m1 ''ticker'' (one_scraper, example_sink) =
      Some (one_scraper, k1)" using serve_again by blast
  obtain k2 where k2: "serve_scrape (pass_at (50 + 3 * second)) (50 + 3 * second) second 0 ''startup_warmup'' (one_scraper, k1) =
      Some (one_scraper, k2)" using serve_again by blast
  obtain k3 where k3: "serve_scrape (pass_at (50 + 4 * second)) (50 + 4 * second) second m3 ''ticker'' (one_scraper, k2) =
      Some (one_scraper, k3)" using serve_again by blast
  have "scrape_runtimes second (cycles second 100 (two_ticks (50 + 4 * second))) (one_scraper, example_sink) = [r1, r2, r3]"
    by (simp only: two_ticks_def cycles.simps Let_def m1_def [symmetric] m3_def [symmetric] scrape_runtimes.simps
        r1(1) r2(1) r3(1) k1 k2 k3 fst_conv prod.case option.case)
  then show ?thesis using r1 r2 r3 by (simp add: reported_def)
qed

section \<open>Warm-ups are not lost\<close>

lemma run_others_ready: "StartupReady d \<Longrightarrow> StartupReady (run_others tas d)"
proof (induction tas arbitrary: d)
  case (Cons ta tas)
  have "StartupReady (do_action t a d)" if "StartupReady d" for t a d
    using that by (cases a) (auto simp: StartupReady_def setUp_def quarantine_def activate_def suspendActivity_def
        resumeActivity_def beginProbe_def finishProbe_def Let_def split: option.splits)
  with Cons show ?case by (cases ta) (simp add: run_others_def)
qed (simp add: run_others_def)

lemma warmed_ready: "StartupReady (snd (WarmupConnectionPool w now d))"
  by (simp add: WarmupConnectionPool_def StartupReady_def Let_def split: option.splits)

text \<open>A database that is warmed up was seen by a pass, or a pass that has yet to look at it is running or is
  certain to come.\<close>

definition noticed :: "nat \<Rightarrow> boot \<Rightarrow> bool" where
  "noticed i b \<longleftrightarrow> i \<in> btSeen b \<or> btRequesting b \<or> 0 < btRequests b \<or> (\<exists>looked. btPass b = Some looked \<and> i \<notin> looked)"

definition boot_inv :: "nat \<Rightarrow> boot \<Rightarrow> bool" where
  "boot_inv n b \<longleftrightarrow> length (btDatabases b) = n \<and> btWarm b \<le> n \<and> btRequests b \<le> 1 \<and> btSeen b \<subseteq> {..<n} \<and>
     (\<forall>i < btWarm b. StartupReady (btDatabases b ! i) \<and> noticed i b)"

interpretation boot: invariant_machine "\<lambda>b. \<exists>ds. length ds = n \<and> b = boot_start ds" boot_step "boot_inv n" for n
proof
  show "\<exists>ds. length ds = n \<and> b = boot_start ds \<Longrightarrow> boot_inv n b" for b
    by (auto simp: boot_inv_def boot_start_def)
  show "boot_inv n b'" if "boot_step b b'" and inv: "boot_inv n b" for b b'
    using that(1)
  proof (cases rule: boot_step.cases)
    case (warm w now)
    have "StartupReady (btDatabases (warm_up w now b) ! i)" if "i < btWarm b + 1" for i
      using that inv warm(2) warmed_ready by (cases "i = btWarm b") (auto simp: warm_up_def boot_inv_def)
    then show ?thesis using inv warm by (simp add: boot_inv_def warm_up_def noticed_def)
  next
    case request
    then show ?thesis using inv
      by (auto simp: boot_inv_def request_scrape_def noticed_def requestScheduledScrape_def)
  next
    case tick
    then show ?thesis using inv by (auto simp: boot_inv_def noticed_def)
  next
    case receive
    then show ?thesis using inv by (auto simp: boot_inv_def noticed_def)
  next
    case (look looked i)
    then show ?thesis using inv by (auto simp: boot_inv_def noticed_def look_at_def)
  next
    case finish
    then show ?thesis using inv by (auto simp: boot_inv_def noticed_def)
  next
    case (other i tas)
    have "StartupReady ((btDatabases b)[i := run_others tas (btDatabases b ! i)] ! j)" if "j < btWarm b" for j
      using that inv other run_others_ready by (cases "j = i") (auto simp: boot_inv_def)
    then show ?thesis using inv other by (auto simp: boot_inv_def noticed_def)
  qed
qed

text \<open>
  C8: no warm-up is lost. In every interleaving of the warm-ups, their non-blocking requests on the channel
  of capacity one and the passes of the scrape loop, at most one request waits, and a database that is
  warmed up was found ready by some pass unless such a pass is running, requested or about to be; once the
  warm-ups are over and nothing is pending, every database has been found ready by a pass.
\<close>
theorem no_warmup_lost:
  assumes "boot_step\<^sup>*\<^sup>* (boot_start ds) b"
  shows "btRequests b \<le> 1 \<and>
    list_all (\<lambda>i. i \<in> btSeen b \<or> btRequesting b \<or> 0 < btRequests b \<or> (\<exists>looked. btPass b = Some looked \<and> i \<notin> looked))
      [0..<btWarm b] \<and>
    (if btWarm b = length ds \<and> \<not> btRequesting b \<and> btRequests b = 0 \<and> btPass b = None
     then btSeen b = {..<length ds} else btSeen b \<subseteq> {..<length ds})"
proof -
  have inv: "boot_inv (length ds) b" by (rule boot.reachable_inv [OF _ assms]) auto
  then show ?thesis by (auto simp: boot_inv_def noticed_def list_all_iff)
qed

theorem no_warmup_lost_witness:
  "\<exists>b. boot_step\<^sup>*\<^sup>* (boot_start [example_database]) b \<and> btWarm b = 1 \<and> btRequests b = 0 \<and> btSeen b = {..<1}"
proof -
  define b1 where "b1 = warm_up \<lparr>waPing = None, waConn = (\<lambda>_. None)\<rparr> 5 (boot_start [example_database])"
  define b2 where "b2 = request_scrape b1"
  define b3 where "b3 = b2\<lparr>btRequests := btRequests b2 - 1, btPass := Some {}\<rparr>"
  define b4 where "b4 = look_at 0 {} b3"
  define b5 where "b5 = b4\<lparr>btPass := None\<rparr>"
  note defs = b1_def b2_def b3_def b4_def b5_def boot_start_def warm_up_def request_scrape_def look_at_def
    requestScheduledScrape_def
  have s1: "boot_step (boot_start [example_database]) b1" unfolding b1_def by (rule boot_step.warm) (simp_all add: boot_start_def)
  have s2: "boot_step b1 b2" unfolding b2_def by (rule boot_step.request) (simp add: defs)
  have s3: "boot_step b2 b3" unfolding b3_def by (rule boot_step.receive) (simp_all add: defs)
  have s4: "boot_step b3 b4" unfolding b4_def by (rule boot_step.look) (simp_all add: defs)
  have s5: "boot_step b4 b5" unfolding b5_def by (rule boot_step.finish) (auto simp: defs)
  have run: "boot_step\<^sup>*\<^sup>* (boot_start [example_database]) b5"
    using s1 s2 s3 s4 s5 by (simp only: rtranclp.rtrancl_refl converse_rtranclp_into_rtranclp)
  have "btWarm b5 = 1 \<and> \<not> btRequesting b5 \<and> btRequests b5 = 0 \<and> btPass b5 = None" by (simp add: defs)
  with no_warmup_lost [OF run] run show ?thesis by auto
qed

section \<open>Probes are spaced\<close>

text \<open>The passes that the detection makes, with their starts.\<close>

fun detections :: "duration \<Rightarrow> time \<Rightarrow> (time \<times> dcd_env) option list \<Rightarrow> (time \<times> dcd_env) list" where
  "detections interval due [] = []"
| "detections interval due (None # ws) = []"
| "detections interval due (Some (now, env) # ws) =
     (if now < due then detections interval due ws
      else (now, env) # (if deCancelled env then [] else detections interval (time_add (deCompleted env) interval) ws))"

lemma detection_loop_serves:
  "snd (detection_loop serve interval due ws s) = fold (\<lambda>(now, env). serve env now) (detections interval due ws) s"
  by (induction serve interval due ws s rule: detection_loop.induct) (auto simp: Let_def)

lemma detections_due: "detections interval due ws = (now, env) # rest \<Longrightarrow> due \<le> now"
  by (induction interval due ws rule: detections.induct) (auto split: if_splits)

lemma detections_successive:
  "successively (\<lambda>(now, env) (now', env'). deFinished env + int (deWriting env) + interval \<le> now')
     (detections interval due ws)"
proof (induction interval due ws rule: detections.induct)
  case (3 interval due now env ws)
  show ?case
  proof (cases "now < due \<or> deCancelled env")
    case True
    then show ?thesis using 3 by auto
  next
    case False
    then show ?thesis
      using 3(2) detections_due [of interval "deFinished env + int (deWriting env) + interval" ws]
      by (cases "detections interval (deFinished env + int (deWriting env) + interval) ws")
        (auto simp: successively_Cons time_add_def deCompleted_def)
  qed
qed simp_all

text \<open>
  C34: the detection never makes a burst of connection attempts. It runs one pass after the other, the first
  no sooner than an interval after its start, and every later one at least an interval after the
  completion of the one before (its write to the sink included), however long that took; when it is disabled
  it makes none.
\<close>
theorem detections_spaced:
  "(let config = mcDeadConnectionDetection (cfgMetrics m);
        interval = DCD_GetInterval config;
        ps = (if DCD_GetEnabled config then detections interval (start + interval) ws else [])
    in snd (RunDeadConnectionDetection m instanceName start ws s) =
         fold (\<lambda>(now, env). serve_detection m instanceName env now) ps s \<and>
       successively (\<lambda>(now, env) (now', env'). deFinished env + int (deWriting env) + interval \<le> now') ps \<and>
       (case ps of [] \<Rightarrow> True | (now, env) # _ \<Rightarrow> start + interval \<le> now))"
  by (auto simp: RunDeadConnectionDetection_def Let_def detection_loop_serves detections_successive time_add_def
      split: list.split dest: detections_due)

end
