(* ===== verification/SinkViews.thy ===== *)
theory SinkViews
  imports SinkWrites Operational
begin

text \<open>
  The views that the schema creates over the tables (\<open>postgresql/postgresql.go\<close>: \<open>Migrate\<close>,
  \<open>operationalSchemaDDL\<close>, \<open>dataGuardSchemaDDL\<close>), as functions of the rows: the SQL samples enriched with
  what is known of their cursors, the samples of the latest collection, and the rates of the counters.
  The rows of a table are in the order of its columns.
\<close>

section \<open>The latest samples\<close>

text \<open>
  The join of a sample with the latest status of a collector: the two columns in its condition are the
  primary key of the status table, so it has at most one match; a null column never matches.
\<close>

definition join_status :: "string \<Rightarrow> latest_statuses \<Rightarrow> pg_value list \<Rightarrow> ScrapeStatusSample list" where
  "join_status collector statuses row =
     (case row of
        PgTime t # PgText db # values \<Rightarrow>
          (case statuses (db, collector) of
             None \<Rightarrow> []
           | Some status \<Rightarrow> if stCollectedAt status = t then [status] else [])
      | _ \<Rightarrow> [])"

text \<open>\<open>where samples.collected_at >= current_timestamp - interval '1 day'\<close>\<close>

definition within_day :: "time \<Rightarrow> pg_value list \<Rightarrow> bool" where
  "within_day now row = (case row_time row of None \<Rightarrow> False | Some t \<Rightarrow> now - day_ns \<le> t)"

definition latest_samples ::
    "string \<Rightarrow> time \<Rightarrow> latest_statuses \<Rightarrow> pg_value list list \<Rightarrow> pg_value list list" where
  "latest_samples collector now statuses rows =
     concat (map (\<lambda>row. map (\<lambda>status. row) (join_status collector statuses row)) (filter (within_day now) rows))"

definition latest_tablespaces :: "SinkTables \<Rightarrow> time \<Rightarrow> Repository \<Rightarrow> pg_value list list" where
  "latest_tablespaces tb now r =
     latest_samples ''operational.tablespaces'' now (rpLatestStatus r) (rpRows r (tablespaceTable tb))"

text \<open>The computed columns: a division with a null operand is null, and so is a case without a match.\<close>

definition percent :: "int \<Rightarrow> int \<Rightarrow> pg_value" where
  "percent part whole = (if whole > 0 then PgSeconds (of_int (part * 100) / of_int whole) else PgNull)"

definition resource_limit_used :: "pg_value list \<Rightarrow> pg_value list" where
  "resource_limit_used row =
     row @ [case (row ! 4, row ! 7) of (PgInt current, PgInt limit) \<Rightarrow> percent current limit | _ \<Rightarrow> PgNull]"

definition latest_resource_limits :: "SinkTables \<Rightarrow> time \<Rightarrow> Repository \<Rightarrow> pg_value list list" where
  "latest_resource_limits tb now r = map resource_limit_used
     (latest_samples ''operational.resource_limits'' now (rpLatestStatus r) (rpRows r (resourceLimitTable tb)))"

definition diskgroup_used :: "pg_value list \<Rightarrow> pg_value list" where
  "diskgroup_used row =
     row @ [case (row ! 4, row ! 5) of (PgInt whole, PgInt free) \<Rightarrow> percent (whole - free) whole | _ \<Rightarrow> PgNull]"

definition latest_diskgroups :: "SinkTables \<Rightarrow> time \<Rightarrow> Repository \<Rightarrow> pg_value list list" where
  "latest_diskgroups tb now r = map diskgroup_used
     (latest_samples ''operational.asm_diskgroups'' now (rpLatestStatus r) (rpRows r (asmDiskgroupTable tb)))"

definition latest_dataguard_destinations :: "SinkTables \<Rightarrow> time \<Rightarrow> Repository \<Rightarrow> pg_value list list" where
  "latest_dataguard_destinations tb now r =
     latest_samples ''operational.dataguard'' now (rpLatestStatus r) (rpRows r (dataGuardDestinationTable tb))"

definition latest_dataguard_lag :: "SinkTables \<Rightarrow> time \<Rightarrow> Repository \<Rightarrow> pg_value list list" where
  "latest_dataguard_lag tb now r =
     latest_samples ''operational.dataguard'' now (rpLatestStatus r) (rpRows r (dataGuardLagTable tb))"

definition latest_dataguard_processes :: "SinkTables \<Rightarrow> time \<Rightarrow> Repository \<Rightarrow> pg_value list list" where
  "latest_dataguard_processes tb now r =
     latest_samples ''operational.dataguard'' now (rpLatestStatus r) (rpRows r (dataGuardProcessTable tb))"

section \<open>The rates\<close>

text \<open>\<open>case when interval_seconds > 0 and not counter_reset then delta / interval_seconds end\<close>\<close>

definition rate_value :: "pg_value \<Rightarrow> pg_value \<Rightarrow> pg_value \<Rightarrow> pg_value" where
  "rate_value delta interval reset =
     (case (interval, reset) of
        (PgSeconds seconds, PgBool was_reset) \<Rightarrow>
          if seconds > 0 \<and> \<not> was_reset
          then (case delta of PgInt d \<Rightarrow> PgSeconds (of_int d / seconds) | _ \<Rightarrow> PgNull)
          else PgNull
      | _ \<Rightarrow> PgNull)"

definition rate_row :: "pg_value list \<Rightarrow> pg_value list" where
  "rate_row row = row @ [rate_value (row ! 6) (row ! 7) (row ! 8)]"

definition system_counter_rates :: "SinkTables \<Rightarrow> Repository \<Rightarrow> pg_value list list" where
  "system_counter_rates tb r = map rate_row (rpRows r (systemCounterTable tb))"

definition wait_class_rates :: "SinkTables \<Rightarrow> Repository \<Rightarrow> pg_value list list" where
  "wait_class_rates tb r = map rate_row (rpRows r (waitClassTable tb))"

section \<open>The enriched SQL samples\<close>

definition int_text :: "int \<Rightarrow> string" where
  "int_text i = (if i < 0 then CHR ''-'' # dec_of_nat (nat (- i)) else dec_of_nat (nat i))"

text \<open>
  \<open>string_agg(distinct v, ', ' order by v)\<close>, null for no value. \<open>collate\<close> sorts by the collation of the
  repository's database.
\<close>

definition string_agg :: "(string list \<Rightarrow> string list) \<Rightarrow> string list \<Rightarrow> string option" where
  "string_agg collate vs = (if vs = [] then None else Some (join_with '', '' (collate (remdups vs))))"

type_synonym cursor_list = "(sqlCursorMetadataKey \<times> cursor_row) list"
type_synonym cursor_group = "string \<times> int64 \<times> string \<times> int64"

record cursor_context =
  cxGroup :: cursor_group
  cxChildNumbers :: "string option"
  cxSchemaNames :: "string option"
  cxModules :: "string option"

fun group_of :: "sqlCursorMetadataKey \<Rightarrow> cursor_group" where
  "group_of (db, inst, sql, child, plan) = (db, inst, sql, plan)"

fun child_of :: "sqlCursorMetadataKey \<Rightarrow> int64" where
  "child_of (db, inst, sql, child, plan) = child"

text \<open>A group of the subquery; \<open>filter (where \<dots> is not null)\<close> leaves the nulls out.\<close>

definition context_of :: "(string list \<Rightarrow> string list) \<Rightarrow> cursor_group \<Rightarrow> cursor_list \<Rightarrow> cursor_context" where
  "context_of collate g cs =
     \<lparr>cxGroup = g, cxChildNumbers = string_agg collate (map (\<lambda>(k, c). int_text (sint (child_of k))) cs),
      cxSchemaNames = string_agg collate (List.map_filter (\<lambda>(k, c). crParsingSchema c) cs),
      cxModules = string_agg collate (List.map_filter (\<lambda>(k, c). crModule c) cs)\<rparr>"

definition contexts :: "(string list \<Rightarrow> string list) \<Rightarrow> cursor_list \<Rightarrow> cursor_context list" where
  "contexts collate cs =
     map (\<lambda>g. context_of collate g (filter (\<lambda>(k, c). group_of k = g) cs)) (remdups (map (\<lambda>(k, c). group_of k) cs))"

record enriched_sample =
  enSample :: SQLSample
  enChildNumber :: "string option"
  enSchemaName :: "string option"
  enModule :: "string option"

definition joins :: "SQLSample \<Rightarrow> cursor_group \<Rightarrow> bool" where
  "joins s g = (case g of (db, inst, sql, plan) \<Rightarrow>
     db = sqDatabase s \<and> inst = sqInstID s \<and> sql = sqSQLID s \<and> sqPlanHashValue s = Some plan)"

definition coalesce :: "'a option \<Rightarrow> 'a option \<Rightarrow> 'a option" where
  "coalesce a b = (case a of None \<Rightarrow> b | Some x \<Rightarrow> Some x)"

definition enrich :: "SQLSample \<Rightarrow> string option \<Rightarrow> string option \<Rightarrow> string option \<Rightarrow> enriched_sample" where
  "enrich s children schemas modules =
     \<lparr>enSample = s, enChildNumber = coalesce (map_option (\<lambda>c. int_text (sint c)) (sqChildNumber s)) children,
      enSchemaName = coalesce (sqParsingSchemaName s) schemas, enModule = coalesce (sqModule s) modules\<rparr>"

text \<open>The left join.\<close>

definition enriched_view :: "(string list \<Rightarrow> string list) \<Rightarrow> cursor_list \<Rightarrow> SQLSample list \<Rightarrow> enriched_sample list" where
  "enriched_view collate cs samples =
     concat (map (\<lambda>s. case filter (\<lambda>x. joins s (cxGroup x)) (contexts collate cs) of
         [] \<Rightarrow> [enrich s None None None]
       | xs \<Rightarrow> map (\<lambda>x. enrich s (cxChildNumbers x) (cxSchemaNames x) (cxModules x)) xs) samples)"

section \<open>Properties\<close>

lemma joins_unique: "joins s g \<Longrightarrow> joins s g' \<Longrightarrow> g = g'"
  by (auto simp: joins_def split: prod.splits)

lemma filter_equal: "distinct xs \<Longrightarrow> x \<in> set xs \<Longrightarrow> filter (\<lambda>y. y = x) xs = [x]"
proof (induction xs)
  case (Cons a xs)
  show ?case
  proof (cases "a = x")
    case True
    then have "\<forall>y \<in> set xs. y \<noteq> x" using Cons.prems(1) by auto
    then show ?thesis using True by (simp add: filter_empty_conv)
  next
    case False
    then show ?thesis using Cons by simp
  qed
qed simp

definition own_cursors :: "cursor_list \<Rightarrow> SQLSample \<Rightarrow> cursor_list" where
  "own_cursors cs s = filter (\<lambda>(k, c). joins s (group_of k)) cs"

lemma filter_contexts:
  "filter (\<lambda>x. joins s (cxGroup x)) (contexts collate cs) =
     map (\<lambda>g. context_of collate g (filter (\<lambda>(k, c). group_of k = g) cs))
       (filter (joins s) (remdups (map (\<lambda>(k, c). group_of k) cs)))"
proof -
  have "(\<lambda>x. joins s (cxGroup x)) \<circ> (\<lambda>g. context_of collate g (filter (\<lambda>(k, c). group_of k = g) cs)) = joins s"
    by (rule ext) (simp add: context_of_def)
  then show ?thesis unfolding contexts_def filter_map by (simp only:)
qed

lemma enriched_one:
  "(case filter (\<lambda>x. joins s (cxGroup x)) (contexts collate cs) of
      [] \<Rightarrow> [enrich s None None None]
    | xs \<Rightarrow> map (\<lambda>x. enrich s (cxChildNumbers x) (cxSchemaNames x) (cxModules x)) xs) =
   [enrich s (string_agg collate (map (\<lambda>(k, c). int_text (sint (child_of k))) (own_cursors cs s)))
      (string_agg collate (List.map_filter (\<lambda>(k, c). crParsingSchema c) (own_cursors cs s)))
      (string_agg collate (List.map_filter (\<lambda>(k, c). crModule c) (own_cursors cs s)))]"
proof (cases "\<exists>g \<in> set (map (\<lambda>(k, c). group_of k) cs). joins s g")
  case True
  then obtain g where g: "g \<in> set (map (\<lambda>(k, c). group_of k) cs)" "joins s g" by blast
  have u: "joins s g' \<longleftrightarrow> g' = g" for g' using g(2) joins_unique by blast
  have "filter (joins s) (remdups (map (\<lambda>(k, c). group_of k) cs)) = [g]"
    unfolding fun_eq_iff [THEN iffD2, OF allI, OF u] by (rule filter_equal) (use g(1) in \<open>simp_all only: set_remdups distinct_remdups\<close>)
  then have "filter (\<lambda>x. joins s (cxGroup x)) (contexts collate cs) =
      [context_of collate g (filter (\<lambda>(k, c). group_of k = g) cs)]"
    unfolding filter_contexts by (simp only: list.map)
  moreover have "filter (\<lambda>(k, c). group_of k = g) cs = own_cursors cs s"
    unfolding own_cursors_def u ..
  ultimately show ?thesis by (simp only: context_of_def cursor_context.simps list.case list.map)
next
  case False
  then have "own_cursors cs s = []" by (auto simp: own_cursors_def filter_empty_conv)
  moreover have "filter (\<lambda>x. joins s (cxGroup x)) (contexts collate cs) = []"
    using False unfolding filter_contexts by (simp only: filter_empty_conv set_remdups map_is_Nil_conv) blast
  ultimately show ?thesis by (simp add: string_agg_def List.map_filter_def)
qed

lemma enrich_fields:
  "enSample (enrich s children schemas modules) = s"
  "enChildNumber (enrich s children schemas modules) =
     (case sqChildNumber s of Some c \<Rightarrow> Some (int_text (sint c)) | None \<Rightarrow> children)"
  "enSchemaName (enrich s children schemas modules) =
     (case sqParsingSchemaName s of Some schema \<Rightarrow> Some schema | None \<Rightarrow> schemas)"
  "enModule (enrich s children schemas modules) = (case sqModule s of Some m \<Rightarrow> Some m | None \<Rightarrow> modules)"
  by (simp_all add: enrich_def coalesce_def split: option.split)

text \<open>
  C17: the enriched view neither loses nor repeats a sample. Its rows are the samples in order, each once and with
  its own figures. A child number, schema or module that the sample has is kept; one it lacks (the sample sums
  several children) is the list, each value once and in the order of the collation, of the non-null values that
  the cursor metadata of the same database, instance, statement and plan has, and null when it has none.
\<close>
theorem enriched_view_exact:
  "list_all2 (\<lambda>s x.
      let own = filter (\<lambda>((db, inst, sql, child, plan), c).
                   db = sqDatabase s \<and> inst = sqInstID s \<and> sql = sqSQLID s \<and> sqPlanHashValue s = Some plan) cs;
          known = (\<lambda>vs. if vs = [] then None else Some (join_with '', '' (collate (remdups vs))))
      in enSample x = s \<and>
         enChildNumber x = (case sqChildNumber s of Some c \<Rightarrow> Some (int_text (sint c))
           | None \<Rightarrow> known (map (\<lambda>((db, inst, sql, child, plan), c). int_text (sint child)) own)) \<and>
         enSchemaName x = (case sqParsingSchemaName s of Some schema \<Rightarrow> Some schema
           | None \<Rightarrow> known (List.map_filter (\<lambda>(k, c). crParsingSchema c) own)) \<and>
         enModule x = (case sqModule s of Some m \<Rightarrow> Some m
           | None \<Rightarrow> known (List.map_filter (\<lambda>(k, c). crModule c) own)))
     samples (enriched_view collate cs samples)"
proof -
  have own: "own_cursors cs s = filter (\<lambda>((db, inst, sql, child, plan), c).
      db = sqDatabase s \<and> inst = sqInstID s \<and> sql = sqSQLID s \<and> sqPlanHashValue s = Some plan) cs" for s
    unfolding own_cursors_def by (intro filter_cong refl) (auto simp: joins_def)
  have child: "map (\<lambda>(k, c). int_text (sint (child_of k))) xs =
      map (\<lambda>((db, inst, sql, child, plan), c). int_text (sint child)) xs" for xs :: cursor_list
    by (rule map_cong) auto
  have view: "enriched_view collate cs samples =
     map (\<lambda>s. enrich s (string_agg collate (map (\<lambda>(k, c). int_text (sint (child_of k))) (own_cursors cs s)))
            (string_agg collate (List.map_filter (\<lambda>(k, c). crParsingSchema c) (own_cursors cs s)))
            (string_agg collate (List.map_filter (\<lambda>(k, c). crModule c) (own_cursors cs s)))) samples"
    unfolding enriched_view_def enriched_one by (induction samples) simp_all
  show ?thesis
    unfolding view list.rel_map
    by (rule list.rel_refl)
      (simp only: enrich_fields string_agg_def own child Let_def simp_thms)
qed

text \<open>
  A rate is shown exactly where it was measured. For a counter row as the collection makes it, the
  rate view shows a value if the counter was read before, time has advanced and the counter has not gone
  back; the value is then the growth divided by the seconds between the two readings, never negative, and
  otherwise it is null.
\<close>
theorem rates_measured:
  assumes "operationalDelta key t v known = ((delta, interval, reset), read')"
    and "\<And>p. known key = Some p \<Longrightarrow> 0 \<le> sint (osValue p) \<and> in_int64 (t - osCollectedAt p)"
  shows "rate_value (pg_opt pg_int delta) (pg_opt PgSeconds interval) (PgBool reset) =
    (case known key of
       None \<Rightarrow> PgNull
     | Some p \<Rightarrow>
         if osCollectedAt p < t \<and> sint (osValue p) \<le> sint v
         then PgSeconds (of_int (sint v - sint (osValue p)) / duration_seconds (t - osCollectedAt p))
         else PgNull)"
proof (cases "known key")
  case None
  then show ?thesis using assms(1) by (auto simp: operationalDelta_def Let_def rate_value_def pg_opt.simps)
next
  case (Some p)
  have "time_sub t (osCollectedAt p) = t - osCollectedAt p"
    using assms(2) [OF Some] by (simp add: time_sub_def sat64_id)
  moreover have "sint (osValue p) \<le> sint v \<Longrightarrow> sint (v - osValue p) = sint v - sint (osValue p)"
    using assms(2) [OF Some] by (simp add: sint_minus64_exact)
  moreover have "osCollectedAt p < t \<Longrightarrow> 0 < duration_seconds (t - osCollectedAt p)"
    by (simp add: duration_seconds_def)
  ultimately show ?thesis
    using assms(1) Some
    by (auto simp: operationalDelta_def Let_def rate_value_def pg_opt.simps pg_int_def time_after_def split: if_splits)
qed

theorem rates_measured_witness:
  "rate_value (pg_opt pg_int (Some 30)) (pg_opt PgSeconds (Some 10)) (PgBool False) = PgSeconds 3"
proof -
  let ?key = "\<lparr>okDatabase = ''db'', okKind = ''system'', okInstID = 1, okConID = 0, okName = ''user calls''\<rparr>"
  let ?known = "[?key \<mapsto> \<lparr>osCollectedAt = 5 * second, osValue = 12\<rparr>]"
  have "operationalDelta ?key (15 * second) 42 ?known =
      ((Some 30, Some 10, False), ?known(?key \<mapsto> \<lparr>osCollectedAt = 15 * second, osValue = 42\<rparr>))"
    by (simp add: operationalDelta_def Let_def time_after_def time_sub_def sat64_id int64_bounds_defs duration_seconds_def)
  from rates_measured [OF this] show ?thesis
    by (simp add: int64_bounds_defs duration_seconds_def)
qed

section \<open>The latest samples after a write\<close>

lemma fold_add_rows:
  "distinct (map fst xs) \<Longrightarrow> (table, rows) \<in> set xs \<Longrightarrow> fold add_rows xs R table = R table @ rows"
proof (induction xs arbitrary: R)
  case (Cons x xs)
  have other: "fold add_rows xs R table = R table" if "table \<notin> fst ` set xs" for R
    using that by (induction xs arbitrary: R) (auto simp: add_rows_def)
  show ?case
  proof (cases "x = (table, rows)")
    case True
    then have "add_rows x R = R(table := R table @ rows)" by (simp add: add_rows_def)
    then show ?thesis using Cons.prems(1) other [of "add_rows x R"] True by simp
  next
    case False
    then have mem: "(table, rows) \<in> set xs" using Cons.prems(2) by simp
    from imageI [OF mem, of fst] have "fst x \<noteq> table" using Cons.prems(1) by auto
    then show ?thesis using Cons.IH [OF _ mem, of "add_rows x R"] Cons.prems(1) by (simp add: add_rows_def)
  qed
qed simp

definition row_database :: "pg_value list \<Rightarrow> string option" where
  "row_database row = (case row of PgTime t # PgText db # values \<Rightarrow> Some db | _ \<Rightarrow> None)"

lemma latest_samples_filter:
  "latest_samples collector now statuses rows =
     filter (\<lambda>row. within_day now row \<and> join_status collector statuses row \<noteq> []) rows"
proof -
  have "map (\<lambda>status. row) (join_status collector statuses row) =
      (if join_status collector statuses row \<noteq> [] then [row] else [])" for row
    by (auto simp: join_status_def split: list.split pg_value.split option.split)
  then show ?thesis unfolding latest_samples_def by (induction rows) simp_all
qed

lemma join_status_row:
  "row_database row = Some db \<Longrightarrow>
   join_status collector statuses row \<noteq> [] \<longleftrightarrow>
     (\<exists>status. statuses (db, collector) = Some status \<and> row_time row = Some (stCollectedAt status))"
  by (auto simp: row_database_def join_status_def split: list.splits pg_value.splits option.splits)

text \<open>
  The latest views show exactly the last collection. After a write with a status of the collector that is
  newer than what the table of statuses had, the view of the last day's samples shows of a database
  precisely the rows of this write at the time of the status: all of them and no older one, none when the
  collection failed and brought no rows.
\<close>
theorem latest_view_exact:
  assumes "write_transaction sv tb marshal b pending r = (None, r')" and "orders_ok sv"
    and "distinct (map fst (batch_rows tb marshal b pending))"
    and "(table, rows) \<in> set (batch_rows tb marshal b pending)"
    and "status \<in> set (sbScrapeStatuses b)" and "status_key status = (db, collector)"
    and "\<And>s. s \<in> set (sbScrapeStatuses b) \<Longrightarrow> stCollectedAt s = stCollectedAt status"
    and "\<And>old. rpLatestStatus r (db, collector) = Some old \<Longrightarrow> stCollectedAt old < stCollectedAt status"
    and "\<And>row. row \<in> set (rpRows r table) \<Longrightarrow> row_time row \<noteq> Some (stCollectedAt status)"
    and "now - day_ns \<le> stCollectedAt status"
  shows "filter (\<lambda>row. row_database row = Some db)
      (latest_samples collector now (rpLatestStatus r') (rpRows r' table)) =
    filter (\<lambda>row. row_database row = Some db \<and> row_time row = Some (stCollectedAt status)) rows"
proof -
  let ?t = "stCollectedAt status"
  have r': "r' = store_batch sv tb marshal b pending r"
    using assms(1) write_stages_ok [OF _ assms(2)] by (simp add: write_transaction_def transaction_success)
  have rows: "rpRows r' table = rpRows r table @ rows"
    using fold_add_rows [OF assms(3,4)] by (simp add: r' store_batch_def)
  have "(db, collector) \<in> dom (fold upsert_status (sbScrapeStatuses b) (rpLatestStatus r))"
    unfolding latest_status.dom_fold using imageI [OF assms(5), of status_key] assms(6) by simp
  then obtain new where new: "fold upsert_status (sbScrapeStatuses b) (rpLatestStatus r) (db, collector) = Some new"
    by auto
  then have "?t \<le> stCollectedAt new" using latest_status.fold_newest [OF new assms(5,6)] by simp
  then have t: "stCollectedAt new = ?t"
    using latest_status.fold_source [OF new] assms(7) assms(8) [of new] by fastforce
  have latest: "rpLatestStatus r' (db, collector) = Some new" using new by (simp add: r' store_batch_def)
  have joined: "join_status collector (rpLatestStatus r') row \<noteq> [] \<longleftrightarrow> row_time row = Some ?t"
    if "row_database row = Some db" for row
    using join_status_row [OF that] latest t by simp
  have "filter (\<lambda>row. row_database row = Some db)
      (latest_samples collector now (rpLatestStatus r') (rpRows r' table)) =
    filter (\<lambda>row. row_database row = Some db \<and> row_time row = Some ?t) (rpRows r' table)"
    unfolding latest_samples_filter filter_filter using joined assms(10)
    by (intro filter_cong) (auto simp: within_day_def)
  also have "\<dots> = filter (\<lambda>row. row_database row = Some db \<and> row_time row = Some ?t) rows"
    using assms(9) by (auto simp: rows filter_empty_conv)
  finally show ?thesis .
qed

definition example_tablespace :: TablespaceSample where
  "example_tablespace = \<lparr>tsCollectedAt = 5, tsDatabase = ''db'', tsTablespace = ''USERS'', tsContents = ''PERMANENT'',
     tsUsedBytes = 1, tsFreeBytes = 2, tsMaxBytes = 3, tsUsedPercent = 0, tsAllocatedBytes = None\<rparr>"

definition tablespace_batch :: SampleBatch where
  "tablespace_batch = example_batch\<lparr>sbOperational := no_operational\<lparr>opTablespaces := [example_tablespace]\<rparr>\<rparr>"

theorem latest_view_exact_witness:
  "\<exists>r'. write_transaction example_server example_tables (\<lambda>_. []) tablespace_batch [] empty_repository = (None, r') \<and>
     filter (\<lambda>row. row_database row = Some ''db'')
       (latest_samples ''metrics'' 9 (rpLatestStatus r') (rpRows r' (tablespaceTable example_tables))) =
     [tablespaceRow example_tablespace]"
proof -
  let ?status = "\<lparr>stCollectedAt = 5, stDatabase = ''db'', stCollector = ''metrics'', stSuccess = True,
       stDurationSeconds = 0, stSampleCount = 0, stErrorMessage = None\<rparr>"
  have statuses: "sbScrapeStatuses tablespace_batch = [?status]"
    by (simp add: tablespace_batch_def example_batch_def)
  note simps = tablespace_batch_def example_batch_def no_performance_def no_operational_def example_tablespace_def
  have times: "times_ok example_server example_tables tablespace_batch []"
    by (rule example_times_ok) (simp add: write_partitions_def Let_def simps)
  have texts: "texts_ok example_tables (\<lambda>_. []) tablespace_batch []"
    by (simp add: texts_ok_def batch_rows_def operational_rows_def Let_def simps scrapeStatusRow_def tablespaceRow_def
        byte_of_def utf8_width_def pg_count_def pg_int_def)
  obtain r' where w: "write_transaction example_server example_tables (\<lambda>_. []) tablespace_batch [] empty_repository = (None, r')"
    using quiet_write [OF _ _ times texts, of empty_repository]
    by (auto simp: quiet_def example_server_def empty_repository_def own_partitions_def)
  have names: "distinct (map fst (batch_rows example_tables (\<lambda>_. []) tablespace_batch []))"
    by (simp add: batch_rows_def operational_rows_def Let_def example_tables_def sink_tables_def siblingIdentifier_def
        identifier_of_def)
  have rows: "(tablespaceTable example_tables, [tablespaceRow example_tablespace]) \<in>
      set (batch_rows example_tables (\<lambda>_. []) tablespace_batch [])"
    by (simp add: batch_rows_def operational_rows_def Let_def tablespace_batch_def)
  have "filter (\<lambda>row. row_database row = Some ''db'')
       (latest_samples ''metrics'' 9 (rpLatestStatus r') (rpRows r' (tablespaceTable example_tables))) =
     filter (\<lambda>row. row_database row = Some ''db'' \<and> row_time row = Some (stCollectedAt ?status)) [tablespaceRow example_tablespace]"
    by (rule latest_view_exact [OF w _ names rows])
      (use example_orders [of None] in \<open>simp_all add: statuses status_key_def empty_repository_def day_ns_def example_server_def\<close>)
  also have "\<dots> = [tablespaceRow example_tablespace]"
    by (simp add: row_database_def tablespaceRow_def example_tablespace_def)
  finally show ?thesis using w by blast
qed

end
