(* ===== verification/SinkUpgrade.thy ===== *)
theory SinkUpgrade
  imports SinkWrites
begin

text \<open>
  The statements of \<open>Migrate\<close> in their order (\<open>postgresql/postgresql.go\<close>): a table is created unless
  it exists, columns that later versions added are added to an older table, and indexes are created
  unless their name is taken. The views are in \<open>SinkViews\<close>, the order and errors of the migrations in \<open>Migration\<close>.
\<close>

section \<open>Statements on a schema\<close>

text \<open>
  The relations the migrations see: the columns of the tables, and for an index, whose name is taken in the PostgreSQL
  schema of its table, the table it belongs to. \<open>if not exists\<close> skips a statement whose name is taken, an index on
  a missing column is an error. Tables are known by the identifiers they are configured with.
\<close>

datatype ddl = CreateTable "column list" | CreateIndex string "string list" | AddColumn column

record schema =
  smTables :: "pg_identifier \<rightharpoonup> column list"
  smIndexes :: "pg_identifier \<rightharpoonup> pg_identifier"

definition add_column :: "column \<Rightarrow> column list \<Rightarrow> column list" where
  "add_column c cs = (if fst c \<in> set (map fst cs) then cs else cs @ [c])"

fun exec_ddl :: "pg_identifier \<Rightarrow> ddl \<Rightarrow> schema \<Rightarrow> schema option" where
  "exec_ddl table (CreateTable cols) s =
     Some (case smTables s table of None \<Rightarrow> s\<lparr>smTables := (smTables s)(table \<mapsto> cols)\<rparr> | Some cs \<Rightarrow> s)"
| "exec_ddl table (CreateIndex name cols) s =
     (case smTables s table of
        None \<Rightarrow> None
      | Some cs \<Rightarrow>
          if smIndexes s (siblingIdentifier table name) \<noteq> None then Some s
          else if set cols \<subseteq> set (map fst cs)
          then Some (s\<lparr>smIndexes := (smIndexes s)(siblingIdentifier table name \<mapsto> table)\<rparr>)
          else None)"
| "exec_ddl table (AddColumn c) s =
     (case smTables s table of
        None \<Rightarrow> None
      | Some cs \<Rightarrow> Some (s\<lparr>smTables := (smTables s)(table \<mapsto> add_column c cs)\<rparr>))"

fun run_ddl :: "pg_identifier \<Rightarrow> ddl list \<Rightarrow> schema \<Rightarrow> schema option" where
  "run_ddl table [] s = Some s"
| "run_ddl table (d # ds) s = (case exec_ddl table d s of None \<Rightarrow> None | Some s \<Rightarrow> run_ddl table ds s)"

fun run_scripts :: "(pg_identifier \<times> ddl list) list \<Rightarrow> schema \<Rightarrow> schema option" where
  "run_scripts [] s = Some s"
| "run_scripts ((table, script) # scripts) s =
     (case run_ddl table script s of None \<Rightarrow> None | Some s \<Rightarrow> run_scripts scripts s)"

section \<open>The scripts\<close>

definition samplesScript :: "ddl list" where
  "samplesScript =
     [CreateTable (ptColumns samplesDDL),
      CreateIndex ''oracle_metric_samples_collected_at_idx'' [''collected_at''],
      CreateIndex ''oracle_metric_samples_database_context_idx'' [''source_database'', ''context''],
      CreateIndex ''oracle_metric_samples_labels_gin_idx'' [''labels'']]"

definition sqlTextsScript :: "ddl list" where
  "sqlTextsScript =
     [CreateTable (ptColumns sqlTextsDDL),
      CreateIndex ''oracle_sql_texts_last_referenced_at_idx'' [''last_referenced_at'']]"

definition sqlCursorMetadataScript :: "ddl list" where
  "sqlCursorMetadataScript =
     [CreateTable (ptColumns sqlCursorMetadataDDL),
      CreateIndex ''oracle_sql_cursor_metadata_last_seen_at_idx'' [''last_seen_at'']]"

definition sqlPlansScript :: "ddl list" where
  "sqlPlansScript =
     [CreateTable (ptColumns sqlPlansDDL),
      CreateIndex ''oracle_sql_plans_sql_id_idx''
        [''source_database'', ''sql_id'', ''plan_hash_value''],
      CreateIndex ''oracle_sql_plans_last_referenced_at_idx'' [''last_referenced_at'']]"

definition sqlSamplesScript :: "ddl list" where
  "sqlSamplesScript =
     [CreateTable (ptColumns sqlSamplesDDL),
      CreateIndex ''oracle_sql_samples_collected_at_idx'' [''collected_at''],
      CreateIndex ''oracle_sql_samples_sql_id_idx''
        [''source_database'', ''sql_id'', ''child_number''],
      CreateIndex ''oracle_sql_samples_elapsed_idx'' [''elapsed_time_micro'']]"

definition sessionSamplesScript :: "ddl list" where
  "sessionSamplesScript =
     [CreateTable (ptColumns sessionSamplesDDL),
      CreateIndex ''oracle_session_samples_collected_at_idx'' [''collected_at''],
      CreateIndex ''oracle_session_samples_sql_id_idx'' [''source_database'', ''sql_id''],
      CreateIndex ''oracle_session_samples_wait_class_idx'' [''source_database'', ''wait_class'']]"

definition blockingSessionsScript :: "ddl list" where
  "blockingSessionsScript =
     [CreateTable (ptColumns blockingSessionsDDL),
      CreateIndex ''oracle_blocking_session_samples_collected_at_idx'' [''collected_at''],
      CreateIndex ''oracle_blocking_session_samples_sql_id_idx'' [''source_database'', ''sql_id'']]"

definition databaseActivityScript :: "ddl list" where
  "databaseActivityScript =
     [CreateTable (ptColumns databaseActivityDDL @ [(''session_serial_number_key'', Bigint, Nullable)]),
      CreateIndex ''oracle_database_activity_samples_unique_idx'' 
        [''sample_time'', ''source_database'', ''inst_id'', ''sample_id'', ''session_id'', ''session_serial_number_key''],
      CreateIndex ''oracle_database_activity_samples_sample_time_idx'' [''sample_time''],
      CreateIndex ''oracle_database_activity_samples_sql_id_idx''
        [''source_database'', ''sql_id'', ''sample_time''],
      CreateIndex ''oracle_database_activity_samples_wait_class_idx''
        [''source_database'', ''wait_class'', ''sample_time''],
      AddColumn (''sample_source'', Text, NotNull),
      AddColumn (''sample_duration_micro'', Bigint, NotNull),
      AddColumn (''sql_plan_hash_value'', Bigint, Nullable),
      AddColumn (''sql_full_plan_hash_value'', Bigint, Nullable),
      AddColumn (''sql_plan_line_id'', Bigint, Nullable),
      AddColumn (''service_hash'', Bigint, Nullable),
      AddColumn (''service_name'', Text, Nullable),
      AddColumn (''client_identifier'', Text, Nullable),
      CreateIndex ''oracle_database_activity_samples_source_idx''
        [''source_database'', ''sample_source'', ''sample_time'']]"

definition connectionStateScript :: "ddl list" where
  "connectionStateScript =
     [CreateTable (ptColumns connectionStateDDL),
      CreateIndex ''harry_database_connection_state_state_idx'' [''state'', ''observed_at'']]"

definition runtimeSamplesScript :: "ddl list" where
  "runtimeSamplesScript =
     [CreateTable (ptColumns runtimeSamplesDDL),
      CreateIndex ''harry_runtime_samples_scheduler_time_idx'' [''ha_scope'', ''scheduler'', ''observed_at'']]"

definition latestRuntimeStatusScript :: "ddl list" where
  "latestRuntimeStatusScript =
     [CreateTable (ptColumns latestRuntimeStatusDDL)]"

definition repositoryIngestScript :: "ddl list" where
  "repositoryIngestScript =
     [CreateTable (ptColumns repositoryIngestDDL),
      AddColumn (''sql_cursor_metadata_writes'', Bigint, NotNull),
      AddColumn (''dataguard_destination_rows'', Bigint, NotNull),
      AddColumn (''dataguard_lag_rows'', Bigint, NotNull),
      AddColumn (''dataguard_process_rows'', Bigint, NotNull)]"

definition dataGuardDestinationScript :: "ddl list" where
  "dataGuardDestinationScript =
     [CreateTable (ptColumns dataGuardDestinationDDL),
      CreateIndex ''oracle_dataguard_destination_database_time_idx''
        [''source_database'', ''inst_id'', ''dest_id'', ''collected_at'']]"

definition dataGuardLagScript :: "ddl list" where
  "dataGuardLagScript =
     [CreateTable (ptColumns dataGuardLagDDL),
      CreateIndex ''oracle_dataguard_lag_database_time_idx'' [''source_database'', ''collected_at'']]"

definition dataGuardProcessScript :: "ddl list" where
  "dataGuardProcessScript =
     [CreateTable (ptColumns dataGuardProcessDDL),
      CreateIndex ''oracle_dataguard_process_database_time_idx''
        [''source_database'', ''inst_id'', ''collected_at'']]"

definition databaseStatusScript :: "ddl list" where
  "databaseStatusScript =
     [CreateTable (ptColumns databaseStatusDDL),
      CreateIndex ''oracle_database_status_database_time_idx''
        [''source_database'', ''collected_at''],
      AddColumn (''dbid'', Bigint, Nullable),
      AddColumn (''db_unique_name'', Text, Nullable),
      AddColumn (''database_product'', Text, Nullable),
      AddColumn (''database_edition'', Text, Nullable),
      AddColumn (''database_version'', Text, Nullable),
      AddColumn (''database_version_full'', Text, Nullable),
      AddColumn (''protection_mode'', Text, Nullable),
      AddColumn (''protection_level'', Text, Nullable)]"

definition instanceScript :: "ddl list" where
  "instanceScript =
     [CreateTable (ptColumns instanceDDL),
      CreateIndex ''oracle_instance_database_time_idx''
        [''source_database'', ''inst_id'', ''collected_at''],
      AddColumn (''sga_allocated_bytes'', Bigint, Nullable),
      AddColumn (''pga_allocated_bytes'', Bigint, Nullable),
      AddColumn (''pga_max_allocated_bytes'', Bigint, Nullable)]"

definition resourceLimitScript :: "ddl list" where
  "resourceLimitScript =
     [CreateTable (ptColumns resourceLimitDDL),
      CreateIndex ''oracle_resource_limit_database_time_idx''
        [''source_database'', ''resource_name'', ''inst_id'', ''collected_at'']]"

definition tablespaceScript :: "ddl list" where
  "tablespaceScript =
     [CreateTable (ptColumns tablespaceDDL),
      CreateIndex ''oracle_tablespace_database_time_idx''
        [''source_database'', ''tablespace_name'', ''collected_at''],
      AddColumn (''allocated_bytes'', Bigint, Nullable)]"

definition asmDiskgroupScript :: "ddl list" where
  "asmDiskgroupScript =
     [CreateTable (ptColumns asmDiskgroupDDL),
      CreateIndex ''oracle_asm_diskgroup_database_time_idx''
        [''source_database'', ''diskgroup_name'', ''inst_id'', ''collected_at'']]"

definition systemCounterScript :: "ddl list" where
  "systemCounterScript =
     [CreateTable (ptColumns systemCounterDDL),
      CreateIndex ''oracle_system_counter_database_time_idx''
        [''source_database'', ''stat_name'', ''inst_id'', ''con_id'', ''collected_at'']]"

definition waitClassScript :: "ddl list" where
  "waitClassScript =
     [CreateTable (ptColumns waitClassDDL),
      CreateIndex ''oracle_wait_class_database_time_idx''
        [''source_database'', ''wait_class'', ''inst_id'', ''con_id'', ''collected_at'']]"

definition systemMetricScript :: "ddl list" where
  "systemMetricScript =
     [CreateTable (ptColumns systemMetricDDL),
      CreateIndex ''oracle_system_metric_database_time_idx''
        [''source_database'', ''metric_name'', ''inst_id'', ''con_id'', ''collected_at'']]"

definition scrapeStatusScript :: "ddl list" where
  "scrapeStatusScript =
     [CreateTable (ptColumns scrapeStatusDDL),
      CreateIndex ''oracle_scrape_status_database_collector_time_idx''
        [''source_database'', ''collector'', ''collected_at'']]"

definition latestScrapeStatusScript :: "ddl list" where
  "latestScrapeStatusScript =
     [CreateTable (ptColumns latestScrapeStatusDDL)]"

section \<open>The migrations\<close>

text \<open>
  The tables of each migration with their scripts, in the order of the statements, and \<open>Migrate\<close> as far as the
  tables and indexes go. The texts that fill in the table names are in the code at the end of each migration.
\<close>

definition mainSchemaDDL :: "SinkTables \<Rightarrow> (pg_identifier \<times> ddl list) list" where
  "mainSchemaDDL tb =
     [(samplesTable tb, samplesScript), (sqlTextsTable tb, sqlTextsScript),
      (sqlCursorMetadataTable tb, sqlCursorMetadataScript), (sqlPlansTable tb, sqlPlansScript),
      (sqlSamplesTable tb, sqlSamplesScript), (sessionSamplesTable tb, sessionSamplesScript),
      (blockingSessionsTable tb, blockingSessionsScript),
      (databaseActivityTable tb, databaseActivityScript)]"

definition repositoryIngestSchemaDDL :: "SinkTables \<Rightarrow> (pg_identifier \<times> ddl list) list" where
  "repositoryIngestSchemaDDL tb =
     [(repositoryIngestTable tb, repositoryIngestScript)]"

definition operationalSchemaDDL :: "SinkTables \<Rightarrow> (pg_identifier \<times> ddl list) list" where
  "operationalSchemaDDL tb =
     [(databaseStatusTable tb, databaseStatusScript), (instanceTable tb, instanceScript),
      (resourceLimitTable tb, resourceLimitScript), (tablespaceTable tb, tablespaceScript),
      (asmDiskgroupTable tb, asmDiskgroupScript), (systemCounterTable tb, systemCounterScript),
      (waitClassTable tb, waitClassScript), (systemMetricTable tb, systemMetricScript),
      (scrapeStatusTable tb, scrapeStatusScript), (latestScrapeStatusTable tb, latestScrapeStatusScript)]"

definition dataGuardSchemaDDL :: "SinkTables \<Rightarrow> (pg_identifier \<times> ddl list) list" where
  "dataGuardSchemaDDL tb =
     [(dataGuardDestinationTable tb, dataGuardDestinationScript),
      (dataGuardLagTable tb, dataGuardLagScript), (dataGuardProcessTable tb, dataGuardProcessScript)]"

definition runtimeSchemaDDL :: "SinkTables \<Rightarrow> (pg_identifier \<times> ddl list) list" where
  "runtimeSchemaDDL tb =
     [(runtimeSamplesTable tb, runtimeSamplesScript),
      (latestRuntimeStatusTable tb, latestRuntimeStatusScript)]"

definition connectionStateSchemaDDL :: "SinkTables \<Rightarrow> (pg_identifier \<times> ddl list) list" where
  "connectionStateSchemaDDL tb =
     [(connectionStateTable tb, connectionStateScript)]"

definition migrate_schema :: "SinkTables \<Rightarrow> schema \<Rightarrow> schema option" where
  "migrate_schema tb s =
     Option.bind (run_scripts (mainSchemaDDL tb) s) (\<lambda>s.
     Option.bind (run_scripts (repositoryIngestSchemaDDL tb) s) (\<lambda>s.
     Option.bind (run_scripts (operationalSchemaDDL tb @ dataGuardSchemaDDL tb) s) (\<lambda>s.
     Option.bind (run_scripts (runtimeSchemaDDL tb) s)
       (run_scripts (connectionStateSchemaDDL tb)))))"

section \<open>Running a script\<close>

text \<open>The columns a script adds, and whether every index finds its columns when the columns \<open>names\<close> are there before.\<close>

fun added_columns :: "ddl list \<Rightarrow> column list" where
  "added_columns [] = []"
| "added_columns (AddColumn c # ds) = c # added_columns ds"
| "added_columns (d # ds) = added_columns ds"

fun indexes_ready :: "string list \<Rightarrow> ddl list \<Rightarrow> bool" where
  "indexes_ready names [] = True"
| "indexes_ready names (CreateTable cols # ds) = indexes_ready names ds"
| "indexes_ready names (CreateIndex name cols # ds) = (list_all (\<lambda>c. c \<in> set names) cols \<and> indexes_ready names ds)"
| "indexes_ready names (AddColumn c # ds) = indexes_ready (fst c # names) ds"

fun index_names :: "pg_identifier \<Rightarrow> ddl list \<Rightarrow> pg_identifier list" where
  "index_names table [] = []"
| "index_names table (CreateIndex name cols # ds) = siblingIdentifier table name # index_names table ds"
| "index_names table (d # ds) = index_names table ds"

lemma run_ready:
  assumes "indexes_ready names ds" and "smTables s table = Some cs" and "set names \<subseteq> set (map fst cs)"
  shows "\<exists>s'. run_ddl table ds s = Some s' \<and> smTables s' table = Some (foldl (\<lambda>cs c. add_column c cs) cs (added_columns ds))"
  using assms
proof (induction names ds arbitrary: s cs rule: indexes_ready.induct)
  case (3 names name cols ds)
  then have "set cols \<subseteq> set (map fst cs)" by (auto simp: list_all_iff)
  then show ?case using 3 by (cases "smIndexes s (siblingIdentifier table name)") auto
next
  case (4 names c ds)
  have "set (fst c # names) \<subseteq> set (map fst (add_column c cs))" using 4(4) by (auto simp: add_column_def)
  then show ?case using 4 by simp
qed auto

lemma run_ddl_tables:
  assumes "run_ddl table ds s = Some s'" and "other \<noteq> table"
  shows "smTables s' other = smTables s other"
  using assms
proof (induction ds arbitrary: s)
  case (Cons d ds)
  then obtain s1 where s1: "exec_ddl table d s = Some s1" "run_ddl table ds s1 = Some s'" by (auto split: option.splits)
  have "smTables s1 other = smTables s other"
    using s1(1) assms(2) by (cases d) (auto split: option.splits if_splits)
  then show ?case using Cons.IH [OF s1(2) assms(2)] by simp
qed simp

lemma exec_ddl_indexes:
  assumes "exec_ddl table d s = Some s'"
  shows "smIndexes s name = Some u \<Longrightarrow> smIndexes s' name = Some u"
    and "smIndexes s' name = Some u \<Longrightarrow> smIndexes s name = Some u \<or> smIndexes s name = None \<and> u = table \<and> name \<in> set (index_names table [d])"
    and "name \<in> set (index_names table [d]) \<Longrightarrow> smIndexes s' name \<noteq> None"
  using assms by (cases d; auto split: option.splits if_splits)+

lemma index_names_Cons: "index_names table (d # ds) = index_names table [d] @ index_names table ds"
  by (cases d) simp_all

lemma run_ddl_indexes:
  assumes "run_ddl table ds s = Some s'"
  shows "(\<forall>name u. smIndexes s name = Some u \<longrightarrow> smIndexes s' name = Some u) \<and>
    (\<forall>name u. smIndexes s' name = Some u \<longrightarrow>
       smIndexes s name = Some u \<or> smIndexes s name = None \<and> u = table \<and> name \<in> set (index_names table ds)) \<and>
    (\<forall>name \<in> set (index_names table ds). smIndexes s' name \<noteq> None)"
  using assms
proof (induction ds arbitrary: s)
  case (Cons d ds)
  then obtain s1 where s1: "exec_ddl table d s = Some s1" "run_ddl table ds s1 = Some s'" by (auto split: option.splits)
  note head = exec_ddl_indexes [OF s1(1)]
  note kept = Cons.IH [OF s1(2), THEN conjunct1, rule_format]
    and made = Cons.IH [OF s1(2), THEN conjunct2, THEN conjunct1, rule_format]
    and there = Cons.IH [OF s1(2), THEN conjunct2, THEN conjunct2, rule_format]
  show ?case
  proof (intro conjI allI impI ballI)
    fix name u assume "smIndexes s name = Some u"
    from head(1) [OF this] show "smIndexes s' name = Some u" by (rule kept)
  next
    fix name u assume a: "smIndexes s' name = Some u"
    consider "smIndexes s1 name = Some u" | "smIndexes s1 name = None" "u = table" "name \<in> set (index_names table ds)"
      using made [OF a] by (elim disjE conjE)
    then show "smIndexes s name = Some u \<or> smIndexes s name = None \<and> u = table \<and> name \<in> set (index_names table (d # ds))"
    proof cases
      case 1
      from head(2) [OF this] show ?thesis unfolding index_names_Cons [of table d ds] set_append by (elim disjE) simp_all
    next
      case 2
      have "smIndexes s name = None"
      proof (cases "smIndexes s name")
        case (Some v)
        from head(1) [OF this] show ?thesis using 2(1) by simp
      qed
      then show ?thesis using 2 unfolding index_names_Cons [of table d ds] set_append by simp
    qed
  next
    fix name assume "name \<in> set (index_names table (d # ds))"
    then consider "name \<in> set (index_names table [d])" | "name \<in> set (index_names table ds)"
      unfolding index_names_Cons [of table d ds] set_append by blast
    then show "smIndexes s' name \<noteq> None"
    proof cases
      case 1
      from head(3) [OF 1] obtain u where "smIndexes s1 name = Some u" by blast
      from kept [OF this] show ?thesis by simp
    qed (rule there)
  qed
qed simp

section \<open>Properties\<close>

text \<open>A table of an older version has every column of the present one except some that were added since.\<close>

definition older_version :: "column list \<Rightarrow> column list \<Rightarrow> column list \<Rightarrow> bool" where
  "older_version full ups old \<longleftrightarrow>
     distinct (map fst old) \<and> list_all (\<lambda>c. c \<in> set full) old \<and>
     list_all (\<lambda>c. fst c \<in> fst ` set ups \<or> c \<in> set old) full"

lemma add_columns_set:
  assumes "distinct (map fst full)" and "set ups \<subseteq> set full" and "set cs \<subseteq> set full" and "distinct (map fst cs)"
  shows "set (foldl (\<lambda>cs c. add_column c cs) cs ups) = set cs \<union> set ups \<and>
    distinct (map fst (foldl (\<lambda>cs c. add_column c cs) cs ups))"
  using assms(2-)
proof (induction ups arbitrary: cs)
  case (Cons c ups)
  have "set (add_column c cs) = insert c (set cs) \<and> distinct (map fst (add_column c cs))"
  proof (cases "fst c \<in> set (map fst cs)")
    case True
    then obtain b where b: "b \<in> set cs" "fst b = fst c" by auto
    then have "b = c" using assms(1) Cons.prems(1,2) by (auto simp: distinct_map dest: inj_onD)
    then show ?thesis using True b(1) Cons.prems(3) by (auto simp: add_column_def)
  qed (use Cons.prems(3) in \<open>simp add: add_column_def\<close>)
  then show ?case using Cons.IH [of "add_column c cs"] Cons.prems by auto
qed simp

lemma upgraded_columns:
  assumes "distinct (map fst full)" and "list_all (\<lambda>c. c \<in> set full) ups" and "older_version full ups old"
  shows "set (foldl (\<lambda>cs c. add_column c cs) old ups) = set full \<and>
    distinct (map fst (foldl (\<lambda>cs c. add_column c cs) old ups))"
proof -
  have ups: "set ups \<subseteq> set full" using assms(2) by (auto simp: list_all_iff)
  have old: "set old \<subseteq> set full" "distinct (map fst old)" using assms(3) by (auto simp: older_version_def list_all_iff)
  note u = add_columns_set [OF assms(1) ups old]
  have "c \<in> set old \<union> set ups" if c: "c \<in> set full" for c
  proof (cases "c \<in> set old")
    case False
    then obtain b where "b \<in> set ups" "fst b = fst c" using assms(3) c by (auto simp: older_version_def list_all_iff)
    then show ?thesis using assms(1) ups c by (auto simp: distinct_map dest: inj_onD)
  qed simp
  then show ?thesis using u ups old(1) by blast
qed

text \<open>A row that fits a table fits one with the same columns in another order, and more nullable ones.\<close>

lemma conforms_columns:
  assumes "conforms t names row" and "distinct (map fst (ptColumns t))"
    and "set cs = set (ptColumns t) \<union> set extra" and "distinct (map fst cs)" and "list_all (\<lambda>(c, ty, n). n = Nullable) extra"
  shows "conforms (t\<lparr>ptColumns := cs\<rparr>) names row"
proof -
  have m: "map_of cs c = map_of (ptColumns t) c" if c: "c \<in> fst ` set (ptColumns t)" for c
  proof -
    obtain p where p: "p \<in> set (ptColumns t)" "c = fst p" using c by blast
    define ty where "ty = snd p"
    have ty: "(c, ty) \<in> set (ptColumns t)" using p by (simp add: ty_def)
    have "(c, ty) \<in> set cs" using ty assms(3) by simp
    then show ?thesis
      using map_of_is_SomeI [OF assms(2) ty] map_of_is_SomeI [OF assms(4)] by simp
  qed
  have a: "list_all2 (\<lambda>c v. case map_of (ptColumns t) c of None \<Rightarrow> False | Some ty \<Rightarrow> admits ty v) names row"
    using assms(1) by (simp add: conforms_def)
  have "list_all2 (\<lambda>c v. case map_of cs c of None \<Rightarrow> False | Some ty \<Rightarrow> admits ty v) names row"
  proof (rule list_all2_mono [OF a])
    fix c v
    assume v: "case map_of (ptColumns t) c of None \<Rightarrow> False | Some ty \<Rightarrow> admits ty v"
    then obtain ty where ty: "map_of (ptColumns t) c = Some ty" by (cases "map_of (ptColumns t) c") simp_all
    then have "c \<in> fst ` set (ptColumns t)" by (metis fst_conv image_eqI map_of_SomeD)
    from m [OF this] show "case map_of cs c of None \<Rightarrow> False | Some ty \<Rightarrow> admits ty v" using v ty by simp
  qed
  moreover have "list_all (\<lambda>(c, ty, n). if n = NotNull then c \<in> set names else True) cs"
    using assms(1,3,5) by (fastforce simp: conforms_def list_all_iff)
  ultimately show ?thesis using assms(1) by (simp add: conforms_def)
qed

fun created_columns :: "ddl list \<Rightarrow> column list" where
  "created_columns (CreateTable cols # ds) = cols"
| "created_columns ds = []"

definition upgradable :: "pg_identifier \<Rightarrow> ddl list \<Rightarrow> schema \<Rightarrow> bool" where
  "upgradable table script s =
     (case smTables s table of
        None \<Rightarrow> True
      | Some old \<Rightarrow> older_version (created_columns script) (added_columns script) old)"

definition columns_after :: "pg_identifier \<Rightarrow> ddl list \<Rightarrow> schema \<Rightarrow> column list option" where
  "columns_after table script s = Option.bind (run_ddl table script s) (\<lambda>s'. smTables s' table)"

definition up_to_date :: "ddl list \<Rightarrow> column list option \<Rightarrow> bool" where
  "up_to_date script cs = (case cs of None \<Rightarrow> False
     | Some cs \<Rightarrow> set cs = set (created_columns script) \<and> distinct (map fst cs))"

text \<open>What a script needs: every index comes after the columns it names, even where they are added.\<close>

definition script_ok :: "ddl list \<Rightarrow> bool" where
  "script_ok script \<longleftrightarrow>
     distinct (map fst (created_columns script)) \<and>
     list_all (\<lambda>c. c \<in> set (created_columns script)) (added_columns script) \<and>
     indexes_ready (map fst (filter (\<lambda>c. fst c \<notin> fst ` set (added_columns script)) (created_columns script))) script \<and>
     (case script of CreateTable cols # ds \<Rightarrow> True | _ \<Rightarrow> False)"

lemma script_upgrades:
  assumes ok: "script_ok script" and up: "upgradable table script s"
  shows "up_to_date script (columns_after table script s)"
proof -
  let ?full = "created_columns script" and ?ups = "added_columns script"
  let ?base = "map fst (filter (\<lambda>c. fst c \<notin> fst ` set ?ups) ?full)"
  obtain cols ds where script: "script = CreateTable cols # ds"
    using ok by (auto simp: script_ok_def split: list.splits ddl.splits)
  have d: "distinct (map fst ?full)" "list_all (\<lambda>c. c \<in> set ?full) ?ups" and ready: "indexes_ready ?base ds"
    using ok script by (auto simp: script_ok_def)
  obtain s1 old where s1: "exec_ddl table (CreateTable cols) s = Some s1" "smTables s1 table = Some old"
    "older_version ?full ?ups old"
  proof (cases "smTables s table")
    case None
    have "older_version ?full ?ups cols"
      using d(1) script by (simp add: older_version_def list_all_iff)
    let ?s = "s\<lparr>smTables := (smTables s)(table \<mapsto> cols)\<rparr>"
    have "exec_ddl table (CreateTable cols) s = Some ?s" "smTables ?s table = Some cols" by (simp_all add: None)
    from that [OF this] show ?thesis using \<open>older_version ?full ?ups cols\<close> by blast
  next
    case (Some old)
    then show ?thesis
      by (rule that [of s old, rotated])
        (use up Some in \<open>simp_all only: exec_ddl.simps option.case upgradable_def\<close>)
  qed
  have "c \<in> set old" if "c \<in> set ?full" "fst c \<notin> fst ` set ?ups" for c
    using s1(3) that by (auto simp: older_version_def list_all_iff)
  then have "set ?base \<subseteq> set (map fst old)" by auto
  from run_ready [OF ready s1(2) this] obtain s' where s': "run_ddl table ds s1 = Some s'"
    "smTables s' table = Some (foldl (\<lambda>cs c. add_column c cs) old (added_columns ds))" by blast
  have "added_columns ds = ?ups" by (simp add: script)
  moreover have "run_ddl table script s = Some s'" using s1(1) s'(1) script by simp
  ultimately show ?thesis
    using upgraded_columns [OF d s1(3)] s'(2) by (simp add: columns_after_def up_to_date_def)
qed

lemmas script_ok_simps = script_ok_def samplesScript_def samplesDDL_def sqlTextsScript_def sqlTextsDDL_def
  sqlCursorMetadataScript_def sqlCursorMetadataDDL_def sqlPlansScript_def sqlPlansDDL_def sqlSamplesScript_def
  sqlSamplesDDL_def sessionSamplesScript_def sessionSamplesDDL_def blockingSessionsScript_def
  blockingSessionsDDL_def databaseActivityScript_def databaseActivityDDL_def repositoryIngestScript_def
  repositoryIngestDDL_def databaseStatusScript_def databaseStatusDDL_def instanceScript_def instanceDDL_def
  resourceLimitScript_def resourceLimitDDL_def tablespaceScript_def tablespaceDDL_def asmDiskgroupScript_def
  asmDiskgroupDDL_def systemCounterScript_def systemCounterDDL_def waitClassScript_def waitClassDDL_def
  systemMetricScript_def systemMetricDDL_def scrapeStatusScript_def scrapeStatusDDL_def
  latestScrapeStatusScript_def latestScrapeStatusDDL_def dataGuardDestinationScript_def
  dataGuardDestinationDDL_def dataGuardLagScript_def dataGuardLagDDL_def dataGuardProcessScript_def
  dataGuardProcessDDL_def runtimeSamplesScript_def runtimeSamplesDDL_def latestRuntimeStatusScript_def
  latestRuntimeStatusDDL_def connectionStateScript_def connectionStateDDL_def

lemma scripts_ok:
   "script_ok samplesScript" "script_ok sqlTextsScript" "script_ok sqlCursorMetadataScript"
  "script_ok sqlPlansScript" "script_ok sqlSamplesScript" "script_ok sessionSamplesScript"
  "script_ok blockingSessionsScript" "script_ok databaseActivityScript" "script_ok repositoryIngestScript"
  "script_ok databaseStatusScript" "script_ok instanceScript" "script_ok resourceLimitScript"
  "script_ok tablespaceScript" "script_ok asmDiskgroupScript" "script_ok systemCounterScript"
  "script_ok waitClassScript" "script_ok systemMetricScript" "script_ok scrapeStatusScript"
  "script_ok latestScrapeStatusScript" "script_ok dataGuardDestinationScript" "script_ok dataGuardLagScript"
  "script_ok dataGuardProcessScript" "script_ok runtimeSamplesScript" "script_ok latestRuntimeStatusScript"
  "script_ok connectionStateScript"
  by code_simp+

lemmas schema_DDL_defs = mainSchemaDDL_def repositoryIngestSchemaDDL_def operationalSchemaDDL_def
  dataGuardSchemaDDL_def runtimeSchemaDDL_def connectionStateSchemaDDL_def

definition schema_scripts :: "SinkTables \<Rightarrow> (pg_identifier \<times> ddl list) list" where
  "schema_scripts tb = mainSchemaDDL tb @ repositoryIngestSchemaDDL tb @ operationalSchemaDDL tb @
     dataGuardSchemaDDL tb @ runtimeSchemaDDL tb @ connectionStateSchemaDDL tb"

lemma run_scripts_append:
  "run_scripts (xs @ ys) s = Option.bind (run_scripts xs s) (run_scripts ys)"
  by (induction xs s rule: run_scripts.induct) (auto split: option.splits)

lemma migrate_schema_scripts: "migrate_schema tb = run_scripts (schema_scripts tb)"
  unfolding migrate_schema_def schema_scripts_def run_scripts_append by (rule ext) (simp add: fun_eq_iff)

lemma schema_scripts_ok: "list_all (\<lambda>(table, script). script_ok script) (schema_scripts tb)"
  using scripts_ok by (simp only: schema_scripts_def schema_DDL_defs list_all_append list.pred_inject prod.case simp_thms)

section \<open>All tables of an older repository\<close>

lemma scripts_upgrade:
  assumes "distinct (map fst xs)" and "list_all (\<lambda>(table, script). script_ok script) xs"
    and "list_all (\<lambda>(table, script). upgradable table script s) xs"
  shows "\<exists>s'. run_scripts xs s = Some s' \<and>
    list_all (\<lambda>(table, script). up_to_date script (smTables s' table)) xs \<and>
    (\<forall>table. table \<notin> fst ` set xs \<longrightarrow> smTables s' table = smTables s table)"
  using assms
proof (induction xs arbitrary: s)
  case (Cons x xs)
  obtain table script where x: "x = (table, script)" by (cases x)
  have "up_to_date script (columns_after table script s)"
    using Cons.prems(2,3) x by (intro script_upgrades) simp_all
  then obtain s1 where s1: "run_ddl table script s = Some s1" "up_to_date script (smTables s1 table)"
    by (auto simp: up_to_date_def columns_after_def split: option.splits bind_splits)
  note others = run_ddl_tables [OF s1(1)]
  have "list_all (\<lambda>(table, script). upgradable table script s1) xs"
    unfolding list_all_iff
  proof (intro ballI, clarify)
    fix other ds assume a: "(other, ds) \<in> set xs"
    then have "other \<noteq> table" using Cons.prems(1) x by (auto intro: rev_image_eqI)
    moreover have "upgradable other ds s" using Cons.prems(3) a by (auto simp: list_all_iff)
    ultimately show "upgradable other ds s1" using others by (simp add: upgradable_def)
  qed
  then obtain s' where s': "run_scripts xs s1 = Some s'"
    "list_all (\<lambda>(table, script). up_to_date script (smTables s' table)) xs"
    "\<forall>table. table \<notin> fst ` set xs \<longrightarrow> smTables s' table = smTables s1 table"
    using Cons.IH [of s1] Cons.prems(1,2) by auto
  have "table \<notin> fst ` set xs" using Cons.prems(1) x by simp
  with s'(3) s1(2) have "up_to_date script (smTables s' table)" by simp
  then show ?case using x s1(1) s' others by simp
qed simp

text \<open>A later state has the tables, their columns and the indexes of an earlier one; a statement that was run is idle in it.\<close>

definition extends :: "schema \<Rightarrow> schema \<Rightarrow> bool" where
  "extends s s' \<longleftrightarrow>
     (\<forall>t cs. smTables s t = Some cs \<longrightarrow>
        (\<exists>cs'. smTables s' t = Some cs' \<and> set (map fst cs) \<subseteq> set (map fst cs'))) \<and>
     (\<forall>i. smIndexes s i \<noteq> None \<longrightarrow> smIndexes s' i \<noteq> None)"

lemma extends_refl [simp]: "extends s s"
  by (simp add: extends_def)

lemma extends_trans: "extends s s1 \<Longrightarrow> extends s1 s2 \<Longrightarrow> extends s s2"
  unfolding extends_def by (meson subset_trans)

lemma extends_table:
  "extends s s' \<Longrightarrow> smTables s t = Some cs \<Longrightarrow> \<exists>cs'. smTables s' t = Some cs' \<and> set (map fst cs) \<subseteq> set (map fst cs')"
  unfolding extends_def by blast

lemma add_column_names: "fst ` set cs \<subseteq> fst ` set (add_column c cs)"
  by (auto simp: add_column_def)

lemma exec_ddl_extends:
  assumes "exec_ddl table d s = Some s'"
  shows "extends s s'"
proof (cases d)
  case (AddColumn c)
  then obtain cs where cs: "smTables s table = Some cs" "s' = s\<lparr>smTables := (smTables s)(table \<mapsto> add_column c cs)\<rparr>"
    using assms by (auto split: option.splits)
  then show ?thesis using add_column_names [of cs c] by (simp add: extends_def)
qed (use assms in \<open>auto simp: extends_def split: option.splits if_splits\<close>)

lemma exec_ddl_idle:
  assumes "exec_ddl table d s = Some s1" and "extends s1 s2"
  shows "exec_ddl table d s2 = Some s2"
proof (cases d)
  case (CreateTable cols)
  obtain cs where "smTables s1 table = Some cs" using assms(1) CreateTable by (auto split: option.splits)
  from extends_table [OF assms(2) this] obtain cs' where "smTables s2 table = Some cs'" by blast
  then show ?thesis using CreateTable by simp
next
  case (CreateIndex name cols)
  obtain cs where cs: "smTables s1 table = Some cs" "smIndexes s1 (siblingIdentifier table name) \<noteq> None"
    using assms(1) CreateIndex by (auto split: option.splits if_splits)
  from extends_table [OF assms(2) cs(1)] obtain cs' where "smTables s2 table = Some cs'" by blast
  moreover have "smIndexes s2 (siblingIdentifier table name) \<noteq> None" using assms(2) cs(2) unfolding extends_def by blast
  ultimately show ?thesis using CreateIndex by simp
next
  case (AddColumn c)
  obtain old where "smTables s table = Some old" "s1 = s\<lparr>smTables := (smTables s)(table \<mapsto> add_column c old)\<rparr>"
    using assms(1) AddColumn by (auto split: option.splits)
  then have "smTables s1 table = Some (add_column c old)" "fst c \<in> set (map fst (add_column c old))"
    by (simp_all add: add_column_def)
  then obtain cs where cs: "smTables s1 table = Some cs" "fst c \<in> set (map fst cs)" by blast
  from extends_table [OF assms(2) cs(1)]
  obtain cs' where cs': "smTables s2 table = Some cs'" "set (map fst cs) \<subseteq> set (map fst cs')" by blast
  then have "add_column c cs' = cs'" using cs(2) by (simp add: add_column_def subset_iff)
  then show ?thesis using AddColumn cs'(1) by (simp add: fun_upd_idem)
qed

lemma run_ddl_extends: "run_ddl table ds s = Some s' \<Longrightarrow> extends s s'"
  by (induction table ds s rule: run_ddl.induct) (auto split: option.splits dest: exec_ddl_extends intro: extends_trans)

lemma run_ddl_idle: "run_ddl table ds s = Some s1 \<Longrightarrow> extends s1 s2 \<Longrightarrow> run_ddl table ds s2 = Some s2"
proof (induction table ds s rule: run_ddl.induct)
  case (2 table d ds s)
  then obtain s' where s': "exec_ddl table d s = Some s'" "run_ddl table ds s' = Some s1" by (auto split: option.splits)
  have "extends s' s2" by (rule extends_trans [OF run_ddl_extends [OF s'(2)] 2(3)])
  from exec_ddl_idle [OF s'(1) this] 2(1) [OF s'(1) s'(2) 2(3)] show ?case by simp
qed simp

lemma run_scripts_extends: "run_scripts xs s = Some s' \<Longrightarrow> extends s s'"
  by (induction xs s rule: run_scripts.induct) (auto split: option.splits dest: run_ddl_extends intro: extends_trans)

lemma run_scripts_idle: "run_scripts xs s = Some s1 \<Longrightarrow> extends s1 s2 \<Longrightarrow> run_scripts xs s2 = Some s2"
proof (induction xs s rule: run_scripts.induct)
  case (2 table ds xs s)
  then obtain s' where s': "run_ddl table ds s = Some s'" "run_scripts xs s' = Some s1" by (auto split: option.splits)
  have "extends s' s2" by (rule extends_trans [OF run_scripts_extends [OF s'(2)] 2(3)])
  from run_ddl_idle [OF s'(1) this] 2(1) [OF s'(1) s'(2) 2(3)] show ?case by simp
qed simp

text \<open>
  C32: When every table of the configuration has a name of its own, and each is absent or has the columns of an older
  version (the present ones less some that were added since), then the migrations run without an
  error, every table has exactly its present columns, and running the migrations again changes nothing.\<close>
theorem older_schema_upgraded:
  assumes "distinct (map fst (schema_scripts tb))"
    and "list_all (\<lambda>(table, script). upgradable table script s) (schema_scripts tb)"
  shows "\<exists>s'. migrate_schema tb s = Some s' \<and>
    list_all (\<lambda>(table, script). up_to_date script (smTables s' table)) (schema_scripts tb) \<and>
    migrate_schema tb s' = Some s'"
proof -
  from scripts_upgrade [OF assms(1) schema_scripts_ok assms(2)] obtain s' where
    "run_scripts (schema_scripts tb) s = Some s'"
    "list_all (\<lambda>(table, script). up_to_date script (smTables s' table)) (schema_scripts tb)"
    by blast
  moreover from run_scripts_idle [OF this(1) extends_refl] have "run_scripts (schema_scripts tb) s' = Some s'" .
  ultimately show ?thesis by (auto simp: migrate_schema_scripts)
qed

definition oldRepository :: schema where
  "oldRepository =
     \<lparr>smTables = [tablespaceTable example_tables \<mapsto>
        filter (\<lambda>c. c \<notin> set (added_columns tablespaceScript)) (ptColumns tablespaceDDL)],
      smIndexes = Map.empty\<rparr>"

lemma example_tables_distinct: "distinct (map fst (schema_scripts example_tables))"
  by (simp add: schema_scripts_def schema_DDL_defs example_tables_def sink_tables_def identifier_of_def
      siblingIdentifier_def Let_def)

lemma older_schema_upgraded_witness:
  "\<exists>s'. migrate_schema example_tables oldRepository = Some s' \<and>
     up_to_date tablespaceScript (smTables s' (tablespaceTable example_tables)) \<and>
     \<not> up_to_date tablespaceScript (smTables oldRepository (tablespaceTable example_tables)) \<and>
     migrate_schema example_tables s' = Some s'"
proof -
  let ?t = "tablespaceTable example_tables"
  have old: "upgradable ?t tablespaceScript oldRepository"
    by (simp add: upgradable_def oldRepository_def older_version_def script_ok_simps)
  have mem: "(?t, tablespaceScript) \<in> set (schema_scripts example_tables)"
    by (simp add: schema_scripts_def schema_DDL_defs)
  have "upgradable table script oldRepository" if "(table, script) \<in> set (schema_scripts example_tables)" for table script
  proof (cases "table = ?t")
    case True
    have "script = tablespaceScript"
      using eq_key_imp_eq_value [OF example_tables_distinct] that mem True by blast
    then show ?thesis using old True by simp
  next
    case False
    then show ?thesis by (simp add: upgradable_def oldRepository_def)
  qed
  then have "list_all (\<lambda>(table, script). upgradable table script oldRepository) (schema_scripts example_tables)"
    by (auto simp: list_all_iff)
  from older_schema_upgraded [OF example_tables_distinct this] obtain s' where
    s': "migrate_schema example_tables oldRepository = Some s'"
    "list_all (\<lambda>(table, script). up_to_date script (smTables s' table)) (schema_scripts example_tables)"
    "migrate_schema example_tables s' = Some s'" by blast
  have "up_to_date tablespaceScript (smTables s' ?t)" using s'(2) mem by (auto simp: list_all_iff)
  moreover have "\<not> up_to_date tablespaceScript (smTables oldRepository ?t)"
    by (simp add: up_to_date_def oldRepository_def script_ok_simps insert_eq_iff)
  ultimately show ?thesis using s' by blast
qed

text \<open>A row that fits the table as it is created fits the table of any repository that is up to date.\<close>

lemma upgraded_rows_fit:
  assumes "up_to_date script (Some cs)" and "created_columns script = ptColumns t @ extra"
    and "distinct (map fst (ptColumns t))" and "list_all (\<lambda>(c, ty, n). n = Nullable) extra" and "conforms t names row"
  shows "conforms (t\<lparr>ptColumns := cs\<rparr>) names row"
proof (rule conforms_columns [OF assms(5,3) _ _ assms(4)])
  show "set cs = set (ptColumns t) \<union> set extra" and "distinct (map fst cs)"
    using assms(1,2) by (simp_all add: up_to_date_def)
qed

section \<open>A second table of activity samples\<close>

text \<open>
  The index names are fixed while the table names are configured. A second table that runs the script of the first in
  the same PostgreSQL schema finds every name taken, and gets no index: without the unique index the
  \<open>on conflict do nothing\<close> of the insert of activity samples has no conflict to find.
\<close>

lemma index_names_schema:
  assumes "butlast t1 = butlast t2"
  shows "index_names t1 ds = index_names t2 ds"
proof -
  have "siblingIdentifier t name = butlast t @ [name]" for t name
  proof (cases t rule: rev_cases)
    case (snoc ys y)
    then show ?thesis using siblingIdentifier_last [of t name] by simp
  qed (simp add: siblingIdentifier_def)
  then show ?thesis using assms by (induction t1 ds rule: index_names.induct) simp_all
qed

lemma second_table_unindexed:
  assumes "run_ddl t1 ds s = Some s1" and "run_ddl t2 ds s1 = Some s2" and "t1 \<noteq> t2" and "butlast t1 = butlast t2"
    and free: "list_all (\<lambda>index. smIndexes s index = None) (index_names t1 ds)" and "t2 \<notin> ran (smIndexes s)"
  shows "index \<in> set (index_names t1 ds) \<Longrightarrow> smIndexes s2 index = Some t1" and "t2 \<notin> ran (smIndexes s2)"
proof -
  note first = run_ddl_indexes [OF assms(1)] and second = run_ddl_indexes [OF assms(2)]
  have made: "smIndexes s1 index = Some t1" if n: "index \<in> set (index_names t1 ds)" for index
  proof -
    obtain u where u: "smIndexes s1 index = Some u" using first n by blast
    have "smIndexes s index = None" using free n by (simp add: list_all_iff)
    then show ?thesis using first [THEN conjunct2, THEN conjunct1, rule_format, OF u] u by simp
  qed
  show "smIndexes s2 index = Some t1" if "index \<in> set (index_names t1 ds)"
    by (rule second [THEN conjunct1, rule_format, OF made [OF that]])
  show "t2 \<notin> ran (smIndexes s2)"
  proof
    assume "t2 \<in> ran (smIndexes s2)"
    then obtain index where "smIndexes s2 index = Some t2" by (auto simp: ran_def)
    from second [THEN conjunct2, THEN conjunct1, rule_format, OF this]
    consider "smIndexes s1 index = Some t2" | "smIndexes s1 index = None" "index \<in> set (index_names t2 ds)"
      by (elim disjE conjE)
    then show False
    proof cases
      case 1
      from first [THEN conjunct2, THEN conjunct1, rule_format, OF this]
      have "smIndexes s index = Some t2" using assms(3) by (elim disjE conjE) simp_all
      then show False using assms(6) by (auto simp: ran_def)
    next
      case 2
      then show False using made index_names_schema [OF assms(4), of ds] by simp
    qed
  qed
qed

definition uniqueActivityIndex :: "pg_identifier \<Rightarrow> pg_identifier" where
  "uniqueActivityIndex table = siblingIdentifier table ''oracle_database_activity_samples_unique_idx''"

text \<open>
  C31: When the table of the activity samples is migrated under one name and later under another in the same schema
  that had no index of these names before, then the second table has no index at all, and the unique index
  stays on the first.\<close>
theorem renamed_table_unindexed:
  assumes "run_ddl t1 databaseActivityScript s = Some s1" and "run_ddl t2 databaseActivityScript s1 = Some s2"
    and "t1 \<noteq> t2" and "butlast t1 = butlast t2"
    and "list_all (\<lambda>index. smIndexes s index = None) (index_names t1 databaseActivityScript)"
    and "t2 \<notin> ran (smIndexes s)"
  shows "smIndexes s2 (uniqueActivityIndex t2) = Some t1 \<and> t2 \<notin> ran (smIndexes s2)"
proof -
  have "uniqueActivityIndex t2 \<in> set (index_names t2 databaseActivityScript)"
    by (simp add: databaseActivityScript_def uniqueActivityIndex_def)
  then have "uniqueActivityIndex t2 \<in> set (index_names t1 databaseActivityScript)"
    using index_names_schema [OF assms(4)] by simp
  from second_table_unindexed(1) [OF assms this] second_table_unindexed(2) [OF assms] show ?thesis by (rule conjI)
qed

lemma renamed_table_unindexed_witness:
  "\<exists>s1 s2. run_ddl [''samples''] databaseActivityScript \<lparr>smTables = Map.empty, smIndexes = Map.empty\<rparr> = Some s1 \<and>
     run_ddl [''samples_2''] databaseActivityScript s1 = Some s2 \<and> smTables s2 [''samples_2''] \<noteq> None \<and>
     smIndexes s2 (uniqueActivityIndex [''samples_2'']) = Some [''samples''] \<and> [''samples_2''] \<notin> ran (smIndexes s2)"
proof -
  let ?s = "\<lparr>smTables = Map.empty, smIndexes = Map.empty\<rparr> :: schema"
  have d: "\<exists>s'. run_ddl table databaseActivityScript s = Some s' \<and> smTables s' table \<noteq> None"
    if "smTables s table = None" for table s
    using script_upgrades [OF scripts_ok(8), of table s] that
    by (auto simp: up_to_date_def columns_after_def upgradable_def split: option.splits bind_splits)
  obtain s1 where s1: "run_ddl [''samples''] databaseActivityScript ?s = Some s1" using d [of ?s "[''samples'']"] by auto
  have "smTables s1 [''samples_2''] = None" using run_ddl_tables [OF s1, of "[''samples_2'']"] by simp
  then obtain s2 where s2: "run_ddl [''samples_2''] databaseActivityScript s1 = Some s2" "smTables s2 [''samples_2''] \<noteq> None"
    using d [of s1 "[''samples_2'']"] by blast
  have "smIndexes s2 (uniqueActivityIndex [''samples_2'']) = Some [''samples''] \<and> [''samples_2''] \<notin> ran (smIndexes s2)"
    by (rule renamed_table_unindexed [OF s1 s2(1)]) (simp_all add: list_all_iff)
  then show ?thesis using s1 s2 by blast
qed

end
