(* ===== verification/OracleSQL.thy ===== *)
theory OracleSQL
  imports Queries SqlNull
begin

text \<open>
  What the SQL texts of the collectors use of the language: the three truth values of a condition, joins,
  groups with their aggregates, orders, and the conversion of a computed column by
  \<open>rows.Scan\<close>. A nullable value is an option. A table is the list of its rows in the order in which the
  server reads them, which the theorems leave open. A number that a text computes is an unbounded
  integer until it is scanned.
\<close>

section \<open>Conditions\<close>

type_synonym truth = "bool option"

definition sql_and :: "truth \<Rightarrow> truth \<Rightarrow> truth" where
  "sql_and p q = (if p = Some False \<or> q = Some False then Some False
                  else if p = None \<or> q = None then None else Some True)"

definition sql_or :: "truth \<Rightarrow> truth \<Rightarrow> truth" where
  "sql_or p q = (if p = Some True \<or> q = Some True then Some True
                 else if p = None \<or> q = None then None else Some False)"

text \<open>A comparison is unknown as soon as one side is null.\<close>

definition compared :: "('a \<Rightarrow> 'a \<Rightarrow> bool) \<Rightarrow> 'a option \<Rightarrow> 'a option \<Rightarrow> truth" where
  "compared f a b = (case a of None \<Rightarrow> None | Some x \<Rightarrow> map_option (f x) b)"

abbreviation sql_eq :: "'a option \<Rightarrow> 'a option \<Rightarrow> truth" where "sql_eq \<equiv> compared (\<lambda>x y. x = y)"
abbreviation sql_neq :: "'a option \<Rightarrow> 'a option \<Rightarrow> truth" where "sql_neq \<equiv> compared (\<lambda>x y. x \<noteq> y)"

definition is_not_null :: "'a option \<Rightarrow> truth" where "is_not_null a = Some (a \<noteq> None)"

definition sql_in :: "'a option \<Rightarrow> 'a list \<Rightarrow> truth" where "sql_in a xs = map_option (\<lambda>x. x \<in> set xs) a"

text \<open>A row is taken when its condition is true, not when it is unknown.\<close>

definition holds :: "truth \<Rightarrow> bool" where "holds p \<longleftrightarrow> p = Some True"

definition rows_where :: "('r \<Rightarrow> truth) \<Rightarrow> 'r list \<Rightarrow> 'r list" where
  "rows_where p rows = filter (\<lambda>r. holds (p r)) rows"

definition case_when :: "truth \<Rightarrow> 'a option \<Rightarrow> 'a option \<Rightarrow> 'a option" where
  "case_when p a b = (if holds p then a else b)"

definition nvl :: "'a option \<Rightarrow> 'a \<Rightarrow> 'a" where "nvl a b = (case a of None \<Rightarrow> b | Some x \<Rightarrow> x)"

lemma holds_and [simp]: "holds (sql_and p q) \<longleftrightarrow> holds p \<and> holds q"
  by (cases p; cases q) (auto simp: holds_def sql_and_def)

lemma holds_or [simp]: "holds (sql_or p q) \<longleftrightarrow> holds p \<or> holds q"
  by (cases p; cases q) (auto simp: holds_def sql_or_def)

lemma holds_compared [simp]: "holds (compared f a b) \<longleftrightarrow> (\<exists>x y. a = Some x \<and> b = Some y \<and> f x y)"
  by (cases a; cases b) (auto simp: holds_def compared_def)

lemma holds_is_not_null [simp]: "holds (is_not_null a) \<longleftrightarrow> a \<noteq> None"
  by (simp add: holds_def is_not_null_def)

lemma holds_in [simp]: "holds (sql_in a xs) \<longleftrightarrow> (\<exists>x. a = Some x \<and> x \<in> set xs)"
  by (cases a) (auto simp: holds_def sql_in_def)

lemma holds_Some [simp]: "holds (Some b) \<longleftrightarrow> b" by (simp add: holds_def)

section \<open>Joins\<close>

definition inner_join :: "('a \<Rightarrow> 'b \<Rightarrow> truth) \<Rightarrow> 'a list \<Rightarrow> 'b list \<Rightarrow> ('a \<times> 'b) list" where
  "inner_join cond as bs = concat (map (\<lambda>a. map (Pair a) (filter (\<lambda>b. holds (cond a b)) bs)) as)"

definition left_join :: "('a \<Rightarrow> 'b \<Rightarrow> truth) \<Rightarrow> 'a list \<Rightarrow> 'b list \<Rightarrow> ('a \<times> 'b option) list" where
  "left_join cond as bs = concat (map (\<lambda>a.
     case filter (\<lambda>b. holds (cond a b)) bs of
       [] \<Rightarrow> [(a, None)]
     | matches \<Rightarrow> map (\<lambda>b. (a, Some b)) matches) as)"

text \<open>A left join whose condition has at most one match for a row is a lookup.\<close>

definition the_match :: "('b \<Rightarrow> truth) \<Rightarrow> 'b list \<Rightarrow> 'b option" where
  "the_match p bs = (case filter (\<lambda>b. holds (p b)) bs of [] \<Rightarrow> None | b # _ \<Rightarrow> Some b)"

lemma filter_key_unique:
  assumes "distinct (map key bs)" and "\<And>b. p b \<Longrightarrow> key b = k"
  shows "\<exists>b. filter p bs = [] \<or> filter p bs = [b]"
proof -
  have d: "distinct (map key (filter p bs))" using assms(1) by (simp add: distinct_map_filter)
  show ?thesis
  proof (cases "filter p bs")
    case (Cons b rest)
    show ?thesis
    proof (cases rest)
      case (Cons c rest')
      have "b \<in> set (filter p bs)" "c \<in> set (filter p bs)" using Cons \<open>filter p bs = b # rest\<close> by simp_all
      then have "key b = key c" using assms(2) by auto
      then show ?thesis using d \<open>filter p bs = b # rest\<close> Cons by simp
    qed (use Cons in simp)
  qed simp
qed

lemma filter_the_one:
  assumes "distinct (map key bs)" and "a \<in> set bs" and "p a" and "\<And>b. b \<in> set bs \<Longrightarrow> p b \<Longrightarrow> key b = key a"
  shows "filter p bs = [a]"
proof -
  have "filter p bs = filter (\<lambda>b. b = a) bs"
    using assms by (intro filter_cong) (auto simp: distinct_map dest: inj_onD)
  also have "\<dots> = [a]" using assms(1,2) by (induction bs) (auto simp: filter_empty_conv)
  finally show ?thesis .
qed

lemma the_match_Some:
  assumes "distinct (map key bs)" and "\<And>b. holds (p b) \<Longrightarrow> key b = k"
  shows "the_match p bs = Some b \<longleftrightarrow> b \<in> set bs \<and> holds (p b)"
proof -
  have m: "b \<in> set bs \<and> holds (p b) \<longleftrightarrow> b \<in> set (filter (\<lambda>b. holds (p b)) bs)" by auto
  obtain c where "filter (\<lambda>b. holds (p b)) bs = [] \<or> filter (\<lambda>b. holds (p b)) bs = [c]"
    using filter_key_unique [OF assms(1), of "\<lambda>b. holds (p b)" k] assms(2) by blast
  then show ?thesis unfolding m the_match_def by (elim disjE) (simp_all only: list.simps set_simps list.case, auto)
qed

lemma left_join_unique:
  assumes "distinct (map key bs)" and "\<And>a b. a \<in> set as \<Longrightarrow> holds (cond a b) \<Longrightarrow> key b = k a"
  shows "left_join cond as bs = map (\<lambda>a. (a, the_match (cond a) bs)) as"
  using assms(2)
proof (induction as)
  case (Cons a as)
  obtain b where "filter (\<lambda>b. holds (cond a b)) bs = [] \<or> filter (\<lambda>b. holds (cond a b)) bs = [b]"
    using filter_key_unique [OF assms(1), of "\<lambda>b. holds (cond a b)" "k a"] Cons.prems by auto
  then show ?case using Cons by (auto simp: left_join_def the_match_def)
qed (simp add: left_join_def)

section \<open>Groups\<close>

definition group_by :: "('r \<Rightarrow> 'k) \<Rightarrow> 'r list \<Rightarrow> ('k \<times> 'r list) list" where
  "group_by key rows = map (\<lambda>k. (k, filter (\<lambda>r. key r = k) rows)) (remdups (map key rows))"

lemma group_by_keys [simp]: "map fst (group_by key rows) = remdups (map key rows)"
  by (simp add: group_by_def comp_def)

lemma group_by_mem: "(k, rs) \<in> set (group_by key rows) \<longleftrightarrow> k \<in> key ` set rows \<and> rs = filter (\<lambda>r. key r = k) rows"
  by (auto simp: group_by_def)

lemma the_match_group:
  "the_match (\<lambda>g. sql_eq (Some (fst g)) (Some k)) (group_by key rows) =
     (if k \<in> key ` set rows then Some (k, filter (\<lambda>r. key r = k) rows) else None)"
proof -
  have "filter (\<lambda>g. fst g = k) (group_by key rows) =
      map (\<lambda>k. (k, filter (\<lambda>r. key r = k) rows)) (filter (\<lambda>j. j = k) (remdups (map key rows)))"
    by (simp add: group_by_def filter_map comp_def)
  moreover have "filter (\<lambda>j. j = k) xs = (if k \<in> set xs then [k] else [])" if "distinct xs" for xs
    using that by (induction xs) (auto simp: filter_empty_conv)
  ultimately show ?thesis by (simp add: the_match_def)
qed

definition known_values :: "'a option list \<Rightarrow> 'a list" where "known_values vs = map the (filter (\<lambda>v. v \<noteq> None) vs)"

definition sql_sum :: "int option list \<Rightarrow> int option" where
  "sql_sum vs = (if known_values vs = [] then None else Some (sum_list (known_values vs)))"

definition sql_max :: "'a::linorder option list \<Rightarrow> 'a option" where
  "sql_max vs = (case known_values vs of [] \<Rightarrow> None | x # xs \<Rightarrow> Some (foldl max x xs))"

lemma known_values_simps [simp]:
  "known_values [] = []" "known_values (None # vs) = known_values vs"
  "known_values (Some x # vs) = x # known_values vs"
  by (simp_all add: known_values_def)

lemma sql_sum_ones:
  "sql_sum (map (\<lambda>r. Some (if P r then 1 else 0)) rows) =
     (if rows = [] then None else Some (int (length (filter P rows))))"
proof -
  have "sum_list (known_values (map (\<lambda>r. Some (if P r then 1 else 0)) rows)) = int (length (filter P rows))"
    by (induction rows) simp_all
  moreover have "known_values (map (\<lambda>r. Some (if P r then 1 else (0::int))) rows) = [] \<longleftrightarrow> rows = []"
    by (induction rows) simp_all
  ultimately show ?thesis by (simp add: sql_sum_def)
qed

text \<open>\<open>order by column\<close> of a nullable number: nulls come last.\<close>

definition sort_nullable :: "('r \<Rightarrow> int64 option) \<Rightarrow> 'r list \<Rightarrow> 'r list" where
  "sort_nullable column rows =
     sort_key (\<lambda>r. column r = None) (sort_key (\<lambda>r. case column r of None \<Rightarrow> 0 | Some i \<Rightarrow> sint i) rows)"

section \<open>Scanned columns\<close>

text \<open>
  \<open>sql.NullInt64\<close> and its like; an integer target refuses what does not fit, and a plain one also a null.
  The error is that of the first such column; its text is not used.
\<close>

definition scan_null :: "'a \<Rightarrow> 'a option \<Rightarrow> 'a sql_null" where
  "scan_null zero v = (case v of None \<Rightarrow> (False, zero) | Some x \<Rightarrow> (True, x))"

definition scan_int :: "int option \<Rightarrow> int64 sql_null" where
  "scan_int v = scan_null 0 (map_option word_of_int v)"

definition fits :: "int option \<Rightarrow> bool" where
  "fits v = (case v of None \<Rightarrow> True | Some i \<Rightarrow> in_int64 i)"

definition scan_row :: "int option list \<Rightarrow> int option list \<Rightarrow> 'r \<Rightarrow> 'r result" where
  "scan_row plain nullable r =
     (if list_all (\<lambda>v. v \<noteq> None \<and> fits v) plain \<and> list_all fits nullable then Inr r
      else Inl (ErrText ''sql: Scan error''))"

lemma scan_null_simps [simp]:
  "stringPtr (scan_null s v) = v" "int64Ptr (scan_null n w) = w" "timePtr (scan_null t u) = u"
  by (simp_all add: stringPtr_def int64Ptr_def timePtr_def scan_null_def split: option.split)

lemma int64Ptr_scan_int [simp]: "int64Ptr (scan_int v) = map_option word_of_int v"
  by (simp add: scan_int_def)

text \<open>The answer of a server that runs a query to its end.\<close>

definition answered :: "'r result list \<Rightarrow> 'r query" where
  "answered rows = \<lparr>qDeadline = False, qError = None, qRows = rows, qRowsErr = None\<rparr>"

lemma scan_row_ok [simp]:
  "scan_row plain nullable r = Inr r' \<longleftrightarrow>
     r' = r \<and> list_all (\<lambda>v. v \<noteq> None \<and> fits v) plain \<and> list_all fits nullable"
  by (auto simp: scan_row_def)

end
