(* ===== verification/OraclePerf.thy ===== *)
theory OraclePerf
  imports OracleSQL SqlPerformance Activity
begin

text \<open>
  The queries of \<open>collector/performance.go\<close> and \<open>collector/activity.go\<close> as functions of the server's
  dynamic views, with the rows in the order of the select lists. A view is declared with the columns the
  queries read; a column that is scanned into a plain variable is declared without null.
\<close>

section \<open>The views\<close>

record gv_sqlstats =
  gqInstID :: int64
  gqSQLID :: "string option"
  gqPlanHashValue :: "int64 option"
  gqExecutions :: "int option"
  gqElapsedTime :: "int option"
  gqCpuTime :: "int option"
  gqUserIOWaitTime :: "int option"
  gqApplicationWaitTime :: "int option"
  gqConcurrencyWaitTime :: "int option"
  gqClusterWaitTime :: "int option"
  gqBufferGets :: "int option"
  gqDiskReads :: "int option"
  gqDirectWrites :: "int option"
  gqRowsProcessed :: "int option"
  gqFetches :: "int option"
  gqLoads :: "int option"
  gqInvalidations :: "int option"
  gqParseCalls :: "int option"
  gqLastActiveTime :: "time option"

record gv_sql =
  gcInstID :: int64
  gcSQLID :: string
  gcChildNumber :: int64
  gcPlanHashValue :: "int64 option"
  gcParsingSchemaName :: "string option"
  gcModule :: "string option"
  gcSQLFullText :: "string option"
  gcElapsedTime :: int

record gv_session =
  gsInstID :: int64
  gsSID :: int64
  gsSerial :: "int64 option"
  gsUserID :: "int64 option"
  gsUsername :: "string option"
  gsStatus :: "string option"
  gsType :: "string option"
  gsAudsid :: "int option"
  gsSQLID :: "string option"
  gsSQLChildNumber :: "int64 option"
  gsSQLExecID :: "int64 option"
  gsSQLExecStart :: "time option"
  gsPrevSQLID :: "string option"
  gsEvent :: "string option"
  gsWaitClass :: "string option"
  gsState :: "string option"
  gsSecondsInWait :: "int64 option"
  gsWaitTimeMicro :: "int64 option"
  gsBlockingInstance :: "int64 option"
  gsBlockingSession :: "int64 option"
  gsRowWaitObj :: "int64 option"
  gsRowWaitFile :: "int64 option"
  gsRowWaitBlock :: "int64 option"
  gsMachine :: "string option"
  gsProgram :: "string option"
  gsModule :: "string option"
  gsAction :: "string option"
  gsServiceName :: "string option"
  gsClientIdentifier :: "string option"
  gsLogonTime :: "time option"
  gsConID :: "int64 option"

section \<open>Cumulative SQL statistics\<close>

text \<open>
  \<open>where q.sql_id is not null and q.last_active_time >= sysdate - (:1 / 86400)\<close>: the bind is a number of
  seconds, a date minus a number goes back that many days.
\<close>

definition recently_active :: "time \<Rightarrow> rat \<Rightarrow> gv_sqlstats \<Rightarrow> truth" where
  "recently_active sysdate lookback q =
     map_option (\<lambda>t. of_int (sysdate - t) \<le> lookback * of_int second) (gqLastActiveTime q)"

definition sql_candidates :: "time \<Rightarrow> rat \<Rightarrow> gv_sqlstats list \<Rightarrow> gv_sqlstats list" where
  "sql_candidates sysdate lookback view =
     rows_where (\<lambda>q. sql_and (is_not_null (gqSQLID q)) (recently_active sysdate lookback q)) view"

definition sql_group_key :: "gv_sqlstats \<Rightarrow> int64 \<times> string option \<times> int64 option" where
  "sql_group_key q = (gqInstID q, gqSQLID q, gqPlanHashValue q)"

definition sum_of :: "gv_sqlstats list \<Rightarrow> (gv_sqlstats \<Rightarrow> int option) \<Rightarrow> int option" where
  "sum_of qs column = sql_sum (map column qs)"

definition sql_columns :: "(gv_sqlstats \<Rightarrow> int option) list" where
  "sql_columns = [gqExecutions, gqElapsedTime, gqCpuTime, gqUserIOWaitTime, gqApplicationWaitTime,
     gqConcurrencyWaitTime, gqClusterWaitTime, gqBufferGets, gqDiskReads, gqDirectWrites, gqRowsProcessed,
     gqFetches, gqLoads, gqInvalidations, gqParseCalls]"

definition sql_row :: "(int64 \<times> string option \<times> int64 option) \<times> gv_sqlstats list \<Rightarrow> SQLRow result" where
  "sql_row g = (case g of ((inst, sql, plan), qs) \<Rightarrow>
     scan_row [] (map (sum_of qs) sql_columns)
       \<lparr>rsqInstID = inst, rsqSQLID = nvl sql [], rsqChildNumber = scan_int None,
        rsqPlanHashValue = scan_null 0 plan, rsqParsingSchema = scan_null [] None, rsqModule = scan_null [] None,
        rsqExecutions = scan_int (sum_of qs gqExecutions), rsqElapsedTime = scan_int (sum_of qs gqElapsedTime),
        rsqCpuTime = scan_int (sum_of qs gqCpuTime), rsqUserIOWait = scan_int (sum_of qs gqUserIOWaitTime),
        rsqApplicationWait = scan_int (sum_of qs gqApplicationWaitTime),
        rsqConcurrencyWait = scan_int (sum_of qs gqConcurrencyWaitTime),
        rsqClusterWait = scan_int (sum_of qs gqClusterWaitTime), rsqBufferGets = scan_int (sum_of qs gqBufferGets),
        rsqDiskReads = scan_int (sum_of qs gqDiskReads), rsqDirectWrites = scan_int (sum_of qs gqDirectWrites),
        rsqRowsProcessed = scan_int (sum_of qs gqRowsProcessed), rsqFetches = scan_int (sum_of qs gqFetches),
        rsqLoads = scan_int (sum_of qs gqLoads), rsqInvalidations = scan_int (sum_of qs gqInvalidations),
        rsqParseCalls = scan_int (sum_of qs gqParseCalls),
        rsqLastActiveTime = scan_null 0 (sql_max (map gqLastActiveTime qs))\<rparr>)"

text \<open>\<open>order by max(q.last_active_time) desc\<close>; no candidate has a null time.\<close>

definition sqlPerformanceQuery :: "time \<Rightarrow> gv_sqlstats list \<Rightarrow> rat \<Rightarrow> SQLRow result list" where
  "sqlPerformanceQuery sysdate view lookback =
     map sql_row (sort_key (\<lambda>(k, qs). case sql_max (map gqLastActiveTime qs) of None \<Rightarrow> 0 | Some t \<Rightarrow> - t)
       (group_by sql_group_key (sql_candidates sysdate lookback view)))"

section \<open>Statement details and plans\<close>

text \<open>The select of \<open>buildSQLDetailQuery\<close>: the child with the most elapsed time of every statement, instance and plan.\<close>

definition sql_detail_row :: "gv_sql \<Rightarrow> SQLDetailRow" where
  "sql_detail_row q =
     \<lparr>rsdInstID = gcInstID q, rsdSQLID = gcSQLID q, rsdChildNumber = scan_null 0 (Some (gcChildNumber q)),
      rsdPlanHashValue = scan_null 0 (gcPlanHashValue q), rsdParsingSchema = scan_null [] (gcParsingSchemaName q),
      rsdModule = scan_null [] (gcModule q), rsdSqlFullText = scan_null [] (gcSQLFullText q)\<rparr>"

text \<open>Every group in the order of \<open>elapsed_time desc, child_number\<close>; the result by statement, instance, plan and child.\<close>

definition top_child :: "gv_sql list \<Rightarrow> gv_sql" where
  "top_child qs = hd (sort_key (\<lambda>q. - gcElapsedTime q) (sort_key (\<lambda>q. sint (gcChildNumber q)) qs))"

definition sqlDetailQuery :: "string list \<Rightarrow> gv_sql list \<Rightarrow> SQLDetailRow list" where
  "sqlDetailQuery sqlIDs view =
     map sql_detail_row
       (sort_key gcSQLID (sort_key (\<lambda>q. sint (gcInstID q)) (sort_nullable gcPlanHashValue
         (sort_key (\<lambda>q. sint (gcChildNumber q))
           (map (\<lambda>(k, qs). top_child qs)
             (group_by (\<lambda>q. (gcInstID q, gcSQLID q, gcPlanHashValue q))
               (rows_where (\<lambda>q. sql_in (Some (gcSQLID q)) sqlIDs) view)))))))"

text \<open>The view \<open>gv$sql_plan\<close> with the columns of the select list; one condition per candidate.\<close>

definition plan_row_key :: "SQLPlanRow \<Rightarrow> SQLPlanKey" where
  "plan_row_key p = \<lparr>pkInstID = rplInstID p, pkSQLID = rplSQLID p, pkChildNumber = rplChildNumber p,
     pkPlanHashValue = rplPlanHashValue p\<rparr>"

definition sqlPlanQuery :: "SQLPlanKey list \<Rightarrow> SQLPlanRow list \<Rightarrow> SQLPlanRow list" where
  "sqlPlanQuery candidates view =
     sort_key (\<lambda>p. sint (rplInstID p)) (sort_key rplSQLID (sort_key (\<lambda>p. sint (rplChildNumber p))
       (sort_key (\<lambda>p. sint (rplPlanHashValue p)) (sort_key (\<lambda>p. sint (rplPlanLineID p))
         (filter (\<lambda>p. list_ex (\<lambda>c. plan_row_key p = c) candidates) view)))))"

section \<open>Sessions\<close>

definition session_row :: "gv_session \<Rightarrow> SessionRow" where
  "session_row s =
     \<lparr>rseInstID = gsInstID s, rseSID = gsSID s, rseSerialNumber = scan_null 0 (gsSerial s),
      rseUsername = scan_null [] (gsUsername s), rseStatus = scan_null [] (gsStatus s),
      rseSqlID = scan_null [] (gsSQLID s), rseSqlChildNumber = scan_null 0 (gsSQLChildNumber s),
      rsePrevSQLID = scan_null [] (gsPrevSQLID s), rseEvent = scan_null [] (gsEvent s),
      rseWaitClass = scan_null [] (gsWaitClass s), rseState = scan_null [] (gsState s),
      rseSecondsInWait = scan_null 0 (gsSecondsInWait s), rseBlockingInstance = scan_null 0 (gsBlockingInstance s),
      rseBlockingSession = scan_null 0 (gsBlockingSession s), rseMachine = scan_null [] (gsMachine s),
      rseProgram = scan_null [] (gsProgram s), rseModule = scan_null [] (gsModule s),
      rseAction = scan_null [] (gsAction s), rseServiceName = scan_null [] (gsServiceName s),
      rseLogonTime = scan_null 0 (gsLogonTime s)\<rparr>"

definition sessionPerformanceQuery :: "gv_session list \<Rightarrow> SessionRow list" where
  "sessionPerformanceQuery view = map session_row (rows_where (\<lambda>s. sql_eq (gsType s) (Some ''USER'')) view)"

text \<open>The outer join: the columns of the blocker are null when it has no row.\<close>

definition blocking_row :: "gv_session \<Rightarrow> gv_session option \<Rightarrow> BlockingSessionRow" where
  "blocking_row s bs =
     \<lparr>rbsInstID = gsInstID s, rbsSID = gsSID s, rbsSerialNumber = scan_null 0 (gsSerial s),
      rbsUsername = scan_null [] (gsUsername s), rbsSqlID = scan_null [] (gsSQLID s),
      rbsEvent = scan_null [] (gsEvent s), rbsWaitClass = scan_null [] (gsWaitClass s),
      rbsBlockingInstance = scan_null 0 (gsBlockingInstance s),
      rbsBlockingSession = scan_null 0 (gsBlockingSession s),
      rbsBlockingUsername = scan_null [] (Option.bind bs gsUsername),
      rbsBlockingSQLID = scan_null [] (Option.bind bs gsSQLID),
      rbsBlockingEvent = scan_null [] (Option.bind bs gsEvent)\<rparr>"

definition blocks :: "gv_session \<Rightarrow> gv_session \<Rightarrow> truth" where
  "blocks s bs = sql_and (sql_eq (Some (gsInstID bs)) (gsBlockingInstance s))
                   (sql_eq (Some (gsSID bs)) (gsBlockingSession s))"

definition blockingSessionPerformanceQuery :: "gv_session list \<Rightarrow> BlockingSessionRow list" where
  "blockingSessionPerformanceQuery view =
     map (\<lambda>(s, bs). blocking_row s bs)
       (rows_where (\<lambda>(s, bs). is_not_null (gsBlockingSession s)) (left_join blocks view view))"

section \<open>Activity\<close>

text \<open>\<open>own\<close> is \<open>sys_context('USERENV', 'SESSIONID')\<close>, the audit identifier of the session that asks.\<close>

definition busy :: "int \<Rightarrow> gv_session \<Rightarrow> truth" where
  "busy own s =
     sql_and (sql_and (sql_and (sql_eq (gsType s) (Some ''USER'')) (sql_eq (gsStatus s) (Some ''ACTIVE'')))
       (sql_or (sql_neq (gsState s) (Some ''WAITING'')) (sql_neq (gsWaitClass s) (Some ''Idle''))))
       (sql_neq (gsAudsid s) (Some own))"

definition activity_row :: "gv_session \<Rightarrow> SessionActivityRow" where
  "activity_row s =
     (let waiting = sql_eq (gsState s) (Some ''WAITING'') in
      \<lparr>rsaInstID = gsInstID s, rsaSessionID = gsSID s, rsaSerialNumber = scan_null 0 (gsSerial s),
       rsaUserID = scan_null 0 (gsUserID s), rsaSqlID = scan_null [] (gsSQLID s),
       rsaSqlChildNumber = scan_null 0 (gsSQLChildNumber s), rsaSqlExecID = scan_null 0 (gsSQLExecID s),
       rsaSqlExecStart = scan_null 0 (gsSQLExecStart s),
       rsaSessionState = scan_null [] (case_when waiting (Some ''WAITING'') (Some ''ON CPU'')),
       rsaEvent = scan_null [] (case_when waiting (gsEvent s) None),
       rsaWaitClass = scan_null [] (case_when waiting (gsWaitClass s) None),
       rsaWaitTime = scan_null 0 (case_when waiting (gsWaitTimeMicro s) None),
       rsaTimeWaited = scan_null 0 (case_when waiting (gsWaitTimeMicro s) None),
       rsaBlockingSession = scan_null 0 (gsBlockingSession s), rsaBlockingInstID = scan_null 0 (gsBlockingInstance s),
       rsaObjectID = scan_null 0 (gsRowWaitObj s), rsaFileNumber = scan_null 0 (gsRowWaitFile s),
       rsaBlockNumber = scan_null 0 (gsRowWaitBlock s), rsaProgram = scan_null [] (gsProgram s),
       rsaModule = scan_null [] (gsModule s), rsaAction = scan_null [] (gsAction s),
       rsaMachine = scan_null [] (gsMachine s), rsaConID = scan_null 0 (gsConID s),
       rsaServiceName = scan_null [] (gsServiceName s), rsaClientID = scan_null [] (gsClientIdentifier s)\<rparr>)"

definition sessionActivityQuery :: "int \<Rightarrow> gv_session list \<Rightarrow> SessionActivityRow list" where
  "sessionActivityQuery own view = map activity_row (rows_where (busy own) view)"

text \<open>The view \<open>gv$active_session_history\<close> has the columns of the select list.\<close>

definition ashActivityQuery :: "time \<Rightarrow> ASHRow list \<Rightarrow> ASHRow list" where
  "ashActivityQuery since view =
     sort_key rashSampleTime
       (rows_where (\<lambda>r. sql_and (Some (rashSampleTime r > since)) (sql_eq (stringPtr (rashSessionType r)) (Some ''FOREGROUND'')))
          view)"

section \<open>Properties\<close>

text \<open>What the queries of one pass see of the views.\<close>

definition on_views :: "time \<Rightarrow> gv_sqlstats list \<Rightarrow> gv_session list \<Rightarrow> performance_answers \<Rightarrow> performance_answers" where
  "on_views sysdate stats sessions a =
     a\<lparr>paSQL := (\<lambda>lookback. answered (sqlPerformanceQuery sysdate stats lookback)),
       paSessions := answered (map Inr (sessionPerformanceQuery sessions)),
       paBlocking := answered (map Inr (blockingSessionPerformanceQuery sessions))\<rparr>"

lemma on_views_simps:
  "paSQL (on_views sysdate stats sessions a) lookback = answered (sqlPerformanceQuery sysdate stats lookback)"
  "paSessions (on_views sysdate stats sessions a) = answered (map Inr (sessionPerformanceQuery sessions))"
  "paBlocking (on_views sysdate stats sessions a) = answered (map Inr (blockingSessionPerformanceQuery sessions))"
  by (simp_all add: on_views_def)

lemma scan_samples_all: "scan_samples f [] (map Inr rows) = Inr (map f rows)"
  by (subst scan_samples_Inr) auto

lemma collect_answered:
  assumes "dSession d \<noteq> None"
  shows "collect_rows f (QueryContext d (answered (map Inr rows))) = (map f rows, None)"
  using collect_rows_plain [of "answered (map Inr rows)" rows f]
  by (simp add: QueryContext_def answered_def assms)

lemma session_sample_row:
  "session_sample t db (session_row s) =
     \<lparr>seCollectedAt = t, seDatabase = db, seInstID = gsInstID s, seSID = gsSID s, seSerialNumber = gsSerial s,
      seUsername = gsUsername s, seStatus = gsStatus s, seSQLID = gsSQLID s, seSQLChildNumber = gsSQLChildNumber s,
      sePrevSQLID = gsPrevSQLID s, seEvent = gsEvent s, seWaitClass = gsWaitClass s, seState = gsState s,
      seSecondsInWait = gsSecondsInWait s, seBlockingInstance = gsBlockingInstance s,
      seBlockingSession = gsBlockingSession s, seMachine = gsMachine s, seProgram = gsProgram s,
      seModule = gsModule s, seAction = gsAction s, seServiceName = gsServiceName s, seLogonTime = gsLogonTime s\<rparr>"
  by (simp add: session_sample_def session_row_def)

lemma blocking_sample_row:
  "blocking_session_sample t db (blocking_row s bs) =
     \<lparr>bsCollectedAt = t, bsDatabase = db, bsInstID = gsInstID s, bsSID = gsSID s, bsSerialNumber = gsSerial s,
      bsUsername = gsUsername s, bsSQLID = gsSQLID s, bsEvent = gsEvent s, bsWaitClass = gsWaitClass s,
      bsBlockingInstance = gsBlockingInstance s, bsBlockingSession = gsBlockingSession s,
      bsBlockingUsername = Option.bind bs gsUsername, bsBlockingSQLID = Option.bind bs gsSQLID,
      bsBlockingEvent = Option.bind bs gsEvent\<rparr>"
  by (simp add: blocking_session_sample_def blocking_row_def)

definition session_key :: "gv_session \<Rightarrow> int64 \<times> int64" where "session_key s = (gsInstID s, gsSID s)"

lemma blocking_join:
  assumes "distinct (map session_key view)"
  shows "blockingSessionPerformanceQuery view =
    map (\<lambda>s. blocking_row s (the_match (blocks s) view)) (filter (\<lambda>s. gsBlockingSession s \<noteq> None) view)"
proof -
  have "left_join blocks view view = map (\<lambda>s. (s, the_match (blocks s) view)) view"
    by (rule left_join_unique [where key = session_key and
          k = "\<lambda>s. (the (gsBlockingInstance s), the (gsBlockingSession s))", OF assms])
      (auto simp: blocks_def session_key_def)
  then show ?thesis
    by (simp add: blockingSessionPerformanceQuery_def rows_where_def filter_map comp_def)
qed

text \<open>
  C26: blocked sessions are reported with their own blocker. An instance and a session number name one session;
  then the scrape reports every blocked session of the server exactly once, in the order of the view,
  whether or not the blocker is visible, and the user, statement and event it shows for the blocker are
  those of the session that it names, or missing if there is none.
\<close>
theorem blocked_sessions_exact:
  assumes "dSession d \<noteq> None" and "distinct (map session_key sessions)"
  shows "scrapeBlockingSessionSamples (on_views sysdate stats sessions a) d t =
    (map (\<lambda>s. let blocker = the_match (blocks s) sessions in
        \<lparr>bsCollectedAt = t, bsDatabase = dName d, bsInstID = gsInstID s, bsSID = gsSID s, bsSerialNumber = gsSerial s,
         bsUsername = gsUsername s, bsSQLID = gsSQLID s, bsEvent = gsEvent s, bsWaitClass = gsWaitClass s,
         bsBlockingInstance = gsBlockingInstance s, bsBlockingSession = gsBlockingSession s,
         bsBlockingUsername = Option.bind blocker gsUsername, bsBlockingSQLID = Option.bind blocker gsSQLID,
         bsBlockingEvent = Option.bind blocker gsEvent\<rparr>)
      (filter (\<lambda>s. gsBlockingSession s \<noteq> None) sessions), None) \<and>
    (\<forall>s b. the_match (blocks s) sessions = Some b \<longleftrightarrow>
       b \<in> set sessions \<and> gsBlockingInstance s = Some (gsInstID b) \<and> gsBlockingSession s = Some (gsSID b))"
proof
  show "scrapeBlockingSessionSamples (on_views sysdate stats sessions a) d t =
    (map (\<lambda>s. let blocker = the_match (blocks s) sessions in
        \<lparr>bsCollectedAt = t, bsDatabase = dName d, bsInstID = gsInstID s, bsSID = gsSID s, bsSerialNumber = gsSerial s,
         bsUsername = gsUsername s, bsSQLID = gsSQLID s, bsEvent = gsEvent s, bsWaitClass = gsWaitClass s,
         bsBlockingInstance = gsBlockingInstance s, bsBlockingSession = gsBlockingSession s,
         bsBlockingUsername = Option.bind blocker gsUsername, bsBlockingSQLID = Option.bind blocker gsSQLID,
         bsBlockingEvent = Option.bind blocker gsEvent\<rparr>)
      (filter (\<lambda>s. gsBlockingSession s \<noteq> None) sessions), None)"
    unfolding scrapeBlockingSessionSamples_def on_views_simps collect_answered [OF assms(1)]
    unfolding blocking_join [OF assms(2)] map_map comp_def blocking_sample_row Let_def ..
  show "\<forall>s b. the_match (blocks s) sessions = Some b \<longleftrightarrow>
       b \<in> set sessions \<and> gsBlockingInstance s = Some (gsInstID b) \<and> gsBlockingSession s = Some (gsSID b)"
  proof (intro allI)
    fix s b
    have "the_match (blocks s) sessions = Some b \<longleftrightarrow> b \<in> set sessions \<and> holds (blocks s b)"
      by (rule the_match_Some [where key = session_key and k = "(the (gsBlockingInstance s), the (gsBlockingSession s))",
            OF assms(2)]) (auto simp: blocks_def session_key_def)
    then show "the_match (blocks s) sessions = Some b \<longleftrightarrow>
       b \<in> set sessions \<and> gsBlockingInstance s = Some (gsInstID b) \<and> gsBlockingSession s = Some (gsSID b)"
      by (auto simp: blocks_def)
  qed
qed

text \<open>
  Activity sampling sees the busy sessions and nothing else. It takes one sample of every user session that is
  active, is not the sampling session itself, and does not wait idly; a session that waits is sampled
  with its event and wait class, any other is sampled as running on a processor and without them.
\<close>
theorem busy_sessions_sampled:
  assumes "dSession d \<noteq> None"
  shows "let (samples, err) = scrapeSessionActivitySamples cfg
           (a\<lparr>aaSession := answered (map Inr (sessionActivityQuery own sessions))\<rparr>) d t in
    err = None \<and>
    list_all2 (\<lambda>s x. daInstID x = gsInstID s \<and> daSessionID x = gsSID s \<and> daSQLID x = gsSQLID s \<and>
        daCollectedAt x = t \<and> daDatabase x = dName d \<and>
        (if gsState s = Some ''WAITING''
         then daSessionState x = Some ''WAITING'' \<and> daEvent x = gsEvent s \<and> daWaitClass x = gsWaitClass s \<and>
           daWaitTimeMicro x = gsWaitTimeMicro s \<and> daWaitClass x \<notin> {None, Some ''Idle''}
         else daSessionState x = Some ''ON CPU'' \<and> daEvent x = None \<and> daWaitClass x = None \<and> daWaitTimeMicro x = None))
      (filter (\<lambda>s. gsType s = Some ''USER'' \<and> gsStatus s = Some ''ACTIVE'' \<and> gsAudsid s \<notin> {None, Some own} \<and>
         (gsState s \<notin> {None, Some ''WAITING''} \<or> gsWaitClass s \<notin> {None, Some ''Idle''})) sessions)
      samples"
proof -
  have "rows_where (busy own) sessions = filter (\<lambda>s. gsType s = Some ''USER'' \<and> gsStatus s = Some ''ACTIVE'' \<and>
      gsAudsid s \<notin> {None, Some own} \<and> (gsState s \<notin> {None, Some ''WAITING''} \<or> gsWaitClass s \<notin> {None, Some ''Idle''})) sessions"
    unfolding rows_where_def by (rule filter_cong) (auto simp: busy_def)
  moreover have "scrapeSessionActivitySamples cfg (a\<lparr>aaSession := answered (map Inr (sessionActivityQuery own sessions))\<rparr>) d t =
      (map (session_activity_sample t (dName d) (unix_nano t) (word_of_int (duration_microseconds (Activity_GetInterval cfg))))
        (sessionActivityQuery own sessions), None)"
    using assms by (simp add: scrapeSessionActivitySamples_def activity_rows_def QueryContext_def answered_def
        scan_samples_all del: not_None_eq)
  ultimately show ?thesis
    by (auto simp: Let_def sessionActivityQuery_def list_all2_map2 activity_row_def session_activity_sample_def case_when_def
        intro!: list.rel_refl_strong)
qed

definition plain_session :: "int64 \<Rightarrow> string \<Rightarrow> int64 option \<Rightarrow> gv_session" where
  "plain_session sid state blocker =
     \<lparr>gsInstID = 1, gsSID = sid, gsSerial = None, gsUserID = None, gsUsername = Some ''HR'', gsStatus = Some ''ACTIVE'',
      gsType = Some ''USER'', gsAudsid = Some 8, gsSQLID = None, gsSQLChildNumber = None, gsSQLExecID = None,
      gsSQLExecStart = None, gsPrevSQLID = None, gsEvent = Some ''enq: TX'', gsWaitClass = Some ''Application'',
      gsState = Some state, gsSecondsInWait = None, gsWaitTimeMicro = None,
      gsBlockingInstance = map_option (\<lambda>_. 1) blocker, gsBlockingSession = blocker, gsRowWaitObj = None,
      gsRowWaitFile = None, gsRowWaitBlock = None, gsMachine = None, gsProgram = None, gsModule = None,
      gsAction = None, gsServiceName = None, gsClientIdentifier = None, gsLogonTime = None, gsConID = None\<rparr>"

lemma example_session_open: "dSession example_database \<noteq> None"
  by (simp add: example_database_def NewDatabase_def)

theorem blocked_sessions_exact_witness:
  "map (\<lambda>b. (bsSID b, bsBlockingUsername b)) (fst (scrapeBlockingSessionSamples
     (on_views 0 [] [plain_session 4 ''WAITING'' (Some 5), plain_session 5 ''WAITED'' None, plain_session 6 ''WAITING'' (Some 9)]
        quiet_database) example_database 0)) = [(4, Some ''HR''), (6, None)]"
  using blocked_sessions_exact [OF example_session_open, of
      "[plain_session 4 ''WAITING'' (Some 5), plain_session 5 ''WAITED'' None, plain_session 6 ''WAITING'' (Some 9)]"
      0 "[]" quiet_database 0]
  by (simp add: session_key_def plain_session_def the_match_def blocks_def)

definition two_sessions :: "gv_session list" where
  "two_sessions = [plain_session 4 ''WAITING'' None, plain_session 5 ''WAITED'' None]"

theorem busy_sessions_sampled_witness:
  "map daSessionState (fst (scrapeSessionActivitySamples (perfActivity (cfgPerformance empty_configuration))
     (\<lparr>aaSession = answered [], aaASH = (\<lambda>_. answered [])\<rparr>\<lparr>aaSession := answered (map Inr (sessionActivityQuery 7 two_sessions))\<rparr>)
     example_database 0)) = [Some ''WAITING'', Some ''ON CPU'']"
proof -
  have busy: "filter (\<lambda>s. gsType s = Some ''USER'' \<and> gsStatus s = Some ''ACTIVE'' \<and> gsAudsid s \<notin> {None, Some 7} \<and>
      (gsState s \<notin> {None, Some ''WAITING''} \<or> gsWaitClass s \<notin> {None, Some ''Idle''})) two_sessions = two_sessions"
    by (simp add: two_sessions_def plain_session_def)
  obtain z za where zs: "two_sessions = [z, za]" "gsState z = Some ''WAITING''" "gsState za = Some ''WAITED''"
    by (simp add: two_sessions_def plain_session_def)
  show ?thesis
    using busy_sessions_sampled [OF example_session_open, where own = 7 and t = 0 and sessions = two_sessions and
        cfg = "perfActivity (cfgPerformance empty_configuration)" and
        a = "\<lparr>aaSession = answered [], aaASH = (\<lambda>_. answered [])\<rparr>", unfolded busy] zs(2,3)
    unfolding zs(1) by (auto simp: list_all2_Cons1 split: prod.splits)
qed

section \<open>Statements that come back\<close>

definition statement_cursors :: "string \<Rightarrow> time \<Rightarrow> rat \<Rightarrow> gv_sqlstats list \<Rightarrow> gv_sqlstats list" where
  "statement_cursors i sysdate lookback view =
     filter (\<lambda>q. gqSQLID q = Some i) (sql_candidates sysdate lookback view)"

lemma sql_candidates_mem:
  "q \<in> set (sql_candidates sysdate lookback view) \<longleftrightarrow>
     q \<in> set view \<and> gqSQLID q \<noteq> None \<and> holds (recently_active sysdate lookback q)"
  by (auto simp: sql_candidates_def rows_where_def)

lemma sql_row_Inr:
  assumes "sql_row ((inst, sql, plan), qs) = Inr r"
  shows "sqSQLID (sql_sample t db r) = nvl sql []"
    and "counter_key (sql_sample t db r) =
      \<lparr>ckInstID = inst, ckSQLID = nvl sql [], ckPlanHashValue = nvl plan 0\<rparr>"
    and "elapsed (sql_sample t db r) = word_of_int (nvl (sum_of qs gqElapsedTime) 0)"
proof -
  have r: "rsqInstID r = inst" "rsqSQLID r = nvl sql []" "int64Ptr (rsqPlanHashValue r) = plan"
    "int64Ptr (rsqElapsedTime r) = map_option word_of_int (sum_of qs gqElapsedTime)"
    using assms by (auto simp: sql_row_def)
  show "sqSQLID (sql_sample t db r) = nvl sql []" using r by (simp add: sql_sample_def)
  show "counter_key (sql_sample t db r) = \<lparr>ckInstID = inst, ckSQLID = nvl sql [], ckPlanHashValue = nvl plan 0\<rparr>"
    using r by (simp add: sql_sample_def counter_key_def nvl_def)
  show "elapsed (sql_sample t db r) = word_of_int (nvl (sum_of qs gqElapsedTime) 0)"
    using r by (simp add: elapsed_def sqlCounterValuesFromSample_def sql_sample_def int64Value_def nvl_def split: option.split)
qed

text \<open>A scrape without an error has one sample for every group, in the order of the query.\<close>

lemma sql_scrape_groups:
  assumes "scrapeSQLSamples iv (on_views sysdate stats sessions a) d t = (samples, None)"
  shows "\<exists>gs rs. mset gs = mset (group_by sql_group_key
        (sql_candidates sysdate (duration_seconds (sql_lookback iv)) stats)) \<and>
      map sql_row gs = map Inr rs \<and> samples = map (sql_sample t (dName d)) rs"
proof -
  let ?q = "answered (sqlPerformanceQuery sysdate stats (duration_seconds (sql_lookback iv)))"
  note c = assms [unfolded scrapeSQLSamples_def on_views_simps]
  have "dSession d \<noteq> None"
    using collect_rows_ok(2) [OF c] by (cases "dSession d") (auto simp: QueryContext_def)
  then have "QueryContext d ?q = ?q" by (simp add: QueryContext_def del: not_None_eq)
  then obtain xs where "qRows ?q = map Inr xs" "samples = map (sql_sample t (dName d)) xs"
    using collect_rows_ok(4) [OF c] by auto
  then show ?thesis
    unfolding answered_def sqlPerformanceQuery_def query.simps by (intro exI [of _ "sort_key _ _"] exI [of _ xs]) simp
qed

definition of_statement :: "string \<Rightarrow> (int64 \<times> string option \<times> int64 option) \<times> gv_sqlstats list \<Rightarrow> bool" where
  "of_statement i g \<longleftrightarrow> fst (snd (fst g)) = Some i"

lemma filter_statement_samples:
  assumes "map sql_row gs = map Inr rs" and "i \<noteq> []"
  shows "\<exists>rs'. filter (\<lambda>s. sqSQLID s = i) (map (sql_sample t db) rs) = map (sql_sample t db) rs' \<and>
    map Inr rs' = map sql_row (filter (of_statement i) gs)"
  using assms(1)
proof (induction gs arbitrary: rs)
  case (Cons g gs)
  obtain inst sql plan qs where g: "g = ((inst, sql, plan), qs)" by (cases g) (auto intro: prod_cases3)
  obtain r rs1 where r: "rs = r # rs1" "sql_row g = Inr r" "map sql_row gs = map Inr rs1"
    using Cons.prems by (auto simp: map_eq_Cons_conv)
  from Cons.IH [OF r(3)] obtain rs' where rs': "filter (\<lambda>s. sqSQLID s = i) (map (sql_sample t db) rs1) = map (sql_sample t db) rs'"
    "map Inr rs' = map sql_row (filter (of_statement i) gs)" by blast
  have "sqSQLID (sql_sample t db r) = i \<longleftrightarrow> of_statement i g"
    using sql_row_Inr(1) [of inst sql plan qs r t db] r(2) g assms(2) by (auto simp: of_statement_def nvl_def split: option.splits)
  then show ?case
    using rs' r by (cases "of_statement i g") (auto intro: exI [of _ rs'] exI [of _ "r # rs'"])
qed simp

lemma statement_samples:
  assumes "scrapeSQLSamples iv (on_views sysdate stats sessions a) d t = (samples, None)" and "i \<noteq> []"
    and "lookback = duration_seconds (sql_lookback iv)"
  shows "statement_cursors i sysdate lookback stats = [] \<Longrightarrow> filter (\<lambda>s. sqSQLID s = i) samples = []"
    and "(\<forall>q \<in> set (statement_cursors i sysdate lookback stats). gqInstID q = inst \<and> gqPlanHashValue q = plan) \<Longrightarrow>
      statement_cursors i sysdate lookback stats \<noteq> [] \<Longrightarrow>
      \<exists>x. sole_sample i \<lparr>ckInstID = inst, ckSQLID = i, ckPlanHashValue = nvl plan 0\<rparr> samples x \<and>
        elapsed x = word_of_int (nvl (sum_of (statement_cursors i sysdate lookback stats) gqElapsedTime) 0)"
proof -
  let ?cs = "sql_candidates sysdate lookback stats"
  let ?own = "statement_cursors i sysdate lookback stats"
  obtain gs rs where gs: "mset gs = mset (group_by sql_group_key ?cs)" "map sql_row gs = map Inr rs"
      "samples = map (sql_sample t (dName d)) rs"
    using sql_scrape_groups [OF assms(1)] assms(3) by blast
  obtain rs' where rs': "filter (\<lambda>s. sqSQLID s = i) samples = map (sql_sample t (dName d)) rs'"
    "map Inr rs' = map sql_row (filter (of_statement i) gs)"
    using filter_statement_samples [OF gs(2) assms(2)] gs(3) by blast
  have m: "mset (filter (of_statement i) gs) = mset (filter (of_statement i) (group_by sql_group_key ?cs))"
    using gs(1) by simp
  have own: "q \<in> set ?own \<longleftrightarrow> q \<in> set ?cs \<and> gqSQLID q = Some i" for q by (auto simp: statement_cursors_def)
  {
    assume none: "?own = []"
    have "filter (of_statement i) (group_by sql_group_key ?cs) = []"
      using none own by (auto simp: filter_empty_conv of_statement_def group_by_def sql_group_key_def)
    then show "filter (\<lambda>s. sqSQLID s = i) samples = []"
      using m rs' by (simp only: mset.simps(1) mset_zero_iff list.map map_is_Nil_conv)
  }
  {
    assume one: "\<forall>q \<in> set ?own. gqInstID q = inst \<and> gqPlanHashValue q = plan" and some: "?own \<noteq> []"
    let ?K = "(inst, Some i, plan)"
    have K: "sql_group_key q = ?K \<longleftrightarrow> gqSQLID q = Some i" if "q \<in> set ?cs" for q
      using one own that by (auto simp: sql_group_key_def)
    have rows: "filter (\<lambda>q. sql_group_key q = ?K) ?cs = ?own"
      unfolding statement_cursors_def by (rule filter_cong [OF refl]) (rule K)
    have mem: "fst g = ?K" if g: "g \<in> set (group_by sql_group_key ?cs)" and i: "of_statement i g" for g
    proof -
      obtain q where q: "q \<in> set ?cs" "fst g = sql_group_key q" using g by (auto simp: group_by_def)
      then have "gqSQLID q = Some i" using i by (simp add: of_statement_def sql_group_key_def)
      then show ?thesis using K [OF q(1)] q(2) by simp
    qed
    have "(?K, ?own) \<in> set (group_by sql_group_key ?cs)"
    proof -
      have h: "hd ?own \<in> set ?cs" "gqSQLID (hd ?own) = Some i" using own [of "hd ?own"] some by simp_all
      then have "?K \<in> sql_group_key ` set ?cs" using K [OF h(1)] by (metis image_eqI)
      then show ?thesis by (simp only: group_by_mem rows)
    qed
    then have "filter (of_statement i) (group_by sql_group_key ?cs) = [(?K, ?own)]"
    proof (rule filter_the_one [where key = fst, rotated])
      show "distinct (map fst (group_by sql_group_key ?cs))" unfolding group_by_keys by (rule distinct_remdups)
      show "of_statement i (?K, ?own)" by (simp add: of_statement_def)
      show "fst b = fst (?K, ?own)" if "b \<in> set (group_by sql_group_key ?cs)" "of_statement i b" for b
        unfolding fst_conv by (rule mem [OF that])
    qed
    then have "filter (of_statement i) gs = [(?K, ?own)]" using m by (metis mset_single_iff_right mset.simps(1,2))
    then obtain r where r: "rs' = [r]" "sql_row (?K, ?own) = Inr r" using rs'(2) by (auto simp: map_eq_Cons_conv Cons_eq_map_conv)
    note sql_row_Inr(2,3) [OF r(2), of t "dName d"]
    then show "\<exists>x. sole_sample i \<lparr>ckInstID = inst, ckSQLID = i, ckPlanHashValue = nvl plan 0\<rparr> samples x \<and>
        elapsed x = word_of_int (nvl (sum_of ?own gqElapsedTime) 0)"
      using rs'(1) r(1) by (intro exI [of _ "sql_sample t (dName d) r"]) (simp add: sole_sample_def nvl_def)
  }
qed

lemma record_absent:
  assumes "filter (\<lambda>s. sqSQLID s = i) samples = []" and "i \<noteq> []" and "ckSQLID k = i"
    and "sqlCounterSnapshots s db = Some p"
  shows "elapsed_of (recordSQLConsumerDeltas db samples s) db i = elapsed_of s db i"
    and "\<exists>p'. sqlCounterSnapshots (recordSQLConsumerDeltas db samples s) db = Some p' \<and> p' k = None"
proof -
  let ?d = "case sqlConsumerDeltas s db of None \<Rightarrow> Map.empty | Some m \<Rightarrow> m"
  obtain c d where r: "record_loop (Some p) samples (Map.empty, ?d) = (c, d)" by fastforce
  have "filter (\<lambda>s. sqSQLID s \<noteq> [] \<and> counter_key s = k) samples = []"
    using assms(1,3) by (auto simp: filter_empty_conv counter_key_id [symmetric] simp del: counter_key_id)
  then have "c k = None" using record_loop_snapshot [of "Some p" samples Map.empty ?d k] r by simp
  then show "\<exists>p'. sqlCounterSnapshots (recordSQLConsumerDeltas db samples s) db = Some p' \<and> p' k = None"
    using r assms(4) by (simp add: recordSQLConsumerDeltas_def Let_def)
  have "values_at d i = values_at ?d i"
    using record_loop_deltas [OF assms(2), of p samples Map.empty ?d] r assms(1) by simp
  then show "elapsed_of (recordSQLConsumerDeltas db samples s) db i = elapsed_of s db i"
    using r assms(4) by (simp add: recordSQLConsumerDeltas_def Let_def elapsed_of_def)
qed

lemma record_new:
  assumes "sole_sample i k samples x" and "i \<noteq> []" and "sqlCounterSnapshots s db = Some p" and "p k = None"
  shows "elapsed_of (recordSQLConsumerDeltas db samples s) db i = elapsed_of s db i + elapsed x"
proof -
  let ?d = "case sqlConsumerDeltas s db of None \<Rightarrow> Map.empty | Some m \<Rightarrow> m"
  obtain c d where r: "record_loop (Some p) samples (Map.empty, ?d) = (c, d)" by fastforce
  have "values_at d i = add_delta p x (values_at ?d i)"
    using record_loop_deltas [OF assms(2), of p samples Map.empty ?d] r assms(1) by (simp add: sole_sample_def)
  then show ?thesis
    using r assms by (simp add: recordSQLConsumerDeltas_def Let_def elapsed_of_def add_delta_def
        values_add_def sqlCounterDelta_def elapsed_def sole_sample_def)
qed

text \<open>
  C21: a statement that pauses is counted from the beginning. If no cursor of a statement was active within the
  look-back of one scrape, the next scrape that finds it adds the whole elapsed time of its cursor, since the
  cursor was loaded, to what the statement consumed in the interval, whatever had been counted before: the
  query leaves the statement out, and the scrape forgets the counters of what the query leaves out.
\<close>
theorem paused_statement_recounted:
  assumes "scrapeSQLSamples iv (on_views now1 view1 sessions1 a1) d t1 = (samples1, None)"
    and "scrapeSQLSamples iv (on_views now2 view2 sessions2 a2) d t2 = (samples2, None)"
    and "sqlCounterSnapshots s (dName d) \<noteq> None" and "i \<noteq> []"
    and "lookback = duration_seconds (sql_lookback iv)"
    and "\<forall>q \<in> set view1. gqSQLID q = Some i \<longrightarrow> \<not> holds (recently_active now1 lookback q)"
    and "statement_cursors i now2 lookback view2 = [q]"
  shows "elapsed_of (recordSQLConsumerDeltas (dName d) samples2 (recordSQLConsumerDeltas (dName d) samples1 s)) (dName d) i =
    elapsed_of s (dName d) i + word_of_int (nvl (gqElapsedTime q) 0)"
proof -
  let ?k = "\<lparr>ckInstID = gqInstID q, ckSQLID = i, ckPlanHashValue = nvl (gqPlanHashValue q) 0\<rparr>"
  obtain p where p: "sqlCounterSnapshots s (dName d) = Some p" using assms(3) by blast
  have "statement_cursors i now1 lookback view1 = []"
    using assms(6) by (auto simp: statement_cursors_def filter_empty_conv sql_candidates_mem)
  note absent = statement_samples(1) [OF assms(1,4,5) this]
  have k: "ckSQLID ?k = i" by simp
  note first = record_absent [OF absent assms(4) k p]
  from first(2) obtain p' where p': "sqlCounterSnapshots (recordSQLConsumerDeltas (dName d) samples1 s) (dName d) = Some p'"
    "p' ?k = None" by blast
  obtain x where x: "sole_sample i ?k samples2 x" "elapsed x = word_of_int (nvl (sum_of [q] gqElapsedTime) 0)"
    using statement_samples(2) [OF assms(2,4,5), of "gqInstID q" "gqPlanHashValue q"] assms(7) by auto
  have "nvl (sum_of [q] gqElapsedTime) 0 = nvl (gqElapsedTime q) 0"
    by (cases "gqElapsedTime q") (simp_all add: sum_of_def sql_sum_def)
  then show ?thesis using record_new [OF x(1) assms(4) p'] x(2) first(1) by simp
qed

text \<open>A statement with ten hours behind it that runs for a second after a pause of two hours.\<close>

definition old_statement :: "time \<Rightarrow> int \<Rightarrow> gv_sqlstats" where
  "old_statement last_active micros =
     \<lparr>gqInstID = 1, gqSQLID = Some ''a'', gqPlanHashValue = Some 7, gqExecutions = Some 3, gqElapsedTime = Some micros,
      gqCpuTime = None, gqUserIOWaitTime = None, gqApplicationWaitTime = None, gqConcurrencyWaitTime = None,
      gqClusterWaitTime = None, gqBufferGets = None, gqDiskReads = None, gqDirectWrites = None,
      gqRowsProcessed = None, gqFetches = None, gqLoads = None, gqInvalidations = None, gqParseCalls = None,
      gqLastActiveTime = Some last_active\<rparr>"

lemma old_statement_scrapes:
  "scrapeSQLSamples 0 (on_views (7200 * second) [old_statement 0 36000000000] [] quiet_database) example_database t = ([], None)"
  "snd (scrapeSQLSamples 0 (on_views (7230 * second) [old_statement (7229 * second) 36001000000] [] quiet_database)
     example_database t) = None"
  "statement_cursors ''a'' (7230 * second) (duration_seconds (sql_lookback 0)) [old_statement (7229 * second) 36001000000] =
     [old_statement (7229 * second) 36001000000]"
  by (simp_all add: scrapeSQLSamples_def on_views_def answered_def sqlPerformanceQuery_def sql_candidates_def rows_where_def
      recently_active_def old_statement_def group_by_def sql_lookback_def wrap64_id int64_bounds_defs duration_seconds_def
      example_database_def NewDatabase_def QueryContext_def collect_rows_eq statement_cursors_def sql_row_def
      sql_group_key_def scan_row_def sql_columns_def sum_of_def sql_sum_def fits_def)

theorem paused_statement_recounted_witness:
  "let q = old_statement (7229 * second) 36001000000;
       again = fst (scrapeSQLSamples 0 (on_views (7230 * second) [q] [] quiet_database) example_database 0);
       s = initial_sql_state\<lparr>sqlCounterSnapshots := [''orcl'' \<mapsto>
             [\<lparr>ckInstID = 1, ckSQLID = ''a'', ckPlanHashValue = 7\<rparr> \<mapsto> zero_values\<lparr>cvElapsedTimeMicro := 36000000000\<rparr>]]\<rparr>
   in elapsed_of (recordSQLConsumerDeltas ''orcl'' again (recordSQLConsumerDeltas ''orcl'' [] s)) ''orcl'' ''a'' = 36001000000"
proof -
  define again where "again = fst (scrapeSQLSamples 0 (on_views (7230 * second)
    [old_statement (7229 * second) 36001000000] [] quiet_database) example_database 0)"
  define s where "s = initial_sql_state\<lparr>sqlCounterSnapshots := [''orcl'' \<mapsto>
    [\<lparr>ckInstID = 1, ckSQLID = ''a'', ckPlanHashValue = 7\<rparr> \<mapsto> zero_values\<lparr>cvElapsedTimeMicro := 36000000000\<rparr>]]\<rparr>"
  have a: "scrapeSQLSamples 0 (on_views (7230 * second) [old_statement (7229 * second) 36001000000] [] quiet_database)
      example_database 0 = (again, None)"
    using old_statement_scrapes(2) [of 0] unfolding again_def by (metis prod.collapse)
  have db: "dName example_database = ''orcl''" by (simp add: example_database_def NewDatabase_def)
  have none: "\<forall>q \<in> set [old_statement 0 36000000000]. gqSQLID q = Some ''a'' \<longrightarrow>
      \<not> holds (recently_active (7200 * second) (duration_seconds (sql_lookback 0)) q)"
    by (simp add: old_statement_def recently_active_def sql_lookback_def wrap64_id int64_bounds_defs duration_seconds_def)
  have "elapsed_of (recordSQLConsumerDeltas ''orcl'' again (recordSQLConsumerDeltas ''orcl'' [] s)) ''orcl'' ''a'' =
      elapsed_of s ''orcl'' ''a'' + word_of_int (nvl (gqElapsedTime (old_statement (7229 * second) 36001000000)) 0)"
    using paused_statement_recounted [OF old_statement_scrapes(1) a _ _ refl none old_statement_scrapes(3), of s]
    by (simp add: db s_def)
  then show ?thesis
    unfolding again_def [symmetric] Let_def s_def [symmetric]
    by (simp add: old_statement_def nvl_def s_def elapsed_of_def initial_sql_state_def values_at_def zero_values_def)
qed

end
