(* ===== verification/OracleOper.thy ===== *)
theory OracleOper
  imports OraclePerf Operational
begin

text \<open>
  The queries of \<open>collector/operational.go\<close> and \<open>collector/dataguard.go\<close> as functions of the server's
  views, and what the operational samples say of these views.
\<close>

section \<open>The views\<close>

record gv_instance =
  giInstID :: int64
  giInstanceName :: string
  giStatus :: string
  giDatabaseStatus :: string
  giStartupTime :: time

record gv_database =
  gbInstID :: int64
  gbDBID :: "int64 option"
  gbUniqueName :: "string option"
  gbOpenMode :: string
  gbRole :: string
  gbCDB :: string
  gbPlatformName :: string
  gbProtectionMode :: "string option"
  gbProtectionLevel :: "string option"

record component_version =
  cvProduct :: string
  cvVersion :: "string option"
  cvVersionFull :: "string option"

record gv_parameter =
  gpInstID :: int64
  gpName :: string
  gpValue :: "string option"

text \<open>\<open>gv$sga\<close>, \<open>gv$pgastat\<close>, \<open>gv$sysstat\<close> and \<open>gv$sys_time_model\<close>: a named value of an instance and a container.\<close>

record gv_stat =
  gtInstID :: int64
  gtConID :: int64
  gtName :: string
  gtValue :: int

record gv_resource_limit =
  grInstID :: int64
  grResourceName :: string
  grCurrent :: int64
  grMax :: int64
  grInitialAllocation :: "string option"
  grLimitValue :: "string option"

record dba_tablespace =
  dtName :: string
  dtContents :: string
  dtBlockSize :: int

record tablespace_usage =
  duName :: string
  duUsedSpace :: int
  duTablespaceSize :: int
  duUsedPercent :: float64

record temp_free_space =
  dfName :: string
  dfTablespaceSize :: int
  dfFreeSpace :: int

record dba_file =
  dbTablespace :: string
  dbBytes :: "int option"

record asm_diskgroup_stat =
  gaInstID :: int64
  gaName :: string
  gaTotalMB :: int
  gaFreeMB :: int
  gaUsableMB :: "int option"

record gv_wait_class =
  gwInstID :: int64
  gwConID :: int64
  gwWaitClass :: string
  gwTimeWaited :: int

record gv_archive_dest =
  gdInstID :: int64
  gdDestID :: int64
  gdDestName :: "string option"
  gdTarget :: "string option"
  gdDestination :: "string option"
  gdStatus :: "string option"
  gdTransmitMode :: "string option"
  gdAffirm :: "string option"
  gdValidNow :: "string option"
  gdUniqueName :: "string option"
  gdAppliedSCN :: "int64 option"
  gdError :: "string option"

record gv_archive_dest_status =
  geInstID :: int64
  geDestID :: int64
  geType :: "string option"
  geDatabaseMode :: "string option"
  geRecoveryMode :: "string option"
  geProtectionMode :: "string option"
  geSynchronized :: "string option"
  geSynchronizationStatus :: "string option"
  geGapStatus :: "string option"
  geArchivedThread :: "int64 option"
  geArchivedSequence :: "int64 option"
  geAppliedThread :: "int64 option"
  geAppliedSequence :: "int64 option"

record gv_dataguard_process =
  ggInstID :: int64
  ggName :: "string option"
  ggRole :: "string option"
  ggAction :: "string option"
  ggThread :: "int option"
  ggSequence :: "int option"

section \<open>Database and instances\<close>

text \<open>\<open>con_id\<close> and \<open>con_name\<close> are what \<open>sys_context\<close> answers in the session that asks.\<close>

definition databaseStatusQuery ::
    "int64 \<Rightarrow> string \<Rightarrow> gv_instance list \<Rightarrow> gv_database list \<Rightarrow> DatabaseStatusRow list" where
  "databaseStatusQuery con_id con_name instances databases =
     map (\<lambda>(i, d). \<lparr>rdsInstID = giInstID i, rdsInstanceName = giInstanceName i, rdsInstanceStatus = giStatus i,
         rdsDatabaseStatus = giDatabaseStatus i, rdsStartupTime = giStartupTime i, rdsOpenMode = gbOpenMode d,
         rdsDatabaseRole = gbRole d, rdsCDB = gbCDB d, rdsConID = con_id, rdsConName = con_name,
         rdsPlatformName = gbPlatformName d\<rparr>)
       (inner_join (\<lambda>i d. sql_eq (Some (gbInstID d)) (Some (giInstID i))) instances databases)"

text \<open>\<open>like '%part%'\<close> and \<open>like 'start%part%'\<close>.\<close>

fun contains :: "string \<Rightarrow> string \<Rightarrow> bool" where
  "contains part [] \<longleftrightarrow> part = []"
| "contains part (c # s) \<longleftrightarrow> take (length part) (c # s) = part \<or> contains part s"

definition starts_then_contains :: "string \<Rightarrow> string \<Rightarrow> string \<Rightarrow> bool" where
  "starts_then_contains start part s \<longleftrightarrow> take (length start) s = start \<and> contains part (drop (length start) s)"

definition product_edition :: "string \<Rightarrow> string option" where
  "product_edition product =
     (let p = to_upper product in
      if contains ''ENTERPRISE EDITION'' p then Some ''Enterprise Edition''
      else if contains ''STANDARD EDITION 2'' p then Some ''Standard Edition 2''
      else if contains ''STANDARD EDITION'' p then Some ''Standard Edition''
      else if contains ''EXPRESS EDITION'' p then Some ''Express Edition''
      else if contains ''FREE'' p then Some ''Free''
      else if contains ''PERSONAL EDITION'' p then Some ''Personal Edition''
      else None)"

text \<open>\<open>order by product fetch first 1 row only\<close>\<close>

definition database_product :: "component_version list \<Rightarrow> component_version list" where
  "database_product components =
     take 1 (sort_key cvProduct (filter (\<lambda>c. starts_then_contains ''ORACLE'' ''DATABASE'' (to_upper (cvProduct c))) components))"

definition databaseIdentityOperationalQuery :: "gv_database list \<Rightarrow> component_version list \<Rightarrow> databaseIdentityRow list" where
  "databaseIdentityOperationalQuery databases components =
     map (\<lambda>(d, p). \<lparr>idInstID = gbInstID d, idDbid = scan_null 0 (gbDBID d), idUniqueName = scan_null [] (gbUniqueName d),
         idProduct = scan_null [] (map_option cvProduct p),
         idEdition = scan_null [] (Option.bind p (\<lambda>p. product_edition (cvProduct p))),
         idVersion = scan_null [] (Option.bind p cvVersion), idVersionFull = scan_null [] (Option.bind p cvVersionFull),
         idProtectionMode = scan_null [] (gbProtectionMode d), idProtectionLevel = scan_null [] (gbProtectionLevel d)\<rparr>)
       (left_join (\<lambda>d p. Some True) databases (database_product components))"

text \<open>The three subqueries of the instance query, by instance.\<close>

definition session_counts :: "gv_session list \<Rightarrow> int option \<times> int option \<times> int option" where
  "session_counts ss =
     (sql_sum (map (\<lambda>s. Some (if holds (sql_eq (gsType s) (Some ''USER'')) then 1 else 0)) ss),
      sql_sum (map (\<lambda>s. Some (if holds (sql_and (sql_eq (gsType s) (Some ''USER'')) (sql_eq (gsStatus s) (Some ''ACTIVE'')))
                               then 1 else 0)) ss),
      sql_sum (map (\<lambda>s. Some (if holds (sql_neq (gsType s) (Some ''USER'')) then 1 else 0)) ss))"

definition parameter_value :: "string \<Rightarrow> gv_parameter list \<Rightarrow> int option" where
  "parameter_value name ps =
     sql_max (map (\<lambda>p. case_when (sql_eq (Some (gpName p)) (Some name)) (map_option (\<lambda>v. int (digits_value v)) (gpValue p)) None) ps)"

definition instance_parameters :: "gv_parameter list \<Rightarrow> (int64 \<times> gv_parameter list) list" where
  "instance_parameters parameters = group_by gpInstID
     (rows_where (\<lambda>p. sql_in (Some (gpName p)) [''cpu_count'', ''sga_max_size'', ''pga_aggregate_limit'']) parameters)"

abbreviation same_instance :: "gv_instance \<Rightarrow> int64 \<times> 'a \<Rightarrow> truth" where
  "same_instance i g \<equiv> sql_eq (Some (fst g)) (Some (giInstID i))"

definition instance_row ::
    "gv_instance \<Rightarrow> gv_session list option \<Rightarrow> int64 list option \<Rightarrow> gv_parameter list option \<Rightarrow> InstanceRow result" where
  "instance_row i ss ps rs =
     (let counts = (case ss of None \<Rightarrow> (None, None, None) | Some ss \<Rightarrow> session_counts ss);
          users = nvl (fst counts) 0; active = nvl (fst (snd counts)) 0; background = nvl (snd (snd counts)) 0;
          processes = nvl (map_option (\<lambda>ps. int (length ps)) ps) 0;
          cpu = Option.bind rs (parameter_value ''cpu_count''); sga = Option.bind rs (parameter_value ''sga_max_size'');
          pga = Option.bind rs (parameter_value ''pga_aggregate_limit'')
      in scan_row [Some users, Some active, Some background, Some processes] [cpu, sga, pga]
           \<lparr>risInstID = giInstID i, risUserSessions = word_of_int users, risActiveUserSessions = word_of_int active,
            risBackgroundSessions = word_of_int background, risProcessCount = word_of_int processes,
            risCpu = scan_int cpu, risSga = scan_int sga, risPga = scan_int pga\<rparr>)"

text \<open>\<open>gv$process\<close> is the list of the instances of its rows.\<close>

definition instanceOperationalQuery ::
    "gv_instance list \<Rightarrow> gv_session list \<Rightarrow> int64 list \<Rightarrow> gv_parameter list \<Rightarrow> InstanceRow result list" where
  "instanceOperationalQuery instances sessions processes parameters =
     map (\<lambda>(((i, s), p), r). instance_row i (map_option snd s) (map_option snd p) (map_option snd r))
       (left_join (\<lambda>((i, s), p) r. same_instance i r)
         (left_join (\<lambda>(i, s) p. same_instance i p)
           (left_join same_instance instances (group_by gsInstID sessions))
           (group_by (\<lambda>p. p) processes))
         (instance_parameters parameters))"

definition stat_value :: "string \<Rightarrow> gv_stat list \<Rightarrow> int option" where
  "stat_value name ts = sql_max (map (\<lambda>t. case_when (sql_eq (Some (gtName t)) (Some name)) (Some (gtValue t)) None) ts)"

definition instance_memory_row :: "gv_instance \<Rightarrow> gv_stat list option \<Rightarrow> gv_stat list option \<Rightarrow> instanceMemoryRow result" where
  "instance_memory_row i sga pga =
     (let allocated = Option.bind sga (\<lambda>ts. sql_sum (map (\<lambda>t. Some (gtValue t)) ts));
          p = Option.bind pga (stat_value ''total PGA allocated'');
          m = Option.bind pga (stat_value ''maximum PGA allocated'')
      in scan_row [] [allocated, p, m]
           \<lparr>imInstID = giInstID i, imSga = scan_int allocated, imPga = scan_int p, imPgaMax = scan_int m\<rparr>)"

definition instanceMemoryOperationalQuery :: "gv_instance list \<Rightarrow> gv_stat list \<Rightarrow> gv_stat list \<Rightarrow> instanceMemoryRow result list" where
  "instanceMemoryOperationalQuery instances sga pga =
     map (\<lambda>((i, s), p). instance_memory_row i (map_option snd s) (map_option snd p))
       (left_join (\<lambda>(i, s) p. same_instance i p)
         (left_join same_instance instances (group_by gtInstID (filter (\<lambda>t. gtConID t = 0) sga)))
         (group_by gtInstID (filter (\<lambda>t. gtConID t = 0 \<and> gtName t \<in> {''total PGA allocated'', ''maximum PGA allocated''}) pga)))"

section \<open>Limits, tablespaces and disk groups\<close>

text \<open>\<open>trim\<close> removes blanks; a string that is empty is null.\<close>

definition sql_trim :: "string option \<Rightarrow> string option" where
  "sql_trim v = Option.bind v (\<lambda>s. let t = rev (dropWhile (\<lambda>c. c = CHR '' '') (rev (dropWhile (\<lambda>c. c = CHR '' '') s)))
                                 in if t = [] then None else Some t)"

text \<open>\<open>case when regexp_like(trim(v), '^[0-9]+$') then to_number(trim(v)) end\<close>\<close>

definition limit_number :: "string option \<Rightarrow> int option" where
  "limit_number v = Option.bind (sql_trim v) (\<lambda>s. if s \<noteq> [] \<and> list_all is_digit s then Some (int (digits_value s)) else None)"

definition resource_limit_row :: "gv_resource_limit \<Rightarrow> ResourceLimitRow result" where
  "resource_limit_row r =
     (let initial = limit_number (grInitialAllocation r); limit = limit_number (grLimitValue r) in
      scan_row [] [initial, limit]
        \<lparr>rrlInstID = grInstID r, rrlResourceName = grResourceName r, rrlCurrentValue = grCurrent r,
         rrlMaxValue = grMax r, rrlInitial = scan_int initial, rrlLimit = scan_int limit,
         rrlUnlimited = (if holds (sql_eq (sql_trim (grLimitValue r)) (Some ''UNLIMITED'')) then 1 else 0)\<rparr>)"

definition resourceLimitOperationalQuery :: "gv_resource_limit list \<Rightarrow> ResourceLimitRow result list" where
  "resourceLimitOperationalQuery limits = map resource_limit_row limits"

text \<open>\<open>float_of\<close> is the driver's conversion of a computed number.\<close>

definition tablespace_row :: "string \<Rightarrow> string \<Rightarrow> int \<Rightarrow> int \<Rightarrow> int \<Rightarrow> float64 \<Rightarrow> TablespaceRow result" where
  "tablespace_row name contents used free whole percent =
     scan_row [Some used, Some free, Some whole] []
       \<lparr>rtsTablespace = name, rtsContents = contents, rtsUsedBytes = word_of_int used, rtsFreeBytes = word_of_int free,
        rtsMaxBytes = word_of_int whole, rtsUsedPercent = percent\<rparr>"

definition permanent_row :: "tablespace_usage \<times> dba_tablespace \<Rightarrow> TablespaceRow result" where
  "permanent_row = (\<lambda>(u, t). tablespace_row (dtName t) (dtContents t) (dtBlockSize t * duUsedSpace u)
     (dtBlockSize t * (duTablespaceSize u - duUsedSpace u)) (dtBlockSize t * duTablespaceSize u) (duUsedPercent u))"

definition temporary_row :: "(rat \<Rightarrow> float64) \<Rightarrow> temp_free_space \<Rightarrow> TablespaceRow result" where
  "temporary_row float_of f = tablespace_row (dfName f) ''TEMPORARY'' (dfTablespaceSize f - dfFreeSpace f) (dfFreeSpace f)
     (dfTablespaceSize f)
     (float_of (if dfTablespaceSize f = 0 then 0
                else of_int (dfTablespaceSize f - dfFreeSpace f) / of_int (dfTablespaceSize f) * 100))"

definition tablespaceOperationalQuery ::
    "(rat \<Rightarrow> float64) \<Rightarrow> tablespace_usage list \<Rightarrow> dba_tablespace list \<Rightarrow> temp_free_space list \<Rightarrow> TablespaceRow result list" where
  "tablespaceOperationalQuery float_of usage tablespaces temp =
     map permanent_row (filter (\<lambda>(u, t). dtContents t \<noteq> ''TEMPORARY'')
       (inner_join (\<lambda>u t. sql_eq (Some (dtName t)) (Some (duName u))) usage tablespaces)) @
     map (temporary_row float_of) temp"

definition allocation_row :: "string \<times> dba_file list \<Rightarrow> tablespaceAllocationRow result" where
  "allocation_row g =
     (let bytes = sql_sum (map dbBytes (snd g)) in
      scan_row [] [bytes] \<lparr>taTablespace = fst g, taAllocated = scan_int bytes\<rparr>)"

definition tablespaceAllocationOperationalQuery :: "dba_file list \<Rightarrow> dba_file list \<Rightarrow> tablespaceAllocationRow result list" where
  "tablespaceAllocationOperationalQuery data_files temp_files =
     map allocation_row (group_by dbTablespace data_files) @ map allocation_row (group_by dbTablespace temp_files)"

definition asm_row :: "asm_diskgroup_stat \<Rightarrow> ASMDiskgroupRow result" where
  "asm_row g =
     (let whole = gaTotalMB g * 1024 * 1024; free = gaFreeMB g * 1024 * 1024;
          usable = map_option (\<lambda>m. m * 1024 * 1024) (gaUsableMB g)
      in scan_row [Some whole, Some free] [usable]
           \<lparr>rasmInstID = gaInstID g, rasmName = gaName g, rasmTotalBytes = word_of_int whole,
            rasmFreeBytes = word_of_int free, rasmUsable = scan_int usable\<rparr>)"

text \<open>\<open>datafiles\<close> are the names in \<open>gv$datafile\<close>.\<close>

definition asmDiskgroupOperationalQuery ::
    "string list \<Rightarrow> gv_instance list \<Rightarrow> asm_diskgroup_stat list \<Rightarrow> ASMDiskgroupRow result list" where
  "asmDiskgroupOperationalQuery datafiles instances groups =
     map asm_row (rows_where (\<lambda>g. sql_and (Some (list_ex (\<lambda>n. take 1 n = ''+'') datafiles))
       (sql_eq (Some (sint (gaInstID g))) (sql_max (map (\<lambda>i. Some (sint (giInstID i))) instances)))) groups)"

section \<open>Counters and metrics\<close>

definition stat_row :: "gv_stat \<Rightarrow> operationalCounterRow result" where
  "stat_row t = scan_row [Some (gtValue t)] []
     \<lparr>orInstID = gtInstID t, orConID = gtConID t, orName = gtName t, orValue = word_of_int (gtValue t)\<rparr>"

definition system_counter_names :: "string list" where
  "system_counter_names = [''parse count (total)'', ''execute count'', ''user commits'', ''user rollbacks'',
     ''physical reads'', ''physical writes'', ''session logical reads'', ''redo size'']"

definition systemCounterOperationalQuery :: "gv_stat list \<Rightarrow> operationalCounterRow result list" where
  "systemCounterOperationalQuery sysstat = map stat_row (filter (\<lambda>t. gtName t \<in> set system_counter_names) sysstat)"

definition io_counter_names :: "string list" where
  "io_counter_names = [''physical read total IO requests'', ''physical write total IO requests'',
     ''physical read total bytes'', ''physical write total bytes'']"

definition cpuIOCounterOperationalQuery :: "gv_stat list \<Rightarrow> gv_stat list \<Rightarrow> operationalCounterRow result list" where
  "cpuIOCounterOperationalQuery sysstat time_model =
     map stat_row (filter (\<lambda>t. gtConID t = 0 \<and> gtName t \<in> set io_counter_names) sysstat) @
     map stat_row (filter (\<lambda>t. gtConID t = 0 \<and> gtName t \<in> {''DB CPU'', ''DB time''}) time_model)"

text \<open>The time waited is a number of centiseconds, which \<open>round\<close> leaves as it is.\<close>

definition wait_class_row :: "gv_wait_class \<Rightarrow> operationalCounterRow result" where
  "wait_class_row w = scan_row [Some (gwTimeWaited w * 10000)] []
     \<lparr>orInstID = gwInstID w, orConID = gwConID w, orName = gwWaitClass w, orValue = word_of_int (gwTimeWaited w * 10000)\<rparr>"

definition waitClassOperationalQuery :: "gv_wait_class list \<Rightarrow> operationalCounterRow result list" where
  "waitClassOperationalQuery waits = map wait_class_row (filter (\<lambda>w. gwWaitClass w \<noteq> ''Idle'') waits)"

text \<open>The view \<open>gv$con_sysmetric\<close> has the columns of the select list.\<close>

definition systemMetricOperationalQuery :: "SystemMetricRow list \<Rightarrow> SystemMetricRow list" where
  "systemMetricOperationalQuery metrics =
     filter (\<lambda>m. rsmMetricName m \<in> {''Buffer Cache Hit Ratio'', ''Cursor Cache Hit Ratio'', ''Host CPU Utilization (%)'',
       ''Database CPU Time Ratio'', ''Database Wait Time Ratio''}) metrics"

section \<open>Data Guard\<close>

definition names_destination :: "gv_archive_dest \<Rightarrow> truth" where
  "names_destination d = sql_or (is_not_null (gdDestination d)) (is_not_null (gdUniqueName d))"

text \<open>\<open>v$database\<close> has one row, the one of the instance that answers; \<open>v$archive_dest\<close> its destinations.\<close>

definition dataGuardDiscoveryQuery :: "gv_database \<Rightarrow> gv_archive_dest list \<Rightarrow> DiscoveryRow" where
  "dataGuardDiscoveryQuery d dests =
     \<lparr>rdiRole = gbRole d,
      rdiEnabled = (if gbRole d \<noteq> ''PRIMARY'' then 1
                    else if list_ex (\<lambda>a. holds (sql_and (sql_eq (gdTarget a) (Some ''STANDBY'')) (names_destination a))) dests
                    then 1 else 0)\<rparr>"

definition destination_status :: "gv_archive_dest \<Rightarrow> gv_archive_dest_status \<Rightarrow> truth" where
  "destination_status d s = sql_and (sql_eq (Some (geInstID s)) (Some (gdInstID d))) (sql_eq (Some (geDestID s)) (Some (gdDestID d)))"

definition dataguard_destination :: "gv_archive_dest \<Rightarrow> gv_archive_dest_status option \<Rightarrow> truth" where
  "dataguard_destination d s =
     sql_and (sql_or (sql_eq (gdTarget d) (Some ''STANDBY''))
                (Some (to_upper (nvl (Option.bind s geType) ''LOCAL'') \<notin> {''LOCAL'', ''CROSS-INSTANCE''})))
       (names_destination d)"

definition destination_row :: "gv_archive_dest \<Rightarrow> gv_archive_dest_status option \<Rightarrow> DataGuardDestinationRow" where
  "destination_row d s =
     \<lparr>rddInstID = gdInstID d, rddDestID = gdDestID d, rddDestinationName = scan_null [] (gdDestName d),
      rddTarget = scan_null [] (gdTarget d), rddDestination = scan_null [] (gdDestination d),
      rddStatus = scan_null [] (gdStatus d), rddTransmitMode = scan_null [] (gdTransmitMode d),
      rddAffirm = scan_null [] (gdAffirm d), rddValidNow = scan_null [] (gdValidNow d),
      rddUniqueName = scan_null [] (gdUniqueName d), rddDestinationType = scan_null [] (Option.bind s geType),
      rddDatabaseMode = scan_null [] (Option.bind s geDatabaseMode),
      rddRecoveryMode = scan_null [] (Option.bind s geRecoveryMode),
      rddProtectionMode = scan_null [] (Option.bind s geProtectionMode),
      rddSynchronized = scan_null [] (Option.bind s geSynchronized),
      rddSynchronizationStatus = scan_null [] (Option.bind s geSynchronizationStatus),
      rddGapStatus = scan_null [] (Option.bind s geGapStatus),
      rddArchivedThread = scan_null 0 (Option.bind s geArchivedThread),
      rddArchivedSequence = scan_null 0 (Option.bind s geArchivedSequence),
      rddAppliedThread = scan_null 0 (Option.bind s geAppliedThread),
      rddAppliedSequence = scan_null 0 (Option.bind s geAppliedSequence),
      rddAppliedSCN = scan_null 0 (gdAppliedSCN d), rddDestinationError = scan_null [] (gdError d)\<rparr>"

definition dataGuardDestinationQuery :: "gv_archive_dest list \<Rightarrow> gv_archive_dest_status list \<Rightarrow> DataGuardDestinationRow list" where
  "dataGuardDestinationQuery dests statuses =
     map (\<lambda>(d, s). destination_row d s)
       (rows_where (\<lambda>(d, s). dataguard_destination d s) (left_join destination_status dests statuses))"

text \<open>The view \<open>v$dataguard_stats\<close> has the columns of the select list.\<close>

definition dataGuardLagQuery :: "DataGuardLagRow list \<Rightarrow> DataGuardLagRow list" where
  "dataGuardLagQuery stats =
     filter (\<lambda>r. rlgName r \<in> {''transport lag'', ''apply lag'', ''apply finish time'', ''estimated startup time''}) stats"

text \<open>The processes of an instance, which the outer join replaces by one row of nulls where there are none.\<close>

definition managed_recovery :: "gv_dataguard_process option \<Rightarrow> truth" where
  "managed_recovery m = sql_or (sql_eq (Option.bind m ggName) (Some ''MRP0''))
     (sql_eq (map_option to_lower (Option.bind m ggRole)) (Some ''managed recovery''))"

definition recovery_role :: "gv_dataguard_process option \<Rightarrow> truth" where
  "recovery_role m = sql_in (map_option to_lower (Option.bind m ggRole)) [''managed recovery'', ''recovery logmerger'']"

text \<open>\<open>max\<close> of a text is the last one in its order.\<close>

definition process_row :: "int64 \<times> (gv_instance \<times> gv_dataguard_process option) list \<Rightarrow> DataGuardProcessRow result" where
  "process_row g =
     (let ms = map snd (snd g);
          apply_count = sql_sum (map (\<lambda>m. Some (if holds (managed_recovery m) then 1 else 0)) ms);
          transport_count = sql_sum (map (\<lambda>m. Some (if holds (sql_eq (Option.bind m ggName) (Some ''RFS'')) then 1 else 0)) ms);
          thread = sql_max (map (\<lambda>m. case_when (recovery_role m) (Option.bind m ggThread) None) ms);
          sequence = sql_max (map (\<lambda>m. case_when (recovery_role m) (Option.bind m ggSequence) None) ms)
      in scan_row [apply_count, transport_count] [thread, sequence]
           \<lparr>rdpInstID = fst g, rdpApplyProcesses = word_of_int (nvl apply_count 0),
            rdpTransportProcesses = word_of_int (nvl transport_count 0),
            rdpApplyStatus = scan_null [] (sql_max (map (\<lambda>m. case_when (managed_recovery m) (Option.bind m ggAction) None) ms)),
            rdpThread = scan_int thread, rdpSequence = scan_int sequence\<rparr>)"

definition dataGuardProcessQuery :: "gv_instance list \<Rightarrow> gv_dataguard_process list \<Rightarrow> DataGuardProcessRow result list" where
  "dataGuardProcessQuery instances processes =
     map process_row (group_by (\<lambda>(i, m). giInstID i)
       (left_join (\<lambda>i m. sql_eq (Some (ggInstID m)) (Some (giInstID i))) instances processes))"

end
