(* ===== verification/OracleSamples.thy ===== *)
theory OracleSamples
  imports OracleOper Scrape
begin

text \<open>
  The operational samples as statements about the server's views: the queries of \<open>OracleOper\<close> answered to the
  collectors of \<open>Operational\<close>.
\<close>

section \<open>The counters of one scrape\<close>

definition counter_key_of :: "string \<Rightarrow> string \<Rightarrow> operationalCounterRow \<Rightarrow> operationalCounterKey" where
  "counter_key_of database kind row =
     \<lparr>okDatabase = database, okKind = kind, okInstID = orInstID row, okConID = orConID row, okName = orName row\<rparr>"

text \<open>The sample of a row whose counter was \<open>known\<close> before the scrape.\<close>

definition measured ::
    "(operationalCounterRow \<Rightarrow> int64 option \<Rightarrow> rat option \<Rightarrow> bool \<Rightarrow> OperationalSamples \<Rightarrow> OperationalSamples) \<Rightarrow>
     string \<Rightarrow> string \<Rightarrow> time \<Rightarrow> counters \<Rightarrow> operationalCounterRow \<Rightarrow> OperationalSamples \<Rightarrow> OperationalSamples" where
  "measured add database kind t known row out =
     (case fst (operationalDelta (counter_key_of database kind row) t (orValue row) known) of
        (delta, interval, reset) \<Rightarrow> add row delta interval reset out)"

lemma operationalDelta_state:
  "snd (operationalDelta key t v counters) = counters(key \<mapsto> \<lparr>osCollectedAt = t, osValue = v\<rparr>)"
  by (simp add: operationalDelta_def Let_def split: option.split)

lemma operationalDelta_cong:
  "counters key = known key \<Longrightarrow> fst (operationalDelta key t v counters) = fst (operationalDelta key t v known)"
  by (simp add: operationalDelta_def Let_def split: option.split)

lemma counter_row_step:
  "counter_row database kind t add row (n, out, counters) =
     (n + 1, measured add database kind t counters row out,
      counters(counter_key_of database kind row \<mapsto> \<lparr>osCollectedAt = t, osValue = orValue row\<rparr>))"
proof -
  obtain delta interval reset counters' where
    d: "operationalDelta (counter_key_of database kind row) t (orValue row) counters = ((delta, interval, reset), counters')"
    by (metis prod_cases3 surj_pair)
  then have "counters' = counters(counter_key_of database kind row \<mapsto> \<lparr>osCollectedAt = t, osValue = orValue row\<rparr>)"
    using operationalDelta_state by (metis snd_conv)
  then show ?thesis using d by (simp add: counter_row_def counter_key_of_def measured_def)
qed

text \<open>The rows of a collector, none of whose counters was read earlier in the scrape.\<close>

lemma counter_rows_known:
  assumes "distinct (map (counter_key_of database kind) rows)"
    and "\<forall>row \<in> set rows. counters (counter_key_of database kind row) = known (counter_key_of database kind row)"
  shows "\<exists>counters'. fold (counter_row database kind t add) rows (n, out, counters) =
      (n + length rows, fold (measured add database kind t known) rows out, counters') \<and>
    (\<forall>key. key \<notin> counter_key_of database kind ` set rows \<longrightarrow> counters' key = counters key)"
  using assms
proof (induction rows arbitrary: n out counters)
  case (Cons row rows)
  let ?key = "counter_key_of database kind"
  let ?c = "counters(?key row \<mapsto> \<lparr>osCollectedAt = t, osValue = orValue row\<rparr>)"
  have m: "measured add database kind t counters row out = measured add database kind t known row out"
    using Cons.prems(2) by (simp add: measured_def operationalDelta_cong [of counters _ known])
  have "?key r \<noteq> ?key row" if "r \<in> set rows" for r
    using that Cons.prems(1) by (simp add: image_iff) metis
  then have "\<forall>r \<in> set rows. ?c (?key r) = known (?key r)" using Cons.prems(2) by simp
  moreover have "distinct (map ?key rows)" using Cons.prems(1) by simp
  ultimately obtain c where c: "fold (counter_row database kind t add) rows (n + 1, measured add database kind t known row out, ?c) =
      (n + 1 + length rows, fold (measured add database kind t known) rows (measured add database kind t known row out), c)"
    "\<forall>key. key \<notin> ?key ` set rows \<longrightarrow> c key = ?c key"
    using Cons.IH [of ?c "n + 1" "measured add database kind t known row out"] by blast
  have "fold (counter_row database kind t add) (row # rows) (n, out, counters) =
      (n + length (row # rows), fold (measured add database kind t known) (row # rows) out, c)"
    unfolding fold_simps counter_row_step m c(1) by simp
  moreover have "\<forall>key. key \<notin> ?key ` set (row # rows) \<longrightarrow> c key = counters key" using c(2) by simp
  ultimately show ?case by blast
qed simp

lemma counter_collector_known:
  assumes "scrapeOperationalCounterRows (QueryContext d (answered (map Inr rows))) (dName d) kind t add (out, counters) =
      ((n, err), out', counters')"
    and "dSession d \<noteq> None" and "distinct (map (counter_key_of (dName d) kind) rows)"
    and "\<forall>row \<in> set rows. counters (counter_key_of (dName d) kind row) = known (counter_key_of (dName d) kind row)"
  shows "err = None" and "n = int (length rows)" and "out' = fold (measured add (dName d) kind t known) rows out"
    and "\<forall>key. key \<notin> counter_key_of (dName d) kind ` set rows \<longrightarrow> counters' key = counters key"
proof -
  obtain c where c: "fold (counter_row (dName d) kind t add) rows (0, out, counters) =
      (length rows, fold (measured add (dName d) kind t known) rows out, c)"
    "\<forall>key. key \<notin> counter_key_of (dName d) kind ` set rows \<longrightarrow> c key = counters key"
    using counter_rows_known [OF assms(3,4), where n = 0 and out = out and t = t and add = add] by auto
  have "scanned_prefix (map Inr rows) = rows" by (induction rows) simp_all
  have s: "scan_with (\<lambda>r s. (counter_row (dName d) kind t add r s, None)) (map Inr rows) s =
      (fold (counter_row (dName d) kind t add) rows s, None)" for s
    by (induction rows arbitrary: s) simp_all
  have "queryOperationalRows (QueryContext d (answered (map Inr rows)))
      (\<lambda>row s. (counter_row (dName d) kind t add row s, None)) (0, out, counters) =
      ((length rows, fold (measured add (dName d) kind t known) rows out, c), None)"
    using assms(2) by (simp add: QueryContext_def answered_def queryOperationalRows_def s c(1) del: not_None_eq)
  then have "((n, err), out', counters') =
      ((int (length rows), None), fold (measured add (dName d) kind t known) rows out, c)"
    using assms(1) by (simp add: scrapeOperationalCounterRows_def)
  then show "err = None" "n = int (length rows)" "out' = fold (measured add (dName d) kind t known) rows out"
    "\<forall>key. key \<notin> counter_key_of (dName d) kind ` set rows \<longrightarrow> counters' key = counters key"
    using c(2) by auto
qed

text \<open>The two kinds of samples, as functions of the counters known before.\<close>

definition system_counter_sample :: "time \<Rightarrow> string \<Rightarrow> counters \<Rightarrow> operationalCounterRow \<Rightarrow> SystemCounterSample" where
  "system_counter_sample t database known row =
     (case fst (operationalDelta (counter_key_of database ''system'' row) t (orValue row) known) of
        (delta, interval, reset) \<Rightarrow>
          \<lparr>scCollectedAt = t, scDatabase = database, scInstID = orInstID row, scConID = orConID row,
           scStatName = orName row, scCumulativeValue = orValue row, scDeltaValue = delta,
           scIntervalSeconds = interval, scCounterReset = reset\<rparr>)"

definition wait_class_sample :: "time \<Rightarrow> string \<Rightarrow> counters \<Rightarrow> operationalCounterRow \<Rightarrow> WaitClassSample" where
  "wait_class_sample t database known row =
     (case fst (operationalDelta (counter_key_of database ''wait'' row) t (orValue row) known) of
        (delta, interval, reset) \<Rightarrow>
          \<lparr>wcCollectedAt = t, wcDatabase = database, wcInstID = orInstID row, wcConID = orConID row,
           wcWaitClass = orName row, wcCumulativeWaitMicro = orValue row, wcDeltaWaitMicro = delta,
           wcIntervalSeconds = interval, wcCounterReset = reset\<rparr>)"

lemma fold_system_counters:
  "fold (measured (append_system_counter t database) database ''system'' t known) rows out =
     out\<lparr>opSystemCounters := opSystemCounters out @ map (system_counter_sample t database known) rows\<rparr>"
  by (induction rows arbitrary: out)
    (simp_all add: measured_def append_system_counter_def system_counter_sample_def split: prod.split)

lemma fold_wait_classes:
  "fold (measured (append_wait_class t database) database ''wait'' t known) rows out =
     out\<lparr>opWaitClasses := opWaitClasses out @ map (wait_class_sample t database known) rows\<rparr>"
  by (induction rows arbitrary: out)
    (simp_all add: measured_def append_wait_class_def wait_class_sample_def split: prod.split)

definition stat_counter :: "gv_stat \<Rightarrow> operationalCounterRow" where
  "stat_counter t = \<lparr>orInstID = gtInstID t, orConID = gtConID t, orName = gtName t, orValue = word_of_int (gtValue t)\<rparr>"

definition wait_counter :: "gv_wait_class \<Rightarrow> operationalCounterRow" where
  "wait_counter w = \<lparr>orInstID = gwInstID w, orConID = gwConID w, orName = gwWaitClass w,
     orValue = word_of_int (gwTimeWaited w * 10000)\<rparr>"

lemma map_stat_row: "\<forall>t \<in> set ts. in_int64 (gtValue t) \<Longrightarrow> map stat_row ts = map Inr (map stat_counter ts)"
  by (simp add: stat_row_def stat_counter_def scan_row_def fits_def)

lemma map_wait_row:
  "\<forall>w \<in> set ws. in_int64 (gwTimeWaited w * 10000) \<Longrightarrow> map wait_class_row ws = map Inr (map wait_counter ws)"
  by (simp add: wait_class_row_def wait_counter_def scan_row_def fits_def)

definition stat_key :: "gv_stat \<Rightarrow> int64 \<times> int64 \<times> string" where "stat_key t = (gtInstID t, gtConID t, gtName t)"
definition wait_key :: "gv_wait_class \<Rightarrow> int64 \<times> int64 \<times> string" where "wait_key w = (gwInstID w, gwConID w, gwWaitClass w)"

lemma distinct_counter_keys:
  assumes "distinct (map key rs)"
    and "\<And>r. counter_key_of db kind (row r) = \<lparr>okDatabase = db, okKind = kind, okInstID = fst (key r),
           okConID = fst (snd (key r)), okName = snd (snd (key r))\<rparr>"
  shows "distinct (map (counter_key_of db kind) (map row rs))"
proof -
  let ?f = "\<lambda>k. \<lparr>okDatabase = db, okKind = kind, okInstID = fst k, okConID = fst (snd k), okName = snd (snd k)\<rparr>"
  have "map (counter_key_of db kind) (map row rs) = map ?f (map key rs)" using assms(2) by simp
  moreover have "inj_on ?f A" for A
    by (rule inj_onI) (simp only: operationalCounterKey.iffs prod_eq_iff)
  ultimately show ?thesis using assms(1) by (simp only: distinct_map [of ?f])
qed

lemma counter_key_of_stat:
  "counter_key_of db kind (stat_counter t) = \<lparr>okDatabase = db, okKind = kind, okInstID = fst (stat_key t),
     okConID = fst (snd (stat_key t)), okName = snd (snd (stat_key t))\<rparr>"
  by (simp add: counter_key_of_def stat_counter_def stat_key_def)

lemma counter_key_of_wait:
  "counter_key_of db kind (wait_counter w) = \<lparr>okDatabase = db, okKind = kind, okInstID = fst (wait_key w),
     okConID = fst (snd (wait_key w)), okName = snd (snd (wait_key w))\<rparr>"
  by (simp add: counter_key_of_def wait_counter_def wait_key_def)

definition system_rows :: "gv_stat list \<Rightarrow> gv_stat list" where
  "system_rows sysstat = filter (\<lambda>t. gtName t \<in> set system_counter_names) sysstat"

definition cpu_io_rows :: "gv_stat list \<Rightarrow> gv_stat list \<Rightarrow> gv_stat list" where
  "cpu_io_rows sysstat time_model =
     filter (\<lambda>t. gtConID t = 0 \<and> gtName t \<in> set io_counter_names) sysstat @
     filter (\<lambda>t. gtConID t = 0 \<and> gtName t \<in> {''DB CPU'', ''DB time''}) time_model"

lemma cpu_io_rows_distinct:
  assumes "distinct (map stat_key sysstat)" and "distinct (map stat_key time_model)"
  shows "distinct (map stat_key (cpu_io_rows sysstat time_model))"
proof -
  let ?io = "filter (\<lambda>t. gtConID t = 0 \<and> gtName t \<in> set io_counter_names) sysstat"
  let ?cpu = "filter (\<lambda>t. gtConID t = 0 \<and> gtName t \<in> {''DB CPU'', ''DB time''}) time_model"
  have "stat_key t \<noteq> stat_key u" if "t \<in> set ?io" "u \<in> set ?cpu" for t u
    using that by (auto simp: io_counter_names_def stat_key_def)
  then have "set (map stat_key ?io) \<inter> set (map stat_key ?cpu) = {}" by (simp only: set_map) blast
  then show ?thesis
    unfolding cpu_io_rows_def map_append distinct_append using assms by (blast intro: distinct_map_filter)
qed

lemma counter_names_disjoint:
  assumes "t \<in> set (system_rows sysstat)" and "u \<in> set (cpu_io_rows sysstat time_model)"
  shows "counter_key_of db kind (stat_counter u) \<noteq> counter_key_of db kind (stat_counter t)"
proof -
  have "gtName u \<in> set io_counter_names \<union> {''DB CPU'', ''DB time''}" "gtName t \<in> set system_counter_names"
    using assms by (auto simp: system_rows_def cpu_io_rows_def)
  moreover have "(set io_counter_names \<union> {''DB CPU'', ''DB time''}) \<inter> set system_counter_names = {}"
    by (simp add: io_counter_names_def system_counter_names_def)
  ultimately show ?thesis by (auto simp: counter_key_of_def stat_counter_def)
qed

text \<open>
  C15: every counter is measured against the previous scrape. The three counter collections of a scrape share one map of
  the last values, two of them even under the same kind. Where an instance, a container and a name identify
  a row of a view, they report exactly the chosen rows of the views, and each delta, interval and reset is
  taken against the value that was known before the scrape: no collection ever overwrites a value that
  another one still needs.
\<close>
theorem counters_measured_once:
  fixes out :: OperationalSamples
  assumes "dSession d \<noteq> None"
    and "distinct (map stat_key sysstat)" and "distinct (map stat_key time_model)" and "distinct (map wait_key waits)"
    and "\<forall>t \<in> set sysstat \<union> set time_model. in_int64 (gtValue t)" and "\<forall>w \<in> set waits. in_int64 (gwTimeWaited w * 10000)"
    and "oaSystemCounters a = answered (systemCounterOperationalQuery sysstat)"
    and "oaCPUAndIOCounters a = answered (cpuIOCounterOperationalQuery sysstat time_model)"
    and "oaWaitClasses a = answered (waitClassOperationalQuery waits)"
    and "scrapeSystemCounters a d t (out, known) = (r1, st1)" and "scrapeCPUAndIOCounters a d t st1 = (r2, st2)"
    and "scrapeWaitClasses a d t st2 = (r3, st3)"
  shows "snd r1 = None \<and> snd r2 = None \<and> snd r3 = None \<and>
    fst st3 = out\<lparr>
      opSystemCounters := opSystemCounters out @ map (system_counter_sample t (dName d) known \<circ> stat_counter)
        (system_rows sysstat @ cpu_io_rows sysstat time_model),
      opWaitClasses := opWaitClasses out @ map (wait_class_sample t (dName d) known \<circ> wait_counter)
        (filter (\<lambda>w. gwWaitClass w \<noteq> ''Idle'') waits)\<rparr>"
proof -
  let ?key = "counter_key_of (dName d)"
  let ?r1 = "map stat_counter (system_rows sysstat)"
  let ?r2 = "map stat_counter (cpu_io_rows sysstat time_model)"
  let ?r3 = "map wait_counter (filter (\<lambda>w. gwWaitClass w \<noteq> ''Idle'') waits)"
  have q1: "oaSystemCounters a = answered (map Inr ?r1)"
    unfolding assms(7) systemCounterOperationalQuery_def system_rows_def
    by (subst map_stat_row) (use assms(5) in auto)
  have q2: "oaCPUAndIOCounters a = answered (map Inr ?r2)"
    unfolding assms(8) cpuIOCounterOperationalQuery_def cpu_io_rows_def map_append
    by (subst (1 2) map_stat_row) (use assms(5) in auto)
  have q3: "oaWaitClasses a = answered (map Inr ?r3)"
    unfolding assms(9) waitClassOperationalQuery_def by (subst map_wait_row) (use assms(6) in auto)
  have d1: "distinct (map (?key ''system'') ?r1)"
    by (rule distinct_counter_keys [where key = stat_key, OF _ counter_key_of_stat])
      (simp add: system_rows_def distinct_map_filter assms(2))
  have d2: "distinct (map (?key ''system'') ?r2)"
    by (rule distinct_counter_keys [where key = stat_key, OF cpu_io_rows_distinct [OF assms(2,3)] counter_key_of_stat])
  have d3: "distinct (map (?key ''wait'') ?r3)"
    by (rule distinct_counter_keys [where key = wait_key, OF _ counter_key_of_wait]) (simp add: distinct_map_filter assms(4))
  obtain n1 e1 o1 c1 where s1: "r1 = (n1, e1)" "st1 = (o1, c1)" by (metis surj_pair)
  obtain n2 e2 o2 c2 where s2: "r2 = (n2, e2)" "st2 = (o2, c2)" by (metis surj_pair)
  obtain n3 e3 o3 c3 where s3: "r3 = (n3, e3)" "st3 = (o3, c3)" by (metis surj_pair)
  have k1: "\<forall>row \<in> set ?r1. known (?key ''system'' row) = known (?key ''system'' row)" by simp
  note p1 = counter_collector_known [OF assms(10) [unfolded scrapeSystemCounters_def q1 s1] assms(1) d1 k1]
  have "?key ''system'' row \<notin> ?key ''system'' ` set ?r1" if "row \<in> set ?r2" for row
    using that counter_names_disjoint [of _ sysstat _ time_model "dName d" "''system''"] by auto
  then have k2: "\<forall>row \<in> set ?r2. c1 (?key ''system'' row) = known (?key ''system'' row)" using p1(4) by blast
  note p2 = counter_collector_known [OF assms(11) [unfolded scrapeCPUAndIOCounters_def q2 s1 s2] assms(1) d2 k2]
  have "?key ''wait'' row \<notin> ?key ''system'' ` A" for row A by (auto simp: counter_key_of_def)
  then have k3: "\<forall>row \<in> set ?r3. c2 (?key ''wait'' row) = known (?key ''wait'' row)" using p1(4) p2(4) by metis
  note p3 = counter_collector_known [OF assms(12) [unfolded scrapeWaitClasses_def q3 s2 s3] assms(1) d3 k3]
  show ?thesis
    unfolding s1 s2 s3 fst_conv snd_conv p1(1) p2(1) p3(1) p3(3) p2(3) p1(3) fold_system_counters fold_wait_classes
    by simp
qed

section \<open>Instances\<close>

lemma answered_collection:
  assumes "queryOperationalRows (QueryContext d (answered rs)) (\<lambda>r s. (g r s, None)) s = (s', None)"
  shows "dSession d \<noteq> None" and "\<exists>xs. rs = map Inr xs \<and> s' = fold g xs s"
proof -
  show o: "dSession d \<noteq> None"
  proof
    assume "dSession d = None"
    then show False using assms by (simp add: queryOperationalRows_def QueryContext_def)
  qed
  have "scan_with (\<lambda>r s. (g r s, None)) rs s = (s', None)"
    using assms o by (auto simp: queryOperationalRows_def QueryContext_def answered_def split: prod.splits option.splits)
  then show "\<exists>xs. rs = map Inr xs \<and> s' = fold g xs s"
  proof (induction rs arbitrary: s)
    case (Cons r rs)
    then obtain x where x: "r = Inr x" "scan_with (\<lambda>r s. (g r s, None)) rs (g x s) = (s', None)" by (cases r) auto
    from Cons.IH [OF x(2)] obtain xs where "rs = map Inr xs" "s' = fold g xs (g x s)" by blast
    then show ?case using x(1) by (intro exI [of _ "x # xs"]) simp
  qed simp
qed

lemma instance_row_counts:
  assumes "instance_row i ss ps rs = Inr r"
  shows "risInstID r = giInstID i"
    and "sint (risUserSessions r) = int (length (filter (\<lambda>s. gsType s = Some ''USER'') (nvl ss [])))"
    and "sint (risActiveUserSessions r) =
      int (length (filter (\<lambda>s. gsType s = Some ''USER'' \<and> gsStatus s = Some ''ACTIVE'') (nvl ss [])))"
    and "sint (risBackgroundSessions r) = int (length (filter (\<lambda>s. gsType s \<notin> {None, Some ''USER''}) (nvl ss [])))"
    and "sint (risProcessCount r) = int (length (nvl ps []))"
proof -
  define user where "user = (\<lambda>s :: gv_session. holds (sql_eq (gsType s) (Some ''USER'')))"
  define active where "active = (\<lambda>s :: gv_session. holds (sql_and (sql_eq (gsType s) (Some ''USER'')) (sql_eq (gsStatus s) (Some ''ACTIVE''))))"
  define other where "other = (\<lambda>s :: gv_session. holds (sql_neq (gsType s) (Some ''USER'')))"
  have c: "session_counts xs = (if xs = [] then (None, None, None) else
      (Some (int (length (filter user xs))), Some (int (length (filter active xs))), Some (int (length (filter other xs)))))" for xs
    unfolding session_counts_def user_def [symmetric] active_def [symmetric] other_def [symmetric] sql_sum_ones by simp
  define n where "n = (\<lambda>P. int (length (filter P (nvl ss []))))"
  have counts: "nvl (fst (case ss of None \<Rightarrow> (None, None, None) | Some ss \<Rightarrow> session_counts ss)) 0 = n user"
    "nvl (fst (snd (case ss of None \<Rightarrow> (None, None, None) | Some ss \<Rightarrow> session_counts ss))) 0 = n active"
    "nvl (snd (snd (case ss of None \<Rightarrow> (None, None, None) | Some ss \<Rightarrow> session_counts ss))) 0 = n other"
    by (cases ss; simp add: c n_def nvl_def)+
  have p: "nvl (map_option (\<lambda>ps. int (length ps)) ps) 0 = int (length (nvl ps []))" by (cases ps) (simp_all add: nvl_def)
  have r: "risInstID r = giInstID i" "risUserSessions r = word_of_int (n user)" "risActiveUserSessions r = word_of_int (n active)"
    "risBackgroundSessions r = word_of_int (n other)" "risProcessCount r = word_of_int (int (length (nvl ps [])))"
    "in_int64 (n user)" "in_int64 (n active)" "in_int64 (n other)" "in_int64 (int (length (nvl ps [])))"
    using assms unfolding instance_row_def Let_def counts p scan_row_ok by (simp_all add: fits_def)
  have s: "sint (word_of_int k :: int64) = k" if "in_int64 k" for k
    using that wrap64_id [of k] by (simp add: wrap64_word)
  show "risInstID r = giInstID i" by (rule r(1))
  show "sint (risUserSessions r) = int (length (filter (\<lambda>s. gsType s = Some ''USER'') (nvl ss [])))"
    by (simp only: r(2) s [OF r(6)]) (simp add: n_def user_def)
  show "sint (risActiveUserSessions r) =
      int (length (filter (\<lambda>s. gsType s = Some ''USER'' \<and> gsStatus s = Some ''ACTIVE'') (nvl ss [])))"
    by (simp only: r(3) s [OF r(7)]) (simp add: n_def active_def)
  show "sint (risBackgroundSessions r) = int (length (filter (\<lambda>s. gsType s \<notin> {None, Some ''USER''}) (nvl ss [])))"
    by (simp only: r(4) s [OF r(8)]) (auto simp: n_def other_def intro!: arg_cong [of _ _ length] filter_cong)
  show "sint (risProcessCount r) = int (length (nvl ps []))" by (rule trans [OF _ s [OF r(9)]]) (simp only: r(5))
qed

text \<open>The joins of the query are lookups: a subquery has one row for an instance.\<close>

definition rows_of :: "('r \<Rightarrow> int64) \<Rightarrow> gv_instance \<Rightarrow> 'r list \<Rightarrow> 'r list option" where
  "rows_of key i rows = map_option snd (the_match (same_instance i) (group_by key rows))"

lemma rows_of_eq:
  "rows_of key i rows = (if giInstID i \<in> key ` set rows then Some (filter (\<lambda>r. key r = giInstID i) rows) else None)"
proof -
  have "same_instance i = (\<lambda>g. sql_eq (Some (fst g)) (Some (giInstID i)))" by (rule ext) simp
  then show ?thesis by (simp add: rows_of_def the_match_group)
qed

lemma rows_of_filter: "nvl (rows_of key i rows) [] = filter (\<lambda>r. key r = giInstID i) rows"
proof -
  have "filter (\<lambda>r. key r = giInstID i) rows = []" if "giInstID i \<notin> key ` set rows"
    using that by (simp add: filter_empty_conv image_iff) metis
  then show ?thesis by (simp add: rows_of_eq nvl_def)
qed

lemma left_join_instances:
  assumes "\<And>x. cond x = same_instance (f x)"
  shows "left_join cond xs (group_by key rows) = map (\<lambda>x. (x, the_match (same_instance (f x)) (group_by key rows))) xs"
  unfolding assms [symmetric]
  by (rule left_join_unique [where key = fst and k = "\<lambda>x. giInstID (f x)"]) (simp_all add: assms)

lemma instance_query_rows:
  "instanceOperationalQuery instances sessions processes parameters =
     map (\<lambda>i. instance_row i (rows_of gsInstID i sessions) (rows_of (\<lambda>p. p) i processes)
            (rows_of gpInstID i (rows_where (\<lambda>p. sql_in (Some (gpName p))
               [''cpu_count'', ''sga_max_size'', ''pga_aggregate_limit'']) parameters))) instances"
proof -
  have 1: "left_join same_instance instances (group_by gsInstID sessions) =
      map (\<lambda>i. (i, the_match (same_instance i) (group_by gsInstID sessions))) instances"
    by (rule left_join_instances [where f = "\<lambda>i. i"]) simp
  have 2: "left_join (\<lambda>(i, s) p. same_instance i p) xs (group_by (\<lambda>p. p) processes) =
      map (\<lambda>x. (x, the_match (same_instance (fst x)) (group_by (\<lambda>p. p) processes))) xs" for xs :: "(gv_instance \<times> 's) list"
    by (rule left_join_instances) (simp add: split_beta)
  have 3: "left_join (\<lambda>((i, s), p) r. same_instance i r) xs (group_by gpInstID rows) =
      map (\<lambda>x. (x, the_match (same_instance (fst (fst x))) (group_by gpInstID rows))) xs"
    for xs :: "((gv_instance \<times> 's) \<times> 'p) list" and rows
    by (rule left_join_instances) (simp add: split_beta)
  show ?thesis unfolding instanceOperationalQuery_def instance_parameters_def rows_of_def 1 2 3 by simp
qed

text \<open>
  C19: the instance samples count what they say. A collection of the instances that reports no error adds exactly one
  sample for every instance, in the order of the view, and its numbers are those of the session and process
  views for that instance: all user sessions, the active ones among them, the background sessions, and
  the processes. An instance without a row in these views has zeros.
\<close>
theorem instances_counted:
  fixes out :: OperationalSamples
  assumes "oaInstances a = answered (instanceOperationalQuery instances sessions processes parameters)"
    and "scrapeInstances a d t (out, counters) = ((n, None), st)"
  shows "n = int (length instances) \<and>
    (\<exists>new. fst st = out\<lparr>opInstances := opInstances out @ new\<rparr> \<and>
      list_all2 (\<lambda>i x. isCollectedAt x = t \<and> isDatabase x = dName d \<and> isInstID x = giInstID i \<and>
        (let own = filter (\<lambda>s. gsInstID s = giInstID i) sessions;
             users = filter (\<lambda>s. gsType s = Some ''USER'') own in
           sint (isUserSessions x) = int (length users) \<and>
           sint (isActiveUserSessions x) = int (length (filter (\<lambda>s. gsStatus s = Some ''ACTIVE'') users)) \<and>
           sint (isBackgroundSessions x) = int (length (filter (\<lambda>s. gsType s \<notin> {None, Some ''USER''}) own))) \<and>
        sint (isProcessCount x) = int (length (filter (\<lambda>p. p = giInstID i) processes))) instances new)"
proof -
  let ?add = "\<lambda>r out. out\<lparr>opInstances := opInstances out @ [instance_sample t (dName d) r]\<rparr>"
  obtain out' where q: "queryOperationalRows (QueryContext d (oaInstances a)) (\<lambda>r out. (?add r out, None)) out = (out', None)"
    and n: "n = int (length (opInstances out')) - int (length (opInstances out))" "fst st = out'"
    using assms(2) by (auto simp: scrapeInstances_def append_collector_def Let_def split: prod.splits)
  obtain xs where xs: "instanceOperationalQuery instances sessions processes parameters = map Inr xs" "out' = fold ?add xs out"
    using answered_collection(2) [OF q [unfolded assms(1)]] by blast
  have "fold ?add xs out = out\<lparr>opInstances := opInstances out @ map (instance_sample t (dName d)) xs\<rparr>"
    by (induction xs arbitrary: out) simp_all
  moreover have "list_all2 (\<lambda>i r. instance_row i (rows_of gsInstID i sessions) (rows_of (\<lambda>p. p) i processes)
      (rows_of gpInstID i (rows_where (\<lambda>p. sql_in (Some (gpName p))
         [''cpu_count'', ''sga_max_size'', ''pga_aggregate_limit'']) parameters)) = Inr r) instances xs"
    using xs(1) unfolding instance_query_rows by (simp add: list_all2_map1 list_all2_map2 list_all2_eq list.rel_map)
  then have counted: "list_all2 (\<lambda>i r. risInstID r = giInstID i \<and>
        (let own = filter (\<lambda>s. gsInstID s = giInstID i) sessions;
             users = filter (\<lambda>s. gsType s = Some ''USER'') own in
           sint (risUserSessions r) = int (length users) \<and>
           sint (risActiveUserSessions r) = int (length (filter (\<lambda>s. gsStatus s = Some ''ACTIVE'') users)) \<and>
           sint (risBackgroundSessions r) = int (length (filter (\<lambda>s. gsType s \<notin> {None, Some ''USER''}) own))) \<and>
        sint (risProcessCount r) = int (length (filter (\<lambda>p. p = giInstID i) processes))) instances xs"
  proof (rule list_all2_mono)
    fix i r
    assume "instance_row i (rows_of gsInstID i sessions) (rows_of (\<lambda>p. p) i processes)
      (rows_of gpInstID i (rows_where (\<lambda>p. sql_in (Some (gpName p))
         [''cpu_count'', ''sga_max_size'', ''pga_aggregate_limit'']) parameters)) = Inr r"
    from instance_row_counts [OF this, unfolded rows_of_filter]
    show "risInstID r = giInstID i \<and>
        (let own = filter (\<lambda>s. gsInstID s = giInstID i) sessions;
             users = filter (\<lambda>s. gsType s = Some ''USER'') own in
           sint (risUserSessions r) = int (length users) \<and>
           sint (risActiveUserSessions r) = int (length (filter (\<lambda>s. gsStatus s = Some ''ACTIVE'') users)) \<and>
           sint (risBackgroundSessions r) = int (length (filter (\<lambda>s. gsType s \<notin> {None, Some ''USER''}) own))) \<and>
        sint (risProcessCount r) = int (length (filter (\<lambda>p. p = giInstID i) processes))"
      by (simp only: Let_def filter_filter)
  qed
  ultimately show ?thesis
    using n xs(2) counted list_all2_lengthD [OF counted]
    by (auto simp: list_all2_map2 instance_sample_def intro!: exI [of _ "map (instance_sample t (dName d)) xs"])
qed

section \<open>Tablespaces\<close>

lemma sint_word_of_int64: "in_int64 k \<Longrightarrow> sint (word_of_int k :: int64) = k"
  using wrap64_id [of k] by (simp add: wrap64_word)

definition bytes_add_up :: "TablespaceSample \<Rightarrow> bool" where
  "bytes_add_up x \<longleftrightarrow> sint (tsUsedBytes x) + sint (tsFreeBytes x) = sint (tsMaxBytes x)"

lemma tablespace_row_adds_up:
  assumes "tablespace_row name contents used free whole percent = Inr r" and "used + free = whole"
  shows "bytes_add_up (tablespace_sample t db r)" "tsTablespace (tablespace_sample t db r) = name"
    "tsContents (tablespace_sample t db r) = contents"
  using assms by (auto simp: tablespace_row_def fits_def bytes_add_up_def tablespace_sample_def sint_word_of_int64)

lemma permanent_row_adds_up:
  assumes "permanent_row p = Inr r"
  shows "bytes_add_up (tablespace_sample t db r)" "tsTablespace (tablespace_sample t db r) = dtName (snd p)"
    "tsContents (tablespace_sample t db r) = dtContents (snd p)"
  using tablespace_row_adds_up [OF assms [unfolded permanent_row_def split_beta]] by (simp_all add: right_diff_distrib)

lemma temporary_row_adds_up:
  assumes "temporary_row f p = Inr r"
  shows "bytes_add_up (tablespace_sample t db r)" "tsTablespace (tablespace_sample t db r) = dfName p"
    "tsContents (tablespace_sample t db r) = ''TEMPORARY''"
  using tablespace_row_adds_up [OF assms [unfolded temporary_row_def]] by simp_all

lemma collected_rows:
  assumes "\<And>u r. row u = Inr r \<Longrightarrow> P (f r) \<and> what (f r) = said u" and "map row us = map Inr rs"
  shows "map what (map f rs) = map said us \<and> list_all P (map f rs)"
  using assms(2)
proof (induction us arbitrary: rs)
  case (Cons u us)
  then obtain r rs' where r: "rs = r # rs'" "row u = Inr r" "map row us = map Inr rs'" by (auto simp: Cons_eq_map_conv)
  then show ?case using Cons.IH [OF r(3)] assms(1) [OF r(2)] by simp
qed simp

definition permanent_tablespaces :: "tablespace_usage list \<Rightarrow> dba_tablespace list \<Rightarrow> (tablespace_usage \<times> dba_tablespace) list" where
  "permanent_tablespaces usage tablespaces = filter (\<lambda>(u, t). dtContents t \<noteq> ''TEMPORARY'')
     (inner_join (\<lambda>u t. sql_eq (Some (dtName t)) (Some (duName u))) usage tablespaces)"

text \<open>
  The tablespace samples add up. A collection of the tablespaces that reports no error adds one sample for every
  permanent tablespace with usage metrics and one for every temporary one, and in every sample, whichever
  part of the query it comes from, the used and the free bytes sum up exactly to the maximal size.
\<close>
theorem tablespaces_add_up:
  fixes out :: OperationalSamples
  assumes "oaTablespaces a = answered (tablespaceOperationalQuery float_of usage tablespaces temp)"
    and "scrapeTablespaces a d t (out, counters) = ((n, None), st)"
  shows "\<exists>new. fst st = out\<lparr>opTablespaces := opTablespaces out @ new\<rparr> \<and> n = int (length new) \<and>
    map (\<lambda>x. (tsTablespace x, tsContents x)) new =
      map (\<lambda>(u, t). (dtName t, dtContents t)) (permanent_tablespaces usage tablespaces) @
      map (\<lambda>f. (dfName f, ''TEMPORARY'')) temp \<and>
    list_all bytes_add_up new"
proof -
  let ?add = "\<lambda>r out. out\<lparr>opTablespaces := opTablespaces out @ [tablespace_sample t (dName d) r]\<rparr>"
  let ?s = "tablespace_sample t (dName d)"
  obtain out' where q: "queryOperationalRows (QueryContext d (oaTablespaces a)) (\<lambda>r out. (?add r out, None)) out = (out', None)"
    and n: "n = int (length (opTablespaces out')) - int (length (opTablespaces out))" "fst st = out'"
    using assms(2) by (auto simp: scrapeTablespaces_def append_collector_def Let_def split: prod.splits)
  obtain xs where xs: "tablespaceOperationalQuery float_of usage tablespaces temp = map Inr xs" "out' = fold ?add xs out"
    using answered_collection(2) [OF q [unfolded assms(1)]] by blast
  have f: "fold ?add xs out = out\<lparr>opTablespaces := opTablespaces out @ map ?s xs\<rparr>"
    by (induction xs arbitrary: out) simp_all
  obtain ps ts where split: "xs = ps @ ts" "map permanent_row (permanent_tablespaces usage tablespaces) = map Inr ps"
    "map (temporary_row float_of) temp = map Inr ts"
    using xs(1) by (auto simp: tablespaceOperationalQuery_def permanent_tablespaces_def append_eq_map_conv)
  note p = collected_rows [OF _ split(2), where f = ?s and P = bytes_add_up and what = "\<lambda>x. (tsTablespace x, tsContents x)"
      and said = "\<lambda>(u, t). (dtName t, dtContents t)"]
  note q = collected_rows [OF _ split(3), where f = ?s and P = bytes_add_up and what = "\<lambda>x. (tsTablespace x, tsContents x)"
      and said = "\<lambda>f. (dfName f, ''TEMPORARY'')"]
  have "map (\<lambda>x. (tsTablespace x, tsContents x)) (map ?s ps) =
        map (\<lambda>(u, t). (dtName t, dtContents t)) (permanent_tablespaces usage tablespaces) \<and> list_all bytes_add_up (map ?s ps)"
    by (rule p) (simp add: permanent_row_adds_up split_beta)
  moreover have "map (\<lambda>x. (tsTablespace x, tsContents x)) (map ?s ts) = map (\<lambda>f. (dfName f, ''TEMPORARY'')) temp \<and>
      list_all bytes_add_up (map ?s ts)"
    by (rule q) (simp add: temporary_row_adds_up)
  ultimately show ?thesis
    using n f xs(2) split(1) by (intro exI [of _ "map ?s xs"]) simp
qed

section \<open>Identity and Data Guard\<close>

text \<open>The join with the product, of which there is at most one, keeps one row for every instance.\<close>

lemma identity_rows:
  "map idInstID (databaseIdentityOperationalQuery databases components) = map gbInstID databases"
proof -
  have "length (database_product components) \<le> 1" by (simp add: database_product_def)
  then obtain p where "database_product components = [] \<or> database_product components = [p]"
    by (cases "database_product components") auto
  then have "map fst (left_join (\<lambda>d p. Some True) databases (database_product components)) = databases"
    unfolding left_join_def by (induction databases) auto
  moreover have "map idInstID (databaseIdentityOperationalQuery databases components) =
      map gbInstID (map fst (left_join (\<lambda>d p. Some True) databases (database_product components)))"
    by (simp add: databaseIdentityOperationalQuery_def comp_def split_beta)
  ultimately show ?thesis by simp
qed

text \<open>A standby is collected whatever its destinations are; a primary when it ships its redo to a standby.\<close>

lemma discovery_enabled:
  "rdiEnabled (dataGuardDiscoveryQuery d dests) = 1 \<longleftrightarrow> gbRole d \<noteq> ''PRIMARY'' \<or>
     (\<exists>a \<in> set dests. gdTarget a = Some ''STANDBY'' \<and> (gdDestination a \<noteq> None \<or> gdUniqueName a \<noteq> None))"
  by (auto simp: dataGuardDiscoveryQuery_def list_ex_iff names_destination_def)

lemma destination_rows:
  assumes "distinct (map (\<lambda>s. (geInstID s, geDestID s)) statuses)"
  shows "map (\<lambda>r. (rddInstID r, rddDestID r)) (dataGuardDestinationQuery dests statuses) =
    map (\<lambda>d. (gdInstID d, gdDestID d))
      (filter (\<lambda>d. holds (dataguard_destination d (the_match (destination_status d) statuses))) dests)"
proof -
  have "left_join destination_status dests statuses = map (\<lambda>d. (d, the_match (destination_status d) statuses)) dests"
    by (rule left_join_unique [where k = "\<lambda>d. (gdInstID d, gdDestID d)", OF assms]) (auto simp: destination_status_def)
  then show ?thesis
    by (simp add: dataGuardDestinationQuery_def rows_where_def filter_map comp_def destination_row_def)
qed

section \<open>Witnesses\<close>

definition example_stats :: "gv_stat list" where
  "example_stats = [\<lparr>gtInstID = 1, gtConID = 0, gtName = ''user commits'', gtValue = 42\<rparr>,
     \<lparr>gtInstID = 1, gtConID = 0, gtName = ''sorts (disk)'', gtValue = 3\<rparr>]"

definition example_time_model :: "gv_stat list" where
  "example_time_model = [\<lparr>gtInstID = 1, gtConID = 0, gtName = ''DB CPU'', gtValue = 900\<rparr>]"

definition example_known :: counters where
  "example_known = [\<lparr>okDatabase = ''orcl'', okKind = ''system'', okInstID = 1, okConID = 0, okName = ''user commits''\<rparr> \<mapsto>
     \<lparr>osCollectedAt = 0, osValue = 30\<rparr>]"

definition stat_answers :: operational_answers where
  "stat_answers = empty_answers
     \<lparr>oaSystemCounters := answered (systemCounterOperationalQuery example_stats),
      oaCPUAndIOCounters := answered (cpuIOCounterOperationalQuery example_stats example_time_model),
      oaWaitClasses := answered (waitClassOperationalQuery [\<lparr>gwInstID = 1, gwConID = 0, gwWaitClass = ''Idle'', gwTimeWaited = 5\<rparr>])\<rparr>"

theorem counters_measured_once_witness:
  "let st1 = snd (scrapeSystemCounters stat_answers example_database (10 * second) (no_operational, example_known));
       st2 = snd (scrapeCPUAndIOCounters stat_answers example_database (10 * second) st1);
       st3 = snd (scrapeWaitClasses stat_answers example_database (10 * second) st2)
   in map (\<lambda>s. (scStatName s, scDeltaValue s)) (opSystemCounters (fst st3)) =
        [(''user commits'', Some 12), (''DB CPU'', None)] \<and> opWaitClasses (fst st3) = []"
proof -
  have e: "p = (fst p, snd p)" for p :: "(int \<times> go_error option) \<times> oper_state" by simp
  let ?w = "[\<lparr>gwInstID = 1, gwConID = 0, gwWaitClass = ''Idle'', gwTimeWaited = 5\<rparr>]"
  note once = counters_measured_once [where sysstat = example_stats and time_model = example_time_model and waits = ?w and
      a = stat_answers and d = example_database and t = "10 * second" and out = no_operational and known = example_known,
      OF example_session_open _ _ _ _ _ _ _ _ e e e]
  show ?thesis
    using once
    by (simp add: Let_def stat_answers_def example_stats_def example_time_model_def stat_key_def wait_key_def int64_bounds_defs
        no_operational_def system_rows_def cpu_io_rows_def system_counter_names_def io_counter_names_def
        system_counter_sample_def stat_counter_def example_known_def operationalDelta_def counter_key_of_def
        example_database_def NewDatabase_def time_after_def)
qed

definition two_instances :: "gv_instance list" where
  "two_instances = [\<lparr>giInstID = 1, giInstanceName = ''orcl1'', giStatus = ''OPEN'', giDatabaseStatus = ''ACTIVE'', giStartupTime = 0\<rparr>,
     \<lparr>giInstID = 2, giInstanceName = ''orcl2'', giStatus = ''OPEN'', giDatabaseStatus = ''ACTIVE'', giStartupTime = 0\<rparr>]"

definition instance_answers :: operational_answers where
  "instance_answers = empty_answers\<lparr>oaInstances := answered (instanceOperationalQuery two_instances two_sessions [1, 1, 1] [])\<rparr>"

lemma instance_answers_scrape:
  "fst (scrapeInstances instance_answers example_database 0 (no_operational, Map.empty)) = (2, None)"
  unfolding instance_answers_def instance_query_rows
  by (simp add: scrapeInstances_def append_collector_def QueryContext_def answered_def example_database_def NewDatabase_def
      queryOperationalRows_def two_instances_def two_sessions_def plain_session_def instance_row_def rows_of_eq
      session_counts_def sql_sum_def nvl_def rows_where_def scan_row_def fits_def int64_bounds_defs no_operational_def)

theorem instances_counted_witness:
  "\<exists>x y. opInstances (fst (snd (scrapeInstances instance_answers example_database 0 (no_operational, Map.empty)))) = [x, y] \<and>
     sint (isUserSessions x) = 2 \<and> sint (isProcessCount x) = 3 \<and> sint (isUserSessions y) = 0 \<and> sint (isProcessCount y) = 0"
proof -
  define st where "st = snd (scrapeInstances instance_answers example_database 0 (no_operational, Map.empty))"
  have "scrapeInstances instance_answers example_database 0 (no_operational, Map.empty) = ((2, None), st)"
    unfolding st_def by (metis instance_answers_scrape prod.collapse)
  from instances_counted [where instances = two_instances and sessions = two_sessions and processes = "[1, 1, 1]" and
      parameters = "[]", OF _ this]
  show ?thesis
    unfolding st_def [symmetric]
    by (auto simp: instance_answers_def two_instances_def two_sessions_def plain_session_def no_operational_def list_all2_Cons1 Let_def)
qed

definition tablespace_answers :: operational_answers where
  "tablespace_answers = empty_answers\<lparr>oaTablespaces := answered (tablespaceOperationalQuery (\<lambda>_. 0)
     [\<lparr>duName = ''USERS'', duUsedSpace = 30, duTablespaceSize = 100, duUsedPercent = 0\<rparr>]
     [\<lparr>dtName = ''USERS'', dtContents = ''PERMANENT'', dtBlockSize = 8192\<rparr>]
     [\<lparr>dfName = ''TEMP'', dfTablespaceSize = 1000, dfFreeSpace = 600\<rparr>])\<rparr>"

theorem tablespaces_add_up_witness:
  "\<exists>x y. opTablespaces (fst (snd (scrapeTablespaces tablespace_answers example_database 0 (no_operational, Map.empty)))) = [x, y] \<and>
     tsTablespace x = ''USERS'' \<and> tsTablespace y = ''TEMP'' \<and> bytes_add_up x \<and> bytes_add_up y"
proof -
  define st where "st = snd (scrapeTablespaces tablespace_answers example_database 0 (no_operational, Map.empty))"
  have "fst (scrapeTablespaces tablespace_answers example_database 0 (no_operational, Map.empty)) = (2, None)"
    by (simp add: tablespace_answers_def scrapeTablespaces_def append_collector_def QueryContext_def answered_def
        example_database_def NewDatabase_def queryOperationalRows_def tablespaceOperationalQuery_def inner_join_def
        permanent_row_def temporary_row_def tablespace_row_def scan_row_def fits_def int64_bounds_defs no_operational_def)
  then have "scrapeTablespaces tablespace_answers example_database 0 (no_operational, Map.empty) = ((2, None), st)"
    unfolding st_def by (metis prod.collapse)
  from tablespaces_add_up [OF _ this, where usage = "[\<lparr>duName = ''USERS'', duUsedSpace = 30, duTablespaceSize = 100, duUsedPercent = 0\<rparr>]"
      and tablespaces = "[\<lparr>dtName = ''USERS'', dtContents = ''PERMANENT'', dtBlockSize = 8192\<rparr>]"
      and temp = "[\<lparr>dfName = ''TEMP'', dfTablespaceSize = 1000, dfFreeSpace = 600\<rparr>]" and float_of = "\<lambda>_. 0"]
  show ?thesis
    unfolding st_def [symmetric]
    by (auto simp: tablespace_answers_def permanent_tablespaces_def inner_join_def no_operational_def map_eq_Cons_conv)
qed

end
