(* ===== verification/Spec2Isabelle.thy ===== *)
theory Spec2Isabelle
  imports ConfigValidation Scrape DeadConnection Activity Migration Election AlertLog Lifecycle Connect Scheduling
    SinkViews SinkUpgrade OracleSamples
begin

text \<open>
  A verification library for Harry, a performance scraper that reads Oracle databases and writes
  samples to PostgreSQL (Go sources under \<open>src/\<close>).

  \<^bold>\<open>The program.\<close> \<open>main.go\<close> loads a YAML configuration, takes part in a leader election over a PostgreSQL
  advisory lock (\<open>ha/\<close>), opens the PostgreSQL sink (\<open>postgresql/\<close>) and starts the collectors of
  \<open>collector/\<close>: scheduled scrapes, activity sampling and dead connection detection, and the export of the
  alert log (\<open>alertlog/\<close>). A pass of a collector makes one batch of samples for all databases; the sink
  writes a batch in one transaction. Credentials come from files or from one of three vaults.

  \<^bold>\<open>Conventions.\<close> A function of the code is a HOL function of the same name where the name is free; a
  receiver's state is a record that is passed and returned. What the repository does not define (Oracle,
  PostgreSQL and the file system at the time of a call, the SDKs, pgx and the Oracle drivers, YAML and TOML
  decoders, hash functions, the clock) is an argument. The standard library that the sources use is modelled:
  \<open>Prelude\<close> (integers, times, strings, errors), \<open>Calendar\<close> (dates and their format), \<open>Json\<close>
  (\<open>encoding/json\<close> on structs of strings), the paths in \<open>AlertLog\<close>. Errors are values: \<open>go_error option\<close>, or
  \<open>go_error + 'a\<close> for a result with an error. An iteration over a Go map takes the order as an argument. Locks
  appear where a property is about them: the semaphore in \<open>Connect\<close>, and in \<open>Queries\<close> the read lock of a session,
  with what the collectors do to it and what \<open>sync.RWMutex\<close> then grants. Elsewhere a critical section is one step; in
  particular \<open>Scrape\<close> and \<open>Pass\<close> leave the session locks out, so a statement that a pass returns there is one about
  its channels and panics and not about a lock that an earlier query kept (\<open>deadline_after_success_leaks_lock\<close>).

  \<^bold>\<open>Theories and sources.\<close>
  \<^item> \<open>Machines\<close>: the interfaces as locales. \<open>invariant_machine\<close> (interpreted for the connection state, the
    telemetry queue, the ingestion accounts, the election, the scraper and the start-up), \<open>throttle\<close> (interval between collections),
    \<open>latest_wins\<close> (tables with the newest row of every key, interpreted for latest statuses, runtime statuses
    and connection states). \<open>Tables\<close> has \<open>retained_table\<close>: what a write has seen survives every clean-up with an
    earlier cut-off; it is interpreted for SQL texts, cursor metadata and plans.
  \<^item> \<open>Config\<close>, \<open>ConfigValidation\<close>: \<open>collector/config.go\<close>. A configuration that loads is sound and merging is
    idempotent.
  \<^item> \<open>Vaults\<close>, \<open>Credentials\<close>, \<open>Connect\<close>: the vault packages, the credentials of a database, \<open>connect_godror.go\<close> and
    \<open>connect_goora.go\<close>. One vault read serves user and password; physical connections are spaced.
  \<^item> \<open>Samples\<close>, \<open>SamplesPerf\<close>, \<open>SamplesOper\<close>, \<open>SqlNull\<close>, \<open>RowsPerf\<close>, \<open>RowsOper\<close>, \<open>RowsActivity\<close>: \<open>samples.go\<close> and the
    conversions of query rows to samples. \<open>Queries\<close>: the loops over rows that the collectors share.
  \<^item> \<open>Metrics\<close>, \<open>MetricLoading\<close>, \<open>MetricScrape\<close>: \<open>metrics.go\<close>, \<open>data_loader.go\<close>, \<open>cache.go\<close> and the metric part of
    \<open>collector.go\<close>. A reload replaces all definitions or none; a null entry of a definition file makes it panic; samples of a metric have the same labels.
  \<^item> \<open>Database\<close>, \<open>DeadConnection\<close>: \<open>database.go\<close>, \<open>dead_connection_detection.go\<close>. The state of a connection stays
    consistent under every interleaving of its critical sections; a pass accounts for every probe.
  \<^item> \<open>SqlStats\<close>, \<open>SqlPerformance\<close>, \<open>Operational\<close>, \<open>DataGuard\<close>, \<open>Activity\<close>, \<open>Runtime\<close>: \<open>performance.go\<close>, \<open>operational.go\<close>,
    \<open>dataguard.go\<close>, \<open>activity.go\<close>, \<open>runtime.go\<close>. Counter deltas telescope, rankings are exact, every collection
    reports a status, the history of sessions is read without gaps.
  \<^item> \<open>Scrape\<close>: a pass over all databases (\<open>collector.go\<close>): what the goroutines send fits the channels, and summary and statuses agree with the batch. \<open>Pass\<close>, \<open>PassWrites\<close>: the scraper with its databases and
    its maps, a pass in every order of its goroutines, and the write of its batch: every database is reported
    unless the clean-up of that write already takes the status away.
    \<open>Scheduling\<close>: the loops around the passes over the list of what wakes them, and the start-up beside them. No
    request of a warm-up is lost, missed intervals are counted and those of a late tick twice, dead connection passes keep their distance.
  \<^item> \<open>OracleSQL\<close>, \<open>OraclePerf\<close>, \<open>OracleOper\<close>, \<open>OracleSamples\<close>: the SQL texts that the collectors send to Oracle, as
    functions of the dynamic views of the server (records \<open>gv_session\<close> and so on, with the columns the texts name and
    \<open>None\<close> for null). \<open>OracleSQL\<close> has the three-valued conditions, joins, groups and aggregates of the texts. Query,
    row conversion and collector together give what a sample says of the server.
  \<^item> \<open>SinkSchema\<close>, \<open>SinkRows\<close>: the tables that \<open>Migrate\<close> creates and the rows of the samples; every row fits the
    types and constraints of its table. \<open>SinkUpgrade\<close>: the statements of \<open>Migrate\<close> for the tables in their order; they
    bring an older repository up to date and are idle in it, a renamed table gets no index. \<open>SinkViews\<close>: the views, as functions of the rows.
    \<open>Partitions\<close>: names, creation and expiry of daily partitions.
  \<^item> \<open>Transactions\<close>: statements, batches and transactions as PostgreSQL documents them. \<open>Tables\<close>, \<open>SinkSQL\<close>,
    \<open>SQLRetention\<close>, \<open>SinkQueue\<close>, \<open>Ingest\<close>, \<open>IngestAccounts\<close>: the tables with upserts, the queue of runtime samples
    and the accounts of ingested rows, each with what it promises.
  \<^item> \<open>Repository\<close>, \<open>Sink\<close>, \<open>SinkWrites\<close>: \<open>WriteSamples\<close> stage by stage, clean-up, flush and \<open>Close\<close>. A write stores the
    whole batch (\<open>store_batch\<close>, the abstract specification that \<open>write_all_or_nothing\<close> refines) or nothing; with
    a server that refuses nothing it succeeds; a failed one puts its telemetry back (a lost
    answer of a commit can store telemetry that is put back and stored again). \<open>Migration\<close>: \<open>New\<close> and \<open>Migrate\<close>.
  \<^item> \<open>Election\<close>: \<open>ha/election.go\<close> and instances that compete for the lock of one primary: at most one leader whose
    session is alive, \<open>Acquire\<close> leaks no connection. A leader whose session has ended does not know it until its
    next validation: the lock alone does not exclude two active instances in that window.
  \<^item> \<open>AlertLog\<close>: \<open>alertlog/\<close>. The chunked backward search equals a search over the lines; an export resumes
    after its last row, written as \<open>encoding/json\<close> writes it. \<open>Lifecycle\<close>: \<open>main.go\<close> as a sequence of effects, of a run that returns
    and of one that a restart or a panic cuts off.

  \<^bold>\<open>Bounds.\<close> Loops of the code are recursion on their data or have a measure (the offset of the backward
  search). Endless loops (\<open>Acquire\<close>, \<open>Monitor\<close>, the gate, the loops of
  \<open>Scheduling\<close> and \<open>Lifecycle\<close>) run over the list of what they meet or are woken by, and a result
  \<open>None\<close> says that they are still waiting after it. The parser of \<open>Json\<close> has fuel: the length of the text, as
  every step consumes a character; \<open>parse_struct\<close> shows that it is enough for what is written.

  \<^bold>\<open>Not modelled.\<close> Log messages, except those of the election; the HTTP server beyond its pages; rounding of
  computed \<open>float64\<close> seconds; the wire formats of the SDKs and
  drivers. In the Oracle queries the numbers are integers that the scan may reject as wider than 64 bits, and dates are
  instants without the rounding of \<open>DATE\<close> to seconds. The expressions and sort orders of indexes are their columns.
\<close>

end
